(* ===== verification/TF_Prelude.thy ===== *)
theory TF_Prelude
  imports Main "HOL-Library.Word" "HOL-Library.AList" "HOL-Library.Sublist"
begin

text \<open>
  Shared vocabulary of the development: machine integers, Rust's \<open>Result\<close> as a sum type
  (\<open>Inl\<close> is \<open>Err\<close>), hash maps as association lists, big-endian byte strings, and the
  generic facts about them that the component theories use. Nothing in this theory models a
  file of the repository; it models the parts of Rust's language and standard library
  (\<open>Result\<close>, \<open>HashMap\<close>, \<open>to_be_bytes\<close>/\<open>from_be_bytes\<close>) that the
  sources use everywhere.
\<close>

unbundle bit_operations_syntax

section \<open>Machine integers and byte strings\<close>

type_synonym u8 = "8 word"
type_synonym u16 = "16 word"
type_synonym u32 = "32 word"
type_synonym u64 = "64 word"
type_synonym bytes = "u8 list"

text \<open>
  Points in time are nanoseconds relative to the Unix epoch (\<open>SystemTime\<close>, which may lie
  before the epoch) and durations are nanoseconds (\<open>Duration\<close>, never negative).
\<close>

type_synonym system_time = int
type_synonym duration = nat

abbreviation millis :: "nat \<Rightarrow> duration" where
  "millis n \<equiv> n * 1000000"

abbreviation secs :: "nat \<Rightarrow> duration" where
  "secs n \<equiv> n * 1000000000"

text \<open>\<open>now.duration_since(earlier).ok()\<close>: no value when \<open>earlier\<close> is in the future.\<close>

definition duration_since :: "system_time \<Rightarrow> system_time \<Rightarrow> duration option" where
  "duration_since now earlier = (if earlier \<le> now then Some (nat (now - earlier)) else None)"

text \<open>\<open>u32::saturating_add(1)\<close>.\<close>

definition saturating_inc :: "u32 \<Rightarrow> u32" where
  "saturating_inc n = (if n = - 1 then n else n + 1)"

section \<open>Collections of facts\<close>

named_theorems try_simps \<open>how \<open>?\<close> and the other combinators on results evaluate\<close>
named_theorems wire_simps \<open>lengths and slices of encoded byte strings\<close>
named_theorems hmap_simps \<open>lookups in updated hash maps\<close>
named_theorems frame_rules \<open>what an operation leaves alone\<close>

section \<open>Result\<close>

text \<open>\<open>and_then r f\<close> is \<open>r?\<close> followed by \<open>f\<close>: an error ends the computation.\<close>

definition and_then :: "'e + 'a \<Rightarrow> ('a \<Rightarrow> 'e + 'b) \<Rightarrow> 'e + 'b" where
  "and_then r f = (case r of Inl e \<Rightarrow> Inl e | Inr x \<Rightarrow> f x)"

lemma and_then_simps [simp, try_simps]:
  "and_then (Inl e) f = Inl e" "and_then (Inr x) f = f x"
  by (simp_all add: and_then_def)

lemma and_then_InrE:
  assumes "and_then r f = Inr y"
  obtains x where "r = Inr x" and "f x = Inr y"
  using assms by (cases r) auto

lemma and_then_eq_Inr [try_simps]: "and_then r f = Inr y \<longleftrightarrow> (\<exists>x. r = Inr x \<and> f x = Inr y)"
  by (cases r) auto

lemma and_then_eq_Inl [try_simps]:
  "and_then r f = Inl e \<longleftrightarrow> r = Inl e \<or> (\<exists>x. r = Inr x \<and> f x = Inl e)"
  by (cases r) auto

text \<open>\<open>ok_or\<close>, \<open>map_err\<close>, \<open>ok\<close> and the collection of an iterator of results.\<close>

definition ok_or :: "'a option \<Rightarrow> 'e \<Rightarrow> 'e + 'a" where
  "ok_or x e = (case x of None \<Rightarrow> Inl e | Some v \<Rightarrow> Inr v)"

lemma ok_or_simps [simp, try_simps]: "ok_or None e = Inl e" "ok_or (Some v) e = Inr v"
  by (simp_all add: ok_or_def)

lemma ok_or_eq_Inr [try_simps]: "ok_or x e = Inr v \<longleftrightarrow> x = Some v"
  by (cases x) auto

definition map_err :: "('e \<Rightarrow> 'f) \<Rightarrow> 'e + 'a \<Rightarrow> 'f + 'a" where
  "map_err f r = (case r of Inl e \<Rightarrow> Inl (f e) | Inr x \<Rightarrow> Inr x)"

lemma map_err_simps [simp, try_simps]: "map_err f (Inl e) = Inl (f e)" "map_err f (Inr x) = Inr x"
  by (simp_all add: map_err_def)

lemma map_err_eq_Inr [try_simps]: "map_err f r = Inr x \<longleftrightarrow> r = Inr x"
  by (cases r) auto

definition result_ok :: "'e + 'a \<Rightarrow> 'a option" where
  "result_ok r = (case r of Inl _ \<Rightarrow> None | Inr x \<Rightarrow> Some x)"

lemma result_ok_simps [simp, try_simps]: "result_ok (Inl e) = None" "result_ok (Inr x) = Some x"
  by (simp_all add: result_ok_def)

lemma result_ok_eq_Some [try_simps]: "result_ok r = Some x \<longleftrightarrow> r = Inr x"
  by (cases r) auto

text \<open>\<open>iter().map(f).collect::<Result<Vec<_>>>()\<close>: the first error wins.\<close>

fun collect_results :: "('a \<Rightarrow> 'e + 'b) \<Rightarrow> 'a list \<Rightarrow> 'e + 'b list" where
  "collect_results f [] = Inr []"
| "collect_results f (x # xs) =
     and_then (f x) (\<lambda>y. and_then (collect_results f xs) (\<lambda>ys. Inr (y # ys)))"

lemma collect_results_Inr_iff:
  "collect_results f xs = Inr ys \<longleftrightarrow> list_all2 (\<lambda>x y. f x = Inr y) xs ys"
proof (induction xs arbitrary: ys)
  case Nil
  then show ?case by auto
next
  case (Cons x xs)
  then show ?case by (cases ys) (auto simp: and_then_eq_Inr)
qed

lemma collect_results_map: "(\<And>x. x \<in> set xs \<Longrightarrow> f x = Inr (g x)) \<Longrightarrow> collect_results f xs = Inr (map g xs)"
  by (induction xs) auto

lemma collect_results_length: "collect_results f xs = Inr ys \<Longrightarrow> length ys = length xs"
  by (auto simp: collect_results_Inr_iff dest: list_all2_lengthD)

section \<open>Hash maps\<close>

text \<open>
  A \<open>HashMap\<close> is an association list with distinct keys; its order stands for the
  unspecified iteration order. \<open>insert\<close> replaces, \<open>remove\<close> deletes, and collecting an
  iterator of pairs lets the last pair of a key win.
\<close>

type_synonym ('k, 'v) hmap = "('k \<times> 'v) list"

abbreviation hm_get :: "('k, 'v) hmap \<Rightarrow> 'k \<Rightarrow> 'v option" where
  "hm_get \<equiv> map_of"

abbreviation hm_insert :: "'k \<Rightarrow> 'v \<Rightarrow> ('k, 'v) hmap \<Rightarrow> ('k, 'v) hmap" where
  "hm_insert \<equiv> AList.update"

abbreviation hm_remove :: "'k \<Rightarrow> ('k, 'v) hmap \<Rightarrow> ('k, 'v) hmap" where
  "hm_remove \<equiv> AList.delete"

definition hm_wf :: "('k, 'v) hmap \<Rightarrow> bool" where
  "hm_wf m \<longleftrightarrow> distinct (map fst m)"

definition hm_collect :: "('k \<times> 'v) list \<Rightarrow> ('k, 'v) hmap" where
  "hm_collect kvs = fold (\<lambda>(k, v) m. hm_insert k v m) kvs []"

definition hm_map_values :: "('v \<Rightarrow> 'v) \<Rightarrow> ('k, 'v) hmap \<Rightarrow> ('k, 'v) hmap" where
  "hm_map_values f m = map (\<lambda>(k, v). (k, f v)) m"

lemma hm_get_insert [hmap_simps]: "hm_get (hm_insert k v m) k' = (if k' = k then Some v else hm_get m k')"
  by (simp add: update_conv)

lemma hm_get_remove [hmap_simps]: "hm_get (hm_remove k m) k' = (if k' = k then None else hm_get m k')"
  by (simp add: delete_conv)

lemma hm_get_map_values [hmap_simps]: "hm_get (hm_map_values f m) k = map_option f (hm_get m k)"
  by (induction m) (auto simp: hm_map_values_def)

lemma hm_wf_Nil [simp]: "hm_wf []"
  by (simp add: hm_wf_def)

lemma hm_wf_insert [simp, intro]: "hm_wf m \<Longrightarrow> hm_wf (hm_insert k v m)"
  by (simp add: hm_wf_def distinct_update)

lemma hm_wf_remove [simp, intro]: "hm_wf m \<Longrightarrow> hm_wf (hm_remove k m)"
  by (simp add: hm_wf_def distinct_delete)

lemma hm_wf_map_values [simp]: "hm_wf (hm_map_values f m) = hm_wf m"
  by (simp add: hm_wf_def hm_map_values_def comp_def case_prod_unfold)

lemma fold_insert_get:
  "hm_get (fold (\<lambda>(k, v) m. hm_insert k v m) kvs m) k =
     (case hm_get (rev kvs) k of None \<Rightarrow> hm_get m k | Some v \<Rightarrow> Some v)"
  by (induction kvs arbitrary: m) (auto simp: hmap_simps map_add_def split: option.splits)

lemma hm_get_collect [hmap_simps]: "hm_get (hm_collect kvs) k = hm_get (rev kvs) k"
  by (auto simp: hm_collect_def fold_insert_get split: option.splits)

lemma hm_collect_distinct [hmap_simps]:
  "distinct (map fst kvs) \<Longrightarrow> hm_get (hm_collect kvs) k = hm_get kvs k"
proof -
  assume "distinct (map fst kvs)"
  then have "hm_get (rev kvs) = hm_get kvs"
    by (subst map_of_inject_set) (simp_all add: rev_map [symmetric])
  then show ?thesis by (simp add: hm_get_collect)
qed

lemma hm_wf_collect [simp]: "hm_wf (hm_collect kvs)"
proof -
  have "hm_wf m \<Longrightarrow> hm_wf (fold (\<lambda>(k, v) m. hm_insert k v m) kvs m)" for m :: "('a, 'b) hmap"
    by (induction kvs arbitrary: m) auto
  then show ?thesis by (simp add: hm_collect_def)
qed

section \<open>Big-endian byte strings\<close>

text \<open>\<open>be_bytes n v\<close> is the \<open>n\<close>-byte big-endian form of \<open>v\<close>; \<open>be_value\<close> reads it back.\<close>

fun be_bytes :: "nat \<Rightarrow> nat \<Rightarrow> bytes" where
  "be_bytes 0 v = []"
| "be_bytes (Suc n) v = be_bytes n (v div 256) @ [word_of_nat (v mod 256)]"

definition be_value :: "bytes \<Rightarrow> nat" where
  "be_value bs = foldl (\<lambda>acc b. acc * 256 + unat b) 0 bs"

lemma length_be_bytes [simp, wire_simps]: "length (be_bytes n v) = n"
  by (induction n arbitrary: v) auto

lemma be_value_append: "be_value (bs @ [b]) = be_value bs * 256 + unat b"
  by (simp add: be_value_def)

lemma be_value_Nil [simp]: "be_value [] = 0"
  by (simp add: be_value_def)

lemma unat_byte_mod [simp]: "unat (word_of_nat (v mod 256) :: u8) = v mod 256"
  by (simp add: unat_of_nat)

lemma be_value_be_bytes: "be_value (be_bytes n v) = v mod 256 ^ n"
proof (induction n arbitrary: v)
  case 0
  then show ?case by simp
next
  case (Suc n)
  have "v mod 256 ^ Suc n = (v div 256 mod 256 ^ n) * 256 + v mod 256"
    by (simp add: mod_mult2_eq)
  with Suc show ?case by (simp add: be_value_append)
qed

lemma be_value_less: "be_value bs < 256 ^ length bs"
proof (induction bs rule: rev_induct)
  case Nil
  then show ?case by simp
next
  case (snoc b bs)
  have "unat b < 256" using unsigned_less [of b] by simp
  with snoc show ?case by (simp add: be_value_append)
qed

lemma be_bytes_be_value: "be_bytes (length bs) (be_value bs) = bs"
proof (induction bs rule: rev_induct)
  case Nil
  then show ?case by simp
next
  case (snoc b bs)
  have "unat b < 256" using unsigned_less [of b] by simp
  with snoc show ?case by (simp add: be_value_append)
qed

text \<open>\<open>to_be_bytes\<close> and \<open>from_be_bytes\<close> at the widths the sources use.\<close>

definition u64_to_be_bytes :: "u64 \<Rightarrow> bytes" where
  "u64_to_be_bytes x = be_bytes 8 (unat x)"

definition u64_from_be_bytes :: "bytes \<Rightarrow> u64" where
  "u64_from_be_bytes bs = word_of_nat (be_value bs)"

definition u32_to_be_bytes :: "u32 \<Rightarrow> bytes" where
  "u32_to_be_bytes x = be_bytes 4 (unat x)"

definition u16_to_be_bytes :: "u16 \<Rightarrow> bytes" where
  "u16_to_be_bytes x = be_bytes 2 (unat x)"

definition u16_from_be_bytes :: "bytes \<Rightarrow> u16" where
  "u16_from_be_bytes bs = word_of_nat (be_value bs)"

lemma length_to_be_bytes [simp, wire_simps]:
  "length (u64_to_be_bytes x) = 8" "length (u32_to_be_bytes y) = 4" "length (u16_to_be_bytes z) = 2"
  by (simp_all add: u64_to_be_bytes_def u32_to_be_bytes_def u16_to_be_bytes_def)

lemma u64_be_roundtrip [simp]: "u64_from_be_bytes (u64_to_be_bytes x) = x"
proof -
  have "unat x < 256 ^ 8" using unsigned_less [of x] by simp
  then show ?thesis by (simp add: u64_from_be_bytes_def u64_to_be_bytes_def be_value_be_bytes)
qed

lemma u16_be_roundtrip [simp]: "u16_from_be_bytes (u16_to_be_bytes x) = x"
proof -
  have "unat x < 256 ^ 2" using unsigned_less [of x] by simp
  then show ?thesis by (simp add: u16_from_be_bytes_def u16_to_be_bytes_def be_value_be_bytes)
qed

lemma u64_be_inverse: "length bs = 8 \<Longrightarrow> u64_to_be_bytes (u64_from_be_bytes bs) = bs"
proof -
  assume len: "length bs = 8"
  then have "be_value bs < 2 ^ 64" using be_value_less [of bs] by simp
  then have "unat (word_of_nat (be_value bs) :: u64) = be_value bs"
    by (simp add: unat_of_nat)
  with len show ?thesis
    using be_bytes_be_value [of bs] by (simp add: u64_to_be_bytes_def u64_from_be_bytes_def)
qed

section \<open>Slices\<close>

text \<open>\<open>slice a b xs\<close> is \<open>&xs[a..b]\<close> where \<open>b \<le> xs.len()\<close>.\<close>

definition slice :: "nat \<Rightarrow> nat \<Rightarrow> 'a list \<Rightarrow> 'a list" where
  "slice a b xs = take (b - a) (drop a xs)"

lemma length_slice [simp, wire_simps]: "length (slice a b xs) = min (b - a) (length xs - a)"
  by (simp add: slice_def min.commute)

lemma slice_append_left [wire_simps]:
  "length xs \<le> a \<Longrightarrow> slice a b (xs @ ys) = slice (a - length xs) (b - length xs) ys"
  by (simp add: slice_def)

lemma slice_append_here [wire_simps]: "length xs = n \<Longrightarrow> slice 0 n (xs @ ys) = xs"
  by (simp add: slice_def)

lemma slice_all [wire_simps]: "length xs = n \<Longrightarrow> slice 0 n xs = xs"
  by (simp add: slice_def)

lemma slice_split: "a \<le> b \<Longrightarrow> b \<le> c \<Longrightarrow> slice a b xs @ slice b c xs = slice a c xs"
proof -
  assume ab: "a \<le> b" and bc: "b \<le> c"
  then have "drop b xs = drop (b - a) (drop a xs)" and "c - a = (b - a) + (c - b)"
    by simp_all
  then show ?thesis by (simp add: slice_def take_add)
qed

lemma take_as_nths: "n \<le> length xs \<Longrightarrow> take n xs = map ((!) xs) [0..<n]"
  by (rule nth_equalityI) simp_all

lemma slice_as_nths: "b \<le> length xs \<Longrightarrow> slice a b xs = map ((!) xs) [a..<b]"
  by (rule nth_equalityI) (simp_all add: slice_def)

lemma slice_to_end: "slice a (length xs) xs = drop a xs"
  by (simp add: slice_def)

section \<open>Programs with state, errors and calls that never return\<close>

text \<open>
  A program maps a world to its result and the new world, or to \<open>None\<close> when it never returns. A
  sequence of calls with \<open>?\<close> is \<open>prog_bind\<close>: it ends with the first error, in the world at that time.
\<close>

type_synonym ('e, 'w, 'a) prog = "'w \<Rightarrow> (('e + 'a) \<times> 'w) option"

definition prog_bind :: "('e, 'w, 'a) prog \<Rightarrow> ('a \<Rightarrow> ('e, 'w, 'b) prog) \<Rightarrow> ('e, 'w, 'b) prog" where
  "prog_bind m k w =
     (case m w of
        None \<Rightarrow> None
      | Some (Inl e, w') \<Rightarrow> Some (Inl e, w')
      | Some (Inr x, w') \<Rightarrow> k x w')"

definition prog_result :: "'e + 'a \<Rightarrow> ('e, 'w, 'a) prog" where
  "prog_result r w = Some (r, w)"

lemma prog_bind_Some:
  "prog_bind m k w = Some (r, w') \<longleftrightarrow>
     (\<exists>e. m w = Some (Inl e, w') \<and> r = Inl e) \<or> (\<exists>x w1. m w = Some (Inr x, w1) \<and> k x w1 = Some (r, w'))"
  by (auto simp: prog_bind_def split: option.splits sum.splits prod.splits)

lemma prog_bind_Inr:
  "prog_bind m k w = Some (Inr y, w') \<longleftrightarrow> (\<exists>x w1. m w = Some (Inr x, w1) \<and> k x w1 = Some (Inr y, w'))"
  by (auto simp: prog_bind_Some)

lemma prog_result_Some: "prog_result r w = Some (q, w') \<longleftrightarrow> r = q \<and> w' = w"
  by (auto simp: prog_result_def)

lemma prog_bind_prog_result:
  "prog_bind (prog_result (Inl e)) k = prog_result (Inl e)" "prog_bind (prog_result (Inr x)) k = k x"
  by (simp_all add: fun_eq_iff prog_bind_def prog_result_def)

lemma prog_bind_cong:
  "(\<And>x w1. m w = Some (Inr x, w1) \<Longrightarrow> k x w1 = k' x w1) \<Longrightarrow> prog_bind m k w = prog_bind m k' w"
  by (auto simp: prog_bind_def split: option.split sum.split prod.split)

text \<open>A program keeps an invariant if it holds in every world it returns in, errors included.\<close>

definition prog_keeps :: "('w \<Rightarrow> bool) \<Rightarrow> ('e, 'w, 'a) prog \<Rightarrow> bool" where
  "prog_keeps I m \<longleftrightarrow> (\<forall>w r w'. I w \<longrightarrow> m w = Some (r, w') \<longrightarrow> I w')"

lemma prog_keepsD: "prog_keeps I m \<Longrightarrow> I w \<Longrightarrow> m w = Some (r, w') \<Longrightarrow> I w'"
  by (auto simp: prog_keeps_def)

lemma prog_keeps_bind: "prog_keeps I m \<Longrightarrow> (\<And>x. prog_keeps I (k x)) \<Longrightarrow> prog_keeps I (prog_bind m k)"
  unfolding prog_keeps_def prog_bind_Some by metis

lemma prog_keeps_conj: "prog_keeps I m \<Longrightarrow> prog_keeps J m \<Longrightarrow> prog_keeps (\<lambda>w. I w \<and> J w) m"
  unfolding prog_keeps_def by blast

lemma prog_keeps_result: "prog_keeps I (prog_result r)"
  by (simp add: prog_keeps_def prog_result_def)

section \<open>Transition systems\<close>

text \<open>
  The interface every state machine of the development is proved against: a start state, a
  step relation, and an invariant that the start state has and every step keeps. Its lemma,
  that every state reachable from the start has the invariant, is proved once here.
\<close>

locale transition_system =
  fixes init :: "'s \<Rightarrow> bool"
    and step :: "'s \<Rightarrow> 's \<Rightarrow> bool"
    and inv :: "'s \<Rightarrow> bool"
  assumes init_inv: "init s \<Longrightarrow> inv s"
    and step_inv: "inv s \<Longrightarrow> step s t \<Longrightarrow> inv t"
begin

lemma steps_inv: "step\<^sup>*\<^sup>* s t \<Longrightarrow> inv s \<Longrightarrow> inv t"
  by (induction rule: rtranclp_induct) (auto intro: step_inv)

lemma reachable_inv: "init s \<Longrightarrow> step\<^sup>*\<^sup>* s t \<Longrightarrow> inv t"
  by (blast intro: init_inv steps_inv)

end

text \<open>
  The interface of an encoding: a printer, a partial reader, and the values the printer is
  used on. From the round trip law the printer is injective on those values.
\<close>

locale codec =
  fixes encode :: "'a \<Rightarrow> 'w"
    and decode :: "'w \<Rightarrow> 'a option"
    and valid :: "'a \<Rightarrow> bool"
  assumes decode_encode: "valid x \<Longrightarrow> decode (encode x) = Some x"
begin

lemma encode_inject: "valid x \<Longrightarrow> valid y \<Longrightarrow> encode x = encode y \<longleftrightarrow> x = y"
  by (metis decode_encode option.inject)

end

text \<open>A codec whose reader accepts only what the printer writes: the two are inverse bijections.\<close>

locale exact_codec = codec +
  assumes encode_decode: "decode w = Some x \<Longrightarrow> valid x \<and> encode x = w"
begin

lemma decode_iff: "decode w = Some x \<longleftrightarrow> valid x \<and> w = encode x"
  by (auto simp: decode_encode dest: encode_decode)

lemma decode_unique: "decode v = Some x \<Longrightarrow> decode w = Some x \<Longrightarrow> v = w"
  using encode_decode by blast

end

end
