(* ===== verification/Std_Text.thy ===== *)
theory Std_Text
  imports TF_Prelude
begin

text \<open>
  Rust strings. A \<open>str\<close> is its UTF-8 encoding, kept as a HOL \<open>string\<close> whose
  characters are the bytes, so \<open>length\<close> is \<open>str::len\<close>. The theory defines the methods of
  \<open>str\<close>, the decimal printer and the integer parser the sources call, with the round trip
  of decimal numbers, on which the probe messages and the address printers rest.
\<close>

section \<open>Bytes and UTF-8\<close>

definition as_bytes :: "string \<Rightarrow> bytes" where
  "as_bytes s = map of_char s"

definition byte_chars :: "bytes \<Rightarrow> string" where
  "byte_chars bs = map (\<lambda>b. char_of (unat b)) bs"

lemma length_as_bytes [simp, wire_simps]: "length (as_bytes s) = length s"
  by (simp add: as_bytes_def)

lemma as_bytes_append [simp]: "as_bytes (s @ t) = as_bytes s @ as_bytes t"
  by (simp add: as_bytes_def)

lemma unat_of_char [simp]: "unat (of_char c :: u8) = of_char c"
proof -
  have "(of_char c :: u8) = word_of_nat (of_char c)" by (simp add: of_char_def)
  moreover have "of_char c < (256 :: nat)" by simp
  ultimately show ?thesis by (metis unat_byte_mod mod_less)
qed

lemma byte_chars_as_bytes [simp]: "byte_chars (as_bytes s) = s"
  by (induction s) (simp_all add: as_bytes_def byte_chars_def)

lemma as_bytes_byte_chars [simp]: "as_bytes (byte_chars bs) = bs"
proof -
  have "(of_char (char_of (unat b)) :: u8) = b" for b :: u8
  proof (rule word_unat_eq_iff [THEN iffD2])
    have "unat b < 256" using unsigned_less [of b, where 'a = nat] by simp
    then show "unat (of_char (char_of (unat b)) :: u8) = unat b" by simp
  qed
  then show ?thesis by (simp add: as_bytes_def byte_chars_def comp_def)
qed

lemma as_bytes_inject [simp]: "as_bytes s = as_bytes t \<longleftrightarrow> s = t"
  by (metis byte_chars_as_bytes)

text \<open>\<open>std::str::from_utf8\<close>: the well-formed byte sequences of the Unicode standard.\<close>

definition utf8_cont :: "u8 \<Rightarrow> bool" where
  "utf8_cont b \<longleftrightarrow> 0x80 \<le> b \<and> b \<le> 0xBF"

fun utf8_valid :: "bytes \<Rightarrow> bool" where
  "utf8_valid [] = True"
| "utf8_valid (a # rest) =
     (if a \<le> 0x7F then utf8_valid rest
      else if 0xC2 \<le> a \<and> a \<le> 0xDF then
        (case rest of b # r \<Rightarrow> utf8_cont b \<and> utf8_valid r | [] \<Rightarrow> False)
      else if 0xE0 \<le> a \<and> a \<le> 0xEF then
        (case rest of
           b # c # r \<Rightarrow>
             (if a = 0xE0 then 0xA0 \<le> b \<and> b \<le> 0xBF
              else if a = 0xED then 0x80 \<le> b \<and> b \<le> 0x9F
              else utf8_cont b) \<and> utf8_cont c \<and> utf8_valid r
         | _ \<Rightarrow> False)
      else if 0xF0 \<le> a \<and> a \<le> 0xF4 then
        (case rest of
           b # c # d # r \<Rightarrow>
             (if a = 0xF0 then 0x90 \<le> b \<and> b \<le> 0xBF
              else if a = 0xF4 then 0x80 \<le> b \<and> b \<le> 0x8F
              else utf8_cont b) \<and> utf8_cont c \<and> utf8_cont d \<and> utf8_valid r
         | _ \<Rightarrow> False)
      else False)"

definition from_utf8 :: "bytes \<Rightarrow> string option" where
  "from_utf8 bs = (if utf8_valid bs then Some (byte_chars bs) else None)"

definition ascii :: "string \<Rightarrow> bool" where
  "ascii s \<longleftrightarrow> (\<forall>c \<in> set s. of_char c < (128 :: nat))"

lemma ascii_simps [simp]:
  "ascii []" "ascii (c # s) \<longleftrightarrow> of_char c < (128 :: nat) \<and> ascii s"
  "ascii (s @ t) \<longleftrightarrow> ascii s \<and> ascii t"
  by (auto simp: ascii_def)

lemma of_char_le_7F: "of_char c < (128 :: nat) \<Longrightarrow> (of_char c :: u8) \<le> 0x7F"
  by (simp add: word_le_nat_alt)

lemma utf8_valid_ascii: "ascii s \<Longrightarrow> utf8_valid (as_bytes s)"
  by (induction s) (simp_all add: as_bytes_def of_char_le_7F)

lemma from_utf8_ascii [simp]: "ascii s \<Longrightarrow> from_utf8 (as_bytes s) = Some s"
  by (simp add: from_utf8_def utf8_valid_ascii)

section \<open>Character classes and case\<close>

definition is_ascii_digit :: "char \<Rightarrow> bool" where
  "is_ascii_digit c \<longleftrightarrow> 48 \<le> (of_char c :: nat) \<and> (of_char c :: nat) \<le> 57"

definition is_ascii_lowercase :: "char \<Rightarrow> bool" where
  "is_ascii_lowercase c \<longleftrightarrow> 97 \<le> (of_char c :: nat) \<and> (of_char c :: nat) \<le> 122"

definition is_ascii_uppercase :: "char \<Rightarrow> bool" where
  "is_ascii_uppercase c \<longleftrightarrow> 65 \<le> (of_char c :: nat) \<and> (of_char c :: nat) \<le> 90"

definition is_ascii_alphanumeric :: "char \<Rightarrow> bool" where
  "is_ascii_alphanumeric c \<longleftrightarrow> is_ascii_digit c \<or> is_ascii_lowercase c \<or> is_ascii_uppercase c"

definition char_to_lower :: "char \<Rightarrow> char" where
  "char_to_lower c = (if is_ascii_uppercase c then char_of ((of_char c :: nat) + 32) else c)"

definition to_ascii_lowercase :: "string \<Rightarrow> string" where
  "to_ascii_lowercase s = map char_to_lower s"

definition eq_ignore_ascii_case :: "string \<Rightarrow> string \<Rightarrow> bool" where
  "eq_ignore_ascii_case s t \<longleftrightarrow> to_ascii_lowercase s = to_ascii_lowercase t"

lemma char_to_lower_idem [simp]: "char_to_lower (char_to_lower c) = char_to_lower c"
  by (auto simp: char_to_lower_def is_ascii_uppercase_def)

lemma to_ascii_lowercase_idem [simp]:
  "to_ascii_lowercase (to_ascii_lowercase s) = to_ascii_lowercase s"
  by (simp add: to_ascii_lowercase_def)

lemma length_to_ascii_lowercase [simp]: "length (to_ascii_lowercase s) = length s"
  by (simp add: to_ascii_lowercase_def)

lemma to_ascii_lowercase_append [simp]:
  "to_ascii_lowercase (s @ t) = to_ascii_lowercase s @ to_ascii_lowercase t"
  by (simp add: to_ascii_lowercase_def)

lemma char_to_lower_not_upper: "\<not> is_ascii_uppercase c \<Longrightarrow> char_to_lower c = c"
  by (simp add: char_to_lower_def)

section \<open>Trimming, prefixes, splitting\<close>

text \<open>
  The UTF-8 forms of the characters with the Unicode property \<open>White_Space\<close>, which
  \<open>trim\<close> and \<open>split_whitespace\<close> use.
\<close>

definition ws_encodings :: "string list" where
  "ws_encodings =
    [[CHR 0x09], [CHR 0x0A], [CHR 0x0B], [CHR 0x0C], [CHR 0x0D], [CHR 0x20],
     [CHR 0xC2, CHR 0x85], [CHR 0xC2, CHR 0xA0], [CHR 0xE1, CHR 0x9A, CHR 0x80],
     [CHR 0xE2, CHR 0x80, CHR 0x80], [CHR 0xE2, CHR 0x80, CHR 0x81],
     [CHR 0xE2, CHR 0x80, CHR 0x82], [CHR 0xE2, CHR 0x80, CHR 0x83],
     [CHR 0xE2, CHR 0x80, CHR 0x84], [CHR 0xE2, CHR 0x80, CHR 0x85],
     [CHR 0xE2, CHR 0x80, CHR 0x86], [CHR 0xE2, CHR 0x80, CHR 0x87],
     [CHR 0xE2, CHR 0x80, CHR 0x88], [CHR 0xE2, CHR 0x80, CHR 0x89],
     [CHR 0xE2, CHR 0x80, CHR 0x8A], [CHR 0xE2, CHR 0x80, CHR 0xA8],
     [CHR 0xE2, CHR 0x80, CHR 0xA9], [CHR 0xE2, CHR 0x80, CHR 0xAF],
     [CHR 0xE2, CHR 0x81, CHR 0x9F], [CHR 0xE3, CHR 0x80, CHR 0x80]]"

definition ws_at :: "string \<Rightarrow> nat" where
  "ws_at s = (case find (\<lambda>w. prefix w s) ws_encodings of None \<Rightarrow> 0 | Some w \<Rightarrow> length w)"

lemma ws_at_le: "ws_at s \<le> length s"
  by (auto simp: ws_at_def find_Some_iff dest: prefix_length_le split: option.splits)

function trim_start :: "string \<Rightarrow> string" where
  "trim_start s = (if ws_at s = 0 then s else trim_start (drop (ws_at s) s))"
  by pat_completeness auto
termination
proof (relation "measure length", goal_cases)
  case (2 s)
  then show ?case using ws_at_le [of s] by simp
qed simp

declare trim_start.simps [simp del]

definition ws_before :: "string \<Rightarrow> nat" where
  "ws_before r = (case find (\<lambda>w. prefix (rev w) r) ws_encodings of None \<Rightarrow> 0 | Some w \<Rightarrow> length w)"

lemma ws_before_le: "ws_before r \<le> length r"
  by (auto simp: ws_before_def find_Some_iff dest: prefix_length_le split: option.splits)

text \<open>\<open>trim_end_rev\<close> works on the reversed string, from its end inwards.\<close>

function trim_end_rev :: "string \<Rightarrow> string" where
  "trim_end_rev r = (if ws_before r = 0 then r else trim_end_rev (drop (ws_before r) r))"
  by pat_completeness auto
termination
proof (relation "measure length", goal_cases)
  case (2 r)
  then show ?case using ws_before_le [of r] by simp
qed simp

declare trim_end_rev.simps [simp del]

definition trim :: "string \<Rightarrow> string" where
  "trim s = rev (trim_end_rev (rev (trim_start s)))"

lemma trim_start_noop: "ws_at s = 0 \<Longrightarrow> trim_start s = s"
  by (subst trim_start.simps) simp

lemma trim_end_rev_noop: "ws_before s = 0 \<Longrightarrow> trim_end_rev s = s"
  by (subst trim_end_rev.simps) simp

lemma trim_start_idem [simp]: "trim_start (trim_start s) = trim_start s"
proof (induction s rule: trim_start.induct)
  case (1 s)
  then show ?case by (cases "ws_at s = 0") (simp_all add: trim_start.simps [of s])
qed

lemma ws_at_trim_start [simp]: "ws_at (trim_start s) = 0"
proof (induction s rule: trim_start.induct)
  case (1 s)
  then show ?case by (cases "ws_at s = 0") (simp_all add: trim_start.simps [of s])
qed

text \<open>\<open>strip_prefix\<close>, \<open>starts_with\<close>, \<open>ends_with\<close>.\<close>

definition strip_prefix :: "'a list \<Rightarrow> 'a list \<Rightarrow> 'a list option" where
  "strip_prefix p s = (if prefix p s then Some (drop (length p) s) else None)"

lemma strip_prefix_append [simp]: "strip_prefix p (p @ s) = Some s"
  by (simp add: strip_prefix_def)

lemma strip_prefix_Some_iff: "strip_prefix p s = Some r \<longleftrightarrow> s = p @ r"
  by (auto simp: strip_prefix_def elim!: prefixE)

abbreviation starts_with :: "'a list \<Rightarrow> 'a list \<Rightarrow> bool" where
  "starts_with s p \<equiv> prefix p s"

abbreviation ends_with :: "'a list \<Rightarrow> 'a list \<Rightarrow> bool" where
  "ends_with s p \<equiv> suffix p s"

text \<open>\<open>split(c)\<close> yields at least one piece; \<open>join\<close> puts the pieces back together.\<close>

fun split_on :: "'a \<Rightarrow> 'a list \<Rightarrow> 'a list list" where
  "split_on c [] = [[]]"
| "split_on c (x # xs) =
     (if x = c then [] # split_on c xs
      else (case split_on c xs of [] \<Rightarrow> [[x]] | p # ps \<Rightarrow> (x # p) # ps))"

fun join_with :: "'a list \<Rightarrow> 'a list list \<Rightarrow> 'a list" where
  "join_with sep [] = []"
| "join_with sep [p] = p"
| "join_with sep (p # q # ps) = p @ sep @ join_with sep (q # ps)"

lemma split_on_nonempty [simp]: "split_on c s \<noteq> []"
  by (induction s) (auto split: list.splits)

lemma join_split: "join_with [c] (split_on c s) = s"
proof (induction s)
  case Nil
  then show ?case by simp
next
  case (Cons x xs)
  obtain p ps where ps: "split_on c xs = p # ps" by (cases "split_on c xs") auto
  show ?case
  proof (cases ps)
    case Nil
    with ps Cons show ?thesis by auto
  next
    case (Cons q qs)
    with ps Cons.IH show ?thesis by auto
  qed
qed

lemma split_on_none: "c \<notin> set s \<Longrightarrow> split_on c s = [s]"
  by (induction s) auto

lemma split_on_append: "c \<notin> set p \<Longrightarrow> split_on c (p @ c # s) = p # split_on c s"
  by (induction p) auto

lemma split_join:
  "ps \<noteq> [] \<Longrightarrow> (\<And>p. p \<in> set ps \<Longrightarrow> c \<notin> set p) \<Longrightarrow> split_on c (join_with [c] ps) = ps"
  by (induction "[c]" ps rule: join_with.induct) (auto simp: split_on_none split_on_append)

text \<open>\<open>trim_end_matches(c)\<close>, \<open>trim_matches(c)\<close> for one character.\<close>

definition trim_end_matches :: "'a \<Rightarrow> 'a list \<Rightarrow> 'a list" where
  "trim_end_matches c s = rev (dropWhile (\<lambda>x. x = c) (rev s))"

definition trim_matches :: "'a \<Rightarrow> 'a list \<Rightarrow> 'a list" where
  "trim_matches c s = trim_end_matches c (dropWhile (\<lambda>x. x = c) s)"

lemma trim_end_matches_noop: "s = [] \<or> last s \<noteq> c \<Longrightarrow> trim_end_matches c s = s"
  by (cases s rule: rev_cases) (auto simp: trim_end_matches_def)

lemma trim_end_matches_snoc [simp]: "trim_end_matches c (s @ [c]) = trim_end_matches c s"
  by (simp add: trim_end_matches_def)

lemma last_trim_end_matches: "trim_end_matches c s \<noteq> [] \<Longrightarrow> last (trim_end_matches c s) \<noteq> c"
  unfolding trim_end_matches_def last_rev rev_is_Nil_conv by (rule hd_dropWhile)

lemma trim_end_matches_idem [simp]:
  "trim_end_matches c (trim_end_matches c s) = trim_end_matches c s"
  by (rule trim_end_matches_noop) (auto dest: last_trim_end_matches)

text \<open>\<open>split_whitespace\<close>: the non-empty pieces between whitespace characters.\<close>

function split_ws :: "string \<Rightarrow> string \<Rightarrow> string list" where
  "split_ws acc s =
     (if s = [] then (if acc = [] then [] else [rev acc])
      else if ws_at s = 0 then split_ws (hd s # acc) (tl s)
      else (if acc = [] then [] else [rev acc]) @ split_ws [] (drop (ws_at s) s))"
  by pat_completeness auto
termination
proof (relation "measure (\<lambda>(acc, s). length s)", goal_cases)
  case (3 acc s)
  then show ?case using ws_at_le [of s] by simp
qed auto

declare split_ws.simps [simp del]

definition split_whitespace :: "string \<Rightarrow> string list" where
  "split_whitespace s = split_ws [] s"

text \<open>A text with no byte that can begin a whitespace character is one piece.\<close>

definition solid :: "char \<Rightarrow> bool" where
  "solid c \<longleftrightarrow> 33 \<le> (of_char c :: nat) \<and> (of_char c :: nat) < 127"

lemma ws_at_solid: "solid c \<Longrightarrow> ws_at (c # s) = 0"
proof -
  assume "solid c"
  have "list_all (\<lambda>w. w \<noteq> [] \<and> \<not> solid (hd w)) ws_encodings"
    by (simp add: ws_encodings_def solid_def)
  with \<open>solid c\<close> have "find (\<lambda>w. prefix w (c # s)) ws_encodings = None"
    by (fastforce simp: find_None_iff list_all_iff prefix_Cons)
  then show ?thesis by (simp add: ws_at_def)
qed

lemma ws_before_solid: "solid c \<Longrightarrow> ws_before (c # s) = 0"
proof -
  assume "solid c"
  have "list_all (\<lambda>w. w \<noteq> [] \<and> \<not> solid (last w)) ws_encodings"
    by (simp add: ws_encodings_def solid_def)
  with \<open>solid c\<close> have "\<not> prefix (rev w) (c # s)" if "w \<in> set ws_encodings" for w
    using that by (cases w rule: rev_cases) (auto simp: list_all_iff)
  then have "find (\<lambda>w. prefix (rev w) (c # s)) ws_encodings = None" by (auto simp: find_None_iff)
  then show ?thesis by (simp add: ws_before_def)
qed

lemma trim_solid: "(\<And>c. c \<in> set s \<Longrightarrow> solid c) \<Longrightarrow> trim s = s"
proof (cases s rule: rev_cases)
  case (snoc t d)
  moreover assume solid: "\<And>c. c \<in> set s \<Longrightarrow> solid c"
  ultimately have d: "trim_end_rev (rev s) = rev s" by (simp add: trim_end_rev_noop ws_before_solid)
  have "ws_at s = 0"
  proof (cases s)
    case (Cons a r)
    with solid show ?thesis by (simp add: ws_at_solid)
  qed (use snoc in simp)
  then have "trim_start s = s" by (rule trim_start_noop)
  with d show ?thesis by (simp add: trim_def)
qed (simp add: trim_def trim_start_noop trim_end_rev_noop ws_at_def ws_before_def ws_encodings_def)

lemma ws_at_space [simp]: "ws_at (CHR '' '' # s) = Suc 0"
  by (simp add: ws_at_def ws_encodings_def)

lemma split_ws_solid_append:
  "(\<And>c. c \<in> set p \<Longrightarrow> solid c) \<Longrightarrow> split_ws acc (p @ s) = split_ws (rev p @ acc) s"
proof (induction p arbitrary: acc)
  case Nil
  then show ?case by simp
next
  case (Cons c p)
  then have "ws_at ((c # p) @ s) = 0" by (simp add: ws_at_solid)
  with Cons show ?case by (subst split_ws.simps) simp
qed

lemma split_whitespace_solid:
  "p \<noteq> [] \<Longrightarrow> (\<And>c. c \<in> set p \<Longrightarrow> solid c) \<Longrightarrow> split_whitespace p = [p]"
  using split_ws_solid_append [of p "[]" "[]"] by (simp add: split_whitespace_def split_ws.simps)

lemma split_whitespace_cons:
  assumes "p \<noteq> []" and "\<And>c. c \<in> set p \<Longrightarrow> solid c"
  shows "split_whitespace (p @ CHR '' '' # s) = p # split_whitespace s"
proof -
  have "split_whitespace (p @ CHR '' '' # s) = split_ws (rev p) (CHR '' '' # s)"
    using assms split_ws_solid_append [of p "[]" "CHR '' '' # s"] by (simp add: split_whitespace_def)
  also have "\<dots> = p # split_ws [] s" using assms by (subst split_ws.simps) simp
  finally show ?thesis by (simp add: split_whitespace_def)
qed

section \<open>Decimal numbers\<close>

definition digit_char :: "nat \<Rightarrow> char" where
  "digit_char d = char_of (48 + d)"

definition digit_value :: "char \<Rightarrow> nat" where
  "digit_value c = of_char c - 48"

fun nat_to_dec :: "nat \<Rightarrow> string" where
  "nat_to_dec n = (if n < 10 then [digit_char n] else nat_to_dec (n div 10) @ [digit_char (n mod 10)])"

declare nat_to_dec.simps [simp del]

definition dec_value :: "string \<Rightarrow> nat" where
  "dec_value s = foldl (\<lambda>acc c. acc * 10 + digit_value c) 0 s"

text \<open>
  \<open>str::parse::<uN>()\<close>: an optional plus sign, then one or more decimal digits whose value is
  at most the type's maximum.
\<close>

definition parse_uint :: "nat \<Rightarrow> string \<Rightarrow> nat option" where
  "parse_uint max_value s =
     (let ds = (case s of CHR ''+'' # r \<Rightarrow> r | _ \<Rightarrow> s)
      in if ds \<noteq> [] \<and> list_all is_ascii_digit ds \<and> dec_value ds \<le> max_value
         then Some (dec_value ds) else None)"

definition parse_u16 :: "string \<Rightarrow> u16 option" where
  "parse_u16 s = map_option word_of_nat (parse_uint 0xFFFF s)"

definition parse_u128 :: "string \<Rightarrow> nat option" where
  "parse_u128 s = parse_uint (2 ^ 128 - 1) s"

lemma digit_value_char [simp]: "d < 10 \<Longrightarrow> digit_value (digit_char d) = d"
  by (simp add: digit_value_def digit_char_def)

lemma of_char_digit_char [simp]: "d < 10 \<Longrightarrow> of_char (digit_char d) = 48 + d"
  by (simp add: digit_char_def)

lemma digit_char_digit [simp]: "d < 10 \<Longrightarrow> is_ascii_digit (digit_char d)"
  by (simp add: is_ascii_digit_def)

lemma nat_to_dec_digits: "c \<in> set (nat_to_dec n) \<Longrightarrow> is_ascii_digit c"
proof (induction n rule: nat_to_dec.induct)
  case (1 n)
  then show ?case by (cases "n < 10") (auto simp: nat_to_dec.simps [of n])
qed

lemma nat_to_dec_nonempty [simp]: "nat_to_dec n \<noteq> []"
  by (subst nat_to_dec.simps) simp

lemma dec_value_nat_to_dec [simp]: "dec_value (nat_to_dec n) = n"
proof (induction n rule: nat_to_dec.induct)
  case (1 n)
  show ?case
  proof (cases "n < 10")
    case True
    then show ?thesis by (simp add: nat_to_dec.simps [of n] dec_value_def)
  next
    case False
    then have "dec_value (nat_to_dec n) = dec_value (nat_to_dec (n div 10)) * 10 + n mod 10"
      by (simp add: nat_to_dec.simps [of n] dec_value_def)
    with 1 False show ?thesis by simp
  qed
qed

lemma nat_to_dec_inject [simp]: "nat_to_dec m = nat_to_dec n \<longleftrightarrow> m = n"
  by (metis dec_value_nat_to_dec)

lemma digit_not_plus: "is_ascii_digit c \<Longrightarrow> c \<noteq> CHR ''+''"
  by (auto simp: is_ascii_digit_def)

lemma parse_uint_nat_to_dec: "n \<le> m \<Longrightarrow> parse_uint m (nat_to_dec n) = Some n"
proof -
  assume "n \<le> m"
  obtain c s where cs: "nat_to_dec n = c # s" by (cases "nat_to_dec n") auto
  then have "c \<noteq> CHR ''+''" using nat_to_dec_digits [of c n] digit_not_plus by auto
  then have "(case nat_to_dec n of CHR ''+'' # r \<Rightarrow> r | _ \<Rightarrow> nat_to_dec n) = nat_to_dec n"
    unfolding cs by (auto split: list.splits char.splits bool.splits)
  moreover have "list_all is_ascii_digit (nat_to_dec n)"
    by (auto simp: list_all_iff nat_to_dec_digits)
  ultimately show ?thesis using \<open>n \<le> m\<close> by (simp add: parse_uint_def)
qed

lemma parse_u16_nat_to_dec [simp]: "parse_u16 (nat_to_dec (unat p)) = Some p"
proof -
  have "unat p < 2 ^ 16" using unsigned_less [of p, where 'a = nat] by simp
  then have "unat p \<le> 0xFFFF" by simp
  then show ?thesis by (simp add: parse_u16_def parse_uint_nat_to_dec)
qed

lemma parse_u128_nat_to_dec: "n < 2 ^ 128 \<Longrightarrow> parse_u128 (nat_to_dec n) = Some n"
  by (simp add: parse_u128_def parse_uint_nat_to_dec)

lemma parse_uint_bound: "parse_uint m s = Some n \<Longrightarrow> n \<le> m"
  by (auto simp: parse_uint_def Let_def split: if_splits)

lemma digit_solid: "is_ascii_digit c \<Longrightarrow> solid c"
  by (simp add: is_ascii_digit_def solid_def)

lemma nat_to_dec_solid: "c \<in> set (nat_to_dec n) \<Longrightarrow> solid c"
  by (blast intro: digit_solid nat_to_dec_digits)

lemma solid_ascii: "(\<And>c. c \<in> set s \<Longrightarrow> solid c) \<Longrightarrow> ascii s"
  by (fastforce simp: ascii_def solid_def)

lemma nat_to_dec_ascii [simp]: "ascii (nat_to_dec n)"
  by (rule solid_ascii) (rule nat_to_dec_solid)

section \<open>Formatting\<close>

text \<open>Padding to a column counts the characters of a string, not its bytes.\<close>

definition char_count :: "string \<Rightarrow> nat" where
  "char_count s = length (filter (\<lambda>c. \<not> utf8_cont (of_char c)) s)"

definition pad :: "nat \<Rightarrow> string \<Rightarrow> string" where
  "pad n s = s @ replicate (n - char_count s) CHR '' ''"

definition show_bool :: "bool \<Rightarrow> string" where
  "show_bool b = (if b then ''true'' else ''false'')"

end
