(* ===== verification/Std_Net.thy ===== *)
theory Std_Net
  imports Std_Text
begin

text \<open>
  The addresses of Rust's \<open>std::net\<close>: \<open>Ipv4Addr\<close>, \<open>Ipv6Addr\<close>, \<open>IpAddr\<close> and
  \<open>SocketAddr\<close>, with the predicates, the printers and the parsers the sources call. The
  parsers follow the reader of the standard library, one function per reader method; IPv4
  addresses are proved to survive printing and parsing.
\<close>

section \<open>Address types\<close>

datatype ipv4_addr = Ipv4Addr u8 u8 u8 u8

text \<open>An IPv6 address is its eight 16-bit groups.\<close>

datatype ipv6_addr = Ipv6Addr u16 u16 u16 u16 u16 u16 u16 u16

datatype ip_addr = V4 ipv4_addr | V6 ipv6_addr

record socket_addr =
  sa_ip :: ip_addr
  sa_port :: u16

fun octets :: "ipv4_addr \<Rightarrow> bytes" where
  "octets (Ipv4Addr a b c d) = [a, b, c, d]"

fun segments :: "ipv6_addr \<Rightarrow> u16 list" where
  "segments (Ipv6Addr a b c d e f g h) = [a, b, c, d, e, f, g, h]"

definition ipv4_unspecified :: ipv4_addr where
  "ipv4_unspecified = Ipv4Addr 0 0 0 0"

definition ipv4_localhost :: ipv4_addr where
  "ipv4_localhost = Ipv4Addr 127 0 0 1"

lemma length_octets [simp]: "length (octets a) = 4"
  by (cases a) simp

lemma octets_inject [simp]: "octets a = octets b \<longleftrightarrow> a = b"
  by (cases a; cases b) auto

fun ipv4_is_private :: "ipv4_addr \<Rightarrow> bool" where
  "ipv4_is_private (Ipv4Addr a b c d) \<longleftrightarrow>
     a = 10 \<or> (a = 172 \<and> 16 \<le> b \<and> b \<le> 31) \<or> (a = 192 \<and> b = 168)"

fun ipv4_is_link_local :: "ipv4_addr \<Rightarrow> bool" where
  "ipv4_is_link_local (Ipv4Addr a b c d) \<longleftrightarrow> a = 169 \<and> b = 254"

text \<open>\<open>fc00::/7\<close> and \<open>fe80::/10\<close>.\<close>

fun ipv6_is_unique_local :: "ipv6_addr \<Rightarrow> bool" where
  "ipv6_is_unique_local (Ipv6Addr a _ _ _ _ _ _ _) \<longleftrightarrow> a AND 0xFE00 = 0xFC00"

fun ipv6_is_unicast_link_local :: "ipv6_addr \<Rightarrow> bool" where
  "ipv6_is_unicast_link_local (Ipv6Addr a _ _ _ _ _ _ _) \<longleftrightarrow> a AND 0xFFC0 = 0xFE80"

section \<open>Printing\<close>

fun ipv4_to_string :: "ipv4_addr \<Rightarrow> string" where
  "ipv4_to_string (Ipv4Addr a b c d) =
     nat_to_dec (unat a) @ ''.'' @ nat_to_dec (unat b) @ ''.'' @ nat_to_dec (unat c) @ ''.''
       @ nat_to_dec (unat d)"

definition hex_digit :: "nat \<Rightarrow> char" where
  "hex_digit d = (if d < 10 then digit_char d else char_of (87 + d))"

fun nat_to_hex :: "nat \<Rightarrow> string" where
  "nat_to_hex n = (if n < 16 then [hex_digit n] else nat_to_hex (n div 16) @ [hex_digit (n mod 16)])"

declare nat_to_hex.simps [simp del]

text \<open>
  The longest run of zero groups, the first one of several, as (start, length); only a run of
  at least two groups is abbreviated by \<open>::\<close>.
\<close>

fun zero_run :: "nat \<Rightarrow> nat \<times> nat \<Rightarrow> nat \<times> nat \<Rightarrow> u16 list \<Rightarrow> nat \<times> nat" where
  "zero_run i cur longest [] = longest"
| "zero_run i cur longest (g # gs) =
     (if g = 0 then
        (let cur' = (if snd cur = 0 then (i, 1) else (fst cur, Suc (snd cur)))
         in zero_run (Suc i) cur' (if snd cur' > snd longest then cur' else longest) gs)
      else zero_run (Suc i) (0, 0) longest gs)"

definition show_groups :: "u16 list \<Rightarrow> string" where
  "show_groups gs = join_with '':'' (map (\<lambda>g. nat_to_hex (unat g)) gs)"

definition ipv6_to_string :: "ipv6_addr \<Rightarrow> string" where
  "ipv6_to_string a =
     (let gs = segments a; high = (\<lambda>g. word_of_nat (unat g div 256) :: u8);
          low = (\<lambda>g. word_of_nat (unat g mod 256) :: u8)
      in if take 6 gs = [0, 0, 0, 0, 0, 0xFFFF]
         then ''::ffff:'' @ ipv4_to_string
                (Ipv4Addr (high (gs ! 6)) (low (gs ! 6)) (high (gs ! 7)) (low (gs ! 7)))
         else (let (start, len) = zero_run 0 (0, 0) (0, 0) gs
               in if len > 1
                  then show_groups (take start gs) @ ''::'' @ show_groups (drop (start + len) gs)
                  else show_groups gs))"

fun ip_to_string :: "ip_addr \<Rightarrow> string" where
  "ip_to_string (V4 a) = ipv4_to_string a"
| "ip_to_string (V6 a) = ipv6_to_string a"

definition socket_addr_to_string :: "socket_addr \<Rightarrow> string" where
  "socket_addr_to_string s =
     (case sa_ip s of
        V4 a \<Rightarrow> ipv4_to_string a @ '':'' @ nat_to_dec (unat (sa_port s))
      | V6 a \<Rightarrow> ''['' @ ipv6_to_string a @ '']:'' @ nat_to_dec (unat (sa_port s)))"

section \<open>Parsing\<close>

text \<open>A reader consumes a prefix of the text or fails without consuming anything.\<close>

type_synonym 'a reader = "string \<Rightarrow> ('a \<times> string) option"

definition hex_value :: "char \<Rightarrow> nat option" where
  "hex_value c =
     (let n = of_char c
      in if is_ascii_digit c then Some (n - 48)
         else if 97 \<le> n \<and> n \<le> 102 then Some (n - 87)
         else if 65 \<le> n \<and> n \<le> 70 then Some (n - 55)
         else None)"

text \<open>
  \<open>read_number\<close>: the longest run of digits in the radix; at most \<open>max_digits\<close> of them, no
  superfluous leading zero unless allowed, and a value the target type can hold.
\<close>

definition read_number ::
  "nat \<Rightarrow> (char \<Rightarrow> nat option) \<Rightarrow> nat option \<Rightarrow> bool \<Rightarrow> nat \<Rightarrow> nat reader" where
  "read_number radix to_digit max_digits allow_zero_prefix max_value s =
     (let ds = takeWhile (\<lambda>c. to_digit c \<noteq> None) s;
          v = foldl (\<lambda>acc c. acc * radix + the (to_digit c)) 0 ds
      in if ds = [] then None
         else if (case max_digits of None \<Rightarrow> False | Some m \<Rightarrow> m < length ds) then None
         else if \<not> allow_zero_prefix \<and> hd ds = CHR ''0'' \<and> 1 < length ds then None
         else if max_value < v then None
         else Some (v, drop (length ds) s))"

definition dec_digit :: "char \<Rightarrow> nat option" where
  "dec_digit c = (if is_ascii_digit c then Some (digit_value c) else None)"

definition read_given_char :: "char \<Rightarrow> unit reader" where
  "read_given_char c s = (case s of [] \<Rightarrow> None | x # r \<Rightarrow> if x = c then Some ((), r) else None)"

text \<open>\<open>read_separator(sep, i, inner)\<close>: the separator is read before all but the first item.\<close>

definition read_separator :: "char \<Rightarrow> nat \<Rightarrow> 'a reader \<Rightarrow> 'a reader" where
  "read_separator sep i inner s =
     (if i = 0 then inner s
      else (case read_given_char sep s of None \<Rightarrow> None | Some (_, r) \<Rightarrow> inner r))"

definition read_octet :: "nat reader" where
  "read_octet = read_number 10 dec_digit (Some 3) False 255"

definition read_ipv4 :: "ipv4_addr reader" where
  "read_ipv4 s =
     (case read_separator CHR ''.'' 0 read_octet s of None \<Rightarrow> None | Some (a, s1) \<Rightarrow>
      case read_separator CHR ''.'' 1 read_octet s1 of None \<Rightarrow> None | Some (b, s2) \<Rightarrow>
      case read_separator CHR ''.'' 2 read_octet s2 of None \<Rightarrow> None | Some (c, s3) \<Rightarrow>
      case read_separator CHR ''.'' 3 read_octet s3 of None \<Rightarrow> None | Some (d, s4) \<Rightarrow>
        Some (Ipv4Addr (word_of_nat a) (word_of_nat b) (word_of_nat c) (word_of_nat d), s4))"

text \<open>
  \<open>read_groups\<close>: up to \<open>limit\<close> hexadecimal groups; while two are left, an embedded IPv4
  address may end them. The result is the groups read and whether they ended that way.
\<close>

fun read_groups :: "nat \<Rightarrow> nat \<Rightarrow> string \<Rightarrow> u16 list \<times> bool \<times> string" where
  "read_groups i 0 s = ([], False, s)"
| "read_groups i (Suc left) s =
     (case (if 0 < left then read_separator CHR '':'' i read_ipv4 s else None) of
        Some (v4, r) \<Rightarrow>
          (let os = octets v4
           in ([u16_from_be_bytes (take 2 os), u16_from_be_bytes (drop 2 os)], True, r))
      | None \<Rightarrow>
          (case read_separator CHR '':'' i (read_number 16 hex_value (Some 4) True 0xFFFF) s of
             None \<Rightarrow> ([], False, s)
           | Some (g, r) \<Rightarrow>
               (let (gs, v4, r') = read_groups (Suc i) left r
                in (word_of_nat g # gs, v4, r'))))"

definition ipv6_of_segments :: "u16 list \<Rightarrow> ipv6_addr" where
  "ipv6_of_segments gs =
     Ipv6Addr (gs ! 0) (gs ! 1) (gs ! 2) (gs ! 3) (gs ! 4) (gs ! 5) (gs ! 6) (gs ! 7)"

definition read_ipv6 :: "ipv6_addr reader" where
  "read_ipv6 s =
     (let (head, head_v4, s1) = read_groups 0 8 s
      in if length head = 8 then Some (ipv6_of_segments head, s1)
         else if head_v4 then None
         else (case read_given_char CHR '':'' s1 of None \<Rightarrow> None | Some (_, s2) \<Rightarrow>
               case read_given_char CHR '':'' s2 of None \<Rightarrow> None | Some (_, s3) \<Rightarrow>
                 (let (tail, _, s4) = read_groups 0 (7 - length head) s3
                  in Some (ipv6_of_segments
                       (head @ replicate (8 - length head - length tail) 0 @ tail), s4))))"

definition parse_with :: "'a reader \<Rightarrow> string \<Rightarrow> 'a option" where
  "parse_with rd s = (case rd s of Some (x, []) \<Rightarrow> Some x | _ \<Rightarrow> None)"

definition parse_ipv4 :: "string \<Rightarrow> ipv4_addr option" where
  "parse_ipv4 s = (if 15 < length s then None else parse_with read_ipv4 s)"

definition read_ip :: "ip_addr reader" where
  "read_ip s =
     (case read_ipv4 s of
        Some (a, r) \<Rightarrow> Some (V4 a, r)
      | None \<Rightarrow> map_option (\<lambda>(a, r). (V6 a, r)) (read_ipv6 s))"

definition parse_ip :: "string \<Rightarrow> ip_addr option" where
  "parse_ip s = parse_with read_ip s"

definition read_port :: "nat reader" where
  "read_port s =
     (case read_given_char CHR '':'' s of None \<Rightarrow> None
      | Some (_, r) \<Rightarrow> read_number 10 dec_digit None True 0xFFFF r)"

definition read_socket_v4 :: "socket_addr reader" where
  "read_socket_v4 s =
     (case read_ipv4 s of None \<Rightarrow> None | Some (a, r) \<Rightarrow>
      case read_port r of None \<Rightarrow> None | Some (p, r') \<Rightarrow>
        Some (\<lparr>sa_ip = V4 a, sa_port = word_of_nat p\<rparr>, r'))"

text \<open>A scope identifier between the address and the bracket is read and not kept here.\<close>

definition read_scope :: "string \<Rightarrow> string" where
  "read_scope s =
     (case read_given_char CHR ''%'' s of None \<Rightarrow> s
      | Some (_, r) \<Rightarrow>
          (case read_number 10 dec_digit None True (2 ^ 32 - 1) r of None \<Rightarrow> s | Some (_, r') \<Rightarrow> r'))"

definition read_socket_v6 :: "socket_addr reader" where
  "read_socket_v6 s =
     (case read_given_char CHR ''['' s of None \<Rightarrow> None | Some (_, r) \<Rightarrow>
      case read_ipv6 r of None \<Rightarrow> None | Some (a, r1) \<Rightarrow>
      case read_given_char CHR '']'' (read_scope r1) of None \<Rightarrow> None | Some (_, r2) \<Rightarrow>
      case read_port r2 of None \<Rightarrow> None | Some (p, r3) \<Rightarrow>
        Some (\<lparr>sa_ip = V6 a, sa_port = word_of_nat p\<rparr>, r3))"

definition parse_socket_addr :: "string \<Rightarrow> socket_addr option" where
  "parse_socket_addr s =
     parse_with (\<lambda>s. case read_socket_v4 s of Some x \<Rightarrow> Some x | None \<Rightarrow> read_socket_v6 s) s"

section \<open>IPv4 addresses survive printing and parsing\<close>

text \<open>A text that does not continue with a digit.\<close>

definition no_digit_next :: "string \<Rightarrow> bool" where
  "no_digit_next s \<longleftrightarrow> s = [] \<or> \<not> is_ascii_digit (hd s)"

lemma no_digit_next_simps [simp]:
  "no_digit_next []" "no_digit_next (c # s) \<longleftrightarrow> \<not> is_ascii_digit c"
  by (simp_all add: no_digit_next_def)

lemma takeWhile_dec:
  assumes "\<And>c. c \<in> set p \<Longrightarrow> is_ascii_digit c" and "no_digit_next s"
  shows "takeWhile (\<lambda>c. dec_digit c \<noteq> None) (p @ s) = p"
  using assms by (induction p) (cases s, auto simp: dec_digit_def)

lemma foldl_dec_digit:
  "(\<And>c. c \<in> set p \<Longrightarrow> is_ascii_digit c) \<Longrightarrow>
     foldl (\<lambda>acc c. acc * 10 + the (dec_digit c)) n p = foldl (\<lambda>acc c. acc * 10 + digit_value c) n p"
  by (induction p arbitrary: n) (auto simp: dec_digit_def)

lemma nat_to_dec_small: "n < 10 \<Longrightarrow> nat_to_dec n = [digit_char n]"
  by (subst nat_to_dec.simps) simp

lemma nat_to_dec_step: "10 \<le> n \<Longrightarrow> nat_to_dec n = nat_to_dec (n div 10) @ [digit_char (n mod 10)]"
  by (subst nat_to_dec.simps) simp

lemma nat_to_dec_length: "n < 10 ^ k \<Longrightarrow> 0 < k \<Longrightarrow> length (nat_to_dec n) \<le> k"
proof (induction k arbitrary: n)
  case 0
  then show ?case by simp
next
  case (Suc k)
  show ?case
  proof (cases "n < 10")
    case True
    then show ?thesis by (simp add: nat_to_dec_small)
  next
    case False
    with Suc.prems have "0 < k" and "n div 10 < 10 ^ k" by (cases k; auto)+
    with Suc.IH [of "n div 10"] False show ?thesis by (simp add: nat_to_dec_step)
  qed
qed

lemma digit_char_eq_zero: "d < 10 \<Longrightarrow> digit_char d = CHR ''0'' \<longleftrightarrow> d = 0"
proof
  assume "d < 10" and "digit_char d = CHR ''0''"
  then have "digit_value (digit_char d) = digit_value CHR ''0''" by simp
  then show "d = 0" using \<open>d < 10\<close> by (simp add: digit_value_def [of "CHR ''0''"])
next
  assume "d = 0"
  then have "of_char (digit_char d) = (of_char CHR ''0'' :: nat)" by simp
  then show "digit_char d = CHR ''0''" by (simp only: of_char_eq_iff)
qed

lemma hd_nat_to_dec: "hd (nat_to_dec n) = CHR ''0'' \<Longrightarrow> n = 0"
proof (induction n rule: nat_to_dec.induct)
  case (1 n)
  show ?case
  proof (cases "n < 10")
    case True
    with 1 show ?thesis by (simp add: nat_to_dec_small digit_char_eq_zero)
  next
    case False
    with "1.prems" have "hd (nat_to_dec (n div 10)) = CHR ''0''" by (simp add: nat_to_dec_step)
    then have "n div 10 = 0" by (rule "1.IH" [OF False])
    with False show ?thesis by simp
  qed
qed

lemma read_number_dec:
  assumes "n \<le> m" and "no_digit_next s"
    and "case k of None \<Rightarrow> True | Some d \<Rightarrow> length (nat_to_dec n) \<le> d"
  shows "read_number 10 dec_digit k z m (nat_to_dec n @ s) = Some (n, s)"
proof -
  have tw: "takeWhile (\<lambda>c. dec_digit c \<noteq> None) (nat_to_dec n @ s) = nat_to_dec n"
    by (rule takeWhile_dec) (auto simp: assms dest: nat_to_dec_digits)
  have val: "foldl (\<lambda>acc c. acc * 10 + the (dec_digit c)) 0 (nat_to_dec n) = n"
    using foldl_dec_digit [of "nat_to_dec n" 0] nat_to_dec_digits dec_value_nat_to_dec [of n]
    by (simp add: dec_value_def)
  have zero: "\<not> (hd (nat_to_dec n) = CHR ''0'' \<and> 1 < length (nat_to_dec n))"
    using hd_nat_to_dec [of n] by (auto simp: nat_to_dec_small)
  show ?thesis
    unfolding read_number_def Let_def tw val using zero assms by (cases k) auto
qed

lemma read_octet_dec: "no_digit_next s \<Longrightarrow> read_octet (nat_to_dec (unat (a :: u8)) @ s) = Some (unat a, s)"
proof -
  assume "no_digit_next s"
  have lt: "unat a < 2 ^ 8" using unsigned_less [of a, where 'a = nat] by simp
  then have "length (nat_to_dec (unat a)) \<le> 3" by (intro nat_to_dec_length) simp_all
  with lt \<open>no_digit_next s\<close> show ?thesis
    unfolding read_octet_def by (intro read_number_dec) simp_all
qed

lemma dot_not_digit [simp]: "\<not> is_ascii_digit CHR ''.''" "\<not> is_ascii_digit CHR '':''"
  by (simp_all add: is_ascii_digit_def)

lemma read_ipv4_print: "no_digit_next s \<Longrightarrow> read_ipv4 (ipv4_to_string a @ s) = Some (a, s)"
  by (cases a)
    (simp add: read_ipv4_def read_separator_def read_given_char_def read_octet_dec)

lemma ipv4_to_string_length: "length (ipv4_to_string a) \<le> 15"
proof -
  have "length (nat_to_dec (unat (x :: u8))) \<le> 3" for x
    using unsigned_less [of x, where 'a = nat] by (intro nat_to_dec_length) simp_all
  moreover obtain w x y z where "a = Ipv4Addr w x y z" by (cases a)
  ultimately have "length (nat_to_dec (unat w)) + length (nat_to_dec (unat x))
      + length (nat_to_dec (unat y)) + length (nat_to_dec (unat z)) \<le> 3 + 3 + 3 + 3"
    by (intro add_mono)
  with \<open>a = Ipv4Addr w x y z\<close> show ?thesis by simp
qed

lemma parse_ipv4_print [simp]: "parse_ipv4 (ipv4_to_string a) = Some a"
  using read_ipv4_print [of "[]" a] ipv4_to_string_length [of a]
  by (simp add: parse_ipv4_def parse_with_def)

lemma parse_ip_print_v4 [simp]: "parse_ip (ipv4_to_string a) = Some (V4 a)"
  using read_ipv4_print [of "[]" a] by (simp add: parse_ip_def parse_with_def read_ip_def)

interpretation ipv4_text: codec ipv4_to_string parse_ipv4 "\<lambda>_. True"
  by unfold_locales simp

lemma ipv4_to_string_inject [simp]: "ipv4_to_string a = ipv4_to_string b \<longleftrightarrow> a = b"
  using ipv4_text.encode_inject by simp

lemma parse_socket_addr_print_v4:
  "parse_socket_addr (ipv4_to_string a @ '':'' @ nat_to_dec (unat p)) =
     Some \<lparr>sa_ip = V4 a, sa_port = p\<rparr>"
proof -
  have "unat p \<le> 0xFFFF" using unsigned_less [of p, where 'a = nat] by simp
  then have "read_port ('':'' @ nat_to_dec (unat p)) = Some (unat p, [])"
    using read_number_dec [of "unat p" "0xFFFF" "[]" None True]
    by (simp add: read_port_def read_given_char_def)
  then show ?thesis
    by (simp add: parse_socket_addr_def parse_with_def read_socket_v4_def read_ipv4_print)
qed

lemma ipv4_to_string_solid: "c \<in> set (ipv4_to_string a) \<Longrightarrow> solid c"
proof -
  assume "c \<in> set (ipv4_to_string a)"
  then have "c = CHR ''.'' \<or> (\<exists>n. c \<in> set (nat_to_dec n))" by (cases a) auto
  then show ?thesis by (auto simp: solid_def dest: nat_to_dec_solid [unfolded solid_def])
qed

lemma ipv4_to_string_nonempty [simp]: "ipv4_to_string a \<noteq> []"
  by (cases a) simp

section \<open>The text of IPv6 addresses\<close>

lemma ascii_digits: "ascii (nat_to_dec n)"
  by (fastforce simp: ascii_def list_all_iff is_ascii_digit_def dest: nat_to_dec_digits)

lemma hex_digit_value: "d < 16 \<Longrightarrow> hex_value (hex_digit d) \<noteq> None"
  by (auto simp: hex_value_def hex_digit_def Let_def)

lemma nat_to_hex_value: "c \<in> set (nat_to_hex n) \<Longrightarrow> hex_value c \<noteq> None"
proof (induction n rule: nat_to_hex.induct)
  case (1 n)
  then show ?case using hex_digit_value [of n] hex_digit_value [of "n mod 16"]
    by (cases "n < 16") (auto simp: nat_to_hex.simps [of n])
qed

lemma hex_value_ascii: "hex_value c \<noteq> None \<Longrightarrow> of_char c < (128 :: nat)"
  by (auto simp: hex_value_def Let_def is_ascii_digit_def split: if_splits)

lemma ascii_join: "ascii sep \<Longrightarrow> (\<And>p. p \<in> set ps \<Longrightarrow> ascii p) \<Longrightarrow> ascii (join_with sep ps)"
  by (induction sep ps rule: join_with.induct) auto

lemma ascii_show_groups: "ascii (show_groups gs)"
  unfolding show_groups_def
  by (rule ascii_join) (auto simp: ascii_def list_all_iff dest!: nat_to_hex_value intro!: hex_value_ascii)

lemma ascii_ip_to_string: "ascii (ip_to_string a)"
proof (cases a)
  case (V4 x)
  then show ?thesis by (cases x) (simp add: ascii_digits)
next
  case (V6 x)
  have "ascii (ipv4_to_string y)" for y by (cases y) (simp add: ascii_digits)
  with V6 show ?thesis by (simp add: ipv6_to_string_def Let_def ascii_show_groups split: prod.splits)
qed

text \<open>The text of an IPv6 address has only hexadecimal digits before its first colon.\<close>

lemma show_groups_head:
  "gs \<noteq> [] \<Longrightarrow> \<exists>p r. show_groups gs = p @ r \<and> list_all (\<lambda>c. hex_value c \<noteq> None) p \<and>
     (if tl gs = [] then r = [] else r \<noteq> [] \<and> hd r = CHR '':'')"
proof (cases gs)
  case (Cons g rest)
  have "list_all (\<lambda>c. hex_value c \<noteq> None) (nat_to_hex (unat g))"
    by (auto simp: list_all_iff dest: nat_to_hex_value)
  with Cons show ?thesis
    by (cases rest) (auto simp: show_groups_def exI [of _ "nat_to_hex (unat g)"])
qed simp

lemma ipv6_text_head: "\<exists>p r. ipv6_to_string a = p @ CHR '':'' # r \<and> list_all (\<lambda>c. hex_value c \<noteq> None) p"
proof -
  obtain start len where run: "zero_run 0 (0, 0) (0, 0) (segments a) = (start, len)" by force
  have eight: "length (segments a) = 8" by (cases a) simp
  have colon: "\<exists>p r'. p' @ r @ CHR '':'' # t = p @ CHR '':'' # r' \<and> list_all (\<lambda>c. hex_value c \<noteq> None) p"
    if "list_all (\<lambda>c. hex_value c \<noteq> None) p'" "r = [] \<or> hd r = CHR '':''" for p' r t
    using that by (cases r) auto
  have none: "\<exists>r. t = CHR '':'' # r \<Longrightarrow> \<exists>p r. t = p @ CHR '':'' # r \<and> list_all (\<lambda>c. hex_value c \<noteq> None) p" for t
    by (metis append_Nil list.pred_inject(1))
  consider "take 6 (segments a) = [0, 0, 0, 0, 0, 0xFFFF]"
    | "take 6 (segments a) \<noteq> [0, 0, 0, 0, 0, 0xFFFF]" "len > 1" "take start (segments a) = []"
    | "take 6 (segments a) \<noteq> [0, 0, 0, 0, 0, 0xFFFF]" "len > 1" "take start (segments a) \<noteq> []"
    | "take 6 (segments a) \<noteq> [0, 0, 0, 0, 0, 0xFFFF]" "\<not> len > 1" by blast
  then show ?thesis
  proof cases
    case 1
    then show ?thesis by (intro none) (simp add: ipv6_to_string_def Let_def)
  next
    case 2
    then have "show_groups (take start (segments a)) = []" by (simp only: show_groups_def list.map join_with.simps)
    with 2 show ?thesis by (intro none) (simp add: ipv6_to_string_def Let_def run)
  next
    case 3
    from show_groups_head [OF 3(3)] obtain p' r where
      "show_groups (take start (segments a)) = p' @ r" "list_all (\<lambda>c. hex_value c \<noteq> None) p'" "r = [] \<or> hd r = CHR '':''"
      by (auto split: if_splits)
    with 3 colon [of p' r "CHR '':'' # show_groups (drop (start + len) (segments a))"] show ?thesis
      by (simp add: ipv6_to_string_def Let_def run)
  next
    case 4
    have "segments a \<noteq> []" "tl (segments a) \<noteq> []" using eight by (auto simp: tl_Nil)
    with show_groups_head [of "segments a"] obtain p r where
      "show_groups (segments a) = p @ r" "list_all (\<lambda>c. hex_value c \<noteq> None) p" "r \<noteq> []" "hd r = CHR '':''" by auto
    with 4 show ?thesis by (cases r) (auto simp: ipv6_to_string_def Let_def run)
  qed
qed

lemma read_ipv4_hex_colon:
  assumes "list_all (\<lambda>c. hex_value c \<noteq> None) p"
  shows "read_ipv4 (p @ CHR '':'' # r) = None"
proof (cases "read_octet (p @ CHR '':'' # r)")
  case None
  then show ?thesis by (simp add: read_ipv4_def read_separator_def)
next
  case (Some vs)
  let ?s = "p @ CHR '':'' # r"
  obtain v s where vs: "vs = (v, s)" by (cases vs)
  from Some vs have s: "s = drop (length (takeWhile (\<lambda>c. dec_digit c \<noteq> None) ?s)) ?s"
    by (auto simp: read_octet_def read_number_def Let_def split: if_splits)
  also have "\<dots> = dropWhile (\<lambda>c. dec_digit c \<noteq> None) ?s" by (simp add: dropWhile_eq_drop)
  finally have "s = dropWhile (\<lambda>c. dec_digit c \<noteq> None) p @ CHR '':'' # r"
    by (auto simp: dropWhile_append3 dropWhile_append1 dec_digit_def split: if_splits)
  moreover have "hd (dropWhile (\<lambda>c. dec_digit c \<noteq> None) p @ CHR '':'' # r) \<noteq> CHR ''.''"
  proof (cases "dropWhile (\<lambda>c. dec_digit c \<noteq> None) p")
    case (Cons c q)
    then have "c \<in> set p" by (metis list.set_intros(1) set_dropWhileD)
    with assms have "hex_value c \<noteq> None" by (simp add: list_all_iff)
    moreover have "hex_value CHR ''.'' = None" by code_simp
    ultimately show ?thesis using Cons by auto
  next
    case Nil
    then show ?thesis by (simp only: append_Nil list.sel) simp
  qed
  ultimately have "hd s \<noteq> CHR ''.''" by simp
  then have "read_given_char CHR ''.'' s = None" by (cases s) (simp_all add: read_given_char_def)
  with Some vs show ?thesis by (simp add: read_ipv4_def read_separator_def)
qed

lemma ipv6_unbracketed_no_socket_addr: "parse_socket_addr (ipv6_to_string a @ CHR '':'' # s) = None"
proof -
  obtain p r where shape: "ipv6_to_string a = p @ CHR '':'' # r" and p: "list_all (\<lambda>c. hex_value c \<noteq> None) p"
    using ipv6_text_head by blast
  have "read_socket_v4 (ipv6_to_string a @ CHR '':'' # s) = None"
    using read_ipv4_hex_colon [OF p, of "r @ CHR '':'' # s"] by (simp add: shape read_socket_v4_def)
  moreover have "read_socket_v6 (ipv6_to_string a @ CHR '':'' # s) = None"
  proof -
    have "hex_value CHR ''['' = None" by code_simp
    with p have "read_given_char CHR ''['' (p @ CHR '':'' # r @ CHR '':'' # s) = None"
      by (cases p) (auto simp: read_given_char_def)
    then show ?thesis by (simp add: shape read_socket_v6_def)
  qed
  ultimately show ?thesis by (simp add: parse_socket_addr_def parse_with_def)
qed

text \<open>The readers on literals.\<close>

lemma read_groups_numeral:
  "read_groups i (numeral k) s =
     (case (if 0 < (pred_numeral k :: nat) then read_separator CHR '':'' i read_ipv4 s else None) of
        Some (v4, r) \<Rightarrow>
          (let os = octets v4 in ([u16_from_be_bytes (take 2 os), u16_from_be_bytes (drop 2 os)], True, r))
      | None \<Rightarrow>
          (case read_separator CHR '':'' i (read_number 16 hex_value (Some 4) True 0xFFFF) s of
             None \<Rightarrow> ([], False, s)
           | Some (g, r) \<Rightarrow>
               (let (gs, v4, r') = read_groups (Suc i) (pred_numeral k) r in (word_of_nat g # gs, v4, r'))))"
  by (simp only: numeral_eq_Suc read_groups.simps)

lemmas net_readers = parse_socket_addr_def parse_ip_def parse_with_def read_ip_def read_socket_v4_def read_socket_v6_def read_ipv4_def
  read_ipv6_def read_separator_def read_octet_def read_number_def read_given_char_def read_port_def read_scope_def
  hex_value_def dec_digit_def is_ascii_digit_def digit_value_def ipv6_of_segments_def Let_def
  read_groups_numeral nth_append

end
