(* ===== verification/Core_Protocol.thy ===== *)
theory Core_Protocol
  imports Std_Net
begin

text \<open>
  The shared crates: the messages of \<open>tfscale-core/src/protocol.rs\<close>, the typed identifiers
  of \<open>ids.rs\<close>, and the backend vocabulary of \<open>tfscale-net/src/lib.rs\<close> (errors,
  endpoints, peer and relay configurations, status reports). A struct is a record whose field
  names carry a prefix naming the struct; an enum is a datatype with the source's constructors.
\<close>

section \<open>Identifiers\<close>

text \<open>
  \<open>define_id!\<close>: a wrapper around a string; \<open>new()\<close> prefixes a fresh UUID, which is an
  argument here.
\<close>

datatype device_id = DeviceId string

primrec device_id_str :: "device_id \<Rightarrow> string" where
  "device_id_str (DeviceId s) = s"

definition id_new :: "string \<Rightarrow> string \<Rightarrow> string" where
  "id_new pre uuid_simple = pre @ ''_'' @ uuid_simple"

definition DeviceId_new :: "string \<Rightarrow> device_id" where
  "DeviceId_new uuid_simple = DeviceId (id_new ''dev'' uuid_simple)"

definition DeviceId_default :: "string \<Rightarrow> device_id" where
  "DeviceId_default uuid_simple = DeviceId_new uuid_simple"

definition DeviceId_from :: "string \<Rightarrow> device_id" where
  "DeviceId_from value = DeviceId value"

primrec DeviceId_into :: "device_id \<Rightarrow> string" where
  "DeviceId_into (DeviceId value) = value"

primrec DeviceId_display :: "device_id \<Rightarrow> string" where
  "DeviceId_display (DeviceId value) = value"

lemma device_id_roundtrip: "DeviceId_from (DeviceId_into d) = d" "DeviceId_into (DeviceId_from s) = s" "DeviceId_display d = device_id_str d"
  by (cases d; simp add: DeviceId_from_def)+

text \<open>The other instances of the macro, as the strings that they wrap.\<close>

definition AuthKeyId_new :: "string \<Rightarrow> string" where
  "AuthKeyId_new uuid_simple = id_new ''ak'' uuid_simple"

definition NetworkId_new :: "string \<Rightarrow> string" where
  "NetworkId_new uuid_simple = id_new ''net'' uuid_simple"

definition OrganizationId_new :: "string \<Rightarrow> string" where
  "OrganizationId_new uuid_simple = id_new ''org'' uuid_simple"

text \<open>Identifiers of different kinds never coincide.\<close>

lemma id_kinds_disjoint:
  "AuthKeyId_new u \<noteq> NetworkId_new v" "AuthKeyId_new u \<noteq> OrganizationId_new v" "NetworkId_new u \<noteq> OrganizationId_new v"
  "device_id_str (DeviceId_new u) \<notin> {AuthKeyId_new v, NetworkId_new v, OrganizationId_new v}"
  by (simp_all add: AuthKeyId_new_def NetworkId_new_def OrganizationId_new_def DeviceId_new_def id_new_def)

section \<open>Control-plane messages\<close>

record create_auth_key_response =
  ak_id :: string
  ak_key :: string

record device_summary =
  ds_id :: string
  ds_hostname :: string
  ds_ipv4 :: string
  ds_os :: string
  ds_arch :: string
  ds_backend_type :: string
  ds_last_seen_at :: "string option"

record dns_record =
  dr_device_id :: string
  dr_name :: string
  dr_record_type :: string
  dr_value :: string

record rename_device_request =
  rn_hostname :: string

record register_device_request =
  rq_auth_key :: string
  rq_hostname :: string
  rq_machine_key :: string
  rq_backend_type :: string
  rq_backend_public_credential :: string
  rq_os :: string
  rq_arch :: string
  rq_client_version :: string

record register_device_response =
  rr_device_id :: string
  rr_node_key :: string
  rr_ipv4 :: string
  rr_network_id :: string
  rr_poll_interval_seconds :: u64

record endpoint_payload =
  epp_kind :: string
  epp_address :: string
  epp_port :: u16
  epp_protocol :: string
  epp_source :: "string option"
  epp_priority :: "32 word option"
  epp_expires_at :: "string option"

record backend_status_payload =
  bsp_backend_type :: string
  bsp_interface :: string
  bsp_healthy :: bool

record heartbeat_request =
  hb_device_id :: string
  hb_node_key :: string
  hb_endpoints :: "endpoint_payload list"
  hb_backend_status :: backend_status_payload

record heartbeat_response =
  hbr_ok :: bool
  hbr_network_map_version :: int

record endpoint_probe_request =
  epq_device_id :: string
  epq_node_key :: string
  epq_protocol :: string

record endpoint_probe_response =
  epr_observed_address :: string
  epr_observed_port :: u16
  epr_protocol :: string
  epr_udp_probe_address :: "string option"
  epr_udp_probe_port :: "u16 option"

record network_map_self =
  nms_device_id :: string
  nms_hostname :: string
  nms_ipv4 :: string
  nms_backend_type :: string

record network_map_peer =
  nmp_device_id :: string
  nmp_hostname :: string
  nmp_ipv4 :: string
  nmp_backend_type :: string
  nmp_backend_public_credential :: string
  nmp_endpoints :: "endpoint_payload list"
  nmp_allowed_routes :: "string list"

record relay_metadata =
  rm_relay_id :: string
  rm_url :: string
  rm_region :: string
  rm_healthy :: bool

record network_map_response =
  nm_version :: int
  nm_self_device :: network_map_self
  nm_peers :: "network_map_peer list"
  nm_dns_records :: "dns_record list"
  nm_relays :: "relay_metadata list"

datatype relay_message =
    Register string string        \<comment> \<open>device id, node key\<close>
  | Frame string string string    \<comment> \<open>source, destination, payload\<close>
  | Error string

section \<open>Backend vocabulary\<close>

datatype backend_error =
    MissingCommand string
  | CommandFailed string
  | UnsupportedPlatform string

text \<open>The \<open>Display\<close> text \<open>thiserror\<close> derives from the attributes.\<close>

fun backend_error_to_string :: "backend_error \<Rightarrow> string" where
  "backend_error_to_string (MissingCommand s) = ''required command is missing: '' @ s"
| "backend_error_to_string (CommandFailed s) = ''backend command failed: '' @ s"
| "backend_error_to_string (UnsupportedPlatform s) = ''unsupported platform: '' @ s"

type_synonym 'a backend_result = "backend_error + 'a"

datatype backend_type = Tfscale | WireGuard | EasyTier | Custom string

fun backend_type_as_str :: "backend_type \<Rightarrow> string" where
  "backend_type_as_str Tfscale = ''tfscale''"
| "backend_type_as_str WireGuard = ''wireguard''"
| "backend_type_as_str EasyTier = ''easytier''"
| "backend_type_as_str (Custom value) = value"

record backend_capabilities =
  supports_relay :: bool
  supports_nat_traversal :: bool
  supports_kernel_tun :: bool
  supports_userspace_tun :: bool
  supports_dynamic_peers :: bool
  supports_static_peers :: bool

definition backend_capabilities_default :: backend_capabilities where
  "backend_capabilities_default =
     \<lparr>supports_relay = False, supports_nat_traversal = False, supports_kernel_tun = False,
      supports_userspace_tun = False, supports_dynamic_peers = False, supports_static_peers = False\<rparr>"

record backend_credential =
  bc_public :: string

record local_backend_config =
  lc_device_id :: string
  lc_interface_name :: string
  lc_overlay_ip :: ipv4_addr
  lc_listen_port :: u16

datatype endpoint_kind = Lan | Public | Ipv6 | Relay

datatype transport_protocol = Udp | Tcp

record endpoint =
  ep_kind :: endpoint_kind
  ep_address :: ip_addr
  ep_port :: u16
  ep_protocol :: transport_protocol

record peer_config =
  pc_device_id :: device_id
  pc_hostname :: string
  pc_overlay_ip :: ipv4_addr
  pc_public_credential :: backend_credential
  pc_endpoints :: "endpoint list"
  pc_allowed_routes :: "string list"

record relay_config =
  rc_relay_id :: string
  rc_url :: string
  rc_region :: string

datatype peer_path_diagnostic_kind = DiagUnknown | DiagDirect | DiagRelay

record peer_path_diagnostic =
  pd_device_id :: string
  pd_path :: peer_path_diagnostic_kind
  pd_endpoint :: "string option"
  pd_rtt_ms :: "u64 option"
  pd_failures :: u32
  pd_tx_packets :: u64
  pd_rx_packets :: u64

record backend_status =
  bs_backend_type :: backend_type
  bs_interface_name :: string
  bs_healthy :: bool
  bs_message :: "string option"
  bs_peers :: "peer_path_diagnostic list"

record public_endpoint_probe =
  observed_endpoint :: endpoint

end
