(* ===== verification/Frame_Codec.thy ===== *)
theory Frame_Codec
  imports Core_Protocol
begin

text \<open>
  The wire format of \<open>tfscale-custom/src/frame.rs\<close> and the IPv4 reader of
  \<open>packet.rs\<close>: a 60-byte header (version, type, flags, a reserved byte, two 16-byte device
  identifiers, a 24-byte nonce) followed by the ciphertext. The lemmas show that the codec is
  exact: a header the encoder accepts is read back, and every byte string the decoder accepts
  is the encoding of what it returns.
\<close>

section \<open>Frame headers\<close>

definition FRAME_VERSION :: u8 where "FRAME_VERSION = 1"
definition FRAME_TYPE_DATA :: u8 where "FRAME_TYPE_DATA = 1"
definition FRAME_TYPE_PROBE :: u8 where "FRAME_TYPE_PROBE = 2"
definition FRAME_TYPE_PROBE_RESPONSE :: u8 where "FRAME_TYPE_PROBE_RESPONSE = 3"
definition HEADER_LEN :: nat where "HEADER_LEN = 60"
definition DEVICE_ID_LEN :: nat where "DEVICE_ID_LEN = 16"
definition NONCE_LEN :: nat where "NONCE_LEN = 24"

text \<open>
  \<open>FrameDeviceId([u8; 16])\<close> and \<open>[u8; 24]\<close> are byte lists; the array lengths the Rust
  types carry are the predicate \<open>header_wf\<close> below.
\<close>

type_synonym frame_device_id = bytes

text \<open>\<open>Uuid::parse_str\<close> is the argument \<open>parse_uuid\<close> (its error is the text it displays).\<close>

definition from_device_id :: "(string \<Rightarrow> string + bytes) \<Rightarrow> string \<Rightarrow> frame_device_id backend_result" where
  "from_device_id parse_uuid value =
     and_then (ok_or (strip_prefix ''dev_'' value) (CommandFailed ''device ID is missing dev_ prefix''))
       (\<lambda>encoded. map_err CommandFailed (parse_uuid encoded))"

record frame_header =
  fh_version :: u8
  fh_message_type :: u8
  fh_flags :: u8
  fh_source :: frame_device_id
  fh_destination :: frame_device_id
  fh_nonce :: bytes

definition frame_header_new ::
  "frame_device_id \<Rightarrow> frame_device_id \<Rightarrow> bytes \<Rightarrow> u8 \<Rightarrow> frame_header" where
  "frame_header_new source destination nonce message_type =
     \<lparr>fh_version = FRAME_VERSION, fh_message_type = message_type, fh_flags = 0,
      fh_source = source, fh_destination = destination, fh_nonce = nonce\<rparr>"

definition frame_header_data :: "frame_device_id \<Rightarrow> frame_device_id \<Rightarrow> bytes \<Rightarrow> frame_header" where
  "frame_header_data source destination nonce =
     frame_header_new source destination nonce FRAME_TYPE_DATA"

definition known_message_type :: "u8 \<Rightarrow> bool" where
  "known_message_type t \<longleftrightarrow>
     t = FRAME_TYPE_DATA \<or> t = FRAME_TYPE_PROBE \<or> t = FRAME_TYPE_PROBE_RESPONSE"

definition show_u8 :: "u8 \<Rightarrow> string" where
  "show_u8 b = nat_to_dec (unat b)"

definition frame_header_encode :: "frame_header \<Rightarrow> bytes backend_result" where
  "frame_header_encode h =
     (if fh_version h \<noteq> FRAME_VERSION
        then Inl (CommandFailed (''unsupported frame version: '' @ show_u8 (fh_version h)))
      else if \<not> known_message_type (fh_message_type h)
        then Inl (CommandFailed (''unsupported frame message type: '' @ show_u8 (fh_message_type h)))
      else if fh_flags h \<noteq> 0
        then Inl (CommandFailed (''unsupported frame flags: '' @ show_u8 (fh_flags h)))
      else Inr ([fh_version h, fh_message_type h, fh_flags h, 0]
                 @ fh_source h @ fh_destination h @ fh_nonce h))"

definition frame_header_decode :: "bytes \<Rightarrow> frame_header backend_result" where
  "frame_header_decode input =
     (if length input < HEADER_LEN
        then Inl (CommandFailed (''malformed frame length: '' @ nat_to_dec (length input)))
      else if input ! 0 \<noteq> FRAME_VERSION
        then Inl (CommandFailed (''unsupported frame version: '' @ show_u8 (input ! 0)))
      else if \<not> known_message_type (input ! 1)
        then Inl (CommandFailed (''unsupported frame message type: '' @ show_u8 (input ! 1)))
      else if input ! 2 \<noteq> 0
        then Inl (CommandFailed (''unsupported frame flags: '' @ show_u8 (input ! 2)))
      else if input ! 3 \<noteq> 0
        then Inl (CommandFailed ''reserved frame byte must be zero'')
      else Inr \<lparr>fh_version = input ! 0, fh_message_type = input ! 1, fh_flags = input ! 2,
                fh_source = slice 4 20 input, fh_destination = slice 20 36 input,
                fh_nonce = slice 36 60 input\<rparr>)"

record encoded_frame =
  ef_header :: frame_header
  ef_ciphertext :: bytes

definition encoded_frame_encode :: "encoded_frame \<Rightarrow> bytes backend_result" where
  "encoded_frame_encode f =
     and_then (frame_header_encode (ef_header f)) (\<lambda>header. Inr (header @ ef_ciphertext f))"

definition encoded_frame_decode :: "bytes \<Rightarrow> encoded_frame backend_result" where
  "encoded_frame_decode input =
     and_then (frame_header_decode input)
       (\<lambda>header. Inr \<lparr>ef_header = header, ef_ciphertext = drop HEADER_LEN input\<rparr>)"

section \<open>The codec is exact\<close>

lemmas frame_constants = FRAME_VERSION_def FRAME_TYPE_DATA_def FRAME_TYPE_PROBE_def
  FRAME_TYPE_PROBE_RESPONSE_def HEADER_LEN_def DEVICE_ID_LEN_def NONCE_LEN_def

text \<open>The lengths the Rust array types guarantee.\<close>

definition header_arrays :: "frame_header \<Rightarrow> bool" where
  "header_arrays h \<longleftrightarrow> length (fh_source h) = DEVICE_ID_LEN \<and>
     length (fh_destination h) = DEVICE_ID_LEN \<and> length (fh_nonce h) = NONCE_LEN"

text \<open>The headers the encoder accepts.\<close>

definition header_wf :: "frame_header \<Rightarrow> bool" where
  "header_wf h \<longleftrightarrow> header_arrays h \<and> fh_version h = FRAME_VERSION \<and>
     known_message_type (fh_message_type h) \<and> fh_flags h = 0"

lemma frame_header_encode_Inr:
  "frame_header_encode h = Inr bs \<longleftrightarrow>
     fh_version h = FRAME_VERSION \<and> known_message_type (fh_message_type h) \<and> fh_flags h = 0 \<and>
     bs = [fh_version h, fh_message_type h, fh_flags h, 0] @ fh_source h @ fh_destination h @ fh_nonce h"
  by (auto simp: frame_header_encode_def)

lemma frame_header_encode_length:
  "header_arrays h \<Longrightarrow> frame_header_encode h = Inr bs \<Longrightarrow> length bs = HEADER_LEN"
  by (auto simp: frame_header_encode_Inr header_arrays_def frame_constants)

lemma header_bytes_slices:
  assumes "length src = 16" and "length dst = 16" and "length nn = 24"
  shows "slice 4 20 ([a, b, c, d] @ src @ dst @ nn @ rest) = src"
    and "slice 20 36 ([a, b, c, d] @ src @ dst @ nn @ rest) = dst"
    and "slice 36 60 ([a, b, c, d] @ src @ dst @ nn @ rest) = nn"
  using assms by (simp_all add: slice_def drop_Cons')

lemma frame_header_decode_encode:
  assumes "header_arrays h" and "frame_header_encode h = Inr bs"
  shows "frame_header_decode (bs @ rest) = Inr h"
  using assms header_bytes_slices [of "fh_source h" "fh_destination h" "fh_nonce h"]
  by (cases h) (auto simp: frame_header_encode_Inr frame_header_decode_def header_arrays_def frame_constants)

lemma header_reassemble:
  assumes "60 \<le> length bs"
  shows "[bs ! 0, bs ! 1, bs ! 2, bs ! 3] @ slice 4 20 bs @ slice 20 36 bs @ slice 36 60 bs = take 60 bs"
proof -
  have "slice 4 20 bs @ slice 20 36 bs @ slice 36 60 bs = slice 4 60 bs"
    by (simp add: slice_split)
  moreover have "[bs ! 0, bs ! 1, bs ! 2, bs ! 3] = take 4 bs"
    using assms take_as_nths [of 4 bs] by (simp add: upt_rec numeral_eq_Suc)
  moreover have "take 4 bs @ slice 4 60 bs = take 60 bs"
    using take_add [of 4 56 bs] by (simp add: slice_def)
  ultimately show ?thesis by simp
qed

lemma frame_header_encode_decode:
  assumes "frame_header_decode bs = Inr h"
  shows "header_wf h" and "frame_header_encode h = Inr (take HEADER_LEN bs)"
  using assms header_reassemble [of bs]
  by (auto simp: frame_header_decode_def frame_header_encode_def header_wf_def header_arrays_def
      frame_constants known_message_type_def split: if_splits)

lemma header_wf_encodes: "header_wf h \<Longrightarrow> \<exists>bs. frame_header_encode h = Inr bs \<and> length bs = HEADER_LEN"
  by (auto simp: header_wf_def frame_header_encode_Inr header_arrays_def frame_constants)

text \<open>The frame codec as an instance of the interface of exact codecs.\<close>

definition frame_bytes :: "encoded_frame \<Rightarrow> bytes" where
  "frame_bytes f = (case encoded_frame_encode f of Inr bs \<Rightarrow> bs | Inl _ \<Rightarrow> [])"

definition frame_of_bytes :: "bytes \<Rightarrow> encoded_frame option" where
  "frame_of_bytes bs = result_ok (encoded_frame_decode bs)"

lemma frame_roundtrip:
  assumes "header_wf (ef_header f)"
  shows "\<exists>bs. encoded_frame_encode f = Inr bs \<and> encoded_frame_decode bs = Inr f"
proof -
  obtain hb where hb: "frame_header_encode (ef_header f) = Inr hb" and len: "length hb = HEADER_LEN"
    using header_wf_encodes [OF assms] by blast
  have "frame_header_decode (hb @ ef_ciphertext f) = Inr (ef_header f)"
    using assms hb by (intro frame_header_decode_encode) (simp_all add: header_wf_def)
  with hb len show ?thesis by (simp add: encoded_frame_encode_def encoded_frame_decode_def)
qed

lemma frame_decode_encode:
  assumes "encoded_frame_decode bs = Inr f"
  shows "header_wf (ef_header f)" and "encoded_frame_encode f = Inr bs"
  using assms frame_header_encode_decode
  by (auto simp: encoded_frame_decode_def encoded_frame_encode_def and_then_eq_Inr)

interpretation frame_codec: exact_codec frame_bytes frame_of_bytes "\<lambda>f. header_wf (ef_header f)"
proof unfold_locales
  fix f :: encoded_frame
  assume "header_wf (ef_header f)"
  then obtain bs where "encoded_frame_encode f = Inr bs" and "encoded_frame_decode bs = Inr f"
    using frame_roundtrip by blast
  then show "frame_of_bytes (frame_bytes f) = Some f"
    by (simp add: frame_bytes_def frame_of_bytes_def)
next
  fix bs and f :: encoded_frame
  assume "frame_of_bytes bs = Some f"
  then have "encoded_frame_decode bs = Inr f" by (simp add: frame_of_bytes_def try_simps)
  then show "header_wf (ef_header f) \<and> frame_bytes f = bs"
    using frame_decode_encode [of bs f] by (simp add: frame_bytes_def)
qed

section \<open>IPv4 destinations\<close>

definition IPV4_MIN_HEADER_LEN :: nat where "IPV4_MIN_HEADER_LEN = 20"
definition IPV4_VERSION :: u8 where "IPV4_VERSION = 4"
definition IPV4_DESTINATION_OFFSET :: nat where "IPV4_DESTINATION_OFFSET = 16"

definition ipv4_destination :: "bytes \<Rightarrow> ipv4_addr backend_result" where
  "ipv4_destination packet =
     (if length packet < IPV4_MIN_HEADER_LEN
        then Inl (CommandFailed (''packet is too short for IPv4 header: '' @ nat_to_dec (length packet)))
      else let version = drop_bit 4 (packet ! 0) in
        if version \<noteq> IPV4_VERSION
          then Inl (CommandFailed (''unsupported packet IP version: '' @ show_u8 version))
        else let header_len = unat (packet ! 0 AND 0x0F) * 4 in
          if header_len < IPV4_MIN_HEADER_LEN \<or> length packet < header_len
            then Inl (CommandFailed ''invalid IPv4 header length'')
          else Inr (Ipv4Addr (packet ! IPV4_DESTINATION_OFFSET)
                      (packet ! (IPV4_DESTINATION_OFFSET + 1))
                      (packet ! (IPV4_DESTINATION_OFFSET + 2))
                      (packet ! (IPV4_DESTINATION_OFFSET + 3))))"

lemmas packet_constants = IPV4_MIN_HEADER_LEN_def IPV4_VERSION_def IPV4_DESTINATION_OFFSET_def

lemma ipv4_destination_Inr:
  "ipv4_destination packet = Inr a \<longleftrightarrow>
     20 \<le> length packet \<and> drop_bit 4 (packet ! 0) = 4 \<and> 5 \<le> unat (packet ! 0 AND 0x0F) \<and>
     unat (packet ! 0 AND 0x0F) * 4 \<le> length packet \<and> octets a = slice 16 20 packet"
proof -
  have "slice 16 20 packet = [packet ! 16, packet ! 17, packet ! 18, packet ! 19]"
    if "20 \<le> length packet"
    using that slice_as_nths [of 20 packet 16] by (simp add: upt_rec)
  then show ?thesis
    by (cases a) (auto simp: ipv4_destination_def packet_constants Let_def not_less)
qed

section \<open>Properties\<close>

text \<open>
  C40. The frame codec is exact: a byte string decodes to a frame if and only if the frame is one
  the encoder accepts (supported version and type, zero flags, arrays of the right length) and
  encoding it gives that byte string back. So nothing is lost by sending a frame, and no two
  byte strings decode to the same frame.
\<close>

theorem frame_codec_exact:
  "encoded_frame_decode bs = Inr f \<longleftrightarrow> header_wf (ef_header f) \<and> encoded_frame_encode f = Inr bs"
proof
  show "encoded_frame_decode bs = Inr f \<Longrightarrow> header_wf (ef_header f) \<and> encoded_frame_encode f = Inr bs"
    using frame_decode_encode by blast
next
  assume "header_wf (ef_header f) \<and> encoded_frame_encode f = Inr bs"
  moreover from this have "frame_of_bytes (frame_bytes f) = Some f"
    by (intro frame_codec.decode_encode) simp
  ultimately show "encoded_frame_decode bs = Inr f"
    by (simp add: frame_bytes_def frame_of_bytes_def try_simps)
qed

text \<open>
  The packet reader returns a destination exactly for the byte strings that start with a
  complete IPv4 header (at least 20 bytes, version 4, a header length of at least five words that
  lies within the packet), and the address it returns is the four bytes at offset 16; every other
  byte string is refused with an error, never read out of bounds.
\<close>

theorem ipv4_destination_exact:
  "(\<exists>a. ipv4_destination packet = Inr a \<and> octets a = slice 16 20 packet) \<and>
     20 \<le> length packet \<and> drop_bit 4 (packet ! 0) = 4 \<and>
     unat (packet ! 0 AND 0x0F) \<in> {5..length packet div 4}
   \<or> (\<exists>m. ipv4_destination packet = Inl (CommandFailed m)) \<and>
     \<not> (20 \<le> length packet \<and> drop_bit 4 (packet ! 0) = 4 \<and>
        unat (packet ! 0 AND 0x0F) \<in> {5..length packet div 4})"
proof (cases "ipv4_destination packet")
  case (Inl e)
  then have "\<exists>m. e = CommandFailed m"
    by (auto simp: ipv4_destination_def Let_def split: if_splits)
  moreover have "\<not> (20 \<le> length packet \<and> drop_bit 4 (packet ! 0) = 4 \<and>
        unat (packet ! 0 AND 0x0F) \<in> {5..length packet div 4})"
    using Inl by (auto simp: ipv4_destination_def packet_constants Let_def split: if_splits)
  ultimately show ?thesis using Inl by blast
next
  case (Inr a)
  with ipv4_destination_Inr [of packet a] show ?thesis by auto
qed

end
