(* ===== verification/Nonce_Window.thy ===== *)
theory Nonce_Window
  imports Frame_Codec
begin

text \<open>
  Nonces and replay protection (\<open>tfscale-custom/src/nonce.rs\<close>): the sender's counter and the
  receiver's 64-bit sliding window. The window is proved to refine an abstract filter that
  remembers every accepted counter: it accepts a counter exactly when it was not accepted
  before and is less than 64 behind the highest one.
\<close>

section \<open>The sender\<close>

definition DIRECTION_PREFIX_LEN :: nat where "DIRECTION_PREFIX_LEN = 8"
definition SESSION_SALT_LEN :: nat where "SESSION_SALT_LEN = 8"
definition COUNTER_LEN :: nat where "COUNTER_LEN = 8"
definition REPLAY_WINDOW_BITS :: u64 where "REPLAY_WINDOW_BITS = 64"

record send_nonce_state =
  sn_direction_prefix :: bytes
  sn_session_salt :: bytes
  sn_counter :: u64

definition send_nonce_with_salt :: "bytes \<Rightarrow> bytes \<Rightarrow> send_nonce_state" where
  "send_nonce_with_salt direction_prefix session_salt =
     \<lparr>sn_direction_prefix = direction_prefix, sn_session_salt = session_salt, sn_counter = 0\<rparr>"

text \<open>\<open>getrandom::fill\<close> is the argument: the eight bytes it delivers, or the text of its error.\<close>

definition send_nonce_new :: "string + bytes \<Rightarrow> bytes \<Rightarrow> send_nonce_state backend_result" where
  "send_nonce_new random direction_prefix =
     and_then (map_err CommandFailed random)
       (\<lambda>session_salt. Inr \<lparr>sn_direction_prefix = direction_prefix,
          sn_session_salt = session_salt, sn_counter = 0\<rparr>)"

definition send_nonce_next :: "send_nonce_state \<Rightarrow> bytes backend_result \<times> send_nonce_state" where
  "send_nonce_next s =
     (if sn_counter s = - 1
        then (Inl (CommandFailed ''send nonce counter exhausted''), s)
      else (Inr (sn_direction_prefix s @ sn_session_salt s @ u64_to_be_bytes (sn_counter s)),
            s\<lparr>sn_counter := sn_counter s + 1\<rparr>))"

section \<open>The receiver\<close>

record replay_window =
  rw_highest :: "u64 option"
  rw_seen :: u64

definition replay_window_default :: replay_window where
  "replay_window_default = \<lparr>rw_highest = None, rw_seen = 0\<rparr>"

definition nonce_counter :: "bytes \<Rightarrow> u64" where
  "nonce_counter nonce = u64_from_be_bytes (drop (DIRECTION_PREFIX_LEN + SESSION_SALT_LEN) nonce)"

definition replay_accept :: "replay_window \<Rightarrow> bytes \<Rightarrow> unit backend_result \<times> replay_window" where
  "replay_accept w nonce =
     (let counter = nonce_counter nonce in
      case rw_highest w of
        None \<Rightarrow> (Inr (), w\<lparr>rw_highest := Some counter, rw_seen := 1\<rparr>)
      | Some highest \<Rightarrow>
          if counter > highest then
            (let shift = counter - highest;
                 seen = (if shift \<ge> REPLAY_WINDOW_BITS then 1
                         else push_bit (unat shift) (rw_seen w) OR 1)
             in (Inr (), w\<lparr>rw_seen := seen, rw_highest := Some counter\<rparr>))
          else
            (let behind = highest - counter in
             if behind \<ge> REPLAY_WINDOW_BITS
               then (Inl (CommandFailed ''stale frame nonce''), w)
             else (let bit_at = push_bit (unat behind) 1 in
               if rw_seen w AND bit_at \<noteq> 0
                 then (Inl (CommandFailed ''replayed frame nonce''), w)
               else (Inr (), w\<lparr>rw_seen := rw_seen w OR bit_at\<rparr>))))"

section \<open>Sent nonces\<close>

lemmas nonce_constants = DIRECTION_PREFIX_LEN_def SESSION_SALT_LEN_def COUNTER_LEN_def
  REPLAY_WINDOW_BITS_def

definition send_nonce_wf :: "send_nonce_state \<Rightarrow> bool" where
  "send_nonce_wf s \<longleftrightarrow> length (sn_direction_prefix s) = DIRECTION_PREFIX_LEN \<and>
     length (sn_session_salt s) = SESSION_SALT_LEN"

lemma send_nonce_next_Inr:
  "send_nonce_next s = (Inr n, s') \<longleftrightarrow>
     sn_counter s \<noteq> - 1 \<and> n = sn_direction_prefix s @ sn_session_salt s @ u64_to_be_bytes (sn_counter s) \<and>
     s' = s\<lparr>sn_counter := sn_counter s + 1\<rparr>"
  by (auto simp: send_nonce_next_def)

lemma send_nonce_next_wf:
  "send_nonce_wf s \<Longrightarrow> send_nonce_next s = (r, s') \<Longrightarrow> send_nonce_wf s'"
  by (auto simp: send_nonce_next_def send_nonce_wf_def split: if_splits)

lemma send_nonce_next_nonce:
  assumes "send_nonce_wf s" and "send_nonce_next s = (Inr n, s')"
  shows "length n = NONCE_LEN" and "take 8 n = sn_direction_prefix s"
    and "nonce_counter n = sn_counter s"
  using assms
  by (auto simp: send_nonce_next_Inr send_nonce_wf_def nonce_counter_def nonce_constants frame_constants)

lemma unat_max_u64: "unat (- 1 :: u64) = 2 ^ 64 - 1"
  by (simp add: unsigned_minus_1_eq_mask mask_eq_exp_minus_1)

lemma counter_succ: "(c :: u64) \<noteq> - 1 \<Longrightarrow> unat (c + 1) = Suc (unat c)"
proof -
  assume "c \<noteq> - 1"
  then have "1 + c \<noteq> 0" by (metis add.commute eq_neg_iff_add_eq_0)
  then show ?thesis by (simp add: unatSuc add.commute)
qed

text \<open>The nonces of \<open>k\<close> successive calls, and the sender after them.\<close>

fun send_nonces :: "nat \<Rightarrow> send_nonce_state \<Rightarrow> bytes list" where
  "send_nonces 0 s = []"
| "send_nonces (Suc k) s =
     (case send_nonce_next s of (Inr n, s') \<Rightarrow> n # send_nonces k s' | (Inl _, _) \<Rightarrow> [])"

fun after_sends :: "nat \<Rightarrow> send_nonce_state \<Rightarrow> send_nonce_state" where
  "after_sends 0 s = s"
| "after_sends (Suc k) s = after_sends k (snd (send_nonce_next s))"

lemma counter_le: "unat (c :: u64) \<le> 2 ^ 64 - 1"
  using unsigned_less [of c, where ?'a = nat] by simp

lemma send_nonces_counters:
  assumes "send_nonce_wf s"
  shows "map (\<lambda>n. unat (nonce_counter n)) (send_nonces k s) =
     [unat (sn_counter s)..<min (unat (sn_counter s) + k) (2 ^ 64 - 1)]"
  using assms
proof (induction k arbitrary: s)
  case (Suc k)
  show ?case
  proof (cases "sn_counter s = - 1")
    case True
    then have "unat (sn_counter s) = 2 ^ 64 - 1" using unat_max_u64 by simp
    with True show ?thesis by (simp add: send_nonce_next_def)
  next
    case False
    then have below: "unat (sn_counter s) < 2 ^ 64 - 1"
      using unat_max_u64 word_unat_eq_iff [of "sn_counter s" "- 1"] counter_le [of "sn_counter s"] by simp
    define s' where "s' = s\<lparr>sn_counter := sn_counter s + 1\<rparr>"
    obtain n where n: "send_nonce_next s = (Inr n, s')"
      using False by (auto simp: send_nonce_next_Inr s'_def)
    have "send_nonce_wf s'" using Suc.prems n by (rule send_nonce_next_wf)
    moreover have "unat (sn_counter s') = Suc (unat (sn_counter s))"
      using False by (simp add: s'_def counter_succ)
    ultimately have rest: "map (\<lambda>n. unat (nonce_counter n)) (send_nonces k s') =
        [Suc (unat (sn_counter s))..<min (Suc (unat (sn_counter s)) + k) (2 ^ 64 - 1)]"
      using Suc.IH [of s'] by (simp only:)
    have "[a..<min (a + Suc k) top] = a # [Suc a..<min (Suc a + k) top]" if "a < top" for a top :: nat
      using that by (simp add: upt_conv_Cons)
    moreover have "map (\<lambda>n. unat (nonce_counter n)) (send_nonces (Suc k) s) =
        unat (sn_counter s) # map (\<lambda>n. unat (nonce_counter n)) (send_nonces k s')"
      using n send_nonce_next_nonce(3) [OF Suc.prems n] by simp
    ultimately show ?thesis using below by (simp only: rest)
  qed
qed simp

lemma after_sends_counter:
  "sn_counter (after_sends k s) = word_of_nat (min (unat (sn_counter s) + k) (2 ^ 64 - 1))"
proof (induction k arbitrary: s)
  case (Suc k)
  show ?case
  proof (cases "sn_counter s = - 1")
    case True
    with Suc [of s] show ?thesis using unat_max_u64 by (simp add: send_nonce_next_def)
  next
    case False
    with Suc [of "s\<lparr>sn_counter := sn_counter s + 1\<rparr>"] show ?thesis
      by (simp add: send_nonce_next_def counter_succ)
  qed
next
  case 0
  have "unat (sn_counter s) \<le> 2 ^ 64 - 1" using counter_le [of "sn_counter s"] by simp
  then have "min (unat (sn_counter s)) (2 ^ 64 - 1) = unat (sn_counter s)" by (rule min_absorb1)
  then show ?case by (simp del: One_nat_def)
qed

lemma send_nonces_shape:
  "send_nonce_wf s \<Longrightarrow> n \<in> set (send_nonces k s) \<Longrightarrow>
     length n = NONCE_LEN \<and> take 8 n = sn_direction_prefix s"
proof (induction k arbitrary: s)
  case 0
  then show ?case by simp
next
  case (Suc k)
  obtain r s' where step: "send_nonce_next s = (r, s')" by fastforce
  with Suc.prems(1) have wf': "send_nonce_wf s'" by (rule send_nonce_next_wf)
  have "sn_direction_prefix s' = sn_direction_prefix s"
    using step by (auto simp: send_nonce_next_def split: if_splits)
  with Suc step wf' send_nonce_next_nonce(1,2) [of s n s'] show ?case
    by (cases r) (auto dest: send_nonce_next_nonce(1,2))
qed

section \<open>The window as a filter\<close>

text \<open>
  What a replay filter promises its client: it never accepts a key twice, and a refusal leaves
  it unchanged. \<open>rel w S\<close> says that \<open>S\<close> is the set of keys the filter state \<open>w\<close> has
  accepted.
\<close>

fun run_filter :: "('w \<Rightarrow> 'n \<Rightarrow> ('e + unit) \<times> 'w) \<Rightarrow> 'w \<Rightarrow> 'n list \<Rightarrow> 'n list \<times> 'w" where
  "run_filter acc w [] = ([], w)"
| "run_filter acc w (n # ns) =
     (case acc w n of
        (Inr _, w') \<Rightarrow> (let (ms, w'') = run_filter acc w' ns in (n # ms, w''))
      | (Inl _, w') \<Rightarrow> run_filter acc w' ns)"

locale replay_filter =
  fixes acc :: "'w \<Rightarrow> 'n \<Rightarrow> ('e + unit) \<times> 'w"
    and key :: "'n \<Rightarrow> 'k"
    and rel :: "'w \<Rightarrow> 'k set \<Rightarrow> bool"
    and fresh :: "'w"
  assumes rel_fresh: "rel fresh {}"
    and accepted: "rel w S \<Longrightarrow> acc w n = (Inr u, w') \<Longrightarrow> key n \<notin> S \<and> rel w' (insert (key n) S)"
    and refused: "acc w n = (Inl e, w') \<Longrightarrow> w' = w"
begin

lemma run_rel:
  "rel w S \<Longrightarrow> run_filter acc w ns = (ms, w') \<Longrightarrow>
     distinct (map key ms) \<and> key ` set ms \<inter> S = {} \<and> rel w' (S \<union> key ` set ms)"
proof (induction ns arbitrary: w S ms w')
  case Nil
  then show ?case by simp
next
  case (Cons n ns)
  obtain r w1 where step: "acc w n = (r, w1)" by fastforce
  show ?case
  proof (cases r)
    case (Inl e)
    with step have "w1 = w" by (blast dest: refused)
    with Cons step Inl show ?thesis by simp
  next
    case (Inr u)
    with step accepted [OF Cons.prems(1)] have new: "key n \<notin> S" and rel1: "rel w1 (insert (key n) S)"
      by blast+
    obtain ms1 where ms: "ms = n # ms1" and run1: "run_filter acc w1 ns = (ms1, w')"
      using Cons.prems(2) step Inr by (auto split: prod.splits)
    from Cons.IH [OF rel1 run1] new show ?thesis by (auto simp: ms)
  qed
qed

lemma run_distinct: "run_filter acc fresh ns = (ms, w) \<Longrightarrow> distinct (map key ms)"
  using run_rel [OF rel_fresh] by blast

lemma no_second_accept: "rel w S \<Longrightarrow> key n \<in> S \<Longrightarrow> \<exists>e. acc w n = (Inl e, w)"
proof -
  assume rel: "rel w S" and mem: "key n \<in> S"
  obtain r w' where step: "acc w n = (r, w')" by fastforce
  with rel mem accepted have "\<exists>e. r = Inl e" by (cases r) blast+
  with step show ?thesis by (auto dest: refused)
qed

end

text \<open>
  The window represents the set \<open>S\<close> of accepted counters: the highest is its maximum, and bit
  \<open>k\<close> tells whether the counter \<open>k\<close> below the highest is in \<open>S\<close>.
\<close>

definition window_rel :: "replay_window \<Rightarrow> nat set \<Rightarrow> bool" where
  "window_rel w S \<longleftrightarrow>
     (case rw_highest w of
        None \<Rightarrow> S = {}
      | Some h \<Rightarrow> unat h \<in> S \<and> (\<forall>c \<in> S. c \<le> unat h) \<and>
          (\<forall>k < 64. bit (rw_seen w) k \<longleftrightarrow> k \<le> unat h \<and> unat h - k \<in> S))"

definition fresh_counter :: "nat set \<Rightarrow> nat \<Rightarrow> bool" where
  "fresh_counter S c \<longleftrightarrow> c \<notin> S \<and> (\<forall>h \<in> S. h < c + 64)"

lemma window_rel_default: "window_rel replay_window_default {}"
  by (simp add: window_rel_def replay_window_default_def)

lemma and_single_bit: "(x :: u64) AND push_bit n 1 \<noteq> 0 \<longleftrightarrow> bit x n"
  by (simp add: push_bit_of_1 and_exp_eq_0_iff_not_bit)

lemma unat_sub_word: "(b :: u64) \<le> a \<Longrightarrow> unat (a - b) = unat a - unat b"
  by (simp add: unat_sub)

lemma window_first:
  assumes "window_rel w S" and "rw_highest w = None"
  shows "window_rel (w\<lparr>rw_highest := Some c, rw_seen := 1\<rparr>) {unat c}"
  using assms by (auto simp: window_rel_def bit_1_iff)

lemma window_jump:
  assumes "window_rel w S" and "rw_highest w = Some h" and "h < c" and "64 \<le> c - h"
  shows "window_rel (w\<lparr>rw_seen := 1, rw_highest := Some c\<rparr>) (insert (unat c) S)"
proof -
  have hc: "unat h < unat c" using assms(3) by (simp add: word_less_nat_alt)
  have "64 \<le> unat c - unat h"
    using assms(3,4) unat_sub_word [OF less_imp_le [OF assms(3)]] by (simp add: word_le_nat_alt)
  with assms(1,2) hc show ?thesis
    by (fastforce simp: window_rel_def bit_1_iff)
qed

lemma window_shift:
  assumes "window_rel w S" and "rw_highest w = Some h" and "h < c" and "c - h < 64"
  shows "window_rel (w\<lparr>rw_seen := push_bit (unat (c - h)) (rw_seen w) OR 1, rw_highest := Some c\<rparr>)
     (insert (unat c) S)"
proof -
  have hc: "unat h < unat c" using assms(3) by (simp add: word_less_nat_alt)
  define d where "d = unat c - unat h"
  have d: "unat (c - h) = d" "0 < d" "d < 64" "unat c = unat h + d"
    using assms(3,4) unat_sub_word [OF less_imp_le [OF assms(3)]] hc by (simp_all add: word_less_nat_alt d_def)
  have seen: "\<And>k. k < 64 \<Longrightarrow> bit (rw_seen w) k \<longleftrightarrow> k \<le> unat h \<and> unat h - k \<in> S"
    and top: "unat h \<in> S" "\<And>x. x \<in> S \<Longrightarrow> x \<le> unat h"
    using assms(1,2) by (auto simp: window_rel_def)
  have "bit (push_bit d (rw_seen w) OR 1) k \<longleftrightarrow> k \<le> unat c \<and> unat c - k \<in> insert (unat c) S"
    if k: "k < 64" for k
  proof (cases "d \<le> k")
    case True
    then have "k - d < 64" using k by simp
    with True d k seen [of "k - d"] show ?thesis
      by (auto simp: bit_simps bit_1_iff)
  next
    case False
    with d top(2) [of "unat c - k"] show ?thesis
      by (auto simp: bit_simps bit_1_iff)
  qed
  with d top show ?thesis by (fastforce simp: window_rel_def)
qed

lemma window_mark:
  assumes "window_rel w S" and "rw_highest w = Some h" and "c \<le> h" and "h - c < 64"
  shows "window_rel (w\<lparr>rw_seen := rw_seen w OR push_bit (unat (h - c)) 1\<rparr>) (insert (unat c) S)"
proof -
  have ch: "unat c \<le> unat h" using assms(3) by (simp add: word_le_nat_alt)
  have d: "unat (h - c) = unat h - unat c" "unat h - unat c < 64"
    using assms(3,4) unat_sub_word [of c h] by (simp_all add: word_less_nat_alt)
  have seen: "\<And>k. k < 64 \<Longrightarrow> bit (rw_seen w) k \<longleftrightarrow> k \<le> unat h \<and> unat h - k \<in> S"
    and top: "unat h \<in> S" "\<And>x. x \<in> S \<Longrightarrow> x \<le> unat h"
    using assms(1,2) by (auto simp: window_rel_def)
  have "bit (rw_seen w OR push_bit (unat h - unat c) 1) k \<longleftrightarrow>
      k \<le> unat h \<and> unat h - k \<in> insert (unat c) S" if k: "k < 64" for k
    using k d ch seen [of k] by (auto simp: bit_simps bit_1_iff)
  with d ch top assms(2) show ?thesis by (auto simp: window_rel_def)
qed

lemma window_bit:
  assumes "window_rel w S" and "rw_highest w = Some h" and "c \<le> h" and "h - c < 64"
  shows "rw_seen w AND push_bit (unat (h - c)) 1 \<noteq> 0 \<longleftrightarrow> unat c \<in> S"
proof -
  have ch: "unat c \<le> unat h" using assms(3) by (simp add: word_le_nat_alt)
  have d: "unat (h - c) = unat h - unat c" "unat h - unat c < 64"
    using assms(3,4) unat_sub_word [of c h] by (simp_all add: word_less_nat_alt)
  have "bit (rw_seen w) (unat h - unat c) \<longleftrightarrow> unat h - unat c \<le> unat h \<and> unat h - (unat h - unat c) \<in> S"
    using assms(1,2) d(2) by (auto simp: window_rel_def)
  then show ?thesis using ch by (simp only: and_single_bit d(1)) simp
qed

lemma fresh_counter_highest:
  assumes "window_rel w S" and "rw_highest w = Some h"
  shows "fresh_counter S c \<longleftrightarrow> c \<notin> S \<and> unat h < c + 64"
  using assms by (fastforce simp: window_rel_def fresh_counter_def)

text \<open>The exact behaviour of the window, on every branch.\<close>

lemma replay_accept_spec:
  fixes n :: bytes
  assumes rel: "window_rel w S"
  defines "c \<equiv> unat (nonce_counter n)"
  shows "fresh_counter S c \<Longrightarrow> \<exists>w'. replay_accept w n = (Inr (), w') \<and> window_rel w' (insert c S)"
    and "\<not> fresh_counter S c \<Longrightarrow>
      replay_accept w n = (Inl (CommandFailed (if \<exists>h \<in> S. c + 64 \<le> h then ''stale frame nonce''
                                               else ''replayed frame nonce'')), w)"
proof -
  let ?c = "nonce_counter n"
  have "(fresh_counter S c \<longrightarrow> (\<exists>w'. replay_accept w n = (Inr (), w') \<and> window_rel w' (insert c S))) \<and>
    (\<not> fresh_counter S c \<longrightarrow> replay_accept w n = (Inl (CommandFailed
       (if \<exists>h \<in> S. c + 64 \<le> h then ''stale frame nonce'' else ''replayed frame nonce'')), w))"
  proof (cases "rw_highest w")
    case None
    with rel have "S = {}" by (simp add: window_rel_def)
    with None rel window_first [OF rel None, of ?c] show ?thesis
      by (simp add: replay_accept_def fresh_counter_def c_def)
  next
    case (Some h)
    note fc = fresh_counter_highest [OF rel Some]
    have top: "unat h \<in> S" "\<And>x. x \<in> S \<Longrightarrow> x \<le> unat h"
      using rel Some by (auto simp: window_rel_def)
    show ?thesis
    proof (cases "?c > h")
      case True
      then have lt: "unat h < c" by (simp add: word_less_nat_alt c_def)
      with top(2) fc have "fresh_counter S c" by fastforce
      moreover have "\<exists>w'. replay_accept w n = (Inr (), w') \<and> window_rel w' (insert c S)"
        using window_jump [OF rel Some True] window_shift [OF rel Some True] True Some
        by (simp add: replay_accept_def Let_def c_def nonce_constants not_le)
      ultimately show ?thesis by blast
    next
      case False
      then have le: "?c \<le> h" by simp
      have stale: "64 \<le> h - ?c \<longleftrightarrow> c + 64 \<le> unat h"
        using le unat_sub_word [OF le] by (auto simp: word_le_nat_alt c_def)
      have some_stale: "(\<exists>x \<in> S. c + 64 \<le> x) \<longleftrightarrow> c + 64 \<le> unat h"
        using top by (meson le_trans)
      show ?thesis
      proof (cases "c + 64 \<le> unat h")
        case True
        with fc stale some_stale False Some show ?thesis
          by (simp add: replay_accept_def Let_def nonce_constants)
      next
        case False
        with stale have inwin: "h - ?c < 64" by (simp add: not_le)
        note bits = window_bit [OF rel Some le inwin]
        from False fc have "fresh_counter S c \<longleftrightarrow> c \<notin> S" by simp
        with False some_stale inwin le bits window_mark [OF rel Some le inwin] Some show ?thesis
          by (auto simp: replay_accept_def Let_def nonce_constants c_def not_le)
      qed
    qed
  qed
  then show "fresh_counter S c \<Longrightarrow> \<exists>w'. replay_accept w n = (Inr (), w') \<and> window_rel w' (insert c S)"
    and "\<not> fresh_counter S c \<Longrightarrow>
      replay_accept w n = (Inl (CommandFailed (if \<exists>h \<in> S. c + 64 \<le> h then ''stale frame nonce''
                                               else ''replayed frame nonce'')), w)"
    by blast+
qed

lemma replay_accept_refused: "replay_accept w n = (Inl e, w') \<Longrightarrow> w' = w"
  by (auto simp: replay_accept_def Let_def split: option.splits if_splits)

lemma replay_accept_accepted:
  assumes "window_rel w S" and "replay_accept w n = (Inr u, w')"
  shows "unat (nonce_counter n) \<notin> S \<and> window_rel w' (insert (unat (nonce_counter n)) S)"
proof -
  have "fresh_counter S (unat (nonce_counter n))"
    using replay_accept_spec(2) [OF assms(1)] assms(2) by force
  with replay_accept_spec(1) [OF assms(1) this] assms(2) show ?thesis
    by (auto simp: fresh_counter_def)
qed

interpretation window: replay_filter replay_accept "\<lambda>n. unat (nonce_counter n)" window_rel
  replay_window_default
  by unfold_locales (blast intro: window_rel_default dest: replay_accept_accepted replay_accept_refused)+

section \<open>Properties\<close>

text \<open>
  C6. A sender never repeats a nonce and stops when it has none left: from any counter value, \<open>k\<close> successive
  calls give as many nonces as there are counter values below the largest 64-bit number, at most \<open>k\<close>; they are pairwise
  distinct, 24 bytes long, and carry the sender's direction prefix. Once the counter is exhausted, every
  further call is refused and changes nothing.
\<close>

theorem send_nonces_distinct:
  assumes "send_nonce_wf s"
  shows "length (send_nonces k s) = min k (2 ^ 64 - 1 - unat (sn_counter s)) \<and> distinct (send_nonces k s) \<and>
     (\<forall>n \<in> set (send_nonces k s). length n = NONCE_LEN \<and> take 8 n = sn_direction_prefix s) \<and>
     (2 ^ 64 - 1 - unat (sn_counter s) \<le> k \<longrightarrow>
        send_nonce_next (after_sends k s) = (Inl (CommandFailed ''send nonce counter exhausted''), after_sends k s))"
proof (intro conjI ballI impI)
  note counters = send_nonces_counters [OF assms, of k]
  have bound: "unat (sn_counter s) \<le> 2 ^ 64 - 1" using counter_le [of "sn_counter s"] by simp
  have "length (map (\<lambda>n. unat (nonce_counter n)) (send_nonces k s)) = min k (2 ^ 64 - 1 - unat (sn_counter s))"
    unfolding counters length_upt using bound by linarith
  then show "length (send_nonces k s) = min k (2 ^ 64 - 1 - unat (sn_counter s))" by simp
  have "distinct (map (\<lambda>n. unat (nonce_counter n)) (send_nonces k s))" unfolding counters by simp
  then show "distinct (send_nonces k s)" by (simp add: distinct_map)
  show "send_nonce_next (after_sends k s) = (Inl (CommandFailed ''send nonce counter exhausted''), after_sends k s)"
    if "2 ^ 64 - 1 - unat (sn_counter s) \<le> k"
  proof -
    have "min (unat (sn_counter s) + k) (2 ^ 64 - 1) = 2 ^ 64 - 1" using that by linarith
    then have "sn_counter (after_sends k s) = - 1" unfolding after_sends_counter by simp
    then show ?thesis by (simp add: send_nonce_next_def)
  qed
qed (use send_nonces_shape [OF assms] in auto)

theorem send_nonces_distinct_witness:
  "length (send_nonces 3 \<lparr>sn_direction_prefix = replicate 8 1, sn_session_salt = replicate 8 2, sn_counter = - 2\<rparr>) = 1 \<and>
   fst (send_nonce_next (after_sends 3 \<lparr>sn_direction_prefix = replicate 8 1, sn_session_salt = replicate 8 2, sn_counter = - 2\<rparr>)) =
     Inl (CommandFailed ''send nonce counter exhausted'')"
  using send_nonces_distinct [of "\<lparr>sn_direction_prefix = replicate 8 1, sn_session_salt = replicate 8 2, sn_counter = - 2\<rparr>" 3]
  by (simp add: send_nonce_wf_def nonce_constants)

text \<open>
  C5. The replay window decides exactly like a filter with unbounded memory: when it has
  accepted the counters in \<open>S\<close>, it accepts a nonce if and only if its counter is not in
  \<open>S\<close> and no counter in \<open>S\<close> is 64 or more ahead of it; a counter 64 or more behind is
  reported stale, a counter seen before replayed, and a refusal leaves the window unchanged.
\<close>

theorem replay_window_exact:
  assumes "window_rel w S" and "c = unat (nonce_counter n)"
  shows "(\<exists>w'. replay_accept w n = (Inr (), w') \<and> window_rel w' (insert c S) \<and>
            c \<notin> S \<and> (\<forall>h \<in> S. h < c + 64))
       \<or> replay_accept w n = (Inl (CommandFailed ''stale frame nonce''), w) \<and> (\<exists>h \<in> S. c + 64 \<le> h)
       \<or> replay_accept w n = (Inl (CommandFailed ''replayed frame nonce''), w) \<and> c \<in> S \<and>
           (\<forall>h \<in> S. h < c + 64)"
proof (cases "fresh_counter S c")
  case True
  with replay_accept_spec(1) [OF assms(1), of n] assms(2) show ?thesis
    by (auto simp: fresh_counter_def)
next
  case False
  note refuse = replay_accept_spec(2) [OF assms(1), of n, folded assms(2), OF False]
  show ?thesis
  proof (cases "\<exists>h \<in> S. c + 64 \<le> h")
    case True
    with refuse show ?thesis by simp
  next
    case False
    then have "\<forall>h \<in> S. h < c + 64" by (auto simp: not_le)
    with refuse False \<open>\<not> fresh_counter S c\<close> show ?thesis by (simp add: fresh_counter_def)
  qed
qed

theorem replay_window_exact_witness:
  "replay_accept \<lparr>rw_highest = Some 70, rw_seen = 1\<rparr> (replicate 16 0 @ u64_to_be_bytes 3) =
     (Inl (CommandFailed ''stale frame nonce''), \<lparr>rw_highest = Some 70, rw_seen = 1\<rparr>)"
proof -
  have rel: "window_rel \<lparr>rw_highest = Some 70, rw_seen = 1\<rparr> {70}"
    by (auto simp: window_rel_def bit_1_iff)
  have c: "nonce_counter (replicate 16 0 @ u64_to_be_bytes 3) = 3"
    by (simp add: nonce_counter_def nonce_constants)
  show ?thesis
    using replay_window_exact [OF rel refl, of "replicate 16 0 @ u64_to_be_bytes 3"] by (simp add: c)
qed

text \<open>
  Whatever sequence of nonces arrives at a fresh window, the accepted ones have pairwise
  distinct counters: no counter is ever accepted twice.
\<close>

theorem replay_window_never_twice:
  "distinct (map (\<lambda>n. unat (nonce_counter n))
     (fst (run_filter replay_accept replay_window_default ns)))"
  by (metis prod.collapse window.run_distinct)

end
