(* ===== verification/Crypto_Session.thy ===== *)
theory Crypto_Session
  imports Nonce_Window "HOL-Library.List_Lexorder" "HOL-Library.Char_ord"
begin

text \<open>
  The encrypted peer sessions of \<open>tfscale-custom/src/crypto.rs\<close> with the credential helpers
  of \<open>lib.rs\<close>. X25519, HKDF-SHA256, XChaCha20-Poly1305, base64 and UUID parsing are third-party
  crates: they are the fields of the record \<open>crypto_prims\<close>, an argument of every definition
  that uses them, and what the code relies on is the predicate \<open>crypto_laws\<close>. The lemmas show
  that two peers derive matching sessions, that sealed messages open at the other end, and that
  an opened frame is bound to its peer, its direction and an unused counter.
\<close>

section \<open>Third-party primitives\<close>

record crypto_prims =
  diffie_hellman :: "bytes \<Rightarrow> bytes \<Rightarrow> bytes"
  public_of :: "bytes \<Rightarrow> bytes"
  hkdf_sha256 :: "bytes \<Rightarrow> bytes \<Rightarrow> bytes \<Rightarrow> nat \<Rightarrow> string + bytes"
  aead_encrypt :: "bytes \<Rightarrow> bytes \<Rightarrow> bytes \<Rightarrow> bytes \<Rightarrow> bytes option"
  aead_decrypt :: "bytes \<Rightarrow> bytes \<Rightarrow> bytes \<Rightarrow> bytes \<Rightarrow> bytes option"
  b64_encode :: "bytes \<Rightarrow> string"
  b64_decode :: "string \<Rightarrow> string + bytes"
  parse_uuid :: "string \<Rightarrow> string + bytes"

text \<open>
  Documented behaviour of the crates: decryption inverts encryption under the same key, nonce
  and associated data; the two ends of a key agreement compute the same secret; keys and derived
  strings have the length asked for; base64 decoding inverts encoding; a UUID is 16 bytes.
\<close>

definition crypto_laws :: "crypto_prims \<Rightarrow> bool" where
  "crypto_laws P \<longleftrightarrow>
     (\<forall>k n a m c. aead_encrypt P k n a m = Some c \<longrightarrow> aead_decrypt P k n a c = Some m) \<and>
     (\<forall>x y. diffie_hellman P x (public_of P y) = diffie_hellman P y (public_of P x)) \<and>
     (\<forall>x. length (public_of P x) = 32) \<and>
     (\<forall>salt ikm info n out. hkdf_sha256 P salt ikm info n = Inr out \<longrightarrow> length out = n) \<and>
     (\<forall>bs. b64_decode P (b64_encode P bs) = Inr bs) \<and>
     (\<forall>s u. parse_uuid P s = Inr u \<longrightarrow> length u = 16)"

lemma crypto_lawsD:
  assumes "crypto_laws P"
  shows "aead_encrypt P k n a m = Some c \<Longrightarrow> aead_decrypt P k n a c = Some m"
    and "diffie_hellman P x (public_of P y) = diffie_hellman P y (public_of P x)"
    and "length (public_of P x) = 32"
    and "hkdf_sha256 P salt ikm info len = Inr out \<Longrightarrow> length out = len"
    and "b64_decode P (b64_encode P bs) = Inr bs"
    and "parse_uuid P s = Inr u \<Longrightarrow> length u = 16"
  using assms unfolding crypto_laws_def by blast+

section \<open>Keys and credentials\<close>

definition PUBLIC_CREDENTIAL_PREFIX :: string where "PUBLIC_CREDENTIAL_PREFIX = ''tfpk1_''"

definition encode_key :: "crypto_prims \<Rightarrow> bytes \<Rightarrow> string" where
  "encode_key P bs = b64_encode P bs"

definition encode_public_credential :: "crypto_prims \<Rightarrow> bytes \<Rightarrow> string" where
  "encode_public_credential P bs = PUBLIC_CREDENTIAL_PREFIX @ encode_key P bs"

definition decode_base64_key :: "crypto_prims \<Rightarrow> string \<Rightarrow> bytes backend_result" where
  "decode_base64_key P value = map_err CommandFailed (b64_decode P value)"

definition decode_key :: "crypto_prims \<Rightarrow> string \<Rightarrow> bytes backend_result" where
  "decode_key P value =
     and_then (decode_base64_key P value)
       (\<lambda>bs. if length bs = 32 then Inr bs
             else Inl (CommandFailed (''expected 32-byte key, got '' @ nat_to_dec (length bs))))"

definition derive_public_credential :: "crypto_prims \<Rightarrow> string \<Rightarrow> string backend_result" where
  "derive_public_credential P private_key =
     and_then (decode_key P private_key)
       (\<lambda>private. Inr (encode_public_credential P (public_of P private)))"

definition validate_public_credential :: "crypto_prims \<Rightarrow> string \<Rightarrow> unit backend_result" where
  "validate_public_credential P value =
     and_then (ok_or (strip_prefix PUBLIC_CREDENTIAL_PREFIX value)
                 (CommandFailed ''unsupported peer credential prefix''))
       (\<lambda>encoded. and_then (decode_base64_key P encoded)
         (\<lambda>bs. if length bs \<noteq> 32
               then Inl (CommandFailed
                      (''peer credential has invalid key length: '' @ nat_to_dec (length bs)))
               else Inr ()))"

definition decode_public_credential :: "crypto_prims \<Rightarrow> string \<Rightarrow> bytes backend_result" where
  "decode_public_credential P value =
     and_then (ok_or (strip_prefix PUBLIC_CREDENTIAL_PREFIX value)
                 (CommandFailed ''unsupported peer credential prefix''))
       (\<lambda>encoded. and_then (decode_base64_key P encoded)
         (\<lambda>bs. if length bs = 32 then Inr bs
               else Inl (CommandFailed
                      (''peer credential has invalid key length: '' @ nat_to_dec (length bs)))))"

section \<open>Session keys\<close>

definition SESSION_SALT :: bytes where
  "SESSION_SALT = as_bytes ''tf-scale/custom/v1/session''"
definition SESSION_INFO_PREFIX :: bytes where
  "SESSION_INFO_PREFIX = as_bytes ''tf-scale/custom/v1/aead-key''"
definition DIRECTION_INFO_PREFIX :: bytes where
  "DIRECTION_INFO_PREFIX = as_bytes ''tf-scale/custom/v1/direction''"

definition shared_secret :: "crypto_prims \<Rightarrow> bytes \<Rightarrow> string \<Rightarrow> bytes backend_result" where
  "shared_secret P local_private_key peer_public_credential =
     and_then (decode_public_credential P peer_public_credential)
       (\<lambda>peer_public. Inr (diffie_hellman P local_private_key peer_public))"

definition append_sorted_pair :: "bytes \<Rightarrow> bytes \<Rightarrow> bytes \<Rightarrow> bytes" where
  "append_sorted_pair output left right =
     (if left \<le> right then output @ left @ right else output @ right @ left)"

definition hkdf_expand :: "crypto_prims \<Rightarrow> nat \<Rightarrow> bytes \<Rightarrow> bytes \<Rightarrow> bytes \<Rightarrow> bytes backend_result" where
  "hkdf_expand P n secret salt info = map_err CommandFailed (hkdf_sha256 P salt secret info n)"

definition derive_session_key ::
  "crypto_prims \<Rightarrow> bytes \<Rightarrow> string \<Rightarrow> string \<Rightarrow> frame_device_id \<Rightarrow> frame_device_id \<Rightarrow> bytes backend_result"
where
  "derive_session_key P secret local_public_credential peer_public_credential local_id peer_id =
     (let info = SESSION_INFO_PREFIX;
          info = append_sorted_pair info local_id peer_id;
          info = append_sorted_pair info (as_bytes local_public_credential)
                   (as_bytes peer_public_credential)
      in hkdf_expand P 32 secret SESSION_SALT info)"

definition derive_direction_prefix ::
  "crypto_prims \<Rightarrow> bytes \<Rightarrow> frame_device_id \<Rightarrow> frame_device_id \<Rightarrow> bytes backend_result" where
  "derive_direction_prefix P secret source destination =
     hkdf_expand P 8 secret SESSION_SALT (DIRECTION_INFO_PREFIX @ source @ destination)"

section \<open>Sessions\<close>

record peer_crypto_session =
  cs_local_id :: frame_device_id
  cs_peer_id :: frame_device_id
  cs_cipher :: bytes    \<comment> \<open>the key the cipher was built from\<close>
  cs_send_nonces :: send_nonce_state
  cs_receive_window :: replay_window
  cs_receive_direction_prefix :: bytes

definition peer_crypto_session_new ::
  "crypto_prims \<Rightarrow> string + bytes \<Rightarrow> bytes \<Rightarrow> string \<Rightarrow> string \<Rightarrow> frame_device_id \<Rightarrow> frame_device_id
     \<Rightarrow> peer_crypto_session backend_result" where
  "peer_crypto_session_new P random local_private_key local_public_credential
       peer_public_credential local_id peer_id =
     and_then (shared_secret P local_private_key peer_public_credential) (\<lambda>secret.
     and_then (derive_session_key P secret local_public_credential peer_public_credential
                 local_id peer_id) (\<lambda>session_key.
     and_then (derive_direction_prefix P secret local_id peer_id) (\<lambda>send_direction_prefix.
     and_then (derive_direction_prefix P secret peer_id local_id) (\<lambda>receive_direction_prefix.
     and_then (send_nonce_new random send_direction_prefix) (\<lambda>send_nonces.
       Inr \<lparr>cs_local_id = local_id, cs_peer_id = peer_id, cs_cipher = session_key,
            cs_send_nonces = send_nonces, cs_receive_window = replay_window_default,
            cs_receive_direction_prefix = receive_direction_prefix\<rparr>)))))"

text \<open>The nonce counter advances before the header is encoded and the payload encrypted.\<close>

definition seal_message ::
  "crypto_prims \<Rightarrow> peer_crypto_session \<Rightarrow> bytes \<Rightarrow> u8 \<Rightarrow> bytes backend_result \<times> peer_crypto_session" where
  "seal_message P s plaintext message_type =
     (case send_nonce_next (cs_send_nonces s) of
        (Inl e, sn) \<Rightarrow> (Inl e, s\<lparr>cs_send_nonces := sn\<rparr>)
      | (Inr nonce, sn) \<Rightarrow>
          (let s' = s\<lparr>cs_send_nonces := sn\<rparr>;
               header = frame_header_new (cs_local_id s) (cs_peer_id s) nonce message_type
           in (and_then (frame_header_encode header) (\<lambda>associated_data.
               and_then (ok_or (aead_encrypt P (cs_cipher s) nonce associated_data plaintext)
                           (CommandFailed ''packet encryption failed''))
                 (\<lambda>ciphertext. encoded_frame_encode \<lparr>ef_header = header, ef_ciphertext = ciphertext\<rparr>)),
               s')))"

definition seal :: "crypto_prims \<Rightarrow> peer_crypto_session \<Rightarrow> bytes \<Rightarrow> bytes backend_result \<times> peer_crypto_session" where
  "seal P s plaintext_packet = seal_message P s plaintext_packet FRAME_TYPE_DATA"

record open_frame =
  of_message_type :: u8
  of_plaintext :: bytes

definition open_message ::
  "crypto_prims \<Rightarrow> peer_crypto_session \<Rightarrow> bytes \<Rightarrow> open_frame backend_result \<times> peer_crypto_session" where
  "open_message P s frame =
     (case encoded_frame_decode frame of
        Inl e \<Rightarrow> (Inl e, s)
      | Inr encoded \<Rightarrow>
          (let header = ef_header encoded in
           if fh_source header \<noteq> cs_peer_id s
             then (Inl (CommandFailed ''frame source does not match peer session''), s)
           else if fh_destination header \<noteq> cs_local_id s
             then (Inl (CommandFailed ''frame destination does not match local session''), s)
           else if take 8 (fh_nonce header) \<noteq> cs_receive_direction_prefix s
             then (Inl (CommandFailed ''frame nonce direction does not match peer session''), s)
           else
             (case and_then (frame_header_encode header) (\<lambda>associated_data.
                     ok_or (aead_decrypt P (cs_cipher s) (fh_nonce header) associated_data
                              (ef_ciphertext encoded))
                       (CommandFailed ''packet authentication failed'')) of
                Inl e \<Rightarrow> (Inl e, s)
              | Inr plaintext \<Rightarrow>
                  (case replay_accept (cs_receive_window s) (fh_nonce header) of
                     (Inl e, w) \<Rightarrow> (Inl e, s\<lparr>cs_receive_window := w\<rparr>)
                   | (Inr _, w) \<Rightarrow>
                       (Inr \<lparr>of_message_type = fh_message_type header, of_plaintext = plaintext\<rparr>,
                        s\<lparr>cs_receive_window := w\<rparr>)))))"

definition open_packet :: "crypto_prims \<Rightarrow> peer_crypto_session \<Rightarrow> bytes \<Rightarrow> bytes backend_result \<times> peer_crypto_session" where
  "open_packet P s frame =
     (case open_message P s frame of
        (Inl e, s') \<Rightarrow> (Inl e, s')
      | (Inr opened, s') \<Rightarrow> (Inr (of_plaintext opened), s'))"

section \<open>Credentials\<close>

lemma decode_public_credential_encode:
  "crypto_laws P \<Longrightarrow> length bs = 32 \<Longrightarrow>
     decode_public_credential P (encode_public_credential P bs) = Inr bs"
  by (simp add: decode_public_credential_def encode_public_credential_def encode_key_def
      decode_base64_key_def crypto_lawsD)

lemma decode_key_encode: "crypto_laws P \<Longrightarrow> length bs = 32 \<Longrightarrow> decode_key P (encode_key P bs) = Inr bs"
  by (simp add: decode_key_def encode_key_def decode_base64_key_def crypto_lawsD)

lemma validate_iff_decode:
  "validate_public_credential P v = Inr () \<longleftrightarrow> (\<exists>bs. decode_public_credential P v = Inr bs)"
  by (auto simp: validate_public_credential_def decode_public_credential_def try_simps)

lemma decode_public_credential_length: "decode_public_credential P v = Inr bs \<Longrightarrow> length bs = 32"
  by (auto simp: decode_public_credential_def try_simps split: if_splits)

section \<open>Both ends agree\<close>

lemma append_sorted_pair_commute: "append_sorted_pair out x y = append_sorted_pair out y x"
  by (auto simp: append_sorted_pair_def)

lemma derive_session_key_commute:
  "derive_session_key P z c1 c2 i1 i2 = derive_session_key P z c2 c1 i2 i1"
  unfolding derive_session_key_def Let_def
  by (simp only: append_sorted_pair_commute [of _ i1 i2]
      append_sorted_pair_commute [of _ "as_bytes c1" "as_bytes c2"])

lemma hkdf_expand_length: "crypto_laws P \<Longrightarrow> hkdf_expand P n s salt info = Inr out \<Longrightarrow> length out = n"
  by (auto simp: hkdf_expand_def try_simps dest: crypto_lawsD(4))

text \<open>\<open>session_paired\<close>: what one session seals, the other is ready to open.\<close>

definition session_wf :: "peer_crypto_session \<Rightarrow> bool" where
  "session_wf s \<longleftrightarrow> length (cs_local_id s) = DEVICE_ID_LEN \<and> length (cs_peer_id s) = DEVICE_ID_LEN \<and>
     send_nonce_wf (cs_send_nonces s)"

definition session_paired :: "peer_crypto_session \<Rightarrow> peer_crypto_session \<Rightarrow> bool" where
  "session_paired l r \<longleftrightarrow> session_wf l \<and>
     cs_cipher l = cs_cipher r \<and> cs_local_id l = cs_peer_id r \<and> cs_peer_id l = cs_local_id r \<and>
     sn_direction_prefix (cs_send_nonces l) = cs_receive_direction_prefix r"

lemma peer_crypto_session_new_Inr:
  "peer_crypto_session_new P rnd k lc pc li pi = Inr s \<longleftrightarrow>
     (\<exists>z key sp rp salt. shared_secret P k pc = Inr z \<and> derive_session_key P z lc pc li pi = Inr key \<and>
        derive_direction_prefix P z li pi = Inr sp \<and> derive_direction_prefix P z pi li = Inr rp \<and>
        rnd = Inr salt \<and>
        s = \<lparr>cs_local_id = li, cs_peer_id = pi, cs_cipher = key,
             cs_send_nonces = send_nonce_with_salt sp salt,
             cs_receive_window = replay_window_default, cs_receive_direction_prefix = rp\<rparr>)"
  by (auto simp: peer_crypto_session_new_def send_nonce_new_def send_nonce_with_salt_def try_simps)

lemma shared_secret_agree:
  assumes "crypto_laws P" and "length ka = 32" and "length kb = 32"
  shows "shared_secret P ka (encode_public_credential P (public_of P kb)) =
         shared_secret P kb (encode_public_credential P (public_of P ka))"
  using crypto_lawsD(2) [OF assms(1), of ka kb]
  by (simp add: shared_secret_def decode_public_credential_encode crypto_lawsD(3) assms)

lemma sessions_paired:
  assumes P: "crypto_laws P" and "length ka = 32" and "length kb = 32"
    and "length ia = DEVICE_ID_LEN" and "length ib = DEVICE_ID_LEN"
    and "length salta = 8"
    and a: "peer_crypto_session_new P (Inr salta) ka (encode_public_credential P (public_of P ka))
              (encode_public_credential P (public_of P kb)) ia ib = Inr sa"
    and b: "peer_crypto_session_new P (Inr saltb) kb (encode_public_credential P (public_of P kb))
              (encode_public_credential P (public_of P ka)) ib ia = Inr sb"
  shows "session_paired sa sb"
proof -
  note agree = shared_secret_agree [OF P assms(2,3)]
  obtain z key sp rp where z: "shared_secret P ka (encode_public_credential P (public_of P kb)) = Inr z"
    and key: "derive_session_key P z (encode_public_credential P (public_of P ka))
        (encode_public_credential P (public_of P kb)) ia ib = Inr key"
    and sp: "derive_direction_prefix P z ia ib = Inr sp"
    and sa: "cs_local_id sa = ia" "cs_peer_id sa = ib" "cs_cipher sa = key"
      "cs_send_nonces sa = send_nonce_with_salt sp salta"
    using a by (auto simp: peer_crypto_session_new_Inr)
  have "cs_cipher sb = key" and "cs_receive_direction_prefix sb = sp"
    and "cs_local_id sb = ib" and "cs_peer_id sb = ia"
    using b agree z key sp derive_session_key_commute [of P z] by (auto simp: peer_crypto_session_new_Inr)
  moreover have "length sp = 8"
    using sp hkdf_expand_length [OF P] by (auto simp: derive_direction_prefix_def)
  ultimately show ?thesis
    using sa assms(4-6)
    by (simp add: session_paired_def session_wf_def send_nonce_wf_def send_nonce_with_salt_def nonce_constants)
qed

section \<open>Sealing and opening\<close>

lemma seal_message_Inr:
  assumes "seal_message P s m t = (Inr f, s')"
  obtains nonce sn hb c where "send_nonce_next (cs_send_nonces s) = (Inr nonce, sn)"
    and "s' = s\<lparr>cs_send_nonces := sn\<rparr>"
    and "frame_header_encode (frame_header_new (cs_local_id s) (cs_peer_id s) nonce t) = Inr hb"
    and "aead_encrypt P (cs_cipher s) nonce hb m = Some c"
    and "f = hb @ c"
  using assms
  by (auto simp: seal_message_def encoded_frame_encode_def Let_def try_simps split: prod.splits sum.splits)

lemma frame_header_new_simps [simp]:
  "fh_source (frame_header_new a b n t) = a" "fh_destination (frame_header_new a b n t) = b"
  "fh_nonce (frame_header_new a b n t) = n" "fh_message_type (frame_header_new a b n t) = t"
  by (simp_all add: frame_header_new_def)

lemma frame_header_new_arrays:
  "length a = DEVICE_ID_LEN \<Longrightarrow> length b = DEVICE_ID_LEN \<Longrightarrow> length n = NONCE_LEN \<Longrightarrow>
     header_arrays (frame_header_new a b n t)"
  by (simp add: header_arrays_def)

lemma sealed_frame_decodes:
  assumes wf: "session_wf s" and seal: "seal_message P s m t = (Inr f, s')"
  obtains nonce sn hb c where "send_nonce_next (cs_send_nonces s) = (Inr nonce, sn)"
    and "s' = s\<lparr>cs_send_nonces := sn\<rparr>"
    and "encoded_frame_decode f = Inr \<lparr>ef_header = frame_header_new (cs_local_id s) (cs_peer_id s) nonce t,
           ef_ciphertext = c\<rparr>"
    and "frame_header_encode (frame_header_new (cs_local_id s) (cs_peer_id s) nonce t) = Inr hb"
    and "aead_encrypt P (cs_cipher s) nonce hb m = Some c"
proof -
  from seal obtain nonce sn hb c where n: "send_nonce_next (cs_send_nonces s) = (Inr nonce, sn)"
    and s': "s' = s\<lparr>cs_send_nonces := sn\<rparr>"
    and hb: "frame_header_encode (frame_header_new (cs_local_id s) (cs_peer_id s) nonce t) = Inr hb"
    and c: "aead_encrypt P (cs_cipher s) nonce hb m = Some c" and f: "f = hb @ c"
    by (rule seal_message_Inr)
  have arr: "header_arrays (frame_header_new (cs_local_id s) (cs_peer_id s) nonce t)"
    using wf send_nonce_next_nonce(1) [OF _ n] by (intro frame_header_new_arrays) (simp_all add: session_wf_def)
  have "frame_header_decode f = Inr (frame_header_new (cs_local_id s) (cs_peer_id s) nonce t)"
    unfolding f using arr hb by (rule frame_header_decode_encode)
  moreover have "drop HEADER_LEN f = c"
    using frame_header_encode_length [OF arr hb] by (simp add: f)
  ultimately have "encoded_frame_decode f =
      Inr \<lparr>ef_header = frame_header_new (cs_local_id s) (cs_peer_id s) nonce t, ef_ciphertext = c\<rparr>"
    by (simp add: encoded_frame_decode_def)
  from that [OF n s' this hb c] show thesis .
qed

lemma seal_then_open:
  assumes P: "crypto_laws P" and pair: "session_paired l r"
    and seal: "seal_message P l m t = (Inr f, l')"
    and rel: "window_rel (cs_receive_window r) S"
    and fresh: "fresh_counter S (unat (sn_counter (cs_send_nonces l)))"
  shows "\<exists>r'. open_message P r f = (Inr \<lparr>of_message_type = t, of_plaintext = m\<rparr>, r') \<and>
     session_paired l' r' \<and>
     window_rel (cs_receive_window r') (insert (unat (sn_counter (cs_send_nonces l))) S) \<and>
     cs_send_nonces r' = cs_send_nonces r"
proof -
  have wf: "session_wf l" using pair by (simp add: session_paired_def)
  from wf seal obtain nonce sn hb c where n: "send_nonce_next (cs_send_nonces l) = (Inr nonce, sn)"
    and l': "l' = l\<lparr>cs_send_nonces := sn\<rparr>"
    and dec: "encoded_frame_decode f =
      Inr \<lparr>ef_header = frame_header_new (cs_local_id l) (cs_peer_id l) nonce t, ef_ciphertext = c\<rparr>"
    and hb: "frame_header_encode (frame_header_new (cs_local_id l) (cs_peer_id l) nonce t) = Inr hb"
    and c: "aead_encrypt P (cs_cipher l) nonce hb m = Some c"
    by (rule sealed_frame_decodes)
  have swf: "send_nonce_wf (cs_send_nonces l)" using wf by (simp add: session_wf_def)
  note nn = send_nonce_next_nonce [OF swf n]
  obtain w' where acc: "replay_accept (cs_receive_window r) nonce = (Inr (), w')"
    and rel': "window_rel w' (insert (unat (sn_counter (cs_send_nonces l))) S)"
    using replay_accept_spec(1) [OF rel, of nonce] fresh nn(3) by auto
  have "aead_decrypt P (cs_cipher r) nonce hb c = Some m"
    using crypto_lawsD(1) [OF P c] pair by (simp add: session_paired_def)
  then have "open_message P r f =
      (Inr \<lparr>of_message_type = t, of_plaintext = m\<rparr>, r\<lparr>cs_receive_window := w'\<rparr>)"
    using pair dec hb acc nn(2) by (simp add: open_message_def session_paired_def Let_def)
  moreover have "session_paired l' (r\<lparr>cs_receive_window := w'\<rparr>)"
    using pair swf n l' by (auto simp: session_paired_def session_wf_def send_nonce_next_Inr send_nonce_wf_def)
  ultimately show ?thesis using rel' by auto
qed

lemma open_message_Inr:
  assumes "open_message P s f = (Inr opened, s')"
  obtains fr ad w' where "encoded_frame_decode f = Inr fr"
    and "fh_source (ef_header fr) = cs_peer_id s" and "fh_destination (ef_header fr) = cs_local_id s"
    and "take 8 (fh_nonce (ef_header fr)) = cs_receive_direction_prefix s"
    and "frame_header_encode (ef_header fr) = Inr ad"
    and "aead_decrypt P (cs_cipher s) (fh_nonce (ef_header fr)) ad (ef_ciphertext fr) =
           Some (of_plaintext opened)"
    and "replay_accept (cs_receive_window s) (fh_nonce (ef_header fr)) = (Inr (), w')"
    and "of_message_type opened = fh_message_type (ef_header fr)"
    and "s' = s\<lparr>cs_receive_window := w'\<rparr>"
  using assms
  by (auto simp: open_message_def Let_def try_simps split: sum.splits prod.splits if_splits)

text \<open>A frame that was refused, for whatever reason, leaves the session as it was.\<close>

lemma open_message_Inl: "open_message P s f = (Inl e, s') \<Longrightarrow> s' = s"
  by (auto simp: open_message_def Let_def split: sum.splits prod.splits if_splits dest: replay_accept_refused)

lemma seal_message_frame:
  "seal_message P s m t = (r, s') \<Longrightarrow>
     s' = s\<lparr>cs_send_nonces := cs_send_nonces s'\<rparr> \<and> (session_wf s \<longrightarrow> session_wf s')"
  by (auto simp: seal_message_def Let_def session_wf_def dest: send_nonce_next_wf split: prod.splits sum.splits)

text \<open>The counter of a frame, as the receiver reads it.\<close>

definition frame_counter :: "bytes \<Rightarrow> nat" where
  "frame_counter f = unat (nonce_counter (slice 36 60 f))"

lemma frame_counter_decoded:
  "encoded_frame_decode f = Inr fr \<Longrightarrow> frame_counter f = unat (nonce_counter (fh_nonce (ef_header fr)))"
  by (auto simp: encoded_frame_decode_def frame_header_decode_def frame_counter_def try_simps split: if_splits)

text \<open>A session is a replay filter on whole frames: it opens no counter twice.\<close>

definition open_filter ::
  "crypto_prims \<Rightarrow> peer_crypto_session \<Rightarrow> bytes \<Rightarrow> unit backend_result \<times> peer_crypto_session" where
  "open_filter P s f =
     (case open_message P s f of (Inl e, s') \<Rightarrow> (Inl e, s') | (Inr _, s') \<Rightarrow> (Inr (), s'))"

definition session_rel :: "peer_crypto_session \<Rightarrow> nat set \<Rightarrow> bool" where
  "session_rel s S \<longleftrightarrow> window_rel (cs_receive_window s) S"

definition fresh_session :: "peer_crypto_session \<Rightarrow> peer_crypto_session" where
  "fresh_session s = s\<lparr>cs_receive_window := replay_window_default\<rparr>"

lemma open_message_accepted:
  assumes "session_rel s S" and "open_message P s f = (Inr opened, s')"
  shows "frame_counter f \<notin> S \<and> session_rel s' (insert (frame_counter f) S)"
proof -
  from assms(2) obtain fr ad w' where "encoded_frame_decode f = Inr fr"
    and "replay_accept (cs_receive_window s) (fh_nonce (ef_header fr)) = (Inr (), w')"
    and "s' = s\<lparr>cs_receive_window := w'\<rparr>"
    by (rule open_message_Inr)
  then show ?thesis using assms(1) replay_accept_accepted
    by (auto simp: session_rel_def frame_counter_decoded)
qed

interpretation session: replay_filter "open_filter P" frame_counter session_rel "fresh_session s"
  for P s
proof unfold_locales
  show "session_rel (fresh_session s) {}"
    by (simp add: session_rel_def fresh_session_def window_rel_default)
next
  fix w S n u w'
  assume "session_rel w S" and "open_filter P w n = (Inr u, w')"
  then show "frame_counter n \<notin> S \<and> session_rel w' (insert (frame_counter n) S)"
    using open_message_accepted by (auto simp: open_filter_def split: prod.splits sum.splits)
next
  fix w n e w'
  assume "open_filter P w n = (Inl e, w')"
  then show "w' = w" by (auto simp: open_filter_def dest: open_message_Inl split: prod.splits sum.splits)
qed

section \<open>A run over a lossy link\<close>

text \<open>
  The sender seals a list of messages; the flag of each says whether the network delivers the
  frame. The result lists, for every frame that was sealed and delivered, what the receiver made
  of it.
\<close>

fun transfer ::
  "crypto_prims \<Rightarrow> peer_crypto_session \<Rightarrow> peer_crypto_session \<Rightarrow> (bytes \<times> u8 \<times> bool) list
     \<Rightarrow> (bytes \<times> u8 \<times> open_frame backend_result) list" where
  "transfer P l r [] = []"
| "transfer P l r ((m, t, delivered) # msgs) =
     (case seal_message P l m t of
        (Inl _, l') \<Rightarrow> transfer P l' r msgs
      | (Inr f, l') \<Rightarrow>
          (if delivered
           then (case open_message P r f of (res, r') \<Rightarrow> (m, t, res) # transfer P l' r' msgs)
           else transfer P l' r msgs))"

definition ready_to_receive :: "peer_crypto_session \<Rightarrow> peer_crypto_session \<Rightarrow> bool" where
  "ready_to_receive l r \<longleftrightarrow> session_paired l r \<and>
     (\<exists>S. window_rel (cs_receive_window r) S \<and> (\<forall>c \<in> S. c < unat (sn_counter (cs_send_nonces l))))"

lemma seal_message_counter:
  "seal_message P l m t = (res, l') \<Longrightarrow>
     unat (sn_counter (cs_send_nonces l)) \<le> unat (sn_counter (cs_send_nonces l'))"
  by (auto simp: seal_message_def send_nonce_next_def counter_succ Let_def split: if_splits)

lemma seal_message_counter_Inr:
  "seal_message P l m t = (Inr f, l') \<Longrightarrow>
     unat (sn_counter (cs_send_nonces l')) = Suc (unat (sn_counter (cs_send_nonces l)))"
  by (auto simp: seal_message_def send_nonce_next_def counter_succ Let_def split: if_splits)

lemma seal_message_paired:
  "session_paired l r \<Longrightarrow> seal_message P l m t = (res, l') \<Longrightarrow> session_paired l' r"
  by (auto simp: seal_message_def send_nonce_next_def Let_def session_paired_def session_wf_def
      send_nonce_wf_def split: if_splits)

lemma ready_after_loss:
  assumes "ready_to_receive l r" and "seal_message P l m t = (res, l')"
  shows "ready_to_receive l' r"
  using assms seal_message_paired [OF _ assms(2)] seal_message_counter [OF assms(2)]
  unfolding ready_to_receive_def by (meson less_le_trans)

lemma ready_after_delivery:
  assumes P: "crypto_laws P" and ready: "ready_to_receive l r"
    and seal: "seal_message P l m t = (Inr f, l')"
  shows "\<exists>r'. open_message P r f = (Inr \<lparr>of_message_type = t, of_plaintext = m\<rparr>, r') \<and>
     ready_to_receive l' r'"
proof -
  let ?c = "unat (sn_counter (cs_send_nonces l))"
  from ready obtain S where pair: "session_paired l r" and rel: "window_rel (cs_receive_window r) S"
    and below: "\<And>c. c \<in> S \<Longrightarrow> c < ?c"
    unfolding ready_to_receive_def by blast
  have "fresh_counter S ?c" using below by (fastforce simp: fresh_counter_def)
  from seal_then_open [OF P pair seal rel this] obtain r' where
    op: "open_message P r f = (Inr \<lparr>of_message_type = t, of_plaintext = m\<rparr>, r')"
    and pair': "session_paired l' r'" and rel': "window_rel (cs_receive_window r') (insert ?c S)"
    by blast
  have "\<forall>c \<in> insert ?c S. c < unat (sn_counter (cs_send_nonces l'))"
    using below seal_message_counter_Inr [OF seal] by (auto intro: less_SucI)
  with op pair' rel' show ?thesis unfolding ready_to_receive_def by blast
qed

lemma transfer_opens:
  assumes "crypto_laws P" and "ready_to_receive l r" and "(m, t, res) \<in> set (transfer P l r msgs)"
  shows "res = Inr \<lparr>of_message_type = t, of_plaintext = m\<rparr>"
  using assms(2,3)
proof (induction msgs arbitrary: l r)
  case Nil
  then show ?case by simp
next
  case (Cons x msgs)
  obtain m' t' d where x: "x = (m', t', d)" by (cases x) auto
  obtain sealed l' where seal: "seal_message P l m' t' = (sealed, l')" by fastforce
  show ?case
  proof (cases sealed)
    case (Inl e)
    with Cons x seal ready_after_loss [OF Cons.prems(1) seal] show ?thesis by simp
  next
    case (Inr f)
    from ready_after_delivery [OF assms(1) Cons.prems(1)] seal Inr obtain r' where
      "open_message P r f = (Inr \<lparr>of_message_type = t', of_plaintext = m'\<rparr>, r')" and "ready_to_receive l' r'"
      by blast
    with Cons x seal Inr ready_after_loss [OF Cons.prems(1) seal] show ?thesis
      by (auto split: if_splits)
  qed
qed

lemma new_session_ready:
  assumes "session_paired sa sb" and "cs_receive_window sb = replay_window_default"
  shows "ready_to_receive sa sb"
  using assms window_rel_default unfolding ready_to_receive_def by (intro conjI exI [of _ "{}"]) auto

section \<open>An instance of the primitives\<close>

text \<open>
  Small concrete functions that satisfy \<open>crypto_laws\<close>, used by the witnesses: agreement by
  exclusive or, a checksum as authentication tag, and the identity for the text encodings.
\<close>

definition pad32 :: "bytes \<Rightarrow> bytes" where
  "pad32 x = take 32 (x @ replicate 32 0)"

definition demo_tag :: "bytes \<Rightarrow> u8" where
  "demo_tag bs = foldl (\<lambda>a b. 31 * a + b) 7 bs"

definition demo_prims :: crypto_prims where
  "demo_prims =
     \<lparr>diffie_hellman = (\<lambda>x y. map2 (+) (pad32 x) y), public_of = pad32,
      hkdf_sha256 = (\<lambda>salt ikm info n. Inr (take n (rev info @ ikm @ replicate n 0))),
      aead_encrypt = (\<lambda>k n a m. Some (m @ [demo_tag (k @ n @ a @ m)])),
      aead_decrypt = (\<lambda>k n a c. if c \<noteq> [] \<and> last c = demo_tag (k @ n @ a @ butlast c)
                                then Some (butlast c) else None),
      b64_encode = byte_chars, b64_decode = (\<lambda>s. Inr (as_bytes s)),
      parse_uuid = (\<lambda>s. if length s = 16 then Inr (as_bytes s) else Inl ''invalid length'')\<rparr>"

lemma map2_add_commute: "map2 (+) xs ys = map2 (+) ys (xs :: u8 list)"
  by (induction xs ys rule: list_induct2') (simp_all add: add.commute)

lemma length_pad32 [simp]: "length (pad32 x) = 32"
  by (simp add: pad32_def min_def)

lemma demo_prims_laws: "crypto_laws demo_prims"
  unfolding crypto_laws_def
  by (simp add: demo_prims_def map2_add_commute min_def)

section \<open>Properties\<close>

text \<open>
  C1. Two peers that create their sessions from their own private key and each other's public
  credential understand each other over a lossy link: whatever one of them seals, if the network
  delivers the frame, in order but with any frames missing, the other opens it to the same
  message of the same type.
\<close>

theorem sessions_interoperate:
  assumes "crypto_laws P" and "length ka = 32" and "length kb = 32"
    and "length ia = DEVICE_ID_LEN" and "length ib = DEVICE_ID_LEN" and "length salta = 8"
    and "peer_crypto_session_new P (Inr salta) ka (encode_public_credential P (public_of P ka))
           (encode_public_credential P (public_of P kb)) ia ib = Inr sa"
    and "peer_crypto_session_new P (Inr saltb) kb (encode_public_credential P (public_of P kb))
           (encode_public_credential P (public_of P ka)) ib ia = Inr sb"
  shows "\<forall>(m, t, res) \<in> set (transfer P sa sb msgs).
           res = Inr \<lparr>of_message_type = t, of_plaintext = m\<rparr>"
proof -
  have "session_paired sa sb" using assms by (rule sessions_paired)
  moreover have "cs_receive_window sb = replay_window_default"
    using assms(8) by (auto simp: peer_crypto_session_new_Inr)
  ultimately have "ready_to_receive sa sb" by (rule new_session_ready)
  with transfer_opens [OF assms(1)] show ?thesis by blast
qed

definition demo_session :: "u8 \<Rightarrow> u8 \<Rightarrow> peer_crypto_session" where
  "demo_session i j =
     (case peer_crypto_session_new demo_prims (Inr [9, 9, 9, 9, 9, 9, 9, 9]) (replicate 32 i)
             (encode_public_credential demo_prims (public_of demo_prims (replicate 32 i)))
             (encode_public_credential demo_prims (public_of demo_prims (replicate 32 j)))
             (replicate 16 i) (replicate 16 j) of
        Inr s \<Rightarrow> s | Inl _ \<Rightarrow> undefined)"

lemma demo_session_new:
  "peer_crypto_session_new demo_prims (Inr [9, 9, 9, 9, 9, 9, 9, 9]) (replicate 32 i)
     (encode_public_credential demo_prims (public_of demo_prims (replicate 32 i)))
     (encode_public_credential demo_prims (public_of demo_prims (replicate 32 j)))
     (replicate 16 i) (replicate 16 j) = Inr (demo_session i j)"
proof -
  have "shared_secret demo_prims (replicate 32 i)
      (encode_public_credential demo_prims (public_of demo_prims (replicate 32 j))) =
      Inr (diffie_hellman demo_prims (replicate 32 i) (public_of demo_prims (replicate 32 j)))"
    by (simp add: shared_secret_def decode_public_credential_encode demo_prims_laws
        crypto_lawsD(3) [OF demo_prims_laws])
  moreover have "\<exists>out. hkdf_expand demo_prims salt ikm info n = Inr out" for salt ikm info n
    by (simp add: hkdf_expand_def demo_prims_def)
  ultimately have "\<exists>s. peer_crypto_session_new demo_prims (Inr [9, 9, 9, 9, 9, 9, 9, 9]) (replicate 32 i)
     (encode_public_credential demo_prims (public_of demo_prims (replicate 32 i)))
     (encode_public_credential demo_prims (public_of demo_prims (replicate 32 j)))
     (replicate 16 i) (replicate 16 j) = Inr s"
    unfolding peer_crypto_session_new_def derive_session_key_def derive_direction_prefix_def Let_def
    by (simp add: and_then_eq_Inr send_nonce_new_def) metis
  then show ?thesis by (auto simp: demo_session_def)
qed

lemma demo_seals:
  assumes "known_message_type t"
  shows "\<exists>f l'. seal_message demo_prims (demo_session i j) m t = (Inr f, l')"
proof -
  have nn: "cs_send_nonces (demo_session i j) =
      send_nonce_with_salt (sn_direction_prefix (cs_send_nonces (demo_session i j))) [9, 9, 9, 9, 9, 9, 9, 9]"
    using demo_session_new [of i j] by (auto simp: peer_crypto_session_new_Inr send_nonce_with_salt_def)
  show ?thesis
    using assms by (subst seal_message_def, subst nn)
      (simp add: send_nonce_next_def send_nonce_with_salt_def demo_prims_def encoded_frame_encode_def
        frame_header_encode_def frame_header_new_def)
qed

theorem sessions_interoperate_witness:
  "list_all (\<lambda>(m, t, res). res = Inr \<lparr>of_message_type = t, of_plaintext = m\<rparr>)
     (transfer demo_prims (demo_session 1 2) (demo_session 2 1)
       [([10, 20], FRAME_TYPE_DATA, False), ([30], FRAME_TYPE_PROBE, True)])"
  unfolding list_all_iff
  by (rule sessions_interoperate [OF demo_prims_laws _ _ _ _ _ demo_session_new demo_session_new])
    (simp_all add: frame_constants)

text \<open>
  C3. An opened frame is authentic in every header byte: if a session opens a frame, the frame
  is a 60-byte header followed by a ciphertext, the header names the session's peer as source
  and the local device as destination, its nonce carries the peer's direction prefix, and the
  cipher accepted exactly these 60 header bytes as associated data.
\<close>

theorem open_message_authentic:
  assumes "open_message P s f = (Inr opened, s')"
  shows "\<exists>hb c. f = hb @ c \<and> length hb = HEADER_LEN \<and> slice 4 20 hb = cs_peer_id s \<and>
     slice 20 36 hb = cs_local_id s \<and> take 8 (slice 36 60 hb) = cs_receive_direction_prefix s \<and>
     hb ! 1 = of_message_type opened \<and> known_message_type (of_message_type opened) \<and>
     aead_decrypt P (cs_cipher s) (slice 36 60 hb) hb c = Some (of_plaintext opened)"
proof -
  from assms obtain fr ad w' where dec: "encoded_frame_decode f = Inr fr"
    and hdr: "fh_source (ef_header fr) = cs_peer_id s" "fh_destination (ef_header fr) = cs_local_id s"
      "take 8 (fh_nonce (ef_header fr)) = cs_receive_direction_prefix s"
    and ad: "frame_header_encode (ef_header fr) = Inr ad"
    and plain: "aead_decrypt P (cs_cipher s) (fh_nonce (ef_header fr)) ad (ef_ciphertext fr) =
      Some (of_plaintext opened)"
    and ty: "of_message_type opened = fh_message_type (ef_header fr)"
    by (rule open_message_Inr)
  have wf: "header_wf (ef_header fr)" using dec by (rule frame_decode_encode)
  have "f = ad @ ef_ciphertext fr"
    using frame_decode_encode(2) [OF dec] ad by (simp add: encoded_frame_encode_def)
  moreover have "length ad = HEADER_LEN"
    using wf ad frame_header_encode_length by (auto simp: header_wf_def)
  moreover have "slice 4 20 ad = fh_source (ef_header fr)" "slice 20 36 ad = fh_destination (ef_header fr)"
    "slice 36 60 ad = fh_nonce (ef_header fr)" "ad ! 1 = fh_message_type (ef_header fr)"
    using wf ad header_bytes_slices [of "fh_source (ef_header fr)" "fh_destination (ef_header fr)"
        "fh_nonce (ef_header fr)" _ _ _ _ "[]"]
    by (auto simp: frame_header_encode_Inr header_wf_def header_arrays_def frame_constants)
  ultimately show ?thesis using hdr plain ty wf
    by (intro exI [of _ ad] exI [of _ "ef_ciphertext fr"]) (simp add: header_wf_def)
qed

theorem open_message_authentic_witness:
  "\<exists>hb c. fst (seal_message demo_prims (demo_session 1 2) [42] FRAME_TYPE_DATA) = Inr (hb @ c) \<and>
     length hb = HEADER_LEN \<and> slice 4 20 hb = replicate 16 1"
proof -
  have ready: "ready_to_receive (demo_session 1 2) (demo_session 2 1)"
    by (rule new_session_ready, rule sessions_paired [OF demo_prims_laws _ _ _ _ _ demo_session_new demo_session_new])
      (use demo_session_new [of 2 1] in \<open>auto simp: frame_constants peer_crypto_session_new_Inr\<close>)
  have peer: "cs_peer_id (demo_session 2 1) = replicate 16 1"
    using demo_session_new [of 2 1] by (auto simp: peer_crypto_session_new_Inr)
  obtain f l' where seal: "seal_message demo_prims (demo_session 1 2) [42] FRAME_TYPE_DATA = (Inr f, l')"
    using demo_seals [of FRAME_TYPE_DATA 1 2 "[42]"] by (auto simp: known_message_type_def)
  obtain r' where "open_message demo_prims (demo_session 2 1) f =
      (Inr \<lparr>of_message_type = FRAME_TYPE_DATA, of_plaintext = [42]\<rparr>, r')"
    using ready_after_delivery [OF demo_prims_laws ready seal] by blast
  from open_message_authentic [OF this] seal peer show ?thesis by auto
qed

text \<open>
  Over the life of a session no frame counter is opened twice: whatever frames arrive, in
  whatever order and however often repeated, the frames a new session opens have pairwise
  distinct counters, so every frame is opened at most once.
\<close>

theorem session_opens_once:
  assumes "peer_crypto_session_new P rnd k lc pc li pi = Inr s"
  shows "distinct (map frame_counter (fst (run_filter (open_filter P) s frames)))"
proof -
  have "s = fresh_session s" using assms by (auto simp: peer_crypto_session_new_Inr fresh_session_def)
  then show ?thesis using session.run_distinct [of P s frames] by (metis prod.collapse)
qed

theorem session_opens_once_witness:
  "distinct (map frame_counter (fst (run_filter (open_filter demo_prims) (demo_session 1 2) [[1, 2], [1, 2]])))"
  by (rule session_opens_once [OF demo_session_new])

end
