(* ===== verification/Transport.thy ===== *)
theory Transport
  imports Crypto_Session "HOL-Library.Multiset"
begin

text \<open>
  \<open>tfscale-custom/src/transport.rs\<close>: the UDP socket of a node with its counters, the ranking of
  a peer's endpoints, and the discovery of the public endpoint. The operating system's side of a
  socket is part of the socket's state as the sequence of outcomes it will produce: what the
  \<open>n\<close>-th send returns and what the \<open>n\<close>-th receive finds. Every outcome sequence is allowed, so
  the lemmas hold for every behaviour of the network. The texts of the library's parse errors are
  shortened to the part that the source writes.
\<close>

section \<open>Sockets\<close>

datatype recv_outcome =
    Datagram bytes socket_addr
  | WouldBlock
  | RecvFailed string

record udp_socket =
  so_local_addr :: "string + socket_addr"
  so_send_outcome :: "nat \<Rightarrow> string + nat"
  so_recv_outcome :: "nat \<Rightarrow> recv_outcome"
  so_sends :: nat
  so_recvs :: nat
  so_outbox :: "(bytes \<times> socket_addr) list"   \<comment> \<open>datagrams handed to the network, oldest first\<close>

definition send_to :: "bytes \<Rightarrow> socket_addr \<Rightarrow> udp_socket \<Rightarrow> (string + nat) \<times> udp_socket" where
  "send_to frame addr so =
     (let so' = so\<lparr>so_sends := Suc (so_sends so)\<rparr>
      in case so_send_outcome so (so_sends so) of
           Inr n \<Rightarrow> (Inr n, so'\<lparr>so_outbox := so_outbox so @ [(frame, addr)]\<rparr>)
         | Inl e \<Rightarrow> (Inl e, so'))"

text \<open>A receive copies at most the length of the buffer; the rest of a datagram is discarded.\<close>

definition recv_from :: "nat \<Rightarrow> udp_socket \<Rightarrow> recv_outcome \<times> udp_socket" where
  "recv_from buffer_len so =
     (let so' = so\<lparr>so_recvs := Suc (so_recvs so)\<rparr>
      in case so_recv_outcome so (so_recvs so) of
           Datagram d a \<Rightarrow> (Datagram (take buffer_len d) a, so')
         | r \<Rightarrow> (r, so'))"

section \<open>Endpoints\<close>

fun is_cgnat_ipv4 :: "ipv4_addr \<Rightarrow> bool" where
  "is_cgnat_ipv4 address =
     (let o4 = octets address in o4 ! 0 = 100 \<and> 64 \<le> o4 ! 1 \<and> o4 ! 1 \<le> 127)"

fun is_private_lan :: "ip_addr \<Rightarrow> bool" where
  "is_private_lan (V4 address) =
     (ipv4_is_private address \<or> ipv4_is_link_local address \<or> is_cgnat_ipv4 address)"
| "is_private_lan (V6 address) =
     (ipv6_is_unique_local address \<or> ipv6_is_unicast_link_local address)"

definition endpoint_rank :: "endpoint \<Rightarrow> nat" where
  "endpoint_rank ep =
     (case ep_kind ep of
        Lan \<Rightarrow> if is_private_lan (ep_address ep) then 0 else 3
      | Ipv6 \<Rightarrow> 1
      | Public \<Rightarrow> 2
      | Relay \<Rightarrow> 4)"

text \<open>\<open>Iterator::min_by_key\<close>: of several minimal elements, the first one.\<close>

fun min_by_key :: "('a \<Rightarrow> nat) \<Rightarrow> 'a list \<Rightarrow> 'a option" where
  "min_by_key f [] = None"
| "min_by_key f (x # xs) =
     (case min_by_key f xs of None \<Rightarrow> Some x | Some y \<Rightarrow> if f y < f x then Some y else Some x)"

definition select_udp_endpoint :: "endpoint list \<Rightarrow> endpoint option" where
  "select_udp_endpoint endpoints =
     min_by_key endpoint_rank (filter (\<lambda>ep. ep_protocol ep = Udp) endpoints)"

definition sorted_udp_endpoints :: "endpoint list \<Rightarrow> endpoint list" where
  "sorted_udp_endpoints endpoints =
     sort_key endpoint_rank (filter (\<lambda>ep. ep_protocol ep = Udp) endpoints)"

definition endpoint_socket_addr :: "endpoint \<Rightarrow> socket_addr backend_result" where
  "endpoint_socket_addr ep =
     (if ep_protocol ep \<noteq> Udp then Inl (CommandFailed ''endpoint is not UDP transport'')
      else Inr \<lparr>sa_ip = ep_address ep, sa_port = ep_port ep\<rparr>)"

section \<open>The transport runtime\<close>

record transport_status =
  udp_bound :: bool
  ts_local_endpoints :: nat
  transport_peers :: nat
  reachable_peers :: nat
  tx_packets :: u64
  rx_packets :: u64
  tx_drops :: u64
  rx_drops :: u64
  bound_at :: "system_time option"

definition transport_status_default :: transport_status where
  "transport_status_default =
     \<lparr>udp_bound = False, ts_local_endpoints = 0, transport_peers = 0, reachable_peers = 0,
      tx_packets = 0, rx_packets = 0, tx_drops = 0, rx_drops = 0, bound_at = None\<rparr>"

record transport_runtime =
  tr_socket :: udp_socket
  tr_local_endpoint :: endpoint
  tr_status :: transport_status

definition inc_tx_packets :: "transport_runtime \<Rightarrow> transport_runtime" where
  "inc_tx_packets tr = tr\<lparr>tr_status := (tr_status tr)\<lparr>tx_packets := tx_packets (tr_status tr) + 1\<rparr>\<rparr>"

definition inc_tx_drops :: "transport_runtime \<Rightarrow> transport_runtime" where
  "inc_tx_drops tr = tr\<lparr>tr_status := (tr_status tr)\<lparr>tx_drops := tx_drops (tr_status tr) + 1\<rparr>\<rparr>"

definition inc_rx_packets :: "transport_runtime \<Rightarrow> transport_runtime" where
  "inc_rx_packets tr = tr\<lparr>tr_status := (tr_status tr)\<lparr>rx_packets := rx_packets (tr_status tr) + 1\<rparr>\<rparr>"

definition transport_record_rx_drop :: "transport_runtime \<Rightarrow> transport_runtime" where
  "transport_record_rx_drop tr =
     tr\<lparr>tr_status := (tr_status tr)\<lparr>rx_drops := rx_drops (tr_status tr) + 1\<rparr>\<rparr>"

text \<open>
  Binding a socket depends on the operating system: the outcomes of \<open>bind\<close>,
  \<open>set_nonblocking\<close> and \<open>local_addr\<close>, the LAN address found by connecting a second socket, and
  the clock.
\<close>

record bind_env =
  be_socket :: "string + udp_socket"
  be_nonblocking :: "string + unit"
  be_lan_bind :: "string + unit"
  be_lan_connect :: "string + unit"
  be_lan_addr :: "string + socket_addr"
  be_now :: system_time

definition discover_lan_ipv4 :: "bind_env \<Rightarrow> ipv4_addr option" where
  "discover_lan_ipv4 env =
     Option.bind (result_ok (be_lan_bind env)) (\<lambda>_.
     Option.bind (result_ok (be_lan_connect env)) (\<lambda>_.
     Option.bind (result_ok (be_lan_addr env)) (\<lambda>addr.
       case sa_ip addr of
         V4 address \<Rightarrow> if address \<noteq> ipv4_unspecified then Some address else None
       | V6 _ \<Rightarrow> None)))"

definition transport_bind :: "bind_env \<Rightarrow> u16 \<Rightarrow> transport_runtime backend_result" where
  "transport_bind env listen_port =
     and_then (map_err CommandFailed (be_socket env)) (\<lambda>socket.
     and_then (map_err CommandFailed (be_nonblocking env)) (\<lambda>_.
     and_then (map_err CommandFailed (so_local_addr socket)) (\<lambda>local_addr.
       let lan = (case discover_lan_ipv4 env of Some a \<Rightarrow> a | None \<Rightarrow> ipv4_localhost);
           local_endpoint = \<lparr>ep_kind = Lan, ep_address = V4 lan, ep_port = sa_port local_addr,
                             ep_protocol = Udp\<rparr>
       in Inr \<lparr>tr_socket = socket, tr_local_endpoint = local_endpoint,
               tr_status = transport_status_default
                 \<lparr>udp_bound := True, ts_local_endpoints := 1, bound_at := Some (be_now env)\<rparr>\<rparr>)))"

definition transport_local_endpoints :: "transport_runtime \<Rightarrow> endpoint list" where
  "transport_local_endpoints tr = [tr_local_endpoint tr]"

definition transport_local_addr :: "transport_runtime \<Rightarrow> socket_addr backend_result" where
  "transport_local_addr tr = map_err CommandFailed (so_local_addr (tr_socket tr))"

definition send_frame ::
  "endpoint \<Rightarrow> bytes \<Rightarrow> transport_runtime \<Rightarrow> nat backend_result \<times> transport_runtime" where
  "send_frame ep frame tr =
     (case endpoint_socket_addr ep of
        Inl e \<Rightarrow> (Inl e, tr)
      | Inr addr \<Rightarrow>
          (case send_to frame addr (tr_socket tr) of
             (Inr n, so) \<Rightarrow> (Inr n, inc_tx_packets (tr\<lparr>tr_socket := so\<rparr>))
           | (Inl e, so) \<Rightarrow> (Inl (CommandFailed e), inc_tx_drops (tr\<lparr>tr_socket := so\<rparr>))))"

definition send_packet ::
  "crypto_prims \<Rightarrow> endpoint \<Rightarrow> peer_crypto_session \<Rightarrow> bytes \<Rightarrow> transport_runtime \<Rightarrow>
     nat backend_result \<times> peer_crypto_session \<times> transport_runtime" where
  "send_packet P ep crypto packet tr =
     (case seal P crypto packet of
        (Inl e, crypto') \<Rightarrow> (Inl e, crypto', inc_tx_drops tr)
      | (Inr frame, crypto') \<Rightarrow>
          (case send_frame ep frame tr of (r, tr') \<Rightarrow> (r, crypto', tr')))"

definition receive_frame ::
  "nat \<Rightarrow> transport_runtime \<Rightarrow> (bytes \<times> socket_addr) option backend_result \<times> transport_runtime" where
  "receive_frame buffer_len tr =
     (case recv_from buffer_len (tr_socket tr) of
        (Datagram d a, so) \<Rightarrow> (Inr (Some (d, a)), inc_rx_packets (tr\<lparr>tr_socket := so\<rparr>))
      | (WouldBlock, so) \<Rightarrow> (Inr None, tr\<lparr>tr_socket := so\<rparr>)
      | (RecvFailed e, so) \<Rightarrow>
          (Inl (CommandFailed e), transport_record_rx_drop (tr\<lparr>tr_socket := so\<rparr>)))"

definition receive_packet ::
  "crypto_prims \<Rightarrow> peer_crypto_session \<Rightarrow> nat \<Rightarrow> transport_runtime \<Rightarrow>
     bytes option backend_result \<times> peer_crypto_session \<times> transport_runtime" where
  "receive_packet P crypto buffer_len tr =
     (case receive_frame buffer_len tr of
        (Inl e, tr') \<Rightarrow> (Inl e, crypto, tr')
      | (Inr None, tr') \<Rightarrow> (Inr None, crypto, tr')
      | (Inr (Some (d, _)), tr') \<Rightarrow>
          (case open_packet P crypto d of
             (Inr packet, crypto') \<Rightarrow> (Inr (Some packet), crypto', tr')
           | (Inl e, crypto') \<Rightarrow> (Inl e, crypto', transport_record_rx_drop tr')))"

section \<open>Public endpoint probe\<close>

definition PUBLIC_ENDPOINT_PROBE_REQUEST :: bytes where
  "PUBLIC_ENDPOINT_PROBE_REQUEST = as_bytes ''tfscale-public-probe-v1''"

definition encode_probe_response :: "socket_addr \<Rightarrow> bytes" where
  "encode_probe_response observed =
     as_bytes (''tfscale-public-probe-v1 '' @ ip_to_string (sa_ip observed) @ '' '' @
               nat_to_dec (unat (sa_port observed)))"

definition decode_probe_response :: "bytes \<Rightarrow> public_endpoint_probe option backend_result" where
  "decode_probe_response bs =
     (case from_utf8 bs of
        None \<Rightarrow> Inl (CommandFailed ''invalid utf-8 sequence'')
      | Some s \<Rightarrow>
          (case split_whitespace s of
             tag # address # port # _ \<Rightarrow>
               if tag \<noteq> ''tfscale-public-probe-v1'' then Inr None
               else and_then (ok_or (parse_ip address) (CommandFailed ''invalid probe address'')) (\<lambda>address.
                    and_then (ok_or (parse_u16 port) (CommandFailed ''invalid probe port'')) (\<lambda>port.
                      Inr (Some \<lparr>observed_endpoint =
                        \<lparr>ep_kind = Public, ep_address = address, ep_port = port, ep_protocol = Udp\<rparr>\<rparr>)))
           | _ \<Rightarrow> Inr None))"

definition send_probe_request ::
  "socket_addr \<Rightarrow> transport_runtime \<Rightarrow> unit backend_result \<times> transport_runtime" where
  "send_probe_request probe_server tr =
     (case send_to PUBLIC_ENDPOINT_PROBE_REQUEST probe_server (tr_socket tr) of
        (Inr _, so) \<Rightarrow> (Inr (), inc_tx_packets (tr\<lparr>tr_socket := so\<rparr>))
      | (Inl e, so) \<Rightarrow> (Inl (CommandFailed e), inc_tx_drops (tr\<lparr>tr_socket := so\<rparr>)))"

text \<open>
  The receive loop may run for ever, so it is written with fuel: one unit per receive, and
  \<open>None\<close> when the fuel ends before the loop does. \<open>clock k\<close> is what \<open>Instant::now()\<close> reads after
  the \<open>k\<close>-th receive of the socket.
\<close>

fun probe_loop ::
  "nat \<Rightarrow> (nat \<Rightarrow> int) \<Rightarrow> int \<Rightarrow> socket_addr \<Rightarrow> transport_runtime \<Rightarrow>
     (public_endpoint_probe option backend_result \<times> transport_runtime) option" where
  "probe_loop 0 clock deadline probe_server tr = None"
| "probe_loop (Suc fuel) clock deadline probe_server tr =
     (case recv_from 256 (tr_socket tr) of
        (Datagram d source, so) \<Rightarrow>
          if source = probe_server
          then Some (decode_probe_response d, inc_rx_packets (tr\<lparr>tr_socket := so\<rparr>))
          else probe_loop fuel clock deadline probe_server (inc_rx_packets (tr\<lparr>tr_socket := so\<rparr>))
      | (WouldBlock, so) \<Rightarrow>
          if deadline \<le> clock (so_recvs so) then Some (Inr None, tr\<lparr>tr_socket := so\<rparr>)
          else probe_loop fuel clock deadline probe_server (tr\<lparr>tr_socket := so\<rparr>)
      | (RecvFailed e, so) \<Rightarrow>
          Some (Inl (CommandFailed e), transport_record_rx_drop (tr\<lparr>tr_socket := so\<rparr>)))"

definition transport_probe_public_endpoint ::
  "nat \<Rightarrow> (nat \<Rightarrow> int) \<Rightarrow> socket_addr \<Rightarrow> duration \<Rightarrow> transport_runtime \<Rightarrow>
     (public_endpoint_probe option backend_result \<times> transport_runtime) option" where
  "transport_probe_public_endpoint fuel clock probe_server timeout tr =
     (case send_probe_request probe_server tr of
        (Inl e, tr') \<Rightarrow> Some (Inl e, tr')
      | (Inr _, tr') \<Rightarrow>
          probe_loop fuel clock (clock (so_recvs (tr_socket tr')) + int timeout) probe_server tr')"

section \<open>Ranking\<close>

lemma min_by_key_sort_key:
  "min_by_key f xs = (case sort_key f xs of [] \<Rightarrow> None | y # _ \<Rightarrow> Some y)"
proof (induction xs)
  case (Cons x xs)
  then show ?case
    by (cases "sort_key f xs") auto
qed simp

lemma sort_key_classes:
  assumes "\<forall>x \<in> set xs. f x < n"
  shows "sort_key f xs = concat (map (\<lambda>r. filter (\<lambda>x. f x = r) xs) [0..<n])"
proof (rule properties_for_sort_key)
  show "mset (concat (map (\<lambda>r. filter (\<lambda>x. f x = r) xs) [0..<n])) = mset xs"
    using assms
  proof (induction xs)
    case (Cons x xs)
    then have "f x < n" by simp
    have "mset (concat (map (\<lambda>r. filter (\<lambda>y. f y = r) (x # xs)) [0..<m])) =
        (if f x < m then {#x#} else {#}) + mset (concat (map (\<lambda>r. filter (\<lambda>y. f y = r) xs) [0..<m]))" for m
      by (induction m) (auto simp: less_Suc_eq)
    with Cons \<open>f x < n\<close> show ?case by simp
  qed simp
  show "sorted (map f (concat (map (\<lambda>r. filter (\<lambda>x. f x = r) xs) [0..<n])))"
  proof (induction n)
    case (Suc n)
    have "map f (filter (\<lambda>x. f x = n) xs) = replicate (length (filter (\<lambda>x. f x = n) xs)) n" by (induction xs) auto
    then have "sorted (map f (filter (\<lambda>x. f x = n) xs))" by simp
    with Suc show ?case by (auto simp: sorted_append)
  qed simp
  show "filter (\<lambda>y. f k = f y) (concat (map (\<lambda>r. filter (\<lambda>x. f x = r) xs) [0..<n])) = filter (\<lambda>y. f k = f y) xs"
    if "k \<in> set (concat (map (\<lambda>r. filter (\<lambda>x. f x = r) xs) [0..<n]))" for k
  proof -
    have "f k < n" using that assms by auto
    have "filter (\<lambda>y. f k = f y) (concat (map (\<lambda>r. filter (\<lambda>x. f x = r) xs) [0..<m])) =
        (if f k < m then filter (\<lambda>y. f k = f y) xs else [])" for m
      by (induction m) (auto simp: less_Suc_eq filter_empty_conv intro: filter_cong)
    with \<open>f k < n\<close> show ?thesis by simp
  qed
qed


section \<open>The counters\<close>

text \<open>
  Every attempt to send over the socket is counted once, as a packet when the network took the
  datagram and as a drop otherwise.
\<close>

lemma send_to_recv [simp]: "send_to f a so = (r, so') \<Longrightarrow> so_recvs so' = so_recvs so"
  by (auto simp: send_to_def Let_def split: sum.splits)

lemma send_to_recv_outcome [simp]: "send_to f a so = (r, so') \<Longrightarrow> so_recv_outcome so' = so_recv_outcome so"
  by (auto simp: send_to_def Let_def split: sum.splits)

lemmas counter_defs = inc_tx_packets_def inc_tx_drops_def inc_rx_packets_def transport_record_rx_drop_def

lemma counter_sockets [simp]:
  "tr_socket (inc_tx_packets tr) = tr_socket tr" "tr_socket (inc_tx_drops tr) = tr_socket tr"
  "tr_socket (inc_rx_packets tr) = tr_socket tr" "tr_socket (transport_record_rx_drop tr) = tr_socket tr"
  by (simp_all add: counter_defs)

lemma send_frame_Inr:
  "send_frame ep f tr = (Inr n, tr') \<Longrightarrow>
     ep_protocol ep = Udp \<and>
     so_outbox (tr_socket tr') = so_outbox (tr_socket tr) @ [(f, \<lparr>sa_ip = ep_address ep, sa_port = ep_port ep\<rparr>)]"
  by (auto simp: send_frame_def endpoint_socket_addr_def send_to_def Let_def
      split: sum.splits if_splits prod.splits)

lemma send_frame_Inl:
  "send_frame ep f tr = (Inl e, tr') \<Longrightarrow> so_outbox (tr_socket tr') = so_outbox (tr_socket tr)"
  by (auto simp: send_frame_def endpoint_socket_addr_def send_to_def Let_def
      split: sum.splits if_splits prod.splits)

text \<open>
  A packet is sent or reported: \<open>send_packet\<close> either succeeds, and then exactly one datagram,
  the sealed frame, went to the endpoint's address and the packet counter grew by one, or it
  returns an error, and then nothing left the socket.
\<close>

theorem send_packet_accounted:
  "case send_packet P ep crypto packet tr of
     (Inr n, crypto', tr') \<Rightarrow>
       ep_protocol ep = Udp \<and> (\<exists>frame. seal P crypto packet = (Inr frame, crypto') \<and>
         so_outbox (tr_socket tr') = so_outbox (tr_socket tr) @
           [(frame, \<lparr>sa_ip = ep_address ep, sa_port = ep_port ep\<rparr>)]) \<and>
       tr_status tr' = (tr_status tr)\<lparr>tx_packets := tx_packets (tr_status tr) + 1\<rparr>
   | (Inl e, crypto', tr') \<Rightarrow>
       so_outbox (tr_socket tr') = so_outbox (tr_socket tr) \<and>
       (tr_status tr' = (tr_status tr)\<lparr>tx_drops := tx_drops (tr_status tr) + 1\<rparr> \<or>
        ep_protocol ep \<noteq> Udp \<and> tr_status tr' = tr_status tr)"
  by (auto simp: send_packet_def send_frame_def endpoint_socket_addr_def send_to_def Let_def counter_defs
      split: sum.splits if_splits prod.splits)

section \<open>The probe\<close>

lemma probe_response_roundtrip:
  "decode_probe_response (encode_probe_response \<lparr>sa_ip = V4 a, sa_port = p\<rparr>) =
     Inr (Some \<lparr>observed_endpoint = \<lparr>ep_kind = Public, ep_address = V4 a, ep_port = p, ep_protocol = Udp\<rparr>\<rparr>)"
proof -
  let ?t = "''tfscale-public-probe-v1''"
  have solid_t: "c \<in> set ?t \<Longrightarrow> solid c" for c by (auto simp: solid_def)
  have asc: "ascii (?t @ '' '' @ ipv4_to_string a @ '' '' @ nat_to_dec (unat p))"
    using solid_ascii [OF ipv4_to_string_solid] by simp
  have "split_whitespace (?t @ CHR '' '' # ipv4_to_string a @ CHR '' '' # nat_to_dec (unat p)) =
      ?t # split_whitespace (ipv4_to_string a @ CHR '' '' # nat_to_dec (unat p))"
    by (rule split_whitespace_cons) (use solid_t in auto)
  also have "split_whitespace (ipv4_to_string a @ CHR '' '' # nat_to_dec (unat p)) =
      ipv4_to_string a # split_whitespace (nat_to_dec (unat p))"
    by (rule split_whitespace_cons) (use ipv4_to_string_solid in auto)
  also have "split_whitespace (nat_to_dec (unat p)) = [nat_to_dec (unat p)]"
    by (rule split_whitespace_solid) (use nat_to_dec_solid in auto)
  finally have "split_whitespace (?t @ CHR '' '' # ipv4_to_string a @ CHR '' '' # nat_to_dec (unat p)) =
      [?t, ipv4_to_string a, nat_to_dec (unat p)]" .
  with from_utf8_ascii [OF asc] show ?thesis
    by (simp add: decode_probe_response_def encode_probe_response_def)
qed

text \<open>One receive of the loop, as a predicate: it goes on only for these outcomes.\<close>

definition probe_continues :: "(nat \<Rightarrow> int) \<Rightarrow> int \<Rightarrow> socket_addr \<Rightarrow> udp_socket \<Rightarrow> nat \<Rightarrow> bool" where
  "probe_continues clock deadline probe_server so k =
     (case so_recv_outcome so k of
        Datagram _ source \<Rightarrow> source \<noteq> probe_server
      | WouldBlock \<Rightarrow> clock (Suc k) < deadline
      | RecvFailed _ \<Rightarrow> False)"

lemma probe_loop_None_iff:
  "probe_loop n clock deadline srv tr = None \<longleftrightarrow>
     (\<forall>k \<in> {so_recvs (tr_socket tr)..<so_recvs (tr_socket tr) + n}.
        probe_continues clock deadline srv (tr_socket tr) k)"
proof (induction n arbitrary: tr)
  case (Suc n)
  let ?so = "tr_socket tr" and ?r = "so_recvs (tr_socket tr)"
  have range: "{?r..<?r + Suc n} = insert ?r {Suc ?r..<Suc ?r + n}" by auto
  show ?case
    unfolding range
    by (cases "so_recv_outcome ?so ?r")
      (auto simp: Suc.IH recv_from_def probe_continues_def Let_def)
qed simp

lemma probe_loop_mono:
  "probe_loop n clock deadline srv tr = Some r \<Longrightarrow> n \<le> m \<Longrightarrow> probe_loop m clock deadline srv tr = Some r"
proof (induction n arbitrary: tr m)
  case (Suc n)
  then obtain m' where "m = Suc m'" "n \<le> m'" by (cases m) auto
  with Suc show ?case by (auto split: recv_outcome.splits prod.splits if_splits)
qed simp

lemma probe_loop_answer:
  assumes "\<forall>k \<in> {so_recvs (tr_socket tr)..<so_recvs (tr_socket tr) + n}.
      probe_continues clock deadline srv (tr_socket tr) k"
    and "so_recv_outcome (tr_socket tr) (so_recvs (tr_socket tr) + n) = Datagram d srv"
  shows "\<exists>tr'. probe_loop (Suc n) clock deadline srv tr = Some (decode_probe_response (take 256 d), tr')"
  using assms
proof (induction n arbitrary: tr)
  case 0
  then show ?case by (simp add: recv_from_def)
next
  case (Suc n)
  let ?so = "tr_socket tr"
  have now: "probe_continues clock deadline srv ?so (so_recvs ?so)" using Suc.prems(1) by auto
  have rest: "\<forall>k \<in> {Suc (so_recvs ?so)..<Suc (so_recvs ?so) + n}. probe_continues clock deadline srv ?so k"
    using Suc.prems(1) by auto
  have IH: "\<exists>tr'. probe_loop (Suc n) clock deadline srv t = Some (decode_probe_response (take 256 d), tr')"
    if "tr_socket t = ?so\<lparr>so_recvs := Suc (so_recvs ?so)\<rparr>" for t
    using that rest Suc.prems(2) by (intro Suc.IH) (auto simp: probe_continues_def)
  show ?case
    using now by (cases "so_recv_outcome ?so (so_recvs ?so)")
      (simp_all add: probe_loop.simps(2) [of "Suc n"] recv_from_def probe_continues_def IH del: probe_loop.simps)
qed

text \<open>The sleeps of the loop carry the clock over the deadline.\<close>

lemma clock_after_sleeps:
  assumes "\<And>k. blk k \<Longrightarrow> clock (Suc k) + step \<le> clock (Suc (Suc k))"
    and "\<And>k. clock k \<le> (clock (Suc k) :: int)"
  shows "clock (Suc r) + step * int (length (filter blk [r..<r + n])) \<le> clock (Suc (r + n))"
proof (induction n)
  case (Suc n)
  then show ?case
    using assms(1) [of "r + n"] assms(2) [of "Suc (r + n)"] by (auto simp: algebra_simps)
qed simp

lemma probe_cannot_continue:
  assumes sleep: "\<And>k. so_recv_outcome so k = WouldBlock \<Longrightarrow> clock (Suc k) + int (millis 10) \<le> clock (Suc (Suc k))"
    and mono: "\<And>k. clock k \<le> clock (Suc k)"
    and foreign: "\<And>n. length (filter (\<lambda>k. so_recv_outcome so k \<noteq> WouldBlock) [r..<r + n]) \<le> m"
  shows "\<not> (\<forall>k \<in> {r..<r + (m + timeout div millis 10 + 2)}. probe_continues clock (clock r + int timeout) srv so k)"
    (is "\<not> (\<forall>k \<in> {r..<r + ?n}. ?go k)")
proof
  assume go: "\<forall>k \<in> {r..<r + ?n}. ?go k"
  let ?blk = "\<lambda>k. so_recv_outcome so k = WouldBlock"
  let ?w = "\<lambda>n. length (filter ?blk [r..<r + n])"
  have bound: "?w j = 0 \<or> clock (Suc r) + int (millis 10) * (int (?w j) - 1) < clock r + int timeout"
    if "j \<le> ?n" for j
    using that
  proof (induction j)
    case (Suc j)
    show ?case
    proof (cases "?blk (r + j)")
      case True
      with go Suc.prems have "clock (Suc (r + j)) < clock r + int timeout"
        by (auto simp: probe_continues_def dest!: bspec [of _ _ "r + j"])
      with True clock_after_sleeps [of ?blk clock "int (millis 10)" r j] sleep mono show ?thesis
        by auto
    qed (use Suc in auto)
  qed simp
  have "?w ?n + length (filter (\<lambda>k. \<not> ?blk k) [r..<r + ?n]) = ?n"
    using sum_length_filter_compl [of ?blk "[r..<r + ?n]"] by simp
  with foreign [of ?n] have many: "timeout div millis 10 + 2 \<le> ?w ?n" by linarith
  define q where "q = timeout div millis 10 + 1"
  with many have "int q \<le> int (?w ?n) - 1" by linarith
  then have "int (millis 10) * int q \<le> int (millis 10) * (int (?w ?n) - 1)" by (rule mult_left_mono) (rule of_nat_0_le_iff)
  also have "\<dots> < int timeout" using bound [of ?n] many mono [of r] by linarith
  finally have "millis 10 * q < timeout" by (simp only: of_nat_mult [symmetric] of_nat_less_iff)
  moreover have "timeout < millis 10 * q"
    using dividend_less_times_div [of "millis 10" timeout] by (simp add: q_def)
  ultimately show False by simp
qed

text \<open>
  C39. The public-endpoint probe returns: when every sleep of the loop advances the clock by its
  ten milliseconds and only finitely many datagrams of other senders (at most \<open>m\<close>) are waiting,
  the loop ends after at most one receive per foreign datagram and per ten milliseconds of the
  time-out, plus one.
\<close>

theorem probe_public_endpoint_returns:
  assumes sleep: "\<And>k. so_recv_outcome (tr_socket tr) k = WouldBlock \<Longrightarrow> clock (Suc k) + int (millis 10) \<le> clock (Suc (Suc k))"
    and mono: "\<And>k. clock k \<le> clock (Suc k)"
    and foreign: "\<And>n. length (filter (\<lambda>k. so_recv_outcome (tr_socket tr) k \<noteq> WouldBlock)
                    [so_recvs (tr_socket tr)..<so_recvs (tr_socket tr) + n]) \<le> m"
  shows "\<exists>r. transport_probe_public_endpoint (m + timeout div millis 10 + 2) clock srv timeout tr = Some r"
proof (cases "send_probe_request srv tr")
  case (Pair res tr')
  then have so: "so_recvs (tr_socket tr') = so_recvs (tr_socket tr)"
    "so_recv_outcome (tr_socket tr') = so_recv_outcome (tr_socket tr)"
    by (auto simp: send_probe_request_def split: prod.splits sum.splits)
  let ?r = "so_recvs (tr_socket tr)" and ?n = "m + timeout div millis 10 + 2"
  have "probe_loop ?n clock (clock ?r + int timeout) srv tr' \<noteq> None"
    unfolding probe_loop_None_iff so
    by (rule probe_cannot_continue [where m = m])
      (use sleep mono foreign so in \<open>auto simp: probe_continues_def\<close>)
  then show ?thesis
    using Pair so by (auto simp: transport_probe_public_endpoint_def split: sum.splits)
qed

text \<open>A socket on the loopback interface whose receives follow a given function.\<close>

definition demo_addr :: "u8 \<Rightarrow> u16 \<Rightarrow> socket_addr" where
  "demo_addr i p = \<lparr>sa_ip = V4 (Ipv4Addr 192 168 1 i), sa_port = p\<rparr>"

definition demo_transport :: "(nat \<Rightarrow> recv_outcome) \<Rightarrow> transport_runtime" where
  "demo_transport recv =
     \<lparr>tr_socket = \<lparr>so_local_addr = Inr (demo_addr 1 41641), so_send_outcome = (\<lambda>_. Inr 0),
        so_recv_outcome = recv, so_sends = 0, so_recvs = 0, so_outbox = []\<rparr>,
      tr_local_endpoint = \<lparr>ep_kind = Lan, ep_address = V4 (Ipv4Addr 192 168 1 1), ep_port = 41641,
        ep_protocol = Udp\<rparr>,
      tr_status = transport_status_default\<rparr>"

lemma demo_one_foreign:
  "length (filter (\<lambda>k. k = (0 :: nat)) [0..<n]) \<le> 1"
  by (induction n) auto

theorem probe_public_endpoint_returns_witness:
  "\<exists>r. transport_probe_public_endpoint (1 + millis 1500 div millis 10 + 2) (\<lambda>k. int k * 10000000)
     (demo_addr 9 80) (millis 1500)
     (demo_transport (\<lambda>k. if k = 0 then Datagram [1] (demo_addr 5 5) else WouldBlock)) = Some r"
  by (rule probe_public_endpoint_returns) (use demo_one_foreign in \<open>auto simp: demo_transport_def\<close>)

text \<open>
  The time-out of the probe is checked only when the socket is empty: as long as datagrams
  of other senders keep arriving, the loop does not end, however far the clock has passed the
  deadline.
\<close>

theorem probe_ignores_deadline_under_traffic:
  assumes "\<And>k. \<exists>d source. so_recv_outcome (tr_socket tr) k = Datagram d source \<and> source \<noteq> srv"
    and "so_send_outcome (tr_socket tr) (so_sends (tr_socket tr)) = Inr sent"
  shows "transport_probe_public_endpoint fuel clock srv timeout tr = None"
proof -
  have go: "probe_continues clock deadline srv so k"
    if "so_recv_outcome so = so_recv_outcome (tr_socket tr)" for so deadline k
    using assms(1) [of k] that by (auto simp: probe_continues_def)
  obtain so' where sent: "send_to PUBLIC_ENDPOINT_PROBE_REQUEST srv (tr_socket tr) = (Inr sent, so')"
    "so_recv_outcome so' = so_recv_outcome (tr_socket tr)"
    using assms(2) by (auto simp: send_to_def Let_def)
  then show ?thesis
    by (auto simp: transport_probe_public_endpoint_def send_probe_request_def probe_loop_None_iff go)
qed

theorem probe_ignores_deadline_under_traffic_witness:
  "transport_probe_public_endpoint 1000000 (\<lambda>k. int k * 10000000) (demo_addr 9 80) (millis 1)
     (demo_transport (\<lambda>k. Datagram [1] (demo_addr 5 5))) = None"
  by (rule probe_ignores_deadline_under_traffic [of _ _ 0]) (simp_all add: demo_transport_def demo_addr_def)

text \<open>
  The probe finds the public endpoint: when the server's answer, naming the address it
  observed, arrives after any datagrams of other senders and before the deadline, the probe
  returns that address as a public UDP endpoint.
\<close>

theorem probe_finds_public_endpoint:
  assumes "so_send_outcome (tr_socket tr) (so_sends (tr_socket tr)) = Inr sent"
    and "\<And>k. k < n \<Longrightarrow> probe_continues clock (clock (so_recvs (tr_socket tr)) + int timeout) srv (tr_socket tr)
            (so_recvs (tr_socket tr) + k)"
    and "so_recv_outcome (tr_socket tr) (so_recvs (tr_socket tr) + n) =
           Datagram (encode_probe_response \<lparr>sa_ip = V4 a, sa_port = p\<rparr>) srv"
  shows "\<exists>tr'. transport_probe_public_endpoint (Suc n) clock srv timeout tr =
     Some (Inr (Some \<lparr>observed_endpoint =
       \<lparr>ep_kind = Public, ep_address = V4 a, ep_port = p, ep_protocol = Udp\<rparr>\<rparr>), tr')"
proof -
  let ?resp = "encode_probe_response \<lparr>sa_ip = V4 a, sa_port = p\<rparr>"
  obtain so' where sent: "send_to PUBLIC_ENDPOINT_PROBE_REQUEST srv (tr_socket tr) = (Inr sent, so')"
    "so_recv_outcome so' = so_recv_outcome (tr_socket tr)" "so_recvs so' = so_recvs (tr_socket tr)"
    using assms(1) by (auto simp: send_to_def Let_def)
  have "length (nat_to_dec (unat p)) \<le> 5"
    using unsigned_less [of p, where 'a = nat] by (intro nat_to_dec_length) simp_all
  then have "take 256 ?resp = ?resp"
    using ipv4_to_string_length [of a] by (simp add: encode_probe_response_def)
  moreover have "\<exists>tr''. probe_loop (Suc n) clock (clock (so_recvs so') + int timeout) srv
      (inc_tx_packets (tr\<lparr>tr_socket := so'\<rparr>)) = Some (decode_probe_response (take 256 ?resp), tr'')"
  proof (rule probe_loop_answer)
    show "so_recv_outcome (tr_socket (inc_tx_packets (tr\<lparr>tr_socket := so'\<rparr>)))
        (so_recvs (tr_socket (inc_tx_packets (tr\<lparr>tr_socket := so'\<rparr>))) + n) = Datagram ?resp srv"
      using assms(3) sent by simp
  qed (use assms(2) sent in \<open>fastforce simp: probe_continues_def dest: le_Suc_ex\<close>)
  ultimately show ?thesis
    using sent by (simp add: transport_probe_public_endpoint_def send_probe_request_def probe_response_roundtrip
        del: probe_loop.simps)
qed

theorem probe_finds_public_endpoint_witness:
  "\<exists>tr'. transport_probe_public_endpoint (Suc 2) (\<lambda>k. int k * 10000000) (demo_addr 9 80) (millis 1500)
     (demo_transport (\<lambda>k. if k = 0 then Datagram [1] (demo_addr 5 5) else if k = 1 then WouldBlock
        else Datagram (encode_probe_response \<lparr>sa_ip = V4 (Ipv4Addr 203 0 113 7), sa_port = 1234\<rparr>) (demo_addr 9 80))) =
     Some (Inr (Some \<lparr>observed_endpoint =
       \<lparr>ep_kind = Public, ep_address = V4 (Ipv4Addr 203 0 113 7), ep_port = 1234, ep_protocol = Udp\<rparr>\<rparr>), tr')"
  by (rule probe_finds_public_endpoint)
    (auto simp: demo_transport_def demo_addr_def probe_continues_def less_2_cases_iff)

end
