(* ===== verification/Tun_Device.thy ===== *)
theory Tun_Device
  imports Transport
begin

text \<open>
  \<open>tfscale-custom/src/tun.rs\<close> and \<open>platform/\<close>: the TUN interface, the commands the Linux and macOS
  back ends run to configure it and to take it down again. The operating system is a record of
  outcomes: what each command run returns, whether the device can be created, what the device's
  reads and writes return. The commands that were run are logged in order.
\<close>

section \<open>Configuration and status\<close>

definition OVERLAY_CIDR :: string where "OVERLAY_CIDR = ''100.64.0.0/10''"

record tun_config =
  tc_interface_name :: string
  tc_overlay_ip :: ipv4_addr
  tc_listen_port :: u16
  tc_overlay_cidr :: string

definition from_local_config :: "local_backend_config \<Rightarrow> tun_config" where
  "from_local_config config =
     \<lparr>tc_interface_name = lc_interface_name config, tc_overlay_ip = lc_overlay_ip config,
      tc_listen_port = lc_listen_port config, tc_overlay_cidr = OVERLAY_CIDR\<rparr>"

record tun_status =
  tus_configured :: bool
  tus_interface_name :: string
  tus_io_ready :: bool
  tus_message :: "string option"

definition tun_status_configured :: "string \<Rightarrow> tun_status" where
  "tun_status_configured interface_name =
     \<lparr>tus_configured = True, tus_interface_name = interface_name, tus_io_ready = True,
      tus_message = None\<rparr>"

definition tun_status_failed :: "string \<Rightarrow> string \<Rightarrow> tun_status" where
  "tun_status_failed interface_name message =
     \<lparr>tus_configured = False, tus_interface_name = interface_name, tus_io_ready = False,
      tus_message = Some message\<rparr>"

section \<open>Commands\<close>

record planned_command =
  cmd_program :: string
  cmd_args :: "string list"

definition planned_command_new :: "string \<Rightarrow> string list \<Rightarrow> planned_command" where
  "planned_command_new program args = \<lparr>cmd_program = program, cmd_args = args\<rparr>"

text \<open>The standard error of a command is given as the text \<open>from_utf8_lossy\<close> makes of it.\<close>

datatype command_outcome =
    SpawnNotFound
  | SpawnFailed string
  | Exited bool string

datatype tun_read = TunPacket bytes | TunWouldBlock | TunReadFailed string

record raw_device =
  rd_name :: "string + string"
  rd_nonblocking :: "string + unit"
  rd_read :: "nat \<Rightarrow> tun_read"
  rd_would_block :: string            \<comment> \<open>the system's text for a read that would block\<close>
  rd_write :: "nat \<Rightarrow> string + nat"

record os_env =
  os_command :: "nat \<Rightarrow> command_outcome"    \<comment> \<open>outcome of the \<open>n\<close>-th command run\<close>
  os_log :: "planned_command list"          \<comment> \<open>the commands run so far\<close>
  os_dev_net_tun :: bool
  os_build_device :: "string option \<Rightarrow> string + raw_device"

definition run_command :: "planned_command \<Rightarrow> os_env \<Rightarrow> unit backend_result \<times> os_env" where
  "run_command command os =
     ((case os_command os (length (os_log os)) of
         SpawnNotFound \<Rightarrow> Inl (MissingCommand (cmd_program command))
       | SpawnFailed e \<Rightarrow> Inl (CommandFailed e)
       | Exited success err \<Rightarrow>
           if success then Inr ()
           else let stderr = trim err in
             Inl (CommandFailed (cmd_program command @ '' '' @ join_with '' '' (cmd_args command) @
               '' failed'' @ (if stderr = [] then [] else '': '') @ stderr))),
      os\<lparr>os_log := os_log os @ [command]\<rparr>)"

text \<open>\<open>for command in commands { run_command(&command)?; }\<close>\<close>

fun run_commands :: "planned_command list \<Rightarrow> os_env \<Rightarrow> unit backend_result \<times> os_env" where
  "run_commands [] os = (Inr (), os)"
| "run_commands (c # cs) os =
     (case run_command c os of
        (Inl e, os') \<Rightarrow> (Inl e, os')
      | (Inr _, os') \<Rightarrow> run_commands cs os')"

text \<open>\<open>for command in commands { let _ = run_command(&command); }\<close>\<close>

definition run_all_commands :: "planned_command list \<Rightarrow> os_env \<Rightarrow> os_env" where
  "run_all_commands cs os = fold (\<lambda>c os. snd (run_command c os)) cs os"

section \<open>Devices\<close>

record tun_device =
  td_interface_name :: string
  td_cleanup_commands :: "planned_command list"
  td_device :: raw_device
  td_reads :: nat
  td_writes :: nat
  td_written :: "bytes list"     \<comment> \<open>packets the device accepted, oldest first\<close>

definition tun_device_of :: "string \<Rightarrow> planned_command list \<Rightarrow> raw_device \<Rightarrow> tun_device" where
  "tun_device_of interface_name cleanup_commands device =
     \<lparr>td_interface_name = interface_name, td_cleanup_commands = cleanup_commands,
      td_device = device, td_reads = 0, td_writes = 0, td_written = []\<rparr>"

definition tun_status_of :: "tun_device \<Rightarrow> tun_status" where
  "tun_status_of tun = tun_status_configured (td_interface_name tun)"

definition tun_read_packet :: "nat \<Rightarrow> tun_device \<Rightarrow> bytes backend_result \<times> tun_device" where
  "tun_read_packet buffer_len tun =
     (case rd_read (td_device tun) (td_reads tun) of
        TunPacket p \<Rightarrow> (Inr (take buffer_len p), tun\<lparr>td_reads := Suc (td_reads tun)\<rparr>)
      | TunWouldBlock \<Rightarrow>
          (Inl (CommandFailed (rd_would_block (td_device tun))), tun\<lparr>td_reads := Suc (td_reads tun)\<rparr>)
      | TunReadFailed e \<Rightarrow> (Inl (CommandFailed e), tun\<lparr>td_reads := Suc (td_reads tun)\<rparr>))"

definition tun_try_read_packet :: "nat \<Rightarrow> tun_device \<Rightarrow> bytes option backend_result \<times> tun_device" where
  "tun_try_read_packet buffer_len tun =
     (case rd_read (td_device tun) (td_reads tun) of
        TunPacket p \<Rightarrow> (Inr (Some (take buffer_len p)), tun\<lparr>td_reads := Suc (td_reads tun)\<rparr>)
      | TunWouldBlock \<Rightarrow> (Inr None, tun\<lparr>td_reads := Suc (td_reads tun)\<rparr>)
      | TunReadFailed e \<Rightarrow> (Inl (CommandFailed e), tun\<lparr>td_reads := Suc (td_reads tun)\<rparr>))"

definition tun_write_packet :: "bytes \<Rightarrow> tun_device \<Rightarrow> nat backend_result \<times> tun_device" where
  "tun_write_packet packet tun =
     (case rd_write (td_device tun) (td_writes tun) of
        Inr n \<Rightarrow> (Inr n, tun\<lparr>td_writes := Suc (td_writes tun), td_written := td_written tun @ [packet]\<rparr>)
      | Inl e \<Rightarrow> (Inl (CommandFailed e), tun\<lparr>td_writes := Suc (td_writes tun)\<rparr>))"

definition tun_shutdown :: "tun_device \<Rightarrow> os_env \<Rightarrow> unit backend_result \<times> os_env" where
  "tun_shutdown tun os = (Inr (), run_all_commands (td_cleanup_commands tun) os)"

section \<open>Linux\<close>

definition linux_plan_ip_commands :: "tun_config \<Rightarrow> planned_command list" where
  "linux_plan_ip_commands config =
     [planned_command_new ''ip''
        [''addr'', ''replace'', ipv4_to_string (tc_overlay_ip config) @ ''/32'', ''dev'', tc_interface_name config],
      planned_command_new ''ip'' [''link'', ''set'', tc_interface_name config, ''up''],
      planned_command_new ''ip''
        [''route'', ''replace'', tc_overlay_cidr config, ''dev'', tc_interface_name config]]"

definition linux_plan_cleanup_commands :: "tun_config \<Rightarrow> planned_command list" where
  "linux_plan_cleanup_commands config =
     [planned_command_new ''ip''
        [''route'', ''del'', tc_overlay_cidr config, ''dev'', tc_interface_name config],
      planned_command_new ''ip'' [''link'', ''del'', tc_interface_name config]]"

definition linux_configure_tun_device :: "tun_config \<Rightarrow> os_env \<Rightarrow> raw_device backend_result" where
  "linux_configure_tun_device config os =
     (if \<not> os_dev_net_tun os then Inl (MissingCommand ''missing Linux TUN device: /dev/net/tun'')
      else and_then (map_err (\<lambda>e. CommandFailed (''failed to create TUN device: '' @ e))
                       (os_build_device os (Some (tc_interface_name config)))) (\<lambda>device.
           and_then (map_err CommandFailed (rd_nonblocking device)) (\<lambda>_. Inr device)))"

definition linux_configure_tun :: "tun_config \<Rightarrow> os_env \<Rightarrow> tun_device backend_result \<times> os_env" where
  "linux_configure_tun config os =
     (case linux_configure_tun_device config os of
        Inl e \<Rightarrow> (Inl e, os)
      | Inr device \<Rightarrow>
          (case run_commands (linux_plan_ip_commands config) os of
             (Inl e, os') \<Rightarrow> (Inl e, os')
           | (Inr _, os') \<Rightarrow>
               (Inr (tun_device_of (tc_interface_name config) (linux_plan_cleanup_commands config) device), os')))"

section \<open>macOS\<close>

definition requested_utun_name :: "tun_config \<Rightarrow> string option" where
  "requested_utun_name config =
     (if starts_with (tc_interface_name config) ''utun'' then Some (tc_interface_name config) else None)"

definition macos_plan_ifconfig_commands :: "tun_config \<Rightarrow> string \<Rightarrow> planned_command list" where
  "macos_plan_ifconfig_commands config interface_name =
     [planned_command_new ''ifconfig''
        [interface_name, ''inet'', ipv4_to_string (tc_overlay_ip config),
         ipv4_to_string (tc_overlay_ip config), ''netmask'', ''255.255.255.255'', ''up'']]"

definition macos_plan_route_commands :: "tun_config \<Rightarrow> string \<Rightarrow> planned_command list" where
  "macos_plan_route_commands config interface_name =
     [planned_command_new ''route''
        [''-n'', ''add'', ''-net'', tc_overlay_cidr config, ''-interface'', interface_name]]"

definition macos_plan_cleanup_commands :: "tun_config \<Rightarrow> string \<Rightarrow> planned_command list" where
  "macos_plan_cleanup_commands config interface_name =
     [planned_command_new ''route''
        [''-n'', ''delete'', ''-net'', tc_overlay_cidr config, ''-interface'', interface_name],
      planned_command_new ''ifconfig'' [interface_name, ''down'']]"

definition macos_configure_tun_device :: "tun_config \<Rightarrow> os_env \<Rightarrow> raw_device backend_result" where
  "macos_configure_tun_device config os =
     and_then (map_err (\<lambda>e. CommandFailed (''failed to create utun device: '' @ e))
                 (os_build_device os (requested_utun_name config))) (\<lambda>device.
     and_then (map_err CommandFailed (rd_nonblocking device)) (\<lambda>_. Inr device))"

definition macos_configure_tun :: "tun_config \<Rightarrow> os_env \<Rightarrow> tun_device backend_result \<times> os_env" where
  "macos_configure_tun config os =
     (case and_then (macos_configure_tun_device config os) (\<lambda>device.
             and_then (map_err CommandFailed (rd_name device)) (\<lambda>name. Inr (device, name))) of
        Inl e \<Rightarrow> (Inl e, os)
      | Inr (device, interface_name) \<Rightarrow>
          (case run_commands (macos_plan_ifconfig_commands config interface_name) os of
             (Inl e, os') \<Rightarrow> (Inl e, os')
           | (Inr _, os') \<Rightarrow>
               (case run_commands (macos_plan_route_commands config interface_name) os' of
                  (Inl e, os'') \<Rightarrow> (Inl e, os'')
                | (Inr _, os'') \<Rightarrow>
                    (Inr (tun_device_of interface_name (macos_plan_cleanup_commands config interface_name) device),
                     os''))))"

section \<open>The platform of the build\<close>

datatype target_os = Linux | Macos | OtherOs string

definition unsupported_platform_error :: "string \<Rightarrow> backend_error" where
  "unsupported_platform_error os_name =
     UnsupportedPlatform (''TUN setup is not supported on '' @ os_name)"

definition tun_configure :: "target_os \<Rightarrow> tun_config \<Rightarrow> os_env \<Rightarrow> tun_device backend_result \<times> os_env" where
  "tun_configure target config os =
     (case target of
        Linux \<Rightarrow> linux_configure_tun config os
      | Macos \<Rightarrow> macos_configure_tun config os
      | OtherOs name \<Rightarrow> (Inl (unsupported_platform_error name), os))"

section \<open>What is run\<close>

definition command_ok :: "os_env \<Rightarrow> nat \<Rightarrow> bool" where
  "command_ok os n = (case os_command os n of Exited success _ \<Rightarrow> success | _ \<Rightarrow> False)"

lemma run_command_log [simp]: "snd (run_command c os) = os\<lparr>os_log := os_log os @ [c]\<rparr>"
  by (simp add: run_command_def)

lemma run_command_result: "(fst (run_command c os) = Inr ()) = command_ok os (length (os_log os))"
  by (auto simp: run_command_def command_ok_def Let_def split: command_outcome.splits)

lemma command_ok_log [simp]: "command_ok (os\<lparr>os_log := l\<rparr>) = command_ok os"
  by (simp add: command_ok_def fun_eq_iff)

lemma run_command_Pair:
  "run_command c os = (r, os') \<Longrightarrow>
     os' = os\<lparr>os_log := os_log os @ [c]\<rparr> \<and> (r = Inr () \<longleftrightarrow> command_ok os (length (os_log os)))"
  using run_command_log [of c os] run_command_result [of c os] by simp

lemma run_commands_Inr:
  "run_commands cs os = (Inr u, os') \<Longrightarrow>
     (\<forall>j < length cs. command_ok os (length (os_log os) + j)) \<and> os' = os\<lparr>os_log := os_log os @ cs\<rparr>"
proof (induction cs arbitrary: os)
  case (Cons c cs)
  from Cons.prems obtain os1 where "run_command c os = (Inr (), os1)" "run_commands cs os1 = (Inr u, os')"
    by (auto split: prod.splits sum.splits)
  with Cons.IH [of os1] show ?case
    by (auto simp: less_Suc_eq_0_disj dest!: run_command_Pair)
qed simp

lemma run_commands_Inl:
  "run_commands cs os = (Inl e, os') \<Longrightarrow>
     \<exists>k < length cs. \<not> command_ok os (length (os_log os) + k) \<and>
       (\<forall>j < k. command_ok os (length (os_log os) + j)) \<and> os' = os\<lparr>os_log := os_log os @ take (Suc k) cs\<rparr>"
proof (induction cs arbitrary: os)
  case (Cons c cs)
  obtain r os1 where run: "run_command c os = (r, os1)" by (cases "run_command c os")
  note first = run_command_Pair [OF run]
  show ?case
  proof (cases r)
    case (Inl e')
    with Cons.prems run have "os' = os1" by simp
    with first Inl show ?thesis by (intro exI [of _ 0]) simp
  next
    case (Inr v)
    with Cons.prems run have "run_commands cs os1 = (Inl e, os')" by simp
    from Cons.IH [OF this] obtain k where "k < length cs" "\<not> command_ok os (Suc (length (os_log os) + k))"
      "\<forall>j < k. command_ok os (Suc (length (os_log os) + j))"
      "os' = os\<lparr>os_log := os_log os @ c # take (Suc k) cs\<rparr>"
      using first by auto
    with first Inr show ?thesis by (intro exI [of _ "Suc k"]) (auto simp: less_Suc_eq_0_disj)
  qed
qed simp

lemma run_all_commands_log [simp]: "run_all_commands cs os = os\<lparr>os_log := os_log os @ cs\<rparr>"
  by (induction cs arbitrary: os) (simp_all add: run_all_commands_def)

lemma run_commands_append:
  "run_commands (cs @ ds) os =
     (case run_commands cs os of (Inl e, os') \<Rightarrow> (Inl e, os') | (Inr _, os') \<Rightarrow> run_commands ds os')"
  by (induction cs arbitrary: os) (auto split: sum.splits prod.splits)

text \<open>The set-up of either platform, as one plan over a device and the name of its interface.\<close>

definition setup_plan :: "target_os \<Rightarrow> tun_config \<Rightarrow> string \<Rightarrow> planned_command list" where
  "setup_plan target config name =
     (case target of
        Macos \<Rightarrow> macos_plan_ifconfig_commands config name @ macos_plan_route_commands config name
      | _ \<Rightarrow> linux_plan_ip_commands config)"

definition cleanup_plan :: "target_os \<Rightarrow> tun_config \<Rightarrow> string \<Rightarrow> planned_command list" where
  "cleanup_plan target config name =
     (case target of Macos \<Rightarrow> macos_plan_cleanup_commands config name | _ \<Rightarrow> linux_plan_cleanup_commands config)"

definition opened_device :: "target_os \<Rightarrow> tun_config \<Rightarrow> os_env \<Rightarrow> (raw_device \<times> string) backend_result" where
  "opened_device target config os =
     (case target of
        Linux \<Rightarrow> and_then (linux_configure_tun_device config os) (\<lambda>d. Inr (d, tc_interface_name config))
      | Macos \<Rightarrow> and_then (macos_configure_tun_device config os) (\<lambda>d.
                   and_then (map_err CommandFailed (rd_name d)) (\<lambda>n. Inr (d, n)))
      | OtherOs name \<Rightarrow> Inl (unsupported_platform_error name))"

lemma tun_configure_by_plan:
  "tun_configure target config os =
     (case opened_device target config os of
        Inl e \<Rightarrow> (Inl e, os)
      | Inr (d, name) \<Rightarrow>
          (case run_commands (setup_plan target config name) os of
             (Inl e, os') \<Rightarrow> (Inl e, os')
           | (Inr _, os') \<Rightarrow> (Inr (tun_device_of name (cleanup_plan target config name) d), os')))"
  by (auto simp: tun_configure_def opened_device_def linux_configure_tun_def macos_configure_tun_def
      setup_plan_def cleanup_plan_def run_commands_append and_then_def
      split: target_os.splits sum.splits prod.splits)

text \<open>
  Configuring the TUN interface is all or nothing, and stopping is complete: on either
  platform the device is returned exactly when it could be opened and every command of the
  set-up plan succeeded, in which case exactly that plan was run; otherwise an error is returned
  and the commands run are the plan up to and including the first that failed. Shutting the
  returned device down then runs every clean-up command, even if some of them fail.
\<close>

theorem tun_configure_all_or_nothing:
  "case tun_configure target config os of
     (Inr tun, os') \<Rightarrow>
       \<exists>d name. opened_device target config os = Inr (d, name) \<and>
         list_all (command_ok os) [length (os_log os)..<length (os_log os) + length (setup_plan target config name)] \<and>
         tun_status_of tun = tun_status_configured name \<and>
         os' = os\<lparr>os_log := os_log os @ setup_plan target config name\<rparr> \<and>
         tun_shutdown tun os' =
           (Inr (), os\<lparr>os_log := os_log os @ setup_plan target config name @ cleanup_plan target config name\<rparr>)
   | (Inl e, os') \<Rightarrow>
       opened_device target config os = Inl e \<and> os' = os \<or>
       (\<exists>d name k. opened_device target config os = Inr (d, name) \<and> k < length (setup_plan target config name) \<and>
          \<not> command_ok os (length (os_log os) + k) \<and>
          list_all (command_ok os) [length (os_log os)..<length (os_log os) + k] \<and>
          os' = os\<lparr>os_log := os_log os @ take (Suc k) (setup_plan target config name)\<rparr>)"
proof (cases "opened_device target config os")
  case (Inl e)
  then show ?thesis by (simp add: tun_configure_by_plan)
next
  case (Inr dn)
  obtain d name where dn: "dn = (d, name)" by (cases dn)
  obtain r os' where run: "run_commands (setup_plan target config name) os = (r, os')"
    by (cases "run_commands (setup_plan target config name) os")
  have all: "list_all (command_ok os) [n..<n + m] \<longleftrightarrow> (\<forall>j < m. command_ok os (n + j))" for n m
    by (force simp: list_all_iff dest: le_Suc_ex)
  show ?thesis
  proof (cases r)
    case (Inl e)
    with run_commands_Inl run obtain k where "k < length (setup_plan target config name)"
      "\<not> command_ok os (length (os_log os) + k)" "\<forall>j < k. command_ok os (length (os_log os) + j)"
      "os' = os\<lparr>os_log := os_log os @ take (Suc k) (setup_plan target config name)\<rparr>"
      by blast
    with run Inl \<open>opened_device target config os = Inr dn\<close> dn all show ?thesis
      by (auto simp: tun_configure_by_plan)
  next
    case (Inr u)
    with run_commands_Inr run have "os' = os\<lparr>os_log := os_log os @ setup_plan target config name\<rparr>"
      "\<forall>j < length (setup_plan target config name). command_ok os (length (os_log os) + j)"
      by blast+
    with run Inr \<open>opened_device target config os = Inr dn\<close> dn all show ?thesis
      by (simp add: tun_configure_by_plan tun_shutdown_def tun_device_of_def tun_status_of_def)
  qed
qed

end
