(* ===== verification/Peer_Paths.thy ===== *)
theory Peer_Paths
  imports Tun_Device
begin

text \<open>
  The path to a peer in \<open>tfscale-custom/src/lib.rs\<close>: \<open>PeerPathState\<close> and the functions that read
  and change it. A path is unknown, direct (over UDP) or relayed; probes go out while it is not
  direct, an answer makes it direct, and three stale checks in a row give it up.
\<close>

section \<open>State\<close>

definition DIRECT_PROBE_INTERVAL :: duration where "DIRECT_PROBE_INTERVAL = secs 5"
definition DIRECT_FAST_PROBE_INTERVAL :: duration where "DIRECT_FAST_PROBE_INTERVAL = millis 250"
definition DIRECT_FAST_PROBE_BURST_ATTEMPTS :: u8 where "DIRECT_FAST_PROBE_BURST_ATTEMPTS = 8"
definition DIRECT_PROBE_STALE_AFTER :: duration where "DIRECT_PROBE_STALE_AFTER = secs 15"
definition DIRECT_PROBE_FAILURE_THRESHOLD :: u32 where "DIRECT_PROBE_FAILURE_THRESHOLD = 3"

lemmas path_constants = DIRECT_PROBE_INTERVAL_def DIRECT_FAST_PROBE_INTERVAL_def
  DIRECT_FAST_PROBE_BURST_ATTEMPTS_def DIRECT_PROBE_STALE_AFTER_def DIRECT_PROBE_FAILURE_THRESHOLD_def

datatype peer_path_kind = PathUnknown | PathDirect | PathRelay

record peer_path_state =
  current_path :: peer_path_kind
  active_endpoint :: "endpoint option"
  last_probe_at :: "system_time option"
  last_success_at :: "system_time option"
  last_probe_sent_at_unix_millis :: "nat option"
  fast_probe_attempts_remaining :: u8
  failures :: u32
  rtt_ms :: "u64 option"

definition peer_path_state_default :: peer_path_state where
  "peer_path_state_default =
     \<lparr>current_path = PathUnknown, active_endpoint = None, last_probe_at = None,
      last_success_at = None, last_probe_sent_at_unix_millis = None,
      fast_probe_attempts_remaining = DIRECT_FAST_PROBE_BURST_ATTEMPTS, failures = 0, rtt_ms = None\<rparr>"

text \<open>\<open>now_unix_millis()\<close> and \<open>now_unix_seconds()\<close> of a clock reading; zero before the epoch.\<close>

definition unix_millis :: "system_time \<Rightarrow> nat" where
  "unix_millis t = (case duration_since t 0 of Some d \<Rightarrow> d div 1000000 | None \<Rightarrow> 0)"

definition unix_seconds :: "system_time \<Rightarrow> nat" where
  "unix_seconds t = (case duration_since t 0 of Some d \<Rightarrow> d div 1000000000 | None \<Rightarrow> 0)"

section \<open>Operations\<close>

definition peer_path_probe_due :: "peer_path_state \<Rightarrow> system_time \<Rightarrow> bool" where
  "peer_path_probe_due state now =
     (let interval = (if current_path state \<noteq> PathDirect \<and> fast_probe_attempts_remaining state > 0
                      then DIRECT_FAST_PROBE_INTERVAL else DIRECT_PROBE_INTERVAL)
      in case Option.bind (last_probe_at state) (duration_since now) of
           Some elapsed \<Rightarrow> interval \<le> elapsed
         | None \<Rightarrow> True)"

text \<open>What \<open>probe_peer_direct_paths\<close> records once a peer's probes are sent.\<close>

definition record_probe :: "system_time \<Rightarrow> nat \<Rightarrow> peer_path_state \<Rightarrow> peer_path_state" where
  "record_probe now sent_at state =
     (let state = state\<lparr>last_probe_at := Some now, last_probe_sent_at_unix_millis := Some sent_at\<rparr>;
          state = (if fast_probe_attempts_remaining state > 0
                   then state\<lparr>fast_probe_attempts_remaining := fast_probe_attempts_remaining state - 1\<rparr>
                   else state)
      in if current_path state \<noteq> PathDirect
         then state\<lparr>failures := saturating_inc (failures state)\<rparr> else state)"

text \<open>The part of \<open>mark_peer_direct\<close> that changes the path state.\<close>

definition path_mark_direct ::
  "system_time \<Rightarrow> endpoint \<Rightarrow> u64 option \<Rightarrow> peer_path_state \<Rightarrow> peer_path_state" where
  "path_mark_direct now ep rtt state =
     state\<lparr>current_path := PathDirect, active_endpoint := Some ep, last_success_at := Some now,
           failures := 0, rtt_ms := rtt, fast_probe_attempts_remaining := 0\<rparr>"

definition relay_endpoint :: "relay_config \<Rightarrow> endpoint" where
  "relay_endpoint relay =
     \<lparr>ep_kind = Relay, ep_address = V4 ipv4_unspecified, ep_port = 0, ep_protocol = Tcp\<rparr>"

text \<open>The body of the loop of \<open>expire_stale_direct_paths\<close>.\<close>

definition path_stale :: "system_time \<Rightarrow> peer_path_state \<Rightarrow> bool" where
  "path_stale now state =
     (case Option.bind (last_success_at state) (duration_since now) of
        Some elapsed \<Rightarrow> DIRECT_PROBE_STALE_AFTER \<le> elapsed
      | None \<Rightarrow> True)"

definition path_expire :: "relay_config list \<Rightarrow> system_time \<Rightarrow> peer_path_state \<Rightarrow> peer_path_state" where
  "path_expire relays now state =
     (if current_path state \<noteq> PathDirect then state
      else let state = (if path_stale now state
                        then state\<lparr>failures := saturating_inc (failures state)\<rparr> else state)
           in if DIRECT_PROBE_FAILURE_THRESHOLD \<le> failures state
              then (case relays of
                      [] \<Rightarrow> state\<lparr>current_path := PathUnknown, active_endpoint := None\<rparr>
                    | relay # _ \<Rightarrow> state\<lparr>current_path := PathRelay,
                                        active_endpoint := Some (relay_endpoint relay)\<rparr>)
                   \<lparr>rtt_ms := None, fast_probe_attempts_remaining := DIRECT_FAST_PROBE_BURST_ATTEMPTS\<rparr>
              else state)"

definition probe_payload :: "nat \<Rightarrow> bytes" where
  "probe_payload sent_at = as_bytes (''probe '' @ nat_to_dec sent_at)"

definition payload_timestamp :: "string \<Rightarrow> bytes \<Rightarrow> nat option" where
  "payload_timestamp tag payload =
     Option.bind (strip_prefix (as_bytes tag) payload) (\<lambda>value.
     Option.bind (from_utf8 value) parse_u128)"

definition encode_probe_response_payload :: "nat \<Rightarrow> bytes \<Rightarrow> bytes" where
  "encode_probe_response_payload now_millis payload =
     (let timestamp = (case payload_timestamp ''probe '' payload of Some t \<Rightarrow> t | None \<Rightarrow> now_millis)
      in as_bytes (''probe_response '' @ nat_to_dec timestamp))"

definition probe_response_rtt_ms :: "bytes \<Rightarrow> nat \<Rightarrow> u64 option" where
  "probe_response_rtt_ms payload now_millis =
     (case payload_timestamp ''probe_response '' payload of
        None \<Rightarrow> None
      | Some timestamp \<Rightarrow>
          if timestamp \<le> now_millis \<and> now_millis - timestamp < 2 ^ 64
          then Some (of_nat (now_millis - timestamp)) else None)"

section \<open>Reports\<close>

definition endpoint_text :: "endpoint \<Rightarrow> string" where
  "endpoint_text ep = ip_to_string (ep_address ep) @ '':'' @ nat_to_dec (unat (ep_port ep))"

definition direct_path_text :: "string \<times> peer_path_state \<Rightarrow> string option" where
  "direct_path_text entry =
     (case entry of (device_id, state) \<Rightarrow>
        if current_path state \<noteq> PathDirect then None
        else map_option (\<lambda>ep. device_id @ ''@'' @ endpoint_text ep @ ''/rtt='' @
               (case rtt_ms state of Some v \<Rightarrow> nat_to_dec (unat v) @ ''ms'' | None \<Rightarrow> ''-''))
             (active_endpoint state))"

definition direct_path_status :: "(string, peer_path_state) hmap \<Rightarrow> string" where
  "direct_path_status peer_paths =
     (let paths = sort (List.map_filter direct_path_text peer_paths)
      in if paths = [] then ''none'' else join_with '','' paths)"

definition fast_probe_status :: "(string, peer_path_state) hmap \<Rightarrow> string" where
  "fast_probe_status peer_paths =
     nat_to_dec (length (filter (\<lambda>(_, state).
       current_path state \<noteq> PathDirect \<and> fast_probe_attempts_remaining state > 0) peer_paths))"

fun diagnostic_kind :: "peer_path_kind \<Rightarrow> peer_path_diagnostic_kind" where
  "diagnostic_kind PathUnknown = DiagUnknown"
| "diagnostic_kind PathDirect = DiagDirect"
| "diagnostic_kind PathRelay = DiagRelay"

text \<open>One entry of \<open>peer_path_diagnostics\<close>.\<close>

definition peer_path_diagnostic_of ::
  "string \<Rightarrow> peer_path_state option \<Rightarrow> u64 \<Rightarrow> u64 \<Rightarrow> peer_path_diagnostic" where
  "peer_path_diagnostic_of device_id state tx rx =
     \<lparr>pd_device_id = device_id,
      pd_path = (case state of Some s \<Rightarrow> diagnostic_kind (current_path s) | None \<Rightarrow> DiagUnknown),
      pd_endpoint = Option.bind state (\<lambda>s. map_option endpoint_text (active_endpoint s)),
      pd_rtt_ms = Option.bind state rtt_ms,
      pd_failures = (case state of Some s \<Rightarrow> failures s | None \<Rightarrow> 0),
      pd_tx_packets = tx, pd_rx_packets = rx\<rparr>"

section \<open>The life of a path\<close>

text \<open>
  The events of a path: its probes were sent, an authenticated probe or answer arrived from an
  address (\<open>open_received_frame\<close> marks the path direct with that address as a public UDP
  endpoint), or the periodic check ran with the relays known at that time.
\<close>

datatype path_event =
    ProbesSent system_time nat
  | AnswerFrom system_time socket_addr "u64 option"
  | StaleCheck "relay_config list" system_time

definition observed_udp_endpoint :: "socket_addr \<Rightarrow> endpoint" where
  "observed_udp_endpoint source_addr =
     \<lparr>ep_kind = Public, ep_address = sa_ip source_addr, ep_port = sa_port source_addr, ep_protocol = Udp\<rparr>"

fun path_apply :: "path_event \<Rightarrow> peer_path_state \<Rightarrow> peer_path_state" where
  "path_apply (ProbesSent now sent_at) s = record_probe now sent_at s"
| "path_apply (AnswerFrom now addr rtt) s = path_mark_direct now (observed_udp_endpoint addr) rtt s"
| "path_apply (StaleCheck relays now) s = path_expire relays now s"

inductive path_step :: "peer_path_state \<Rightarrow> peer_path_state \<Rightarrow> bool" where
  "path_step s (path_apply ev s)"

inductive_cases path_stepE: "path_step s t"

definition path_wf :: "peer_path_state \<Rightarrow> bool" where
  "path_wf s \<longleftrightarrow> fast_probe_attempts_remaining s \<le> DIRECT_FAST_PROBE_BURST_ATTEMPTS \<and>
     (case current_path s of
        PathDirect \<Rightarrow> (\<exists>addr. active_endpoint s = Some (observed_udp_endpoint addr)) \<and>
          fast_probe_attempts_remaining s = 0 \<and> failures s < DIRECT_PROBE_FAILURE_THRESHOLD \<and>
          last_success_at s \<noteq> None
      | PathUnknown \<Rightarrow> active_endpoint s = None \<and> rtt_ms s = None
      | PathRelay \<Rightarrow> (\<exists>relay. active_endpoint s = Some (relay_endpoint relay)) \<and> rtt_ms s = None)"

lemma path_wf_default: "path_wf peer_path_state_default"
  by (simp add: path_wf_def peer_path_state_default_def)

lemma word_dec_le: "(0 :: u8) < n \<Longrightarrow> n \<le> k \<Longrightarrow> n - 1 \<le> k"
  by (simp add: word_le_nat_alt unat_sub word_less_nat_alt)

lemma path_wf_probe: "path_wf s \<Longrightarrow> path_wf (record_probe now sent_at s)"
  by (auto simp: path_wf_def record_probe_def Let_def word_dec_le split: peer_path_kind.splits)

lemma path_wf_answer: "path_wf (path_mark_direct now (observed_udp_endpoint addr) rtt s)"
  by (auto simp: path_wf_def path_mark_direct_def path_constants)

lemma path_wf_expire: "path_wf s \<Longrightarrow> path_wf (path_expire relays now s)"
  by (auto simp: path_wf_def path_expire_def Let_def not_le split: peer_path_kind.splits list.splits)

lemma path_step_wf: "path_wf s \<Longrightarrow> path_step s t \<Longrightarrow> path_wf t"
proof (elim path_stepE)
  fix ev
  assume "path_wf s" and "t = path_apply ev s"
  then show "path_wf t" by (cases ev) (simp_all add: path_wf_probe path_wf_answer path_wf_expire)
qed

interpretation paths: transition_system "\<lambda>s. s = peer_path_state_default" path_step path_wf
  by unfold_locales (auto simp: path_wf_default intro: path_step_wf)

text \<open>Staleness depends on the time of the last success only, which a check does not change.\<close>

lemma path_stale_expire [simp]: "path_stale t (path_expire relays now s) = path_stale t s"
  by (simp add: path_stale_def path_expire_def Let_def split: list.splits)

lemma saturating_inc_small:
  assumes "n < 3"
  shows "unat (saturating_inc n) = Suc (unat n)"
proof -
  have "unat n < 3" using assms by (simp add: word_less_nat_alt)
  moreover have "unat (- 1 :: u32) = 2 ^ 32 - 1" by (simp add: unsigned_minus_1_eq_mask mask_eq_exp_minus_1)
  ultimately have "n \<noteq> - 1" by auto
  moreover note \<open>unat n < 3\<close>
  ultimately show ?thesis by (simp add: saturating_inc_def unat_word_ariths)
qed

lemma path_expire_gone: "current_path s \<noteq> PathDirect \<Longrightarrow> fold (path_expire relays) ts s = s"
  by (induction ts arbitrary: s) (simp_all add: path_expire_def)

lemma path_expire_stays:
  assumes "current_path s = PathDirect" and "unat (failures s) + of_bool (path_stale t s) < 3"
  shows "current_path (path_expire relays t s) = PathDirect"
    and "unat (failures (path_expire relays t s)) = unat (failures s) + of_bool (path_stale t s)"
proof -
  have small: "failures s < 3" using assms(2) by (simp add: word_less_nat_alt)
  show "current_path (path_expire relays t s) = PathDirect"
    "unat (failures (path_expire relays t s)) = unat (failures s) + of_bool (path_stale t s)"
    using assms small saturating_inc_small [OF small]
    by (auto simp: path_expire_def path_constants Let_def word_le_nat_alt)
qed

lemma path_expire_leaves:
  assumes "current_path s = PathDirect" and "failures s < 3" and "\<not> unat (failures s) + of_bool (path_stale t s) < 3"
  shows "current_path (path_expire relays t s) = (if relays = [] then PathUnknown else PathRelay)"
  using assms saturating_inc_small [OF assms(2)]
  by (cases "path_stale t s") (auto simp: path_expire_def path_constants Let_def word_le_nat_alt word_less_nat_alt split: list.splits if_splits)

lemma path_stale_run:
  assumes "current_path s = PathDirect" and "failures s < 3"
  shows "current_path (fold (path_expire relays) ts s) =
    (if unat (failures s) + length (filter (\<lambda>t. path_stale t s) ts) < 3 then PathDirect
     else if relays = [] then PathUnknown else PathRelay)"
  using assms
proof (induction ts arbitrary: s)
  case (Cons t ts)
  let ?s = "path_expire relays t s"
  show ?case
  proof (cases "unat (failures s) + of_bool (path_stale t s) < 3")
    case True
    note stays = path_expire_stays [OF Cons.prems(1) True, of relays]
    then have "failures ?s < 3" using True by (simp add: word_less_nat_alt)
    with Cons.IH [of ?s] stays show ?thesis by (auto simp: add.assoc)
  next
    case False
    with path_expire_leaves [OF Cons.prems False, of relays] path_expire_gone [of ?s relays ts]
    show ?thesis by (auto split: if_splits)
  qed
qed (simp add: word_less_nat_alt)

section \<open>Properties\<close>

text \<open>
  The recorded path is always consistent: in every state reachable from the default, a
  direct path has a public UDP endpoint that answered, a last success, no probe burst left and
  fewer than three failures, a relayed path has the relay's endpoint, an unknown path has none,
  only a direct path has a round-trip time, and a probe burst has at most eight probes.
\<close>

theorem path_reachable_wf:
  assumes "path_step\<^sup>*\<^sup>* peer_path_state_default s"
  shows "path_wf s"
  using assms by (rule paths.reachable_inv [OF refl])

theorem path_reachable_wf_witness:
  "path_wf (path_apply (AnswerFrom 7 (demo_addr 2 41641) (Some 3)) peer_path_state_default)"
  by (rule path_reachable_wf) (rule r_into_rtranclp, rule path_step.intros)

text \<open>
  C33. A direct path is given up after exactly three stale checks: over any sequence of checks a
  direct path stays direct as long as its failures and the checks at least fifteen seconds after
  the last success number less than three together; then it becomes relayed when a relay is
  known and unknown otherwise. Checks within fifteen seconds do not count.
\<close>

theorem direct_path_given_up_exactly:
  assumes "path_wf s" and "current_path s = PathDirect" and "last_success_at s = Some t0"
    and "list_all (\<lambda>t. t0 \<le> t) ts"
  shows "current_path (fold (path_expire relays) ts s) =
    (if unat (failures s) + length (filter (\<lambda>t. t0 + int (secs 15) \<le> t) ts) < 3 then PathDirect
     else if relays = [] then PathUnknown else PathRelay)"
proof -
  have "filter (\<lambda>t. path_stale t s) ts = filter (\<lambda>t. t0 + int (secs 15) \<le> t) ts"
    using assms(3,4)
    by (intro filter_cong) (auto simp: path_stale_def duration_since_def path_constants list_all_iff)
  moreover have "failures s < 3" using assms(1,2) by (simp add: path_wf_def path_constants)
  ultimately show ?thesis using path_stale_run assms(2) by simp
qed

theorem direct_path_given_up_exactly_witness:
  "current_path (fold (path_expire [\<lparr>rc_relay_id = ''r'', rc_url = ''tcp://r:1'', rc_region = ''x''\<rparr>])
      [16000000000, 17000000000, 18000000000]
      (path_apply (AnswerFrom 7 (demo_addr 2 41641) (Some 3)) peer_path_state_default)) = PathRelay"
  using direct_path_given_up_exactly [of
      "path_apply (AnswerFrom 7 (demo_addr 2 41641) (Some 3)) peer_path_state_default" 7
      "[16000000000, 17000000000, 18000000000]" "[\<lparr>rc_relay_id = ''r'', rc_url = ''tcp://r:1'', rc_region = ''x''\<rparr>]"]
  by (simp add: path_wf_answer) (simp add: path_mark_direct_def)

text \<open>
  Only a path that was direct is ever relayed: as long as no probe is answered, neither the
  probes nor the checks, whatever relays are known, move a new path away from unknown.
\<close>

theorem unanswered_path_never_relayed:
  assumes "list_all (\<lambda>ev. case ev of AnswerFrom _ _ _ \<Rightarrow> False | _ \<Rightarrow> True) events"
  shows "current_path (fold path_apply events peer_path_state_default) = PathUnknown"
proof -
  have "current_path (fold path_apply events s) = PathUnknown" if "current_path s = PathUnknown" for s
    using assms that
    by (induction events arbitrary: s)
      (auto simp: record_probe_def path_expire_def Let_def split: path_event.splits)
  then show ?thesis by (simp add: peer_path_state_default_def)
qed

theorem unanswered_path_never_relayed_witness:
  "current_path (fold path_apply
     [ProbesSent 0 0, ProbesSent 1000000000 1000, ProbesSent 2000000000 2000, ProbesSent 3000000000 3000,
      StaleCheck [\<lparr>rc_relay_id = ''r'', rc_url = ''tcp://r:1'', rc_region = ''x''\<rparr>] 4000000000]
     peer_path_state_default) = PathUnknown"
  by (rule unanswered_path_never_relayed) simp

text \<open>
  The round-trip time is measured end to end: the answer to a probe carries the probe's own
  time stamp back, so that the prober computes the milliseconds between sending and receiving,
  and no value when its clock went backwards or the difference exceeds 64 bits.
\<close>

theorem probe_rtt_end_to_end:
  assumes "sent_at < 2 ^ 128"
  shows "probe_response_rtt_ms (encode_probe_response_payload remote_now (probe_payload sent_at)) now =
    (if sent_at \<le> now \<and> now - sent_at < 2 ^ 64 then Some (of_nat (now - sent_at)) else None)"
proof -
  have stamp: "payload_timestamp tag (as_bytes (tag @ nat_to_dec sent_at)) = Some sent_at" for tag
    using assms by (simp add: payload_timestamp_def parse_u128_nat_to_dec)
  have answer: "encode_probe_response_payload remote_now (probe_payload sent_at) =
      as_bytes (''probe_response '' @ nat_to_dec sent_at)"
    unfolding encode_probe_response_payload_def probe_payload_def stamp by simp
  show ?thesis unfolding answer probe_response_rtt_ms_def stamp by simp
qed

theorem probe_rtt_end_to_end_witness:
  "probe_response_rtt_ms (encode_probe_response_payload 5 (probe_payload 1000)) 1042 = Some 42"
  using probe_rtt_end_to_end [of 1000 5 1042] by simp

end
