(* ===== verification/Backend_State.thy ===== *)
theory Backend_State
  imports Peer_Paths
begin

text \<open>
  \<open>RuntimeState\<close> of \<open>tfscale-custom/src/lib.rs\<close>: the indexes built from the persisted peer map, the
  crypto sessions and path states per peer, and the operations on them: sending an overlay
  packet, probing the peers, opening a received frame. Clock readings are the argument \<open>clk\<close>,
  whose \<open>n\<close>-th value is the \<open>n\<close>-th reading of the call; the random salts of new sessions are the
  argument \<open>rnd\<close>, indexed by the peer's position. The JSON text of a message is the argument
  \<open>to_json\<close>.
\<close>

section \<open>Persisted state\<close>

definition STATE_VERSION :: u32 where "STATE_VERSION = 1"
definition IDENTITY_SCHEME :: string where "IDENTITY_SCHEME = ''x25519''"

record custom_identity =
  ci_key_id :: string
  ci_scheme :: string
  ci_private_key :: string
  ci_public_key :: string
  ci_created_at_unix_seconds :: nat
  ci_rotated_from :: "string option"

record stored_peer_session =
  sp_device_id :: string
  sp_hostname :: string
  sp_overlay_ip :: ipv4_addr
  sp_public_key :: string
  sp_endpoints :: "endpoint list"
  sp_allowed_routes :: "string list"
  sp_last_updated_at_unix_seconds :: nat

record custom_backend_state =
  st_version :: u32
  st_identity :: "custom_identity option"
  st_local_config :: "local_backend_config option"
  st_peers :: "stored_peer_session list"

definition custom_backend_state_default :: custom_backend_state where
  "custom_backend_state_default =
     \<lparr>st_version = STATE_VERSION, st_identity = None, st_local_config = None, st_peers = []\<rparr>"

definition validate_state_version :: "custom_backend_state \<Rightarrow> unit backend_result" where
  "validate_state_version state =
     (if st_version state \<noteq> STATE_VERSION
      then Inl (CommandFailed (''unsupported custom backend state version: '' @ nat_to_dec (unat (st_version state))))
      else Inr ())"

definition peer_to_session ::
  "crypto_prims \<Rightarrow> system_time \<Rightarrow> peer_config \<Rightarrow> stored_peer_session backend_result" where
  "peer_to_session P now peer =
     and_then (validate_public_credential P (bc_public (pc_public_credential peer))) (\<lambda>_.
       Inr \<lparr>sp_device_id = device_id_str (pc_device_id peer), sp_hostname = pc_hostname peer,
            sp_overlay_ip = pc_overlay_ip peer, sp_public_key = bc_public (pc_public_credential peer),
            sp_endpoints = pc_endpoints peer, sp_allowed_routes = pc_allowed_routes peer,
            sp_last_updated_at_unix_seconds = unix_seconds now\<rparr>)"

section \<open>Relay senders\<close>

text \<open>
  A TCP connection to a relay, as the outcomes of its writes and the lines that were written. The
  sender connects on the first frame; \<open>connect\<close> gives the outcomes of its connection attempts.
\<close>

record tcp_stream =
  tcp_write :: "nat \<Rightarrow> string + unit"
  tcp_writes :: nat
  tcp_lines :: "bytes list"

record tcp_relay_sender =
  trs_relay :: relay_config
  trs_device_id :: string
  trs_node_key :: string
  trs_writer :: "tcp_stream option"
  trs_connect :: "string \<Rightarrow> nat \<Rightarrow> string + tcp_stream"
  trs_attempts :: nat

datatype relay_frame_sender = NullRelayFrameSender | TcpRelayFrameSender tcp_relay_sender

definition relay_tcp_addr :: "string \<Rightarrow> string backend_result" where
  "relay_tcp_addr url =
     ok_or (strip_prefix ''tcp://'' url) (CommandFailed (''unsupported relay URL: '' @ url))"

definition write_relay_message ::
  "(relay_message \<Rightarrow> string + bytes) \<Rightarrow> relay_message \<Rightarrow> tcp_stream \<Rightarrow> unit backend_result \<times> tcp_stream" where
  "write_relay_message to_json message stream =
     (case to_json message of
        Inl e \<Rightarrow> (Inl (CommandFailed e), stream)
      | Inr json \<Rightarrow>
          (let line = json @ [10]; stream' = stream\<lparr>tcp_writes := Suc (tcp_writes stream)\<rparr>
           in case tcp_write stream (tcp_writes stream) of
                Inl e \<Rightarrow> (Inl (CommandFailed e), stream')
              | Inr _ \<Rightarrow> (Inr (), stream'\<lparr>tcp_lines := tcp_lines stream @ [line]\<rparr>)))"

definition tcp_relay_sender_new ::
  "(string \<Rightarrow> nat \<Rightarrow> string + tcp_stream) \<Rightarrow> relay_config \<Rightarrow> string \<Rightarrow> string \<Rightarrow> tcp_relay_sender" where
  "tcp_relay_sender_new connect relay device_id node_key =
     \<lparr>trs_relay = relay, trs_device_id = device_id, trs_node_key = node_key, trs_writer = None,
      trs_connect = connect, trs_attempts = 0\<rparr>"

definition ensure_connected ::
  "(relay_message \<Rightarrow> string + bytes) \<Rightarrow> tcp_relay_sender \<Rightarrow> unit backend_result \<times> tcp_relay_sender" where
  "ensure_connected to_json s =
     (case trs_writer s of
        Some _ \<Rightarrow> (Inr (), s)
      | None \<Rightarrow>
          (case relay_tcp_addr (rc_url (trs_relay s)) of
             Inl e \<Rightarrow> (Inl e, s)
           | Inr addr \<Rightarrow>
               (let s' = s\<lparr>trs_attempts := Suc (trs_attempts s)\<rparr>
                in case trs_connect s addr (trs_attempts s) of
                     Inl e \<Rightarrow> (Inl (CommandFailed e), s')
                   | Inr stream \<Rightarrow>
                       (case write_relay_message to_json
                               (Register (trs_device_id s) (trs_node_key s)) stream of
                          (Inl e, _) \<Rightarrow> (Inl e, s')
                        | (Inr _, stream') \<Rightarrow> (Inr (), s'\<lparr>trs_writer := Some stream'\<rparr>)))))"

definition tcp_relay_send_frame ::
  "(relay_message \<Rightarrow> string + bytes) \<Rightarrow> relay_message \<Rightarrow> tcp_relay_sender \<Rightarrow> nat backend_result \<times> tcp_relay_sender" where
  "tcp_relay_send_frame to_json message s =
     (case ensure_connected to_json s of
        (Inl e, s') \<Rightarrow> (Inl e, s')
      | (Inr _, s') \<Rightarrow>
          (case trs_writer s' of
             None \<Rightarrow> (Inl (CommandFailed ''relay transport is not connected''), s')
           | Some writer \<Rightarrow>
               (case write_relay_message to_json message writer of
                  (Inl e, writer') \<Rightarrow> (Inl e, s'\<lparr>trs_writer := Some writer'\<rparr>)
                | (Inr _, writer') \<Rightarrow>
                    (Inr (case message of Frame _ _ payload \<Rightarrow> length payload | _ \<Rightarrow> 0),
                     s'\<lparr>trs_writer := Some writer'\<rparr>))))"

definition relay_send_frame ::
  "(relay_message \<Rightarrow> string + bytes) \<Rightarrow> relay_message \<Rightarrow> relay_frame_sender \<Rightarrow>
     nat backend_result \<times> relay_frame_sender" where
  "relay_send_frame to_json message sender =
     (case sender of
        NullRelayFrameSender \<Rightarrow> (Inl (CommandFailed ''relay transport is not connected''), sender)
      | TcpRelayFrameSender s \<Rightarrow>
          (case tcp_relay_send_frame to_json message s of (r, s') \<Rightarrow> (r, TcpRelayFrameSender s')))"

section \<open>Runtime state\<close>

record peer_transport_session =
  pts_overlay_ip :: ipv4_addr
  pts_endpoint :: endpoint
  pts_crypto :: peer_crypto_session

datatype task_kind = TunToUdp | UdpToTun | RelayToTun

record transport_tasks =
  tt_stop :: bool
  tt_handles :: "task_kind list"

record runtime_state =
  persisted :: custom_backend_state
  peers_by_device :: "(string, stored_peer_session) hmap"
  peers_by_overlay_ip :: "(ipv4_addr, string) hmap"
  peer_crypto_material_by_device :: "(string, bytes) hmap"
  peer_udp_endpoints_by_device :: "(string, endpoint) hmap"
  peer_device_by_frame_id :: "(frame_device_id, string) hmap"
  peer_transport_sessions_by_device :: "(string, peer_transport_session) hmap"
  peer_path_state_by_device :: "(string, peer_path_state) hmap"
  relays :: "relay_config list"
  rt_tun_status :: "tun_status option"
  rt_tun_device :: "tun_device option"
  rt_transport :: "transport_runtime option"
  rt_transport_tasks :: "transport_tasks option"
  relay_sender :: relay_frame_sender

text \<open>The loop of \<open>build_peer_transport_sessions\<close>; the first error ends it.\<close>

fun build_sessions_loop ::
  "crypto_prims \<Rightarrow> (nat \<Rightarrow> string + bytes) \<Rightarrow> nat \<Rightarrow> bytes \<Rightarrow> string \<Rightarrow> frame_device_id \<Rightarrow>
     stored_peer_session list \<Rightarrow> (string, peer_transport_session) hmap \<Rightarrow>
     (string, peer_transport_session) hmap backend_result" where
  "build_sessions_loop P rnd k private_key public_key local_id [] sessions = Inr sessions"
| "build_sessions_loop P rnd k private_key public_key local_id (peer # peers) sessions =
     and_then (from_device_id (parse_uuid P) (sp_device_id peer)) (\<lambda>peer_id.
       case select_udp_endpoint (sp_endpoints peer) of
         None \<Rightarrow> build_sessions_loop P rnd (Suc k) private_key public_key local_id peers sessions
       | Some ep \<Rightarrow>
           and_then (peer_crypto_session_new P (rnd k) private_key public_key (sp_public_key peer) local_id peer_id)
             (\<lambda>crypto. build_sessions_loop P rnd (Suc k) private_key public_key local_id peers
                (hm_insert (sp_device_id peer)
                   \<lparr>pts_overlay_ip = sp_overlay_ip peer, pts_endpoint = ep, pts_crypto = crypto\<rparr> sessions)))"

definition build_peer_transport_sessions ::
  "crypto_prims \<Rightarrow> (nat \<Rightarrow> string + bytes) \<Rightarrow> custom_backend_state \<Rightarrow>
     (string, peer_transport_session) hmap backend_result" where
  "build_peer_transport_sessions P rnd state =
     (case (st_identity state, st_local_config state) of
        (Some ident, Some config) \<Rightarrow>
          and_then (from_device_id (parse_uuid P) (lc_device_id config)) (\<lambda>local_id.
          and_then (decode_key P (ci_private_key ident)) (\<lambda>private_key.
            build_sessions_loop P rnd 0 private_key (ci_public_key ident) local_id (st_peers state) []))
      | _ \<Rightarrow> Inr [])"

definition from_persisted :: "crypto_prims \<Rightarrow> (nat \<Rightarrow> string + bytes) \<Rightarrow> custom_backend_state \<Rightarrow> runtime_state" where
  "from_persisted P rnd state =
     (let peers = st_peers state in
      \<lparr>persisted = state,
       peers_by_device = hm_collect (map (\<lambda>p. (sp_device_id p, p)) peers),
       peers_by_overlay_ip = hm_collect (map (\<lambda>p. (sp_overlay_ip p, sp_device_id p)) peers),
       peer_crypto_material_by_device = hm_collect (List.map_filter (\<lambda>p.
         map_option (\<lambda>k. (sp_device_id p, k)) (result_ok (decode_public_credential P (sp_public_key p)))) peers),
       peer_udp_endpoints_by_device = hm_collect (List.map_filter (\<lambda>p.
         map_option (\<lambda>ep. (sp_device_id p, ep)) (select_udp_endpoint (sp_endpoints p))) peers),
       peer_device_by_frame_id = hm_collect (List.map_filter (\<lambda>p.
         map_option (\<lambda>i. (i, sp_device_id p)) (result_ok (from_device_id (parse_uuid P) (sp_device_id p)))) peers),
       peer_transport_sessions_by_device =
         (case build_peer_transport_sessions P rnd state of Inr m \<Rightarrow> m | Inl _ \<Rightarrow> []),
       peer_path_state_by_device = hm_collect (map (\<lambda>p. (sp_device_id p, peer_path_state_default)) peers),
       relays = [], rt_tun_status = None, rt_tun_device = None, rt_transport = None,
       rt_transport_tasks = None, relay_sender = NullRelayFrameSender\<rparr>)"

definition runtime_state_default :: runtime_state where
  "runtime_state_default =
     \<lparr>persisted = custom_backend_state_default, peers_by_device = [], peers_by_overlay_ip = [],
      peer_crypto_material_by_device = [], peer_udp_endpoints_by_device = [],
      peer_device_by_frame_id = [], peer_transport_sessions_by_device = [],
      peer_path_state_by_device = [], relays = [], rt_tun_status = None, rt_tun_device = None,
      rt_transport = None, rt_transport_tasks = None, relay_sender = NullRelayFrameSender\<rparr>"

section \<open>Operations\<close>

definition set_session_crypto :: "string \<Rightarrow> peer_transport_session \<Rightarrow> peer_crypto_session \<Rightarrow> runtime_state \<Rightarrow> runtime_state" where
  "set_session_crypto device_id session crypto rt =
     rt\<lparr>peer_transport_sessions_by_device :=
          hm_insert device_id (session\<lparr>pts_crypto := crypto\<rparr>) (peer_transport_sessions_by_device rt)\<rparr>"

definition peer_path_is_relay :: "runtime_state \<Rightarrow> string \<Rightarrow> bool" where
  "peer_path_is_relay rt device_id =
     (case hm_get (peer_path_state_by_device rt) device_id of
        Some state \<Rightarrow> current_path state = PathRelay
      | None \<Rightarrow> False)"

definition send_overlay_packet ::
  "crypto_prims \<Rightarrow> (relay_message \<Rightarrow> string + bytes) \<Rightarrow> bytes \<Rightarrow> runtime_state \<Rightarrow> nat backend_result \<times> runtime_state" where
  "send_overlay_packet P to_json packet rt =
     (case ipv4_destination packet of
        Inl e \<Rightarrow> (Inl e, rt)
      | Inr destination \<Rightarrow>
          (case hm_get (peers_by_overlay_ip rt) destination of
             None \<Rightarrow> (Inl (CommandFailed (''no peer session for overlay destination: '' @
                        ipv4_to_string destination)), rt)
           | Some device_id \<Rightarrow>
               (case hm_get (peer_transport_sessions_by_device rt) device_id of
                  None \<Rightarrow> (Inl (CommandFailed (''peer transport session is not ready: '' @ device_id)), rt)
                | Some session \<Rightarrow>
                    (case seal P (pts_crypto session) packet of
                       (Inl e, crypto) \<Rightarrow> (Inl e, set_session_crypto device_id session crypto rt)
                     | (Inr frame, crypto) \<Rightarrow>
                         (let rt1 = set_session_crypto device_id session crypto rt in
                          if peer_path_is_relay rt device_id then
                            (case relay_send_frame to_json
                                    (Frame (case st_local_config (persisted rt) of
                                              Some config \<Rightarrow> lc_device_id config | None \<Rightarrow> [])
                                       device_id (b64_encode P frame)) (relay_sender rt) of
                               (r, sender) \<Rightarrow> (r, rt1\<lparr>relay_sender := sender\<rparr>))
                          else
                            (case rt_transport rt of
                               None \<Rightarrow> (Inl (CommandFailed ''UDP transport is not bound''), rt1)
                             | Some tr \<Rightarrow>
                                 (case send_frame (pts_endpoint session) frame tr of
                                    (r, tr') \<Rightarrow> (r, rt1\<lparr>rt_transport := Some tr'\<rparr>))))))))"

definition expire_stale_direct_paths :: "system_time \<Rightarrow> runtime_state \<Rightarrow> runtime_state" where
  "expire_stale_direct_paths now rt =
     rt\<lparr>peer_path_state_by_device := hm_map_values (path_expire (relays rt) now) (peer_path_state_by_device rt)\<rparr>"

definition path_or_default :: "runtime_state \<Rightarrow> string \<Rightarrow> peer_path_state" where
  "path_or_default rt device_id =
     (case hm_get (peer_path_state_by_device rt) device_id of Some s \<Rightarrow> s | None \<Rightarrow> peer_path_state_default)"

definition set_path :: "string \<Rightarrow> peer_path_state \<Rightarrow> runtime_state \<Rightarrow> runtime_state" where
  "set_path device_id state rt =
     rt\<lparr>peer_path_state_by_device := hm_insert device_id state (peer_path_state_by_device rt)\<rparr>"

text \<open>The inner loop of \<open>probe_peer_direct_paths\<close>: one sealed probe per endpoint of a peer.\<close>

fun probe_endpoints ::
  "crypto_prims \<Rightarrow> nat \<Rightarrow> endpoint list \<Rightarrow> peer_crypto_session \<Rightarrow> transport_runtime \<Rightarrow> nat \<Rightarrow>
     unit backend_result \<times> peer_crypto_session \<times> transport_runtime \<times> nat" where
  "probe_endpoints P sent_at [] crypto tr sent = (Inr (), crypto, tr, sent)"
| "probe_endpoints P sent_at (ep # eps) crypto tr sent =
     (case seal_message P crypto (probe_payload sent_at) FRAME_TYPE_PROBE of
        (Inl e, crypto') \<Rightarrow> (Inl e, crypto', tr, sent)
      | (Inr frame, crypto') \<Rightarrow>
          (case send_frame ep frame tr of
             (Inl e, tr') \<Rightarrow> (Inl e, crypto', tr', sent)
           | (Inr _, tr') \<Rightarrow> probe_endpoints P sent_at eps crypto' tr' (Suc sent)))"

text \<open>
  The loop over the peers, from the \<open>k\<close>-th clock reading on: one reading for the due check, and
  two more, before and after the probes are sent, for a peer that is probed.
\<close>

fun probe_peers ::
  "crypto_prims \<Rightarrow> (nat \<Rightarrow> system_time) \<Rightarrow> nat \<Rightarrow> stored_peer_session list \<Rightarrow> transport_runtime \<Rightarrow> nat \<Rightarrow>
     runtime_state \<Rightarrow> nat backend_result \<times> runtime_state" where
  "probe_peers P clk k [] tr sent rt = (Inr sent, rt\<lparr>rt_transport := Some tr\<rparr>)"
| "probe_peers P clk k (peer # peers) tr sent rt =
     (let device_id = sp_device_id peer;
          path_state = path_or_default rt device_id;
          rt = set_path device_id path_state rt
      in if \<not> peer_path_probe_due path_state (clk k) then probe_peers P clk (Suc k) peers tr sent rt
         else
           (case hm_get (peer_transport_sessions_by_device rt) device_id of
              None \<Rightarrow> probe_peers P clk (Suc k) peers tr sent rt
            | Some session \<Rightarrow>
                (let sent_at = unix_millis (clk (Suc k)) in
                 case probe_endpoints P sent_at (sorted_udp_endpoints (sp_endpoints peer))
                        (pts_crypto session) tr sent of
                   (Inl e, crypto, tr', _) \<Rightarrow>
                     (Inl e, (set_session_crypto device_id session crypto rt)\<lparr>rt_transport := Some tr'\<rparr>)
                 | (Inr _, crypto, tr', sent') \<Rightarrow>
                     probe_peers P clk (k + 3) peers tr' sent'
                       (set_path device_id (record_probe (clk (k + 2)) sent_at path_state)
                         (set_session_crypto device_id session crypto rt)))))"

definition probe_peer_direct_paths ::
  "crypto_prims \<Rightarrow> (nat \<Rightarrow> system_time) \<Rightarrow> runtime_state \<Rightarrow> nat backend_result \<times> runtime_state" where
  "probe_peer_direct_paths P clk rt =
     (let rt = expire_stale_direct_paths (clk 0) rt in
      case rt_transport rt of
        None \<Rightarrow> (Inr 0, rt)
      | Some tr \<Rightarrow> probe_peers P clk 1 (st_peers (persisted rt)) tr 0 rt)"

definition mark_peer_direct ::
  "system_time \<Rightarrow> string \<Rightarrow> endpoint \<Rightarrow> u64 option \<Rightarrow> runtime_state \<Rightarrow> runtime_state" where
  "mark_peer_direct now device_id ep rtt rt =
     (let rt = set_path device_id (path_mark_direct now ep rtt (path_or_default rt device_id)) rt in
      case hm_get (peer_transport_sessions_by_device rt) device_id of
        None \<Rightarrow> rt
      | Some session \<Rightarrow>
          rt\<lparr>peer_transport_sessions_by_device :=
               hm_insert device_id (session\<lparr>pts_endpoint := ep\<rparr>) (peer_transport_sessions_by_device rt)\<rparr>)"

definition rt_record_rx_drop :: "runtime_state \<Rightarrow> runtime_state" where
  "rt_record_rx_drop rt = rt\<lparr>rt_transport := map_option transport_record_rx_drop (rt_transport rt)\<rparr>"

text \<open>The three arms of the match on the opened message; \<open>clk\<close> is read when they need the time.\<close>

definition handle_probe ::
  "crypto_prims \<Rightarrow> (nat \<Rightarrow> system_time) \<Rightarrow> string \<Rightarrow> bytes \<Rightarrow> socket_addr \<Rightarrow> runtime_state \<Rightarrow>
     bytes option backend_result \<times> runtime_state" where
  "handle_probe P clk device_id plaintext source_addr rt =
     (case hm_get (peer_transport_sessions_by_device rt) device_id of
        None \<Rightarrow> (Inr None, rt)
      | Some session \<Rightarrow>
          (case seal_message P (pts_crypto session)
                  (encode_probe_response_payload (unix_millis (clk 0)) plaintext) FRAME_TYPE_PROBE_RESPONSE of
             (Inl e, crypto) \<Rightarrow> (Inl e, set_session_crypto device_id session crypto rt)
           | (Inr response, crypto) \<Rightarrow>
               (let rt = set_session_crypto device_id session crypto rt;
                    ep = observed_udp_endpoint source_addr
                in case rt_transport rt of
                     None \<Rightarrow> (Inl (CommandFailed ''UDP transport is not bound''), rt)
                   | Some tr \<Rightarrow>
                       (case send_frame ep response tr of
                          (Inl e, tr') \<Rightarrow> (Inl e, rt\<lparr>rt_transport := Some tr'\<rparr>)
                        | (Inr _, tr') \<Rightarrow>
                            (Inr None, mark_peer_direct (clk 1) device_id ep None (rt\<lparr>rt_transport := Some tr'\<rparr>))))))"

definition open_received_frame ::
  "crypto_prims \<Rightarrow> (nat \<Rightarrow> system_time) \<Rightarrow> bytes \<Rightarrow> socket_addr option \<Rightarrow> runtime_state \<Rightarrow>
     bytes option backend_result \<times> runtime_state" where
  "open_received_frame P clk frame source_addr rt =
     (case encoded_frame_decode frame of
        Inl e \<Rightarrow> (Inl e, rt_record_rx_drop rt)
      | Inr decoded \<Rightarrow>
          (case hm_get (peer_device_by_frame_id rt) (fh_source (ef_header decoded)) of
             None \<Rightarrow> (Inl (CommandFailed ''missing peer session for frame source''), rt_record_rx_drop rt)
           | Some device_id \<Rightarrow>
               (case hm_get (peer_transport_sessions_by_device rt) device_id of
                  None \<Rightarrow> (Inl (CommandFailed (''peer transport session is not ready: '' @ device_id)),
                           rt_record_rx_drop rt)
                | Some session \<Rightarrow>
                    (case open_message P (pts_crypto session) frame of
                       (Inl e, crypto) \<Rightarrow>
                         (Inl e, rt_record_rx_drop (set_session_crypto device_id session crypto rt))
                     | (Inr opened, crypto) \<Rightarrow>
                         (let rt = set_session_crypto device_id session crypto rt in
                          if of_message_type opened = FRAME_TYPE_DATA then (Inr (Some (of_plaintext opened)), rt)
                          else if of_message_type opened = FRAME_TYPE_PROBE then
                            (case source_addr of
                               None \<Rightarrow> (Inr None, rt)
                             | Some addr \<Rightarrow> handle_probe P clk device_id (of_plaintext opened) addr rt)
                          else if of_message_type opened = FRAME_TYPE_PROBE_RESPONSE then
                            (case source_addr of
                               None \<Rightarrow> (Inr None, rt)
                             | Some addr \<Rightarrow>
                                 (Inr None,
                                  mark_peer_direct (clk 1) device_id (observed_udp_endpoint addr)
                                    (probe_response_rtt_ms (of_plaintext opened) (unix_millis (clk 0))) rt))
                          else (Inl (CommandFailed (''unsupported opened frame message type: '' @
                                  nat_to_dec (unat (of_message_type opened)))), rt))))))"

definition receive_overlay_packet ::
  "crypto_prims \<Rightarrow> (nat \<Rightarrow> system_time) \<Rightarrow> nat \<Rightarrow> runtime_state \<Rightarrow> bytes option backend_result \<times> runtime_state" where
  "receive_overlay_packet P clk buffer_len rt =
     (case rt_transport rt of
        None \<Rightarrow> (Inl (CommandFailed ''UDP transport is not bound''), rt)
      | Some tr \<Rightarrow>
          (case receive_frame buffer_len tr of
             (Inl e, tr') \<Rightarrow> (Inl e, rt\<lparr>rt_transport := Some tr'\<rparr>)
           | (Inr None, tr') \<Rightarrow> (Inr None, rt\<lparr>rt_transport := Some tr'\<rparr>)
           | (Inr (Some (frame, addr)), tr') \<Rightarrow>
               open_received_frame P clk frame (Some addr) (rt\<lparr>rt_transport := Some tr'\<rparr>)))"

definition open_relay_frame ::
  "crypto_prims \<Rightarrow> (nat \<Rightarrow> system_time) \<Rightarrow> relay_message \<Rightarrow> runtime_state \<Rightarrow> bytes option backend_result \<times> runtime_state" where
  "open_relay_frame P clk message rt =
     (case message of
        Frame _ _ payload \<Rightarrow>
          (case b64_decode P payload of
             Inl e \<Rightarrow> (Inl (CommandFailed e), rt)
           | Inr frame \<Rightarrow> open_received_frame P clk frame None rt)
      | _ \<Rightarrow> (Inr None, rt))"

definition try_read_tun_packet :: "nat \<Rightarrow> runtime_state \<Rightarrow> bytes option backend_result \<times> runtime_state" where
  "try_read_tun_packet buffer_len rt =
     (case rt_tun_device rt of
        None \<Rightarrow> (Inr None, rt)
      | Some tun \<Rightarrow>
          (case tun_try_read_packet buffer_len tun of (r, tun') \<Rightarrow> (r, rt\<lparr>rt_tun_device := Some tun'\<rparr>)))"

definition write_tun_packet :: "bytes \<Rightarrow> runtime_state \<Rightarrow> nat backend_result \<times> runtime_state" where
  "write_tun_packet packet rt =
     (case rt_tun_device rt of
        None \<Rightarrow> (Inl (CommandFailed ''TUN device is not configured''), rt)
      | Some tun \<Rightarrow>
          (case tun_write_packet packet tun of (r, tun') \<Rightarrow> (r, rt\<lparr>rt_tun_device := Some tun'\<rparr>)))"

definition peer_path_diagnostics ::
  "stored_peer_session list \<Rightarrow> (string, peer_path_state) hmap \<Rightarrow> u64 \<Rightarrow> u64 \<Rightarrow> peer_path_diagnostic list" where
  "peer_path_diagnostics peers peer_paths tx rx =
     map (\<lambda>peer. peer_path_diagnostic_of (sp_device_id peer) (hm_get peer_paths (sp_device_id peer)) tx rx) peers"

section \<open>Well-formed runtime states\<close>

definition session_wf_for :: "crypto_prims \<Rightarrow> string \<Rightarrow> peer_transport_session \<Rightarrow> bool" where
  "session_wf_for P device_id s \<longleftrightarrow>
     from_device_id (parse_uuid P) device_id = Inr (cs_peer_id (pts_crypto s)) \<and> ep_protocol (pts_endpoint s) = Udp"

definition known_peer :: "runtime_state \<Rightarrow> string \<Rightarrow> bool" where
  "known_peer rt device_id \<longleftrightarrow> device_id \<in> sp_device_id ` set (st_peers (persisted rt))"

definition sessions_wf :: "crypto_prims \<Rightarrow> runtime_state \<Rightarrow> bool" where
  "sessions_wf P rt \<longleftrightarrow> (\<forall>d s. hm_get (peer_transport_sessions_by_device rt) d = Some s \<longrightarrow>
     session_wf_for P d s \<and> known_peer rt d)"

definition indexes_wf :: "crypto_prims \<Rightarrow> runtime_state \<Rightarrow> bool" where
  "indexes_wf P rt \<longleftrightarrow>
     (\<forall>i d. hm_get (peer_device_by_frame_id rt) i = Some d \<longrightarrow>
        from_device_id (parse_uuid P) d = Inr i \<and> known_peer rt d) \<and>
     (\<forall>ip d. hm_get (peers_by_overlay_ip rt) ip = Some d \<longrightarrow>
        (\<exists>p \<in> set (st_peers (persisted rt)). sp_overlay_ip p = ip \<and> sp_device_id p = d))"

definition path_states_wf :: "(peer_path_state \<Rightarrow> bool) \<Rightarrow> runtime_state \<Rightarrow> bool" where
  "path_states_wf Q rt \<longleftrightarrow> (\<forall>d s. hm_get (peer_path_state_by_device rt) d = Some s \<longrightarrow> Q s)"

text \<open>
  The invariant of the whole state, for any property \<open>Q\<close> of the single paths and any condition \<open>R\<close>
  on the relays under which the operations keep \<open>Q\<close>.
\<close>

definition runtime_wf ::
  "crypto_prims \<Rightarrow> (peer_path_state \<Rightarrow> bool) \<Rightarrow> (relay_config list \<Rightarrow> bool) \<Rightarrow> runtime_state \<Rightarrow> bool" where
  "runtime_wf P Q R rt \<longleftrightarrow> sessions_wf P rt \<and> indexes_wf P rt \<and> path_states_wf Q rt \<and> R (relays rt)"

locale path_invariant =
  fixes Q :: "peer_path_state \<Rightarrow> bool"
    and R :: "relay_config list \<Rightarrow> bool"
  assumes Q_default: "Q peer_path_state_default"
    and Q_probe: "Q s \<Longrightarrow> Q (record_probe now sent_at s)"
    and Q_answer: "Q s \<Longrightarrow> Q (path_mark_direct now (observed_udp_endpoint addr) rtt s)"
    and Q_expire: "R rs \<Longrightarrow> Q s \<Longrightarrow> Q (path_expire rs now s)"

text \<open>The parts of the state that the operations leave alone.\<close>

definition same_config :: "runtime_state \<Rightarrow> runtime_state \<Rightarrow> bool" where
  "same_config rt rt' \<longleftrightarrow> persisted rt' = persisted rt \<and> peers_by_overlay_ip rt' = peers_by_overlay_ip rt \<and>
     peer_device_by_frame_id rt' = peer_device_by_frame_id rt \<and> relays rt' = relays rt \<and>
     rt_transport_tasks rt' = rt_transport_tasks rt"

lemma same_config_refl [simp]: "same_config rt rt"
  by (simp add: same_config_def)

lemma same_config_trans [trans]: "same_config a b \<Longrightarrow> same_config b c \<Longrightarrow> same_config a c"
  by (simp add: same_config_def)

lemma same_config_updates [simp, frame_rules]:
  "same_config rt (rt\<lparr>rt_transport := tr\<rparr>)" "same_config rt (rt\<lparr>rt_tun_device := tun\<rparr>)"
  "same_config rt (rt\<lparr>relay_sender := sender\<rparr>)" "same_config rt (set_path d s rt)"
  "same_config rt (set_session_crypto d se c rt)" "same_config rt (rt_record_rx_drop rt)"
  "same_config rt (expire_stale_direct_paths now rt)" "same_config rt (mark_peer_direct now d ep rtt rt)"
  by (simp_all add: same_config_def set_path_def set_session_crypto_def rt_record_rx_drop_def
      expire_stale_direct_paths_def mark_peer_direct_def Let_def split: option.split)

text \<open>Sealing and opening keep the identities of a session.\<close>

lemma seal_message_ids:
  "seal_message P s m t = (r, s') \<Longrightarrow> cs_peer_id s' = cs_peer_id s \<and> cs_local_id s' = cs_local_id s"
  by (auto simp: seal_message_def Let_def split: prod.splits sum.splits)

lemma open_message_ids:
  "open_message P s f = (r, s') \<Longrightarrow> cs_peer_id s' = cs_peer_id s \<and> cs_local_id s' = cs_local_id s"
  by (auto simp: open_message_def Let_def split: prod.splits sum.splits if_splits)

lemma probe_endpoints_ids:
  "probe_endpoints P sent_at eps c tr n = (r, c', rest) \<Longrightarrow> cs_peer_id c' = cs_peer_id c"
  by (induction eps arbitrary: c tr n)
    (auto split: prod.splits sum.splits dest!: seal_message_ids)

context path_invariant
begin

text \<open>How each update keeps the invariant.\<close>

lemma runtime_wf_same:
  assumes "runtime_wf P Q R rt" and "same_config rt rt'" and "sessions_wf P rt'" and "path_states_wf Q rt'"
  shows "runtime_wf P Q R rt'"
  using assms by (simp add: runtime_wf_def indexes_wf_def same_config_def known_peer_def)

lemma wf_irrelevant [simp]:
  "runtime_wf P Q R (rt\<lparr>rt_transport := tr\<rparr>) = runtime_wf P Q R rt"
  "runtime_wf P Q R (rt\<lparr>rt_tun_device := tun\<rparr>) = runtime_wf P Q R rt"
  "runtime_wf P Q R (rt\<lparr>relay_sender := sender\<rparr>) = runtime_wf P Q R rt"
  "runtime_wf P Q R (rt_record_rx_drop rt) = runtime_wf P Q R rt"
  by (simp_all add: runtime_wf_def sessions_wf_def indexes_wf_def path_states_wf_def known_peer_def
      rt_record_rx_drop_def)

lemma wf_set_session:
  assumes "runtime_wf P Q R rt" and "hm_get (peer_transport_sessions_by_device rt) d = Some s"
    and "cs_peer_id c = cs_peer_id (pts_crypto s)"
  shows "runtime_wf P Q R (set_session_crypto d s c rt)"
  using assms by (auto simp: runtime_wf_def sessions_wf_def indexes_wf_def path_states_wf_def known_peer_def
      set_session_crypto_def session_wf_for_def hmap_simps)

lemma wf_set_path: "runtime_wf P Q R rt \<Longrightarrow> Q s \<Longrightarrow> runtime_wf P Q R (set_path d s rt)"
  by (auto simp: runtime_wf_def sessions_wf_def indexes_wf_def path_states_wf_def known_peer_def
      set_path_def hmap_simps)

lemma path_wf_or_default: "runtime_wf P Q R rt \<Longrightarrow> Q (path_or_default rt d)"
  by (auto simp: runtime_wf_def path_states_wf_def path_or_default_def Q_default split: option.split)

lemma wf_expire: "runtime_wf P Q R rt \<Longrightarrow> runtime_wf P Q R (expire_stale_direct_paths now rt)"
  by (auto simp: runtime_wf_def sessions_wf_def indexes_wf_def path_states_wf_def known_peer_def
      expire_stale_direct_paths_def hmap_simps intro: Q_expire)

lemma wf_mark_direct:
  assumes "runtime_wf P Q R rt"
  shows "runtime_wf P Q R (mark_peer_direct now d (observed_udp_endpoint addr) rtt rt)"
proof -
  let ?rt = "set_path d (path_mark_direct now (observed_udp_endpoint addr) rtt (path_or_default rt d)) rt"
  have "runtime_wf P Q R ?rt" using assms by (intro wf_set_path Q_answer path_wf_or_default)
  then show ?thesis
    by (auto simp: mark_peer_direct_def Let_def runtime_wf_def sessions_wf_def indexes_wf_def
        path_states_wf_def known_peer_def session_wf_for_def observed_udp_endpoint_def hmap_simps split: option.split)
qed

lemmas wf_rules = wf_set_session wf_set_path path_wf_or_default wf_expire wf_mark_direct Q_probe

section \<open>Every operation keeps the state well-formed\<close>

lemma seal_ids: "seal P s m = (r, s') \<Longrightarrow> cs_peer_id s' = cs_peer_id s"
  by (auto simp: seal_def dest: seal_message_ids)

lemma send_overlay_packet_keeps:
  assumes "runtime_wf P Q R rt" and "send_overlay_packet P to_json packet rt = (r, rt')"
  shows "runtime_wf P Q R rt' \<and> same_config rt rt'"
proof -
  have step: "runtime_wf P Q R (set_session_crypto d s c rt)"
    if "hm_get (peer_transport_sessions_by_device rt) d = Some s" and "seal P (pts_crypto s) packet = (x, c)" for d s c x
    using assms(1) that seal_ids by (intro wf_set_session) auto
  have same: "same_config rt ((set_session_crypto d s c rt)\<lparr>rt_transport := tr\<rparr>)"
    "same_config rt ((set_session_crypto d s c rt)\<lparr>relay_sender := se\<rparr>)" for d s c tr se
    by (simp_all add: same_config_def set_session_crypto_def)
  show ?thesis
    using assms unfolding send_overlay_packet_def
    by (auto simp: Let_def same dest: step split: sum.splits option.splits prod.splits if_splits)
qed

lemma probe_peers_keeps:
  "runtime_wf P Q R rt \<Longrightarrow> probe_peers P clk k peers tr sent rt = (r, rt') \<Longrightarrow> runtime_wf P Q R rt' \<and> same_config rt rt'"
proof (induction peers arbitrary: k tr sent rt)
  case (Cons peer peers)
  let ?d = "sp_device_id peer"
  let ?ps = "path_or_default rt ?d"
  let ?rt = "set_path ?d ?ps rt"
  have wf: "runtime_wf P Q R ?rt" using Cons.prems(1) by (intro wf_set_path path_wf_or_default)
  have same: "same_config rt ?rt" by simp
  have IH: "runtime_wf P Q R rt' \<and> same_config rt rt'"
    if "probe_peers P clk k' peers tr' sent' rt1 = (r, rt')" "runtime_wf P Q R rt1" "same_config rt rt1" for k' tr' sent' rt1
    using Cons.IH [OF that(2,1)] that(3) same_config_trans by blast
  show ?case
  proof (cases "peer_path_probe_due ?ps (clk k) \<and> hm_get (peer_transport_sessions_by_device ?rt) ?d \<noteq> None")
    case False
    then have "probe_peers P clk (Suc k) peers tr sent ?rt = (r, rt')"
      using Cons.prems(2) by (auto simp: Let_def split: if_splits option.splits)
    from IH [OF this wf same] show ?thesis .
  next
    case True
    then obtain se where se: "hm_get (peer_transport_sessions_by_device ?rt) ?d = Some se" by auto
    obtain pr c tr' sent' where run: "probe_endpoints P (unix_millis (clk (Suc k)))
        (sorted_udp_endpoints (sp_endpoints peer)) (pts_crypto se) tr sent = (pr, c, tr', sent')"
      by (cases "probe_endpoints P (unix_millis (clk (Suc k)))
        (sorted_udp_endpoints (sp_endpoints peer)) (pts_crypto se) tr sent") auto
    let ?rt1 = "set_session_crypto ?d se c ?rt"
    have wf1: "runtime_wf P Q R ?rt1" using wf se probe_endpoints_ids [OF run] by (rule wf_set_session)
    have same1: "same_config rt ?rt1" "same_config rt (?rt1\<lparr>rt_transport := Some tr'\<rparr>)"
      "same_config rt (set_path ?d x ?rt1)" for x
      by (simp_all add: same_config_def set_session_crypto_def set_path_def)
    have wf2: "runtime_wf P Q R (set_path ?d (record_probe now m ?ps) ?rt1)" for now m
      using wf1 Cons.prems(1) by (intro wf_set_path Q_probe path_wf_or_default)
    show ?thesis
      using Cons.prems(2) True se run wf1 same1 IH [OF _ wf2 same1(3)]
      by (auto simp: Let_def split: sum.splits)
  qed
qed auto

lemma probe_peer_direct_paths_keeps:
  assumes "runtime_wf P Q R rt" and "probe_peer_direct_paths P clk rt = (r, rt')"
  shows "runtime_wf P Q R rt' \<and> same_config rt rt'"
proof -
  let ?rt = "expire_stale_direct_paths (clk 0) rt"
  have "runtime_wf P Q R ?rt" using assms(1) by (rule wf_expire)
  with assms(2) probe_peers_keeps [of P ?rt clk 1] same_config_trans [of rt ?rt] show ?thesis
    by (auto simp: probe_peer_direct_paths_def Let_def split: option.splits)
qed

lemma handle_probe_keeps:
  assumes "runtime_wf P Q R rt" and "handle_probe P clk d m addr rt = (r, rt')"
  shows "runtime_wf P Q R rt' \<and> same_config rt rt'"
proof -
  have step: "runtime_wf P Q R (set_session_crypto d s c rt)"
    if "hm_get (peer_transport_sessions_by_device rt) d = Some s" and "seal_message P (pts_crypto s) x t = (y, c)" for s c x t y
    using assms(1) that seal_message_ids by (intro wf_set_session) blast+
  have same: "same_config rt ((set_session_crypto d s c rt)\<lparr>rt_transport := tr\<rparr>)"
    "same_config rt (mark_peer_direct n d ep rtt ((set_session_crypto d s c rt)\<lparr>rt_transport := tr\<rparr>))" for s c tr n ep rtt
    by (simp_all add: same_config_def set_session_crypto_def mark_peer_direct_def set_path_def Let_def split: option.split)
  show ?thesis
    using assms unfolding handle_probe_def
    by (auto simp: Let_def same intro!: wf_mark_direct dest: step split: sum.splits option.splits prod.splits)
qed

lemma open_received_frame_keeps:
  assumes "runtime_wf P Q R rt" and "open_received_frame P clk f src rt = (r, rt')"
  shows "runtime_wf P Q R rt' \<and> same_config rt rt'"
proof -
  have step: "runtime_wf P Q R (set_session_crypto d s c rt)"
    if "hm_get (peer_transport_sessions_by_device rt) d = Some s" and "open_message P (pts_crypto s) f = (y, c)" for d s c y
    using assms(1) that open_message_ids by (intro wf_set_session) blast+
  have same: "same_config rt (rt_record_rx_drop (set_session_crypto d s c rt))"
    "same_config rt (mark_peer_direct n d ep rtt (set_session_crypto d s c rt))" for d s c n ep rtt
    by (simp_all add: same_config_def set_session_crypto_def rt_record_rx_drop_def mark_peer_direct_def
        set_path_def Let_def split: option.split)
  have probe: "runtime_wf P Q R rt' \<and> same_config rt rt'"
    if "handle_probe P clk d m addr (set_session_crypto d s c rt) = (r, rt')"
      "runtime_wf P Q R (set_session_crypto d s c rt)" for d m addr s c
    using handle_probe_keeps [OF that(2,1)] same_config_trans [of rt "set_session_crypto d s c rt"] by simp
  show ?thesis
    using assms unfolding open_received_frame_def
    by (auto simp: Let_def same intro!: wf_mark_direct dest: step probe
        split: sum.splits option.splits prod.splits if_splits)
qed

end

section \<open>States built from the persisted peer map\<close>

lemma hm_get_collect_mem: "hm_get (hm_collect kvs) k = Some v \<Longrightarrow> (k, v) \<in> set kvs"
  by (auto simp: hm_get_collect dest: map_of_SomeD)

lemma select_udp_endpoint_Some:
  assumes "select_udp_endpoint es = Some ep"
  shows "ep \<in> set es \<and> ep_protocol ep = Udp"
proof -
  have "ep \<in> set (sort_key endpoint_rank (filter (\<lambda>ep. ep_protocol ep = Udp) es))"
    using assms unfolding select_udp_endpoint_def min_by_key_sort_key
    by (auto simp del: set_sort split: list.splits)
  then show ?thesis by simp
qed

lemma peer_crypto_session_new_ids:
  "peer_crypto_session_new P rnd k lc pc li pi = Inr s \<Longrightarrow> cs_peer_id s = pi \<and> cs_local_id s = li"
  by (auto simp: peer_crypto_session_new_Inr)

lemma build_sessions_loop_wf:
  assumes "build_sessions_loop P rnd k priv pub li peers acc = Inr m"
    and "\<And>d s. hm_get acc d = Some s \<Longrightarrow> session_wf_for P d s \<and> d \<in> D"
    and "sp_device_id ` set peers \<subseteq> D"
  shows "hm_get m d = Some s \<Longrightarrow> session_wf_for P d s \<and> d \<in> D"
  using assms
proof (induction peers arbitrary: k acc)
  case (Cons peer peers)
  from Cons.prems(2) obtain pid where pid: "from_device_id (parse_uuid P) (sp_device_id peer) = Inr pid"
    by (auto simp: and_then_eq_Inr)
  show ?case
  proof (cases "select_udp_endpoint (sp_endpoints peer)")
    case None
    with Cons pid show ?thesis by auto
  next
    case (Some ep)
    with Cons.prems(2) pid obtain c where
      c: "peer_crypto_session_new P (rnd k) priv pub (sp_public_key peer) li pid = Inr c" and
      rest: "build_sessions_loop P rnd (Suc k) priv pub li peers
        (hm_insert (sp_device_id peer) \<lparr>pts_overlay_ip = sp_overlay_ip peer, pts_endpoint = ep, pts_crypto = c\<rparr> acc) = Inr m"
      by (auto simp: and_then_eq_Inr)
    show ?thesis
    proof (rule Cons.IH [OF Cons.prems(1) rest])
      show "session_wf_for P d s \<and> d \<in> D"
        if "hm_get (hm_insert (sp_device_id peer) \<lparr>pts_overlay_ip = sp_overlay_ip peer, pts_endpoint = ep, pts_crypto = c\<rparr> acc) d = Some s" for d s
        using that Cons.prems(3,4) pid peer_crypto_session_new_ids [OF c] select_udp_endpoint_Some [OF Some]
        by (auto simp: hmap_simps session_wf_for_def split: if_splits)
    qed (use Cons.prems(4) in auto)
  qed
qed auto

lemma build_peer_transport_sessions_wf:
  assumes "build_peer_transport_sessions P rnd st = Inr m" and "hm_get m d = Some s"
  shows "session_wf_for P d s \<and> d \<in> sp_device_id ` set (st_peers st)"
  using assms
  by (auto simp: build_peer_transport_sessions_def and_then_eq_Inr split: option.splits
      dest!: build_sessions_loop_wf [where D = "sp_device_id ` set (st_peers st)" and d = d and s = s])

lemma map_filter_mem: "y \<in> set (List.map_filter f xs) \<longleftrightarrow> (\<exists>x \<in> set xs. f x = Some y)"
  by (induction xs) (auto simp: List.map_filter_simps split: option.splits)

lemma from_persisted_wf:
  assumes "Q peer_path_state_default" and "R []"
  shows "runtime_wf P Q R (from_persisted P rnd st)"
proof -
  have "sessions_wf P (from_persisted P rnd st)"
    by (auto simp: sessions_wf_def from_persisted_def Let_def known_peer_def split: sum.splits
        dest: build_peer_transport_sessions_wf)
  moreover have "indexes_wf P (from_persisted P rnd st)"
    by (force simp: indexes_wf_def from_persisted_def Let_def known_peer_def map_filter_mem result_ok_eq_Some
        dest!: hm_get_collect_mem)
  moreover have "path_states_wf Q (from_persisted P rnd st)" using assms(1)
    by (auto simp: path_states_wf_def from_persisted_def Let_def dest!: hm_get_collect_mem)
  ultimately show ?thesis using assms(2) by (simp add: runtime_wf_def) (simp add: from_persisted_def Let_def)
qed

section \<open>Runtime states as a transition system\<close>

text \<open>
  The steps of a running node: the packet loops and the path maintenance, in any order and with
  any input from the network, the TUN device and the clock.
\<close>

inductive runtime_step :: "crypto_prims \<Rightarrow> runtime_state \<Rightarrow> runtime_state \<Rightarrow> bool" for P where
  send: "send_overlay_packet P to_json packet rt = (r, rt') \<Longrightarrow> runtime_step P rt rt'"
| probe: "probe_peer_direct_paths P clk rt = (r, rt') \<Longrightarrow> runtime_step P rt rt'"
| receive: "receive_overlay_packet P clk n rt = (q, rt') \<Longrightarrow> runtime_step P rt rt'"
| relayed: "open_relay_frame P clk message rt = (q, rt') \<Longrightarrow> runtime_step P rt rt'"
| tun_read: "try_read_tun_packet n rt = (q, rt') \<Longrightarrow> runtime_step P rt rt'"
| tun_write: "write_tun_packet packet rt = (r, rt') \<Longrightarrow> runtime_step P rt rt'"
| drop: "runtime_step P rt (rt_record_rx_drop rt)"

inductive_cases runtime_stepE: "runtime_step P rt rt'"

context path_invariant
begin

lemma receive_overlay_packet_keeps:
  assumes "runtime_wf P Q R rt" and "receive_overlay_packet P clk n rt = (r, rt')"
  shows "runtime_wf P Q R rt' \<and> same_config rt rt'"
proof -
  have "runtime_wf P Q R rt' \<and> same_config rt rt'"
    if "open_received_frame P clk f src (rt\<lparr>rt_transport := tr\<rparr>) = (r, rt')" for f src tr
    using open_received_frame_keeps [OF _ that] assms(1) same_config_trans [of rt "rt\<lparr>rt_transport := tr\<rparr>"] by simp
  with assms show ?thesis
    by (auto simp: receive_overlay_packet_def split: option.splits prod.splits sum.splits)
qed

lemma open_relay_frame_keeps:
  assumes "runtime_wf P Q R rt" and "open_relay_frame P clk message rt = (r, rt')"
  shows "runtime_wf P Q R rt' \<and> same_config rt rt'"
  using assms open_received_frame_keeps [OF assms(1)]
  by (auto simp: open_relay_frame_def split: relay_message.splits sum.splits)

lemma tun_keeps:
  assumes "runtime_wf P Q R rt"
  shows "try_read_tun_packet n rt = (q, rt') \<Longrightarrow> runtime_wf P Q R rt' \<and> same_config rt rt'"
    and "write_tun_packet packet rt = (r, rt') \<Longrightarrow> runtime_wf P Q R rt' \<and> same_config rt rt'"
  using assms by (auto simp: try_read_tun_packet_def write_tun_packet_def split: option.splits prod.splits)

lemma runtime_step_keeps: "runtime_step P rt rt' \<Longrightarrow> runtime_wf P Q R rt \<Longrightarrow> runtime_wf P Q R rt' \<and> same_config rt rt'"
  by (erule runtime_stepE)
    (erule (1) send_overlay_packet_keeps probe_peer_direct_paths_keeps receive_overlay_packet_keeps
      open_relay_frame_keeps tun_keeps | simp)+

end

text \<open>A node starts from its peer map with some socket, TUN device and relays installed.\<close>

definition runtime_started :: "crypto_prims \<Rightarrow> (nat \<Rightarrow> string + bytes) \<Rightarrow> custom_backend_state \<Rightarrow> runtime_state \<Rightarrow> bool" where
  "runtime_started P rnd st rt \<longleftrightarrow>
     rt = (from_persisted P rnd st)
       \<lparr>relays := relays rt, rt_tun_status := rt_tun_status rt, rt_tun_device := rt_tun_device rt,
        rt_transport := rt_transport rt, rt_transport_tasks := rt_transport_tasks rt, relay_sender := relay_sender rt\<rparr>"

lemma runtime_started_wf:
  assumes "runtime_started P rnd st rt" and "Q peer_path_state_default" and "R (relays rt)"
  shows "runtime_wf P Q R rt \<and> persisted rt = st"
proof -
  have "runtime_wf P Q (\<lambda>_. True) ((from_persisted P rnd st)
       \<lparr>relays := a, rt_tun_status := b, rt_tun_device := c, rt_transport := d, rt_transport_tasks := e, relay_sender := f\<rparr>)"
    for a b c d e f
    using from_persisted_wf [of Q "\<lambda>_. True" P rnd st] assms(2)
    by (simp add: runtime_wf_def sessions_wf_def indexes_wf_def path_states_wf_def known_peer_def)
  moreover have "persisted ((from_persisted P rnd st)
       \<lparr>relays := a, rt_tun_status := b, rt_tun_device := c, rt_transport := d, rt_transport_tasks := e, relay_sender := f\<rparr>) = st"
    for a b c d e f
    by (simp add: from_persisted_def Let_def)
  ultimately have "runtime_wf P Q (\<lambda>_. True) rt" "persisted rt = st"
    using assms(1) unfolding runtime_started_def by metis+
  with assms(3) show ?thesis by (simp add: runtime_wf_def)
qed

text \<open>
  Two path invariants hold of a running node: every path is consistent, and, as long as no relay
  is known, no path is relayed.
\<close>

interpretation consistent: path_invariant path_wf "\<lambda>_. True"
  by unfold_locales (auto simp: path_wf_default path_wf_probe path_wf_answer path_wf_expire)

interpretation unrelayed: path_invariant "\<lambda>s. current_path s \<noteq> PathRelay" "\<lambda>rs. rs = []"
  by unfold_locales (auto simp: peer_path_state_default_def record_probe_def path_mark_direct_def path_expire_def Let_def)

interpretation runtime: transition_system
  "runtime_started P rnd st" "runtime_step P" "\<lambda>rt. runtime_wf P path_wf (\<lambda>_. True) rt \<and> persisted rt = st"
proof unfold_locales
  fix rt assume "runtime_started P rnd st rt"
  then show "runtime_wf P path_wf (\<lambda>_. True) rt \<and> persisted rt = st"
    by (rule runtime_started_wf) (simp_all add: path_wf_default)
next
  fix rt rt' assume "runtime_wf P path_wf (\<lambda>_. True) rt \<and> persisted rt = st" and step: "runtime_step P rt rt'"
  with consistent.runtime_step_keeps [OF step] show "runtime_wf P path_wf (\<lambda>_. True) rt' \<and> persisted rt' = st"
    by (simp add: same_config_def)
qed

interpretation relayless: transition_system
  "\<lambda>rt. runtime_started P rnd st rt \<and> relays rt = []" "runtime_step P"
  "runtime_wf P (\<lambda>s. current_path s \<noteq> PathRelay) (\<lambda>rs. rs = [])"
proof unfold_locales
  fix rt assume "runtime_started P rnd st rt \<and> relays rt = []"
  then show "runtime_wf P (\<lambda>s. current_path s \<noteq> PathRelay) (\<lambda>rs. rs = []) rt"
    using runtime_started_wf [of P rnd st rt "\<lambda>s. current_path s \<noteq> PathRelay" "\<lambda>rs. rs = []"] unrelayed.Q_default
    by blast
qed (blast dest: unrelayed.runtime_step_keeps)

section \<open>Packets end to end\<close>

text \<open>What a successful send did, for each of the two kinds of path.\<close>

definition handed_over ::
  "(relay_message \<Rightarrow> string + bytes) \<Rightarrow> crypto_prims \<Rightarrow> string \<Rightarrow> endpoint \<Rightarrow> bytes \<Rightarrow> runtime_state \<Rightarrow> runtime_state \<Rightarrow> bool" where
  "handed_over to_json P device_id ep frame rt rt' \<longleftrightarrow>
     (if peer_path_is_relay rt device_id
      then \<exists>s w json src. relay_sender rt' = TcpRelayFrameSender s \<and> trs_writer s = Some w \<and>
             to_json (Frame src device_id (b64_encode P frame)) = Inr json \<and>
             tcp_lines w \<noteq> [] \<and> last (tcp_lines w) = json @ [10]
      else \<exists>tr tr'. rt_transport rt = Some tr \<and> rt_transport rt' = Some tr' \<and>
             so_outbox (tr_socket tr') = so_outbox (tr_socket tr) @ [(frame, \<lparr>sa_ip = ep_address ep, sa_port = ep_port ep\<rparr>)])"

lemma write_relay_message_Inr:
  "write_relay_message to_json m w = (Inr u, w') \<Longrightarrow>
     \<exists>json. to_json m = Inr json \<and> tcp_lines w' = tcp_lines w @ [json @ [10]]"
  by (auto simp: write_relay_message_def Let_def split: sum.splits)

lemma relay_send_frame_Inr:
  assumes "relay_send_frame to_json (Frame src d payload) sender = (Inr n, sender')"
  shows "\<exists>s w json. sender' = TcpRelayFrameSender s \<and> trs_writer s = Some w \<and>
    to_json (Frame src d payload) = Inr json \<and> tcp_lines w \<noteq> [] \<and> last (tcp_lines w) = json @ [10]"
  using assms
  by (auto simp: relay_send_frame_def tcp_relay_send_frame_def split: relay_frame_sender.splits prod.splits
      sum.splits option.splits dest!: write_relay_message_Inr)

lemma send_overlay_packet_Inr:
  assumes "send_overlay_packet P to_json packet rt = (Inr n, rt')"
  shows "\<exists>dst device_id session frame crypto.
    ipv4_destination packet = Inr dst \<and> hm_get (peers_by_overlay_ip rt) dst = Some device_id \<and>
    hm_get (peer_transport_sessions_by_device rt) device_id = Some session \<and>
    seal P (pts_crypto session) packet = (Inr frame, crypto) \<and>
    hm_get (peer_transport_sessions_by_device rt') device_id = Some (session\<lparr>pts_crypto := crypto\<rparr>) \<and>
    handed_over to_json P device_id (pts_endpoint session) frame rt rt'"
proof -
  from assms obtain dst device_id session frame crypto where
    d: "ipv4_destination packet = Inr dst" "hm_get (peers_by_overlay_ip rt) dst = Some device_id"
      "hm_get (peer_transport_sessions_by_device rt) device_id = Some session"
      "seal P (pts_crypto session) packet = (Inr frame, crypto)"
    by (auto simp: send_overlay_packet_def Let_def split: sum.splits option.splits prod.splits if_splits)
  have "hm_get (peer_transport_sessions_by_device rt') device_id = Some (session\<lparr>pts_crypto := crypto\<rparr>)"
    using assms d by (auto simp: send_overlay_packet_def Let_def set_session_crypto_def hmap_simps
        split: option.splits prod.splits if_splits)
  moreover have "handed_over to_json P device_id (pts_endpoint session) frame rt rt'"
  proof (cases "peer_path_is_relay rt device_id")
    case True
    with assms d obtain src sender' where
      "relay_send_frame to_json (Frame src device_id (b64_encode P frame)) (relay_sender rt) = (Inr n, sender')"
      "relay_sender rt' = sender'"
      by (auto simp: send_overlay_packet_def Let_def split: prod.splits)
    with relay_send_frame_Inr True show ?thesis unfolding handed_over_def by fastforce
  next
    case False
    with assms d show ?thesis
      by (auto simp: send_overlay_packet_def Let_def handed_over_def split: option.splits prod.splits
          dest!: send_frame_Inr)
  qed
  ultimately show ?thesis using d by blast
qed

lemma open_sealed_packet:
  assumes "crypto_laws P" and "ready_to_receive l (pts_crypto sb)"
    and "seal P l packet = (Inr frame, l')"
    and "hm_get (peer_device_by_frame_id rt) (cs_local_id l) = Some a"
    and "hm_get (peer_transport_sessions_by_device rt) a = Some sb"
  shows "\<exists>c. open_received_frame P clk frame src rt = (Inr (Some packet), set_session_crypto a sb c rt) \<and>
    ready_to_receive l' c"
proof -
  have seal: "seal_message P l packet FRAME_TYPE_DATA = (Inr frame, l')" using assms(3) by (simp add: seal_def)
  have "session_wf l" using assms(2) by (simp add: ready_to_receive_def session_paired_def)
  then obtain nonce ct where dec: "encoded_frame_decode frame =
      Inr \<lparr>ef_header = frame_header_new (cs_local_id l) (cs_peer_id l) nonce FRAME_TYPE_DATA, ef_ciphertext = ct\<rparr>"
    using sealed_frame_decodes [OF _ seal] by metis
  from ready_after_delivery [OF assms(1,2) seal] obtain c where
    "open_message P (pts_crypto sb) frame = (Inr \<lparr>of_message_type = FRAME_TYPE_DATA, of_plaintext = packet\<rparr>, c)"
    "ready_to_receive l' c"
    by blast
  with dec assms(4,5) show ?thesis by (intro exI [of _ c]) (simp add: open_received_frame_def)
qed

lemma sealed_packet_opens:
  assumes "crypto_laws P" and "ready_to_receive l (pts_crypto sb)"
    and "seal P l packet = (Inr frame, l')"
  obtains c where "ready_to_receive l' c"
    and "\<And>rt a clk src. hm_get (peer_device_by_frame_id rt) (cs_local_id l) = Some a \<Longrightarrow>
      hm_get (peer_transport_sessions_by_device rt) a = Some sb \<Longrightarrow>
      open_received_frame P clk frame src rt = (Inr (Some packet), set_session_crypto a sb c rt)"
proof -
  have seal: "seal_message P l packet FRAME_TYPE_DATA = (Inr frame, l')" using assms(3) by (simp add: seal_def)
  have "session_wf l" using assms(2) by (simp add: ready_to_receive_def session_paired_def)
  then obtain nonce ct where dec: "encoded_frame_decode frame =
      Inr \<lparr>ef_header = frame_header_new (cs_local_id l) (cs_peer_id l) nonce FRAME_TYPE_DATA, ef_ciphertext = ct\<rparr>"
    using sealed_frame_decodes [OF _ seal] by metis
  from ready_after_delivery [OF assms(1,2) seal] obtain c where
    "open_message P (pts_crypto sb) frame = (Inr \<lparr>of_message_type = FRAME_TYPE_DATA, of_plaintext = packet\<rparr>, c)"
    "ready_to_receive l' c"
    by blast
  with dec show thesis by (intro that [of c]) (simp_all add: open_received_frame_def)
qed

text \<open>A datagram waits at the socket of the node.\<close>

definition datagram_waits :: "bytes \<Rightarrow> socket_addr \<Rightarrow> runtime_state \<Rightarrow> bool" where
  "datagram_waits frame addr rt \<longleftrightarrow>
     (\<exists>tr. rt_transport rt = Some tr \<and> so_recv_outcome (tr_socket tr) (so_recvs (tr_socket tr)) = Datagram frame addr)"

text \<open>What the receiving loop reads of it is what fits into its buffer.\<close>

lemma receive_waiting_datagram:
  assumes "datagram_waits frame addr rt"
  shows "\<exists>tr. receive_overlay_packet P clk buffer_len rt =
    open_received_frame P clk (take buffer_len frame) (Some addr) (rt\<lparr>rt_transport := Some tr\<rparr>)"
  using assms by (auto simp: datagram_waits_def receive_overlay_packet_def receive_frame_def recv_from_def)

text \<open>
  C10. A packet sent by one node is delivered by the other: when node A has a session with peer B
  and B a session with A that is ready to receive, and A reports a packet as sent, then the
  sealed frame went out, as one datagram to the peer's endpoint or as one line to the relay; and
  when it reaches B, as the next datagram at B's socket, where it has to fit into the 1500 bytes of the
  receive buffer, or as the payload of a relay frame, B hands exactly this packet to
  its TUN device and is ready for A's next one.
\<close>

theorem overlay_packet_delivered:
  assumes "crypto_laws P"
    and "send_overlay_packet P to_json packet rta = (Inr n, rta')"
    and "ipv4_destination packet = Inr dst" and "hm_get (peers_by_overlay_ip rta) dst = Some b"
    and "hm_get (peer_transport_sessions_by_device rta) b = Some sa"
    and "ready_to_receive (pts_crypto sa) (pts_crypto sb)"
  shows "\<exists>frame sa' sb'.
    handed_over to_json P b (pts_endpoint sa) frame rta rta' \<and>
    hm_get (peer_transport_sessions_by_device rta') b = Some sa' \<and> ready_to_receive (pts_crypto sa') (pts_crypto sb') \<and>
    (\<forall>rtb a. hm_get (peer_device_by_frame_id rtb) (cs_local_id (pts_crypto sa)) = Some a \<longrightarrow>
       hm_get (peer_transport_sessions_by_device rtb) a = Some sb \<longrightarrow>
       (\<forall>addr. datagram_waits frame addr rtb \<longrightarrow> length frame \<le> 1500 \<longrightarrow>
          (\<exists>rtb'. receive_overlay_packet P clk 1500 rtb = (Inr (Some packet), rtb') \<and>
             hm_get (peer_transport_sessions_by_device rtb') a = Some sb')) \<and>
       (\<exists>rtb'. open_relay_frame P clk (Frame src b (b64_encode P frame)) rtb = (Inr (Some packet), rtb') \<and>
          hm_get (peer_transport_sessions_by_device rtb') a = Some sb'))"
proof -
  from send_overlay_packet_Inr [OF assms(2)] assms(3-5) obtain frame crypto where
    seal: "seal P (pts_crypto sa) packet = (Inr frame, crypto)"
    and sa': "hm_get (peer_transport_sessions_by_device rta') b = Some (sa\<lparr>pts_crypto := crypto\<rparr>)"
    and out: "handed_over to_json P b (pts_endpoint sa) frame rta rta'"
    by auto
  from sealed_packet_opens [OF assms(1,6) seal] obtain c where ready: "ready_to_receive crypto c"
    and opens: "\<And>rt a clk src. hm_get (peer_device_by_frame_id rt) (cs_local_id (pts_crypto sa)) = Some a \<Longrightarrow>
      hm_get (peer_transport_sessions_by_device rt) a = Some sb \<Longrightarrow>
      open_received_frame P clk frame src rt = (Inr (Some packet), set_session_crypto a sb c rt)" by blast
  have set: "hm_get (peer_transport_sessions_by_device (set_session_crypto a sb c rt)) a = Some (sb\<lparr>pts_crypto := c\<rparr>)" for a rt
    by (simp add: set_session_crypto_def hmap_simps)
  have udp: "\<exists>rtb'. receive_overlay_packet P clk 1500 rtb = (Inr (Some packet), rtb') \<and>
      hm_get (peer_transport_sessions_by_device rtb') a = Some (sb\<lparr>pts_crypto := c\<rparr>)"
    if "hm_get (peer_device_by_frame_id rtb) (cs_local_id (pts_crypto sa)) = Some a"
      "hm_get (peer_transport_sessions_by_device rtb) a = Some sb" "datagram_waits frame addr rtb" "length frame \<le> 1500" for rtb a addr
  proof -
    from receive_waiting_datagram [OF that(3), of P clk 1500] that(4) obtain tr where
      "receive_overlay_packet P clk 1500 rtb = open_received_frame P clk frame (Some addr) (rtb\<lparr>rt_transport := Some tr\<rparr>)" by auto
    with opens [of "rtb\<lparr>rt_transport := Some tr\<rparr>" a] that(1,2) set show ?thesis by simp
  qed
  have relay: "\<exists>rtb'. open_relay_frame P clk (Frame src b (b64_encode P frame)) rtb = (Inr (Some packet), rtb') \<and>
      hm_get (peer_transport_sessions_by_device rtb') a = Some (sb\<lparr>pts_crypto := c\<rparr>)"
    if "hm_get (peer_device_by_frame_id rtb) (cs_local_id (pts_crypto sa)) = Some a"
      "hm_get (peer_transport_sessions_by_device rtb) a = Some sb" for rtb a
    using opens [OF that] crypto_lawsD(5) [OF assms(1)] set by (simp add: open_relay_frame_def)
  show ?thesis
    by (rule exI [of _ frame], rule exI [of _ "sa\<lparr>pts_crypto := crypto\<rparr>"], rule exI [of _ "sb\<lparr>pts_crypto := c\<rparr>"])
      (use out sa' ready udp relay in auto)
qed

text \<open>Two nodes that know each other, for the witnesses.\<close>

definition demo_device :: "u8 \<Rightarrow> string" where
  "demo_device i = ''dev_'' @ byte_chars (replicate 16 i)"

definition demo_udp_endpoint :: "u8 \<Rightarrow> endpoint" where
  "demo_udp_endpoint i =
     \<lparr>ep_kind = Lan, ep_address = V4 (Ipv4Addr 192 168 1 i), ep_port = 41641, ep_protocol = Udp\<rparr>"

definition demo_peer :: "u8 \<Rightarrow> stored_peer_session" where
  "demo_peer j =
     \<lparr>sp_device_id = demo_device j, sp_hostname = ''peer'', sp_overlay_ip = Ipv4Addr 100 64 0 j,
      sp_public_key = encode_public_credential demo_prims (public_of demo_prims (replicate 32 j)),
      sp_endpoints = [demo_udp_endpoint j], sp_allowed_routes = [], sp_last_updated_at_unix_seconds = 0\<rparr>"

definition demo_persisted :: "u8 \<Rightarrow> u8 list \<Rightarrow> custom_backend_state" where
  "demo_persisted i js =
     \<lparr>st_version = STATE_VERSION,
      st_identity = Some \<lparr>ci_key_id = ''kid'', ci_scheme = IDENTITY_SCHEME,
        ci_private_key = encode_key demo_prims (replicate 32 i),
        ci_public_key = encode_public_credential demo_prims (public_of demo_prims (replicate 32 i)),
        ci_created_at_unix_seconds = 0, ci_rotated_from = None\<rparr>,
      st_local_config = Some \<lparr>lc_device_id = demo_device i, lc_interface_name = ''tfscale0'',
        lc_overlay_ip = Ipv4Addr 100 64 0 i, lc_listen_port = 41641\<rparr>,
      st_peers = map demo_peer js\<rparr>"

abbreviation demo_rnd :: "nat \<Rightarrow> string + bytes" where
  "demo_rnd \<equiv> \<lambda>_. Inr [9, 9, 9, 9, 9, 9, 9, 9]"

definition demo_node :: "u8 \<Rightarrow> u8 \<Rightarrow> runtime_state" where
  "demo_node i j = (from_persisted demo_prims demo_rnd (demo_persisted i [j]))
     \<lparr>rt_transport := Some (demo_transport (\<lambda>_. WouldBlock))\<rparr>"

lemma length_byte_chars [simp]: "length (byte_chars bs) = length bs"
  by (simp add: byte_chars_def)

lemma demo_device_id [simp]: "from_device_id (parse_uuid demo_prims) (demo_device i) = Inr (replicate 16 i)"
  by (simp add: from_device_id_def demo_device_def demo_prims_def del: append_Cons)

lemma demo_select [simp]: "select_udp_endpoint [demo_udp_endpoint j] = Some (demo_udp_endpoint j)"
  by (simp add: select_udp_endpoint_def demo_udp_endpoint_def)

lemma demo_decode_key [simp]: "decode_key demo_prims (encode_key demo_prims (replicate 32 i)) = Inr (replicate 32 i)"
  using crypto_lawsD(5) [OF demo_prims_laws] by (simp add: decode_key_def encode_key_def decode_base64_key_def)

lemma demo_node_fields:
  "peer_transport_sessions_by_device (demo_node i j) =
     [(demo_device j, \<lparr>pts_overlay_ip = Ipv4Addr 100 64 0 j, pts_endpoint = demo_udp_endpoint j,
       pts_crypto = demo_session i j\<rparr>)]"
  "peers_by_overlay_ip (demo_node i j) = [(Ipv4Addr 100 64 0 j, demo_device j)]"
  "peer_device_by_frame_id (demo_node i j) = [(replicate 16 j, demo_device j)]"
  "rt_transport (demo_node i j) = Some (demo_transport (\<lambda>_. WouldBlock))"
  "peer_path_state_by_device (demo_node i j) = [(demo_device j, peer_path_state_default)]"
proof -
  have "build_peer_transport_sessions demo_prims demo_rnd (demo_persisted i [j]) =
      Inr [(demo_device j, \<lparr>pts_overlay_ip = Ipv4Addr 100 64 0 j, pts_endpoint = demo_udp_endpoint j,
       pts_crypto = demo_session i j\<rparr>)]"
    by (simp add: build_peer_transport_sessions_def demo_persisted_def demo_peer_def demo_session_new)
  then show "peer_transport_sessions_by_device (demo_node i j) =
     [(demo_device j, \<lparr>pts_overlay_ip = Ipv4Addr 100 64 0 j, pts_endpoint = demo_udp_endpoint j,
       pts_crypto = demo_session i j\<rparr>)]"
    by (simp add: demo_node_def from_persisted_def Let_def)
qed (simp_all add: demo_node_def from_persisted_def Let_def demo_persisted_def demo_peer_def hm_collect_def
    List.map_filter_simps)

lemma demo_session_ids:
  "cs_local_id (demo_session i j) = replicate 16 i" "cs_peer_id (demo_session i j) = replicate 16 j"
  using demo_session_new [of i j] by (auto simp: peer_crypto_session_new_Inr)

lemma demo_sessions_ready: "ready_to_receive (demo_session i j) (demo_session j i)"
  by (rule new_session_ready, rule sessions_paired [OF demo_prims_laws _ _ _ _ _ demo_session_new demo_session_new])
    (use demo_session_new [of j i] in \<open>auto simp: frame_constants peer_crypto_session_new_Inr\<close>)

definition demo_packet :: "u8 \<Rightarrow> bytes" where
  "demo_packet j = [0x45, 0, 0, 20, 0, 0, 0, 0, 64, 17, 0, 0, 100, 64, 0, 1, 100, 64, 0, j]"

lemma demo_packet_destination [simp]: "ipv4_destination (demo_packet j) = Inr (Ipv4Addr 100 64 0 j)"
  by (simp add: ipv4_destination_def demo_packet_def packet_constants Let_def)

lemma demo_frame_length:
  assumes "seal demo_prims (demo_session i j) m = (Inr f, c)"
  shows "length f = length m + 61"
proof -
  have seal: "seal_message demo_prims (demo_session i j) m FRAME_TYPE_DATA = (Inr f, c)" using assms by (simp add: seal_def)
  have wf: "session_wf (demo_session i j)"
    using demo_sessions_ready [of i j] by (simp add: ready_to_receive_def session_paired_def)
  obtain nonce hb ct where
    d: "encoded_frame_decode f = Inr \<lparr>ef_header = frame_header_new (cs_local_id (demo_session i j)) (cs_peer_id (demo_session i j)) nonce FRAME_TYPE_DATA,
           ef_ciphertext = ct\<rparr>"
    and "aead_encrypt demo_prims (cs_cipher (demo_session i j)) nonce hb m = Some ct"
    using sealed_frame_decodes [OF wf seal] by metis
  then have "length ct = length m + 1" by (auto simp: demo_prims_def)
  moreover have "ct = drop 60 f" "60 \<le> length f"
    using d by (auto simp: encoded_frame_decode_def frame_header_decode_def and_then_eq_Inr Let_def frame_constants split: if_splits)
  ultimately show ?thesis by simp
qed

lemma demo_node_sends:
  obtains n rt tr f where "send_overlay_packet demo_prims to_json (demo_packet j) (demo_node i j) = (Inr n, rt)"
    and "rt_transport rt = Some tr" and "map fst (so_outbox (tr_socket tr)) = [f]" and "length f = 81"
    and "\<not> peer_path_is_relay (demo_node i j) (demo_device j)"
proof -
  obtain f c where f: "seal demo_prims (demo_session i j) (demo_packet j) = (Inr f, c)"
    using demo_seals [of FRAME_TYPE_DATA i j "demo_packet j"] by (auto simp: seal_def known_message_type_def)
  then have len: "length f = 81" using demo_frame_length by (simp add: demo_packet_def)
  have "\<exists>n rt tr. send_overlay_packet demo_prims to_json (demo_packet j) (demo_node i j) = (Inr n, rt) \<and>
      rt_transport rt = Some tr \<and> map fst (so_outbox (tr_socket tr)) = [f] \<and> \<not> peer_path_is_relay (demo_node i j) (demo_device j)"
    using f by (simp add: send_overlay_packet_def demo_node_fields Let_def peer_path_is_relay_def peer_path_state_default_def
        send_frame_def endpoint_socket_addr_def demo_udp_endpoint_def send_to_def demo_transport_def set_session_crypto_def inc_tx_packets_def)
  then show thesis using that [OF _ _ _ len] by (elim exE conjE)
qed

theorem overlay_packet_delivered_witness:
  "\<exists>frame rtb'. length frame \<le> 1500 \<and>
     receive_overlay_packet demo_prims (\<lambda>_. 0) 1500
       ((demo_node 2 1)\<lparr>rt_transport := Some (demo_transport (\<lambda>_. Datagram frame (demo_addr 1 41641)))\<rparr>) =
       (Inr (Some (demo_packet 2)), rtb')"
proof -
  obtain n rt tr f where send: "send_overlay_packet demo_prims (\<lambda>_. Inr []) (demo_packet 2) (demo_node 1 2) = (Inr n, rt)"
    and f: "rt_transport rt = Some tr" "map fst (so_outbox (tr_socket tr)) = [f]" "length f = 81"
      "\<not> peer_path_is_relay (demo_node 1 2) (demo_device 2)" by (rule demo_node_sends)
  let ?sa = "\<lparr>pts_overlay_ip = Ipv4Addr 100 64 0 2, pts_endpoint = demo_udp_endpoint 2, pts_crypto = demo_session 1 2\<rparr>"
  let ?sb = "\<lparr>pts_overlay_ip = Ipv4Addr 100 64 0 1, pts_endpoint = demo_udp_endpoint 1, pts_crypto = demo_session 2 1\<rparr>"
  let ?b = "\<lambda>frame. (demo_node 2 1)\<lparr>rt_transport := Some (demo_transport (\<lambda>_. Datagram frame (demo_addr 1 41641)))\<rparr>"
  have "hm_get (peers_by_overlay_ip (demo_node 1 2)) (Ipv4Addr 100 64 0 2) = Some (demo_device 2)"
    "hm_get (peer_transport_sessions_by_device (demo_node 1 2)) (demo_device 2) = Some ?sa"
    "ready_to_receive (pts_crypto ?sa) (pts_crypto ?sb)" by (simp_all add: demo_node_fields demo_sessions_ready)
  from overlay_packet_delivered [OF demo_prims_laws send demo_packet_destination this, of "\<lambda>_. 0"] obtain frame where
    over: "handed_over (\<lambda>_. Inr []) demo_prims (demo_device 2) (pts_endpoint ?sa) frame (demo_node 1 2) rt"
    and deliver: "\<And>rtb a addr. hm_get (peer_device_by_frame_id rtb) (cs_local_id (pts_crypto ?sa)) = Some a \<Longrightarrow>
       hm_get (peer_transport_sessions_by_device rtb) a = Some ?sb \<Longrightarrow> datagram_waits frame addr rtb \<Longrightarrow> length frame \<le> 1500 \<Longrightarrow>
       \<exists>rtb'. receive_overlay_packet demo_prims (\<lambda>_. 0) 1500 rtb = (Inr (Some (demo_packet 2)), rtb')"
    by meson
  have "frame = f" using over f by (auto simp: handed_over_def demo_node_fields demo_transport_def)
  moreover have "datagram_waits f (demo_addr 1 41641) (?b f)" by (simp add: datagram_waits_def demo_transport_def)
  moreover have "hm_get (peer_device_by_frame_id (?b f)) (cs_local_id (pts_crypto ?sa)) = Some (demo_device 1)"
    "hm_get (peer_transport_sessions_by_device (?b f)) (demo_device 1) = Some ?sb" by (simp_all add: demo_node_fields demo_session_ids)
  ultimately have "\<exists>rtb'. receive_overlay_packet demo_prims (\<lambda>_. 0) 1500 (?b f) = (Inr (Some (demo_packet 2)), rtb')"
    using deliver f(3) by simp
  with f(3) show ?thesis by (intro exI [of _ f]) simp
qed

text \<open>
  C13. A packet only ever leaves for the owner of its destination: in every state a node reaches
  from its peer map, whatever it received, probed and sent before, a packet that is sent is
  sealed with the session of a peer whose overlay address is the packet's destination, whose key
  material belongs to that peer's device id, and goes to a UDP endpoint or the relay.
\<close>

theorem overlay_packet_only_to_owner:
  assumes "runtime_started P rnd st rt0" and "(runtime_step P)\<^sup>*\<^sup>* rt0 rt"
    and "send_overlay_packet P to_json packet rt = (Inr n, rt')"
  shows "\<exists>peer session frame crypto. peer \<in> set (st_peers st) \<and>
    ipv4_destination packet = Inr (sp_overlay_ip peer) \<and>
    hm_get (peer_transport_sessions_by_device rt) (sp_device_id peer) = Some session \<and>
    from_device_id (parse_uuid P) (sp_device_id peer) = Inr (cs_peer_id (pts_crypto session)) \<and>
    ep_protocol (pts_endpoint session) = Udp \<and>
    seal P (pts_crypto session) packet = (Inr frame, crypto) \<and>
    handed_over to_json P (sp_device_id peer) (pts_endpoint session) frame rt rt'"
proof -
  have wf: "runtime_wf P path_wf (\<lambda>_. True) rt" and peers: "persisted rt = st"
    using runtime.reachable_inv [OF assms(1,2)] by auto
  from send_overlay_packet_Inr [OF assms(3)] obtain dst d session frame crypto where
    s: "ipv4_destination packet = Inr dst" "hm_get (peers_by_overlay_ip rt) dst = Some d"
      "hm_get (peer_transport_sessions_by_device rt) d = Some session"
      "seal P (pts_crypto session) packet = (Inr frame, crypto)"
      "handed_over to_json P d (pts_endpoint session) frame rt rt'"
    by blast
  from wf s(2) peers obtain peer where "peer \<in> set (st_peers st)" "sp_overlay_ip peer = dst" "sp_device_id peer = d"
    unfolding runtime_wf_def indexes_wf_def by blast
  moreover have "session_wf_for P d session" using wf s(3) by (auto simp: runtime_wf_def sessions_wf_def)
  ultimately show ?thesis using s by (auto simp: session_wf_for_def)
qed

theorem overlay_packet_only_to_owner_witness:
  "\<exists>peer. peer \<in> set (st_peers (demo_persisted 1 [2])) \<and>
     ipv4_destination (demo_packet 2) = Inr (sp_overlay_ip peer)"
proof -
  have start: "runtime_started demo_prims demo_rnd (demo_persisted 1 [2]) (demo_node 1 2)"
    by (simp add: runtime_started_def demo_node_def from_persisted_def Let_def)
  obtain n rt where "send_overlay_packet demo_prims (\<lambda>_. Inr []) (demo_packet 2) (demo_node 1 2) = (Inr n, rt)"
    by (rule demo_node_sends)
  from overlay_packet_only_to_owner [OF start rtranclp.rtrancl_refl this] show ?thesis by blast
qed

lemma open_message_refused: "open_message P s f = (Inl e, s') \<Longrightarrow> s' = s"
  by (auto simp: open_message_def Let_def split: sum.splits prod.splits if_splits dest: replay_accept_refused)

lemma frame_source_slice: "encoded_frame_decode f = Inr d \<Longrightarrow> fh_source (ef_header d) = slice 4 20 f"
  by (auto simp: encoded_frame_decode_def frame_header_decode_def and_then_eq_Inr Let_def split: if_splits)

text \<open>
  C14. A frame that is not accepted changes nothing but the drop counter: when the session
  of the frame's claimed source refuses it, because it does not authenticate, is for someone else or was
  received before, or there is no such session, the call fails, one received packet is counted as
  dropped, and everything else is exactly as before, the replay windows included.
\<close>

theorem rejected_frame_changes_nothing:
  assumes "\<And>d session. hm_get (peer_device_by_frame_id rt) (slice 4 20 frame) = Some d \<Longrightarrow>
      hm_get (peer_transport_sessions_by_device rt) d = Some session \<Longrightarrow>
      \<exists>e crypto. open_message P (pts_crypto session) frame = (Inl e, crypto)"
  shows "\<exists>e. open_received_frame P clk frame src rt =
    (Inl e, rt\<lparr>rt_transport := map_option transport_record_rx_drop (rt_transport rt)\<rparr>)"
proof (cases "encoded_frame_decode frame")
  case (Inl e)
  then show ?thesis by (simp add: open_received_frame_def rt_record_rx_drop_def)
next
  case (Inr decoded)
  note src = frame_source_slice [OF Inr]
  show ?thesis
  proof (cases "Option.bind (hm_get (peer_device_by_frame_id rt) (slice 4 20 frame))
      (hm_get (peer_transport_sessions_by_device rt))")
    case None
    with Inr src show ?thesis
      by (auto simp: open_received_frame_def rt_record_rx_drop_def Option.bind_eq_None_conv split: option.splits)
  next
    case (Some session)
    then obtain d where d: "hm_get (peer_device_by_frame_id rt) (slice 4 20 frame) = Some d"
      "hm_get (peer_transport_sessions_by_device rt) d = Some session"
      by (auto simp: Option.bind_eq_Some_conv)
    with assms obtain e crypto where fail: "open_message P (pts_crypto session) frame = (Inl e, crypto)" by blast
    have "crypto = pts_crypto session" using fail by (rule open_message_refused)
    then have "set_session_crypto d session crypto rt = rt"
      using d(2) by (simp add: set_session_crypto_def update_triv)
    with d fail Inr src show ?thesis by (simp add: open_received_frame_def rt_record_rx_drop_def)
  qed
qed

text \<open>The same frame with its last byte changed.\<close>

definition demo_tampered :: bytes where
  "demo_tampered = (case seal demo_prims (demo_session 1 2) (demo_packet 2) of (Inr f, _) \<Rightarrow> butlast f @ [last f + 1] | _ \<Rightarrow> [])"

lemma demo_tampered:
  "fst (open_message demo_prims (demo_session 2 1) demo_tampered) = Inl (CommandFailed ''packet authentication failed'')"
  "slice 4 20 demo_tampered = replicate 16 1"
  by code_simp+

theorem rejected_frame_changes_nothing_witness:
  "\<exists>e. hm_get (peer_device_by_frame_id (demo_node 2 1)) (slice 4 20 demo_tampered) = Some (demo_device 1) \<and>
     open_received_frame demo_prims (\<lambda>_. 0) demo_tampered None (demo_node 2 1) =
       (Inl e, (demo_node 2 1)\<lparr>rt_transport := map_option transport_record_rx_drop (rt_transport (demo_node 2 1))\<rparr>)"
proof -
  have "\<exists>e. open_received_frame demo_prims (\<lambda>_. 0) demo_tampered None (demo_node 2 1) =
       (Inl e, (demo_node 2 1)\<lparr>rt_transport := map_option transport_record_rx_drop (rt_transport (demo_node 2 1))\<rparr>)"
  proof (rule rejected_frame_changes_nothing)
    fix d session
    assume "hm_get (peer_device_by_frame_id (demo_node 2 1)) (slice 4 20 demo_tampered) = Some d"
      "hm_get (peer_transport_sessions_by_device (demo_node 2 1)) d = Some session"
    then show "\<exists>e crypto. open_message demo_prims (pts_crypto session) demo_tampered = (Inl e, crypto)"
      using demo_tampered(1) by (auto simp: demo_node_fields prod_eq_iff split: if_splits)
  qed
  then show ?thesis by (simp add: demo_node_fields demo_tampered(2))
qed

text \<open>
  One endpoint that cannot be sent to stops the probing of every later peer: when sending a
  probe to the first peer fails, the maintenance call fails, no other peer is probed or has its
  session used, their paths only see the staleness check, and since the failed peer's time of
  last probe is not recorded either, the next call starts with the same peer again.
\<close>

theorem probe_failure_starves_later_peers:
  assumes "rt_transport rt = Some tr" and "st_peers (persisted rt) = p # ps"
    and "peer_path_probe_due (path_or_default (expire_stale_direct_paths (clk 0) rt) (sp_device_id p)) (clk 1)"
    and "hm_get (peer_transport_sessions_by_device rt) (sp_device_id p) = Some session"
    and "probe_endpoints P (unix_millis (clk 2)) (sorted_udp_endpoints (sp_endpoints p)) (pts_crypto session) tr 0 =
           (Inl e, rest)"
    and "d \<noteq> sp_device_id p"
  shows "\<exists>rt'. probe_peer_direct_paths P clk rt = (Inl e, rt') \<and>
    hm_get (peer_path_state_by_device rt') d =
      map_option (path_expire (relays rt) (clk 0)) (hm_get (peer_path_state_by_device rt) d) \<and>
    hm_get (peer_transport_sessions_by_device rt') d = hm_get (peer_transport_sessions_by_device rt) d \<and>
    last_probe_at (path_or_default rt' (sp_device_id p)) =
      last_probe_at (path_or_default (expire_stale_direct_paths (clk 0) rt) (sp_device_id p))"
proof -
  obtain c tr' n where rest: "rest = (c, tr', n)" by (cases rest) auto
  let ?rt = "expire_stale_direct_paths (clk 0) rt"
  have f: "rt_transport ?rt = Some tr" "persisted ?rt = persisted rt"
    "peer_transport_sessions_by_device ?rt = peer_transport_sessions_by_device rt"
    "hm_get (peer_path_state_by_device ?rt) d = map_option (path_expire (relays rt) (clk 0)) (hm_get (peer_path_state_by_device rt) d)"
    using assms(1) by (simp_all add: expire_stale_direct_paths_def hmap_simps)
  have set_path_sessions: "peer_transport_sessions_by_device (set_path x y z) = peer_transport_sessions_by_device z" for x y z
    by (simp add: set_path_def)
  show ?thesis
    using assms(2-6) f rest
    by (auto simp: probe_peer_direct_paths_def Let_def set_path_sessions numeral_2_eq_2)
      (auto simp: set_session_crypto_def set_path_def path_or_default_def hmap_simps)
qed

definition demo_blocked_node :: runtime_state where
  "demo_blocked_node = (from_persisted demo_prims demo_rnd (demo_persisted 1 [2, 3]))
     \<lparr>rt_transport := Some ((demo_transport (\<lambda>_. WouldBlock))
        \<lparr>tr_socket := (tr_socket (demo_transport (\<lambda>_. WouldBlock)))
           \<lparr>so_send_outcome := (\<lambda>_. Inl ''Network is unreachable'')\<rparr>\<rparr>)\<rparr>"

lemma demo_device_inject [simp]: "demo_device i = demo_device j \<longleftrightarrow> i = j"
proof
  assume "demo_device i = demo_device j"
  then have "(Inr (replicate 16 i) :: bytes backend_result) = Inr (replicate 16 j)" by (metis demo_device_id)
  then show "i = j" by (simp add: replicate_eq_replicate)
qed simp

lemma demo_blocked_fields:
  "st_peers (persisted demo_blocked_node) = demo_peer 2 # [demo_peer 3]"
  "hm_get (peer_transport_sessions_by_device demo_blocked_node) (demo_device 2) =
     Some \<lparr>pts_overlay_ip = Ipv4Addr 100 64 0 2, pts_endpoint = demo_udp_endpoint 2, pts_crypto = demo_session 1 2\<rparr>"
  "hm_get (peer_path_state_by_device demo_blocked_node) (demo_device j) =
     (if j = 2 \<or> j = 3 then Some peer_path_state_default else None)"
proof -
  have "build_peer_transport_sessions demo_prims demo_rnd (demo_persisted 1 [2, 3]) =
      Inr [(demo_device 2, \<lparr>pts_overlay_ip = Ipv4Addr 100 64 0 2, pts_endpoint = demo_udp_endpoint 2,
              pts_crypto = demo_session 1 2\<rparr>),
           (demo_device 3, \<lparr>pts_overlay_ip = Ipv4Addr 100 64 0 3, pts_endpoint = demo_udp_endpoint 3,
              pts_crypto = demo_session 1 3\<rparr>)]"
    by (simp add: build_peer_transport_sessions_def demo_persisted_def demo_peer_def demo_session_new)
  then show "hm_get (peer_transport_sessions_by_device demo_blocked_node) (demo_device 2) =
     Some \<lparr>pts_overlay_ip = Ipv4Addr 100 64 0 2, pts_endpoint = demo_udp_endpoint 2, pts_crypto = demo_session 1 2\<rparr>"
    by (simp add: demo_blocked_node_def from_persisted_def Let_def)
qed (simp_all add: demo_blocked_node_def from_persisted_def Let_def demo_persisted_def demo_peer_def hm_collect_def)

theorem probe_failure_starves_later_peers_witness:
  "\<exists>e rt'. probe_peer_direct_paths demo_prims (\<lambda>_. 0) demo_blocked_node = (Inl e, rt') \<and>
     hm_get (peer_path_state_by_device rt') (demo_device 3) = Some peer_path_state_default"
proof -
  let ?rt = "expire_stale_direct_paths 0 demo_blocked_node"
  let ?tr = "(demo_transport (\<lambda>_. WouldBlock))\<lparr>tr_socket := (tr_socket (demo_transport (\<lambda>_. WouldBlock)))
           \<lparr>so_send_outcome := (\<lambda>_. Inl ''Network is unreachable'')\<rparr>\<rparr>"
  obtain f c where "seal_message demo_prims (demo_session 1 2) (probe_payload 0) FRAME_TYPE_PROBE = (Inr f, c)"
    using demo_seals [of FRAME_TYPE_PROBE 1 2 "probe_payload 0"] by (auto simp: known_message_type_def)
  then obtain e rest where fail: "probe_endpoints demo_prims (unix_millis 0) (sorted_udp_endpoints (sp_endpoints (demo_peer 2)))
      (demo_session 1 2) ?tr 0 = (Inl e, rest)"
    by (simp add: unix_millis_def duration_since_def demo_peer_def sorted_udp_endpoints_def demo_udp_endpoint_def
        send_frame_def endpoint_socket_addr_def send_to_def demo_transport_def)
  have "path_or_default ?rt (demo_device 2) = peer_path_state_default"
    by (simp add: path_or_default_def expire_stale_direct_paths_def hmap_simps demo_blocked_fields path_expire_def
        peer_path_state_default_def)
  then have due: "peer_path_probe_due (path_or_default ?rt (sp_device_id (demo_peer 2))) 0"
    by (simp add: demo_peer_def peer_path_probe_due_def peer_path_state_default_def)
  have "path_expire r 0 peer_path_state_default = peer_path_state_default" for r
    by (simp add: path_expire_def peer_path_state_default_def)
  moreover have "rt_transport demo_blocked_node = Some ?tr" by (simp add: demo_blocked_node_def)
  moreover have "sp_device_id (demo_peer 2) = demo_device 2" by (simp add: demo_peer_def)
  ultimately show ?thesis
    using probe_failure_starves_later_peers [of demo_blocked_node ?tr "demo_peer 2" "[demo_peer 3]" "\<lambda>_. 0"
      "\<lparr>pts_overlay_ip = Ipv4Addr 100 64 0 2, pts_endpoint = demo_udp_endpoint 2, pts_crypto = demo_session 1 2\<rparr>"
      demo_prims e rest "demo_device 3"] due fail
    by (auto simp: demo_blocked_fields)
qed

end
