(* ===== verification/State_File.thy ===== *)
theory State_File
  imports Core_Protocol
begin

text \<open>
  The file system as the two state files use it: the custom backend's \<open>custom-backend.json\<close> and the
  agent's \<open>state.json\<close> are each one file in one directory, with at most one temporary file beside it.
\<close>

record disk =
  dk_file :: "bytes option"
  dk_tmp :: "bytes option"
  dk_fail :: "nat \<Rightarrow> string option"     \<comment> \<open>how the \<open>n\<close>-th file-system call fails, if it does\<close>
  dk_partial :: bytes                   \<comment> \<open>what a failed write leaves behind\<close>
  dk_calls :: nat
  dk_file_mode :: nat                   \<comment> \<open>permission bits of the file\<close>
  dk_tmp_mode :: nat
  dk_new_mode :: nat                    \<comment> \<open>the bits of a file that the process creates\<close>

text \<open>\<open>fs::write\<close> creates a file or truncates the one that is there, which keeps its mode.\<close>

definition write_state_file :: "bytes \<Rightarrow> disk \<Rightarrow> disk" where
  "write_state_file bs d = d\<lparr>dk_file := Some bs, dk_file_mode := (if dk_file d = None then dk_new_mode d else dk_file_mode d)\<rparr>"

definition write_tmp :: "bytes \<Rightarrow> disk \<Rightarrow> disk" where
  "write_tmp bs d = d\<lparr>dk_tmp := Some bs, dk_tmp_mode := (if dk_tmp d = None then dk_new_mode d else dk_tmp_mode d)\<rparr>"

definition rename_tmp :: "disk \<Rightarrow> disk" where
  "rename_tmp d = d\<lparr>dk_file := dk_tmp d, dk_file_mode := dk_tmp_mode d, dk_tmp := None\<rparr>"

definition set_permissions :: "nat \<Rightarrow> disk \<Rightarrow> disk" where
  "set_permissions mode d = d\<lparr>dk_file_mode := mode\<rparr>"

lemma file_ops_simps [simp]:
  "dk_file (write_state_file bs d) = Some bs" "dk_tmp (write_state_file bs d) = dk_tmp d" "dk_fail (write_state_file bs d) = dk_fail d"
  "dk_calls (write_state_file bs d) = dk_calls d" "dk_partial (write_state_file bs d) = dk_partial d"
  "dk_file (write_tmp bs d) = dk_file d" "dk_tmp (write_tmp bs d) = Some bs" "dk_fail (write_tmp bs d) = dk_fail d"
  "dk_calls (write_tmp bs d) = dk_calls d" "dk_partial (write_tmp bs d) = dk_partial d"
  "dk_file (rename_tmp d) = dk_tmp d" "dk_tmp (rename_tmp d) = None" "dk_fail (rename_tmp d) = dk_fail d"
  "dk_calls (rename_tmp d) = dk_calls d" "dk_partial (rename_tmp d) = dk_partial d"
  "dk_file (set_permissions m d) = dk_file d" "dk_tmp (set_permissions m d) = dk_tmp d" "dk_fail (set_permissions m d) = dk_fail d"
  "dk_calls (set_permissions m d) = dk_calls d" "dk_partial (set_permissions m d) = dk_partial d"
  by (simp_all add: write_state_file_def write_tmp_def rename_tmp_def set_permissions_def)

text \<open>One file-system call: counted, and failing without effect when the disk says so.\<close>

definition fs_call :: "(string \<Rightarrow> 'e) \<Rightarrow> (disk \<Rightarrow> disk) \<Rightarrow> (disk \<Rightarrow> disk) \<Rightarrow> disk \<Rightarrow> ('e + unit) \<times> disk" where
  "fs_call error effect on_failure dk =
     (let dk' = dk\<lparr>dk_calls := Suc (dk_calls dk)\<rparr> in
      case dk_fail dk (dk_calls dk) of
        Some e \<Rightarrow> (Inl (error e), on_failure dk')
      | None \<Rightarrow> (Inr (), effect dk'))"

end
