(* ===== verification/Network_Backend.thy ===== *)
theory Network_Backend
  imports Core_Protocol
begin

text \<open>
  \<open>tfscale-net/src/lib.rs\<close>: the trait \<open>NetworkBackend\<close>, through which the agent drives a backend, and
  its implementation \<open>MockBackend\<close>, which records the calls it receives. The trait is a record of
  operations on the state of the backend; the agent's functions take such a record. The locale
  states what every implementation owes its client: no operation breaks the backend's invariant.
\<close>

section \<open>The trait\<close>

record 'b network_backend =
  nb_backend_type :: "'b \<Rightarrow> backend_type"
  nb_capabilities :: "'b \<Rightarrow> backend_capabilities"
  nb_ensure_credentials :: "(backend_error, 'b, backend_credential) prog"
  nb_apply_local_config :: "local_backend_config \<Rightarrow> (backend_error, 'b, unit) prog"
  nb_apply_relay_map :: "relay_config list \<Rightarrow> (backend_error, 'b, unit) prog"
  nb_apply_peer_map :: "peer_config list \<Rightarrow> (backend_error, 'b, unit) prog"
  nb_local_endpoints :: "(backend_error, 'b, endpoint list) prog"
  nb_probe_public_endpoint :: "socket_addr \<Rightarrow> duration \<Rightarrow> (backend_error, 'b, public_endpoint_probe option) prog"
  nb_maintain_peer_paths :: "(backend_error, 'b, unit) prog"
  nb_status :: "(backend_error, 'b, backend_status) prog"
  nb_shutdown :: "(backend_error, 'b, unit) prog"

locale network_backend_contract =
  fixes nb :: "'b network_backend"
    and ok :: "'b \<Rightarrow> bool"
  assumes keeps_ensure_credentials: "prog_keeps ok (nb_ensure_credentials nb)"
    and keeps_apply_local_config: "prog_keeps ok (nb_apply_local_config nb config)"
    and keeps_apply_relay_map: "prog_keeps ok (nb_apply_relay_map nb relays)"
    and keeps_apply_peer_map: "prog_keeps ok (nb_apply_peer_map nb peers)"
    and keeps_local_endpoints: "prog_keeps ok (nb_local_endpoints nb)"
    and keeps_probe_public_endpoint: "prog_keeps ok (nb_probe_public_endpoint nb server timeout)"
    and keeps_maintain_peer_paths: "prog_keeps ok (nb_maintain_peer_paths nb)"
    and keeps_status: "prog_keeps ok (nb_status nb)"
    and keeps_shutdown: "prog_keeps ok (nb_shutdown nb)"
begin

lemmas keeps_operations = keeps_ensure_credentials keeps_apply_local_config keeps_apply_relay_map
  keeps_apply_peer_map keeps_local_endpoints keeps_probe_public_endpoint keeps_maintain_peer_paths
  keeps_status keeps_shutdown

end

section \<open>The mock backend\<close>

record mock_backend_state =
  ensure_credentials_calls :: nat
  local_configs :: "local_backend_config list"
  relay_maps :: "relay_config list list"
  peer_maps :: "peer_config list list"
  maintain_peer_paths_calls :: nat
  shutdown_calls :: nat

record mock_backend =
  mb_state :: mock_backend_state
  mb_credential :: backend_credential
  mb_backend_type :: backend_type
  mb_capabilities :: backend_capabilities
  mb_endpoints :: "endpoint list"

definition mock_backend_state_default :: mock_backend_state where
  "mock_backend_state_default =
     \<lparr>ensure_credentials_calls = 0, local_configs = [], relay_maps = [], peer_maps = [],
      maintain_peer_paths_calls = 0, shutdown_calls = 0\<rparr>"

definition mock_new :: "string \<Rightarrow> mock_backend" where
  "mock_new public_credential =
     \<lparr>mb_state = mock_backend_state_default, mb_credential = \<lparr>bc_public = public_credential\<rparr>,
      mb_backend_type = Custom ''mock'',
      mb_capabilities = backend_capabilities_default\<lparr>supports_userspace_tun := True, supports_dynamic_peers := True\<rparr>,
      mb_endpoints = []\<rparr>"

definition mock_with_endpoints :: "endpoint list \<Rightarrow> mock_backend \<Rightarrow> mock_backend" where
  "mock_with_endpoints endpoints b = b\<lparr>mb_endpoints := endpoints\<rparr>"

definition mock_snapshot :: "mock_backend \<Rightarrow> mock_backend_state" where
  "mock_snapshot b = mb_state b"

text \<open>A call that updates the record of calls and succeeds.\<close>

definition mock_call :: "(mock_backend_state \<Rightarrow> mock_backend_state) \<Rightarrow> 'a \<Rightarrow> (backend_error, mock_backend, 'a) prog" where
  "mock_call f x b = Some (Inr x, b\<lparr>mb_state := f (mb_state b)\<rparr>)"

definition mock_status :: "mock_backend \<Rightarrow> backend_status" where
  "mock_status b =
     \<lparr>bs_backend_type = mb_backend_type b, bs_interface_name = ''mock0'', bs_healthy = True,
      bs_message = None, bs_peers = []\<rparr>"

definition mock_network_backend :: "mock_backend network_backend" where
  "mock_network_backend =
     \<lparr>nb_backend_type = mb_backend_type, nb_capabilities = mb_capabilities,
      nb_ensure_credentials = (\<lambda>b. mock_call (\<lambda>s. s\<lparr>ensure_credentials_calls := ensure_credentials_calls s + 1\<rparr>) (mb_credential b) b),
      nb_apply_local_config = (\<lambda>config. mock_call (\<lambda>s. s\<lparr>local_configs := local_configs s @ [config]\<rparr>) ()),
      nb_apply_relay_map = (\<lambda>relays. mock_call (\<lambda>s. s\<lparr>relay_maps := relay_maps s @ [relays]\<rparr>) ()),
      nb_apply_peer_map = (\<lambda>peers. mock_call (\<lambda>s. s\<lparr>peer_maps := peer_maps s @ [peers]\<rparr>) ()),
      nb_local_endpoints = (\<lambda>b. Some (Inr (mb_endpoints b), b)),
      nb_probe_public_endpoint = (\<lambda>_ _ b. Some (Inr None, b)),
      nb_maintain_peer_paths = mock_call (\<lambda>s. s\<lparr>maintain_peer_paths_calls := maintain_peer_paths_calls s + 1\<rparr>) (),
      nb_status = (\<lambda>b. Some (Inr (mock_status b), b)),
      nb_shutdown = mock_call (\<lambda>s. s\<lparr>shutdown_calls := shutdown_calls s + 1\<rparr>) ()\<rparr>"

text \<open>What a mock backend was built with never changes.\<close>

definition mock_same :: "mock_backend \<Rightarrow> mock_backend \<Rightarrow> bool" where
  "mock_same b0 b \<longleftrightarrow> mb_credential b = mb_credential b0 \<and> mb_backend_type b = mb_backend_type b0 \<and>
     mb_capabilities b = mb_capabilities b0 \<and> mb_endpoints b = mb_endpoints b0"

interpretation mock: network_backend_contract mock_network_backend "mock_same b0" for b0
  by unfold_locales (auto simp: prog_keeps_def mock_network_backend_def mock_call_def mock_same_def)

end
