(* ===== verification/Backend.thy ===== *)
theory Backend
  imports Backend_State State_File Network_Backend
begin

text \<open>
  \<open>CustomBackend\<close> of \<open>tfscale-custom/src/lib.rs\<close>: the operations of the \<open>NetworkBackend\<close> trait over the
  state file, the operating system and the runtime state behind its mutex. An operation maps a
  backend to its result and the new backend, or to \<open>None\<close> when it never returns to its caller: a
  thread that locks a mutex it already holds, or a panic. What one call finds in the world (clock,
  random numbers, sockets, the JSON codec) is the record \<open>backend_env\<close>. Lock poisoning is not
  modelled: no operation panics while it holds the lock.
\<close>

section \<open>The state file\<close>

record backend_env =
  en_prims :: crypto_prims
  en_ser :: "custom_backend_state \<Rightarrow> string + bytes"
  en_de :: "bytes \<Rightarrow> string + custom_backend_state"
  en_to_json :: "relay_message \<Rightarrow> string + bytes"
  en_rnd :: "nat \<Rightarrow> string + bytes"
  en_private_key :: bytes
  en_uuid :: string
  en_now :: system_time
  en_clock :: "nat \<Rightarrow> system_time"
  en_target :: target_os
  en_bind :: bind_env
  en_connect :: "string \<Rightarrow> nat \<Rightarrow> string + tcp_stream"
  en_fuel :: nat

record custom_backend =
  cb_interface_name :: string
  cb_runtime :: runtime_state
  cb_locked :: bool                     \<comment> \<open>the calling thread holds the mutex of the runtime state\<close>
  cb_tun_setup_enabled :: bool
  cb_disk :: disk
  cb_os :: os_env

type_synonym 'a cb = "(backend_error, custom_backend, 'a) prog"

definition cb_panic :: "'a cb" where
  "cb_panic b = None"

text \<open>\<open>self.state.lock()\<close> for one expression: locking a mutex the thread holds never returns.\<close>

definition with_lock :: "(runtime_state \<Rightarrow> 'a backend_result \<times> runtime_state) \<Rightarrow> 'a cb" where
  "with_lock f b =
     (if cb_locked b then None
      else case f (cb_runtime b) of (r, rt) \<Rightarrow> Some (r, b\<lparr>cb_runtime := rt\<rparr>))"

definition with_state_path :: "string \<Rightarrow> disk \<Rightarrow> os_env \<Rightarrow> custom_backend" where
  "with_state_path interface_name dk os =
     \<lparr>cb_interface_name = interface_name, cb_runtime = runtime_state_default, cb_locked = False,
      cb_tun_setup_enabled = True, cb_disk = dk, cb_os = os\<rparr>"

text \<open>\<open>new\<close> and \<open>default\<close>, over the disk at the default path.\<close>

definition custom_backend_new :: "string \<Rightarrow> disk \<Rightarrow> os_env \<Rightarrow> custom_backend" where
  "custom_backend_new interface_name dk os = with_state_path interface_name dk os"

definition custom_backend_default :: "disk \<Rightarrow> os_env \<Rightarrow> custom_backend" where
  "custom_backend_default dk os = custom_backend_new ''tfscale0'' dk os"

definition with_tun_setup :: "bool \<Rightarrow> custom_backend \<Rightarrow> custom_backend" where
  "with_tun_setup enabled b = b\<lparr>cb_tun_setup_enabled := enabled\<rparr>"

definition on_disk :: "(disk \<Rightarrow> 'a backend_result \<times> disk) \<Rightarrow> 'a cb" where
  "on_disk f b = (case f (cb_disk b) of (r, dk) \<Rightarrow> Some (r, b\<lparr>cb_disk := dk\<rparr>))"

definition load_state_disk :: "backend_env \<Rightarrow> disk \<Rightarrow> custom_backend_state backend_result \<times> disk" where
  "load_state_disk env dk =
     (case dk_file dk of
        None \<Rightarrow> (Inr custom_backend_state_default, dk)
      | Some bs \<Rightarrow>
          (case fs_call CommandFailed id id dk of
             (Inl e, dk') \<Rightarrow> (Inl e, dk')
           | (Inr _, dk') \<Rightarrow>
               (and_then (map_err CommandFailed (en_de env bs)) (\<lambda>state.
                and_then (validate_state_version state) (\<lambda>_. Inr state)), dk')))"

definition load_state :: "backend_env \<Rightarrow> custom_backend_state cb" where
  "load_state env = on_disk (load_state_disk env)"

text \<open>Mode \<open>0o600\<close>, on Unix.\<close>

definition STATE_FILE_MODE :: nat where "STATE_FILE_MODE = 384"

definition protect_state_file :: "disk \<Rightarrow> unit backend_result \<times> disk" where
  "protect_state_file dk = fs_call CommandFailed (set_permissions STATE_FILE_MODE) id dk"

text \<open>\<open>create_dir_all\<close>, write of the temporary file, rename, \<open>set_permissions\<close>.\<close>

definition save_state_disk :: "backend_env \<Rightarrow> custom_backend_state \<Rightarrow> disk \<Rightarrow> unit backend_result \<times> disk" where
  "save_state_disk env state dk =
     (case fs_call CommandFailed id id dk of
        (Inl e, dk) \<Rightarrow> (Inl e, dk)
      | (Inr _, dk) \<Rightarrow>
          (case en_ser env state of
             Inl e \<Rightarrow> (Inl (CommandFailed e), dk)
           | Inr bs \<Rightarrow>
               (case fs_call CommandFailed (write_tmp bs) (\<lambda>d. write_tmp (dk_partial d) d) dk of
                  (Inl e, dk) \<Rightarrow> (Inl e, dk)
                | (Inr _, dk) \<Rightarrow>
                    (case fs_call CommandFailed rename_tmp id dk of
                       (Inl e, dk) \<Rightarrow> (Inl e, dk)
                     | (Inr _, dk) \<Rightarrow> protect_state_file dk))))"

definition save_state :: "backend_env \<Rightarrow> custom_backend_state \<Rightarrow> unit cb" where
  "save_state env state = on_disk (save_state_disk env state)"

section \<open>Runtime state behind the mutex\<close>

definition replace_runtime :: "backend_env \<Rightarrow> custom_backend_state \<Rightarrow> runtime_state \<Rightarrow> runtime_state" where
  "replace_runtime env state rt =
     (from_persisted (en_prims env) (en_rnd env) state)
       \<lparr>rt_tun_status := rt_tun_status rt, rt_tun_device := rt_tun_device rt,
        rt_transport := rt_transport rt, rt_transport_tasks := rt_transport_tasks rt\<rparr>"

definition replace_state :: "backend_env \<Rightarrow> custom_backend_state \<Rightarrow> unit cb" where
  "replace_state env state =
     prog_bind (save_state env state) (\<lambda>_.
       with_lock (\<lambda>rt. (Inr (), replace_runtime env state rt)))"

definition set_tun_status :: "tun_status \<Rightarrow> unit cb" where
  "set_tun_status status = with_lock (\<lambda>rt. (Inr (), rt\<lparr>rt_tun_status := Some status\<rparr>))"

text \<open>
  \<open>spawn_relay_to_tun_loop\<close> locks the runtime state to read the relay and the device id before it
  spawns its thread; \<open>TransportTasks::start\<close> calls it after spawning the two UDP loops.
\<close>

definition spawn_relay_to_tun_loop :: "custom_backend \<Rightarrow> (task_kind option \<times> custom_backend) option" where
  "spawn_relay_to_tun_loop b =
     (if cb_locked b then None
      else Some (if relays (cb_runtime b) \<noteq> [] \<and> st_local_config (persisted (cb_runtime b)) \<noteq> None
                 then Some RelayToTun else None, b))"

definition transport_tasks_start :: "custom_backend \<Rightarrow> (transport_tasks \<times> custom_backend) option" where
  "transport_tasks_start b =
     (let handles = [TunToUdp, UdpToTun] in
      case spawn_relay_to_tun_loop b of
        None \<Rightarrow> None
      | Some (handle, b') \<Rightarrow>
          Some (\<lparr>tt_stop = False, tt_handles = handles @ (case handle of Some h \<Rightarrow> [h] | None \<Rightarrow> [])\<rparr>, b'))"

text \<open>The guard of the mutex lives until the end of the function, across the call above.\<close>

definition start_transport_tasks :: "unit cb" where
  "start_transport_tasks b =
     (if cb_locked b then None
      else let rt = cb_runtime b; b = b\<lparr>cb_locked := True\<rparr> in
        if rt_transport_tasks rt \<noteq> None \<or> rt_tun_device rt = None \<or> rt_transport rt = None
        then Some (Inr (), b\<lparr>cb_locked := False\<rparr>)
        else (case transport_tasks_start b of
                None \<Rightarrow> None
              | Some (tasks, b') \<Rightarrow>
                  Some (Inr (), b'\<lparr>cb_runtime := (cb_runtime b')\<lparr>rt_transport_tasks := Some tasks\<rparr>,
                                  cb_locked := False\<rparr>)))"

text \<open>Stopping sets the flag and joins the threads, whose loops all read the flag.\<close>

definition stop_transport_tasks :: "unit cb" where
  "stop_transport_tasks = with_lock (\<lambda>rt. (Inr (), rt\<lparr>rt_transport_tasks := None\<rparr>))"

definition set_tun_device :: "tun_device \<Rightarrow> unit cb" where
  "set_tun_device device =
     prog_bind (with_lock (\<lambda>rt. (Inr (), rt\<lparr>rt_tun_status := Some (tun_status_of device),
                                         rt_tun_device := Some device\<rparr>)))
       (\<lambda>_. start_transport_tasks)"

definition bind_transport :: "backend_env \<Rightarrow> u16 \<Rightarrow> unit cb" where
  "bind_transport env listen_port =
     prog_bind stop_transport_tasks (\<lambda>_.
     prog_bind (with_lock (\<lambda>rt. (Inr (), rt\<lparr>rt_transport := None\<rparr>))) (\<lambda>_.
     prog_bind (prog_result (transport_bind (en_bind env) listen_port)) (\<lambda>transport.
     prog_bind (with_lock (\<lambda>rt. (Inr (), rt\<lparr>rt_transport := Some transport\<rparr>))) (\<lambda>_.
       start_transport_tasks))))"

section \<open>The backend trait\<close>

definition generate_identity :: "backend_env \<Rightarrow> custom_identity" where
  "generate_identity env =
     \<lparr>ci_key_id = ''kid_'' @ en_uuid env, ci_scheme = IDENTITY_SCHEME,
      ci_private_key = encode_key (en_prims env) (en_private_key env),
      ci_public_key = encode_public_credential (en_prims env) (public_of (en_prims env) (en_private_key env)),
      ci_created_at_unix_seconds = unix_seconds (en_now env), ci_rotated_from = None\<rparr>"

definition ensure_credentials :: "backend_env \<Rightarrow> backend_credential cb" where
  "ensure_credentials env =
     prog_bind (load_state env) (\<lambda>state.
       case st_identity state of
         Some ident \<Rightarrow>
           prog_bind (prog_result (derive_public_credential (en_prims env) (ci_private_key ident))) (\<lambda>derived.
             if ci_public_key ident \<noteq> derived
             then prog_result (Inl (CommandFailed ''stored public key does not match private key''))
             else prog_bind (with_lock (\<lambda>_. (Inr (), from_persisted (en_prims env) (en_rnd env) state))) (\<lambda>_.
                    prog_result (Inr \<lparr>bc_public = ci_public_key ident\<rparr>)))
       | None \<Rightarrow>
           (let ident = generate_identity env in
            prog_bind (replace_state env (state\<lparr>st_identity := Some ident\<rparr>)) (\<lambda>_.
              prog_result (Inr \<lparr>bc_public = ci_public_key ident\<rparr>))))"

definition configure_tun_cb :: "backend_env \<Rightarrow> tun_config \<Rightarrow> tun_device cb" where
  "configure_tun_cb env config b =
     (case tun_configure (en_target env) config (cb_os b) of (r, os) \<Rightarrow> Some (r, b\<lparr>cb_os := os\<rparr>))"

definition apply_tun_config :: "backend_env \<Rightarrow> tun_config \<Rightarrow> unit cb" where
  "apply_tun_config env tun_config b =
     (if \<not> cb_tun_setup_enabled b then
        prog_bind (bind_transport env (tc_listen_port tun_config)) (\<lambda>_.
          set_tun_status (tun_status_failed (tc_interface_name tun_config)
            ''TUN setup skipped by backend configuration'')) b
      else
        (case configure_tun_cb env tun_config b of
           None \<Rightarrow> None
         | Some (Inr device, b') \<Rightarrow>
             prog_bind (set_tun_device device) (\<lambda>_. bind_transport env (tc_listen_port tun_config)) b'
         | Some (Inl e, b') \<Rightarrow>
             prog_bind (set_tun_status (tun_status_failed (tc_interface_name tun_config) (backend_error_to_string e)))
               (\<lambda>_. prog_result (Inl e)) b'))"

definition apply_local_config :: "backend_env \<Rightarrow> local_backend_config \<Rightarrow> unit cb" where
  "apply_local_config env config =
     prog_bind (load_state env) (\<lambda>state.
     prog_bind (replace_state env (state\<lparr>st_local_config := Some config\<rparr>)) (\<lambda>_.
     prog_bind (load_state env) (\<lambda>state.
       case st_local_config state of
         None \<Rightarrow> cb_panic
       | Some config \<Rightarrow> apply_tun_config env (from_local_config config))))"

definition apply_relay_map :: "backend_env \<Rightarrow> relay_config list \<Rightarrow> unit cb" where
  "apply_relay_map env relay_list =
     with_lock (\<lambda>rt.
       (Inr (), rt\<lparr>relay_sender :=
            (case (st_local_config (persisted rt), relay_list) of
               (Some config, relay # _) \<Rightarrow>
                 TcpRelayFrameSender (tcp_relay_sender_new (en_connect env) relay (lc_device_id config) [])
             | _ \<Rightarrow> NullRelayFrameSender),
          relays := relay_list\<rparr>))"

definition apply_peer_map :: "backend_env \<Rightarrow> peer_config list \<Rightarrow> unit cb" where
  "apply_peer_map env peers =
     prog_bind (load_state env) (\<lambda>state.
     prog_bind (prog_result (collect_results (peer_to_session (en_prims env) (en_now env)) peers)) (\<lambda>sessions.
       replace_state env (state\<lparr>st_peers := sessions\<rparr>)))"

definition backend_local_endpoints :: "endpoint list cb" where
  "backend_local_endpoints =
     with_lock (\<lambda>rt. (Inr (case rt_transport rt of Some tr \<Rightarrow> transport_local_endpoints tr | None \<Rightarrow> []), rt))"

text \<open>
  \<open>probe_public_endpoint_blocking\<close>: without a bound transport it returns early, and otherwise the
  loops are restarted whatever the probe's result.
\<close>

definition probe_transport_locked ::
  "backend_env \<Rightarrow> socket_addr \<Rightarrow> duration \<Rightarrow> custom_backend \<Rightarrow>
     (public_endpoint_probe option backend_result option \<times> custom_backend) option" where
  "probe_transport_locked env probe_server timeout b =
     (if cb_locked b then None
      else case rt_transport (cb_runtime b) of
             None \<Rightarrow> Some (None, b)
           | Some tr \<Rightarrow>
               (case transport_probe_public_endpoint (en_fuel env) (en_clock env) probe_server timeout tr of
                  None \<Rightarrow> None
                | Some (r, tr') \<Rightarrow>
                    Some (Some r, b\<lparr>cb_runtime := (cb_runtime b)\<lparr>rt_transport := Some tr'\<rparr>\<rparr>)))"

definition probe_public_endpoint_blocking ::
  "backend_env \<Rightarrow> socket_addr \<Rightarrow> duration \<Rightarrow> public_endpoint_probe option cb" where
  "probe_public_endpoint_blocking env probe_server timeout =
     prog_bind stop_transport_tasks (\<lambda>_ b.
       case probe_transport_locked env probe_server timeout b of
         None \<Rightarrow> None
       | Some (None, b') \<Rightarrow> Some (Inl (CommandFailed ''UDP transport is not bound''), b')
       | Some (Some result, b') \<Rightarrow>
           (case start_transport_tasks b' of
              None \<Rightarrow> None
            | Some (Inl error, b'') \<Rightarrow> Some (Inl error, b'')
            | Some (Inr _, b'') \<Rightarrow> Some (result, b'')))"

definition backend_probe_peer_direct_paths :: "backend_env \<Rightarrow> nat cb" where
  "backend_probe_peer_direct_paths env = with_lock (probe_peer_direct_paths (en_prims env) (en_clock env))"

definition maintain_peer_paths :: "backend_env \<Rightarrow> unit cb" where
  "maintain_peer_paths env = prog_bind (backend_probe_peer_direct_paths env) (\<lambda>_. prog_result (Inr ()))"

definition backend_send_overlay_packet :: "backend_env \<Rightarrow> bytes \<Rightarrow> nat cb" where
  "backend_send_overlay_packet env packet =
     with_lock (send_overlay_packet (en_prims env) (en_to_json env) packet)"

definition backend_receive_overlay_packet :: "backend_env \<Rightarrow> nat \<Rightarrow> bytes option cb" where
  "backend_receive_overlay_packet env buffer_len =
     with_lock (receive_overlay_packet (en_prims env) (en_clock env) buffer_len)"

definition backend_shutdown :: "unit cb" where
  "backend_shutdown =
     prog_bind stop_transport_tasks (\<lambda>_.
     prog_bind (with_lock (\<lambda>rt. (Inr (), rt\<lparr>rt_transport := None\<rparr>))) (\<lambda>_.
     prog_bind (with_lock (\<lambda>rt. (Inr (rt_tun_device rt), rt\<lparr>rt_tun_device := None\<rparr>))) (\<lambda>device b.
       case device of
         None \<Rightarrow> Some (Inr (), b)
       | Some tun \<Rightarrow>
           (let interface_name = tus_interface_name (tun_status_of tun) in
            case tun_shutdown tun (cb_os b) of
              (Inl e, os) \<Rightarrow> Some (Inl e, b\<lparr>cb_os := os\<rparr>)
            | (Inr _, os) \<Rightarrow>
                set_tun_status (tun_status_failed interface_name ''TUN device shut down'') (b\<lparr>cb_os := os\<rparr>)))))"

section \<open>Status\<close>

definition backend_kind :: backend_type where
  "backend_kind = Custom ''tfscale''"

definition backend_caps :: backend_capabilities where
  "backend_caps = backend_capabilities_default
     \<lparr>supports_userspace_tun := True, supports_nat_traversal := True, supports_static_peers := True\<rparr>"

definition count_paths :: "peer_path_kind \<Rightarrow> (string, peer_path_state) hmap \<Rightarrow> nat" where
  "count_paths kind paths = length (filter (\<lambda>(_, s). current_path s = kind) paths)"

definition status_message :: "runtime_state \<Rightarrow> runtime_state \<Rightarrow> string" where
  "status_message stored rt =
     (let ts = (case rt_transport rt of Some tr \<Rightarrow> tr_status tr | None \<Rightarrow> transport_status_default);
          paths = peer_path_state_by_device rt;
          direct_peers = count_paths PathDirect paths;
          relay_peers = count_paths PathRelay paths;
          num = (\<lambda>label n. label @ nat_to_dec n);
          flag = (\<lambda>label v. label @ show_bool v)
      in flag ''custom backend state: credentials='' (st_identity (persisted stored) \<noteq> None) @
         flag '' local_config='' (st_local_config (persisted stored) \<noteq> None) @
         num '' peers='' (length (st_peers (persisted stored))) @
         num '' peer_indexes=device:'' (length (peers_by_device stored)) @
         num '' overlay:'' (length (peers_by_overlay_ip stored)) @
         num '' crypto_peers='' (length (peer_crypto_material_by_device stored)) @
         flag '' udp_bound='' (udp_bound ts) @
         flag '' transport_running='' (rt_transport_tasks rt \<noteq> None) @
         num '' local_endpoints='' (ts_local_endpoints ts) @
         num '' transport_peers='' (length (peer_udp_endpoints_by_device stored)) @
         num '' transport_sessions='' (length (peer_transport_sessions_by_device stored)) @
         num '' direct_peers='' direct_peers @
         num '' relay_peers='' relay_peers @
         '' fast_probe_peers='' @ fast_probe_status paths @
         '' direct_paths='' @ direct_path_status paths @
         num '' reachable_peers='' (direct_peers + relay_peers) @
         num '' tx_packets='' (unat (tx_packets ts)) @
         num '' rx_packets='' (unat (rx_packets ts)) @
         num '' tx_drops='' (unat (tx_drops ts)) @
         num '' rx_drops='' (unat (rx_drops ts)) @
         flag '' tun_configured='' (case rt_tun_status rt of Some s \<Rightarrow> tus_configured s | None \<Rightarrow> False) @
         flag '' tun_io_ready='' (case rt_tun_status rt of Some s \<Rightarrow> tus_io_ready s | None \<Rightarrow> False) @
         '' tun_message='' @
           (case Option.bind (rt_tun_status rt) tus_message of Some m \<Rightarrow> m | None \<Rightarrow> ''not_configured'') @
         '' data_plane=transport_ready'')"

definition backend_status_of :: "string \<Rightarrow> runtime_state \<Rightarrow> runtime_state \<Rightarrow> backend_status" where
  "backend_status_of interface_name stored rt =
     (let ts = (case rt_transport rt of Some tr \<Rightarrow> tr_status tr | None \<Rightarrow> transport_status_default);
          configured = (case rt_tun_status rt of Some s \<Rightarrow> tus_configured s | None \<Rightarrow> False);
          io_ready = (case rt_tun_status rt of Some s \<Rightarrow> tus_io_ready s | None \<Rightarrow> False)
      in \<lparr>bs_backend_type = backend_kind, bs_interface_name = interface_name,
          bs_healthy = (configured \<and> io_ready \<and> udp_bound ts \<and> rt_transport_tasks rt \<noteq> None),
          bs_message = Some (status_message stored rt),
          bs_peers = peer_path_diagnostics (st_peers (persisted stored)) (peer_path_state_by_device rt)
                       (tx_packets ts) (rx_packets ts)\<rparr>)"

definition backend_status_op :: "backend_env \<Rightarrow> backend_status cb" where
  "backend_status_op env =
     prog_bind (load_state env) (\<lambda>state b.
       with_lock (\<lambda>rt. (Inr (backend_status_of (cb_interface_name b)
                               (from_persisted (en_prims env) (en_rnd env) state) rt), rt)) b)"

section \<open>The packet loops\<close>

text \<open>
  One iteration of each loop, over the runtime state. The two locks of an iteration are separate
  critical sections; the state between them is what the other threads leave, which the second
  function of a pair takes as its argument.
\<close>

definition tun_to_udp_read :: "runtime_state \<Rightarrow> bytes option \<times> runtime_state" where
  "tun_to_udp_read rt =
     (case try_read_tun_packet 1500 rt of
        (Inr packet, rt') \<Rightarrow> (packet, rt')
      | (Inl _, rt') \<Rightarrow> (None, rt_record_rx_drop rt'))"

definition tun_to_udp_send ::
  "crypto_prims \<Rightarrow> (relay_message \<Rightarrow> string + bytes) \<Rightarrow> bytes option \<Rightarrow> runtime_state \<Rightarrow> runtime_state" where
  "tun_to_udp_send P to_json packet rt =
     (case packet of Some p \<Rightarrow> snd (send_overlay_packet P to_json p rt) | None \<Rightarrow> rt)"

definition udp_to_tun_receive ::
  "crypto_prims \<Rightarrow> (nat \<Rightarrow> system_time) \<Rightarrow> runtime_state \<Rightarrow> bytes option \<times> runtime_state" where
  "udp_to_tun_receive P clk rt =
     (case receive_overlay_packet P clk 1500 rt of
        (Inr packet, rt') \<Rightarrow> (packet, rt')
      | (Inl _, rt') \<Rightarrow> (None, rt_record_rx_drop rt'))"

definition to_tun_write :: "bytes option \<Rightarrow> runtime_state \<Rightarrow> runtime_state" where
  "to_tun_write packet rt =
     (case packet of
        None \<Rightarrow> rt
      | Some p \<Rightarrow>
          (case write_tun_packet p rt of
             (Inr _, rt') \<Rightarrow> rt'
           | (Inl _, rt') \<Rightarrow> rt_record_rx_drop rt'))"

text \<open>One line of the relay connection; \<open>from_json\<close> is the JSON decoder.\<close>

definition relay_to_tun_receive ::
  "crypto_prims \<Rightarrow> (nat \<Rightarrow> system_time) \<Rightarrow> (bytes \<Rightarrow> relay_message option) \<Rightarrow> bytes \<Rightarrow> runtime_state \<Rightarrow>
     bytes option \<times> runtime_state" where
  "relay_to_tun_receive P clk from_json line rt =
     (case from_json line of
        None \<Rightarrow> (None, rt)
      | Some message \<Rightarrow>
          (case open_relay_frame P clk message rt of
             (Inr packet, rt') \<Rightarrow> (packet, rt')
           | (Inl _, rt') \<Rightarrow> (None, rt_record_rx_drop rt')))"

section \<open>The mutex and the packet loops\<close>

text \<open>
  Between two operations no thread of the caller holds the lock. The second half of the
  invariant is what the lock discipline of \<open>start_transport_tasks\<close> makes of it: the loops are never
  started, because the one call that would start them locks the mutex a second time.
\<close>

definition backend_inv :: "custom_backend \<Rightarrow> bool" where
  "backend_inv b \<longleftrightarrow> \<not> cb_locked b \<and> rt_transport_tasks (cb_runtime b) = None"

abbreviation cb_keeps :: "'a cb \<Rightarrow> bool" where
  "cb_keeps \<equiv> prog_keeps backend_inv"

lemma on_disk_Some:
  "on_disk f b = Some (r, b') \<longleftrightarrow> (\<exists>dk. f (cb_disk b) = (r, dk) \<and> b' = b\<lparr>cb_disk := dk\<rparr>)"
  by (auto simp: on_disk_def split: prod.splits)

lemma with_lock_Some:
  "with_lock f b = Some (r, b') \<longleftrightarrow> \<not> cb_locked b \<and> (\<exists>rt. f (cb_runtime b) = (r, rt) \<and> b' = b\<lparr>cb_runtime := rt\<rparr>)"
  by (auto simp: with_lock_def split: prod.splits)

lemmas cb_Some = prog_bind_Inr on_disk_Some with_lock_Some prog_result_Some

lemma cb_keeps_panic: "cb_keeps cb_panic"
  by (simp add: prog_keeps_def cb_panic_def)

lemma cb_keeps_on_disk: "cb_keeps (on_disk f)"
  by (auto simp: prog_keeps_def on_disk_def backend_inv_def split: prod.splits)

lemma cb_keeps_with_lock:
  "(\<And>rt r rt'. rt_transport_tasks rt = None \<Longrightarrow> f rt = (r, rt') \<Longrightarrow> rt_transport_tasks rt' = None) \<Longrightarrow> cb_keeps (with_lock f)"
  by (auto simp: prog_keeps_def with_lock_def backend_inv_def split: prod.splits if_splits)

lemma start_transport_tasks_inv:
  assumes "backend_inv b"
  shows "start_transport_tasks b =
    (if rt_tun_device (cb_runtime b) = None \<or> rt_transport (cb_runtime b) = None then Some (Inr (), b) else None)"
  using assms
  by (auto simp: start_transport_tasks_def backend_inv_def Let_def transport_tasks_start_def spawn_relay_to_tun_loop_def)

lemma cb_keeps_start: "cb_keeps start_transport_tasks"
  by (auto simp: prog_keeps_def start_transport_tasks_inv split: if_splits)

lemma mark_peer_direct_tasks [simp]: "rt_transport_tasks (mark_peer_direct now d ep rtt rt) = rt_transport_tasks rt"
  by (simp add: mark_peer_direct_def set_path_def Let_def split: option.split)

lemma update_tasks [simp]:
  "rt_transport_tasks (set_session_crypto d s c rt) = rt_transport_tasks rt"
  "rt_transport_tasks (set_path d p rt) = rt_transport_tasks rt"
  "rt_transport_tasks (rt_record_rx_drop rt) = rt_transport_tasks rt"
  "rt_transport_tasks (expire_stale_direct_paths now rt) = rt_transport_tasks rt"
  by (simp_all add: set_session_crypto_def set_path_def rt_record_rx_drop_def expire_stale_direct_paths_def)

lemma send_overlay_packet_tasks:
  "send_overlay_packet P j p rt = (r, rt') \<Longrightarrow> rt_transport_tasks rt' = rt_transport_tasks rt"
  by (auto simp: send_overlay_packet_def Let_def split: sum.splits option.splits prod.splits if_splits)

lemma handle_probe_tasks:
  "handle_probe P clk d m a rt = (r, rt') \<Longrightarrow> rt_transport_tasks rt' = rt_transport_tasks rt"
  by (auto simp: handle_probe_def Let_def split: sum.splits option.splits prod.splits)

lemma open_received_frame_tasks:
  "open_received_frame P clk f a rt = (r, rt') \<Longrightarrow> rt_transport_tasks rt' = rt_transport_tasks rt"
  by (auto simp: open_received_frame_def Let_def dest!: handle_probe_tasks
      split: sum.splits option.splits prod.splits if_splits)

lemma receive_overlay_packet_tasks:
  "receive_overlay_packet P clk n rt = (r, rt') \<Longrightarrow> rt_transport_tasks rt' = rt_transport_tasks rt"
  by (auto simp: receive_overlay_packet_def dest!: open_received_frame_tasks
      split: sum.splits option.splits prod.splits)

lemma probe_peers_tasks:
  "probe_peers P clk k ps tr n rt = (r, rt') \<Longrightarrow> rt_transport_tasks rt' = rt_transport_tasks rt"
  by (induction ps arbitrary: k tr n rt)
    (auto simp: Let_def split: if_splits option.splits prod.splits sum.splits)

lemma probe_peer_direct_paths_tasks:
  "probe_peer_direct_paths P clk rt = (r, rt') \<Longrightarrow> rt_transport_tasks rt' = rt_transport_tasks rt"
  by (auto simp: probe_peer_direct_paths_def Let_def dest!: probe_peers_tasks split: option.splits)

lemmas tasks_kept = send_overlay_packet_tasks receive_overlay_packet_tasks probe_peer_direct_paths_tasks

lemma from_persisted_tasks [simp]: "rt_transport_tasks (from_persisted P rnd st) = None"
  by (simp add: from_persisted_def Let_def)

lemmas keeps_rules = prog_keeps_bind prog_keeps_result cb_keeps_panic cb_keeps_on_disk cb_keeps_start cb_keeps_with_lock

lemma keeps_replace_state: "cb_keeps (replace_state env st)"
  unfolding replace_state_def save_state_def
  by (intro keeps_rules) (auto simp: replace_runtime_def)

lemma keeps_bind_transport: "cb_keeps (bind_transport env port)"
  unfolding bind_transport_def stop_transport_tasks_def by (intro keeps_rules) auto

lemma keeps_ensure_credentials: "cb_keeps (ensure_credentials env)"
  unfolding ensure_credentials_def load_state_def Let_def
  by (rule prog_keeps_bind [OF cb_keeps_on_disk])
    (auto intro!: keeps_rules keeps_replace_state split: option.split)

lemma keeps_set_tun_device: "cb_keeps (set_tun_device device)"
  unfolding set_tun_device_def by (intro keeps_rules) auto

lemma keeps_set_tun_status: "cb_keeps (set_tun_status status)"
  unfolding set_tun_status_def by (intro keeps_rules) auto

lemma keeps_apply_tun_config: "cb_keeps (apply_tun_config env config)"
proof -
  have skip: "cb_keeps (prog_bind (bind_transport env port) (\<lambda>_. set_tun_status status))" for port status
    by (intro prog_keeps_bind keeps_bind_transport keeps_set_tun_status)
  have dev: "cb_keeps (prog_bind (set_tun_device device) (\<lambda>_. bind_transport env port))" for device port
    by (intro prog_keeps_bind keeps_set_tun_device keeps_bind_transport)
  have fail: "cb_keeps (prog_bind (set_tun_status status) (\<lambda>_. prog_result r))" for status and r :: "unit backend_result"
    by (intro prog_keeps_bind keeps_set_tun_status prog_keeps_result)
  have os: "backend_inv b \<Longrightarrow> backend_inv (b\<lparr>cb_os := os\<rparr>)" for b os by (simp add: backend_inv_def)
  show ?thesis
    unfolding prog_keeps_def
    by (auto simp: apply_tun_config_def configure_tun_cb_def split: if_splits option.splits prod.splits sum.splits
        dest: prog_keepsD [OF skip] prog_keepsD [OF dev, OF os] prog_keepsD [OF fail, OF os])
qed

lemma keeps_apply_local_config: "cb_keeps (apply_local_config env config)"
  unfolding apply_local_config_def load_state_def
  by (intro prog_keeps_bind cb_keeps_on_disk keeps_replace_state)
    (auto intro!: keeps_apply_tun_config cb_keeps_panic split: option.split)

lemma keeps_apply_relay_map: "cb_keeps (apply_relay_map env rs)"
  unfolding apply_relay_map_def by (intro keeps_rules) auto

lemma keeps_apply_peer_map: "cb_keeps (apply_peer_map env peers)"
  unfolding apply_peer_map_def load_state_def by (intro keeps_rules keeps_replace_state)

lemma keeps_probe: "cb_keeps (probe_public_endpoint_blocking env srv timeout)"
proof -
  have stop: "cb_keeps stop_transport_tasks" unfolding stop_transport_tasks_def by (intro keeps_rules) auto
  have inv: "backend_inv b \<Longrightarrow> probe_transport_locked env srv timeout b = Some (r, b') \<Longrightarrow> backend_inv b'" for b r b'
    by (auto simp: probe_transport_locked_def backend_inv_def split: option.splits if_splits)
  show ?thesis
    unfolding probe_public_endpoint_blocking_def
    by (rule prog_keeps_bind [OF stop])
      (auto simp: prog_keeps_def split: option.splits sum.splits prod.splits dest: inv prog_keepsD [OF cb_keeps_start])
qed

lemma keeps_maintain: "cb_keeps (maintain_peer_paths env)"
  unfolding maintain_peer_paths_def backend_probe_peer_direct_paths_def by (intro keeps_rules) (auto dest: tasks_kept)

lemma keeps_packets: "cb_keeps (backend_send_overlay_packet env p)" "cb_keeps (backend_receive_overlay_packet env n)"
  unfolding backend_send_overlay_packet_def backend_receive_overlay_packet_def
  by (intro keeps_rules; auto dest: tasks_kept)+

lemma keeps_shutdown: "cb_keeps backend_shutdown"
proof -
  have os: "backend_inv b \<Longrightarrow> backend_inv (b\<lparr>cb_os := os\<rparr>)" for b os by (simp add: backend_inv_def)
  show ?thesis
    unfolding backend_shutdown_def stop_transport_tasks_def
    by (intro prog_keeps_bind cb_keeps_with_lock)
      (auto simp: prog_keeps_def Let_def os split: option.splits sum.splits prod.splits
        dest: prog_keepsD [OF keeps_set_tun_status, OF os])
qed

lemma keeps_status: "cb_keeps (backend_status_op env)"
  unfolding backend_status_op_def load_state_def
  by (rule prog_keeps_bind [OF cb_keeps_on_disk])
    (auto simp: prog_keeps_def with_lock_def backend_inv_def split: if_splits)

text \<open>Every operation of the backend, in any order and in any world.\<close>

inductive backend_step :: "custom_backend \<Rightarrow> custom_backend \<Rightarrow> bool" where
  "ensure_credentials env b = Some (r, b') \<Longrightarrow> backend_step b b'"
| "apply_local_config env config b = Some (r1, b') \<Longrightarrow> backend_step b b'"
| "apply_relay_map env rs b = Some (r1, b') \<Longrightarrow> backend_step b b'"
| "apply_peer_map env peers b = Some (r1, b') \<Longrightarrow> backend_step b b'"
| "probe_public_endpoint_blocking env srv timeout b = Some (r2, b') \<Longrightarrow> backend_step b b'"
| "maintain_peer_paths env b = Some (r1, b') \<Longrightarrow> backend_step b b'"
| "backend_send_overlay_packet env packet b = Some (r3, b') \<Longrightarrow> backend_step b b'"
| "backend_receive_overlay_packet env n b = Some (r4, b') \<Longrightarrow> backend_step b b'"
| "backend_status_op env b = Some (r5, b') \<Longrightarrow> backend_step b b'"
| "backend_shutdown b = Some (r1, b') \<Longrightarrow> backend_step b b'"

inductive_cases backend_stepE: "backend_step b b'"

lemmas backend_keeps = keeps_ensure_credentials keeps_apply_local_config keeps_apply_relay_map
  keeps_apply_peer_map keeps_probe keeps_maintain keeps_packets keeps_status keeps_shutdown

definition backend_fresh :: "custom_backend \<Rightarrow> bool" where
  "backend_fresh b \<longleftrightarrow> (\<exists>name dk os enabled. b = with_tun_setup enabled (with_state_path name dk os))"

interpretation backend: transition_system backend_fresh backend_step backend_inv
proof unfold_locales
  fix b assume "backend_fresh b"
  then show "backend_inv b"
    by (auto simp: backend_fresh_def backend_inv_def with_tun_setup_def with_state_path_def runtime_state_default_def)
next
  fix b b' assume "backend_inv b" "backend_step b b'"
  then show "backend_inv b'"
    by (auto elim!: backend_stepE dest: backend_keeps [THEN prog_keepsD])
qed

text \<open>The custom backend behind the interface the agent uses.\<close>

definition custom_network_backend :: "backend_env \<Rightarrow> custom_backend network_backend" where
  "custom_network_backend env =
     \<lparr>nb_backend_type = (\<lambda>_. backend_kind), nb_capabilities = (\<lambda>_. backend_caps),
      nb_ensure_credentials = ensure_credentials env, nb_apply_local_config = apply_local_config env,
      nb_apply_relay_map = apply_relay_map env, nb_apply_peer_map = apply_peer_map env,
      nb_local_endpoints = backend_local_endpoints,
      nb_probe_public_endpoint = probe_public_endpoint_blocking env,
      nb_maintain_peer_paths = maintain_peer_paths env, nb_status = backend_status_op env,
      nb_shutdown = backend_shutdown\<rparr>"

lemma keeps_local_endpoints: "cb_keeps backend_local_endpoints"
  by (auto simp: backend_local_endpoints_def intro!: cb_keeps_with_lock split: option.splits)

interpretation custom: network_backend_contract "custom_network_backend env" backend_inv for env
  by unfold_locales (simp_all add: custom_network_backend_def backend_keeps keeps_local_endpoints)

section \<open>Properties of the state file\<close>

text \<open>The documented law of the JSON codec: what is written reads back as the same state.\<close>

definition json_laws :: "backend_env \<Rightarrow> bool" where
  "json_laws env \<longleftrightarrow> (\<forall>st bs. en_ser env st = Inr bs \<longrightarrow> en_de env bs = Inr st)"

lemma save_state_disk_Inr:
  assumes "save_state_disk env st dk = (Inr (), dk')"
  shows "\<exists>bs. en_ser env st = Inr bs \<and> dk_file dk' = Some bs"
  using assms by (auto simp: save_state_disk_def protect_state_file_def fs_call_def Let_def split: option.splits sum.splits)

text \<open>
  C32. The state file is replaced atomically: whatever file-system call fails, the file holds
  either exactly what it held before or the complete new state, it holds the new state whenever
  saving reports success, and a state saved this way is read back unchanged unless reading
  itself fails.
\<close>

theorem state_file_atomic:
  assumes "json_laws env" and "st_version st = STATE_VERSION" and "save_state_disk env st dk = (r, dk')"
  shows "(dk_file dk' = dk_file dk \<or> (\<exists>bs. en_ser env st = Inr bs \<and> dk_file dk' = Some bs)) \<and>
    (r = Inr () \<longrightarrow> (case load_state_disk env dk' of (Inr loaded, _) \<Rightarrow> loaded = st
                      | (Inl e, _) \<Rightarrow> dk_fail dk' (dk_calls dk') \<noteq> None))"
proof -
  have content: "dk_file dk' = dk_file dk \<or> (\<exists>bs. en_ser env st = Inr bs \<and> dk_file dk' = Some bs)"
    using assms(3)
    by (auto simp: save_state_disk_def protect_state_file_def fs_call_def Let_def split: option.splits sum.splits)
  have loads: "case load_state_disk env dk' of (Inr loaded, _) \<Rightarrow> loaded = st
      | (Inl e, _) \<Rightarrow> dk_fail dk' (dk_calls dk') \<noteq> None" if "r = Inr ()"
  proof -
    from assms(3) that save_state_disk_Inr obtain bs where "en_ser env st = Inr bs" "dk_file dk' = Some bs" by blast
    moreover from this assms(1) have "en_de env bs = Inr st" by (simp add: json_laws_def)
    ultimately show ?thesis using assms(2)
      by (simp add: load_state_disk_def fs_call_def Let_def validate_state_version_def split: option.split)
  qed
  from content loads show ?thesis by (intro conjI impI)
qed

definition demo_disk :: disk where
  "demo_disk = \<lparr>dk_file = None, dk_tmp = None, dk_fail = (\<lambda>_. None), dk_partial = [], dk_calls = 0,
     dk_file_mode = 0, dk_tmp_mode = 0, dk_new_mode = 420\<rparr>"

definition demo_os :: os_env where
  "demo_os = \<lparr>os_command = (\<lambda>_. Exited True []), os_log = [], os_dev_net_tun = True,
     os_build_device = (\<lambda>_. Inr \<lparr>rd_name = Inr ''tfscale0'', rd_nonblocking = Inr (), rd_read = (\<lambda>_. TunWouldBlock),
        rd_would_block = ''would block'', rd_write = (\<lambda>_. Inr 0)\<rparr>)\<rparr>"

text \<open>A world in which everything succeeds, with a codec for one state.\<close>

definition demo_env :: "custom_backend_state \<Rightarrow> backend_env" where
  "demo_env st =
     \<lparr>en_prims = demo_prims, en_ser = (\<lambda>s. if s = st then Inr [7] else Inl ''unsupported''),
      en_de = (\<lambda>bs. if bs = [7] then Inr st else Inl ''unsupported''), en_to_json = (\<lambda>_. Inr []),
      en_rnd = demo_rnd, en_private_key = replicate 32 1, en_uuid = ''0'', en_now = 0, en_clock = (\<lambda>_. 0),
      en_target = Linux,
      en_bind = \<lparr>be_socket = Inr (tr_socket (demo_transport (\<lambda>_. WouldBlock))), be_nonblocking = Inr (),
        be_lan_bind = Inr (), be_lan_connect = Inr (), be_lan_addr = Inr (demo_addr 1 9), be_now = 0\<rparr>,
      en_connect = (\<lambda>_ _. Inl ''refused''), en_fuel = 0\<rparr>"

lemma demo_env_laws: "json_laws (demo_env st)"
  by (simp add: json_laws_def demo_env_def)

theorem state_file_atomic_witness:
  "\<exists>dk' dk''. save_state_disk (demo_env (demo_persisted 1 [2])) (demo_persisted 1 [2]) demo_disk = (Inr (), dk') \<and>
     load_state_disk (demo_env (demo_persisted 1 [2])) dk' = (Inr (demo_persisted 1 [2]), dk'')"
proof -
  obtain dk' where save: "save_state_disk (demo_env (demo_persisted 1 [2])) (demo_persisted 1 [2]) demo_disk = (Inr (), dk')"
    and ok: "dk_fail dk' = (\<lambda>_. None)"
    by (simp add: save_state_disk_def protect_state_file_def fs_call_def demo_disk_def demo_env_def)
  have "st_version (demo_persisted 1 [2]) = STATE_VERSION" by (simp add: demo_persisted_def)
  from state_file_atomic [OF demo_env_laws this save] ok save show ?thesis
    by (cases "load_state_disk (demo_env (demo_persisted 1 [2])) dk'") (auto split: sum.splits)
qed

text \<open>A complete save protects the file; the mode is the last thing it sets.\<close>

lemma save_state_protects:
  "save_state_disk env st dk = (Inr (), dk') \<Longrightarrow> dk_file_mode dk' = STATE_FILE_MODE"
  by (auto simp: save_state_disk_def protect_state_file_def fs_call_def Let_def set_permissions_def split: option.splits sum.splits)

text \<open>
  C31. The file with the node's private key is readable by others while it is being replaced: the new file is
  created with the default mode of the process, renamed over the old one and protected only then.
  When the last call fails, saving reports an error, but the new state with the private key stays in
  the file, with the default mode, even if the file was protected before, and it is loaded as usual.
\<close>

theorem private_key_left_readable:
  assumes "json_laws env" and "st_version st = STATE_VERSION" and "en_ser env st = Inr bs" and "dk_tmp dk = None"
    and "dk_fail dk (dk_calls dk) = None" and "dk_fail dk (dk_calls dk + 1) = None" and "dk_fail dk (dk_calls dk + 2) = None"
    and "dk_fail dk (dk_calls dk + 3) = Some e" and "dk_fail dk (dk_calls dk + 4) = None"
  shows "\<exists>dk' dk''. save_state_disk env st dk = (Inl (CommandFailed e), dk') \<and> dk_file dk' = Some bs \<and>
    dk_file_mode dk' = dk_new_mode dk \<and> load_state_disk env dk' = (Inr st, dk'') \<and> dk_file_mode dk'' = dk_new_mode dk"
proof -
  have "save_state_disk env st dk =
      (Inl (CommandFailed e), (rename_tmp (write_tmp bs dk))\<lparr>dk_calls := dk_calls dk + 4\<rparr>)"
    using assms(3-8)
    by (simp add: save_state_disk_def protect_state_file_def fs_call_def Let_def write_tmp_def rename_tmp_def numeral_eq_Suc)
  moreover have "en_de env bs = Inr st" using assms(1,3) by (simp add: json_laws_def)
  ultimately show ?thesis using assms(2,4,9)
    by (simp add: load_state_disk_def fs_call_def Let_def validate_state_version_def rename_tmp_def write_tmp_def)
qed

theorem private_key_left_readable_witness:
  "\<exists>dk'. save_state_disk (demo_env (demo_persisted 1 [2])) (demo_persisted 1 [2])
       (demo_disk\<lparr>dk_file := Some [7], dk_file_mode := 384, dk_fail := \<lambda>n. if n = 3 then Some ''denied'' else None\<rparr>) =
       (Inl (CommandFailed ''denied''), dk') \<and> dk_file dk' = Some [7] \<and> dk_file_mode dk' = 420"
proof -
  let ?dk = "demo_disk\<lparr>dk_file := Some [7], dk_file_mode := 384, dk_fail := \<lambda>n. if n = 3 then Some ''denied'' else None\<rparr>"
  have "st_version (demo_persisted 1 [2]) = STATE_VERSION" by (simp add: demo_persisted_def)
  from private_key_left_readable [OF demo_env_laws [of "demo_persisted 1 [2]"] this, where bs = "[7]" and dk = ?dk and e = "''denied''"] show ?thesis
    by (fastforce simp: demo_env_def demo_disk_def)
qed

section \<open>Properties of the backend\<close>

lemma bind_transport_deadlocks:
  assumes "backend_inv b" and "rt_tun_device (cb_runtime b) \<noteq> None" and "transport_bind (en_bind env) port = Inr tr"
  shows "bind_transport env port b = None"
proof -
  let ?b = "b\<lparr>cb_runtime := (cb_runtime b)\<lparr>rt_transport_tasks := None, rt_transport := Some tr\<rparr>\<rparr>"
  have inv: "backend_inv ?b" using assms(1) by (simp add: backend_inv_def)
  have "\<not> cb_locked b" using assms(1) by (simp add: backend_inv_def)
  then have "bind_transport env port b = start_transport_tasks ?b"
    using assms(3)
    by (simp add: bind_transport_def prog_bind_def stop_transport_tasks_def with_lock_def prog_result_def)
  with start_transport_tasks_inv [OF inv] assms(2) show ?thesis by simp
qed

lemma apply_tun_config_deadlocks:
  assumes "backend_inv b" and "cb_tun_setup_enabled b"
    and "tun_configure (en_target env) config (cb_os b) = (Inr tun, os')"
    and "transport_bind (en_bind env) (tc_listen_port config) = Inr tr"
  shows "apply_tun_config env config b = None"
proof -
  let ?b = "b\<lparr>cb_os := os', cb_runtime := (cb_runtime b)
      \<lparr>rt_tun_status := Some (tun_status_of tun), rt_tun_device := Some tun\<rparr>\<rparr>"
  have inv: "backend_inv ?b" and free: "\<not> cb_locked b" using assms(1) by (simp_all add: backend_inv_def)
  have "apply_tun_config env config b =
      prog_bind start_transport_tasks (\<lambda>_. bind_transport env (tc_listen_port config)) ?b"
    using assms(2,3) free
    by (simp add: apply_tun_config_def configure_tun_cb_def set_tun_device_def prog_bind_def with_lock_def)
  also have "\<dots> = None"
    using start_transport_tasks_inv [OF inv] bind_transport_deadlocks [OF inv _ assms(4)]
    by (simp add: prog_bind_def)
  finally show ?thesis .
qed

lemma load_saved_state:
  assumes "json_laws env" and "st_version st = STATE_VERSION" and "save_state_disk env st dk = (Inr (), dk')"
    and "dk_fail dk' (dk_calls dk') = None"
  shows "\<exists>dk''. load_state_disk env dk' = (Inr st, dk'')"
  using save_state_disk_Inr [OF assms(3)] assms(1,2,4)
  by (auto simp: load_state_disk_def fs_call_def json_laws_def validate_state_version_def)

text \<open>
  Configuring a node with a TUN device never returns: \<open>start_transport_tasks\<close> still holds the
  mutex of the runtime state when \<open>spawn_relay_to_tun_loop\<close> locks it again. Whenever the state
  file can be read and written, the TUN device comes up and the UDP socket binds, the call that
  applies the local configuration does not come back.
\<close>

theorem apply_local_config_deadlocks:
  assumes "backend_fresh b0" and "backend_step\<^sup>*\<^sup>* b0 b" and "cb_tun_setup_enabled b" and "json_laws env"
    and "load_state_disk env (cb_disk b) = (Inr st, dk)" and "st_version st = STATE_VERSION"
    and "save_state_disk env (st\<lparr>st_local_config := Some config\<rparr>) dk = (Inr (), dk')"
    and "dk_fail dk' (dk_calls dk') = None"
    and "tun_configure (en_target env) (from_local_config config) (cb_os b) = (Inr tun, os')"
    and "transport_bind (en_bind env) (lc_listen_port config) = Inr transport"
  shows "apply_local_config env config b = None"
proof -
  have inv: "backend_inv b" by (rule backend.reachable_inv [OF assms(1,2)])
  let ?st = "st\<lparr>st_local_config := Some config\<rparr>"
  from load_saved_state [OF assms(4) _ assms(7,8)] assms(6) obtain dk'' where
    again: "load_state_disk env dk' = (Inr ?st, dk'')" by auto
  let ?b = "b\<lparr>cb_runtime := replace_runtime env ?st (cb_runtime b), cb_disk := dk''\<rparr>"
  have "backend_inv ?b" using inv by (simp add: backend_inv_def replace_runtime_def)
  moreover have "apply_local_config env config b = apply_tun_config env (from_local_config config) ?b"
    using assms(5,7) again inv
    by (simp add: apply_local_config_def prog_bind_def load_state_def on_disk_def replace_state_def save_state_def
        with_lock_def backend_inv_def)
  moreover have "tc_listen_port (from_local_config config) = lc_listen_port config" by (simp add: from_local_config_def)
  ultimately show ?thesis using apply_tun_config_deadlocks [of ?b env "from_local_config config" tun os' transport] assms by simp
qed

lemma demo_config_deadlocks:
  "apply_local_config (demo_env (custom_backend_state_default\<lparr>st_local_config := Some config\<rparr>)) config
     (with_state_path ''tfscale0'' demo_disk demo_os) = None"
proof -
  let ?st = "custom_backend_state_default\<lparr>st_local_config := Some config\<rparr>"
  let ?b = "with_state_path ''tfscale0'' demo_disk demo_os"
  have fresh: "backend_fresh ?b" unfolding backend_fresh_def
    by (intro exI [of _ True] exI [of _ "''tfscale0''"] exI [of _ demo_disk] exI [of _ demo_os])
      (simp add: with_tun_setup_def with_state_path_def)
  obtain dk' where save: "save_state_disk (demo_env ?st) ?st demo_disk = (Inr (), dk')" "dk_fail dk' = (\<lambda>_. None)"
    by (simp add: save_state_disk_def protect_state_file_def fs_call_def demo_disk_def demo_env_def)
  obtain tun os' where tun: "tun_configure (en_target (demo_env ?st)) (from_local_config config) demo_os = (Inr tun, os')"
    by (simp add: demo_env_def tun_configure_def linux_configure_tun_def linux_configure_tun_device_def demo_os_def
        linux_plan_ip_commands_def run_command_def)
  obtain tr where tr: "transport_bind (en_bind (demo_env ?st)) (lc_listen_port config) = Inr tr"
    by (simp add: demo_env_def transport_bind_def demo_transport_def Let_def)
  show ?thesis
    by (rule apply_local_config_deadlocks [OF fresh rtranclp.rtrancl_refl _ demo_env_laws, where dk = demo_disk])
      (use save tun tr in \<open>auto simp: with_state_path_def load_state_disk_def demo_disk_def custom_backend_state_default_def\<close>)
qed

theorem apply_local_config_deadlocks_witness:
  "\<exists>config b. apply_local_config (demo_env (custom_backend_state_default\<lparr>st_local_config := Some config\<rparr>)) config b = None"
  using demo_config_deadlocks by blast

text \<open>No operation stops a backend that sets up a TUN device from doing so.\<close>

abbreviation same_setup :: "'a cb \<Rightarrow> bool" where
  "same_setup \<equiv> prog_keeps cb_tun_setup_enabled"

lemma same_setup_parts: "same_setup (on_disk f)" "same_setup (with_lock g)" "same_setup start_transport_tasks" "same_setup cb_panic"
  by (auto simp: prog_keeps_def on_disk_def with_lock_def cb_panic_def start_transport_tasks_def transport_tasks_start_def
      spawn_relay_to_tun_loop_def Let_def split: prod.splits if_splits option.splits)

lemmas setup_rules = prog_keeps_bind prog_keeps_result same_setup_parts

lemma same_setup_state: "same_setup (replace_state env st)" "same_setup (bind_transport env port)" "same_setup (set_tun_device device)"
  "same_setup (set_tun_status status)" "same_setup (load_state env)" "same_setup stop_transport_tasks"
  unfolding replace_state_def save_state_def bind_transport_def stop_transport_tasks_def set_tun_device_def set_tun_status_def load_state_def
  by (intro setup_rules)+

lemma setup_os: "cb_tun_setup_enabled b \<Longrightarrow> cb_tun_setup_enabled (b\<lparr>cb_os := os\<rparr>)"
  by simp

lemma same_setup_tun: "same_setup (apply_tun_config env config)"
proof -
  have skip: "same_setup (prog_bind (bind_transport env port) (\<lambda>_. set_tun_status status))" for port status
    by (intro setup_rules same_setup_state)
  have dev: "same_setup (prog_bind (set_tun_device device) (\<lambda>_. bind_transport env port))" for device port
    by (intro setup_rules same_setup_state)
  have fail: "same_setup (prog_bind (set_tun_status status) (\<lambda>_. prog_result r))" for status and r :: "unit backend_result"
    by (intro setup_rules same_setup_state)
  show ?thesis
    unfolding prog_keeps_def
    by (auto simp: apply_tun_config_def configure_tun_cb_def split: if_splits option.splits prod.splits sum.splits
        dest: prog_keepsD [OF skip] prog_keepsD [OF dev, OF setup_os] prog_keepsD [OF fail, OF setup_os])
qed

lemma same_setup_operations:
  "same_setup (ensure_credentials env)" "same_setup (apply_local_config env config)" "same_setup (apply_relay_map env rs)"
  "same_setup (apply_peer_map env peers)" "same_setup backend_local_endpoints" "same_setup (maintain_peer_paths env)"
  "same_setup (backend_status_op env)"
  unfolding ensure_credentials_def apply_local_config_def apply_relay_map_def apply_peer_map_def backend_local_endpoints_def
    maintain_peer_paths_def backend_probe_peer_direct_paths_def backend_status_op_def Let_def
        apply (auto intro!: setup_rules same_setup_state same_setup_tun split: option.split)[6]
  by (rule prog_keeps_bind [OF same_setup_state(5)]) (auto simp: prog_keeps_def with_lock_def split: if_splits)

lemma same_setup_probe: "same_setup (probe_public_endpoint_blocking env srv timeout)"
proof -
  have "probe_transport_locked env srv timeout b = Some (r, b') \<Longrightarrow> cb_tun_setup_enabled b' = cb_tun_setup_enabled b" for b r b'
    by (auto simp: probe_transport_locked_def split: option.splits if_splits)
  then show ?thesis
    unfolding probe_public_endpoint_blocking_def
    by (intro prog_keeps_bind [OF same_setup_state(6)])
      (auto simp: prog_keeps_def split: option.splits sum.splits prod.splits dest: prog_keepsD [OF same_setup_parts(3)])
qed

lemma same_setup_shutdown: "same_setup backend_shutdown"
  unfolding backend_shutdown_def
  by (intro prog_keeps_bind same_setup_state same_setup_parts)
    (auto simp: prog_keeps_def Let_def split: option.splits sum.splits prod.splits dest: prog_keepsD [OF same_setup_state(4), OF setup_os])

text \<open>
  On such a backend the local configuration is never applied: without a device, or without a socket, the call
  fails, and with both it does not return.
\<close>

definition tun_backend_inv :: "custom_backend \<Rightarrow> bool" where
  "tun_backend_inv b \<longleftrightarrow> backend_inv b \<and> cb_tun_setup_enabled b"

lemma tun_backend_keeps: "cb_keeps m \<Longrightarrow> same_setup m \<Longrightarrow> prog_keeps tun_backend_inv m"
  unfolding tun_backend_inv_def by (rule prog_keeps_conj)

interpretation tun_backend: network_backend_contract "custom_network_backend env" tun_backend_inv for env
  by unfold_locales (simp_all add: custom_network_backend_def tun_backend_keeps backend_keeps keeps_local_endpoints
    same_setup_operations same_setup_probe same_setup_shutdown)

lemma bind_transport_never_Inr:
  assumes "backend_inv b" and "rt_tun_device (cb_runtime b) \<noteq> None"
  shows "bind_transport env port b \<noteq> Some (Inr (), b')"
proof (cases "transport_bind (en_bind env) port")
  case (Inl e)
  then show ?thesis by (auto simp: bind_transport_def cb_Some stop_transport_tasks_def)
next
  case (Inr tr)
  from bind_transport_deadlocks [OF assms this] show ?thesis by simp
qed

lemma apply_tun_config_never_Inr:
  assumes "tun_backend_inv b"
  shows "apply_tun_config env config b \<noteq> Some (Inr (), b')"
proof
  assume "apply_tun_config env config b = Some (Inr (), b')"
  with assms obtain device os b2 where run: "set_tun_device device (b\<lparr>cb_os := os\<rparr>) = Some (Inr (), b2)"
    "bind_transport env (tc_listen_port config) b2 = Some (Inr (), b')"
    by (auto simp: apply_tun_config_def tun_backend_inv_def configure_tun_cb_def prog_bind_Inr prog_result_Some split: prod.splits sum.splits)
  have inv: "backend_inv (b\<lparr>cb_os := os\<rparr>)" using assms by (simp add: tun_backend_inv_def backend_inv_def)
  have "rt_tun_device (cb_runtime b2) \<noteq> None"
    using run(1) by (auto simp: set_tun_device_def prog_bind_Inr with_lock_Some start_transport_tasks_def Let_def transport_tasks_start_def
        spawn_relay_to_tun_loop_def split: if_splits)
  moreover have "backend_inv b2" using keeps_set_tun_device inv run(1) by (rule prog_keepsD)
  ultimately show False using bind_transport_never_Inr run(2) by blast
qed

lemma apply_local_config_never_Inr:
  assumes "tun_backend_inv b"
  shows "apply_local_config env config b \<noteq> Some (Inr (), b')"
proof
  assume "apply_local_config env config b = Some (Inr (), b')"
  then obtain st b1 b2 st' b3 where run: "load_state env b = Some (Inr st, b1)" "replace_state env (st\<lparr>st_local_config := Some config\<rparr>) b1 = Some (Inr (), b2)"
    "load_state env b2 = Some (Inr st', b3)"
    and last: "(case st_local_config st' of None \<Rightarrow> cb_panic | Some config \<Rightarrow> apply_tun_config env (from_local_config config)) b3 = Some (Inr (), b')"
    by (auto simp: apply_local_config_def prog_bind_Inr)
  have load: "prog_keeps tun_backend_inv (load_state env)"
    by (rule tun_backend_keeps) (simp_all add: load_state_def cb_keeps_on_disk same_setup_parts)
  have "tun_backend_inv b3"
    using prog_keepsD [OF load prog_keepsD [OF tun_backend_keeps [OF keeps_replace_state same_setup_state(1)] prog_keepsD [OF load assms run(1)] run(2)] run(3)] .
  with last show False using apply_tun_config_never_Inr by (auto simp: cb_panic_def split: option.splits)
qed

text \<open>
  No node ever reports itself healthy: in every state a backend reaches, by any operations
  with any outcome, the packet loops are not running, so the status it returns is not healthy.
\<close>

theorem backend_never_healthy:
  assumes "backend_fresh b0" and "backend_step\<^sup>*\<^sup>* b0 b" and "backend_status_op env b = Some (Inr status, b')"
  shows "\<not> bs_healthy status"
proof -
  have "backend_inv b" by (rule backend.reachable_inv [OF assms(1,2)])
  with assms(3) show ?thesis
    by (auto simp: backend_status_op_def prog_bind_Inr load_state_def on_disk_def with_lock_def backend_inv_def
        backend_status_of_def Let_def split: prod.splits if_splits)
qed

theorem backend_never_healthy_witness:
  "\<exists>status b'. backend_status_op (demo_env custom_backend_state_default) (with_state_path ''tfscale0'' demo_disk demo_os) =
     Some (Inr status, b') \<and> \<not> bs_healthy status"
proof -
  let ?b = "with_state_path ''tfscale0'' demo_disk demo_os"
  have fresh: "backend_fresh ?b" unfolding backend_fresh_def
    by (intro exI [of _ True] exI [of _ "''tfscale0''"] exI [of _ demo_disk] exI [of _ demo_os])
      (simp add: with_tun_setup_def with_state_path_def)
  obtain status b' where "backend_status_op (demo_env custom_backend_state_default) ?b = Some (Inr status, b')"
    by (simp add: backend_status_op_def prog_bind_def load_state_def on_disk_def load_state_disk_def with_lock_def
        with_state_path_def demo_disk_def)
  with backend_never_healthy [OF fresh rtranclp.rtrancl_refl this] show ?thesis by blast
qed

lemma apply_peer_map_Inr:
  assumes "apply_peer_map env peers b = Some (Inr (), b')"
  obtains st sessions where "collect_results (peer_to_session (en_prims env) (en_now env)) peers = Inr sessions"
    and "fst (load_state_disk env (cb_disk b)) = Inr st"
    and "cb_runtime b' = replace_runtime env (st\<lparr>st_peers := sessions\<rparr>) (cb_runtime b)"
  using assms
  by (auto simp: apply_peer_map_def replace_state_def save_state_def load_state_def cb_Some)

text \<open>
  C29. Applying the peer map forgets the relays: after a relay map and then a peer map are
  applied, the order in which the agent applies them, the node knows no relay and has no
  connection to one, and whatever happens until the next change of the configuration, none of
  its paths is ever relayed.
\<close>

theorem peer_map_forgets_relays:
  assumes "apply_relay_map env relay_list b0 = Some (Inr (), b1)" and "apply_peer_map env' peers b1 = Some (Inr (), b2)"
    and "(runtime_step (en_prims env'))\<^sup>*\<^sup>* (cb_runtime b2) rt"
  shows "relays rt = [] \<and> relay_sender (cb_runtime b2) = NullRelayFrameSender \<and> \<not> peer_path_is_relay rt device_id"
proof -
  from assms(2) obtain st sessions where
    rt2: "cb_runtime b2 = replace_runtime env' (st\<lparr>st_peers := sessions\<rparr>) (cb_runtime b1)"
    by (rule apply_peer_map_Inr)
  have "runtime_started (en_prims env') (en_rnd env') (st\<lparr>st_peers := sessions\<rparr>) (cb_runtime b2) \<and> relays (cb_runtime b2) = []"
    unfolding rt2 by (simp add: runtime_started_def replace_runtime_def from_persisted_def Let_def)
  from relayless.reachable_inv [OF this assms(3)]
  have "relays rt = []" "\<not> peer_path_is_relay rt device_id"
    by (auto simp: runtime_wf_def path_states_wf_def peer_path_is_relay_def split: option.splits)
  moreover have "relay_sender (cb_runtime b2) = NullRelayFrameSender"
    unfolding rt2 by (simp add: replace_runtime_def from_persisted_def Let_def)
  ultimately show ?thesis by simp
qed

theorem peer_map_forgets_relays_witness:
  "\<exists>b1 b2. apply_relay_map (demo_env custom_backend_state_default)
        [\<lparr>rc_relay_id = ''r'', rc_url = ''tcp://relay:3478'', rc_region = ''x''\<rparr>]
        (with_state_path ''tfscale0'' demo_disk demo_os) = Some (Inr (), b1) \<and>
     apply_peer_map (demo_env custom_backend_state_default) [] b1 = Some (Inr (), b2) \<and> relays (cb_runtime b2) = []"
proof -
  let ?env = "demo_env custom_backend_state_default"
  let ?rs = "[\<lparr>rc_relay_id = ''r'', rc_url = ''tcp://relay:3478'', rc_region = ''x''\<rparr>]"
  obtain b1 where b1: "apply_relay_map ?env ?rs (with_state_path ''tfscale0'' demo_disk demo_os) = Some (Inr (), b1)"
    and f: "cb_disk b1 = demo_disk" "\<not> cb_locked b1"
    by (simp add: apply_relay_map_def with_lock_def with_state_path_def)
  have same: "custom_backend_state_default\<lparr>st_peers := []\<rparr> = custom_backend_state_default"
    by (simp add: custom_backend_state_default_def)
  obtain b2 where b2: "apply_peer_map ?env [] b1 = Some (Inr (), b2)"
    using f same
    by (simp add: apply_peer_map_def prog_bind_def load_state_def on_disk_def load_state_disk_def prog_result_def
        replace_state_def save_state_def save_state_disk_def protect_state_file_def fs_call_def with_lock_def demo_disk_def demo_env_def)
  with peer_map_forgets_relays [OF b1 b2 rtranclp.rtrancl_refl] b1 show ?thesis by blast
qed

section \<open>Replay after a refresh\<close>

text \<open>Sessions that agree in everything but the random salt of their own nonces.\<close>

definition same_keys :: "peer_crypto_session \<Rightarrow> peer_crypto_session \<Rightarrow> bool" where
  "same_keys s t \<longleftrightarrow> s\<lparr>cs_send_nonces := cs_send_nonces t\<rparr> = t"

lemma new_sessions_same_keys:
  assumes "peer_crypto_session_new P r1 k lc pc li pi = Inr s" and "peer_crypto_session_new P r2 k lc pc li pi = Inr t"
  shows "same_keys s t"
  using assms by (auto simp: same_keys_def peer_crypto_session_new_Inr)

lemma open_message_same_keys:
  assumes "same_keys s t" and "open_message P s f = (Inr opened, s')"
  shows "\<exists>t'. open_message P t f = (Inr opened, t')"
proof -
  have "t = s\<lparr>cs_send_nonces := cs_send_nonces t\<rparr>" using assms(1) by (simp add: same_keys_def)
  then have "cs_peer_id t = cs_peer_id s" "cs_local_id t = cs_local_id s" "cs_cipher t = cs_cipher s"
    "cs_receive_window t = cs_receive_window s" "cs_receive_direction_prefix t = cs_receive_direction_prefix s"
    by (metis peer_crypto_session.select_convs peer_crypto_session.surjective peer_crypto_session.update_convs(4))+
  with assms(2) show ?thesis
    by (auto simp: open_message_def Let_def split: sum.splits prod.splits if_splits)
qed

definition forget_update_time :: "stored_peer_session \<Rightarrow> stored_peer_session" where
  "forget_update_time p = p\<lparr>sp_last_updated_at_unix_seconds := 0\<rparr>"

lemma forget_update_time_fields:
  assumes "forget_update_time p = forget_update_time q"
  shows "sp_device_id q = sp_device_id p" "sp_endpoints q = sp_endpoints p" "sp_public_key q = sp_public_key p"
    "sp_overlay_ip q = sp_overlay_ip p"
  using assms by (cases p; cases q; simp add: forget_update_time_def)+

text \<open>Building the sessions twice, from the same peers but with other salts and time stamps.\<close>

lemma build_sessions_twice:
  assumes "map forget_update_time ps = map forget_update_time qs"
    and "build_sessions_loop P r1 k priv pub li ps acc1 = Inr m1" and "build_sessions_loop P r2 k priv pub li qs acc2 = Inr m2"
    and "\<And>d s. hm_get acc1 d = Some s \<Longrightarrow> \<exists>t. hm_get acc2 d = Some t \<and> same_keys (pts_crypto s) (pts_crypto t)"
    and "hm_get m1 d = Some s"
  shows "\<exists>t. hm_get m2 d = Some t \<and> same_keys (pts_crypto s) (pts_crypto t)"
  using assms
proof (induction ps arbitrary: qs k acc1 acc2)
  case (Cons p ps)
  then obtain q qs' where qs: "qs = q # qs'" "forget_update_time p = forget_update_time q"
    "map forget_update_time ps = map forget_update_time qs'"
    by auto
  note same = forget_update_time_fields [OF qs(2)]
  from Cons.prems(2) obtain i where i: "from_device_id (parse_uuid P) (sp_device_id p) = Inr i"
    by (auto simp: and_then_eq_Inr)
  show ?case
  proof (cases "select_udp_endpoint (sp_endpoints p)")
    case None
    with Cons.IH [OF qs(3)] Cons.prems i same qs(1) show ?thesis by auto
  next
    case (Some ep)
    with Cons.prems(2,3) i same qs(1) obtain c1 c2 where
      c: "peer_crypto_session_new P (r1 k) priv pub (sp_public_key p) li i = Inr c1"
        "peer_crypto_session_new P (r2 k) priv pub (sp_public_key p) li i = Inr c2" and
      l1: "build_sessions_loop P r1 (Suc k) priv pub li ps (hm_insert (sp_device_id p)
        \<lparr>pts_overlay_ip = sp_overlay_ip p, pts_endpoint = ep, pts_crypto = c1\<rparr> acc1) = Inr m1" and
      l2: "build_sessions_loop P r2 (Suc k) priv pub li qs' (hm_insert (sp_device_id p)
        \<lparr>pts_overlay_ip = sp_overlay_ip p, pts_endpoint = ep, pts_crypto = c2\<rparr> acc2) = Inr m2"
      by (auto simp: and_then_eq_Inr)
    show ?thesis
      by (rule Cons.IH [OF qs(3) l1 l2 _ Cons.prems(5)])
        (use Cons.prems(4) new_sessions_same_keys [OF c] in \<open>auto simp: hmap_simps split: if_splits\<close>)
  qed
qed auto

lemma peer_to_session_twice:
  "collect_results (peer_to_session P now1) peers = Inr ps \<Longrightarrow> collect_results (peer_to_session P now2) peers = Inr qs \<Longrightarrow>
     map forget_update_time ps = map forget_update_time qs"
  by (induction peers arbitrary: ps qs) (auto simp: and_then_eq_Inr peer_to_session_def forget_update_time_def)

lemma from_persisted_twice:
  assumes "map forget_update_time (st_peers st1) = map forget_update_time (st_peers st2)"
    and "st_identity st1 = st_identity st2" and "st_local_config st1 = st_local_config st2"
    and "build_peer_transport_sessions P r2 st2 = Inr m2"
    and "hm_get (peer_transport_sessions_by_device (from_persisted P r1 st1)) d = Some s"
  shows "\<exists>t. hm_get (peer_transport_sessions_by_device (from_persisted P r2 st2)) d = Some t \<and>
    same_keys (pts_crypto s) (pts_crypto t)"
proof -
  from assms(5) obtain m1 where m1: "build_peer_transport_sessions P r1 st1 = Inr m1" "hm_get m1 d = Some s"
    by (auto simp: from_persisted_def Let_def split: sum.splits)
  have "\<exists>t. hm_get m2 d = Some t \<and> same_keys (pts_crypto s) (pts_crypto t)"
    using m1 assms(1-4)
    by (auto simp: build_peer_transport_sessions_def and_then_eq_Inr split: option.splits dest: build_sessions_twice)
  with assms(4) show ?thesis by (auto simp: from_persisted_def Let_def)
qed

lemma frame_index_twice:
  assumes "map forget_update_time ps = map forget_update_time qs"
  shows "List.map_filter (\<lambda>p. map_option (\<lambda>i. (i, sp_device_id p)) (f (sp_device_id p))) ps =
    List.map_filter (\<lambda>p. map_option (\<lambda>i. (i, sp_device_id p)) (f (sp_device_id p))) qs"
  using assms
proof (induction ps arbitrary: qs)
  case (Cons p ps)
  then obtain q qs' where "qs = q # qs'" "forget_update_time p = forget_update_time q"
    "map forget_update_time ps = map forget_update_time qs'" by auto
  with Cons.IH [of qs'] forget_update_time_fields(1) [of p q] show ?case
    by (simp add: List.map_filter_simps split: option.split)
qed simp

lemma handle_probe_no_data: "fst (handle_probe P clk d m a rt) \<noteq> Inr (Some packet)"
  by (auto simp: handle_probe_def Let_def split: sum.splits option.splits prod.splits)

lemma open_received_data:
  assumes "open_received_frame P clk frame src rt = (Inr (Some packet), rt')"
  obtains decoded d session c where "encoded_frame_decode frame = Inr decoded"
    and "hm_get (peer_device_by_frame_id rt) (fh_source (ef_header decoded)) = Some d"
    and "hm_get (peer_transport_sessions_by_device rt) d = Some session"
    and "open_message P (pts_crypto session) frame = (Inr \<lparr>of_message_type = FRAME_TYPE_DATA, of_plaintext = packet\<rparr>, c)"
proof -
  have no: "handle_probe P clk d m a x \<noteq> (Inr (Some packet), y)" for d m a x y
    using handle_probe_no_data [of P clk d m a x packet] by auto
  from assms obtain decoded d session opened c where *: "encoded_frame_decode frame = Inr decoded"
    "hm_get (peer_device_by_frame_id rt) (fh_source (ef_header decoded)) = Some d"
    "hm_get (peer_transport_sessions_by_device rt) d = Some session"
    "open_message P (pts_crypto session) frame = (Inr opened, c)"
    by (auto simp: open_received_frame_def split: sum.splits option.splits prod.splits)
  with assms have "of_message_type opened = FRAME_TYPE_DATA \<and> of_plaintext opened = packet"
    by (auto simp: open_received_frame_def Let_def no split: option.splits if_splits)
  then have "opened = \<lparr>of_message_type = FRAME_TYPE_DATA, of_plaintext = packet\<rparr>" by (cases opened) simp
  with * that show ?thesis by blast
qed

text \<open>
  C30. Applying the same peer map again lets old frames through: the new sessions have the same
  keys and empty replay windows, so a data frame that the node already delivered is delivered
  once more when it is replayed after the map was applied again.
\<close>

theorem peer_map_refresh_allows_replay:
  assumes "apply_peer_map env1 peers b0 = Some (Inr (), b1)"
    and "open_received_frame (en_prims env1) clk frame src (cb_runtime b1) = (Inr (Some packet), rt1)"
    and "apply_peer_map env2 peers (b1\<lparr>cb_runtime := rt1\<rparr>) = Some (Inr (), b2)"
    and "en_prims env2 = en_prims env1"
    and "st_identity (persisted (cb_runtime b2)) = st_identity (persisted (cb_runtime b1))"
    and "st_local_config (persisted (cb_runtime b2)) = st_local_config (persisted (cb_runtime b1))"
    and "build_peer_transport_sessions (en_prims env1) (en_rnd env2) (persisted (cb_runtime b2)) = Inr m2"
  shows "\<exists>rt2. open_received_frame (en_prims env1) clk frame src (cb_runtime b2) = (Inr (Some packet), rt2)"
proof -
  let ?P = "en_prims env1"
  from assms(1) obtain st1 ps where ps: "collect_results (peer_to_session ?P (en_now env1)) peers = Inr ps"
    and rt1: "cb_runtime b1 = replace_runtime env1 (st1\<lparr>st_peers := ps\<rparr>) (cb_runtime b0)"
    by (rule apply_peer_map_Inr)
  from assms(3) obtain st2 qs where qs: "collect_results (peer_to_session ?P (en_now env2)) peers = Inr qs"
    and rt2: "cb_runtime b2 = replace_runtime env2 (st2\<lparr>st_peers := qs\<rparr>) rt1"
    unfolding assms(4) [symmetric] by (rule apply_peer_map_Inr) simp
  note same = peer_to_session_twice [OF ps qs]
  have pers: "persisted (cb_runtime b1) = st1\<lparr>st_peers := ps\<rparr>" "persisted (cb_runtime b2) = st2\<lparr>st_peers := qs\<rparr>"
    by (simp_all add: rt1 rt2 replace_runtime_def from_persisted_def Let_def)
  have maps: "peer_transport_sessions_by_device (cb_runtime b1) =
      peer_transport_sessions_by_device (from_persisted ?P (en_rnd env1) (st1\<lparr>st_peers := ps\<rparr>))"
    "peer_transport_sessions_by_device (cb_runtime b2) =
      peer_transport_sessions_by_device (from_persisted ?P (en_rnd env2) (st2\<lparr>st_peers := qs\<rparr>))"
    by (simp_all add: rt1 rt2 replace_runtime_def assms(4))
  have index: "peer_device_by_frame_id (cb_runtime b2) = peer_device_by_frame_id (cb_runtime b1)"
    using frame_index_twice [OF same, of "\<lambda>x. result_ok (from_device_id (parse_uuid ?P) x)"]
    by (simp add: rt1 rt2 replace_runtime_def from_persisted_def Let_def assms(4))
  from assms(2) obtain decoded d session c where dec: "encoded_frame_decode frame = Inr decoded"
    and d: "hm_get (peer_device_by_frame_id (cb_runtime b1)) (fh_source (ef_header decoded)) = Some d"
    and session: "hm_get (peer_transport_sessions_by_device (cb_runtime b1)) d = Some session"
    and opened: "open_message ?P (pts_crypto session) frame =
      (Inr \<lparr>of_message_type = FRAME_TYPE_DATA, of_plaintext = packet\<rparr>, c)"
    by (rule open_received_data)
  from from_persisted_twice [of "st1\<lparr>st_peers := ps\<rparr>" "st2\<lparr>st_peers := qs\<rparr>" ?P "en_rnd env2" m2 "en_rnd env1" d session]
    same assms(5-7) pers maps session obtain t where
    t: "hm_get (peer_transport_sessions_by_device (cb_runtime b2)) d = Some t" "same_keys (pts_crypto session) (pts_crypto t)"
    by auto
  from open_message_same_keys [OF t(2) opened] obtain c' where
    "open_message ?P (pts_crypto t) frame = (Inr \<lparr>of_message_type = FRAME_TYPE_DATA, of_plaintext = packet\<rparr>, c')"
    by blast
  with dec d index t(1) show ?thesis by (simp add: open_received_frame_def)
qed

definition demo_peer_config :: "u8 \<Rightarrow> peer_config" where
  "demo_peer_config j =
     \<lparr>pc_device_id = DeviceId (demo_device j), pc_hostname = ''peer'', pc_overlay_ip = Ipv4Addr 100 64 0 j,
      pc_public_credential = \<lparr>bc_public = encode_public_credential demo_prims (public_of demo_prims (replicate 32 j))\<rparr>,
      pc_endpoints = [demo_udp_endpoint j], pc_allowed_routes = []\<rparr>"

lemma demo_peer_to_session: "peer_to_session demo_prims 0 (demo_peer_config j) = Inr (demo_peer j)"
  using crypto_lawsD(3,5) [OF demo_prims_laws]
  by (simp add: peer_to_session_def demo_peer_config_def demo_peer_def validate_public_credential_def
      encode_public_credential_def decode_base64_key_def encode_key_def unix_seconds_def duration_since_def)

lemma demo_apply_peer_map:
  assumes "\<not> cb_locked b" and "dk_file (cb_disk b) = Some [7]" and "dk_fail (cb_disk b) = (\<lambda>_. None)"
  shows "\<exists>b'. apply_peer_map (demo_env (demo_persisted 1 [2])) [demo_peer_config 2] b = Some (Inr (), b') \<and>
    cb_runtime b' = replace_runtime (demo_env (demo_persisted 1 [2])) (demo_persisted 1 [2]) (cb_runtime b) \<and>
    \<not> cb_locked b' \<and> dk_file (cb_disk b') = Some [7] \<and> dk_fail (cb_disk b') = (\<lambda>_. None)"
proof -
  let ?st = "demo_persisted 1 [2]"
  have same: "?st\<lparr>st_peers := [demo_peer 2]\<rparr> = ?st" "st_version ?st = STATE_VERSION"
    by (simp_all add: demo_persisted_def)
  show ?thesis
    using assms same demo_peer_to_session [of 2]
    by (simp add: apply_peer_map_def prog_bind_def load_state_def on_disk_def load_state_disk_def prog_result_def
        replace_state_def save_state_def save_state_disk_def protect_state_file_def fs_call_def with_lock_def demo_env_def
        validate_state_version_def)
qed

theorem peer_map_refresh_allows_replay_witness:
  "\<exists>b1 b2 frame rt1 rt2.
     open_received_frame demo_prims (\<lambda>_. 0) frame None (cb_runtime b1) = (Inr (Some (demo_packet 1)), rt1) \<and>
     apply_peer_map (demo_env (demo_persisted 1 [2])) [demo_peer_config 2] (b1\<lparr>cb_runtime := rt1\<rparr>) = Some (Inr (), b2) \<and>
     open_received_frame demo_prims (\<lambda>_. 0) frame None (cb_runtime b2) = (Inr (Some (demo_packet 1)), rt2)"
proof -
  let ?st = "demo_persisted 1 [2]" and ?env = "demo_env (demo_persisted 1 [2])"
  let ?b0 = "with_state_path ''tfscale0'' (demo_disk\<lparr>dk_file := Some [7]\<rparr>) demo_os"
  have prims: "en_prims ?env = demo_prims" "en_rnd ?env = demo_rnd" by (simp_all add: demo_env_def)
  obtain b1 where b1: "apply_peer_map ?env [demo_peer_config 2] ?b0 = Some (Inr (), b1)"
    "cb_runtime b1 = replace_runtime ?env ?st (cb_runtime ?b0)" "\<not> cb_locked b1"
    "dk_file (cb_disk b1) = Some [7]" "dk_fail (cb_disk b1) = (\<lambda>_. None)"
    using demo_apply_peer_map [of ?b0] by (auto simp: with_state_path_def demo_disk_def)
  have fields: "peer_transport_sessions_by_device (replace_runtime ?env ?st rt) = peer_transport_sessions_by_device (demo_node 1 2)"
    "peer_device_by_frame_id (replace_runtime ?env ?st rt) = peer_device_by_frame_id (demo_node 1 2)"
    "persisted (replace_runtime ?env ?st rt) = ?st" for rt
    by (simp_all add: replace_runtime_def prims demo_node_def from_persisted_def Let_def)
  obtain f c where seal: "seal demo_prims (demo_session 2 1) (demo_packet 1) = (Inr f, c)"
    using demo_seals [of FRAME_TYPE_DATA 2 1 "demo_packet 1"] by (auto simp: seal_def known_message_type_def)
  obtain rt1 where first: "open_received_frame demo_prims (\<lambda>_. 0) f None (cb_runtime b1) = (Inr (Some (demo_packet 1)), rt1)"
    using open_sealed_packet [OF demo_prims_laws _ seal, of _ "cb_runtime b1" "demo_device 2" "\<lambda>_. 0" None]
      demo_sessions_ready [of 2 1]
    by (fastforce simp: b1(2) fields demo_node_fields demo_session_ids)
  obtain b2 where b2: "apply_peer_map ?env [demo_peer_config 2] (b1\<lparr>cb_runtime := rt1\<rparr>) = Some (Inr (), b2)"
    "cb_runtime b2 = replace_runtime ?env ?st rt1"
    using demo_apply_peer_map [of "b1\<lparr>cb_runtime := rt1\<rparr>"] b1 by auto
  obtain m where built: "build_peer_transport_sessions demo_prims demo_rnd ?st = Inr m"
    by (simp add: build_peer_transport_sessions_def demo_persisted_def demo_peer_def demo_session_new)
  have "\<exists>rt2. open_received_frame demo_prims (\<lambda>_. 0) f None (cb_runtime b2) = (Inr (Some (demo_packet 1)), rt2)"
    by (rule peer_map_refresh_allows_replay [OF b1(1) _ b2(1), unfolded prims, OF first refl])
      (simp_all add: b1(2) b2(2) fields built)
  with first b2(1) show ?thesis by blast
qed

section \<open>Counters and shutdown\<close>

text \<open>
  The UDP loop counts a datagram that no session accepts twice: the frame handler records the
  drop before it returns the error, and the loop records a drop for the error again.
\<close>

theorem rejected_datagram_counted_twice:
  assumes "rt_transport rt = Some tr" and "so_recv_outcome (tr_socket tr) (so_recvs (tr_socket tr)) = Datagram d addr"
    and "encoded_frame_decode (take 1500 d) = Inl e"
  shows "\<exists>rt' tr'. udp_to_tun_receive P clk rt = (None, rt') \<and> rt_transport rt' = Some tr' \<and>
    rx_drops (tr_status tr') = rx_drops (tr_status tr) + 2 \<and>
    rx_packets (tr_status tr') = rx_packets (tr_status tr) + 1"
  using assms
  by (simp add: udp_to_tun_receive_def receive_overlay_packet_def receive_frame_def recv_from_def
      open_received_frame_def rt_record_rx_drop_def counter_defs)

theorem rejected_datagram_counted_twice_witness:
  "\<exists>rt' tr'. udp_to_tun_receive demo_prims (\<lambda>_. 0)
       (runtime_state_default\<lparr>rt_transport := Some (demo_transport (\<lambda>_. Datagram [] (demo_addr 5 5)))\<rparr>) = (None, rt') \<and>
     rt_transport rt' = Some tr' \<and> rx_drops (tr_status tr') = 2"
  using rejected_datagram_counted_twice [of
      "runtime_state_default\<lparr>rt_transport := Some (demo_transport (\<lambda>_. Datagram [] (demo_addr 5 5)))\<rparr>"
      "demo_transport (\<lambda>_. Datagram [] (demo_addr 5 5))" "[]" "demo_addr 5 5" _ demo_prims "\<lambda>_. 0"]
  by (auto simp: demo_transport_def transport_status_default_def encoded_frame_decode_def frame_header_decode_def
      frame_constants)

text \<open>
  Shutting down releases everything and cleans up: from every reachable state the call
  succeeds, even when a clean-up command fails; afterwards no socket, TUN device or loop is left,
  every clean-up command of the TUN device has been run, in order, and the status says that the
  device was shut down.
\<close>

theorem shutdown_releases_everything:
  assumes "backend_fresh b0" and "backend_step\<^sup>*\<^sup>* b0 b"
  shows "\<exists>b'. backend_shutdown b = Some (Inr (), b') \<and>
    rt_transport (cb_runtime b') = None \<and> rt_tun_device (cb_runtime b') = None \<and>
    rt_transport_tasks (cb_runtime b') = None \<and>
    (case rt_tun_device (cb_runtime b) of
       None \<Rightarrow> cb_os b' = cb_os b
     | Some tun \<Rightarrow>
         os_log (cb_os b') = os_log (cb_os b) @ td_cleanup_commands tun \<and>
         rt_tun_status (cb_runtime b') = Some (tun_status_failed (td_interface_name tun) ''TUN device shut down''))"
proof -
  have "backend_inv b" by (rule backend.reachable_inv [OF assms])
  then show ?thesis
    by (auto simp: backend_shutdown_def prog_bind_def stop_transport_tasks_def with_lock_def backend_inv_def
        tun_shutdown_def set_tun_status_def tun_status_of_def tun_status_configured_def Let_def split: option.split)
qed

theorem shutdown_releases_everything_witness:
  "\<exists>b'. backend_shutdown (with_tun_setup False (with_state_path ''tfscale0'' demo_disk demo_os)) = Some (Inr (), b')"
  using shutdown_releases_everything [of "with_tun_setup False (with_state_path ''tfscale0'' demo_disk demo_os)", OF _ rtranclp.rtrancl_refl]
  by (auto simp: backend_fresh_def)

end
