(* ===== verification/Relay_Server.thy ===== *)
theory Relay_Server
  imports Core_Protocol
begin

text \<open>
  \<open>tfscale-relay/src/main.rs\<close>: the relay's session table and the task that serves one connection.
  A connection is a number; its task is in one of three phases. The unbounded channel of a task
  is the queue in its connection: the session table holds the only sender of the channel, so a
  send succeeds exactly while the task still runs, and the receiver sees the end of the channel
  when its queue is empty and the table no longer refers to the connection. Looking up a sender
  and sending on it is one step. JSON lines are given as what the decoder makes of them, and
  whether a write to the client succeeds is an argument.
\<close>

section \<open>State\<close>

datatype phase = Connected | Running string | Closed

record connection =
  cn_phase :: phase
  cn_queue :: "relay_message list"
  cn_written :: "relay_message list"    \<comment> \<open>what the client was sent, oldest first\<close>

record relay_state =
  rl_sessions :: "(string, nat) hmap"
  routed_frames :: u64
  dropped_frames :: u64
  rl_conns :: "nat \<Rightarrow> connection"

definition relay_state_default :: relay_state where
  "relay_state_default =
     \<lparr>rl_sessions = [], routed_frames = 0, dropped_frames = 0,
      rl_conns = (\<lambda>_. \<lparr>cn_phase = Connected, cn_queue = [], cn_written = []\<rparr>)\<rparr>"

definition update_conn :: "nat \<Rightarrow> (connection \<Rightarrow> connection) \<Rightarrow> relay_state \<Rightarrow> relay_state" where
  "update_conn c f s = s\<lparr>rl_conns := (rl_conns s)(c := f (rl_conns s c))\<rparr>"

section \<open>The session table\<close>

definition register :: "string \<Rightarrow> nat \<Rightarrow> relay_state \<Rightarrow> nat option \<times> relay_state" where
  "register device_id sender s =
     (hm_get (rl_sessions s) device_id, s\<lparr>rl_sessions := hm_insert device_id sender (rl_sessions s)\<rparr>)"

definition unregister :: "string \<Rightarrow> relay_state \<Rightarrow> relay_state" where
  "unregister device_id s = s\<lparr>rl_sessions := hm_remove device_id (rl_sessions s)\<rparr>"

definition receiver_alive :: "relay_state \<Rightarrow> nat \<Rightarrow> bool" where
  "receiver_alive s c = (case cn_phase (rl_conns s c) of Running _ \<Rightarrow> True | _ \<Rightarrow> False)"

definition route_frame :: "relay_message \<Rightarrow> relay_state \<Rightarrow> bool \<times> relay_state" where
  "route_frame frame s =
     (case frame of
        Frame _ destination_device_id _ \<Rightarrow>
          (case hm_get (rl_sessions s) destination_device_id of
             Some c \<Rightarrow>
               if receiver_alive s c
               then (True, update_conn c (\<lambda>cn. cn\<lparr>cn_queue := cn_queue cn @ [frame]\<rparr>)
                             (s\<lparr>routed_frames := routed_frames s + 1\<rparr>))
               else (False, s\<lparr>dropped_frames := dropped_frames s + 1\<rparr>)
           | None \<Rightarrow> (False, s\<lparr>dropped_frames := dropped_frames s + 1\<rparr>))
      | _ \<Rightarrow> (False, s))"

section \<open>The task of a connection\<close>

datatype line_input = Eof | ReadError | BadJson | Line relay_message

definition close_conn :: "nat \<Rightarrow> relay_state \<Rightarrow> relay_state" where
  "close_conn c = update_conn c (\<lambda>cn. cn\<lparr>cn_phase := Closed, cn_queue := []\<rparr>)"

text \<open>\<open>write_message(..).await?\<close>: a failed write ends the task with its error.\<close>

definition write_message :: "bool \<Rightarrow> nat \<Rightarrow> relay_message \<Rightarrow> relay_state \<Rightarrow> relay_state" where
  "write_message write_ok c message s =
     (if write_ok then update_conn c (\<lambda>cn. cn\<lparr>cn_written := cn_written cn @ [message]\<rparr>) s
      else close_conn c s)"

text \<open>The first line, before the loop.\<close>

definition session_first_line :: "bool \<Rightarrow> nat \<Rightarrow> line_input \<Rightarrow> relay_state \<Rightarrow> relay_state" where
  "session_first_line write_ok c input s =
     (case input of
        Line (Register device_id _) \<Rightarrow>
          update_conn c (\<lambda>cn. cn\<lparr>cn_phase := Running device_id, cn_queue := []\<rparr>) (snd (register device_id c s))
      | Line _ \<Rightarrow> close_conn c (write_message write_ok c (Error ''first relay message must be register'') s)
      | _ \<Rightarrow> close_conn c s)"

text \<open>The end of the loop by \<open>break\<close>, and by an error that \<open>?\<close> returns.\<close>

definition session_break :: "nat \<Rightarrow> string \<Rightarrow> relay_state \<Rightarrow> relay_state" where
  "session_break c device_id s = close_conn c (unregister device_id s)"

definition session_error :: "nat \<Rightarrow> relay_state \<Rightarrow> relay_state" where
  "session_error c s = close_conn c s"

text \<open>The two arms of the \<open>select!\<close> of a running session.\<close>

definition session_inbound :: "bool \<Rightarrow> nat \<Rightarrow> string \<Rightarrow> line_input \<Rightarrow> relay_state \<Rightarrow> relay_state" where
  "session_inbound write_ok c device_id input s =
     (case input of
        Eof \<Rightarrow> session_break c device_id s
      | ReadError \<Rightarrow> session_error c s
      | BadJson \<Rightarrow> session_error c s
      | Line message \<Rightarrow>
          (case message of
             Frame source_device_id destination_device_id payload \<Rightarrow>
               (case route_frame (Frame source_device_id destination_device_id payload) s of
                  (True, s') \<Rightarrow> s'
                | (False, s') \<Rightarrow>
                    write_message write_ok c (Error (''unknown destination device: '' @ destination_device_id)) s')
           | Register _ _ \<Rightarrow> write_message write_ok c (Error ''session is already registered'') s
           | Error _ \<Rightarrow> s))"

definition sender_alive :: "relay_state \<Rightarrow> nat \<Rightarrow> bool" where
  "sender_alive s c \<longleftrightarrow> c \<in> snd ` set (rl_sessions s)"

text \<open>\<open>rx.recv()\<close> is ready with a message, ready with the end of the channel, or pending (\<open>None\<close>).\<close>

definition session_outbound :: "bool \<Rightarrow> nat \<Rightarrow> string \<Rightarrow> relay_state \<Rightarrow> relay_state option" where
  "session_outbound write_ok c device_id s =
     (case cn_queue (rl_conns s c) of
        message # rest \<Rightarrow>
          Some (write_message write_ok c message (update_conn c (\<lambda>cn. cn\<lparr>cn_queue := rest\<rparr>) s))
      | [] \<Rightarrow> if sender_alive s c then None else Some (session_break c device_id s))"

section \<open>The relay as a transition system\<close>

inductive relay_step :: "relay_state \<Rightarrow> relay_state \<Rightarrow> bool" where
  first_line: "cn_phase (rl_conns s c) = Connected \<Longrightarrow> relay_step s (session_first_line ok c input s)"
| inbound: "cn_phase (rl_conns s c) = Running d \<Longrightarrow> relay_step s (session_inbound ok c d input s)"
| outbound: "cn_phase (rl_conns s c) = Running d \<Longrightarrow> session_outbound ok c d s = Some s' \<Longrightarrow> relay_step s s'"

inductive_cases relay_stepE: "relay_step s s'"

definition is_frame_for :: "string \<Rightarrow> relay_message \<Rightarrow> bool" where
  "is_frame_for d m = (case m of Frame _ d' _ \<Rightarrow> d' = d | _ \<Rightarrow> False)"

definition is_error :: "relay_message \<Rightarrow> bool" where
  "is_error m = (case m of Error _ \<Rightarrow> True | _ \<Rightarrow> False)"

text \<open>What a client is sent is a frame for its own device or an error of the relay.\<close>

definition conn_ok :: "connection \<Rightarrow> bool" where
  "conn_ok cn \<longleftrightarrow>
     (case cn_phase cn of
        Running d \<Rightarrow> list_all (is_frame_for d) (cn_queue cn) \<and> list_all (\<lambda>m. is_frame_for d m \<or> is_error m) (cn_written cn)
      | Connected \<Rightarrow> cn_queue cn = [] \<and> cn_written cn = []
      | Closed \<Rightarrow> cn_queue cn = [] \<and> (\<exists>d. list_all (\<lambda>m. is_frame_for d m \<or> is_error m) (cn_written cn)))"

text \<open>The table refers, under a device, only to connections that registered as that device.\<close>

definition table_ok :: "relay_state \<Rightarrow> bool" where
  "table_ok s \<longleftrightarrow> hm_wf (rl_sessions s) \<and>
     (\<forall>d c. hm_get (rl_sessions s) d = Some c \<longrightarrow> cn_phase (rl_conns s c) \<in> {Running d, Closed})"

definition relay_inv :: "relay_state \<Rightarrow> bool" where
  "relay_inv s \<longleftrightarrow> table_ok s \<and> (\<forall>c. conn_ok (rl_conns s c))"

section \<open>The invariant\<close>

lemma update_conn_simps [simp]:
  "rl_conns (update_conn c f s) c' = (if c' = c then f (rl_conns s c) else rl_conns s c')"
  "rl_sessions (update_conn c f s) = rl_sessions s"
  "routed_frames (update_conn c f s) = routed_frames s" "dropped_frames (update_conn c f s) = dropped_frames s"
  by (simp_all add: update_conn_def)

lemma relay_inv_default: "relay_inv relay_state_default"
  by (simp add: relay_inv_def table_ok_def conn_ok_def relay_state_default_def)

lemma relay_invD:
  assumes "relay_inv s"
  shows "conn_ok (rl_conns s c)"
    and "hm_get (rl_sessions s) d = Some c \<Longrightarrow> cn_phase (rl_conns s c) = Running d \<or> cn_phase (rl_conns s c) = Closed"
  using assms unfolding relay_inv_def table_ok_def by auto

lemma relay_inv_update:
  assumes "relay_inv s" and "conn_ok (f (rl_conns s c))"
    and "cn_phase (f (rl_conns s c)) = cn_phase (rl_conns s c) \<or> cn_phase (f (rl_conns s c)) = Closed"
  shows "relay_inv (update_conn c f s)"
  unfolding relay_inv_def table_ok_def
proof (intro conjI allI impI)
  show "hm_wf (rl_sessions (update_conn c f s))" using assms(1) by (simp add: relay_inv_def table_ok_def)
next
  fix d c' assume "hm_get (rl_sessions (update_conn c f s)) d = Some c'"
  with relay_invD(2) [OF assms(1), of d c'] assms(3)
  show "cn_phase (rl_conns (update_conn c f s) c') \<in> {Running d, Closed}" by auto
next
  fix c' show "conn_ok (rl_conns (update_conn c f s) c')" using assms(2) relay_invD(1) [OF assms(1)] by simp
qed

lemma relay_inv_close: "relay_inv s \<Longrightarrow> relay_inv (close_conn c s)"
  unfolding close_conn_def
  by (rule relay_inv_update, assumption, drule relay_invD(1) [of _ c])
    (auto simp: conn_ok_def split: phase.splits intro: exI [of _ "[]"])

lemma relay_inv_unregister: "relay_inv s \<Longrightarrow> relay_inv (unregister d s)"
  by (auto simp: relay_inv_def table_ok_def unregister_def hmap_simps split: if_splits)

lemma relay_inv_write_error:
  assumes "relay_inv s" and "cn_phase (rl_conns s c) = Running d" and "is_frame_for d m \<or> is_error m"
  shows "relay_inv (write_message ok c m s)"
proof (cases ok)
  case True
  with assms relay_invD(1) [OF assms(1), of c] show ?thesis
    by (auto simp: write_message_def conn_ok_def intro!: relay_inv_update)
next
  case False
  with assms show ?thesis by (simp add: write_message_def relay_inv_close)
qed

lemma relay_inv_counters [simp]:
  "relay_inv (s\<lparr>dropped_frames := n\<rparr>) = relay_inv s" "relay_inv (s\<lparr>routed_frames := n\<rparr>) = relay_inv s"
  by (simp_all add: relay_inv_def table_ok_def)

lemma relay_inv_route:
  assumes "relay_inv s"
  shows "relay_inv (snd (route_frame frame s))"
proof -
  have "relay_inv (update_conn c (\<lambda>cn. cn\<lparr>cn_queue := cn_queue cn @ [frame]\<rparr>) (s\<lparr>routed_frames := n\<rparr>))"
    if "frame = Frame a d p" "hm_get (rl_sessions s) d = Some c" "receiver_alive s c" for a d p c n
  proof (rule relay_inv_update)
    have "cn_phase (rl_conns s c) = Running d"
      using relay_invD(2) [OF assms that(2)] that(3) by (auto simp: receiver_alive_def)
    then show "conn_ok ((rl_conns (s\<lparr>routed_frames := n\<rparr>) c)\<lparr>cn_queue := cn_queue (rl_conns (s\<lparr>routed_frames := n\<rparr>) c) @ [frame]\<rparr>)"
      using relay_invD(1) [OF assms, of c] that(1) by (simp add: conn_ok_def is_frame_for_def)
  qed (use assms in simp_all)
  with assms show ?thesis
    by (auto simp: route_frame_def split: relay_message.splits option.splits)
qed

lemma route_frame_phase: "cn_phase (rl_conns (snd (route_frame frame s)) c) = cn_phase (rl_conns s c)"
  by (auto simp: route_frame_def split: relay_message.splits option.splits)

lemma relay_inv_first_line:
  assumes "relay_inv s" and "cn_phase (rl_conns s c) = Connected"
  shows "relay_inv (session_first_line ok c input s)"
proof -
  have no: "hm_get (rl_sessions s) d \<noteq> Some c" for d
    using relay_invD(2) [OF assms(1), of d c] assms(2) by auto
  have empty: "cn_queue (rl_conns s c) = []" "cn_written (rl_conns s c) = []"
    using relay_invD(1) [OF assms(1), of c] assms(2) by (simp_all add: conn_ok_def)
  have "relay_inv (update_conn c (\<lambda>cn. cn\<lparr>cn_phase := Running d, cn_queue := []\<rparr>) (snd (register d c s)))" for d
  proof -
    have "conn_ok ((rl_conns s c)\<lparr>cn_phase := Running d, cn_queue := []\<rparr>)" using empty by (simp add: conn_ok_def)
    with assms(1) no show ?thesis
      by (auto simp: relay_inv_def table_ok_def register_def hmap_simps split: if_splits)
  qed
  moreover have "relay_inv (close_conn c (write_message ok c (Error e) s))" for e
  proof -
    have "close_conn c (write_message ok c (Error e) s) =
        update_conn c (\<lambda>cn. \<lparr>cn_phase = Closed, cn_queue = [], cn_written = (if ok then [Error e] else [])\<rparr>) s"
      using empty by (auto simp: close_conn_def write_message_def update_conn_def fun_eq_iff)
    then show ?thesis using assms(1)
      by (auto simp: conn_ok_def is_error_def intro!: relay_inv_update)
  qed
  moreover have "relay_inv (close_conn c s)" using assms(1) by (rule relay_inv_close)
  ultimately show ?thesis by (simp add: session_first_line_def split: line_input.split relay_message.split)
qed

lemma relay_inv_inbound:
  assumes "relay_inv s" and "cn_phase (rl_conns s c) = Running d"
  shows "relay_inv (session_inbound ok c d input s)"
proof -
  have route: "relay_inv s'" if "route_frame f s = (b, s')" for f b s'
    using relay_inv_route [OF assms(1), of f] that by simp
  have unknown: "relay_inv (write_message ok c (Error e) s')" if "route_frame f s = (b, s')" for f b s' e
    using route [OF that] route_frame_phase [of f s c] that assms(2)
    by (intro relay_inv_write_error) (auto simp: is_error_def)
  have reply: "relay_inv (write_message ok c (Error e) s)" for e
    using assms by (intro relay_inv_write_error) (auto simp: is_error_def)
  show ?thesis
    using assms(1)
    by (auto simp: session_inbound_def session_break_def session_error_def reply route unknown
        intro: relay_inv_close relay_inv_unregister split: line_input.splits relay_message.splits prod.splits bool.splits)
qed

lemma relay_inv_outbound:
  assumes "relay_inv s" and "cn_phase (rl_conns s c) = Running d" and "session_outbound ok c d s = Some s'"
  shows "relay_inv s'"
proof (cases "cn_queue (rl_conns s c)")
  case Nil
  with assms show ?thesis
    by (auto simp: session_outbound_def session_break_def intro: relay_inv_close relay_inv_unregister split: if_splits)
next
  case (Cons m rest)
  note ok = relay_invD(1) [OF assms(1), of c]
  have "is_frame_for d m" using ok assms(2) Cons by (simp add: conn_ok_def)
  moreover have "relay_inv (update_conn c (\<lambda>cn. cn\<lparr>cn_queue := rest\<rparr>) s)"
    using assms(1,2) Cons ok by (intro relay_inv_update) (simp_all add: conn_ok_def)
  ultimately show ?thesis
    using assms(2,3) Cons by (auto simp: session_outbound_def intro: relay_inv_write_error)
qed

interpretation relay: transition_system "\<lambda>s. s = relay_state_default" relay_step relay_inv
  by unfold_locales
    (auto simp: relay_inv_default elim!: relay_stepE intro: relay_inv_first_line relay_inv_inbound relay_inv_outbound)

section \<open>Properties\<close>

text \<open>
  C7. The relay keeps devices apart: in every reachable state, whatever the clients sent and in
  whatever order the tasks ran, all that a client that registered as a device was sent, and all
  that waits for it, are frames addressed to that device and error messages of the relay itself.
\<close>

theorem relay_isolates_devices:
  assumes "relay_step\<^sup>*\<^sup>* relay_state_default s" and "cn_phase (rl_conns s c) = Running d"
  shows "list_all (\<lambda>m. is_frame_for d m \<or> is_error m) (cn_written (rl_conns s c) @ cn_queue (rl_conns s c))"
  using relay_invD(1) [OF relay.reachable_inv [OF refl assms(1)], of c] assms(2)
  by (auto simp: conn_ok_def list_all_iff)

definition demo_registered :: relay_state where
  "demo_registered = session_first_line True 0 (Line (Register ''a'' [])) relay_state_default"

lemma demo_registered_reachable: "relay_step\<^sup>*\<^sup>* relay_state_default demo_registered"
  unfolding demo_registered_def
  by (rule r_into_rtranclp, rule relay_step.first_line) (simp add: relay_state_default_def)

lemma demo_registered_fields [simp]:
  "rl_conns demo_registered 0 = \<lparr>cn_phase = Running ''a'', cn_queue = [], cn_written = []\<rparr>"
  "rl_conns demo_registered (Suc 0) = \<lparr>cn_phase = Connected, cn_queue = [], cn_written = []\<rparr>"
  "rl_sessions demo_registered = [(''a'', 0)]"
  by (simp_all add: demo_registered_def session_first_line_def register_def relay_state_default_def update_conn_def)

theorem relay_isolates_devices_witness:
  "list_all (\<lambda>m. is_frame_for ''a'' m \<or> is_error m)
     (cn_written (rl_conns demo_registered 0) @ cn_queue (rl_conns demo_registered 0))"
  by (rule relay_isolates_devices [OF demo_registered_reachable]) simp

text \<open>The task of a connection writing out what waits for it.\<close>

fun drain :: "nat \<Rightarrow> nat \<Rightarrow> string \<Rightarrow> relay_state \<Rightarrow> relay_state option" where
  "drain 0 c d s = Some s"
| "drain (Suc n) c d s = Option.bind (session_outbound True c d s) (drain n c d)"

lemma drain_queue:
  "cn_queue (rl_conns s c) = ms \<Longrightarrow>
     \<exists>s'. drain (length ms) c d s = Some s' \<and> cn_queue (rl_conns s' c) = [] \<and>
       cn_written (rl_conns s' c) = cn_written (rl_conns s c) @ ms"
proof (induction ms arbitrary: s)
  case (Cons m ms)
  let ?s = "write_message True c m (update_conn c (\<lambda>cn. cn\<lparr>cn_queue := ms\<rparr>) s)"
  have "cn_queue (rl_conns ?s c) = ms" "cn_written (rl_conns ?s c) = cn_written (rl_conns s c) @ [m]"
    by (simp_all add: write_message_def)
  with Cons.IH [of ?s] Cons.prems show ?case by (simp add: session_outbound_def)
qed auto

text \<open>
  A frame for a connected device arrives, once and in order: when the table refers to a
  running session of the destination, routing succeeds and is counted, and after the session has
  written out its queue the client was sent everything that waited before, in order, and then
  the frame, unchanged.
\<close>

theorem relay_delivers_in_order:
  assumes "hm_get (rl_sessions s) d = Some c" and "cn_phase (rl_conns s c) = Running d"
  shows "\<exists>s' s''. route_frame (Frame src d payload) s = (True, s') \<and>
    routed_frames s' = routed_frames s + 1 \<and> dropped_frames s' = dropped_frames s \<and>
    drain (Suc (length (cn_queue (rl_conns s c)))) c d s' = Some s'' \<and>
    cn_written (rl_conns s'' c) = cn_written (rl_conns s c) @ cn_queue (rl_conns s c) @ [Frame src d payload]"
proof -
  let ?f = "Frame src d payload"
  let ?s = "update_conn c (\<lambda>cn. cn\<lparr>cn_queue := cn_queue cn @ [?f]\<rparr>) (s\<lparr>routed_frames := routed_frames s + 1\<rparr>)"
  have "route_frame ?f s = (True, ?s)" using assms by (simp add: route_frame_def receiver_alive_def)
  moreover from drain_queue [of ?s c "cn_queue (rl_conns s c) @ [?f]" d]
  obtain s'' where "drain (Suc (length (cn_queue (rl_conns s c)))) c d ?s = Some s''"
    "cn_written (rl_conns s'' c) = cn_written (rl_conns s c) @ cn_queue (rl_conns s c) @ [?f]"
    by auto
  ultimately show ?thesis by auto
qed

theorem relay_delivers_in_order_witness:
  "\<exists>s' s''. route_frame (Frame ''b'' ''a'' ''AQ'') demo_registered = (True, s') \<and>
     drain (Suc 0) 0 ''a'' s' = Some s'' \<and> cn_written (rl_conns s'' 0) = [Frame ''b'' ''a'' ''AQ'']"
  using relay_delivers_in_order [of demo_registered "''a''" 0 "''b''" "''AQ''"] by auto

text \<open>
  A second connection of a device takes the first one down and is then itself unreachable:
  when a new connection registers as a device that is connected already, the replaced task sees
  the end of its channel as soon as its queue is empty, ends, and removes the device from the
  table, which is the new connection's entry. The new session still runs, but every frame for
  the device is dropped.
\<close>

theorem second_registration_unreachable:
  assumes "relay_step\<^sup>*\<^sup>* relay_state_default s"
    and "hm_get (rl_sessions s) d = Some a" and "cn_phase (rl_conns s a) = Running d" and "cn_queue (rl_conns s a) = []"
    and "cn_phase (rl_conns s b) = Connected"
  shows "\<exists>s1 s2. s1 = session_first_line True b (Line (Register d key)) s \<and> session_outbound ok a d s1 = Some s2 \<and>
    relay_step s s1 \<and> relay_step s1 s2 \<and> cn_phase (rl_conns s2 b) = Running d \<and>
    (\<exists>s3. route_frame (Frame src d payload) s2 = (False, s3) \<and> dropped_frames s3 = dropped_frames s2 + 1)"
proof -
  have ab: "a \<noteq> b" using assms(3,5) by auto
  have inv: "relay_inv s" by (rule relay.reachable_inv [OF refl assms(1)])
  let ?s1 = "session_first_line True b (Line (Register d key)) s"
  have s1: "rl_sessions ?s1 = hm_insert d b (rl_sessions s)" "rl_conns ?s1 a = rl_conns s a"
    "cn_phase (rl_conns ?s1 b) = Running d"
    using ab by (simp_all add: session_first_line_def register_def)
  have "\<not> sender_alive ?s1 a"
  proof
    assume "sender_alive ?s1 a"
    then obtain d' where "(d', a) \<in> set (hm_insert d b (rl_sessions s))" by (auto simp: sender_alive_def s1)
    moreover have "hm_wf (hm_insert d b (rl_sessions s))" using inv by (auto simp: relay_inv_def table_ok_def)
    ultimately have "hm_get (hm_insert d b (rl_sessions s)) d' = Some a" by (simp add: hm_wf_def)
    with ab have "d' \<noteq> d" "hm_get (rl_sessions s) d' = Some a" by (auto simp: hmap_simps split: if_splits)
    with relay_invD(2) [OF inv, of d' a] assms(3) show False by auto
  qed
  then have s2: "session_outbound ok a d ?s1 = Some (session_break a d ?s1)"
    using assms(4) s1(2) by (simp add: session_outbound_def)
  have "relay_step s ?s1" using assms(5) by (rule relay_step.first_line)
  moreover have "relay_step ?s1 (session_break a d ?s1)"
    using assms(3) s1(2) s2 by (intro relay_step.outbound) simp_all
  moreover have "cn_phase (rl_conns (session_break a d ?s1) b) = Running d"
    using s1(3) ab by (simp add: session_break_def close_conn_def unregister_def)
  moreover have "hm_get (rl_sessions (session_break a d ?s1)) d = None"
    by (simp add: session_break_def close_conn_def unregister_def hmap_simps)
  ultimately show ?thesis using s2 by (auto simp: route_frame_def)
qed

theorem second_registration_unreachable_witness:
  "\<exists>s1 s2. s1 = session_first_line True 1 (Line (Register ''a'' [])) demo_registered \<and>
     session_outbound True 0 ''a'' s1 = Some s2 \<and> cn_phase (rl_conns s2 1) = Running ''a'' \<and>
     \<not> fst (route_frame (Frame ''b'' ''a'' ''AQ'') s2)"
  using second_registration_unreachable [OF demo_registered_reachable, of "''a''" 0 1 "[]" True "''b''" "''AQ''"]
  by auto

end
