(* ===== verification/Relay_Path.thy ===== *)
theory Relay_Path
  imports Backend Relay_Server
begin

text \<open>
  The way of a packet over the relay, with the programs at its two ends: the thread of
  \<open>tfscale-custom/src/lib.rs\<close> that reads a node's relay connection, the sender of the same node, and
  the relay of \<open>Relay_Server\<close> between them. A line is the JSON text of a message and a line feed.
\<close>

section \<open>The thread that reads the relay connection\<close>

text \<open>
  The start of the thread: connect, register, set the read time-out. It ends without a word when
  any of these fails. \<open>timeout_set\<close> is the outcome of \<open>set_read_timeout\<close>.
\<close>

definition relay_thread_connect ::
  "(relay_message \<Rightarrow> string + bytes) \<Rightarrow> (string \<Rightarrow> string + tcp_stream) \<Rightarrow> bool \<Rightarrow> relay_config \<Rightarrow> string \<Rightarrow> tcp_stream option" where
  "relay_thread_connect to_json connect timeout_set relay device_id =
     (case relay_tcp_addr (rc_url relay) of
        Inl _ \<Rightarrow> None
      | Inr addr \<Rightarrow>
          (case connect addr of
             Inl _ \<Rightarrow> None
           | Inr stream \<Rightarrow>
               (case write_relay_message to_json (Register device_id []) stream of
                  (Inl _, _) \<Rightarrow> None
                | (Inr _, stream') \<Rightarrow> if timeout_set then Some stream' else None)))"

datatype stream_read = ReadEof | ReadLine bytes | ReadTimedOut | ReadFailed

text \<open>The loop, over what each read returns; the stop flag and the other threads are in its environment.\<close>

fun relay_thread_loop ::
  "crypto_prims \<Rightarrow> (nat \<Rightarrow> system_time) \<Rightarrow> (bytes \<Rightarrow> relay_message option) \<Rightarrow> (bool \<times> stream_read) list \<Rightarrow>
     runtime_state \<Rightarrow> runtime_state" where
  "relay_thread_loop P clk from_json [] rt = rt"
| "relay_thread_loop P clk from_json ((stop, event) # events) rt =
     (if stop then rt
      else case event of
        ReadEof \<Rightarrow> rt
      | ReadFailed \<Rightarrow> rt
      | ReadTimedOut \<Rightarrow> relay_thread_loop P clk from_json events rt
      | ReadLine line \<Rightarrow>
          (case relay_to_tun_receive P clk from_json line rt of
             (packet, rt') \<Rightarrow> relay_thread_loop P clk from_json events (to_tun_write packet rt')))"

section \<open>Lines between the programs\<close>

text \<open>\<open>serde_json\<close> reads what it writes, also with the line feed behind it.\<close>

definition relay_json_laws :: "(relay_message \<Rightarrow> string + bytes) \<Rightarrow> (bytes \<Rightarrow> relay_message option) \<Rightarrow> bool" where
  "relay_json_laws to_json from_json \<longleftrightarrow>
     (\<forall>m json. to_json m = Inr json \<longrightarrow> from_json json = Some m \<and> from_json (json @ [10]) = Some m)"

text \<open>What the relay's \<open>lines\<close> and decoder make of a line.\<close>

definition relay_line :: "(bytes \<Rightarrow> relay_message option) \<Rightarrow> bytes \<Rightarrow> line_input" where
  "relay_line from_json line = (case from_json (butlast line) of Some m \<Rightarrow> Line m | None \<Rightarrow> BadJson)"

lemma relay_line_json: "relay_json_laws to_json from_json \<Longrightarrow> to_json m = Inr json \<Longrightarrow> relay_line from_json (json @ [10]) = Line m"
  by (simp add: relay_json_laws_def relay_line_def)

lemma relay_thread_registers:
  assumes "relay_thread_connect to_json connect timeout_set relay device_id = Some stream"
    and "relay_json_laws to_json from_json"
  shows "tcp_lines stream \<noteq> [] \<and> relay_line from_json (last (tcp_lines stream)) = Line (Register device_id [])"
  using assms
  by (auto simp: relay_thread_connect_def relay_line_json split: sum.splits prod.splits if_splits dest!: write_relay_message_Inr)

lemma sender_registers:
  assumes "ensure_connected to_json s = (Inr (), s')" and "trs_writer s = None" and "relay_json_laws to_json from_json"
  obtains w where "trs_writer s' = Some w" and "tcp_lines w \<noteq> []"
    and "relay_line from_json (last (tcp_lines w)) = Line (Register (trs_device_id s) (trs_node_key s))"
proof -
  obtain stream w where "write_relay_message to_json (Register (trs_device_id s) (trs_node_key s)) stream = (Inr (), w)"
    and w: "trs_writer s' = Some w"
    using assms(1,2) by (auto simp: ensure_connected_def Let_def split: sum.splits prod.splits)
  from write_relay_message_Inr [OF this(1)] obtain json where
    "to_json (Register (trs_device_id s) (trs_node_key s)) = Inr json" "tcp_lines w = tcp_lines stream @ [json @ [10]]" by blast
  with that [OF w] assms(3) show ?thesis by (simp add: relay_line_json)
qed

lemma relay_routes:
  assumes "hm_get (rl_sessions s) d = Some c" and "cn_phase (rl_conns s c) = Running d"
  shows "\<exists>s'. drain (Suc (length (cn_queue (rl_conns s c)))) c d (session_inbound ok ca a (Line (Frame src d payload)) s) = Some s' \<and>
    cn_written (rl_conns s' c) = cn_written (rl_conns s c) @ cn_queue (rl_conns s c) @ [Frame src d payload]"
proof -
  let ?s = "update_conn c (\<lambda>cn. cn\<lparr>cn_queue := cn_queue cn @ [Frame src d payload]\<rparr>) (s\<lparr>routed_frames := routed_frames s + 1\<rparr>)"
  have "session_inbound ok ca a (Line (Frame src d payload)) s = ?s"
    using assms by (simp add: session_inbound_def route_frame_def receiver_alive_def)
  moreover obtain s' where "drain (Suc (length (cn_queue (rl_conns s c)))) c d ?s = Some s'"
    "cn_written (rl_conns s' c) = cn_written (rl_conns s c) @ cn_queue (rl_conns s c) @ [Frame src d payload]"
    using drain_queue [of ?s c "cn_queue (rl_conns s c) @ [Frame src d payload]" d] by auto
  ultimately show ?thesis by auto
qed

section \<open>Properties\<close>

text \<open>
  C8. A packet goes through the relay from one node's TUN device to the other's: when node A sends a
  packet for B over the relay path and the relay's table has a running session of B, then the line
  A wrote makes the relay send B, after all that waited for B, one line from which B's relay
  thread obtains exactly this packet.
\<close>

theorem relayed_packet_reaches_peer:
  assumes "crypto_laws P" and "relay_json_laws to_json from_json"
    and "send_overlay_packet P to_json packet rta = (Inr n, rta')"
    and "ipv4_destination packet = Inr dst" and "hm_get (peers_by_overlay_ip rta) dst = Some b"
    and "hm_get (peer_transport_sessions_by_device rta) b = Some sa" and "peer_path_is_relay rta b"
    and "hm_get (peer_device_by_frame_id rtb) (cs_local_id (pts_crypto sa)) = Some a"
    and "hm_get (peer_transport_sessions_by_device rtb) a = Some sb"
    and "ready_to_receive (pts_crypto sa) (pts_crypto sb)"
    and "hm_get (rl_sessions s) b = Some c" and "cn_phase (rl_conns s c) = Running b"
  shows "\<exists>sender w s' m json rtb'. relay_sender rta' = TcpRelayFrameSender sender \<and> trs_writer sender = Some w \<and>
    drain (Suc (length (cn_queue (rl_conns s c)))) c b
      (session_inbound ok ca a' (relay_line from_json (last (tcp_lines w))) s) = Some s' \<and>
    cn_written (rl_conns s' c) = cn_written (rl_conns s c) @ cn_queue (rl_conns s c) @ [m] \<and>
    to_json m = Inr json \<and> relay_to_tun_receive P clk from_json (json @ [10]) rtb = (Some packet, rtb')"
proof -
  from send_overlay_packet_Inr [OF assms(3)] assms(4-6) obtain frame crypto where
    seal: "seal P (pts_crypto sa) packet = (Inr frame, crypto)"
    and out: "handed_over to_json P b (pts_endpoint sa) frame rta rta'" by auto
  from out assms(7) obtain sender w json src where
    line: "relay_sender rta' = TcpRelayFrameSender sender" "trs_writer sender = Some w"
      "to_json (Frame src b (b64_encode P frame)) = Inr json" "last (tcp_lines w) = json @ [10]"
    by (auto simp: handed_over_def)
  let ?m = "Frame src b (b64_encode P frame)"
  from relay_routes [OF assms(11,12), of ok ca a' src "b64_encode P frame"] obtain s' where
    relay: "drain (Suc (length (cn_queue (rl_conns s c)))) c b (session_inbound ok ca a' (Line ?m) s) = Some s'"
      "cn_written (rl_conns s' c) = cn_written (rl_conns s c) @ cn_queue (rl_conns s c) @ [?m]" by blast
  from open_sealed_packet [OF assms(1,10) seal assms(8,9)] obtain cr where
    "open_received_frame P clk frame None rtb = (Inr (Some packet), set_session_crypto a sb cr rtb)" by blast
  then have "open_relay_frame P clk ?m rtb = (Inr (Some packet), set_session_crypto a sb cr rtb)"
    using crypto_lawsD(5) [OF assms(1)] by (simp add: open_relay_frame_def)
  moreover have "from_json (json @ [10]) = Some ?m" using assms(2) line(3) by (simp add: relay_json_laws_def)
  ultimately have "relay_to_tun_receive P clk from_json (json @ [10]) rtb = (Some packet, set_session_crypto a sb cr rtb)"
    by (simp add: relay_to_tun_receive_def)
  with line relay relay_line_json [OF assms(2) line(3)] show ?thesis by metis
qed

text \<open>A stand-in for JSON: a tag and the strings, each byte behind a one, each string behind its end by a zero.\<close>

definition demo_field :: "string \<Rightarrow> bytes" where
  "demo_field s = concat (map (\<lambda>b. [1, b]) (as_bytes s)) @ [0]"

fun demo_read :: "bytes \<Rightarrow> (string \<times> bytes) option" where
  "demo_read (b # rest) =
     (if b = 0 then Some ([], rest)
      else case rest of [] \<Rightarrow> None | c # rest' \<Rightarrow> map_option (apfst ((#) (char_of (unat c)))) (demo_read rest'))"
| "demo_read [] = None"

lemma demo_read_field: "demo_read (demo_field s @ rest) = Some (s, rest)"
  by (induction s) (simp_all add: demo_field_def as_bytes_def)

fun demo_to_json :: "relay_message \<Rightarrow> string + bytes" where
  "demo_to_json (Register d k) = Inr (0 # demo_field d @ demo_field k)"
| "demo_to_json (Frame src d payload) = Inr (1 # demo_field src @ demo_field d @ demo_field payload)"
| "demo_to_json (Error e) = Inr (2 # demo_field e)"

fun demo_from_json :: "bytes \<Rightarrow> relay_message option" where
  "demo_from_json [] = None"
| "demo_from_json (tag # r) =
     Option.bind (demo_read r) (\<lambda>(x, r1).
       if tag = 2 then Some (Error x)
       else Option.bind (demo_read r1) (\<lambda>(y, r2).
         if tag = 0 then Some (Register x y)
         else Option.bind (demo_read r2) (\<lambda>(z, _). Some (Frame x y z))))"

lemma demo_json_laws: "relay_json_laws demo_to_json demo_from_json"
proof -
  have "demo_from_json (json @ rest) = Some m" if "demo_to_json m = Inr json" for m json rest
    using that by (cases m) (auto simp: demo_read_field)
  then show ?thesis unfolding relay_json_laws_def by (metis append_Nil2)
qed

definition demo_stream :: tcp_stream where
  "demo_stream = \<lparr>tcp_write = (\<lambda>_. Inr ()), tcp_writes = 0, tcp_lines = []\<rparr>"

definition demo_relay :: relay_config where
  "demo_relay = \<lparr>rc_relay_id = ''relay_1'', rc_url = ''tcp://relay:7000'', rc_region = ''default''\<rparr>"

definition demo_relayed_node :: runtime_state where
  "demo_relayed_node = (demo_node 1 2)\<lparr>
     peer_path_state_by_device := [(demo_device 2, peer_path_state_default\<lparr>current_path := PathRelay\<rparr>)],
     relay_sender := TcpRelayFrameSender (tcp_relay_sender_new (\<lambda>_ _. Inr demo_stream) demo_relay (demo_device 1) [])\<rparr>"

definition demo_relay_state :: relay_state where
  "demo_relay_state = session_first_line True 0 (Line (Register (demo_device 2) [])) relay_state_default"

lemma demo_connects: "relay_tcp_addr (rc_url demo_relay) = Inr ''relay:7000''"
  by (simp add: relay_tcp_addr_def demo_relay_def strip_prefix_def)

lemma demo_relayed_node_sends:
  "\<exists>n rt. send_overlay_packet demo_prims demo_to_json (demo_packet 2) demo_relayed_node = (Inr n, rt)"
proof -
  obtain f c where "seal demo_prims (demo_session 1 2) (demo_packet 2) = (Inr f, c)"
    using demo_seals [of FRAME_TYPE_DATA 1 2 "demo_packet 2"] by (auto simp: seal_def known_message_type_def)
  then show ?thesis
    by (simp add: send_overlay_packet_def demo_relayed_node_def demo_node_fields Let_def peer_path_is_relay_def relay_send_frame_def
        tcp_relay_send_frame_def ensure_connected_def tcp_relay_sender_new_def demo_connects write_relay_message_def demo_stream_def
        split: option.split)
qed

theorem relayed_packet_reaches_peer_witness:
  "\<exists>sender w s' m json rtb'. relay_sender (snd (send_overlay_packet demo_prims demo_to_json (demo_packet 2) demo_relayed_node)) =
       TcpRelayFrameSender sender \<and> trs_writer sender = Some w \<and>
     drain (Suc 0) 0 (demo_device 2)
       (session_inbound True 1 (demo_device 1) (relay_line demo_from_json (last (tcp_lines w))) demo_relay_state) = Some s' \<and>
     cn_written (rl_conns s' 0) = [m] \<and> demo_to_json m = Inr json \<and>
     relay_to_tun_receive demo_prims (\<lambda>_. 0) demo_from_json (json @ [10]) (demo_node 2 1) = (Some (demo_packet 2), rtb')"
proof -
  obtain n rt where sent: "send_overlay_packet demo_prims demo_to_json (demo_packet 2) demo_relayed_node = (Inr n, rt)"
    using demo_relayed_node_sends by blast
  have relay: "hm_get (rl_sessions demo_relay_state) (demo_device 2) = Some 0"
    "rl_conns demo_relay_state 0 = \<lparr>cn_phase = Running (demo_device 2), cn_queue = [], cn_written = []\<rparr>"
    by (simp_all add: demo_relay_state_def session_first_line_def register_def relay_state_default_def update_conn_def)
  from relayed_packet_reaches_peer [OF demo_prims_laws demo_json_laws sent demo_packet_destination _ _ _ _ _ _ relay(1), where
      rtb = "demo_node 2 1" and ok = True and ca = 1 and a' = "demo_device 1" and clk = "\<lambda>_. 0"]
  show ?thesis using demo_sessions_ready [of 1 2] sent
    by (fastforce simp: demo_relayed_node_def demo_node_fields demo_session_ids peer_path_is_relay_def relay(2))
qed

text \<open>
  C27. A node that sends over the relay no longer receives over it: its reading thread and its sender
  each open a connection and register the same device id. When both have done so, the relay ends
  the thread's session at its next turn and removes the device from the table, so every later
  frame for the node is refused, although the node's sender is still connected.
\<close>

theorem relay_sender_cuts_off_receiver:
  assumes "relay_json_laws to_json from_json" and "relay_step\<^sup>*\<^sup>* relay_state_default s0"
    and "relay_thread_connect to_json connect timeout_set relay (lc_device_id config) = Some stream"
    and "ensure_connected to_json (tcp_relay_sender_new connect' relay' (lc_device_id config) node_key) = (Inr (), sender)"
    and "cn_phase (rl_conns s0 c1) = Connected" and "cn_phase (rl_conns s0 c2) = Connected" and "c1 \<noteq> c2"
  shows "\<exists>w s1 s2 s3. trs_writer sender = Some w \<and>
    s1 = session_first_line True c1 (relay_line from_json (last (tcp_lines stream))) s0 \<and>
    s2 = session_first_line True c2 (relay_line from_json (last (tcp_lines w))) s1 \<and>
    session_outbound ok c1 (lc_device_id config) s2 = Some s3 \<and>
    relay_step s0 s1 \<and> relay_step s1 s2 \<and> relay_step s2 s3 \<and>
    cn_phase (rl_conns s3 c2) = Running (lc_device_id config) \<and>
    \<not> fst (route_frame (Frame src (lc_device_id config) payload) s3)"
proof -
  let ?d = "lc_device_id config"
  obtain w where w: "trs_writer sender = Some w" "relay_line from_json (last (tcp_lines w)) = Line (Register ?d node_key)"
    using sender_registers [OF assms(4) _ assms(1)] by (auto simp: tcp_relay_sender_new_def)
  have thread: "relay_line from_json (last (tcp_lines stream)) = Line (Register ?d [])"
    using relay_thread_registers [OF assms(3,1)] by simp
  let ?s1 = "session_first_line True c1 (Line (Register ?d [])) s0"
  have step: "relay_step s0 ?s1" using assms(5) by (rule relay_step.first_line)
  have s1: "hm_get (rl_sessions ?s1) ?d = Some c1" "cn_phase (rl_conns ?s1 c1) = Running ?d" "cn_queue (rl_conns ?s1 c1) = []"
    "cn_phase (rl_conns ?s1 c2) = Connected"
    using assms(6,7) by (simp_all add: session_first_line_def register_def update_conn_def hmap_simps)
  have reach: "relay_step\<^sup>*\<^sup>* relay_state_default ?s1" using assms(2) step by (rule rtranclp.rtrancl_into_rtrancl)
  from second_registration_unreachable [OF reach s1, of node_key ok src payload] obtain s2 s3 where
    "s2 = session_first_line True c2 (Line (Register ?d node_key)) ?s1" "session_outbound ok c1 ?d s2 = Some s3"
    "relay_step ?s1 s2" "relay_step s2 s3" "cn_phase (rl_conns s3 c2) = Running ?d"
    "\<not> fst (route_frame (Frame src ?d payload) s3)" by (metis fst_conv)
  with w thread step show ?thesis by (intro exI [of _ w] exI [of _ ?s1] exI [of _ s2] exI [of _ s3]) simp
qed

theorem relay_sender_cuts_off_receiver_witness:
  "\<exists>stream sender w s1 s2 s3.
     relay_thread_connect demo_to_json (\<lambda>_. Inr demo_stream) True demo_relay (demo_device 1) = Some stream \<and>
     ensure_connected demo_to_json (tcp_relay_sender_new (\<lambda>_ _. Inr demo_stream) demo_relay (demo_device 1) []) = (Inr (), sender) \<and>
     trs_writer sender = Some w \<and>
     s1 = session_first_line True 0 (relay_line demo_from_json (last (tcp_lines stream))) relay_state_default \<and>
     s2 = session_first_line True 1 (relay_line demo_from_json (last (tcp_lines w))) s1 \<and>
     session_outbound True 0 (demo_device 1) s2 = Some s3 \<and>
     \<not> fst (route_frame (Frame (demo_device 2) (demo_device 1) ''AQ'') s3)"
proof -
  let ?config = "\<lparr>lc_device_id = demo_device 1, lc_interface_name = ''tfscale0'', lc_overlay_ip = Ipv4Addr 100 64 0 1, lc_listen_port = 41641\<rparr>"
  obtain stream where thread: "relay_thread_connect demo_to_json (\<lambda>_. Inr demo_stream) True demo_relay (lc_device_id ?config) = Some stream"
    by (simp add: relay_thread_connect_def demo_connects write_relay_message_def demo_stream_def Let_def)
  obtain sender where sender:
    "ensure_connected demo_to_json (tcp_relay_sender_new (\<lambda>_ _. Inr demo_stream) demo_relay (lc_device_id ?config) []) = (Inr (), sender)"
    by (simp add: ensure_connected_def tcp_relay_sender_new_def demo_connects write_relay_message_def demo_stream_def Let_def)
  have fresh: "cn_phase (rl_conns relay_state_default n) = Connected" for n by (simp add: relay_state_default_def)
  from relay_sender_cuts_off_receiver [OF demo_json_laws rtranclp.rtrancl_refl thread sender fresh fresh, of 0 1 True "demo_device 2" "''AQ''"]
  obtain w s1 s2 s3 where "trs_writer sender = Some w"
    "s1 = session_first_line True 0 (relay_line demo_from_json (last (tcp_lines stream))) relay_state_default"
    "s2 = session_first_line True 1 (relay_line demo_from_json (last (tcp_lines w))) s1"
    "session_outbound True 0 (demo_device 1) s2 = Some s3"
    "\<not> fst (route_frame (Frame (demo_device 2) (demo_device 1) ''AQ'') s3)" by (simp only: local_backend_config.select_convs) auto
  with thread sender show ?thesis by (simp only: local_backend_config.select_convs) blast
qed

end
