(* ===== verification/Packet_Loops.thy ===== *)
theory Packet_Loops
  imports Relay_Path
begin

text \<open>
  The threads of a running backend, \<open>TransportTasks\<close> of \<open>tfscale-custom/src/lib.rs\<close>: the loop from the
  TUN device to the peers, the loop from the UDP socket to the TUN device, the loop that reads the
  relay connection, and the thread that calls the backend. They share the runtime state behind its
  mutex and the stop flag. Each thread is a program counter and an executable step function, which
  is \<open>None\<close> where the thread has to wait; \<open>loops_step\<close> interleaves them in every order. Every access
  to the runtime state, the lock, the unlock and every access to the flag is a step of its own.
  The lock is never poisoned, since no thread panics while it holds it, so the branches of the
  loops for a poisoned lock are not there.
\<close>

section \<open>Threads\<close>

text \<open>What the first critical section of an iteration takes its packet from.\<close>

datatype loop_input = FromTun | FromSocket | FromRelay relay_message

datatype loop_pc =
    NotSpawned
  | Connecting relay_config string      \<comment> \<open>the relay thread, before its loop\<close>
  | TestStop                            \<comment> \<open>\<open>while !stop.load(..)\<close>\<close>
  | ReadingLine                         \<comment> \<open>\<open>reader.read_line\<close>, with a read time-out and without the lock\<close>
  | WantFirst loop_input
  | HoldFirst loop_input
  | DropFirst                           \<comment> \<open>the section failed; \<open>record_rx_drop\<close> is next, under the same lock\<close>
  | WantSecond bytes
  | HoldSecond bytes
  | DropSecond
  | Sleeping
  | Finished

datatype caller_op =
    EnsureCredentials custom_backend_state
  | MaintainPaths
  | ReplaceState custom_backend_state
  | ApplyRelayMap "relay_config list"
  | SetTransport "transport_runtime option"
  | SetTunDevice "tun_device option"
  | SetTunStatus tun_status

datatype caller_pc =
    Returned
  | OpWants caller_op
  | OpHolds caller_op
  | StartWants                          \<comment> \<open>\<open>start_transport_tasks\<close>: the lock for its whole body\<close>
  | StartHolds
  | StartSpawnSecond
  | StartRelay                          \<comment> \<open>\<open>spawn_relay_to_tun_loop\<close> locks\<close>
  | StopWants
  | StopHolds
  | StopStore "task_kind list"
  | Joining "task_kind list"

datatype thread = LoopThread task_kind | CallerThread

record loops =
  lp_runtime :: runtime_state
  lp_owner :: "thread option"           \<comment> \<open>who holds the mutex\<close>
  lp_stop :: bool                       \<comment> \<open>the flag of the current \<open>TransportTasks\<close>\<close>
  lp_pc :: "task_kind \<Rightarrow> loop_pc"
  lp_caller :: caller_pc

definition goto_pc :: "task_kind \<Rightarrow> loop_pc \<Rightarrow> loops \<Rightarrow> loops" where
  "goto_pc t pc s = s\<lparr>lp_pc := (lp_pc s)(t := pc)\<rparr>"

definition acquire :: "thread \<Rightarrow> loops \<Rightarrow> loops option" where
  "acquire h s = (if lp_owner s = None then Some (s\<lparr>lp_owner := Some h\<rparr>) else None)"

definition release :: "runtime_state \<Rightarrow> loops \<Rightarrow> loops" where
  "release rt s = s\<lparr>lp_runtime := rt, lp_owner := None\<rparr>"

section \<open>The loops\<close>

definition first_section ::
  "backend_env \<Rightarrow> loop_input \<Rightarrow> runtime_state \<Rightarrow> bytes option backend_result \<times> runtime_state" where
  "first_section env inp rt =
     (case inp of
        FromTun \<Rightarrow> try_read_tun_packet 1500 rt
      | FromSocket \<Rightarrow> receive_overlay_packet (en_prims env) (en_clock env) 1500 rt
      | FromRelay message \<Rightarrow> open_relay_frame (en_prims env) (en_clock env) message rt)"

text \<open>The result of a send is dropped; that of a write to the TUN device is not.\<close>

definition second_section ::
  "backend_env \<Rightarrow> task_kind \<Rightarrow> bytes \<Rightarrow> runtime_state \<Rightarrow> bool \<times> runtime_state" where
  "second_section env t packet rt =
     (case t of
        TunToUdp \<Rightarrow> (True, snd (send_overlay_packet (en_prims env) (en_to_json env) packet rt))
      | _ \<Rightarrow> (case write_tun_packet packet rt of (r, rt') \<Rightarrow> (\<not> isl r, rt')))"

text \<open>Where an iteration without a packet goes: the loops of the node's own devices sleep for ten milliseconds.\<close>

definition no_packet_pc :: "task_kind \<Rightarrow> loop_pc" where
  "no_packet_pc t = (if t = RelayToTun then TestStop else Sleeping)"

definition loop_start_pc :: "task_kind \<Rightarrow> loop_pc" where
  "loop_start_pc t = (case t of TunToUdp \<Rightarrow> WantFirst FromTun | UdpToTun \<Rightarrow> WantFirst FromSocket | RelayToTun \<Rightarrow> ReadingLine)"

text \<open>
  What a step finds in the world besides the sockets and devices of the runtime state: the JSON
  decoder, the line that the relay connection gives, whether \<open>set_read_timeout\<close> succeeds.
\<close>

record loop_world =
  lw_from_json :: "bytes \<Rightarrow> relay_message option"
  lw_read :: stream_read
  lw_connect :: "string \<Rightarrow> string + tcp_stream"
  lw_timeout_set :: bool

definition read_line_pc :: "loop_world \<Rightarrow> loop_pc" where
  "read_line_pc w =
     (case lw_read w of
        ReadEof \<Rightarrow> Finished
      | ReadFailed \<Rightarrow> Finished
      | ReadTimedOut \<Rightarrow> TestStop
      | ReadLine line \<Rightarrow>
          (case lw_from_json w line of
             None \<Rightarrow> TestStop
           | Some message \<Rightarrow> WantFirst (FromRelay message)))"

definition loop_step :: "backend_env \<Rightarrow> loop_world \<Rightarrow> task_kind \<Rightarrow> loops \<Rightarrow> loops option" where
  "loop_step env w t s =
     (case lp_pc s t of
        NotSpawned \<Rightarrow> None
      | Finished \<Rightarrow> None
      | Connecting relay device_id \<Rightarrow>
          Some (goto_pc t
            (case relay_thread_connect (en_to_json env) (lw_connect w) (lw_timeout_set w) relay device_id of
               None \<Rightarrow> Finished | Some _ \<Rightarrow> TestStop) s)
      | TestStop \<Rightarrow> Some (goto_pc t (if lp_stop s then Finished else loop_start_pc t) s)
      | ReadingLine \<Rightarrow> Some (goto_pc t (read_line_pc w) s)
      | WantFirst inp \<Rightarrow> map_option (goto_pc t (HoldFirst inp)) (acquire (LoopThread t) s)
      | HoldFirst inp \<Rightarrow>
          (case first_section env inp (lp_runtime s) of
             (Inl _, rt) \<Rightarrow> Some (goto_pc t DropFirst (s\<lparr>lp_runtime := rt\<rparr>))
           | (Inr (Some packet), rt) \<Rightarrow> Some (goto_pc t (WantSecond packet) (release rt s))
           | (Inr None, rt) \<Rightarrow> Some (goto_pc t (no_packet_pc t) (release rt s)))
      | DropFirst \<Rightarrow> Some (goto_pc t (no_packet_pc t) (release (rt_record_rx_drop (lp_runtime s)) s))
      | WantSecond packet \<Rightarrow> map_option (goto_pc t (HoldSecond packet)) (acquire (LoopThread t) s)
      | HoldSecond packet \<Rightarrow>
          (case second_section env t packet (lp_runtime s) of
             (True, rt) \<Rightarrow> Some (goto_pc t TestStop (release rt s))
           | (False, rt) \<Rightarrow> Some (goto_pc t DropSecond (s\<lparr>lp_runtime := rt\<rparr>)))
      | DropSecond \<Rightarrow> Some (goto_pc t TestStop (release (rt_record_rx_drop (lp_runtime s)) s))
      | Sleeping \<Rightarrow> Some (goto_pc t TestStop s))"

section \<open>The calling thread\<close>

text \<open>
  What the operations of the backend do to the runtime state under the lock. Besides, the caller
  starts and stops the loops. \<open>ensure_credentials\<close> with a stored identity makes a new runtime state, in
  which there is no transport, no TUN device and no handle.
\<close>

definition caller_section :: "backend_env \<Rightarrow> caller_op \<Rightarrow> runtime_state \<Rightarrow> runtime_state" where
  "caller_section env op rt =
     (case op of
        EnsureCredentials state \<Rightarrow> from_persisted (en_prims env) (en_rnd env) state
      | MaintainPaths \<Rightarrow> snd (probe_peer_direct_paths (en_prims env) (en_clock env) rt)
      | ReplaceState state \<Rightarrow> replace_runtime env state rt
      | ApplyRelayMap relay_list \<Rightarrow>
          rt\<lparr>relay_sender :=
               (case (st_local_config (persisted rt), relay_list) of
                  (Some config, relay # _) \<Rightarrow>
                    TcpRelayFrameSender (tcp_relay_sender_new (en_connect env) relay (lc_device_id config) [])
                | _ \<Rightarrow> NullRelayFrameSender),
             relays := relay_list\<rparr>
      | SetTransport transport \<Rightarrow> rt\<lparr>rt_transport := transport\<rparr>
      | SetTunDevice device \<Rightarrow>
          rt\<lparr>rt_tun_status := (case device of Some tun \<Rightarrow> Some (tun_status_of tun) | None \<Rightarrow> rt_tun_status rt),
             rt_tun_device := device\<rparr>
      | SetTunStatus status \<Rightarrow> rt\<lparr>rt_tun_status := Some status\<rparr>)"

definition goto_caller :: "caller_pc \<Rightarrow> loops \<Rightarrow> loops" where
  "goto_caller pc s = s\<lparr>lp_caller := pc\<rparr>"

text \<open>The thread that \<open>spawn_relay_to_tun_loop\<close> spawns, if any, and the end of \<open>start_transport_tasks\<close>.\<close>

definition start_relay_loop :: "loops \<Rightarrow> loops" where
  "start_relay_loop s =
     (let rt = lp_runtime s;
          finish = (\<lambda>handles s. goto_caller Returned
            (release (rt\<lparr>rt_transport_tasks := Some \<lparr>tt_stop = False, tt_handles = handles\<rparr>\<rparr>) s))
      in case (relays rt, st_local_config (persisted rt)) of
           (relay # _, Some config) \<Rightarrow>
             finish [TunToUdp, UdpToTun, RelayToTun] (goto_pc RelayToTun (Connecting relay (lc_device_id config)) s)
         | _ \<Rightarrow> finish [TunToUdp, UdpToTun] s)"

definition caller_step :: "backend_env \<Rightarrow> loops \<Rightarrow> loops option" where
  "caller_step env s =
     (case lp_caller s of
        Returned \<Rightarrow> None
      | OpWants op \<Rightarrow> map_option (goto_caller (OpHolds op)) (acquire CallerThread s)
      | OpHolds op \<Rightarrow> Some (goto_caller Returned (release (caller_section env op (lp_runtime s)) s))
      | StartWants \<Rightarrow> map_option (goto_caller StartHolds) (acquire CallerThread s)
      | StartHolds \<Rightarrow>
          (if rt_transport_tasks (lp_runtime s) \<noteq> None \<or> rt_tun_device (lp_runtime s) = None \<or>
              rt_transport (lp_runtime s) = None
           then Some (goto_caller Returned (release (lp_runtime s) s))
           else Some (goto_caller StartSpawnSecond (goto_pc TunToUdp TestStop (s\<lparr>lp_stop := False\<rparr>))))
      | StartSpawnSecond \<Rightarrow> Some (goto_caller StartRelay (goto_pc UdpToTun TestStop s))
      | StartRelay \<Rightarrow> map_option start_relay_loop (acquire CallerThread s)
      | StopWants \<Rightarrow> map_option (goto_caller StopHolds) (acquire CallerThread s)
      | StopHolds \<Rightarrow>
          (let s' = release ((lp_runtime s)\<lparr>rt_transport_tasks := None\<rparr>) s in
           case rt_transport_tasks (lp_runtime s) of
             None \<Rightarrow> Some (goto_caller Returned s')
           | Some tasks \<Rightarrow> Some (goto_caller (StopStore (tt_handles tasks)) s'))
      | StopStore handles \<Rightarrow> Some (goto_caller (Joining handles) (s\<lparr>lp_stop := True\<rparr>))
      | Joining [] \<Rightarrow> Some (goto_caller Returned s)
      | Joining (handle # handles) \<Rightarrow>
          (if lp_pc s handle = Finished then Some (goto_caller (Joining handles) s) else None))"

section \<open>Interleavings\<close>

definition call_pcs :: "caller_pc set" where
  "call_pcs = {StartWants, StopWants} \<union> range OpWants"

inductive loops_step :: "crypto_prims \<Rightarrow> loops \<Rightarrow> loops \<Rightarrow> bool" for P where
  loop: "loop_step env w t s = Some s' \<Longrightarrow> en_prims env = P \<Longrightarrow> loops_step P s s'"
| caller: "caller_step env s = Some s' \<Longrightarrow> en_prims env = P \<Longrightarrow> loops_step P s s'"
| call: "lp_caller s = Returned \<Longrightarrow> pc \<in> call_pcs \<Longrightarrow> loops_step P s (goto_caller pc s)"

inductive_cases loops_stepE: "loops_step P s s'"

section \<open>The lock and the handles\<close>

definition pc_holds :: "loop_pc \<Rightarrow> bool" where
  "pc_holds pc = (case pc of HoldFirst _ \<Rightarrow> True | DropFirst \<Rightarrow> True | HoldSecond _ \<Rightarrow> True | DropSecond \<Rightarrow> True | _ \<Rightarrow> False)"

definition caller_holds :: "caller_pc \<Rightarrow> bool" where
  "caller_holds pc =
     (case pc of OpHolds _ \<Rightarrow> True | StartHolds \<Rightarrow> True | StartSpawnSecond \<Rightarrow> True | StartRelay \<Rightarrow> True | StopHolds \<Rightarrow> True
      | _ \<Rightarrow> False)"

definition holds :: "loops \<Rightarrow> thread \<Rightarrow> bool" where
  "holds s h = (case h of LoopThread t \<Rightarrow> pc_holds (lp_pc s t) | CallerThread \<Rightarrow> caller_holds (lp_caller s))"

definition pc_live :: "loop_pc \<Rightarrow> bool" where
  "pc_live pc \<longleftrightarrow> pc \<noteq> NotSpawned \<and> pc \<noteq> Finished"

text \<open>The threads that the caller can still join: by the handles in the runtime state, or on its own stack.\<close>

definition owned :: "loops \<Rightarrow> task_kind list" where
  "owned s =
     (case lp_caller s of
        StartSpawnSecond \<Rightarrow> [TunToUdp]
      | StartRelay \<Rightarrow> [TunToUdp, UdpToTun]
      | StopStore handles \<Rightarrow> handles
      | Joining handles \<Rightarrow> handles
      | _ \<Rightarrow> (case rt_transport_tasks (lp_runtime s) of None \<Rightarrow> [] | Some tasks \<Rightarrow> tt_handles tasks))"

definition lock_inv :: "loops \<Rightarrow> bool" where
  "lock_inv s \<longleftrightarrow> (\<forall>h. lp_owner s = Some h \<longleftrightarrow> holds s h)"

text \<open>
  No handle ever gets into the runtime state, so nothing is ever joined, and a thread exists only
  while \<open>start_transport_tasks\<close> is on its way.
\<close>

definition handles_inv :: "loops \<Rightarrow> bool" where
  "handles_inv s \<longleftrightarrow> rt_transport_tasks (lp_runtime s) = None \<and>
     (\<forall>handles. lp_caller s \<noteq> StopStore handles \<and> lp_caller s \<noteq> Joining handles) \<and>
     (\<forall>t. lp_pc s t \<noteq> NotSpawned \<longrightarrow> t \<in> set (owned s))"

definition loops_inv :: "crypto_prims \<Rightarrow> loops \<Rightarrow> bool" where
  "loops_inv P s \<longleftrightarrow> lock_inv s \<and> handles_inv s \<and> runtime_wf P path_wf (\<lambda>_. True) (lp_runtime s)"

text \<open>A backend between two operations, its loops not started: how the program begins.\<close>

definition loops_ready :: "crypto_prims \<Rightarrow> loops \<Rightarrow> bool" where
  "loops_ready P s \<longleftrightarrow> lp_caller s = Returned \<and> lp_owner s = None \<and> runtime_wf P path_wf (\<lambda>_. True) (lp_runtime s) \<and>
     rt_transport_tasks (lp_runtime s) = None \<and> (\<forall>t. lp_pc s t = NotSpawned)"

lemmas loop_state_defs = goto_pc_def goto_caller_def acquire_def release_def

lemma pc_holds_simps [simp]:
  "\<not> pc_holds NotSpawned" "\<not> pc_holds (Connecting r d)" "\<not> pc_holds TestStop" "\<not> pc_holds ReadingLine"
  "\<not> pc_holds (WantFirst i)" "pc_holds (HoldFirst i)" "pc_holds DropFirst" "\<not> pc_holds (WantSecond p)"
  "pc_holds (HoldSecond p)" "pc_holds DropSecond" "\<not> pc_holds Sleeping" "\<not> pc_holds Finished"
  "\<not> pc_holds (no_packet_pc t)" "\<not> pc_holds (loop_start_pc t)" "\<not> pc_holds (read_line_pc w)"
  by (simp_all add: pc_holds_def no_packet_pc_def loop_start_pc_def read_line_pc_def
      split: task_kind.split stream_read.split option.split)

lemma spawned_simps [simp]:
  "no_packet_pc t \<noteq> NotSpawned" "loop_start_pc t \<noteq> NotSpawned" "read_line_pc w \<noteq> NotSpawned"
  by (simp_all add: no_packet_pc_def loop_start_pc_def read_line_pc_def split: task_kind.split stream_read.split option.split)

text \<open>
  A step of a loop: it moves its own program counter only, follows the discipline of the lock, and
  is, for the runtime state, one of the steps of \<open>runtime_step\<close> or none.
\<close>

definition lock_move :: "thread \<Rightarrow> bool \<Rightarrow> bool \<Rightarrow> thread option \<Rightarrow> thread option \<Rightarrow> bool" where
  "lock_move h before after owner owner' \<longleftrightarrow>
     (if before = after then owner' = owner else if after then owner = None \<and> owner' = Some h else owner' = None)"

lemma first_section_step: "first_section env inp rt = (r, rt') \<Longrightarrow> runtime_step (en_prims env) rt rt'"
  by (cases inp) (auto simp: first_section_def intro: runtime_step.intros)

lemma second_section_step: "second_section env t packet rt = (ok, rt') \<Longrightarrow> runtime_step (en_prims env) rt rt'"
  by (cases t) (auto simp: second_section_def split: prod.splits intro: runtime_step.intros(1) [OF surjective_pairing] runtime_step.intros)

lemma loop_step_frame:
  assumes "loop_step env w t s = Some s'"
  shows "lp_caller s' = lp_caller s" "lp_stop s' = lp_stop s" "t' \<noteq> t \<Longrightarrow> lp_pc s' t' = lp_pc s t'"
    "pc_live (lp_pc s t)" "lp_pc s' t \<noteq> NotSpawned"
  using assms
  by (auto simp: loop_step_def loop_state_defs pc_live_def split: loop_pc.splits prod.splits sum.splits option.splits bool.splits if_splits)

lemma loop_step_lock:
  assumes "loop_step env w t s = Some s'"
  shows "lock_move (LoopThread t) (pc_holds (lp_pc s t)) (pc_holds (lp_pc s' t)) (lp_owner s) (lp_owner s')"
  using assms
  by (auto simp: loop_step_def loop_state_defs lock_move_def split: loop_pc.splits prod.splits sum.splits option.splits bool.splits if_splits)

lemma loop_step_runtime:
  assumes "loop_step env w t s = Some s'"
  shows "lp_runtime s' = lp_runtime s \<or> runtime_step (en_prims env) (lp_runtime s) (lp_runtime s')"
  using assms
  by (auto simp: loop_step_def loop_state_defs split: loop_pc.splits prod.splits sum.splits option.splits bool.splits if_splits
      intro: runtime_step.drop first_section_step second_section_step)

lemma lock_inv_move:
  assumes "lock_inv s" and "lock_move h (holds s h) (holds s' h) (lp_owner s) (lp_owner s')"
    and "\<And>h'. h' \<noteq> h \<Longrightarrow> holds s' h' = holds s h'"
  shows "lock_inv s'"
  unfolding lock_inv_def
proof
  fix h'
  have "holds s h \<Longrightarrow> holds s h' \<Longrightarrow> h' = h" using assms(1) unfolding lock_inv_def by (metis option.inject)
  then show "(lp_owner s' = Some h') = holds s' h'"
    using assms(1,2) assms(3) [of h'] by (cases "h' = h") (auto simp: lock_inv_def lock_move_def split: if_splits)
qed

lemma lock_inv_loop:
  assumes "lock_inv s" and "loop_step env w t s = Some s'"
  shows "lock_inv s'"
  using assms(1)
proof (rule lock_inv_move [where h = "LoopThread t"])
  show "lock_move (LoopThread t) (holds s (LoopThread t)) (holds s' (LoopThread t)) (lp_owner s) (lp_owner s')"
    using loop_step_lock [OF assms(2)] by (simp add: holds_def)
next
  fix h' assume "h' \<noteq> LoopThread t"
  with loop_step_frame(1,3) [OF assms(2)] show "holds s' h' = holds s h'" by (cases h') (auto simp: holds_def)
qed

text \<open>
  \<open>start_transport_tasks\<close> waits at its second lock for itself. The other steps of the caller spawn
  threads only at program counters outside the critical sections.
\<close>

lemma start_relay_waits:
  assumes "lock_inv s" and "lp_caller s = StartRelay"
  shows "lp_owner s = Some CallerThread" "caller_step env s = None"
proof -
  have "holds s CallerThread" using assms(2) by (simp add: holds_def caller_holds_def)
  with assms(1) show "lp_owner s = Some CallerThread" unfolding lock_inv_def by blast
  with assms(2) show "caller_step env s = None" by (simp add: caller_step_def acquire_def)
qed

lemma caller_step_not_start_relay:
  "lock_inv s \<Longrightarrow> caller_step env s = Some s' \<Longrightarrow> lp_caller s \<noteq> StartRelay"
  using start_relay_waits(2) by fastforce

lemma caller_step_lock:
  assumes "caller_step env s = Some s'" and "lock_inv s" and "handles_inv s"
  shows "lock_inv s'"
  using assms(2)
proof (rule lock_inv_move [where h = CallerThread])
  note not_relay = caller_step_not_start_relay [OF assms(2,1)]
  show "lock_move CallerThread (holds s CallerThread) (holds s' CallerThread) (lp_owner s) (lp_owner s')"
    using assms(1) not_relay
    by (auto simp: caller_step_def loop_state_defs lock_move_def holds_def caller_holds_def Let_def
        split: caller_pc.splits option.splits list.splits if_splits)
  fix h' assume "h' \<noteq> CallerThread"
  then obtain t where h: "h' = LoopThread t" by (cases h') auto
  have "\<not> pc_holds (lp_pc s t)" if "t \<notin> set (owned s)" for t
    using that assms(3) by (cases "lp_pc s t") (auto simp: handles_inv_def)
  then have "pc_holds (lp_pc s' t) = pc_holds (lp_pc s t)"
    using assms(1) not_relay
    by (cases t) (auto simp: caller_step_def loop_state_defs Let_def owned_def
        split: caller_pc.splits option.splits list.splits if_splits)
  then show "holds s' h' = holds s h'" by (simp add: holds_def h)
qed

lemma caller_section_keeps:
  assumes "runtime_wf (en_prims env) path_wf (\<lambda>_. True) rt" and "rt_transport_tasks rt = None"
  shows "runtime_wf (en_prims env) path_wf (\<lambda>_. True) (caller_section env op rt) \<and>
    rt_transport_tasks (caller_section env op rt) = None"
proof -
  have new: "runtime_wf (en_prims env) path_wf (\<lambda>_. True) (from_persisted (en_prims env) (en_rnd env) st)"
    "rt_transport_tasks (from_persisted (en_prims env) (en_rnd env) st) = None" for st
    by (rule from_persisted_wf; simp add: path_wf_default) (simp add: from_persisted_def Let_def)
  show ?thesis
  proof (cases op)
    case MaintainPaths
    then show ?thesis
      using consistent.probe_peer_direct_paths_keeps [OF assms(1) surjective_pairing] assms(2)
      by (simp add: caller_section_def same_config_def)
  next
    case (ReplaceState st)
    with new(1) [of st] assms(2) show ?thesis
      by (simp add: caller_section_def replace_runtime_def runtime_wf_def sessions_wf_def indexes_wf_def path_states_wf_def known_peer_def)
  next
    case (EnsureCredentials st)
    with new [of st] show ?thesis by (simp add: caller_section_def)
  qed (use assms in \<open>simp_all add: caller_section_def runtime_wf_def sessions_wf_def indexes_wf_def path_states_wf_def known_peer_def
    split: option.splits\<close>)
qed

lemma loop_step_inv:
  assumes "loops_inv (en_prims env) s" and "loop_step env w t s = Some s'"
  shows "loops_inv (en_prims env) s'"
proof -
  note frame = loop_step_frame [OF assms(2)]
  have rt: "runtime_wf (en_prims env) path_wf (\<lambda>_. True) (lp_runtime s')"
    "rt_transport_tasks (lp_runtime s') = rt_transport_tasks (lp_runtime s)"
    using loop_step_runtime [OF assms(2)] assms(1) consistent.runtime_step_keeps
    by (auto simp: loops_inv_def same_config_def)
  then have owned: "owned s' = owned s" using frame(1) by (simp add: owned_def cong: caller_pc.case_cong)
  have "t' \<in> set (owned s)" if "lp_pc s' t' \<noteq> NotSpawned" for t'
    using that frame(3,4) assms(1) by (cases "t' = t") (auto simp: loops_inv_def handles_inv_def pc_live_def)
  then have "handles_inv s'"
    using assms(1) unfolding loops_inv_def handles_inv_def owned rt(2) frame(1) by blast
  with rt lock_inv_loop [OF _ assms(2)] assms(1) show ?thesis by (simp add: loops_inv_def)
qed

lemma caller_step_handles:
  assumes "loops_inv (en_prims env) s" and "caller_step env s = Some s'"
  shows "handles_inv s' \<and> runtime_wf (en_prims env) path_wf (\<lambda>_. True) (lp_runtime s')"
proof (cases "lp_caller s")
  case (OpHolds op)
  have "s' = goto_caller Returned (release (caller_section env op (lp_runtime s)) s)"
    using assms(2) OpHolds by (simp add: caller_step_def)
  with assms(1) OpHolds caller_section_keeps [of env "lp_runtime s" op] show ?thesis
    by (auto simp: loops_inv_def handles_inv_def owned_def loop_state_defs)
next
  case StartRelay
  then show ?thesis using caller_step_not_start_relay [OF _ assms(2)] assms(1) by (simp add: loops_inv_def)
qed (use assms in \<open>auto simp: caller_step_def loops_inv_def handles_inv_def owned_def loop_state_defs
   Let_def runtime_wf_def sessions_wf_def indexes_wf_def path_states_wf_def known_peer_def split: if_splits option.splits\<close>)

lemma loops_step_inv:
  assumes "loops_inv P s" and "loops_step P s s'"
  shows "loops_inv P s'"
  using assms(2)
proof (cases rule: loops_step.cases)
  case (loop env w t)
  then show ?thesis using loop_step_inv assms(1) by blast
next
  case (caller env)
  then show ?thesis using caller_step_handles [of env s s'] caller_step_lock [of env s s'] assms(1) by (simp add: loops_inv_def)
next
  case (call pc)
  have "\<not> caller_holds pc" "pc \<noteq> StopStore handles" "pc \<noteq> Joining handles" for handles
    using call(3) by (auto simp: call_pcs_def caller_holds_def)
  moreover have "owned s' = owned s" using call by (auto simp: call_pcs_def owned_def goto_caller_def)
  moreover have "holds s' h = holds s h" for h
    using call calculation(1) by (cases h) (auto simp: holds_def goto_caller_def caller_holds_def)
  ultimately show ?thesis using call assms(1) by (simp add: loops_inv_def lock_inv_def handles_inv_def goto_caller_def)
qed

interpretation packet_loops: transition_system "loops_ready P" "loops_step P" "loops_inv P"
proof unfold_locales
  fix s assume ready: "loops_ready P s"
  then have "\<not> holds s h" for h by (cases h) (simp_all add: holds_def loops_ready_def caller_holds_def)
  with ready show "loops_inv P s" by (simp add: loops_inv_def lock_inv_def handles_inv_def loops_ready_def)
qed (rule loops_step_inv)

text \<open>Between two operations the backend is as it began: no thread, and the lock is free.\<close>

lemma loops_inv_returned:
  assumes "loops_inv P s" and "lp_caller s = Returned"
  shows "loops_ready P s"
proof -
  have pcs: "lp_pc s t = NotSpawned" for t using assms by (auto simp: loops_inv_def handles_inv_def owned_def)
  then have "\<not> holds s h" for h using assms(2) by (cases h) (simp_all add: holds_def caller_holds_def)
  then have "lp_owner s \<noteq> Some h" for h using assms(1) by (simp add: loops_inv_def lock_inv_def)
  then have "lp_owner s = None" by (cases "lp_owner s") auto
  with assms pcs show ?thesis by (simp add: loops_ready_def loops_inv_def handles_inv_def)
qed

section \<open>Calls that return\<close>

text \<open>A step while a call is on its way.\<close>

definition call_step :: "crypto_prims \<Rightarrow> loops \<Rightarrow> loops \<Rightarrow> bool" where
  "call_step P s s' \<longleftrightarrow> lp_caller s \<noteq> Returned \<and> loops_step P s s'"

definition starts_loops :: "caller_pc \<Rightarrow> runtime_state \<Rightarrow> bool" where
  "starts_loops pc rt \<longleftrightarrow> pc = StartWants \<and> rt_tun_device rt \<noteq> None \<and> rt_transport rt \<noteq> None"

text \<open>With no thread there is nothing but the caller, which takes the lock and then does its work.\<close>

lemma idle_call_step:
  assumes "\<And>t. lp_pc s t = NotSpawned" and "call_step P s s'"
  obtains env where "caller_step env s = Some s'" and "en_prims env = P"
proof -
  have "loop_step env w t s = None" for env w t using assms(1) [of t] by (simp add: loop_step_def)
  with assms(2) that show thesis unfolding call_step_def by (auto elim!: loops_stepE)
qed

lemma caller_steps_call: "lp_caller s \<noteq> Returned \<Longrightarrow> caller_step env s = Some s' \<Longrightarrow> en_prims env = P \<Longrightarrow> call_step P s s'"
  unfolding call_step_def by (blast intro: loops_step.caller)

definition call_holds :: "caller_pc \<Rightarrow> caller_pc" where
  "call_holds pc = (case pc of OpWants op \<Rightarrow> OpHolds op | StartWants \<Rightarrow> StartHolds | StopWants \<Rightarrow> StopHolds | _ \<Rightarrow> pc)"

lemma call_takes_lock:
  assumes "loops_ready P s" and "pc \<in> call_pcs"
  shows "caller_step env (goto_caller pc s) = Some (goto_caller (call_holds pc) (s\<lparr>lp_owner := Some CallerThread\<rparr>))"
  using assms by (auto simp: call_pcs_def loops_ready_def caller_step_def loop_state_defs call_holds_def)

lemma call_finishes:
  assumes "loops_ready P s" and "pc \<in> call_pcs" and "\<not> starts_loops pc (lp_runtime s)"
  shows "\<exists>s'. caller_step env (goto_caller (call_holds pc) (s\<lparr>lp_owner := Some CallerThread\<rparr>)) = Some s' \<and> lp_caller s' = Returned"
  using assms by (auto simp: call_pcs_def loops_ready_def caller_step_def loop_state_defs call_holds_def starts_loops_def Let_def)


section \<open>Starting\<close>

text \<open>
  What is left of the node once \<open>start_transport_tasks\<close> holds the lock and goes on to spawn the loops.
\<close>

definition frozen :: "runtime_state \<Rightarrow> loops \<Rightarrow> bool" where
  "frozen rt s \<longleftrightarrow> lock_inv s \<and> lp_runtime s = rt \<and>
     (lp_caller s = StartWants \<and> (\<forall>t. lp_pc s t = NotSpawned) \<or>
      lp_caller s = StartHolds \<and> (\<forall>t. lp_pc s t = NotSpawned) \<or>
      lp_caller s \<in> {StartSpawnSecond, StartRelay} \<and> \<not> lp_stop s \<and> lp_pc s RelayToTun = NotSpawned \<and>
        lp_pc s TunToUdp \<in> {TestStop, WantFirst FromTun} \<and> lp_pc s UdpToTun \<in> {NotSpawned, TestStop, WantFirst FromSocket})"

lemma frozen_loop:
  assumes "frozen rt s" and "loop_step env w t s = Some s'"
  shows "frozen rt s'"
proof -
  have "pc_live (lp_pc s t)" using loop_step_frame(4) [OF assms(2)] .
  with assms(1) have s: "lp_caller s \<in> {StartSpawnSecond, StartRelay}" "\<not> lp_stop s" "t \<noteq> RelayToTun"
    "lp_pc s t \<in> {TestStop, WantFirst FromTun, WantFirst FromSocket}"
    by (cases t; auto simp: frozen_def pc_live_def)+
  then have "lp_owner s = Some CallerThread"
    using assms(1) by (auto simp: frozen_def lock_inv_def holds_def caller_holds_def)
  with assms(2) s have "lp_pc s t = TestStop" "s' = goto_pc t (loop_start_pc t) s"
    by (auto simp: loop_step_def acquire_def)
  with assms s lock_inv_loop [OF _ assms(2)] show ?thesis
    by (cases t) (auto simp: frozen_def goto_pc_def loop_start_pc_def)
qed

lemma frozen_caller:
  assumes "frozen rt s" and "caller_step env s = Some s'"
    and "rt_transport_tasks rt = None" "rt_tun_device rt \<noteq> None" "rt_transport rt \<noteq> None"
  shows "frozen rt s'"
proof -
  have lock: "lock_inv s" using assms(1) by (simp add: frozen_def)
  have "lock_inv s'"
  proof (rule lock_inv_move [OF lock, where h = CallerThread])
    show "lock_move CallerThread (holds s CallerThread) (holds s' CallerThread) (lp_owner s) (lp_owner s')"
      using assms caller_step_not_start_relay [OF lock assms(2)]
      by (auto simp: frozen_def caller_step_def lock_move_def holds_def caller_holds_def loop_state_defs split: if_splits)
    fix h' assume "h' \<noteq> CallerThread"
    then show "holds s' h' = holds s h'"
      using assms caller_step_not_start_relay [OF lock assms(2)]
      by (cases h') (auto simp: frozen_def caller_step_def holds_def loop_state_defs split: if_splits)
  qed
  with assms caller_step_not_start_relay [OF lock assms(2)] show ?thesis
    by (auto simp: frozen_def caller_step_def loop_state_defs split: if_splits)
qed

text \<open>
  C26. Starting the loops stops the node: when \<open>start_transport_tasks\<close> is called on a backend with a TUN
  device and a bound socket, then in every interleaving of the caller with the threads it spawns
  the call never returns, no loop ever gets past its first lock, and not one access to the
  runtime state happens again: no packet is read, sent, received or delivered.
\<close>

theorem start_transport_tasks_freezes:
  assumes "loops_ready P s0" and "rt_transport_tasks (lp_runtime s0) = None"
    and "rt_tun_device (lp_runtime s0) \<noteq> None" and "rt_transport (lp_runtime s0) \<noteq> None"
    and "(loops_step P)\<^sup>*\<^sup>* (goto_caller StartWants s0) s"
  shows "lp_runtime s = lp_runtime s0 \<and> lp_caller s \<noteq> Returned \<and>
    (\<forall>t. lp_pc s t \<in> {NotSpawned, TestStop, WantFirst FromTun, WantFirst FromSocket})"
proof -
  have "loops_step P s0 (goto_caller StartWants s0)"
    using assms(1) by (intro loops_step.call) (simp_all add: loops_ready_def call_pcs_def)
  then have "loops_inv P (goto_caller StartWants s0)"
    using packet_loops.reachable_inv [OF assms(1) r_into_rtranclp] by blast
  then have "frozen (lp_runtime s0) (goto_caller StartWants s0)"
    using assms(1) by (simp add: frozen_def loops_inv_def loops_ready_def goto_caller_def)
  with assms(5) have "frozen (lp_runtime s0) s"
  proof (induction rule: rtranclp_induct)
    case (step s s')
    from step(2) show ?case
    proof (cases rule: loops_step.cases)
      case (loop env w t)
      then show ?thesis using frozen_loop step by blast
    next
      case (caller env)
      then show ?thesis using frozen_caller step assms(2-4) by blast
    next
      case (call pc)
      with step show ?thesis by (auto simp: frozen_def)
    qed
  qed simp
  then have f: "frozen (lp_runtime s0) s" .
  then have "lp_pc s t \<in> {NotSpawned, TestStop, WantFirst FromTun, WantFirst FromSocket}" for t
    by (cases t) (auto simp: frozen_def)
  with f show ?thesis by (auto simp: frozen_def)
qed

section \<open>Every interleaving\<close>


section \<open>The sections as the sequential functions\<close>

lemma first_section_reads:
  "tun_to_udp_read rt = (case first_section env FromTun rt of (r, rt') \<Rightarrow>
     (case r of Inl _ \<Rightarrow> (None, rt_record_rx_drop rt') | Inr packet \<Rightarrow> (packet, rt')))"
  "udp_to_tun_receive (en_prims env) (en_clock env) rt = (case first_section env FromSocket rt of (r, rt') \<Rightarrow>
     (case r of Inl _ \<Rightarrow> (None, rt_record_rx_drop rt') | Inr packet \<Rightarrow> (packet, rt')))"
  "from_json line = Some message \<Longrightarrow> relay_to_tun_receive (en_prims env) (en_clock env) from_json line rt =
     (case first_section env (FromRelay message) rt of (r, rt') \<Rightarrow>
       (case r of Inl _ \<Rightarrow> (None, rt_record_rx_drop rt') | Inr packet \<Rightarrow> (packet, rt')))"
  by (simp_all add: first_section_def tun_to_udp_read_def udp_to_tun_receive_def relay_to_tun_receive_def split: prod.split sum.split)

lemma second_section_writes:
  "tun_to_udp_send (en_prims env) (en_to_json env) (Some packet) rt = snd (second_section env TunToUdp packet rt)"
  "t \<noteq> TunToUdp \<Longrightarrow> to_tun_write (Some packet) rt = (case second_section env t packet rt of (ok, rt') \<Rightarrow>
     (if ok then rt' else rt_record_rx_drop rt'))"
  by (cases t; simp add: second_section_def tun_to_udp_send_def to_tun_write_def split: prod.split sum.split)+

lemma caller_sections:
  "apply_relay_map env relay_list = with_lock (\<lambda>rt. (Inr (), caller_section env (ApplyRelayMap relay_list) rt))"
  "replace_state env st = prog_bind (save_state env st) (\<lambda>_. with_lock (\<lambda>rt. (Inr (), caller_section env (ReplaceState st) rt)))"
  "set_tun_status status = with_lock (\<lambda>rt. (Inr (), caller_section env (SetTunStatus status) rt))"
  "set_tun_device device =
     prog_bind (with_lock (\<lambda>rt. (Inr (), caller_section env (SetTunDevice (Some device)) rt))) (\<lambda>_. start_transport_tasks)"
  by (simp_all add: caller_section_def apply_relay_map_def replace_state_def set_tun_status_def set_tun_device_def)

section \<open>A concrete node\<close>

definition demo_tun :: tun_device where
  "demo_tun = tun_device_of ''tfscale0'' []
     \<lparr>rd_name = Inr ''tfscale0'', rd_nonblocking = Inr (),
      rd_read = (\<lambda>n. if n = 0 then TunPacket (demo_packet 2) else TunWouldBlock), rd_would_block = ''would block'',
      rd_write = (\<lambda>_. Inr 20)\<rparr>"

definition demo_loops :: loops where
  "demo_loops =
     \<lparr>lp_runtime = (demo_node 1 2)\<lparr>rt_tun_device := Some demo_tun\<rparr>,
      lp_owner = None, lp_stop = False, lp_pc = (\<lambda>_. NotSpawned), lp_caller = Returned\<rparr>"

lemma demo_loops_ready: "loops_ready demo_prims demo_loops"
proof -
  have "runtime_started demo_prims demo_rnd (demo_persisted 1 [2]) (lp_runtime demo_loops)"
    by (simp add: runtime_started_def demo_loops_def demo_node_def from_persisted_def Let_def)
  then have "runtime_wf demo_prims path_wf (\<lambda>_. True) (lp_runtime demo_loops)"
    using runtime_started_wf [of _ _ _ _ path_wf "\<lambda>_. True"] path_wf_default by blast
  moreover have "rt_transport_tasks (demo_node 1 2) = None" by (simp add: demo_node_def from_persisted_def Let_def)
  ultimately show ?thesis by (simp add: loops_ready_def) (simp add: demo_loops_def)
qed

abbreviation demo_caller_step :: "loops \<Rightarrow> loops" where
  "demo_caller_step s \<equiv> the (caller_step (demo_env (demo_persisted 1 [2])) s)"

lemma demo_step: "caller_step (demo_env (demo_persisted 1 [2])) s \<noteq> None \<Longrightarrow> loops_step demo_prims s (demo_caller_step s)"
  by (auto intro!: loops_step.caller simp: demo_env_def)

text \<open>The node with a TUN device and a socket starts its loops.\<close>

definition demo_starting :: loops where
  "demo_starting = demo_caller_step (demo_caller_step (demo_caller_step (goto_caller StartWants demo_loops)))"

lemma demo_starting:
  "(loops_step demo_prims)\<^sup>*\<^sup>* (goto_caller StartWants demo_loops) demo_starting" "lp_caller demo_starting = StartRelay"
  "\<forall>t \<in> {TunToUdp, UdpToTun}. lp_pc demo_starting t = TestStop"
proof -
  let ?s = "goto_caller StartWants demo_loops"
  have run: "caller_step (demo_env (demo_persisted 1 [2])) ?s \<noteq> None"
    "caller_step (demo_env (demo_persisted 1 [2])) (demo_caller_step ?s) \<noteq> None"
    "caller_step (demo_env (demo_persisted 1 [2])) (demo_caller_step (demo_caller_step ?s)) \<noteq> None"
    by (simp_all add: caller_step_def loop_state_defs demo_loops_def demo_node_fields demo_node_def from_persisted_def Let_def)
  show "(loops_step demo_prims)\<^sup>*\<^sup>* ?s demo_starting"
    unfolding demo_starting_def using run [THEN demo_step] by (blast intro: rtranclp.rtrancl_into_rtrancl)
qed (simp_all add: demo_starting_def caller_step_def loop_state_defs demo_loops_def demo_node_fields demo_node_def from_persisted_def Let_def)

theorem start_transport_tasks_freezes_witness:
  "\<exists>s. (loops_step demo_prims)\<^sup>*\<^sup>* (goto_caller StartWants demo_loops) s \<and> lp_caller s = StartRelay \<and>
     lp_pc s TunToUdp = TestStop \<and> lp_pc s UdpToTun = TestStop \<and> lp_runtime s = lp_runtime demo_loops"
proof -
  have node: "rt_transport_tasks (lp_runtime demo_loops) = None" "rt_tun_device (lp_runtime demo_loops) \<noteq> None"
    "rt_transport (lp_runtime demo_loops) \<noteq> None"
    using demo_loops_ready by (simp_all add: loops_ready_def demo_loops_def demo_node_fields)
  from start_transport_tasks_freezes [OF demo_loops_ready node demo_starting(1)] demo_starting show ?thesis by blast
qed



end
