(* ===== verification/Platform_Tun.thy ===== *)
theory Platform_Tun
  imports Tun_Device
begin

text \<open>
  The layers between \<open>TunDevice\<close> and the raw device: \<open>PlatformTunDevice\<close> of \<open>tfscale-custom/src/tun.rs\<close>, the
  devices of \<open>platform/linux.rs\<close> and \<open>platform/macos.rs\<close>, and \<open>platform/mod.rs\<close>. What the source selects with
  \<open>cfg(target_os = ..)\<close> is selected here by the target of the build. A platform's code is also
  compiled, without its raw device, for the tests on another target; there its operations are errors.
\<close>

text \<open>\<open>std::env::consts::OS\<close>\<close>

definition consts_OS :: "target_os \<Rightarrow> string" where
  "consts_OS target = (case target of Linux \<Rightarrow> ''linux'' | Macos \<Rightarrow> ''macos'' | OtherOs name \<Rightarrow> name)"

section \<open>The Linux device\<close>

definition linux_status :: "tun_device \<Rightarrow> tun_status" where
  "linux_status device = tun_status_configured (td_interface_name device)"

definition linux_read_packet :: "target_os \<Rightarrow> nat \<Rightarrow> tun_device \<Rightarrow> bytes backend_result \<times> tun_device" where
  "linux_read_packet target buffer_len device =
     (if target = Linux then
        (case rd_read (td_device device) (td_reads device) of
           TunPacket p \<Rightarrow> (Inr (take buffer_len p), device\<lparr>td_reads := Suc (td_reads device)\<rparr>)
         | TunWouldBlock \<Rightarrow>
             (Inl (CommandFailed (rd_would_block (td_device device))), device\<lparr>td_reads := Suc (td_reads device)\<rparr>)
         | TunReadFailed e \<Rightarrow> (Inl (CommandFailed e), device\<lparr>td_reads := Suc (td_reads device)\<rparr>))
      else (Inl (UnsupportedPlatform (''Linux TUN read cannot run on '' @ consts_OS target)), device))"

definition linux_try_read_packet :: "target_os \<Rightarrow> nat \<Rightarrow> tun_device \<Rightarrow> bytes option backend_result \<times> tun_device" where
  "linux_try_read_packet target buffer_len device =
     (if target = Linux then
        (case rd_read (td_device device) (td_reads device) of
           TunPacket p \<Rightarrow> (Inr (Some (take buffer_len p)), device\<lparr>td_reads := Suc (td_reads device)\<rparr>)
         | TunWouldBlock \<Rightarrow> (Inr None, device\<lparr>td_reads := Suc (td_reads device)\<rparr>)
         | TunReadFailed e \<Rightarrow> (Inl (CommandFailed e), device\<lparr>td_reads := Suc (td_reads device)\<rparr>))
      else (Inl (UnsupportedPlatform (''Linux TUN read cannot run on '' @ consts_OS target)), device))"

definition linux_write_packet :: "target_os \<Rightarrow> bytes \<Rightarrow> tun_device \<Rightarrow> nat backend_result \<times> tun_device" where
  "linux_write_packet target packet device =
     (if target = Linux then
        (case rd_write (td_device device) (td_writes device) of
           Inr n \<Rightarrow> (Inr n, device\<lparr>td_writes := Suc (td_writes device), td_written := td_written device @ [packet]\<rparr>)
         | Inl e \<Rightarrow> (Inl (CommandFailed e), device\<lparr>td_writes := Suc (td_writes device)\<rparr>))
      else (Inl (UnsupportedPlatform (''Linux TUN write cannot run on '' @ consts_OS target)), device))"

definition linux_shutdown :: "tun_device \<Rightarrow> os_env \<Rightarrow> unit backend_result \<times> os_env" where
  "linux_shutdown device os = (Inr (), run_all_commands (td_cleanup_commands device) os)"

section \<open>The macOS device\<close>

definition macos_status :: "tun_device \<Rightarrow> tun_status" where
  "macos_status device = tun_status_configured (td_interface_name device)"

definition macos_read_packet :: "target_os \<Rightarrow> nat \<Rightarrow> tun_device \<Rightarrow> bytes backend_result \<times> tun_device" where
  "macos_read_packet target buffer_len device =
     (if target = Macos then
        (case rd_read (td_device device) (td_reads device) of
           TunPacket p \<Rightarrow> (Inr (take buffer_len p), device\<lparr>td_reads := Suc (td_reads device)\<rparr>)
         | TunWouldBlock \<Rightarrow>
             (Inl (CommandFailed (rd_would_block (td_device device))), device\<lparr>td_reads := Suc (td_reads device)\<rparr>)
         | TunReadFailed e \<Rightarrow> (Inl (CommandFailed e), device\<lparr>td_reads := Suc (td_reads device)\<rparr>))
      else (Inl (UnsupportedPlatform (''macOS TUN read cannot run on '' @ consts_OS target)), device))"

definition macos_try_read_packet :: "target_os \<Rightarrow> nat \<Rightarrow> tun_device \<Rightarrow> bytes option backend_result \<times> tun_device" where
  "macos_try_read_packet target buffer_len device =
     (if target = Macos then
        (case rd_read (td_device device) (td_reads device) of
           TunPacket p \<Rightarrow> (Inr (Some (take buffer_len p)), device\<lparr>td_reads := Suc (td_reads device)\<rparr>)
         | TunWouldBlock \<Rightarrow> (Inr None, device\<lparr>td_reads := Suc (td_reads device)\<rparr>)
         | TunReadFailed e \<Rightarrow> (Inl (CommandFailed e), device\<lparr>td_reads := Suc (td_reads device)\<rparr>))
      else (Inl (UnsupportedPlatform (''macOS TUN read cannot run on '' @ consts_OS target)), device))"

definition macos_write_packet :: "target_os \<Rightarrow> bytes \<Rightarrow> tun_device \<Rightarrow> nat backend_result \<times> tun_device" where
  "macos_write_packet target packet device =
     (if target = Macos then
        (case rd_write (td_device device) (td_writes device) of
           Inr n \<Rightarrow> (Inr n, device\<lparr>td_writes := Suc (td_writes device), td_written := td_written device @ [packet]\<rparr>)
         | Inl e \<Rightarrow> (Inl (CommandFailed e), device\<lparr>td_writes := Suc (td_writes device)\<rparr>))
      else (Inl (UnsupportedPlatform (''macOS TUN write cannot run on '' @ consts_OS target)), device))"

definition macos_shutdown :: "tun_device \<Rightarrow> os_env \<Rightarrow> unit backend_result \<times> os_env" where
  "macos_shutdown device os = (Inr (), run_all_commands (td_cleanup_commands device) os)"

section \<open>The device of the target\<close>

text \<open>On other targets the struct has no field, and nothing creates one.\<close>

datatype platform_tun_device = LinuxInner tun_device | MacosInner tun_device | NoInner

definition platform_status :: "target_os \<Rightarrow> platform_tun_device \<Rightarrow> tun_status" where
  "platform_status target device =
     (case device of
        LinuxInner inner \<Rightarrow> linux_status inner
      | MacosInner inner \<Rightarrow> macos_status inner
      | NoInner \<Rightarrow> tun_status_failed ''unsupported'' (backend_error_to_string (unsupported_platform_error (consts_OS target))))"

definition platform_read_packet :: "target_os \<Rightarrow> nat \<Rightarrow> platform_tun_device \<Rightarrow> bytes backend_result \<times> platform_tun_device" where
  "platform_read_packet target buffer_len device =
     (case device of
        LinuxInner inner \<Rightarrow> apsnd LinuxInner (linux_read_packet target buffer_len inner)
      | MacosInner inner \<Rightarrow> apsnd MacosInner (macos_read_packet target buffer_len inner)
      | NoInner \<Rightarrow> (Inl (unsupported_platform_error (consts_OS target)), NoInner))"

definition platform_try_read_packet ::
  "target_os \<Rightarrow> nat \<Rightarrow> platform_tun_device \<Rightarrow> bytes option backend_result \<times> platform_tun_device" where
  "platform_try_read_packet target buffer_len device =
     (case device of
        LinuxInner inner \<Rightarrow> apsnd LinuxInner (linux_try_read_packet target buffer_len inner)
      | MacosInner inner \<Rightarrow> apsnd MacosInner (macos_try_read_packet target buffer_len inner)
      | NoInner \<Rightarrow> (Inl (unsupported_platform_error (consts_OS target)), NoInner))"

definition platform_write_packet :: "target_os \<Rightarrow> bytes \<Rightarrow> platform_tun_device \<Rightarrow> nat backend_result \<times> platform_tun_device" where
  "platform_write_packet target packet device =
     (case device of
        LinuxInner inner \<Rightarrow> apsnd LinuxInner (linux_write_packet target packet inner)
      | MacosInner inner \<Rightarrow> apsnd MacosInner (macos_write_packet target packet inner)
      | NoInner \<Rightarrow> (Inl (unsupported_platform_error (consts_OS target)), NoInner))"

definition platform_shutdown :: "target_os \<Rightarrow> platform_tun_device \<Rightarrow> os_env \<Rightarrow> unit backend_result \<times> os_env" where
  "platform_shutdown target device os =
     (case device of
        LinuxInner inner \<Rightarrow> linux_shutdown inner os
      | MacosInner inner \<Rightarrow> macos_shutdown inner os
      | NoInner \<Rightarrow> (Inl (unsupported_platform_error (consts_OS target)), os))"

text \<open>\<open>configure_tun\<close> of \<open>platform/mod.rs\<close>, one function per target.\<close>

definition platform_configure_tun :: "target_os \<Rightarrow> tun_config \<Rightarrow> os_env \<Rightarrow> platform_tun_device backend_result \<times> os_env" where
  "platform_configure_tun target config os =
     (case target of
        Linux \<Rightarrow> apfst (map_sum id LinuxInner) (linux_configure_tun config os)
      | Macos \<Rightarrow> apfst (map_sum id MacosInner) (macos_configure_tun config os)
      | OtherOs _ \<Rightarrow> (Inl (unsupported_platform_error (consts_OS target)), os))"

section \<open>The layers add nothing\<close>

lemma map_sum_eq_iff:
  "map_sum f g x = Inr y \<longleftrightarrow> (\<exists>z. x = Inr z \<and> y = g z)" "map_sum f g x = Inl u \<longleftrightarrow> (\<exists>v. x = Inl v \<and> u = f v)"
  by (cases x; auto)+

text \<open>The device that the rest of the model works with stands for the layers above.\<close>

definition represents :: "target_os \<Rightarrow> platform_tun_device \<Rightarrow> tun_device \<Rightarrow> bool" where
  "represents target device tun \<longleftrightarrow> target = Linux \<and> device = LinuxInner tun \<or> target = Macos \<and> device = MacosInner tun"

lemma platform_configure_represents:
  "platform_configure_tun target config os = (Inr device, os') \<longleftrightarrow>
     (\<exists>tun. tun_configure target config os = (Inr tun, os') \<and> represents target device tun)"
  by (cases target)
    (auto simp: platform_configure_tun_def tun_configure_def represents_def apfst_def map_prod_def map_sum_eq_iff split: prod.splits sum.splits)

lemma platform_configure_fails:
  "platform_configure_tun target config os = (Inl e, os') \<longleftrightarrow> tun_configure target config os = (Inl e, os')"
  by (cases target) (auto simp: platform_configure_tun_def tun_configure_def consts_OS_def apfst_def map_prod_def map_sum_eq_iff split: prod.splits sum.splits)

text \<open>
  The interface of a layer: an implementation of the device's operations, and which of its values
  stand for which device of the model. From its laws every sequence of operations gives the same
  results on both.
\<close>

datatype tun_op = ReadOp nat | TryReadOp nat | WriteOp bytes

datatype tun_result = ReadResult "bytes backend_result" | TryReadResult "bytes option backend_result" | WriteResult "nat backend_result"

fun tun_apply ::
  "(nat \<Rightarrow> 'd \<Rightarrow> bytes backend_result \<times> 'd) \<Rightarrow> (nat \<Rightarrow> 'd \<Rightarrow> bytes option backend_result \<times> 'd) \<Rightarrow>
     (bytes \<Rightarrow> 'd \<Rightarrow> nat backend_result \<times> 'd) \<Rightarrow> tun_op \<Rightarrow> 'd \<Rightarrow> tun_result \<times> 'd" where
  "tun_apply rd trd wr (ReadOp n) d = apfst ReadResult (rd n d)"
| "tun_apply rd trd wr (TryReadOp n) d = apfst TryReadResult (trd n d)"
| "tun_apply rd trd wr (WriteOp p) d = apfst WriteResult (wr p d)"

fun tun_run :: "(tun_op \<Rightarrow> 'd \<Rightarrow> tun_result \<times> 'd) \<Rightarrow> tun_op list \<Rightarrow> 'd \<Rightarrow> tun_result list" where
  "tun_run f [] d = []"
| "tun_run f (op # ops) d = (case f op d of (r, d') \<Rightarrow> r # tun_run f ops d')"

abbreviation model_apply :: "tun_op \<Rightarrow> tun_device \<Rightarrow> tun_result \<times> tun_device" where
  "model_apply \<equiv> tun_apply tun_read_packet tun_try_read_packet tun_write_packet"

lemma rel_prod_apfst: "rel_prod (=) R p q \<Longrightarrow> rel_prod (=) R (apfst f p) (apfst f q)"
  by (cases p; cases q) simp

lemma rel_prod_apsnd: "(\<And>x. R (f x) x) \<Longrightarrow> rel_prod (=) R (apsnd f p) p"
  by (cases p) simp

locale tun_layer =
  fixes rep :: "'d \<Rightarrow> tun_device \<Rightarrow> bool"
    and status_op :: "'d \<Rightarrow> tun_status"
    and read_op :: "nat \<Rightarrow> 'd \<Rightarrow> bytes backend_result \<times> 'd"
    and try_read_op :: "nat \<Rightarrow> 'd \<Rightarrow> bytes option backend_result \<times> 'd"
    and write_op :: "bytes \<Rightarrow> 'd \<Rightarrow> nat backend_result \<times> 'd"
    and shutdown_op :: "'d \<Rightarrow> os_env \<Rightarrow> unit backend_result \<times> os_env"
  assumes status_rep: "rep d tun \<Longrightarrow> status_op d = tun_status_of tun"
    and read_rep: "rep d tun \<Longrightarrow> rel_prod (=) rep (read_op n d) (tun_read_packet n tun)"
    and try_read_rep: "rep d tun \<Longrightarrow> rel_prod (=) rep (try_read_op n d) (tun_try_read_packet n tun)"
    and write_rep: "rep d tun \<Longrightarrow> rel_prod (=) rep (write_op p d) (tun_write_packet p tun)"
    and shutdown_rep: "rep d tun \<Longrightarrow> shutdown_op d os = tun_shutdown tun os"
begin

lemma apply_rep: "rep d tun \<Longrightarrow> rel_prod (=) rep (tun_apply read_op try_read_op write_op op d) (model_apply op tun)"
  by (cases op) (auto intro: rel_prod_apfst read_rep try_read_rep write_rep)

lemma run_rep: "rep d tun \<Longrightarrow> tun_run (tun_apply read_op try_read_op write_op) ops d = tun_run model_apply ops tun"
proof (induction ops arbitrary: d tun)
  case (Cons op ops)
  with apply_rep [OF Cons.prems, of op] show ?case by (auto simp: rel_prod_conv split: prod.splits)
qed simp

end

interpretation linux: tun_layer "(=)" linux_status "linux_read_packet Linux" "linux_try_read_packet Linux" "linux_write_packet Linux"
  linux_shutdown
  by unfold_locales (simp_all add: prod.rel_eq linux_status_def tun_status_of_def linux_read_packet_def tun_read_packet_def
      linux_try_read_packet_def tun_try_read_packet_def linux_write_packet_def tun_write_packet_def linux_shutdown_def tun_shutdown_def)

interpretation macos: tun_layer "(=)" macos_status "macos_read_packet Macos" "macos_try_read_packet Macos" "macos_write_packet Macos"
  macos_shutdown
  by unfold_locales (simp_all add: prod.rel_eq macos_status_def tun_status_of_def macos_read_packet_def tun_read_packet_def
      macos_try_read_packet_def tun_try_read_packet_def macos_write_packet_def tun_write_packet_def macos_shutdown_def tun_shutdown_def)

lemma rel_prod_eqD: "rel_prod (=) (=) x y \<Longrightarrow> x = y"
  by (simp add: prod.rel_eq)

lemmas linux_layer = rel_prod_eqD [OF linux.read_rep [OF refl]] rel_prod_eqD [OF linux.try_read_rep [OF refl]]
  rel_prod_eqD [OF linux.write_rep [OF refl]] linux.status_rep [OF refl] linux.shutdown_rep [OF refl]

lemmas macos_layer = rel_prod_eqD [OF macos.read_rep [OF refl]] rel_prod_eqD [OF macos.try_read_rep [OF refl]]
  rel_prod_eqD [OF macos.write_rep [OF refl]] macos.status_rep [OF refl] macos.shutdown_rep [OF refl]

interpretation platform: tun_layer "represents target" "platform_status target" "platform_read_packet target"
  "platform_try_read_packet target" "platform_write_packet target" "platform_shutdown target"
  by unfold_locales
    (auto simp: represents_def platform_status_def platform_read_packet_def platform_try_read_packet_def platform_write_packet_def
      platform_shutdown_def linux_layer macos_layer intro!: rel_prod_apsnd)

text \<open>
  The device the backend uses is the one the operating system gave: whatever the target, when
  \<open>configure_tun\<close> of the platform succeeds, every sequence of reads and writes through the layers
  gives what the raw device gives, and no operation reports an unsupported platform.
\<close>

lemma platform_device_in_step:
  assumes "platform_configure_tun target config os = (Inr device, os')"
  obtains tun where "tun_configure target config os = (Inr tun, os')"
    and "platform_status target device = tun_status_of tun"
    and "\<And>ops. tun_run (tun_apply (platform_read_packet target) (platform_try_read_packet target) (platform_write_packet target)) ops device =
      tun_run model_apply ops tun"
    and "\<And>os. platform_shutdown target device os = tun_shutdown tun os"
proof -
  obtain tun where "tun_configure target config os = (Inr tun, os')" "represents target device tun"
    using assms platform_configure_represents by blast
  with that platform.status_rep platform.run_rep platform.shutdown_rep show thesis by blast
qed

end
