(* ===== verification/Control_DB.thy ===== *)
theory Control_DB
  imports Core_Protocol "HOL-Library.List_Lexorder" "HOL-Library.Char_ord" "HOL-Library.Product_Lexorder"
begin

text \<open>
  The database of \<open>tfscale-control/src/main.rs\<close> and the queries the handlers send to it. A table is
  the list of its rows in insertion order, with the columns of \<open>migrations/*.sql\<close>; a primary key
  or unique index of the schema is a check of the insert, which fails with the error of SQLite;
  \<open>fetch_optional\<close> takes the first matching row; \<open>ORDER BY\<close> sorts by bytes, equal keys in insertion
  order. Time stamps are the texts SQLite writes, compared as texts. What a request finds in the
  world (the time, new UUIDs, SHA-256, \<open>unixepoch\<close>) is the record \<open>control_env\<close>.
\<close>

section \<open>Errors\<close>

datatype status_code = BAD_REQUEST | UNAUTHORIZED | NOT_FOUND | CONFLICT | INTERNAL_SERVER_ERROR

record api_error =
  ae_status :: status_code
  ae_message :: string

definition bad_request :: "string \<Rightarrow> api_error" where
  "bad_request message = \<lparr>ae_status = BAD_REQUEST, ae_message = message\<rparr>"
definition unauthorized :: "string \<Rightarrow> api_error" where
  "unauthorized message = \<lparr>ae_status = UNAUTHORIZED, ae_message = message\<rparr>"
definition not_found :: "string \<Rightarrow> api_error" where
  "not_found message = \<lparr>ae_status = NOT_FOUND, ae_message = message\<rparr>"
definition conflict :: "string \<Rightarrow> api_error" where
  "conflict message = \<lparr>ae_status = CONFLICT, ae_message = message\<rparr>"
definition internal :: "string \<Rightarrow> api_error" where
  "internal message = \<lparr>ae_status = INTERNAL_SERVER_ERROR, ae_message = message\<rparr>"

text \<open>\<open>From<sqlx::Error>\<close>: an error of the database is an internal error.\<close>

definition unique_failed :: "string \<Rightarrow> api_error" where
  "unique_failed column = internal (''UNIQUE constraint failed: '' @ column)"

type_synonym 'a api_result = "api_error + 'a"

section \<open>Tables\<close>

record auth_key_row =
  ar_id :: string
  ar_key_hash :: string
  ar_expires_at :: "string option"
  ar_used_at :: "string option"
  ar_reusable :: int
  ar_created_at :: string
  ar_revoked_at :: "string option"

record device_row =
  dv_id :: string
  dv_network_id :: string
  dv_hostname :: string
  dv_machine_key :: string
  dv_node_key :: string
  dv_backend_type :: string
  dv_backend_public_credential :: string
  dv_ipv4 :: string
  dv_os :: string
  dv_arch :: string
  dv_client_version :: string
  dv_last_seen_at :: "string option"
  dv_created_at :: string
  dv_updated_at :: string
  dv_deleted_at :: "string option"

record ip_row =
  ia_id :: string
  ia_network_id :: string
  ia_device_id :: string
  ia_ip :: string
  ia_state :: string

record endpoint_row =
  er_id :: string
  er_device_id :: string
  er_kind :: string
  er_address :: string
  er_port :: int
  er_protocol :: string
  er_source :: string
  er_priority :: "int option"
  er_expires_at :: "string option"
  er_last_seen_at :: string

record dns_row =
  dn_id :: string
  dn_network_id :: string
  dn_device_id :: string
  dn_name :: string
  dn_type :: string
  dn_value :: string
  dn_updated_at :: string

record database =
  db_auth_keys :: "auth_key_row list"
  db_devices :: "device_row list"
  db_ips :: "ip_row list"
  db_endpoints :: "endpoint_row list"
  db_dns :: "dns_row list"

record control_env =
  ce_now :: string
  ce_now_plus_60 :: string
  ce_unixepoch :: "string \<Rightarrow> int option"
  ce_sha256_hex :: "string \<Rightarrow> string"
  ce_uuid :: "nat \<Rightarrow> string"

definition database_empty :: database where
  "database_empty = \<lparr>db_auth_keys = [], db_devices = [], db_ips = [], db_endpoints = [], db_dns = []\<rparr>"

abbreviation live :: "device_row \<Rightarrow> bool" where
  "live d \<equiv> dv_deleted_at d = None"

definition update_where :: "('a \<Rightarrow> bool) \<Rightarrow> ('a \<Rightarrow> 'a) \<Rightarrow> 'a list \<Rightarrow> 'a list" where
  "update_where p f rows = map (\<lambda>r. if p r then f r else r) rows"

lemma find_SomeD: "find p xs = Some x \<Longrightarrow> x \<in> set xs \<and> p x"
  by (auto simp: find_Some_iff)

section \<open>Statements that write\<close>

definition hash_secret :: "control_env \<Rightarrow> string \<Rightarrow> string" where
  "hash_secret env secret = ce_sha256_hex env secret"

definition insert_auth_key :: "control_env \<Rightarrow> string \<Rightarrow> string \<Rightarrow> database \<Rightarrow> database api_result" where
  "insert_auth_key env key_id key_hash db =
     (if key_id \<in> ar_id ` set (db_auth_keys db) then Inl (unique_failed ''auth_keys.id'')
      else if key_hash \<in> ar_key_hash ` set (db_auth_keys db) then Inl (unique_failed ''auth_keys.key_hash'')
      else Inr (db\<lparr>db_auth_keys := db_auth_keys db @
             [\<lparr>ar_id = key_id, ar_key_hash = key_hash, ar_expires_at = None, ar_used_at = None, ar_reusable = 0,
               ar_created_at = ce_now env, ar_revoked_at = None\<rparr>]\<rparr>))"

definition insert_device :: "device_row \<Rightarrow> database \<Rightarrow> database api_result" where
  "insert_device d db =
     (if dv_id d \<in> dv_id ` set (db_devices db) then Inl (unique_failed ''devices.id'')
      else if dv_machine_key d \<in> dv_machine_key ` set (db_devices db) then Inl (unique_failed ''devices.machine_key'')
      else if dv_ipv4 d \<in> dv_ipv4 ` set (db_devices db) then Inl (unique_failed ''devices.ipv4'')
      else Inr (db\<lparr>db_devices := db_devices db @ [d]\<rparr>))"

definition insert_ip :: "ip_row \<Rightarrow> database \<Rightarrow> database api_result" where
  "insert_ip a db =
     (if ia_id a \<in> ia_id ` set (db_ips db) then Inl (unique_failed ''ip_allocations.id'')
      else if ia_ip a \<in> ia_ip ` set (db_ips db) then Inl (unique_failed ''ip_allocations.ip'')
      else Inr (db\<lparr>db_ips := db_ips db @ [a]\<rparr>))"

text \<open>
  \<open>INSERT .. ON CONFLICT(device_id, type) DO UPDATE\<close>: the other unique index, on network, lower-case
  name and type, is checked for the inserted and for the updated row.
\<close>

definition dns_name_clash :: "dns_row \<Rightarrow> dns_row list \<Rightarrow> bool" where
  "dns_name_clash r rows \<longleftrightarrow>
     (\<exists>q \<in> set rows. dn_network_id q = dn_network_id r \<and>
        to_ascii_lowercase (dn_name q) = to_ascii_lowercase (dn_name r) \<and> dn_type q = dn_type r)"

definition upsert_dns :: "control_env \<Rightarrow> dns_row \<Rightarrow> database \<Rightarrow> database api_result" where
  "upsert_dns env r db =
     (let same = (\<lambda>q. dn_device_id q = dn_device_id r \<and> dn_type q = dn_type r) in
      if find same (db_dns db) \<noteq> None
      then if dns_name_clash r (filter (\<lambda>q. \<not> same q) (db_dns db))
           then Inl (unique_failed ''index idx_dns_records_network_name_type'')
           else Inr (db\<lparr>db_dns := update_where same
                  (\<lambda>q. q\<lparr>dn_name := dn_name r, dn_value := dn_value r, dn_updated_at := ce_now env\<rparr>) (db_dns db)\<rparr>)
      else if dn_id r \<in> dn_id ` set (db_dns db) then Inl (unique_failed ''dns_records.id'')
      else if dns_name_clash r (db_dns db)
           then Inl (unique_failed ''index idx_dns_records_network_name_type'')
      else Inr (db\<lparr>db_dns := db_dns db @ [r]\<rparr>))"

definition mark_key_used :: "control_env \<Rightarrow> string \<Rightarrow> database \<Rightarrow> database" where
  "mark_key_used env key_hash db =
     db\<lparr>db_auth_keys := update_where (\<lambda>k. ar_key_hash k = key_hash)
          (\<lambda>k. k\<lparr>ar_used_at := (case ar_used_at k of Some t \<Rightarrow> Some t | None \<Rightarrow> Some (ce_now env))\<rparr>)
          (db_auth_keys db)\<rparr>"

text \<open>\<open>INSERT .. ON CONFLICT(id) DO UPDATE\<close> of an endpoint.\<close>

definition upsert_endpoint :: "endpoint_row \<Rightarrow> database \<Rightarrow> database" where
  "upsert_endpoint r db =
     db\<lparr>db_endpoints :=
          (if er_id r \<in> er_id ` set (db_endpoints db)
           then update_where (\<lambda>q. er_id q = er_id r)
                  (\<lambda>q. r\<lparr>er_id := er_id q, er_device_id := er_device_id q\<rparr>) (db_endpoints db)
           else db_endpoints db @ [r])\<rparr>"

definition delete_expired_endpoints :: "control_env \<Rightarrow> string \<Rightarrow> database \<Rightarrow> database" where
  "delete_expired_endpoints env device_id db =
     db\<lparr>db_endpoints := filter (\<lambda>e. \<not> (er_device_id e = device_id \<and>
          (case er_expires_at e of Some t \<Rightarrow> t \<le> ce_now env | None \<Rightarrow> False))) (db_endpoints db)\<rparr>"

section \<open>Statements that read\<close>

definition summary_of :: "device_row \<Rightarrow> device_summary" where
  "summary_of d =
     \<lparr>ds_id = dv_id d, ds_hostname = dv_hostname d, ds_ipv4 = dv_ipv4 d, ds_os = dv_os d, ds_arch = dv_arch d,
      ds_backend_type = dv_backend_type d, ds_last_seen_at = dv_last_seen_at d\<rparr>"

definition load_device_summary :: "string \<Rightarrow> database \<Rightarrow> device_summary api_result" where
  "load_device_summary device_id db =
     (case find (\<lambda>d. dv_id d = device_id \<and> live d) (db_devices db) of
        None \<Rightarrow> Inl (not_found ''device not found'')
      | Some d \<Rightarrow> Inr (summary_of d))"

definition dns_record_of :: "dns_row \<Rightarrow> dns_record" where
  "dns_record_of r =
     \<lparr>dr_device_id = dn_device_id r, dr_name = dn_name r, dr_record_type = dn_type r, dr_value = dn_value r\<rparr>"

definition load_dns_records :: "database \<Rightarrow> dns_record list" where
  "load_dns_records db = map dns_record_of (sort_key (\<lambda>r. (dn_name r, dn_type r)) (db_dns db))"

definition endpoint_payload_of :: "endpoint_row \<Rightarrow> endpoint_payload" where
  "endpoint_payload_of e =
     \<lparr>epp_kind = er_kind e, epp_address = er_address e, epp_port = word_of_int (er_port e),
      epp_protocol = er_protocol e, epp_source = Some (er_source e),
      epp_priority = map_option word_of_int (er_priority e), epp_expires_at = er_expires_at e\<rparr>"

definition load_endpoints :: "control_env \<Rightarrow> string \<Rightarrow> database \<Rightarrow> endpoint_payload list" where
  "load_endpoints env device_id db =
     map endpoint_payload_of (sort_key (\<lambda>e. (er_kind e, er_address e))
       (filter (\<lambda>e. er_device_id e = device_id \<and>
          (case er_expires_at e of None \<Rightarrow> True | Some t \<Rightarrow> ce_now env < t)) (db_endpoints db)))"

definition epoch_sum :: "control_env \<Rightarrow> string list \<Rightarrow> int" where
  "epoch_sum env stamps = sum_list (List.map_filter (ce_unixepoch env) stamps)"

definition network_map_version :: "control_env \<Rightarrow> database \<Rightarrow> int" where
  "network_map_version env db =
     (let devices = filter live (db_devices db) in
      int (length devices) + epoch_sum env (map dv_updated_at devices) +
      int (length (db_endpoints db)) + epoch_sum env (map er_last_seen_at (db_endpoints db)) +
      int (length (db_dns db)) + epoch_sum env (map dn_updated_at (db_dns db)))"

definition allocate_ipv4 :: "database \<Rightarrow> string api_result" where
  "allocate_ipv4 db =
     (let host_octet = length (db_ips db) + 2 in
      if 254 < host_octet then Inl (internal ''default MVP address pool is exhausted'')
      else Inr (''100.64.0.'' @ nat_to_dec host_octet))"

definition validate_auth_key :: "control_env \<Rightarrow> string \<Rightarrow> database \<Rightarrow> unit api_result" where
  "validate_auth_key env auth_key db =
     (case find (\<lambda>k. ar_key_hash k = hash_secret env auth_key) (db_auth_keys db) of
        None \<Rightarrow> Inl (unauthorized ''invalid auth key'')
      | Some k \<Rightarrow>
          if ar_revoked_at k \<noteq> None then Inl (unauthorized ''auth key revoked'')
          else if ar_reusable k = 0 \<and> ar_used_at k \<noteq> None then Inl (unauthorized ''auth key already used'')
          else Inr ())"

definition find_existing_device :: "string \<Rightarrow> database \<Rightarrow> register_device_response option" where
  "find_existing_device machine_key db =
     map_option (\<lambda>d. \<lparr>rr_device_id = dv_id d, rr_node_key = dv_node_key d, rr_ipv4 = dv_ipv4 d,
                     rr_network_id = dv_network_id d, rr_poll_interval_seconds = 5\<rparr>)
       (find (\<lambda>d. dv_machine_key d = machine_key \<and> live d) (db_devices db))"

definition validate_device_node_key :: "string \<Rightarrow> string \<Rightarrow> database \<Rightarrow> unit api_result" where
  "validate_device_node_key device_id node_key db =
     (case find (\<lambda>d. dv_id d = device_id \<and> dv_node_key d = node_key \<and> live d) (db_devices db) of
        None \<Rightarrow> Inl (unauthorized ''invalid device credentials'')
      | Some _ \<Rightarrow> Inr ())"

section \<open>Names\<close>

definition dns_name :: "string \<Rightarrow> string" where
  "dns_name hostname = hostname @ ''.mesh''"

definition dns_name_available :: "string \<Rightarrow> string \<Rightarrow> string \<Rightarrow> database \<Rightarrow> bool" where
  "dns_name_available network_id device_id name db \<longleftrightarrow>
     find (\<lambda>r. dn_network_id r = network_id \<and> to_ascii_lowercase (dn_name r) = to_ascii_lowercase name \<and>
             dn_type r = ''A'' \<and> dn_device_id r \<noteq> device_id) (db_dns db) = None"

text \<open>\<open>chars().take(n)\<close>: the first characters, each with the continuation bytes that follow its first byte.\<close>

fun take_chars :: "nat \<Rightarrow> string \<Rightarrow> string" where
  "take_chars n [] = []"
| "take_chars n (c # cs) =
     (if list_all utf8_cont (as_bytes [c]) then c # take_chars n cs
      else if n = 0 then [] else c # take_chars (n - 1) cs)"

text \<open>\<open>rsplit_once('_')\<close>: the part after the last underscore, or the whole id without one.\<close>

definition device_dns_suffix :: "string \<Rightarrow> string" where
  "device_dns_suffix device_id = take_chars 8 (last (split_on CHR ''_'' device_id))"

definition dns_candidates :: "string \<Rightarrow> string \<Rightarrow> string list" where
  "dns_candidates device_id hostname =
     (let suffix = device_dns_suffix device_id in
      dns_name hostname # dns_name (hostname @ ''-'' @ suffix) #
      map (\<lambda>attempt. dns_name (hostname @ ''-'' @ suffix @ ''-'' @ nat_to_dec attempt)) [2..<100])"

definition available_dns_name :: "string \<Rightarrow> string \<Rightarrow> string \<Rightarrow> database \<Rightarrow> string api_result" where
  "available_dns_name network_id device_id hostname db =
     (case find (\<lambda>name. dns_name_available network_id device_id name db) (dns_candidates device_id hostname) of
        Some name \<Rightarrow> Inr name
      | None \<Rightarrow> Inl (conflict ''could not allocate unique DNS name for hostname''))"

text \<open>For evaluation: the list of candidates is not computed when the first is free.\<close>

lemma available_dns_name_code [code]:
  "available_dns_name network_id device_id hostname db =
     (if dns_name_available network_id device_id (dns_name hostname) db then Inr (dns_name hostname)
      else if dns_name_available network_id device_id (dns_name (hostname @ ''-'' @ device_dns_suffix device_id)) db
        then Inr (dns_name (hostname @ ''-'' @ device_dns_suffix device_id))
      else (case find (\<lambda>name. dns_name_available network_id device_id name db) (drop 2 (dns_candidates device_id hostname)) of
              Some name \<Rightarrow> Inr name
            | None \<Rightarrow> Inl (conflict ''could not allocate unique DNS name for hostname'')))"
  by (simp add: available_dns_name_def dns_candidates_def Let_def)

definition upsert_device_dns_record ::
  "control_env \<Rightarrow> string \<Rightarrow> string \<Rightarrow> string \<Rightarrow> string \<Rightarrow> string \<Rightarrow> database \<Rightarrow> database api_result" where
  "upsert_device_dns_record env uuid network_id device_id hostname ipv4 db =
     and_then (available_dns_name network_id device_id hostname db) (\<lambda>name.
       upsert_dns env \<lparr>dn_id = ''dns_'' @ uuid, dn_network_id = network_id, dn_device_id = device_id,
         dn_name = name, dn_type = ''A'', dn_value = ipv4, dn_updated_at = ce_now env\<rparr> db)"

abbreviation quoted_dash :: string where
  "quoted_dash \<equiv> [CHR 0x27, CHR ''-'', CHR 0x27]"

definition normalize_hostname :: "string \<Rightarrow> string api_result" where
  "normalize_hostname value =
     (let hostname = to_ascii_lowercase (trim value) in
      if hostname = [] then Inl (bad_request ''hostname is required'')
      else if 63 < length hostname then Inl (bad_request ''hostname must be 63 characters or fewer'')
      else if starts_with hostname ''-'' \<or> ends_with hostname ''-''
        then Inl (bad_request (''hostname cannot start or end with '' @ quoted_dash))
      else if \<not> list_all (\<lambda>b. is_ascii_lowercase b \<or> is_ascii_digit b \<or> b = CHR ''-'') hostname
        then Inl (bad_request (''hostname can contain only lowercase letters, digits, and '' @ quoted_dash))
      else Inr hostname)"

end
