(* ===== verification/Control_Server.thy ===== *)
theory Control_Server
  imports Control_DB "HOL-Library.Multiset"
begin

text \<open>
  The handlers of \<open>tfscale-control/src/main.rs\<close>. A handler maps the database to its response and the
  new database; a transaction that fails leaves the database as it was. Registration reads the
  database several times before its transaction, so it is also given in the three phases between
  which other requests can run.
\<close>

section \<open>State of the service\<close>

record app_state =
  as_udp_probe_addr :: socket_addr
  as_relays :: "relay_metadata list"

definition relay_metadata_from_urls :: "string list \<Rightarrow> relay_metadata list" where
  "relay_metadata_from_urls urls =
     map (\<lambda>(index, url). \<lparr>rm_relay_id = ''relay_'' @ nat_to_dec (index + 1), rm_url = url,
            rm_region = ''default'', rm_healthy = True\<rparr>) (enumerate 0 urls)"

definition list_relays :: "app_state \<Rightarrow> relay_metadata list" where
  "list_relays state = as_relays state"

text \<open>One datagram at the UDP endpoint probe: the answer, if any.\<close>

definition udp_endpoint_probe :: "bytes \<Rightarrow> socket_addr \<Rightarrow> bytes option" where
  "udp_endpoint_probe request source =
     (if take 256 request = as_bytes ''tfscale-public-probe-v1''
      then Some (as_bytes (''tfscale-public-probe-v1 '' @ ip_to_string (sa_ip source) @ '' '' @
             nat_to_dec (unat (sa_port source))))
      else None)"

section \<open>Administration\<close>

definition create_auth_key :: "control_env \<Rightarrow> database \<Rightarrow> create_auth_key_response api_result \<times> database" where
  "create_auth_key env db =
     (let key_id = ''ak_'' @ ce_uuid env 0; key = ''tfk_'' @ ce_uuid env 1 in
      case insert_auth_key env key_id (hash_secret env key) db of
        Inl e \<Rightarrow> (Inl e, db)
      | Inr db' \<Rightarrow> (Inr \<lparr>ak_id = key_id, ak_key = key\<rparr>, db'))"

definition list_devices :: "database \<Rightarrow> device_summary list" where
  "list_devices db = map summary_of (sort_key dv_hostname (filter live (db_devices db)))"

definition list_dns_records :: "database \<Rightarrow> dns_record list" where
  "list_dns_records db = load_dns_records db"

text \<open>A transaction: the changes of a failed body are rolled back.\<close>

definition transaction :: "(database \<Rightarrow> ('a \<times> database) api_result) \<Rightarrow> database \<Rightarrow> 'a api_result \<times> database" where
  "transaction body db = (case body db of Inl e \<Rightarrow> (Inl e, db) | Inr (x, db') \<Rightarrow> (Inr x, db'))"

definition delete_device :: "control_env \<Rightarrow> string \<Rightarrow> database \<Rightarrow> unit api_result \<times> database" where
  "delete_device env device_id =
     transaction (\<lambda>db.
       let hit = (\<lambda>d. dv_id d = device_id \<and> live d) in
       if filter hit (db_devices db) = [] then Inl (not_found ''device not found'')
       else Inr ((), db\<lparr>
         db_devices := update_where hit
           (\<lambda>d. d\<lparr>dv_deleted_at := Some (ce_now env), dv_updated_at := ce_now env\<rparr>) (db_devices db),
         db_dns := filter (\<lambda>r. dn_device_id r \<noteq> device_id) (db_dns db)\<rparr>))"

definition rename_device ::
  "control_env \<Rightarrow> string \<Rightarrow> rename_device_request \<Rightarrow> database \<Rightarrow> device_summary api_result \<times> database" where
  "rename_device env device_id request db =
     (case normalize_hostname (rn_hostname request) of
        Inl e \<Rightarrow> (Inl e, db)
      | Inr hostname \<Rightarrow>
          (case transaction (\<lambda>db.
                  let hit = (\<lambda>d. dv_id d = device_id \<and> live d) in
                  if filter hit (db_devices db) = [] then Inl (not_found ''device not found'')
                  else let db = db\<lparr>db_devices := update_where hit
                             (\<lambda>d. d\<lparr>dv_hostname := hostname, dv_updated_at := ce_now env\<rparr>) (db_devices db)\<rparr> in
                    and_then (load_device_summary device_id db) (\<lambda>device.
                    and_then (upsert_device_dns_record env (ce_uuid env 0) ''net_default'' (ds_id device)
                                (ds_hostname device) (ds_ipv4 device) db) (\<lambda>db.
                      Inr ((), db)))) db of
             (Inl e, db') \<Rightarrow> (Inl e, db')
           | (Inr _, db') \<Rightarrow> (load_device_summary device_id db', db')))"

section \<open>Registration\<close>

datatype register_check = AlreadyRegistered register_device_response | MayRegister string

text \<open>The reads before the address is chosen: existing device, auth key, host name.\<close>

definition register_check_phase :: "control_env \<Rightarrow> register_device_request \<Rightarrow> database \<Rightarrow> register_check api_result" where
  "register_check_phase env request db =
     (case find_existing_device (rq_machine_key request) db of
        Some existing \<Rightarrow> Inr (AlreadyRegistered existing)
      | None \<Rightarrow>
          and_then (validate_auth_key env (rq_auth_key request) db) (\<lambda>_.
          and_then (normalize_hostname (rq_hostname request)) (\<lambda>hostname. Inr (MayRegister hostname))))"

definition new_device_row ::
  "control_env \<Rightarrow> register_device_request \<Rightarrow> string \<Rightarrow> string \<Rightarrow> device_row" where
  "new_device_row env request hostname ipv4 =
     \<lparr>dv_id = device_id_str (DeviceId_new (ce_uuid env 0)), dv_network_id = ''net_default'', dv_hostname = hostname,
      dv_machine_key = rq_machine_key request, dv_node_key = ''node_'' @ ce_uuid env 1,
      dv_backend_type = rq_backend_type request,
      dv_backend_public_credential = rq_backend_public_credential request, dv_ipv4 = ipv4,
      dv_os = rq_os request, dv_arch = rq_arch request, dv_client_version = rq_client_version request,
      dv_last_seen_at = Some (ce_now env), dv_created_at = ce_now env, dv_updated_at = ce_now env,
      dv_deleted_at = None\<rparr>"

definition register_commit_phase ::
  "control_env \<Rightarrow> register_device_request \<Rightarrow> string \<Rightarrow> string \<Rightarrow> database \<Rightarrow>
     register_device_response api_result \<times> database" where
  "register_commit_phase env request hostname ipv4 =
     transaction (\<lambda>db.
       let row = new_device_row env request hostname ipv4 in
       and_then (insert_device row db) (\<lambda>db.
       and_then (upsert_device_dns_record env (ce_uuid env 2) ''net_default'' (dv_id row) hostname ipv4 db) (\<lambda>db.
       and_then (insert_ip \<lparr>ia_id = ''ip_'' @ ce_uuid env 3, ia_network_id = ''net_default'', ia_device_id = dv_id row,
                   ia_ip = ipv4, ia_state = ''assigned''\<rparr> db) (\<lambda>db.
         Inr (\<lparr>rr_device_id = dv_id row, rr_node_key = dv_node_key row, rr_ipv4 = ipv4,
               rr_network_id = ''net_default'', rr_poll_interval_seconds = 5\<rparr>,
              mark_key_used env (hash_secret env (rq_auth_key request)) db)))))"

definition register_device ::
  "control_env \<Rightarrow> register_device_request \<Rightarrow> database \<Rightarrow> register_device_response api_result \<times> database" where
  "register_device env request db =
     (case register_check_phase env request db of
        Inl e \<Rightarrow> (Inl e, db)
      | Inr (AlreadyRegistered existing) \<Rightarrow> (Inr existing, db)
      | Inr (MayRegister hostname) \<Rightarrow>
          (case allocate_ipv4 db of
             Inl e \<Rightarrow> (Inl e, db)
           | Inr ipv4 \<Rightarrow> register_commit_phase env request hostname ipv4 db))"

section \<open>Agents\<close>

definition endpoint_id :: "control_env \<Rightarrow> string \<Rightarrow> endpoint_payload \<Rightarrow> string \<Rightarrow> string" where
  "endpoint_id env device_id ep source =
     ''ep_'' @ ce_sha256_hex env (join_with ''|'' [device_id, epp_kind ep, epp_address ep,
       nat_to_dec (unat (epp_port ep)), epp_protocol ep, source])"

definition endpoint_row_of :: "control_env \<Rightarrow> string \<Rightarrow> endpoint_payload \<Rightarrow> endpoint_row" where
  "endpoint_row_of env device_id ep =
     (let source = (case epp_source ep of Some s \<Rightarrow> s | None \<Rightarrow> ''local'') in
      \<lparr>er_id = endpoint_id env device_id ep source, er_device_id = device_id, er_kind = epp_kind ep,
       er_address = epp_address ep, er_port = uint (epp_port ep), er_protocol = epp_protocol ep,
       er_source = source, er_priority = map_option sint (epp_priority ep),
       er_expires_at = (case epp_expires_at ep of
          Some t \<Rightarrow> Some t
        | None \<Rightarrow> if source \<noteq> ''local'' then Some (ce_now_plus_60 env) else None),
       er_last_seen_at = ce_now env\<rparr>)"

text \<open>The transaction of a heartbeat, which runs after the credentials were checked.\<close>

definition heartbeat_commit_phase :: "control_env \<Rightarrow> heartbeat_request \<Rightarrow> database \<Rightarrow> database" where
  "heartbeat_commit_phase env request db =
     (let device_id = hb_device_id request;
          db = db\<lparr>db_devices := update_where (\<lambda>d. dv_id d = device_id \<and> live d)
                 (\<lambda>d. d\<lparr>dv_last_seen_at := Some (ce_now env), dv_updated_at := ce_now env\<rparr>) (db_devices db)\<rparr>;
          db = delete_expired_endpoints env device_id db
      in fold (\<lambda>ep. upsert_endpoint (endpoint_row_of env device_id ep)) (hb_endpoints request) db)"

definition heartbeat :: "control_env \<Rightarrow> heartbeat_request \<Rightarrow> database \<Rightarrow> heartbeat_response api_result \<times> database" where
  "heartbeat env request db =
     (case validate_device_node_key (hb_device_id request) (hb_node_key request) db of
        Inl e \<Rightarrow> (Inl e, db)
      | Inr _ \<Rightarrow>
          (let db = heartbeat_commit_phase env request db
           in (Inr \<lparr>hbr_ok = True, hbr_network_map_version = network_map_version env db\<rparr>, db)))"

definition endpoint_probe ::
  "app_state \<Rightarrow> socket_addr \<Rightarrow> endpoint_probe_request \<Rightarrow> database \<Rightarrow> endpoint_probe_response api_result" where
  "endpoint_probe state addr request db =
     and_then (validate_device_node_key (epq_device_id request) (epq_node_key request) db) (\<lambda>_.
       if epq_protocol request \<noteq> ''udp'' then Inl (bad_request ''only udp endpoint probing is supported'')
       else Inr \<lparr>epr_observed_address = ip_to_string (sa_ip addr), epr_observed_port = sa_port addr,
                 epr_protocol = epq_protocol request,
                 epr_udp_probe_address = Some (ip_to_string (sa_ip (as_udp_probe_addr state))),
                 epr_udp_probe_port = Some (sa_port (as_udp_probe_addr state))\<rparr>)"

definition network_map_peer_of :: "control_env \<Rightarrow> database \<Rightarrow> device_row \<Rightarrow> network_map_peer" where
  "network_map_peer_of env db d =
     \<lparr>nmp_device_id = dv_id d, nmp_hostname = dv_hostname d, nmp_ipv4 = dv_ipv4 d,
      nmp_backend_type = dv_backend_type d,
      nmp_backend_public_credential = dv_backend_public_credential d,
      nmp_endpoints = load_endpoints env (dv_id d) db, nmp_allowed_routes = [dv_ipv4 d @ ''/32'']\<rparr>"

definition network_map ::
  "control_env \<Rightarrow> app_state \<Rightarrow> string \<Rightarrow> string \<Rightarrow> database \<Rightarrow> network_map_response api_result" where
  "network_map env state device_id node_key db =
     and_then (validate_device_node_key device_id node_key db) (\<lambda>_.
       case find (\<lambda>d. dv_id d = device_id \<and> live d) (db_devices db) of
         None \<Rightarrow> Inl (internal ''no rows returned by a query that expected to return at least one row'')
       | Some self \<Rightarrow>
           Inr \<lparr>nm_version = network_map_version env db,
                nm_self_device = \<lparr>nms_device_id = dv_id self, nms_hostname = dv_hostname self,
                  nms_ipv4 = dv_ipv4 self, nms_backend_type = dv_backend_type self\<rparr>,
                nm_peers = map (network_map_peer_of env db)
                  (sort_key dv_hostname (filter (\<lambda>d. dv_id d \<noteq> device_id \<and> live d) (db_devices db))),
                nm_dns_records = load_dns_records db,
                nm_relays = as_relays state\<rparr>)"

section \<open>The invariant of the database\<close>

definition pool_address :: "nat \<Rightarrow> string" where
  "pool_address n = ''100.64.0.'' @ nat_to_dec (n + 2)"

text \<open>Addresses are handed out in order and never again, one per device ever registered.\<close>

definition devices_ok :: "database \<Rightarrow> bool" where
  "devices_ok db \<longleftrightarrow>
     distinct (map dv_id (db_devices db)) \<and> distinct (map dv_machine_key (db_devices db)) \<and>
     map ia_ip (db_ips db) = map pool_address [0..<length (db_ips db)] \<and> length (db_ips db) \<le> 253 \<and>
     map dv_ipv4 (db_devices db) = map ia_ip (db_ips db)"

text \<open>
  DNS names end in \<open>.mesh\<close> and are unique up to case, and there is exactly one record per live device,
  with the device's address.
\<close>

definition dns_ok :: "device_row list \<Rightarrow> dns_row list \<Rightarrow> bool" where
  "dns_ok devs rows \<longleftrightarrow>
     distinct (map dn_device_id rows) \<and> distinct (map (\<lambda>r. to_ascii_lowercase (dn_name r)) rows) \<and>
     (\<forall>r \<in> set rows. dn_type r = ''A'' \<and> dn_network_id r = ''net_default'' \<and> suffix ''.mesh'' (dn_name r) \<and>
        (\<exists>d \<in> set devs. live d \<and> dv_id d = dn_device_id r \<and> dv_ipv4 d = dn_value r))"

definition dns_complete :: "device_row list \<Rightarrow> dns_row list \<Rightarrow> bool" where
  "dns_complete devs rows \<longleftrightarrow> (\<forall>d \<in> set devs. live d \<longrightarrow> dv_id d \<in> dn_device_id ` set rows)"

definition endpoints_ok :: "database \<Rightarrow> bool" where
  "endpoints_ok db \<longleftrightarrow> distinct (map er_id (db_endpoints db))"

definition keys_ok :: "database \<Rightarrow> bool" where
  "keys_ok db \<longleftrightarrow> distinct (map ar_id (db_auth_keys db)) \<and> distinct (map ar_key_hash (db_auth_keys db)) \<and>
     (\<forall>k \<in> set (db_auth_keys db). ar_reusable k = 0)"

definition database_ok :: "database \<Rightarrow> bool" where
  "database_ok db \<longleftrightarrow> devices_ok db \<and> dns_ok (db_devices db) (db_dns db) \<and>
     dns_complete (db_devices db) (db_dns db) \<and> endpoints_ok db \<and> keys_ok db"

lemma pool_address_inject [simp]: "pool_address m = pool_address n \<longleftrightarrow> m = n"
  by (simp add: pool_address_def)

lemma map_update_where [simp]: "(\<And>r. g (f r) = g r) \<Longrightarrow> map g (update_where p f rows) = map g rows"
  by (induction rows) (simp_all add: update_where_def)

lemma set_update_where: "set (update_where p f rows) = (\<lambda>r. if p r then f r else r) ` set rows"
  by (simp add: update_where_def)

lemma ball_update_where: "(\<And>r. P (f r) = P r) \<Longrightarrow> (\<forall>r \<in> set (update_where p f rows). P r) = (\<forall>r \<in> set rows. P r)"
  by (induction rows) (simp_all add: update_where_def)

lemma distinct_find: "distinct (map g rows) \<Longrightarrow> r \<in> set rows \<Longrightarrow> q \<in> set rows \<Longrightarrow> g r = g q \<Longrightarrow> r = q"
  by (meson distinct_map inj_onD)

lemma dns_candidates_mesh: "name \<in> set (dns_candidates device_id hostname) \<Longrightarrow> suffix ''.mesh'' name"
proof -
  assume "name \<in> set (dns_candidates device_id hostname)"
  then have "name \<in> range dns_name" unfolding dns_candidates_def Let_def by (auto simp del: upt_Suc)
  then show ?thesis by (auto simp: dns_name_def suffix_def)
qed

lemma upsert_dns_ok:
  assumes ok: "dns_ok devs (db_dns db)" and d: "d \<in> set devs" "live d"
    and up: "upsert_device_dns_record env u ''net_default'' (dv_id d) hostname (dv_ipv4 d) db = Inr db'"
  shows "dns_ok devs (db_dns db') \<and> dn_device_id ` set (db_dns db') = insert (dv_id d) (dn_device_id ` set (db_dns db)) \<and>
    db' = db\<lparr>db_dns := db_dns db'\<rparr>"
proof -
  let ?rows = "db_dns db" and ?dev = "dv_id d"
  from up obtain name where avail: "dns_name_available ''net_default'' ?dev name db"
    and mesh: "suffix ''.mesh'' name"
    and upsert: "upsert_dns env \<lparr>dn_id = ''dns_'' @ u, dn_network_id = ''net_default'', dn_device_id = ?dev,
         dn_name = name, dn_type = ''A'', dn_value = dv_ipv4 d, dn_updated_at = ce_now env\<rparr> db = Inr db'"
    by (auto simp: upsert_device_dns_record_def available_dns_name_def and_then_eq_Inr split: option.splits
        dest!: find_SomeD dns_candidates_mesh)
  have free: "to_ascii_lowercase (dn_name r) \<noteq> to_ascii_lowercase name" if "r \<in> set ?rows" "dn_device_id r \<noteq> ?dev" for r
    using avail that ok by (auto simp: dns_name_available_def find_None_iff dns_ok_def)
  let ?same = "\<lambda>q. dn_device_id q = ?dev \<and> dn_type q = ''A''"
  have same: "?same q \<longleftrightarrow> dn_device_id q = ?dev" if "q \<in> set ?rows" for q using that ok by (auto simp: dns_ok_def)
  let ?f = "\<lambda>q. q\<lparr>dn_name := name, dn_value := dv_ipv4 d, dn_updated_at := ce_now env\<rparr>"
  show ?thesis
  proof (cases "?dev \<in> dn_device_id ` set ?rows")
    case True
    then obtain q where q: "q \<in> set ?rows" "dn_device_id q = ?dev" by auto
    with same [OF q(1)] have "find ?same ?rows \<noteq> None" by (auto simp: find_None_iff)
    with upsert have db': "db' = db\<lparr>db_dns := update_where ?same ?f ?rows\<rparr>"
      by (auto simp: upsert_dns_def Let_def split: if_splits)
    have "distinct (map (\<lambda>r. to_ascii_lowercase (dn_name r)) (update_where ?same ?f ?rows))"
    proof -
      have "inj_on (\<lambda>r. to_ascii_lowercase (dn_name (if ?same r then ?f r else r))) (set ?rows)"
      proof (rule inj_onI)
        fix r q assume rq: "r \<in> set ?rows" "q \<in> set ?rows"
          and eq: "to_ascii_lowercase (dn_name (if ?same r then ?f r else r)) = to_ascii_lowercase (dn_name (if ?same q then ?f q else q))"
        have ids: "distinct (map dn_device_id ?rows)" and names: "distinct (map (\<lambda>r. to_ascii_lowercase (dn_name r)) ?rows)"
          using ok by (simp_all add: dns_ok_def)
        show "r = q"
          using eq free [OF rq(1)] free [OF rq(2)] same [OF rq(1)] same [OF rq(2)]
            distinct_find [OF ids rq] distinct_find [OF names rq]
          by (auto split: if_splits)
      qed
      moreover have "distinct ?rows" using ok by (auto simp: dns_ok_def distinct_map)
      ultimately show ?thesis by (simp add: update_where_def distinct_map comp_def)
    qed
    moreover have "distinct (map dn_device_id (update_where ?same ?f ?rows))" using ok by (simp add: dns_ok_def)
    moreover have "\<forall>r \<in> set (update_where ?same ?f ?rows). dn_type r = ''A'' \<and> dn_network_id r = ''net_default'' \<and> suffix ''.mesh'' (dn_name r) \<and>
        (\<exists>d \<in> set devs. live d \<and> dv_id d = dn_device_id r \<and> dv_ipv4 d = dn_value r)"
      using ok d mesh by (auto simp: dns_ok_def set_update_where)
    moreover have "dn_device_id ` set (update_where ?same ?f ?rows) = dn_device_id ` set ?rows"
    proof -
      have "map dn_device_id (update_where ?same ?f ?rows) = map dn_device_id ?rows" by simp
      then show ?thesis by (metis list.set_map)
    qed
    ultimately show ?thesis using db' True by (auto simp: dns_ok_def)
  next
    case False
    then have none: "find ?same ?rows = None" by (force simp: find_None_iff image_iff)
    with upsert have "db' = db\<lparr>db_dns := ?rows @ [\<lparr>dn_id = ''dns_'' @ u, dn_network_id = ''net_default'', dn_device_id = ?dev,
         dn_name = name, dn_type = ''A'', dn_value = dv_ipv4 d, dn_updated_at = ce_now env\<rparr>]\<rparr>"
      by (auto simp: upsert_dns_def Let_def split: if_splits)
    moreover have "to_ascii_lowercase name \<notin> (\<lambda>r. to_ascii_lowercase (dn_name r)) ` set ?rows"
      using False free by force
    ultimately show ?thesis using False ok d mesh by (auto simp: dns_ok_def)
  qed
qed

lemma database_ok_empty: "database_ok database_empty"
  by (simp add: database_ok_def devices_ok_def dns_ok_def dns_complete_def endpoints_ok_def keys_ok_def database_empty_def)

lemma create_auth_key_ok: "database_ok db \<Longrightarrow> database_ok (snd (create_auth_key env db))"
  by (auto simp: create_auth_key_def insert_auth_key_def Let_def database_ok_def devices_ok_def endpoints_ok_def keys_ok_def)

lemma mark_key_used_ok [simp]: "database_ok (mark_key_used env h db) = database_ok db"
proof -
  have "(\<forall>k \<in> set (db_auth_keys (mark_key_used env h db)). ar_reusable k = 0) \<longleftrightarrow>
      (\<forall>k \<in> set (db_auth_keys db). ar_reusable k = 0)"
    by (simp add: mark_key_used_def ball_update_where)
  then show ?thesis
    by (simp add: mark_key_used_def database_ok_def devices_ok_def endpoints_ok_def keys_ok_def)
qed

text \<open>An update of device rows that keeps ids, machine keys, addresses and liveness.\<close>

definition keeps_identity :: "(device_row \<Rightarrow> device_row) \<Rightarrow> bool" where
  "keeps_identity f \<longleftrightarrow> (\<forall>d. dv_id (f d) = dv_id d \<and> dv_machine_key (f d) = dv_machine_key d \<and>
     dv_ipv4 (f d) = dv_ipv4 d \<and> dv_deleted_at (f d) = dv_deleted_at d)"

lemma update_devices_ok:
  assumes "keeps_identity f"
  shows "devices_ok (db\<lparr>db_devices := update_where p f (db_devices db)\<rparr>) = devices_ok db"
    and "dns_ok (update_where p f devs) rows = dns_ok devs rows"
    and "dns_complete (update_where p f devs) rows = dns_complete devs rows"
proof -
  show "devices_ok (db\<lparr>db_devices := update_where p f (db_devices db)\<rparr>) = devices_ok db"
    using assms by (simp add: devices_ok_def keeps_identity_def)
  define g where "g r = (if p r then f r else r)" for r
  have upd: "set (update_where p f devs) = g ` set devs" by (simp add: set_update_where g_def)
  have same: "dv_id (g r) = dv_id r" "dv_ipv4 (g r) = dv_ipv4 r" "dv_deleted_at (g r) = dv_deleted_at r" for r
    using assms by (simp_all add: g_def keeps_identity_def)
  show "dns_ok (update_where p f devs) rows = dns_ok devs rows" by (simp add: dns_ok_def upd same)
  show "dns_complete (update_where p f devs) rows = dns_complete devs rows" by (simp add: dns_complete_def upd same)
qed

lemma heartbeat_commit_ok:
  assumes "database_ok db"
  shows "database_ok (heartbeat_commit_phase env request db)"
proof -
  have ups: "db_devices (fold (\<lambda>ep. upsert_endpoint (row ep)) eps db) = db_devices db \<and>
      db_ips (fold (\<lambda>ep. upsert_endpoint (row ep)) eps db) = db_ips db \<and>
      db_dns (fold (\<lambda>ep. upsert_endpoint (row ep)) eps db) = db_dns db \<and>
      db_auth_keys (fold (\<lambda>ep. upsert_endpoint (row ep)) eps db) = db_auth_keys db \<and>
      (endpoints_ok db \<longrightarrow> endpoints_ok (fold (\<lambda>ep. upsert_endpoint (row ep)) eps db))" for row eps db
    by (induction eps arbitrary: db) (auto simp: upsert_endpoint_def endpoints_ok_def)
  have del: "endpoints_ok db \<Longrightarrow> endpoints_ok (delete_expired_endpoints env i db)" for i db
    by (auto simp: delete_expired_endpoints_def endpoints_ok_def intro: distinct_map_filter)
  have keep: "keeps_identity (\<lambda>d. d\<lparr>dv_last_seen_at := Some (ce_now env), dv_updated_at := ce_now env\<rparr>)"
    by (simp add: keeps_identity_def)
  let ?db1 = "db\<lparr>db_devices := update_where (\<lambda>d. dv_id d = hb_device_id request \<and> live d)
      (\<lambda>d. d\<lparr>dv_last_seen_at := Some (ce_now env), dv_updated_at := ce_now env\<rparr>) (db_devices db)\<rparr>"
  let ?db2 = "delete_expired_endpoints env (hb_device_id request) ?db1"
  have "database_ok ?db1" using assms update_devices_ok [OF keep] by (simp add: database_ok_def endpoints_ok_def keys_ok_def)
  then have "database_ok ?db2"
    using del [of ?db1] by (simp add: database_ok_def devices_ok_def keys_ok_def) (simp add: delete_expired_endpoints_def)
  with ups [of "endpoint_row_of env (hb_device_id request)" "hb_endpoints request" ?db2] assms show ?thesis
    by (auto simp: heartbeat_commit_phase_def Let_def database_ok_def devices_ok_def keys_ok_def)
qed

lemma heartbeat_ok: "database_ok db \<Longrightarrow> database_ok (snd (heartbeat env request db))"
  by (simp add: heartbeat_def Let_def heartbeat_commit_ok split: sum.split)

lemma delete_device_ok:
  assumes "database_ok db"
  shows "database_ok (snd (delete_device env i db))"
proof -
  let ?hit = "\<lambda>d. dv_id d = i \<and> live d"
  let ?f = "\<lambda>d. d\<lparr>dv_deleted_at := Some (ce_now env), dv_updated_at := ce_now env\<rparr>"
  let ?devs = "update_where ?hit ?f (db_devices db)" and ?rows = "filter (\<lambda>r. dn_device_id r \<noteq> i) (db_dns db)"
  have "devices_ok (db\<lparr>db_devices := ?devs, db_dns := ?rows\<rparr>)" using assms by (simp add: database_ok_def devices_ok_def)
  moreover have "dns_ok ?devs ?rows"
  proof -
    have "\<exists>d \<in> set ?devs. live d \<and> dv_id d = dn_device_id r \<and> dv_ipv4 d = dn_value r" if "r \<in> set ?rows" for r
    proof -
      from that assms obtain d where "d \<in> set (db_devices db)" "live d" "dv_id d = dn_device_id r" "dv_ipv4 d = dn_value r"
        "dn_device_id r \<noteq> i" by (auto simp: database_ok_def dns_ok_def)
      then show ?thesis by (intro bexI [of _ d]) (auto simp: set_update_where)
    qed
    with assms show ?thesis by (auto simp: database_ok_def dns_ok_def intro: distinct_map_filter)
  qed
  moreover have "dns_complete ?devs ?rows"
    using assms by (auto simp: database_ok_def dns_complete_def set_update_where image_iff split: if_splits)
  ultimately have "database_ok (db\<lparr>db_devices := ?devs, db_dns := ?rows\<rparr>)"
    using assms by (simp add: database_ok_def endpoints_ok_def keys_ok_def)
  with assms show ?thesis by (simp add: delete_device_def transaction_def Let_def)
qed

lemma rename_device_ok:
  assumes "database_ok db"
  shows "database_ok (snd (rename_device env i request db))"
proof -
  have "database_ok db2" if host: "normalize_hostname (rn_hostname request) = Inr hostname"
    and db1: "db1 = db\<lparr>db_devices := update_where (\<lambda>d. dv_id d = i \<and> live d)
        (\<lambda>d. d\<lparr>dv_hostname := hostname, dv_updated_at := ce_now env\<rparr>) (db_devices db)\<rparr>"
    and load: "load_device_summary i db1 = Inr device"
    and up: "upsert_device_dns_record env u ''net_default'' (ds_id device) (ds_hostname device) (ds_ipv4 device) db1 = Inr db2"
    for hostname db1 device db2 u
  proof -
    have "keeps_identity (\<lambda>d. d\<lparr>dv_hostname := hostname, dv_updated_at := ce_now env\<rparr>)" by (simp add: keeps_identity_def)
    then have ok1: "database_ok db1"
      using assms update_devices_ok unfolding db1 by (simp add: database_ok_def endpoints_ok_def keys_ok_def)
    from load obtain d where d: "d \<in> set (db_devices db1)" "live d" "device = summary_of d"
      by (auto simp: load_device_summary_def split: option.splits dest: find_SomeD)
    from upsert_dns_ok [of "db_devices db1" db1 d env u "ds_hostname device" db2] ok1 d up
    have dns: "dns_ok (db_devices db1) (db_dns db2)" "db2 = db1\<lparr>db_dns := db_dns db2\<rparr>"
      "dn_device_id ` set (db_dns db2) = insert (dv_id d) (dn_device_id ` set (db_dns db1))"
      by (auto simp: database_ok_def summary_of_def)
    have same: "db_devices db2 = db_devices db1" "db_ips db2 = db_ips db1" "db_endpoints db2 = db_endpoints db1"
      "db_auth_keys db2 = db_auth_keys db1"
      by (subst dns(2), simp)+
    show ?thesis
      using ok1 dns(1,3) by (auto simp: database_ok_def devices_ok_def dns_complete_def endpoints_ok_def keys_ok_def same)
  qed
  with assms show ?thesis
    by (auto simp: rename_device_def transaction_def Let_def and_then_eq_Inr split: sum.splits prod.splits if_splits)
qed

text \<open>
  The commit of a registration, with an address chosen earlier: the unique indexes let it succeed
  only if no other device was registered since.
\<close>

lemma register_commit_cases:
  assumes "register_commit_phase env request hostname ipv4 db = (Inr resp, db')"
  obtains db1 db2 where "dv_id (new_device_row env request hostname ipv4) \<notin> dv_id ` set (db_devices db)"
    and "rq_machine_key request \<notin> dv_machine_key ` set (db_devices db)"
    and "ipv4 \<notin> ia_ip ` set (db_ips db)"
    and "db1 = db\<lparr>db_devices := db_devices db @ [new_device_row env request hostname ipv4]\<rparr>"
    and "upsert_device_dns_record env (ce_uuid env 2) ''net_default'' (dv_id (new_device_row env request hostname ipv4)) hostname ipv4 db1 = Inr db2"
    and "db' = mark_key_used env (hash_secret env (rq_auth_key request)) (db2\<lparr>db_ips := db_ips db2 @
      [\<lparr>ia_id = ''ip_'' @ ce_uuid env 3, ia_network_id = ''net_default'',
        ia_device_id = dv_id (new_device_row env request hostname ipv4), ia_ip = ipv4, ia_state = ''assigned''\<rparr>]\<rparr>)"
    and "db2 = db1\<lparr>db_dns := db_dns db2\<rparr>"
    and "resp = \<lparr>rr_device_id = dv_id (new_device_row env request hostname ipv4), rr_node_key = ''node_'' @ ce_uuid env 1,
      rr_ipv4 = ipv4, rr_network_id = ''net_default'', rr_poll_interval_seconds = 5\<rparr>"
proof -
  let ?row = "new_device_row env request hostname ipv4"
  have frame: "upsert_device_dns_record env u n i h a db1 = Inr db2 \<Longrightarrow> db2 = db1\<lparr>db_dns := db_dns db2\<rparr>" for u n i h a db1 db2
    by (auto simp: upsert_device_dns_record_def upsert_dns_def and_then_eq_Inr Let_def split: if_splits)
  from assms obtain db1 db2 db3 where ins: "insert_device ?row db = Inr db1"
    and up: "upsert_device_dns_record env (ce_uuid env 2) ''net_default'' (dv_id ?row) hostname ipv4 db1 = Inr db2"
    and ip: "insert_ip \<lparr>ia_id = ''ip_'' @ ce_uuid env 3, ia_network_id = ''net_default'', ia_device_id = dv_id ?row,
                   ia_ip = ipv4, ia_state = ''assigned''\<rparr> db2 = Inr db3"
    and db': "db' = mark_key_used env (hash_secret env (rq_auth_key request)) db3"
    and resp: "resp = \<lparr>rr_device_id = dv_id ?row, rr_node_key = dv_node_key ?row, rr_ipv4 = ipv4,
               rr_network_id = ''net_default'', rr_poll_interval_seconds = 5\<rparr>"
    by (auto simp: register_commit_phase_def transaction_def Let_def and_then_eq_Inr split: sum.splits prod.splits)
  have "db_ips db2 = db_ips db"
  proof -
    have "db_ips db1 = db_ips db" using ins by (auto simp: insert_device_def split: if_splits)
    then show ?thesis by (subst frame [OF up]) simp
  qed
  with that [OF _ _ _ _ up _ frame [OF up]] ins ip db' resp show ?thesis
    by (auto simp: insert_device_def insert_ip_def new_device_row_def split: if_splits)
qed

lemma register_commit_ok:
  assumes ok: "database_ok db" and n: "n \<le> length (db_ips db)" "n < 253"
    and reg: "register_commit_phase env request hostname (pool_address n) db = (Inr resp, db')"
  shows "database_ok db' \<and> n = length (db_ips db)"
proof -
  let ?row = "new_device_row env request hostname (pool_address n)"
  from reg obtain db1 db2 where new: "dv_id ?row \<notin> dv_id ` set (db_devices db)"
      "rq_machine_key request \<notin> dv_machine_key ` set (db_devices db)" "pool_address n \<notin> ia_ip ` set (db_ips db)"
    and db1: "db1 = db\<lparr>db_devices := db_devices db @ [?row]\<rparr>"
    and up: "upsert_device_dns_record env (ce_uuid env 2) ''net_default'' (dv_id ?row) hostname (pool_address n) db1 = Inr db2"
    and db': "db' = mark_key_used env (hash_secret env (rq_auth_key request)) (db2\<lparr>db_ips := db_ips db2 @
      [\<lparr>ia_id = ''ip_'' @ ce_uuid env 3, ia_network_id = ''net_default'',
        ia_device_id = dv_id ?row, ia_ip = pool_address n, ia_state = ''assigned''\<rparr>]\<rparr>)"
    and db2: "db2 = db1\<lparr>db_dns := db_dns db2\<rparr>"
    by (rule register_commit_cases)
  have ips: "map ia_ip (db_ips db) = map pool_address [0..<length (db_ips db)]"
    using ok by (simp add: database_ok_def devices_ok_def)
  then have "ia_ip ` set (db_ips db) = pool_address ` {0..<length (db_ips db)}" by (metis list.set_map set_upt)
  with new(3) n(1) have len: "n = length (db_ips db)" by auto
  have row: "live ?row" "dv_ipv4 ?row = pool_address n" "dv_machine_key ?row = rq_machine_key request"
    by (simp_all add: new_device_row_def)
  have "dns_ok (db_devices db1) (db_dns db1)" using ok by (auto simp: db1 database_ok_def dns_ok_def)
  from upsert_dns_ok [OF this, of ?row env "ce_uuid env 2" hostname db2] up row
  have dns: "dns_ok (db_devices db1) (db_dns db2)"
    "dn_device_id ` set (db_dns db2) = insert (dv_id ?row) (dn_device_id ` set (db_dns db1))"
    by (simp_all add: db1)
  have same: "db_devices db2 = db_devices db @ [?row]" "db_ips db2 = db_ips db" "db_endpoints db2 = db_endpoints db"
    "db_auth_keys db2 = db_auth_keys db"
    by (subst db2, simp add: db1)+
  have "dns_complete (db_devices db1) (db_dns db2)" using ok dns(2) by (auto simp: database_ok_def dns_complete_def db1)
  with ok dns(1) ips new row len n(2) have "database_ok (db2\<lparr>db_ips := db_ips db2 @
      [\<lparr>ia_id = ''ip_'' @ ce_uuid env 3, ia_network_id = ''net_default'',
        ia_device_id = dv_id ?row, ia_ip = pool_address n, ia_state = ''assigned''\<rparr>]\<rparr>)"
    by (simp add: database_ok_def devices_ok_def same db1 endpoints_ok_def keys_ok_def)
  with db' len show ?thesis by simp
qed

lemma allocate_ipv4_Inr: "allocate_ipv4 db = Inr ip \<longleftrightarrow> length (db_ips db) < 253 \<and> ip = pool_address (length (db_ips db))"
  by (auto simp: allocate_ipv4_def pool_address_def Let_def)

lemma register_commit_db: "database_ok db \<Longrightarrow> n \<le> length (db_ips db) \<Longrightarrow> n < 253 \<Longrightarrow>
    database_ok (snd (register_commit_phase env request hostname (pool_address n) db))"
  using register_commit_ok [of db n env request hostname]
  by (cases "register_commit_phase env request hostname (pool_address n) db"; cases "fst (register_commit_phase env request hostname (pool_address n) db)")
    (auto simp: register_commit_phase_def transaction_def Let_def split: sum.splits)

lemma register_device_ok: "database_ok db \<Longrightarrow> database_ok (snd (register_device env request db))"
  using register_commit_db
  by (auto simp: register_device_def allocate_ipv4_Inr split: sum.split register_check.split)

text \<open>
  Every request, registrations whose transaction commits an address that was chosen when the
  database held at most as many allocations as now, and heartbeats whose transaction runs after the
  device was deleted, since the credentials are checked before it.
\<close>

inductive control_step :: "database \<Rightarrow> database \<Rightarrow> bool" where
  auth_key: "control_step db (snd (create_auth_key env db))"
| delete: "control_step db (snd (delete_device env device_id db))"
| rename: "control_step db (snd (rename_device env device_id rename_request db))"
| register: "control_step db (snd (register_device env request db))"
| commit: "allocate_ipv4 earlier = Inr ipv4 \<Longrightarrow> length (db_ips earlier) \<le> length (db_ips db) \<Longrightarrow>
    control_step db (snd (register_commit_phase env request hostname ipv4 db))"
| beat: "control_step db (snd (heartbeat env beat_request db))"
| beat_commit: "control_step db (heartbeat_commit_phase env beat_request db)"

inductive_cases control_stepE: "control_step db db'"

interpretation control: transition_system "\<lambda>db. db = database_empty" control_step database_ok
proof unfold_locales
  fix db db' assume "database_ok db" "control_step db db'"
  then show "database_ok db'"
    by (auto elim!: control_stepE simp: create_auth_key_ok delete_device_ok rename_device_ok register_device_ok
        allocate_ipv4_Inr register_commit_db heartbeat_ok heartbeat_commit_ok)
qed (simp add: database_ok_empty)

section \<open>Properties\<close>

text \<open>
  C15. The control plane's database stays consistent under every interleaving of requests: device
  ids and machine keys are unique, the addresses are 100.64.0.2, 100.64.0.3 and so on, one per
  device ever registered and never handed out twice, at most 253 of them, the DNS names are
  unique up to case, and there is exactly one DNS record for every live device, with that
  device's address, and none for a deleted one.
\<close>

theorem control_database_consistent:
  assumes "control_step\<^sup>*\<^sup>* database_empty db"
  shows "database_ok db"
  using assms by (rule control.reachable_inv [OF refl])

definition demo_control_env :: "string \<Rightarrow> control_env" where
  "demo_control_env u =
     \<lparr>ce_now = ''2024-01-01 00:00:00'', ce_now_plus_60 = ''2024-01-01 00:01:00'', ce_unixepoch = (\<lambda>_. Some 0),
      ce_sha256_hex = (\<lambda>s. s), ce_uuid = (\<lambda>n. u @ nat_to_dec n)\<rparr>"

theorem control_database_consistent_witness:
  "database_ok (snd (create_auth_key (demo_control_env ''k'') database_empty))"
  by (rule control_database_consistent) (rule r_into_rtranclp, rule control_step.auth_key)

text \<open>
  C16. The network map tells an authenticated device exactly about its peers: a map is returned
  only to a live device that presents its own node key; its peers are all other live devices and
  no others, each with its own address as the only allowed route and only endpoints that are not
  expired; and its DNS records name every live device exactly once, at that device's address.
\<close>

theorem network_map_exact:
  assumes "control_step\<^sup>*\<^sup>* database_empty db" and "network_map env state device_id node_key db = Inr m"
  shows "(\<exists>self \<in> set (db_devices db). live self \<and> dv_id self = device_id \<and> dv_node_key self = node_key \<and>
      nm_self_device m = \<lparr>nms_device_id = device_id, nms_hostname = dv_hostname self, nms_ipv4 = dv_ipv4 self,
        nms_backend_type = dv_backend_type self\<rparr>) \<and>
    mset (nm_peers m) = image_mset (network_map_peer_of env db)
      (mset (filter (\<lambda>d. dv_id d \<noteq> device_id \<and> live d) (db_devices db))) \<and>
    sorted (map nmp_hostname (nm_peers m)) \<and>
    (\<forall>p \<in> set (nm_peers m). nmp_allowed_routes p = [nmp_ipv4 p @ ''/32''] \<and>
      (\<forall>e \<in> set (nmp_endpoints p). \<forall>t. epp_expires_at e = Some t \<longrightarrow> ce_now env < t)) \<and>
    bij_betw dr_device_id (set (nm_dns_records m)) {dv_id d | d. d \<in> set (db_devices db) \<and> live d} \<and>
    (\<forall>d \<in> set (db_devices db). \<forall>r \<in> set (nm_dns_records m). dr_device_id r = dv_id d \<longrightarrow> dr_value r = dv_ipv4 d)"
proof -
  have ok: "database_ok db" by (rule control.reachable_inv [OF refl assms(1)])
  have ids: "distinct (map dv_id (db_devices db))" using ok by (simp add: database_ok_def devices_ok_def)
  from assms(2) obtain auth self where auth: "auth \<in> set (db_devices db)" "dv_id auth = device_id" "dv_node_key auth = node_key" "live auth"
    and self: "self \<in> set (db_devices db)" "dv_id self = device_id" "live self"
    and m: "nm_self_device m = \<lparr>nms_device_id = dv_id self, nms_hostname = dv_hostname self, nms_ipv4 = dv_ipv4 self,
        nms_backend_type = dv_backend_type self\<rparr>"
      "nm_peers m = map (network_map_peer_of env db) (sort_key dv_hostname (filter (\<lambda>d. dv_id d \<noteq> device_id \<and> live d) (db_devices db)))"
      "nm_dns_records m = load_dns_records db"
    by (auto simp: network_map_def validate_device_node_key_def and_then_eq_Inr split: option.splits dest!: find_SomeD)
  have "auth = self" using distinct_find [OF ids auth(1) self(1)] auth(2) self(2) by simp
  with auth self m(1) have first: "\<exists>self \<in> set (db_devices db). live self \<and> dv_id self = device_id \<and> dv_node_key self = node_key \<and>
      nm_self_device m = \<lparr>nms_device_id = device_id, nms_hostname = dv_hostname self, nms_ipv4 = dv_ipv4 self,
        nms_backend_type = dv_backend_type self\<rparr>" by auto
  have "map nmp_hostname (nm_peers m) = map dv_hostname (sort_key dv_hostname (filter (\<lambda>d. dv_id d \<noteq> device_id \<and> live d) (db_devices db)))"
    by (simp add: m(2) network_map_peer_of_def comp_def)
  then have sorted: "sorted (map nmp_hostname (nm_peers m))" by (simp only: sorted_sort_key)
  have peers: "mset (nm_peers m) = image_mset (network_map_peer_of env db)
      (mset (filter (\<lambda>d. dv_id d \<noteq> device_id \<and> live d) (db_devices db)))"
    by (simp add: m(2))
  have fresh: "\<forall>p \<in> set (nm_peers m). nmp_allowed_routes p = [nmp_ipv4 p @ ''/32''] \<and>
      (\<forall>e \<in> set (nmp_endpoints p). \<forall>t. epp_expires_at e = Some t \<longrightarrow> ce_now env < t)"
    by (auto simp: m(2) network_map_peer_of_def load_endpoints_def endpoint_payload_of_def)
  have recs: "set (nm_dns_records m) = dns_record_of ` set (db_dns db)" by (simp add: m(3) load_dns_records_def)
  have dns: "dns_ok (db_devices db) (db_dns db)" "dns_complete (db_devices db) (db_dns db)"
    using ok by (simp_all add: database_ok_def)
  have "inj_on dr_device_id (dns_record_of ` set (db_dns db))"
    using dns(1) by (auto simp: dns_ok_def dns_record_of_def inj_on_def dest: distinct_find)
  moreover have "dr_device_id ` (dns_record_of ` set (db_dns db)) = dn_device_id ` set (db_dns db)"
    by (simp add: image_image dns_record_of_def)
  moreover have "dn_device_id ` set (db_dns db) = {dv_id d | d. d \<in> set (db_devices db) \<and> live d}"
  proof
    show "dn_device_id ` set (db_dns db) \<subseteq> {dv_id d | d. d \<in> set (db_devices db) \<and> live d}"
    proof
      fix i assume "i \<in> dn_device_id ` set (db_dns db)"
      with dns(1) obtain d where "d \<in> set (db_devices db)" "live d" "dv_id d = i" unfolding dns_ok_def by blast
      then show "i \<in> {dv_id d | d. d \<in> set (db_devices db) \<and> live d}" by blast
    qed
    show "{dv_id d | d. d \<in> set (db_devices db) \<and> live d} \<subseteq> dn_device_id ` set (db_dns db)"
      using dns(2) by (auto simp: dns_complete_def)
  qed
  ultimately have bij: "bij_betw dr_device_id (set (nm_dns_records m)) {dv_id d | d. d \<in> set (db_devices db) \<and> live d}"
    unfolding recs bij_betw_def by simp
  have "\<forall>d \<in> set (db_devices db). \<forall>r \<in> set (nm_dns_records m). dr_device_id r = dv_id d \<longrightarrow> dr_value r = dv_ipv4 d"
    using dns(1) distinct_find [OF ids] unfolding recs by (fastforce simp: dns_ok_def dns_record_of_def)
  with first peers sorted fresh bij show ?thesis by blast
qed

lemma register_device_new:
  assumes "register_device env request db = (Inr resp, db')" and "find_existing_device (rq_machine_key request) db = None"
  obtains hostname ipv4 where "normalize_hostname (rq_hostname request) = Inr hostname"
    and "validate_auth_key env (rq_auth_key request) db = Inr ()" and "allocate_ipv4 db = Inr ipv4"
    and "register_commit_phase env request hostname ipv4 db = (Inr resp, db')"
  using assms
  by (auto simp: register_device_def register_check_phase_def and_then_def split: sum.splits register_check.splits)

lemma find_appended: "find p xs = None \<Longrightarrow> find p (xs @ [x]) = (if p x then Some x else None)"
  by (induction xs) (auto split: if_splits)

text \<open>
  Registering is idempotent: after a new machine was registered, registering it again returns
  the same device id, node key and address and changes nothing, whatever auth key, host name or
  other data the second request carries.
\<close>

theorem register_again_same_device:
  assumes "find_existing_device (rq_machine_key request) db = None" and "register_device env request db = (Inr resp, db')"
    and "rq_machine_key request' = rq_machine_key request"
  shows "register_device env' request' db' = (Inr resp, db') \<and>
    db_devices db' = db_devices db @ [new_device_row env request (case normalize_hostname (rq_hostname request) of Inr h \<Rightarrow> h) (rr_ipv4 resp)]"
proof -
  from assms(1,2) obtain hostname ipv4 where host: "normalize_hostname (rq_hostname request) = Inr hostname"
    and reg: "register_commit_phase env request hostname ipv4 db = (Inr resp, db')"
    by (metis register_device_new)
  let ?row = "new_device_row env request hostname ipv4"
  from reg obtain db1 db2 where db1: "db1 = db\<lparr>db_devices := db_devices db @ [?row]\<rparr>" and db2: "db2 = db1\<lparr>db_dns := db_dns db2\<rparr>"
    and db': "db' = mark_key_used env (hash_secret env (rq_auth_key request)) (db2\<lparr>db_ips := db_ips db2 @
      [\<lparr>ia_id = ''ip_'' @ ce_uuid env 3, ia_network_id = ''net_default'',
        ia_device_id = dv_id ?row, ia_ip = ipv4, ia_state = ''assigned''\<rparr>]\<rparr>)"
    and resp: "resp = \<lparr>rr_device_id = dv_id ?row, rr_node_key = ''node_'' @ ce_uuid env 1,
      rr_ipv4 = ipv4, rr_network_id = ''net_default'', rr_poll_interval_seconds = 5\<rparr>"
    by (rule register_commit_cases)
  have "db_devices db2 = db_devices db @ [?row]" by (subst db2) (simp add: db1)
  then have devs: "db_devices db' = db_devices db @ [?row]" by (simp add: db' mark_key_used_def)
  have "find (\<lambda>d. dv_machine_key d = rq_machine_key request \<and> live d) (db_devices db) = None"
    using assms(1) by (simp add: find_existing_device_def)
  then have "find_existing_device (rq_machine_key request') db' = Some resp"
    using assms(3) by (simp add: find_existing_device_def devs find_appended resp) (simp add: new_device_row_def)
  with devs host resp show ?thesis by (simp add: register_device_def register_check_phase_def)
qed

lemma delete_device_Inr:
  assumes "delete_device env i db = (Inr u, db')"
  shows "db_devices db' = update_where (\<lambda>d. dv_id d = i \<and> live d)
      (\<lambda>d. d\<lparr>dv_deleted_at := Some (ce_now env), dv_updated_at := ce_now env\<rparr>) (db_devices db)"
  using assms by (auto simp: delete_device_def transaction_def Let_def split: if_splits)

text \<open>
  A deleted machine cannot come back: once a device is deleted, every later registration with
  its machine key fails and changes nothing; the lookup of existing devices skips the deleted row
  and the insertion then violates the unique index on machine keys.
\<close>

theorem deleted_device_cannot_reregister:
  assumes "control_step\<^sup>*\<^sup>* database_empty db" and "d \<in> set (db_devices db)"
    and "delete_device env (dv_id d) db = (Inr (), db')" and "rq_machine_key request = dv_machine_key d"
  shows "\<exists>e. register_device env' request db' = (Inl e, db')"
proof -
  have ok: "database_ok db" by (rule control.reachable_inv [OF refl assms(1)])
  have keys: "distinct (map dv_machine_key (db_devices db))" and ids: "distinct (map dv_id (db_devices db))"
    using ok by (simp_all add: database_ok_def devices_ok_def)
  let ?hit = "\<lambda>x. dv_id x = dv_id d \<and> live x"
  let ?f = "\<lambda>x. x\<lparr>dv_deleted_at := Some (ce_now env), dv_updated_at := ce_now env\<rparr>"
  have devs: "db_devices db' = update_where ?hit ?f (db_devices db)" using delete_device_Inr [OF assms(3)] .
  have "\<not> (dv_machine_key x = dv_machine_key d \<and> live x)" if "x \<in> set (db_devices db')" for x
  proof -
    from that obtain y where y: "y \<in> set (db_devices db)" "x = (if ?hit y then ?f y else y)"
      by (auto simp: devs set_update_where)
    show ?thesis using y distinct_find [OF keys y(1) assms(2)] by (cases "?hit y") auto
  qed
  then have none: "find_existing_device (rq_machine_key request) db' = None"
    using assms(4) by (auto simp: find_existing_device_def find_None_iff)
  have "map dv_machine_key (db_devices db') = map dv_machine_key (db_devices db)" by (simp add: devs)
  then have used: "dv_machine_key d \<in> dv_machine_key ` set (db_devices db')"
    using assms(2) by (metis image_eqI list.set_map)
  have "\<exists>e. register_commit_phase env' request h ip db' = (Inl e, db')" for h ip
    using used assms(4)
    by (auto simp: register_commit_phase_def transaction_def Let_def insert_device_def new_device_row_def)
  then show ?thesis
    by (auto simp: register_device_def register_check_phase_def none and_then_def split: sum.split)
qed

text \<open>
  The transaction of a registration does not look at the auth key: it commits in the same way
  whatever the table of keys holds, so a key that was used or revoked after the check, and before
  the transaction, still admits its device, and two concurrent registrations can both succeed
  with one single-use key.
\<close>

theorem register_commit_ignores_auth_key:
  "fst (register_commit_phase env request hostname ipv4 (db\<lparr>db_auth_keys := keys\<rparr>)) =
     fst (register_commit_phase env request hostname ipv4 db) \<and>
   db_devices (snd (register_commit_phase env request hostname ipv4 (db\<lparr>db_auth_keys := keys\<rparr>))) =
     db_devices (snd (register_commit_phase env request hostname ipv4 db))"
proof -
  let ?k = "\<lambda>db. db\<lparr>db_auth_keys := keys\<rparr>"
  let ?row = "new_device_row env request hostname ipv4"
  let ?ip = "\<lparr>ia_id = ''ip_'' @ ce_uuid env 3, ia_network_id = ''net_default'', ia_device_id = dv_id ?row, ia_ip = ipv4, ia_state = ''assigned''\<rparr>"
  have insert: "insert_device d (?k db) = map_sum id ?k (insert_device d db)" for d db by (simp add: insert_device_def)
  have upsert: "upsert_device_dns_record env u n i h a (?k db) = map_sum id ?k (upsert_device_dns_record env u n i h a db)" for u n i h a db
    by (simp add: upsert_device_dns_record_def available_dns_name_def dns_name_available_def upsert_dns_def Let_def split: option.split)
  have ip: "insert_ip d (?k db) = map_sum id ?k (insert_ip d db)" for d db by (simp add: insert_ip_def)
  show ?thesis
  proof (cases "insert_device ?row db")
    case (Inr db1)
    show ?thesis
    proof (cases "upsert_device_dns_record env (ce_uuid env 2) ''net_default'' (dv_id ?row) hostname ipv4 db1")
      case (Inr db2)
      with \<open>insert_device ?row db = Inr db1\<close> show ?thesis
        by (cases "insert_ip ?ip db2")
          (simp_all add: register_commit_phase_def transaction_def Let_def insert upsert ip mark_key_used_def)
    qed (simp add: register_commit_phase_def transaction_def Let_def insert upsert Inr)
  qed (simp add: register_commit_phase_def transaction_def Let_def insert)
qed

definition demo_register_request :: "string \<Rightarrow> string \<Rightarrow> register_device_request" where
  "demo_register_request auth_key machine =
     \<lparr>rq_auth_key = auth_key, rq_hostname = ''laptop'', rq_machine_key = machine, rq_backend_type = ''tun'',
      rq_backend_public_credential = ''pk'', rq_os = ''linux'', rq_arch = ''x86_64'', rq_client_version = ''0.1.0''\<rparr>"

text \<open>A run of the control plane: two auth keys, and two machines of the same host name that register with them.\<close>

definition demo_keys :: database where
  "demo_keys = snd (create_auth_key (demo_control_env ''l'') (snd (create_auth_key (demo_control_env ''k'') database_empty)))"
definition demo_one_device :: database where
  "demo_one_device = snd (register_device (demo_control_env ''a'') (demo_register_request ''tfk_k1'' ''m1'') demo_keys)"
definition demo_two_devices :: database where
  "demo_two_devices = snd (register_device (demo_control_env ''b'') (demo_register_request ''tfk_l1'' ''m2'') demo_one_device)"
definition demo_app :: app_state where
  "demo_app = \<lparr>as_udp_probe_addr = \<lparr>sa_ip = V4 (Ipv4Addr 0 0 0 0), sa_port = 3478\<rparr>, as_relays = relay_metadata_from_urls [''relay.example:443'']\<rparr>"

text \<open>The states of the run written out, evaluated once.\<close>

lemma demo_keys_value [code]:
  "demo_keys =
     \<lparr>db_auth_keys =
       [\<lparr>ar_id = ''ak_k0'', ar_key_hash = ''tfk_k1'', ar_expires_at = None, ar_used_at = None, ar_reusable = 0,
          ar_created_at = ''2024-01-01 00:00:00'', ar_revoked_at = None\<rparr>,
        \<lparr>ar_id = ''ak_l0'', ar_key_hash = ''tfk_l1'', ar_expires_at = None, ar_used_at = None, ar_reusable = 0,
          ar_created_at = ''2024-01-01 00:00:00'', ar_revoked_at = None\<rparr>],
      db_devices =
       [],
      db_ips =
       [],
      db_endpoints = [],
      db_dns =
       []\<rparr>"
  by code_simp

lemma demo_one_device_value [code]:
  "demo_one_device =
     \<lparr>db_auth_keys =
       [\<lparr>ar_id = ''ak_k0'', ar_key_hash = ''tfk_k1'', ar_expires_at = None, ar_used_at = Some ''2024-01-01 00:00:00'', ar_reusable = 0,
          ar_created_at = ''2024-01-01 00:00:00'', ar_revoked_at = None\<rparr>,
        \<lparr>ar_id = ''ak_l0'', ar_key_hash = ''tfk_l1'', ar_expires_at = None, ar_used_at = None, ar_reusable = 0,
          ar_created_at = ''2024-01-01 00:00:00'', ar_revoked_at = None\<rparr>],
      db_devices =
       [\<lparr>dv_id = ''dev_a0'', dv_network_id = ''net_default'', dv_hostname = ''laptop'', dv_machine_key = ''m1'',
          dv_node_key = ''node_a1'', dv_backend_type = ''tun'', dv_backend_public_credential = ''pk'', dv_ipv4 = ''100.64.0.2'',
          dv_os = ''linux'', dv_arch = ''x86_64'', dv_client_version = ''0.1.0'', dv_last_seen_at = Some ''2024-01-01 00:00:00'',
          dv_created_at = ''2024-01-01 00:00:00'', dv_updated_at = ''2024-01-01 00:00:00'', dv_deleted_at = None\<rparr>],
      db_ips =
       [\<lparr>ia_id = ''ip_a3'', ia_network_id = ''net_default'', ia_device_id = ''dev_a0'', ia_ip = ''100.64.0.2'', ia_state = ''assigned''\<rparr>],
      db_endpoints = [],
      db_dns =
       [\<lparr>dn_id = ''dns_a2'', dn_network_id = ''net_default'', dn_device_id = ''dev_a0'', dn_name = ''laptop.mesh'', dn_type = ''A'',
          dn_value = ''100.64.0.2'', dn_updated_at = ''2024-01-01 00:00:00''\<rparr>]\<rparr>"
  by code_simp

lemma demo_two_devices_value [code]:
  "demo_two_devices =
     \<lparr>db_auth_keys =
       [\<lparr>ar_id = ''ak_k0'', ar_key_hash = ''tfk_k1'', ar_expires_at = None, ar_used_at = Some ''2024-01-01 00:00:00'', ar_reusable = 0,
          ar_created_at = ''2024-01-01 00:00:00'', ar_revoked_at = None\<rparr>,
        \<lparr>ar_id = ''ak_l0'', ar_key_hash = ''tfk_l1'', ar_expires_at = None, ar_used_at = Some ''2024-01-01 00:00:00'', ar_reusable = 0,
          ar_created_at = ''2024-01-01 00:00:00'', ar_revoked_at = None\<rparr>],
      db_devices =
       [\<lparr>dv_id = ''dev_a0'', dv_network_id = ''net_default'', dv_hostname = ''laptop'', dv_machine_key = ''m1'',
          dv_node_key = ''node_a1'', dv_backend_type = ''tun'', dv_backend_public_credential = ''pk'', dv_ipv4 = ''100.64.0.2'',
          dv_os = ''linux'', dv_arch = ''x86_64'', dv_client_version = ''0.1.0'', dv_last_seen_at = Some ''2024-01-01 00:00:00'',
          dv_created_at = ''2024-01-01 00:00:00'', dv_updated_at = ''2024-01-01 00:00:00'', dv_deleted_at = None\<rparr>,
        \<lparr>dv_id = ''dev_b0'', dv_network_id = ''net_default'', dv_hostname = ''laptop'', dv_machine_key = ''m2'',
          dv_node_key = ''node_b1'', dv_backend_type = ''tun'', dv_backend_public_credential = ''pk'', dv_ipv4 = ''100.64.0.3'',
          dv_os = ''linux'', dv_arch = ''x86_64'', dv_client_version = ''0.1.0'', dv_last_seen_at = Some ''2024-01-01 00:00:00'',
          dv_created_at = ''2024-01-01 00:00:00'', dv_updated_at = ''2024-01-01 00:00:00'', dv_deleted_at = None\<rparr>],
      db_ips =
       [\<lparr>ia_id = ''ip_a3'', ia_network_id = ''net_default'', ia_device_id = ''dev_a0'', ia_ip = ''100.64.0.2'', ia_state = ''assigned''\<rparr>,
        \<lparr>ia_id = ''ip_b3'', ia_network_id = ''net_default'', ia_device_id = ''dev_b0'', ia_ip = ''100.64.0.3'', ia_state = ''assigned''\<rparr>],
      db_endpoints = [],
      db_dns =
       [\<lparr>dn_id = ''dns_a2'', dn_network_id = ''net_default'', dn_device_id = ''dev_a0'', dn_name = ''laptop.mesh'', dn_type = ''A'',
          dn_value = ''100.64.0.2'', dn_updated_at = ''2024-01-01 00:00:00''\<rparr>,
        \<lparr>dn_id = ''dns_b2'', dn_network_id = ''net_default'', dn_device_id = ''dev_b0'', dn_name = ''laptop-b0.mesh'', dn_type = ''A'',
          dn_value = ''100.64.0.3'', dn_updated_at = ''2024-01-01 00:00:00''\<rparr>]\<rparr>"
  by code_simp

lemma demo_reachable:
  "control_step\<^sup>*\<^sup>* database_empty demo_keys" "control_step\<^sup>*\<^sup>* database_empty demo_one_device" "control_step\<^sup>*\<^sup>* database_empty demo_two_devices"
proof -
  have "control_step\<^sup>*\<^sup>* database_empty (snd (create_auth_key (demo_control_env ''k'') database_empty))"
    by (rule r_into_rtranclp) (rule control_step.auth_key)
  then show keys: "control_step\<^sup>*\<^sup>* database_empty demo_keys"
    unfolding demo_keys_def by (rule rtranclp.rtrancl_into_rtrancl) (rule control_step.auth_key)
  then show one: "control_step\<^sup>*\<^sup>* database_empty demo_one_device"
    unfolding demo_one_device_def by (rule rtranclp.rtrancl_into_rtrancl) (rule control_step.register)
  then show "control_step\<^sup>*\<^sup>* database_empty demo_two_devices"
    unfolding demo_two_devices_def by (rule rtranclp.rtrancl_into_rtrancl) (rule control_step.register)
qed

lemma demo_map_answered:
  obtains m where "network_map (demo_control_env ''c'') demo_app ''dev_a0'' ''node_a1'' demo_two_devices = Inr m"
    and "map nmp_ipv4 (nm_peers m) = [''100.64.0.3'']"
    and "map (\<lambda>r. (dr_name r, dr_value r)) (nm_dns_records m) = [(''laptop-b0.mesh'', ''100.64.0.3''), (''laptop.mesh'', ''100.64.0.2'')]"
proof -
  have "map_sum (\<lambda>_. ()) (\<lambda>m. (map nmp_ipv4 (nm_peers m), map (\<lambda>r. (dr_name r, dr_value r)) (nm_dns_records m)))
      (network_map (demo_control_env ''c'') demo_app ''dev_a0'' ''node_a1'' demo_two_devices) =
    Inr ([''100.64.0.3''], [(''laptop-b0.mesh'', ''100.64.0.3''), (''laptop.mesh'', ''100.64.0.2'')])"
    by code_simp
  with that show ?thesis
    by (cases "network_map (demo_control_env ''c'') demo_app ''dev_a0'' ''node_a1'' demo_two_devices") auto
qed

theorem network_map_exact_witness:
  "\<exists>m. network_map (demo_control_env ''c'') demo_app ''dev_a0'' ''node_a1'' demo_two_devices = Inr m \<and>
     map nmp_ipv4 (nm_peers m) = [''100.64.0.3''] \<and>
     map (\<lambda>r. (dr_name r, dr_value r)) (nm_dns_records m) = [(''laptop-b0.mesh'', ''100.64.0.3''), (''laptop.mesh'', ''100.64.0.2'')] \<and>
     bij_betw dr_device_id (set (nm_dns_records m)) {dv_id d | d. d \<in> set (db_devices demo_two_devices) \<and> live d}"
proof -
  from demo_map_answered obtain m where m: "network_map (demo_control_env ''c'') demo_app ''dev_a0'' ''node_a1'' demo_two_devices = Inr m"
    "map nmp_ipv4 (nm_peers m) = [''100.64.0.3'']"
    "map (\<lambda>r. (dr_name r, dr_value r)) (nm_dns_records m) = [(''laptop-b0.mesh'', ''100.64.0.3''), (''laptop.mesh'', ''100.64.0.2'')]" .
  have "bij_betw dr_device_id (set (nm_dns_records m)) {dv_id d | d. d \<in> set (db_devices demo_two_devices) \<and> live d}"
    using network_map_exact [OF demo_reachable(3) m(1)] by (elim conjE)
  with m show ?thesis by (intro exI [of _ m] conjI)
qed

lemma demo_registration:
  "register_device (demo_control_env ''a'') (demo_register_request ''tfk_k1'' ''m1'') demo_keys =
     (Inr \<lparr>rr_device_id = ''dev_a0'', rr_node_key = ''node_a1'', rr_ipv4 = ''100.64.0.2'',
        rr_network_id = ''net_default'', rr_poll_interval_seconds = 5\<rparr>, demo_one_device)"
proof -
  have "fst (register_device (demo_control_env ''a'') (demo_register_request ''tfk_k1'' ''m1'') demo_keys) =
     Inr \<lparr>rr_device_id = ''dev_a0'', rr_node_key = ''node_a1'', rr_ipv4 = ''100.64.0.2'',
        rr_network_id = ''net_default'', rr_poll_interval_seconds = 5\<rparr>"
    by code_simp
  then show ?thesis by (simp add: demo_one_device_def prod_eq_iff)
qed

theorem register_again_same_device_witness:
  "register_device (demo_control_env ''b'') (demo_register_request ''no such key'' ''m1'') demo_one_device =
     (Inr \<lparr>rr_device_id = ''dev_a0'', rr_node_key = ''node_a1'', rr_ipv4 = ''100.64.0.2'',
        rr_network_id = ''net_default'', rr_poll_interval_seconds = 5\<rparr>, demo_one_device)"
proof -
  have "find_existing_device (rq_machine_key (demo_register_request ''tfk_k1'' ''m1'')) demo_keys = None" by code_simp
  moreover have "rq_machine_key (demo_register_request ''no such key'' ''m1'') = rq_machine_key (demo_register_request ''tfk_k1'' ''m1'')"
    by (simp add: demo_register_request_def)
  ultimately show ?thesis using register_again_same_device [OF _ demo_registration] by blast
qed

theorem deleted_device_cannot_reregister_witness:
  "\<exists>e. register_device (demo_control_env ''b'') (demo_register_request ''tfk_l1'' ''m1'')
      (snd (delete_device (demo_control_env ''d'') ''dev_a0'' demo_one_device)) =
    (Inl e, snd (delete_device (demo_control_env ''d'') ''dev_a0'' demo_one_device))"
proof -
  let ?d = "hd (db_devices demo_one_device)"
  have d: "db_devices demo_one_device \<noteq> []" "dv_id ?d = ''dev_a0''" "dv_machine_key ?d = ''m1''" by code_simp+
  have "fst (delete_device (demo_control_env ''d'') ''dev_a0'' demo_one_device) = Inr ()" by code_simp
  then have "delete_device (demo_control_env ''d'') (dv_id ?d) demo_one_device =
      (Inr (), snd (delete_device (demo_control_env ''d'') ''dev_a0'' demo_one_device))"
    by (simp add: d prod_eq_iff)
  from deleted_device_cannot_reregister [OF demo_reachable(2) hd_in_set [OF d(1)] this] show ?thesis
    by (simp add: d(3) demo_register_request_def)
qed

text \<open>What a step leaves of the tables of keys and of endpoints.\<close>

lemma dns_record_frame:
  "upsert_device_dns_record env u n i h a db = Inr db' \<Longrightarrow>
     db_auth_keys db' = db_auth_keys db \<and> db_endpoints db' = db_endpoints db"
  by (auto simp: upsert_device_dns_record_def upsert_dns_def and_then_eq_Inr Let_def split: if_splits)

lemma delete_device_frame:
  "db_auth_keys (snd (delete_device env i db)) = db_auth_keys db" "db_endpoints (snd (delete_device env i db)) = db_endpoints db"
  by (auto simp: delete_device_def transaction_def Let_def)

lemma rename_device_frame:
  "db_auth_keys (snd (rename_device env i rq db)) = db_auth_keys db" "db_endpoints (snd (rename_device env i rq db)) = db_endpoints db"
  by (auto simp: rename_device_def transaction_def Let_def and_then_def split: sum.splits dest: dns_record_frame)

lemma register_commit_frame:
  "db_endpoints (snd (register_commit_phase env request hostname ipv4 db)) = db_endpoints db \<and>
   (db_auth_keys (snd (register_commit_phase env request hostname ipv4 db)) = db_auth_keys db \<or>
    db_auth_keys (snd (register_commit_phase env request hostname ipv4 db)) =
      db_auth_keys (mark_key_used env (hash_secret env (rq_auth_key request)) db))"
proof (cases "register_commit_phase env request hostname ipv4 db")
  case (Pair r db')
  show ?thesis
  proof (cases r)
    case (Inl e)
    with Pair have "db' = db" by (auto simp: register_commit_phase_def transaction_def Let_def split: sum.splits prod.splits)
    with Pair show ?thesis by simp
  next
    case (Inr resp)
    from Pair Inr have "register_commit_phase env request hostname ipv4 db = (Inr resp, db')" by simp
    then show ?thesis by (rule register_commit_cases) (auto simp: Pair mark_key_used_def dest: dns_record_frame)
  qed
qed

lemma register_device_db:
  "snd (register_device env request db) = db \<or>
     (\<exists>hostname ipv4. snd (register_device env request db) = snd (register_commit_phase env request hostname ipv4 db))"
  by (auto simp: register_device_def split: sum.split register_check.split)

lemma heartbeat_frame: "db_auth_keys (heartbeat_commit_phase env request db) = db_auth_keys db"
proof -
  have "db_auth_keys (fold (\<lambda>p. upsert_endpoint (row p)) ps db) = db_auth_keys db"
    for row :: "endpoint_payload \<Rightarrow> endpoint_row" and ps db
    by (induction ps arbitrary: db) (simp_all add: upsert_endpoint_def)
  then show ?thesis by (simp add: heartbeat_commit_phase_def Let_def delete_expired_endpoints_def)
qed

text \<open>The row of an auth key: known, not revoked, for one use, and used if \<open>used\<close> says so.\<close>

definition key_row :: "string \<Rightarrow> bool \<Rightarrow> database \<Rightarrow> bool" where
  "key_row h used db \<longleftrightarrow> (\<exists>k. find (\<lambda>k. ar_key_hash k = h) (db_auth_keys db) = Some k \<and> ar_revoked_at k = None \<and>
     ar_reusable k = 0 \<and> (used \<longrightarrow> ar_used_at k \<noteq> None))"

lemma find_append: "find p xs = Some x \<Longrightarrow> find p (xs @ ys) = Some x"
  by (induction xs) (auto split: if_splits)

lemma key_row_cong: "db_auth_keys a = db_auth_keys b \<Longrightarrow> key_row h used a = key_row h used b"
  by (simp add: key_row_def)

lemma key_row_mark:
  assumes "key_row h used db"
  shows "key_row h used (mark_key_used env h' db)" "key_row h True (mark_key_used env h db)"
proof -
  let ?f = "\<lambda>k. k\<lparr>ar_used_at := (case ar_used_at k of Some t \<Rightarrow> Some t | None \<Rightarrow> Some (ce_now env))\<rparr>"
  have marked: "find (\<lambda>k. ar_key_hash k = h) (update_where (\<lambda>k. ar_key_hash k = g) ?f keys) =
      map_option (\<lambda>k. if ar_key_hash k = g then ?f k else k) (find (\<lambda>k. ar_key_hash k = h) keys)" for g keys
    by (induction keys) (auto simp: update_where_def)
  obtain k where k: "find (\<lambda>k. ar_key_hash k = h) (db_auth_keys db) = Some k" "ar_revoked_at k = None" "ar_reusable k = 0"
    "used \<longrightarrow> ar_used_at k \<noteq> None" using assms by (auto simp: key_row_def)
  from k show "key_row h used (mark_key_used env h' db)" by (auto simp: key_row_def mark_key_used_def marked)
  from k find_SomeD [OF k(1)] show "key_row h True (mark_key_used env h db)"
    by (simp add: key_row_def mark_key_used_def marked split: option.split)
qed

lemma key_row_commit: "key_row h used db \<Longrightarrow> key_row h used (snd (register_commit_phase env request hostname ipv4 db))"
  using register_commit_frame [of env request hostname ipv4 db] key_row_cong key_row_mark(1) by blast

lemma key_row_step:
  assumes "control_step a b" and "key_row h used a"
  shows "key_row h used b"
  using assms(1)
proof (cases rule: control_step.cases)
  case (auth_key env)
  have "db_auth_keys b = db_auth_keys a \<or> (\<exists>k. db_auth_keys b = db_auth_keys a @ [k])"
    unfolding auth_key by (auto simp: create_auth_key_def insert_auth_key_def Let_def)
  with assms(2) show ?thesis by (auto simp: key_row_def find_append)
next
  case (delete env device_id)
  with assms(2) show ?thesis by (simp add: key_row_def delete_device_frame)
next
  case (rename env device_id rq)
  with assms(2) show ?thesis by (simp add: key_row_def rename_device_frame)
next
  case (register env request)
  show ?thesis using register_device_db [of env request a] assms(2) key_row_commit by (auto simp: register)
next
  case (commit earlier ipv4 env request hostname)
  then show ?thesis using assms(2) key_row_commit by simp
next
  case (beat env rq)
  then show ?thesis using assms(2) by (simp add: key_row_def heartbeat_def heartbeat_frame Let_def split: sum.split)
next
  case (beat_commit env rq)
  then show ?thesis using assms(2) by (simp add: key_row_def heartbeat_frame)
qed

lemma key_row_steps: "control_step\<^sup>*\<^sup>* a b \<Longrightarrow> key_row h used a \<Longrightarrow> key_row h used b"
  by (induction rule: rtranclp_induct) (auto intro: key_row_step)

text \<open>
  C18. An auth key that was used is used up: when a registration was checked, other requests ran, it was committed, and any
  requests ran afterwards, then every registration of a machine that is not registered yet, with the same key, is
  refused with 401 from then on and changes nothing. A registration that was checked before that
  commit is not refused by it (\<open>register_commit_ignores_auth_key\<close>).
\<close>

theorem auth_key_single_use:
  assumes "control_step\<^sup>*\<^sup>* database_empty db0" and "register_check_phase env request db0 = Inr (MayRegister hostname)"
    and "control_step\<^sup>*\<^sup>* db0 db" and "register_commit_phase env request hostname ipv4 db = (Inr resp, db1)"
    and "control_step\<^sup>*\<^sup>* db1 db2"
    and "rq_auth_key request' = rq_auth_key request" and "ce_sha256_hex env' = ce_sha256_hex env"
    and "find_existing_device (rq_machine_key request') db2 = None"
  shows "register_check_phase env' request' db2 = Inl (unauthorized ''auth key already used'') \<and>
    register_device env' request' db2 = (Inl (unauthorized ''auth key already used''), db2)"
proof -
  let ?h = "hash_secret env (rq_auth_key request)"
  have "keys_ok db0" using control.reachable_inv [OF refl assms(1)] by (simp add: database_ok_def)
  moreover obtain k where k: "find (\<lambda>k. ar_key_hash k = ?h) (db_auth_keys db0) = Some k" "ar_revoked_at k = None"
    using assms(2) by (auto simp: register_check_phase_def validate_auth_key_def and_then_def split: option.splits if_splits sum.splits)
  ultimately have "key_row ?h False db0" using find_SomeD [OF k(1)] by (simp add: key_row_def keys_ok_def)
  then have "key_row ?h False db" by (rule key_row_steps [OF assms(3)])
  moreover from assms(4) have "db_auth_keys db1 = db_auth_keys (mark_key_used env ?h db)"
    by (rule register_commit_cases) (auto simp: mark_key_used_def dest: dns_record_frame)
  ultimately have "key_row ?h True db1" using key_row_mark(2) key_row_cong by blast
  then have "key_row ?h True db2" by (rule key_row_steps [OF assms(5)])
  moreover have "hash_secret env' (rq_auth_key request') = ?h" using assms(6,7) by (simp add: hash_secret_def)
  ultimately have "validate_auth_key env' (rq_auth_key request') db2 = Inl (unauthorized ''auth key already used'')"
    by (auto simp: validate_auth_key_def key_row_def)
  with assms(8) show ?thesis by (simp add: register_device_def register_check_phase_def)
qed

theorem auth_key_single_use_witness:
  "register_device (demo_control_env ''c'') (demo_register_request ''tfk_k1'' ''m3'') demo_two_devices =
     (Inl (unauthorized ''auth key already used''), demo_two_devices)"
proof -
  have new: "find_existing_device (rq_machine_key (demo_register_request ''tfk_k1'' ''m1'')) demo_keys = None"
    "find_existing_device (rq_machine_key (demo_register_request ''tfk_k1'' ''m3'')) demo_two_devices = None" by code_simp+
  obtain hostname ipv4 where "normalize_hostname (rq_hostname (demo_register_request ''tfk_k1'' ''m1'')) = Inr hostname"
    and "validate_auth_key (demo_control_env ''a'') (rq_auth_key (demo_register_request ''tfk_k1'' ''m1'')) demo_keys = Inr ()"
    and commit: "register_commit_phase (demo_control_env ''a'') (demo_register_request ''tfk_k1'' ''m1'') hostname ipv4 demo_keys =
      (Inr \<lparr>rr_device_id = ''dev_a0'', rr_node_key = ''node_a1'', rr_ipv4 = ''100.64.0.2'',
        rr_network_id = ''net_default'', rr_poll_interval_seconds = 5\<rparr>, demo_one_device)"
    by (rule register_device_new [OF demo_registration new(1)])
  then have "register_check_phase (demo_control_env ''a'') (demo_register_request ''tfk_k1'' ''m1'') demo_keys = Inr (MayRegister hostname)"
    using new(1) by (simp add: register_check_phase_def)
  moreover have "control_step\<^sup>*\<^sup>* demo_one_device demo_two_devices"
    unfolding demo_two_devices_def by (rule r_into_rtranclp) (rule control_step.register)
  ultimately show ?thesis
    using auth_key_single_use [OF demo_reachable(1) _ rtranclp.rtrancl_refl commit, of demo_two_devices
        "demo_register_request ''tfk_k1'' ''m3''" "demo_control_env ''c''"] new(2)
    by (simp add: demo_register_request_def demo_control_env_def)
qed

text \<open>
  An accepted host name is a DNS label: 1 to 63 lower-case letters, digits and hyphens, with no
  hyphen at either end, and normalizing it again gives the same name; its DNS name is never longer
  than 68 characters.
\<close>

theorem normalize_hostname_label:
  assumes "normalize_hostname value = Inr hostname"
  shows "hostname \<noteq> [] \<and> length hostname \<le> 63 \<and> hd hostname \<noteq> CHR ''-'' \<and> last hostname \<noteq> CHR ''-'' \<and>
    list_all (\<lambda>c. is_ascii_lowercase c \<or> is_ascii_digit c \<or> c = CHR ''-'') hostname \<and>
    normalize_hostname hostname = Inr hostname \<and> length (dns_name hostname) \<le> 68"
proof -
  let ?label = "\<lambda>c. is_ascii_lowercase c \<or> is_ascii_digit c \<or> c = CHR ''-''"
  from assms have h: "hostname \<noteq> []" "length hostname \<le> 63" "\<not> starts_with hostname ''-''" "\<not> ends_with hostname ''-''"
    "list_all ?label hostname"
    by (auto simp: normalize_hostname_def Let_def split: if_splits)
  have solid: "solid c" and lower: "char_to_lower c = c" if "?label c" for c
    using that by (auto simp: solid_def is_ascii_lowercase_def is_ascii_digit_def char_to_lower_def is_ascii_uppercase_def)
  have "to_ascii_lowercase hostname = hostname"
    using h(5) lower by (simp add: to_ascii_lowercase_def list_all_iff map_idI)
  moreover have "trim hostname = hostname" using h(5) solid by (intro trim_solid) (auto simp: list_all_iff)
  ultimately have "normalize_hostname hostname = Inr hostname" using h by (simp add: normalize_hostname_def)
  moreover have "hd hostname \<noteq> CHR ''-''" using h(1,3) by (cases hostname) auto
  moreover have "last hostname \<noteq> CHR ''-''" using h(1,4) by (cases hostname rule: rev_cases) auto
  ultimately show ?thesis using h by (simp add: dns_name_def)
qed

theorem normalize_hostname_label_witness:
  "normalize_hostname '' Laptop-7 '' = Inr ''laptop-7'' \<and> normalize_hostname ''laptop-7'' = Inr ''laptop-7''"
proof -
  have "normalize_hostname '' Laptop-7 '' = Inr ''laptop-7''" by code_simp
  with normalize_hostname_label [OF this] show ?thesis by simp
qed

end
