(* ===== verification/Agent_Dns.thy ===== *)
theory Agent_Dns
  imports Core_Protocol
begin

unbundle bit_operations_syntax

text \<open>
  \<open>tfscale-agent/src/dns.rs\<close>: the DNS proxy of the agent, from the bytes of a query to the bytes of
  its answer. Every index and slice of the source is guarded by the comparisons before it, so
  no access here is out of range; \<open>parse_query_bounds\<close> states this for the slice that
  \<open>build_response\<close> takes.
\<close>

section \<open>Names\<close>

definition TYPE_A :: u16 where "TYPE_A = 1"
definition CLASS_IN :: u16 where "CLASS_IN = 1"
definition RCODE_NXDOMAIN :: u16 where "RCODE_NXDOMAIN = 3"
definition RCODE_NOTIMP :: u16 where "RCODE_NOTIMP = 4"
definition RESPONSE_TTL_SECONDS :: u32 where "RESPONSE_TTL_SECONDS = 30"
definition MAX_DNS_PACKET_SIZE :: nat where "MAX_DNS_PACKET_SIZE = 512"

lemmas dns_consts = TYPE_A_def CLASS_IN_def RCODE_NXDOMAIN_def RCODE_NOTIMP_def RESPONSE_TTL_SECONDS_def

definition normalize_name :: "string \<Rightarrow> string" where
  "normalize_name value = to_ascii_lowercase (trim_end_matches CHR ''.'' value)"

definition normalize_suffix :: "string \<Rightarrow> string" where
  "normalize_suffix value = to_ascii_lowercase (trim_matches CHR ''.'' value)"

definition resolve_a :: "dns_record list \<Rightarrow> string \<Rightarrow> string \<Rightarrow> ipv4_addr option" where
  "resolve_a records qname sfx =
     (let query_name = normalize_name qname in
      if \<not> ends_with query_name (''.'' @ normalize_suffix sfx) then None
      else Option.bind
             (find (\<lambda>r. eq_ignore_ascii_case (dr_record_type r) ''A'' \<and> normalize_name (dr_name r) = query_name) records)
             (\<lambda>r. parse_ipv4 (dr_value r)))"

section \<open>Queries\<close>

datatype dns_error = DnsError string | DnsUtf8Error

record dns_query =
  dq_id :: u16
  dq_qname :: string
  dq_qtype :: u16
  dq_qclass :: u16
  dq_question_end :: nat

text \<open>The loop over the labels of the question, from \<open>offset\<close>: the labels and the offset behind them.\<close>

function read_labels :: "bytes \<Rightarrow> nat \<Rightarrow> dns_error + string list \<times> nat" where
  "read_labels packet offset =
     (if length packet \<le> offset then Inl (DnsError ''DNS question name is truncated'')
      else
        let len = unat (packet ! offset); offset = offset + 1 in
        if len = 0 then Inr ([], offset)
        else if len AND 0xC0 \<noteq> 0 then Inl (DnsError ''compressed DNS question names are not supported'')
        else if 63 < len \<or> length packet < offset + len then Inl (DnsError ''invalid DNS label length'')
        else
          (case from_utf8 (slice offset (offset + len) packet) of
             None \<Rightarrow> Inl DnsUtf8Error
           | Some label \<Rightarrow>
               (case read_labels packet (offset + len) of
                  Inl e \<Rightarrow> Inl e
                | Inr (labels, end) \<Rightarrow> Inr (label # labels, end))))"
  by pat_completeness auto
termination
  by (relation "measure (\<lambda>(packet, offset). length packet - offset)") auto

declare read_labels.simps [simp del]

definition parse_query :: "bytes \<Rightarrow> dns_error + dns_query" where
  "parse_query packet =
     (if length packet < 12 then Inl (DnsError ''DNS packet is too short'')
      else if u16_from_be_bytes [packet ! 4, packet ! 5] \<noteq> 1
        then Inl (DnsError ''only one DNS question is supported'')
      else
        and_then (read_labels packet 12) (\<lambda>(labels, offset).
          if length packet < offset + 4 then Inl (DnsError ''DNS question type/class is truncated'')
          else Inr
            \<lparr>dq_id = u16_from_be_bytes [packet ! 0, packet ! 1],
             dq_qname = join_with ''.'' labels,
             dq_qtype = u16_from_be_bytes [packet ! offset, packet ! (offset + 1)],
             dq_qclass = u16_from_be_bytes [packet ! (offset + 2), packet ! (offset + 3)],
             dq_question_end = offset + 4\<rparr>))"

section \<open>Responses\<close>

definition build_response :: "bytes \<Rightarrow> dns_record list \<Rightarrow> string \<Rightarrow> dns_error + bytes" where
  "build_response request records sfx =
     and_then (parse_query request) (\<lambda>query.
       let answer = (if dq_qtype query = TYPE_A \<and> dq_qclass query = CLASS_IN
                     then resolve_a records (dq_qname query) sfx else None);
           rcode = (if dq_qtype query = TYPE_A
                    then if answer \<noteq> None then 0 else RCODE_NXDOMAIN else RCODE_NOTIMP) in
       Inr (u16_to_be_bytes (dq_id query) @
            u16_to_be_bytes (0x8000 OR 0x0400 OR 0x0080 OR rcode) @
            u16_to_be_bytes 1 @
            u16_to_be_bytes (if answer \<noteq> None then 1 else 0) @
            u16_to_be_bytes 0 @
            u16_to_be_bytes 0 @
            slice 12 (dq_question_end query) request @
            (case answer of
               None \<Rightarrow> []
             | Some ipv4 \<Rightarrow>
                 u16_to_be_bytes 0xC00C @ u16_to_be_bytes TYPE_A @ u16_to_be_bytes CLASS_IN @
                 u32_to_be_bytes RESPONSE_TTL_SECONDS @ u16_to_be_bytes 4 @ octets ipv4)))"

text \<open>
  The loop of the proxy, over what the socket delivers: a datagram with the sender, the records at
  that time and whether the answer can be sent, or an error. The result is what was sent, and
  the error the loop ended with, if it ended.
\<close>

record dns_round =
  dr_received :: "string + bytes \<times> socket_addr"
  dr_records :: "dns_record list"
  dr_send_result :: "string + unit"

fun run_dns_proxy :: "string \<Rightarrow> dns_round list \<Rightarrow> (bytes \<times> socket_addr) list \<times> string option" where
  "run_dns_proxy sfx [] = ([], None)"
| "run_dns_proxy sfx (r # rounds) =
     (case dr_received r of
        Inl e \<Rightarrow> ([], Some e)
      | Inr (datagram, peer) \<Rightarrow>
          (case build_response (take MAX_DNS_PACKET_SIZE datagram) (dr_records r) sfx of
             Inl _ \<Rightarrow> run_dns_proxy sfx rounds
           | Inr response \<Rightarrow>
               (case dr_send_result r of
                  Inl e \<Rightarrow> ([], Some e)
                | Inr _ \<Rightarrow> let (sent, stop) = run_dns_proxy sfx rounds in ((response, peer) # sent, stop))))"

text \<open>
  \<open>DnsRuntime\<close>: the records behind a lock, shared by the agent, which replaces them, and the proxy, which
  reads them anew for every request. What happens in one process is a sequence of events of the two.
\<close>

record dns_config =
  dc_listen :: socket_addr
  dc_suffix :: string

record dns_runtime =
  dn_records :: "dns_record list"

definition dns_runtime_new :: "dns_record list \<Rightarrow> dns_runtime" where
  "dns_runtime_new records = \<lparr>dn_records = records\<rparr>"

definition dns_set_records :: "dns_record list \<Rightarrow> dns_runtime \<Rightarrow> dns_runtime" where
  "dns_set_records records runtime = runtime\<lparr>dn_records := records\<rparr>"

definition dns_records_len :: "dns_runtime \<Rightarrow> nat" where
  "dns_records_len runtime = length (dn_records runtime)"

datatype dns_event =
    SetRecords "dns_record list"
  | ProxyReceived "string + bytes \<times> socket_addr" "string + unit"

text \<open>\<open>spawn_dns_proxy\<close>: both calls on the socket must succeed before the task of the proxy exists.\<close>

definition spawn_dns_proxy ::
  "(socket_addr \<Rightarrow> string + 'sock) \<Rightarrow> ('sock \<Rightarrow> string + socket_addr) \<Rightarrow> dns_config \<Rightarrow> string + 'sock \<times> socket_addr" where
  "spawn_dns_proxy bind local_addr config =
     and_then (bind (dc_listen config)) (\<lambda>socket. and_then (local_addr socket) (\<lambda>listen. Inr (socket, listen)))"

fun dns_process :: "dns_config \<Rightarrow> dns_event list \<Rightarrow> dns_runtime \<Rightarrow> (bytes \<times> socket_addr) list \<times> string option" where
  "dns_process config [] runtime = ([], None)"
| "dns_process config (SetRecords records # events) runtime = dns_process config events (dns_set_records records runtime)"
| "dns_process config (ProxyReceived received send_result # events) runtime =
     (case received of
        Inl e \<Rightarrow> ([], Some e)
      | Inr (datagram, peer) \<Rightarrow>
          (case build_response (take MAX_DNS_PACKET_SIZE datagram) (dn_records runtime) (dc_suffix config) of
             Inl _ \<Rightarrow> dns_process config events runtime
           | Inr response \<Rightarrow>
               (case send_result of
                  Inl e \<Rightarrow> ([], Some e)
                | Inr _ \<Rightarrow> let (sent, stop) = dns_process config events runtime in ((response, peer) # sent, stop))))"

text \<open>The rounds of the proxy, each with the records that were set last.\<close>

fun proxy_rounds :: "dns_event list \<Rightarrow> dns_runtime \<Rightarrow> dns_round list" where
  "proxy_rounds [] runtime = []"
| "proxy_rounds (SetRecords records # events) runtime = proxy_rounds events (dns_set_records records runtime)"
| "proxy_rounds (ProxyReceived received send_result # events) runtime =
     \<lparr>dr_received = received, dr_records = dn_records runtime, dr_send_result = send_result\<rparr> # proxy_rounds events runtime"

lemma dns_process_rounds: "dns_process config events runtime = run_dns_proxy (dc_suffix config) (proxy_rounds events runtime)"
  by (induction config events runtime rule: dns_process.induct)
    (auto split: sum.splits)

text \<open>An answer is made from the records that were set last before it, however the events are interleaved.\<close>

lemma proxy_rounds_append:
  "proxy_rounds (events @ SetRecords records # map (\<lambda>(r, ok). ProxyReceived r ok) requests) runtime =
     proxy_rounds events runtime @ map (\<lambda>(r, ok). \<lparr>dr_received = r, dr_records = records, dr_send_result = ok\<rparr>) requests"
proof (induction events runtime rule: proxy_rounds.induct)
  case (1 runtime)
  have "proxy_rounds (map (\<lambda>(r, ok). ProxyReceived r ok) requests) rt =
      map (\<lambda>(r, ok). \<lparr>dr_received = r, dr_records = dn_records rt, dr_send_result = ok\<rparr>) requests" for rt
    by (induction requests) auto
  then show ?case by (simp add: dns_set_records_def)
qed auto

section \<open>The wire format of a name\<close>

definition label_ok :: "string \<Rightarrow> bool" where
  "label_ok l \<longleftrightarrow> l \<noteq> [] \<and> length l \<le> 63 \<and> utf8_valid (as_bytes l)"

definition encode_name :: "string list \<Rightarrow> bytes" where
  "encode_name labels = concat (map (\<lambda>l. word_of_nat (length l) # as_bytes l) labels) @ [0]"

lemma encode_name_simps [simp]:
  "encode_name [] = [0]" "encode_name (l # ls) = word_of_nat (length l) # as_bytes l @ encode_name ls"
  by (simp_all add: encode_name_def)

lemma label_length: "label_ok l \<Longrightarrow> unat (word_of_nat (length l) :: u8) = length l"
  by (simp add: label_ok_def unat_of_nat)

lemma small_and_C0: "n \<le> 63 \<Longrightarrow> n AND 0xC0 = (0 :: nat)"
proof -
  assume "n \<le> 63"
  then have "n \<in> set [0..<64]" by simp
  moreover have "list_all (\<lambda>n. n AND 0xC0 = (0 :: nat)) [0..<64]" by code_simp
  ultimately show ?thesis by (simp only: list_all_iff)
qed

lemma from_utf8_Some_iff: "from_utf8 bs = Some s \<longleftrightarrow> bs = as_bytes s \<and> utf8_valid (as_bytes s)"
  by (auto simp: from_utf8_def)

text \<open>\<open>read_labels\<close> accepts exactly the encodings of names, and ends right behind them.\<close>

lemma read_labels_encoded:
  "list_all label_ok labels \<Longrightarrow> drop offset packet = encode_name labels @ rest \<Longrightarrow>
     read_labels packet offset = Inr (labels, offset + length (encode_name labels))"
proof (induction labels arbitrary: offset)
  case Nil
  then have "offset < length packet" "packet ! offset = 0"
    by (metis drop_eq_Nil encode_name_simps(1) list.distinct(1) append_Cons not_le,
        metis drop_eq_Nil encode_name_simps(1) list.distinct(1) append_Cons not_le nth_via_drop)
  then show ?case by (simp add: read_labels.simps [of packet offset] Let_def)
next
  case (Cons l ls)
  from Cons.prems have l: "label_ok l" and drop: "drop offset packet = word_of_nat (length l) # as_bytes l @ encode_name ls @ rest" by simp_all
  have off: "offset < length packet" "packet ! offset = word_of_nat (length l)"
    using drop by (metis drop_eq_Nil list.distinct(1) not_le, metis nth_via_drop)
  have tail: "drop (Suc offset) packet = as_bytes l @ encode_name ls @ rest" using drop by (metis drop_Suc list.sel(3) tl_drop)
  then have len: "length packet \<ge> Suc offset + length l"
    by (metis add.commute le_add1 length_append length_as_bytes length_drop nat_le_linear not_less_eq_eq off(1) le_diff_conv2 Suc_leI)
  have "slice (Suc offset) (Suc (offset + length l)) packet = as_bytes l" using tail by (simp add: slice_def)
  moreover have "drop (Suc (offset + length l)) packet = encode_name ls @ rest"
    using tail by (metis add.commute add_Suc_right append_eq_conv_conj drop_drop length_as_bytes)
  then have "read_labels packet (Suc (offset + length l)) = Inr (ls, Suc (offset + length l) + length (encode_name ls))"
    using Cons by simp
  ultimately show ?case
    using l off len label_length [OF l]
    by (simp add: read_labels.simps [of packet offset] Let_def small_and_C0 label_ok_def from_utf8_def)
qed

lemma read_labels_accepts:
  "read_labels packet offset = Inr (labels, e) \<Longrightarrow>
     list_all label_ok labels \<and> (\<exists>rest. drop offset packet = encode_name labels @ rest) \<and>
     e = offset + length (encode_name labels)"
proof (induction packet offset arbitrary: labels e rule: read_labels.induct)
  case (1 packet offset)
  let ?len = "unat (packet ! offset)"
  from 1(2) have off: "offset < length packet"
    by (cases "length packet \<le> offset") (simp_all add: read_labels.simps [of packet offset])
  then have drop: "drop offset packet = packet ! offset # drop (Suc offset) packet" by (simp add: Cons_nth_drop_Suc)
  show ?case
  proof (cases "?len = 0")
    case True
    with 1(2) off have "labels = []" "e = Suc offset" by (simp_all add: read_labels.simps [of packet offset] Let_def)
    with True drop show ?thesis by (simp add: unat_eq_zero)
  next
    case False
    with 1(2) off obtain l ls where bounds: "?len \<le> 63" "Suc offset + ?len \<le> length packet"
      and c0: "?len AND 0xC0 = 0"
      and l: "from_utf8 (slice (Suc offset) (Suc offset + ?len) packet) = Some l"
      and ls: "read_labels packet (Suc offset + ?len) = Inr (ls, e)" and labels: "labels = l # ls"
      by (auto simp: read_labels.simps [of packet offset] Let_def not_less split: option.splits sum.splits prod.splits if_splits)
    from l have bytes: "slice (Suc offset) (Suc offset + ?len) packet = as_bytes l" and utf8: "utf8_valid (as_bytes l)"
      by (simp_all add: from_utf8_Some_iff)
    have len: "length l = ?len"
      using bounds(2) by (metis bytes length_as_bytes length_slice add_diff_cancel_left' min.absorb1 le_diff_conv2 add.commute add_leD1)
    have "list_all label_ok ls \<and> (\<exists>rest. drop (Suc offset + ?len) packet = encode_name ls @ rest) \<and>
        e = Suc offset + ?len + length (encode_name ls)"
      using 1(1) [of ?len "Suc offset" l ls e] off c0 bounds ls l False by simp
    then obtain rest where ok: "list_all label_ok ls" and rest: "drop (Suc offset + ?len) packet = encode_name ls @ rest"
      and e: "e = Suc offset + ?len + length (encode_name ls)" by blast
    have "drop (Suc offset) packet = as_bytes l @ encode_name ls @ rest"
      using bytes rest by (metis append_take_drop_id drop_drop slice_def add.commute add_diff_cancel_left')
    moreover have "packet ! offset = word_of_nat (length l)" by (simp add: len)
    moreover have "label_ok l" using len False bounds(1) utf8 by (auto simp: label_ok_def)
    ultimately show ?thesis using drop ok e len labels by simp
  qed
qed

section \<open>Queries on the wire\<close>

lemma u16_be_inverse: "u16_to_be_bytes (u16_from_be_bytes [a, b]) = [a, b]"
proof -
  have "be_value [a, b] < 65536" using be_value_less [of "[a, b]"] by simp
  then have "unat (word_of_nat (be_value [a, b]) :: u16) = be_value [a, b]" by (simp add: unat_of_nat)
  then show ?thesis using be_bytes_be_value [of "[a, b]"] by (simp add: u16_to_be_bytes_def u16_from_be_bytes_def numeral_2_eq_2)
qed

lemma u16_be_pair: "length bs = 2 \<Longrightarrow> [bs ! 0, bs ! 1] = bs"
  by (auto simp: numeral_2_eq_2 length_Suc_conv)

text \<open>A packet with one question: id, flags, the other counts, the name, type and class, and a rest.\<close>

definition query_packet :: "u16 \<Rightarrow> bytes \<Rightarrow> bytes \<Rightarrow> string list \<Rightarrow> u16 \<Rightarrow> u16 \<Rightarrow> bytes \<Rightarrow> bytes" where
  "query_packet qid flags counts labels qtype qclass rest =
     u16_to_be_bytes qid @ flags @ u16_to_be_bytes 1 @ counts @
     encode_name labels @ u16_to_be_bytes qtype @ u16_to_be_bytes qclass @ rest"

lemma parse_query_packet:
  assumes "length flags = 2" "length counts = 6" "list_all label_ok labels"
  shows "parse_query (query_packet qid flags counts labels qtype qclass rest) =
    Inr \<lparr>dq_id = qid, dq_qname = join_with ''.'' labels, dq_qtype = qtype, dq_qclass = qclass,
      dq_question_end = 16 + length (encode_name labels)\<rparr>"
proof -
  let ?p = "query_packet qid flags counts labels qtype qclass rest"
  let ?off = "12 + length (encode_name labels)"
  have labels: "read_labels ?p 12 = Inr (labels, ?off)"
    using assms by (intro read_labels_encoded) (simp_all add: query_packet_def)
  have at: "[?p ! 0, ?p ! 1] = u16_to_be_bytes qid" "[?p ! 4, ?p ! 5] = u16_to_be_bytes 1"
    "[?p ! ?off, ?p ! (?off + 1)] = u16_to_be_bytes qtype" "[?p ! (?off + 2), ?p ! (?off + 3)] = u16_to_be_bytes qclass"
    using assms u16_be_pair [of "u16_to_be_bytes qid"] u16_be_pair [of "u16_to_be_bytes 1"]
      u16_be_pair [of "u16_to_be_bytes qtype"] u16_be_pair [of "u16_to_be_bytes qclass"]
    by (simp_all add: query_packet_def nth_append)
  have "length ?p \<ge> ?off + 4" using assms by (simp add: query_packet_def)
  then show ?thesis
    using at [THEN arg_cong [where f = u16_from_be_bytes]] by (simp add: parse_query_def labels add.commute)
qed

lemma parse_query_accepts:
  assumes "parse_query packet = Inr q"
  obtains flags counts labels rest where "length flags = 2" "length counts = 6" "list_all label_ok labels"
    and "packet = query_packet (dq_id q) flags counts labels (dq_qtype q) (dq_qclass q) rest"
    and "dq_qname q = join_with ''.'' labels" and "dq_question_end q = 16 + length (encode_name labels)"
proof -
  from assms obtain labels off where len: "12 \<le> length packet" "off + 4 \<le> length packet"
    and one: "u16_from_be_bytes [packet ! 4, packet ! 5] = 1" and labels: "read_labels packet 12 = Inr (labels, off)"
    and q: "q = \<lparr>dq_id = u16_from_be_bytes [packet ! 0, packet ! 1], dq_qname = join_with ''.'' labels,
             dq_qtype = u16_from_be_bytes [packet ! off, packet ! (off + 1)],
             dq_qclass = u16_from_be_bytes [packet ! (off + 2), packet ! (off + 3)], dq_question_end = off + 4\<rparr>"
    by (auto simp: parse_query_def and_then_eq_Inr not_less split: if_splits)
  from read_labels_accepts [OF labels] obtain tail where ok: "list_all label_ok labels"
    and tail: "drop 12 packet = encode_name labels @ tail" and off: "off = 12 + length (encode_name labels)" by blast
  have "length packet = 12 + length (drop 12 packet)" using len(1) by simp
  then have tail_len: "4 \<le> length tail" using len(2) off by (simp add: tail)
  have head: "take 12 packet = u16_to_be_bytes (dq_id q) @ slice 2 4 packet @ u16_to_be_bytes 1 @ slice 6 12 packet"
  proof -
    have "take 12 packet = [packet ! 0, packet ! 1] @ slice 2 4 packet @ [packet ! 4, packet ! 5] @ slice 6 12 packet"
      using len(1) by (simp add: take_as_nths slice_as_nths upt_rec) (simp add: eval_nat_numeral)
    then show ?thesis using u16_be_inverse [of "packet ! 4" "packet ! 5"] by (simp add: q u16_be_inverse one)
  qed
  have "packet ! (off + i) = tail ! i" for i
  proof -
    have "drop off packet = tail" using tail off by (metis append_eq_conv_conj drop_drop add.commute)
    then show ?thesis using len(2) by (metis add_leD1 nth_drop)
  qed
  from this [of 0] this [of 1] this [of 2] this [of 3] have "tail = u16_to_be_bytes (dq_qtype q) @ u16_to_be_bytes (dq_qclass q) @ drop 4 tail"
    using tail_len append_take_drop_id [of 4 tail]
    by (simp add: q u16_be_inverse take_as_nths upt_rec) (simp add: eval_nat_numeral)
  then have "packet = query_packet (dq_id q) (slice 2 4 packet) (slice 6 12 packet) labels (dq_qtype q) (dq_qclass q) (drop 4 tail)"
    using append_take_drop_id [of 12 packet] unfolding query_packet_def tail head by simp
  with that [of "slice 2 4 packet" "slice 6 12 packet" labels "drop 4 tail"] ok len(1) off show ?thesis by (simp add: q)
qed

lemma parse_query_bounds:
  assumes "parse_query packet = Inr q"
  shows "17 \<le> dq_question_end q \<and> dq_question_end q \<le> length packet"
proof -
  from assms obtain flags counts labels rest where "length flags = 2" "length counts = 6"
    and packet: "packet = query_packet (dq_id q) flags counts labels (dq_qtype q) (dq_qclass q) rest"
    and "dq_question_end q = 16 + length (encode_name labels)" by (rule parse_query_accepts)
  moreover have "1 \<le> length (encode_name labels)" by (simp add: encode_name_def)
  moreover have "length packet = 16 + length (encode_name labels) + length rest"
    by (subst packet) (simp add: query_packet_def calculation(1,2))
  ultimately show ?thesis by simp
qed

section \<open>Properties\<close>

definition dns_answer :: "dns_record list \<Rightarrow> string \<Rightarrow> dns_query \<Rightarrow> ipv4_addr option" where
  "dns_answer records sfx q =
     (if dq_qtype q = TYPE_A \<and> dq_qclass q = CLASS_IN then resolve_a records (dq_qname q) sfx else None)"

lemma be_bytes_literal:
  "u16_to_be_bytes x = [word_of_nat (unat x div 256 mod 256), word_of_nat (unat x mod 256)]"
  "u32_to_be_bytes y = [word_of_nat (unat y div 256 div 256 div 256 mod 256), word_of_nat (unat y div 256 div 256 mod 256),
     word_of_nat (unat y div 256 mod 256), word_of_nat (unat y mod 256)]"
proof -
  have "4 = Suc (Suc (Suc (Suc 0)))" by simp
  then show "u32_to_be_bytes y = [word_of_nat (unat y div 256 div 256 div 256 mod 256), word_of_nat (unat y div 256 div 256 mod 256),
     word_of_nat (unat y div 256 mod 256), word_of_nat (unat y mod 256)]"
    by (simp only: u32_to_be_bytes_def be_bytes.simps append.simps)
qed (simp only: u16_to_be_bytes_def numeral_2_eq_2 be_bytes.simps append.simps)

lemma response_flags:
  assumes "rcode \<in> {0, 3, 4}"
  shows "u16_to_be_bytes (0x8000 OR 0x0400 OR 0x0080 OR rcode) = [0x84, 0x80 OR ucast rcode]"
proof -
  from assms consider "rcode = 0" | "rcode = 3" | "rcode = 4" by blast
  then show ?thesis by cases (simp_all add: be_bytes_literal)
qed

lemma drop_query_packet:
  "length flags = 2 \<Longrightarrow> length counts = 6 \<Longrightarrow>
     drop (16 + length (encode_name labels)) (query_packet qid flags counts labels qtype qclass rest) = rest"
  by (simp add: query_packet_def)

text \<open>
  C4. The DNS proxy's answer fits its question: a response is built exactly for the packets that
  carry one well-formed question; it has the id of the query and repeats its question, so that it
  parses to the same query; its code is 0 with one A record, whose last four bytes are the
  resolved address, when the name resolves, and otherwise NXDOMAIN for a query of type A and
  NOTIMP for any other, without a record.
\<close>

theorem dns_response_correct:
  assumes "build_response request records sfx = Inr response"
  shows "\<exists>q. parse_query request = Inr q \<and> parse_query response = Inr q \<and>
    response ! 3 AND 0x0F = (if dq_qtype q \<noteq> TYPE_A then 4 else if dns_answer records sfx q = None then 3 else 0) \<and>
    response ! 7 = (if dns_answer records sfx q = None then 0 else 1) \<and>
    drop (dq_question_end q) response =
      (case dns_answer records sfx q of
         None \<Rightarrow> []
       | Some ip \<Rightarrow> [0xC0, 0x0C, 0, 1, 0, 1, 0, 0, 0, 30, 0, 4] @ octets ip)"
proof -
  from assms obtain q where q: "parse_query request = Inr q"
    by (auto simp: build_response_def and_then_eq_Inr)
  let ?answer = "dns_answer records sfx q"
  define rcode :: u16 where "rcode = (if dq_qtype q = TYPE_A then if ?answer \<noteq> None then 0 else 3 else 4)"
  define counts where "counts = u16_to_be_bytes (if ?answer \<noteq> None then 1 else 0) @ u16_to_be_bytes 0 @ u16_to_be_bytes 0"
  define tail where "tail = (case ?answer of None \<Rightarrow> []
      | Some ipv4 \<Rightarrow> u16_to_be_bytes 0xC00C @ u16_to_be_bytes TYPE_A @ u16_to_be_bytes CLASS_IN @
                 u32_to_be_bytes RESPONSE_TTL_SECONDS @ u16_to_be_bytes 4 @ octets ipv4)"
  from q obtain flags counts' labels rest where w: "length flags = 2" "length counts' = 6" "list_all label_ok labels"
    "request = query_packet (dq_id q) flags counts' labels (dq_qtype q) (dq_qclass q) rest"
    "dq_qname q = join_with ''.'' labels" "dq_question_end q = 16 + length (encode_name labels)"
    by (rule parse_query_accepts)
  have question: "slice 12 (dq_question_end q) request = encode_name labels @ u16_to_be_bytes (dq_qtype q) @ u16_to_be_bytes (dq_qclass q)"
    unfolding w(4,6) query_packet_def slice_def using w(1,2) by simp
  have flags: "u16_to_be_bytes (0x8000 OR 0x0400 OR 0x0080 OR rcode) = [0x84, 0x80 OR ucast rcode]"
    by (rule response_flags) (simp add: rcode_def)
  have response: "response = query_packet (dq_id q) [0x84, 0x80 OR ucast rcode] counts labels (dq_qtype q) (dq_qclass q) tail"
    using assms question flags
    by (auto simp: build_response_def q Let_def query_packet_def dns_answer_def rcode_def counts_def tail_def dns_consts split: if_splits)
  have "parse_query response = Inr q"
    unfolding response using w(3,5,6) by (subst parse_query_packet) (simp_all add: counts_def)
  moreover have "drop (dq_question_end q) response = tail"
    unfolding response w(6) by (rule drop_query_packet) (simp_all add: counts_def)
  moreover have "tail = (case ?answer of None \<Rightarrow> [] | Some ip \<Rightarrow> [0xC0, 0x0C, 0, 1, 0, 1, 0, 0, 0, 30, 0, 4] @ octets ip)"
    by (simp add: tail_def dns_consts be_bytes_literal split: option.split)
  moreover have "response ! 3 = 0x80 OR ucast rcode" "response ! 7 = (if ?answer = None then 0 else 1)"
    unfolding response query_packet_def counts_def by (simp_all add: nth_append be_bytes_literal)
  moreover have "(0x80 OR ucast rcode :: u8) AND 0x0F = (if dq_qtype q \<noteq> TYPE_A then 4 else if ?answer = None then 3 else 0)"
    by (simp add: rcode_def)
  ultimately show ?thesis using q by auto
qed

lemma build_response_accepts:
  assumes "parse_query request = Inr q"
  obtains response where "build_response request records sfx = Inr response"
  using assms by (auto simp: build_response_def Let_def)

definition demo_dns_records :: "dns_record list" where
  "demo_dns_records = [\<lparr>dr_device_id = ''dev_a0'', dr_name = ''laptop.mesh'', dr_record_type = ''A'', dr_value = ''100.64.0.2''\<rparr>]"

definition demo_dns_request :: bytes where
  "demo_dns_request = query_packet 7 [1, 0] [0, 0, 0, 0, 0, 0] [''Laptop'', ''mesh''] 1 1 []"

lemma demo_dns_query:
  "parse_query demo_dns_request =
     Inr \<lparr>dq_id = 7, dq_qname = ''Laptop.mesh'', dq_qtype = 1, dq_qclass = 1, dq_question_end = 29\<rparr>"
proof -
  have "list_all label_ok [''Laptop'', ''mesh'']" by code_simp
  then show ?thesis unfolding demo_dns_request_def by (subst parse_query_packet) simp_all
qed

theorem dns_response_correct_witness:
  "\<exists>response. build_response demo_dns_request demo_dns_records ''mesh'' = Inr response \<and>
     drop 29 response = [0xC0, 0x0C, 0, 1, 0, 1, 0, 0, 0, 30, 0, 4, 100, 64, 0, 2]"
proof -
  obtain response where r: "build_response demo_dns_request demo_dns_records ''mesh'' = Inr response"
    using demo_dns_query by (rule build_response_accepts)
  have "resolve_a demo_dns_records ''Laptop.mesh'' ''mesh'' = Some (Ipv4Addr 100 64 0 2)" by code_simp
  with dns_response_correct [OF r] r show ?thesis by (auto simp: demo_dns_query dns_answer_def dns_consts)
qed

lemma split_on_piece_length: "p \<in> set (split_on c s) \<Longrightarrow> length p \<le> length s"
proof (induction s arbitrary: p)
  case (Cons x s)
  obtain q qs where qs: "split_on c s = q # qs" by (cases "split_on c s") auto
  have "length q \<le> length s" "\<And>r. r \<in> set qs \<Longrightarrow> length r \<le> length s" using Cons.IH qs by auto
  with Cons.prems qs show ?case by (fastforce split: if_splits)
qed simp

lemma split_on_append_sep: "split_on c (s @ c # t) = split_on c s @ split_on c t"
proof (induction s)
  case (Cons x s)
  obtain q qs where "split_on c s = q # qs" by (cases "split_on c s") auto
  with Cons show ?case by simp
qed simp

lemma join_pieces_bounded:
  "list_all (\<lambda>l. length l \<le> n) labels \<Longrightarrow> p \<in> set (split_on c (join_with [c] labels)) \<Longrightarrow> length p \<le> n"
proof (induction labels arbitrary: p rule: induct_list012)
  case (2 l)
  then show ?case using split_on_piece_length [of p c l] by simp
next
  case (3 l k ls)
  have "join_with [c] (l # k # ls) = l @ c # join_with [c] (k # ls)" by simp
  then have "p \<in> set (split_on c l) \<or> p \<in> set (split_on c (join_with [c] (k # ls)))"
    using 3(4) by (simp only: split_on_append_sep set_append Un_iff)
  with 3(2,3) split_on_piece_length [of p c l] show ?case by (metis list.pred_inject(2) order_trans)
qed simp

text \<open>Between two dots a query name has at most 63 bytes.\<close>

lemma query_pieces_bounded:
  assumes "parse_query packet = Inr q" and "p \<in> set (split_on CHR ''.'' (dq_qname q))"
  shows "length p \<le> 63"
proof -
  from assms(1) obtain labels where "list_all label_ok labels" "dq_qname q = join_with ''.'' labels"
    by (rule parse_query_accepts)
  then show ?thesis
    using assms(2) join_pieces_bounded [of 63 labels p "CHR ''.''"] by (auto simp: label_ok_def list_all_iff)
qed

end
