(* ===== verification/Std_Ipv6.thy ===== *)
theory Std_Ipv6
  imports Std_Net
begin

text \<open>
  Addresses as texts: \<open>Display\<close> and \<open>FromStr\<close> of \<open>IpAddr\<close> and \<open>SocketAddr\<close> are inverse, also for IPv6 with its
  abbreviation of zero groups and its embedded IPv4 addresses. The control plane and the agents
  exchange every endpoint as such a text.
\<close>

section \<open>Hexadecimal groups\<close>

definition no_hex_next :: "string \<Rightarrow> bool" where
  "no_hex_next s \<longleftrightarrow> s = [] \<or> hex_value (hd s) = None"

lemma no_hex_next_simps [simp]: "no_hex_next []" "no_hex_next (c # s) \<longleftrightarrow> hex_value c = None"
  by (simp_all add: no_hex_next_def)

lemma hex_value_punctuation [simp]: "hex_value CHR '':'' = None" "hex_value CHR ''.'' = None" "hex_value CHR '']'' = None"
  by code_simp+

lemma hex_value_digit: "d < 16 \<Longrightarrow> hex_value (hex_digit d) = Some d"
  by (auto simp: hex_value_def hex_digit_def Let_def digit_char_def is_ascii_digit_def)

lemma dec_is_hex: "is_ascii_digit c \<Longrightarrow> hex_value c \<noteq> None"
  by (simp add: hex_value_def)

lemma no_hex_no_digit: "no_hex_next s \<Longrightarrow> no_digit_next s"
  using dec_is_hex [of "hd s"] by (auto simp: no_hex_next_def no_digit_next_def)

lemma nat_to_hex_small: "n < 16 \<Longrightarrow> nat_to_hex n = [hex_digit n]"
  by (subst nat_to_hex.simps) simp

lemma nat_to_hex_step: "16 \<le> n \<Longrightarrow> nat_to_hex n = nat_to_hex (n div 16) @ [hex_digit (n mod 16)]"
  by (subst nat_to_hex.simps) simp

lemma nat_to_hex_nonempty [simp]: "nat_to_hex n \<noteq> []"
  by (cases "n < 16") (simp_all add: nat_to_hex_small nat_to_hex_step)

lemma nat_to_hex_length: "n < 16 ^ k \<Longrightarrow> 0 < k \<Longrightarrow> length (nat_to_hex n) \<le> k"
proof (induction k arbitrary: n)
  case (Suc k)
  show ?case
  proof (cases "n < 16")
    case False
    with Suc.prems have "0 < k" and "n div 16 < 16 ^ k" by (cases k; auto)+
    with Suc.IH [of "n div 16"] False show ?thesis by (simp add: nat_to_hex_step)
  qed (simp add: nat_to_hex_small)
qed simp

lemma foldl_hex: "foldl (\<lambda>acc c. acc * 16 + the (hex_value c)) 0 (nat_to_hex n) = n"
proof (induction n rule: nat_to_hex.induct)
  case (1 n)
  then show ?case by (cases "n < 16") (simp_all add: nat_to_hex_small nat_to_hex_step hex_value_digit)
qed

lemma takeWhile_hex: "no_hex_next s \<Longrightarrow> takeWhile (\<lambda>c. hex_value c \<noteq> None) (nat_to_hex n @ s) = nat_to_hex n"
  using nat_to_hex_value by (cases s) (auto simp: takeWhile_append)

abbreviation read_group :: "nat reader" where
  "read_group \<equiv> read_number 16 hex_value (Some 4) True 0xFFFF"

lemma read_group_print: "no_hex_next s \<Longrightarrow> read_group (nat_to_hex (unat (g :: u16)) @ s) = Some (unat g, s)"
proof -
  assume s: "no_hex_next s"
  have "unat g < 16 ^ 4" using unsigned_less [of g, where 'a = nat] by simp
  then have "length (nat_to_hex (unat g)) \<le> 4" "unat g \<le> 65535" using nat_to_hex_length [of _ 4] by simp_all
  then show ?thesis unfolding read_number_def Let_def takeWhile_hex [OF s] foldl_hex by simp
qed

lemma read_group_blocked: "no_hex_next s \<Longrightarrow> read_group s = None"
  by (cases s) (simp_all add: read_number_def)

section \<open>Sequences of groups\<close>

text \<open>A text of hexadecimal digits that no dot follows is no IPv4 address.\<close>

lemma read_ipv4_blocked:
  assumes "list_all (\<lambda>c. hex_value c \<noteq> None) p" and "no_hex_next s" and "s = [] \<or> hd s \<noteq> CHR ''.''"
  shows "read_ipv4 (p @ s) = None"
proof (cases "read_octet (p @ s)")
  case None
  then show ?thesis by (simp add: read_ipv4_def read_separator_def)
next
  case (Some vs)
  obtain v r where vs: "vs = (v, r)" by (cases vs)
  from Some vs have "r = dropWhile (\<lambda>c. dec_digit c \<noteq> None) (p @ s)"
    by (auto simp: read_octet_def read_number_def Let_def dropWhile_eq_drop split: if_splits)
  moreover have "dropWhile (\<lambda>c. dec_digit c \<noteq> None) s = s"
    using no_hex_no_digit [OF assms(2)] by (cases s) (simp_all add: dec_digit_def)
  moreover define q where "q = dropWhile (\<lambda>c. dec_digit c \<noteq> None) p"
  ultimately have r: "r = q @ s"
    by (metis (no_types, lifting) dropWhile_append self_append_conv2 dropWhile_eq_Nil_conv)
  have "q \<noteq> [] \<Longrightarrow> hd q \<in> set p" unfolding q_def by (meson hd_in_set set_dropWhileD)
  with assms(1) have "q \<noteq> [] \<Longrightarrow> hd q \<noteq> CHR ''.''" by (auto simp: list_all_iff)
  with r assms(3) have "r = [] \<or> hd r \<noteq> CHR ''.''" by (cases q) auto
  then have "read_given_char CHR ''.'' r = None" by (cases r) (simp_all add: read_given_char_def)
  with Some vs show ?thesis by (simp add: read_ipv4_def read_separator_def)
qed

text \<open>A text that ends a sequence of groups, and one at which no further group can be read.\<close>

definition ends_groups :: "string \<Rightarrow> bool" where
  "ends_groups s \<longleftrightarrow> no_hex_next s \<and> (s = [] \<or> hd s \<noteq> CHR ''.'')"

definition no_group :: "nat \<Rightarrow> string \<Rightarrow> bool" where
  "no_group i s \<longleftrightarrow> (if i = 0 then ends_groups s else s = [] \<or> hd s \<noteq> CHR '':'' \<or> ends_groups (tl s))"

fun groups_text :: "nat \<Rightarrow> u16 list \<Rightarrow> string" where
  "groups_text i [] = []"
| "groups_text i (g # gs) = (if i = 0 then [] else '':'') @ nat_to_hex (unat g) @ groups_text (Suc i) gs"

lemma show_groups_text: "show_groups gs = groups_text 0 gs"
proof -
  have "join_with '':'' (map (\<lambda>g. nat_to_hex (unat g)) (g # gs)) = nat_to_hex (unat g) @ groups_text (Suc i) gs" for g gs i
    by (induction gs arbitrary: g i) simp_all
  then show ?thesis by (cases gs) (simp_all add: show_groups_def)
qed

lemma groups_text_ends: "ends_groups s \<Longrightarrow> 0 < i \<Longrightarrow> ends_groups (groups_text i gs @ s)"
  by (cases gs) (simp_all add: ends_groups_def)

lemma read_separator_blocked:
  "no_group i s \<Longrightarrow> (\<And>r. ends_groups r \<Longrightarrow> rd r = None) \<Longrightarrow> read_separator CHR '':'' i rd s = None"
  by (cases s) (auto simp: read_separator_def no_group_def read_given_char_def split: if_splits)

lemma read_groups_blocked:
  assumes "no_group i s"
  shows "read_groups i left s = ([], False, s)"
proof (cases left)
  case (Suc n)
  have "read_ipv4 r = None" "read_group r = None" if "ends_groups r" for r
    using read_ipv4_blocked [of "[]" r] read_group_blocked [of r] that by (simp_all add: ends_groups_def)
  then have "read_separator CHR '':'' i read_ipv4 s = None" "read_separator CHR '':'' i read_group s = None"
    by (simp_all add: read_separator_blocked [OF assms])
  with Suc show ?thesis by simp
qed simp

lemma read_groups_print:
  assumes "length gs \<le> left" and "ends_groups s" and "length gs < left \<Longrightarrow> no_group (i + length gs) s"
  shows "read_groups i left (groups_text i gs @ s) = (gs, False, s)"
  using assms
proof (induction gs arbitrary: i left)
  case Nil
  then show ?case using read_groups_blocked [of i s left] by (cases left) simp_all
next
  case (Cons g gs)
  then obtain n where left: "left = Suc n" by (cases left) auto
  let ?rest = "groups_text (Suc i) gs @ s"
  have rest: "ends_groups ?rest" using Cons.prems(2) by (simp add: groups_text_ends)
  then have "read_ipv4 (nat_to_hex (unat g) @ ?rest) = None" "read_group (nat_to_hex (unat g) @ ?rest) = Some (unat g, ?rest)"
    using read_ipv4_blocked [of "nat_to_hex (unat g)" ?rest] read_group_print [of ?rest g]
    by (auto simp: ends_groups_def list_all_iff dest: nat_to_hex_value)
  then have "read_separator CHR '':'' i read_ipv4 (groups_text i (g # gs) @ s) = None"
    "read_separator CHR '':'' i read_group (groups_text i (g # gs) @ s) = Some (unat g, ?rest)"
    by (cases "i = 0"; simp add: read_separator_def read_given_char_def)+
  moreover have "read_groups (Suc i) n ?rest = (gs, False, s)" using Cons.IH [of n "Suc i"] Cons.prems left by simp
  ultimately show ?case by (cases n) (auto simp: left simp del: groups_text.simps)
qed

section \<open>Zero groups\<close>

text \<open>A run of zeros as the search keeps it: within the groups seen so far.\<close>

definition zero_at :: "u16 list \<Rightarrow> nat \<times> nat \<Rightarrow> bool" where
  "zero_at gs r \<longleftrightarrow> fst r + snd r \<le> length gs \<and> (\<forall>k < snd r. gs ! (fst r + k) = 0)"

lemma zero_at_append: "zero_at gs r \<Longrightarrow> zero_at (gs @ hs) r"
  by (auto simp: zero_at_def nth_append)

lemma zero_run_at:
  assumes "zero_at gs longest" and "zero_at gs cur" and "snd cur = 0 \<or> fst cur + snd cur = length gs"
  shows "zero_at (gs @ hs) (zero_run (length gs) cur longest hs)"
  using assms
proof (induction hs arbitrary: gs cur longest)
  case (Cons h hs)
  let ?cur = "if snd cur = 0 then (length gs, 1) else (fst cur, Suc (snd cur))"
  have "zero_at (gs @ [h]) ?cur" "fst ?cur + snd ?cur = length (gs @ [h])" if "h = 0"
    using Cons.prems(2,3) that by (auto simp: zero_at_def nth_append less_Suc_eq)
  moreover have "zero_at (gs @ [h]) (0, 0)" by (simp add: zero_at_def)
  ultimately show ?case
    using Cons.IH [of "gs @ [h]" "if ?cur = ?cur \<and> snd ?cur > snd longest then ?cur else longest" ?cur]
      Cons.IH [of "gs @ [h]" longest "(0, 0)"] zero_at_append [OF Cons.prems(1), of "[h]"]
    by (auto simp: Let_def)
qed (simp add: zero_at_def)

lemma zero_run_splits:
  assumes "zero_run 0 (0, 0) (0, 0) gs = (start, len)"
  shows "start + len \<le> length gs \<and> gs = take start gs @ replicate len 0 @ drop (start + len) gs"
proof -
  have z: "zero_at gs (start, len)"
    using zero_run_at [of "[]" "(0, 0)" "(0, 0)" gs] assms by (simp add: zero_at_def)
  then have "take len (drop start gs) = replicate len 0"
    by (intro nth_equalityI) (auto simp: zero_at_def)
  then have "gs = take start gs @ replicate len 0 @ drop (start + len) gs"
    by (metis append_take_drop_id drop_drop add.commute)
  with z show ?thesis by (simp add: zero_at_def)
qed

section \<open>Addresses\<close>

lemma segments_of [simp]: "ipv6_of_segments (segments a) = a"
  by (cases a) (simp add: ipv6_of_segments_def)

lemma length_segments [simp]: "length (segments a) = 8"
  by (cases a) simp

text \<open>The three forms of the text: all groups, groups around an abbreviated run, and an embedded IPv4 address.\<close>

lemma read_ipv6_full:
  assumes "length gs = 8" and "ends_groups s"
  shows "read_ipv6 (show_groups gs @ s) = Some (ipv6_of_segments gs, s)"
  using read_groups_print [of gs 8 s 0] assms by (simp add: read_ipv6_def show_groups_text)

lemma read_ipv6_run:
  assumes "length head + length tail < 8" and "ends_groups s" and "s = [] \<or> hd s \<noteq> CHR '':''"
  shows "read_ipv6 (show_groups head @ ''::'' @ show_groups tail @ s) =
    Some (ipv6_of_segments (head @ replicate (8 - length head - length tail) 0 @ tail), s)"
proof -
  have "ends_groups (''::'' @ show_groups tail @ s)" by (simp add: ends_groups_def)
  moreover have "no_group (length head) (''::'' @ show_groups tail @ s)" by (simp add: no_group_def ends_groups_def)
  ultimately have "read_groups 0 8 (show_groups head @ ''::'' @ show_groups tail @ s) = (head, False, ''::'' @ show_groups tail @ s)"
    using assms(1) read_groups_print [of head 8 _ 0] by (simp add: show_groups_text)
  moreover have "no_group (length tail) s" using assms(2,3) by (auto simp: no_group_def)
  then have "read_groups 0 (7 - length head) (show_groups tail @ s) = (tail, False, s)"
    using assms(1,2) read_groups_print [of tail "7 - length head" s 0] by (simp add: show_groups_text)
  ultimately show ?thesis using assms(1) by (simp add: read_ipv6_def read_given_char_def)
qed

lemma be_pair: "u16_from_be_bytes [word_of_nat (unat (g :: u16) div 256), word_of_nat (unat g mod 256)] = g"
proof -
  have "unat g < 65536" using unsigned_less [of g, where 'a = nat] by simp
  then have "unat (word_of_nat (unat g div 256) :: u8) = unat g div 256" "unat (word_of_nat (unat g mod 256) :: u8) = unat g mod 256"
    by (simp_all add: unat_of_nat)
  then show ?thesis by (simp add: u16_from_be_bytes_def be_value_def)
qed

lemma read_ipv6_mapped:
  assumes "no_digit_next s"
  shows "read_ipv6 (''::ffff:'' @ ipv4_to_string v4 @ s) =
    Some (ipv6_of_segments [0, 0, 0, 0, 0, 0xFFFF, u16_from_be_bytes (take 2 (octets v4)), u16_from_be_bytes (drop 2 (octets v4))], s)"
proof -
  let ?v4 = "ipv4_to_string v4 @ s"
  have "read_groups 0 8 (''::ffff:'' @ ?v4) = ([], False, ''::ffff:'' @ ?v4)"
    by (rule read_groups_blocked) (simp add: no_group_def ends_groups_def)
  moreover have "hex_digit 15 = CHR ''f''" by code_simp
  then have hex: "nat_to_hex 65535 = ''ffff''" by (simp add: nat_to_hex_step nat_to_hex_small)
  have "read_groups 0 7 (''ffff:'' @ ?v4) =
      ([0xFFFF, u16_from_be_bytes (take 2 (octets v4)), u16_from_be_bytes (drop 2 (octets v4))], True, s)"
  proof -
    have "read_ipv4 (''ffff:'' @ ?v4) = None"
      using read_ipv4_blocked [of "''ffff''" "CHR '':'' # ?v4"] by (simp add: hex_value_def is_ascii_digit_def)
    moreover have "read_group (''ffff:'' @ ?v4) = Some (65535, CHR '':'' # ?v4)"
      using read_group_print [of "CHR '':'' # ?v4" "0xFFFF"] by (simp add: hex)
    moreover have "read_ipv4 ?v4 = Some (v4, s)" using assms by (rule read_ipv4_print)
    ultimately show ?thesis by (simp add: read_groups_numeral read_separator_def read_given_char_def Let_def)
  qed
  ultimately show ?thesis by (simp add: read_ipv6_def read_given_char_def numeral_eq_Suc)
qed

lemma read_ipv6_print:
  assumes "ends_groups s" and "s = [] \<or> hd s \<noteq> CHR '':''"
  shows "read_ipv6 (ipv6_to_string a @ s) = Some (a, s)"
proof -
  let ?gs = "segments a"
  obtain start len where run: "zero_run 0 (0, 0) (0, 0) ?gs = (start, len)" by force
  consider (mapped) "take 6 ?gs = [0, 0, 0, 0, 0, 0xFFFF]" | (run) "take 6 ?gs \<noteq> [0, 0, 0, 0, 0, 0xFFFF]" "len > 1"
    | (full) "take 6 ?gs \<noteq> [0, 0, 0, 0, 0, 0xFFFF]" "\<not> len > 1" by blast
  then show ?thesis
  proof cases
    case mapped
    obtain x y where a: "a = Ipv6Addr 0 0 0 0 0 0xFFFF x y" using mapped by (cases a) (auto simp: numeral_eq_Suc)
    let ?v4 = "Ipv4Addr (word_of_nat (unat x div 256)) (word_of_nat (unat x mod 256))
      (word_of_nat (unat y div 256)) (word_of_nat (unat y mod 256))"
    have "ipv6_to_string a = ''::ffff:'' @ ipv4_to_string ?v4" by (simp add: a ipv6_to_string_def del: ipv4_to_string.simps)
    moreover have "u16_from_be_bytes (take 2 (octets ?v4)) = x" "u16_from_be_bytes (drop 2 (octets ?v4)) = y"
      using be_pair [of x] be_pair [of y] by (simp_all add: numeral_2_eq_2)
    moreover have "no_digit_next s" using assms(1) no_hex_no_digit by (simp add: ends_groups_def)
    ultimately show ?thesis
      using read_ipv6_mapped [of s ?v4] by (simp add: a ipv6_of_segments_def del: ipv4_to_string.simps octets.simps)
  next
    case run
    note split = zero_run_splits [OF \<open>zero_run 0 (0, 0) (0, 0) ?gs = (start, len)\<close>]
    have len: "length (take start ?gs) = start" "length (drop (start + len) ?gs) = 8 - (start + len)" "start + len \<le> 8" using split by auto
    have "take start ?gs @ replicate (8 - start - (8 - (start + len))) 0 @ drop (start + len) ?gs = ?gs"
      using split len(3) by simp
    with read_ipv6_run [of "take start ?gs" "drop (start + len) ?gs" s] len run assms show ?thesis
      by (simp add: ipv6_to_string_def Let_def \<open>zero_run 0 (0, 0) (0, 0) ?gs = (start, len)\<close>)
  next
    case full
    with read_ipv6_full [of ?gs s] assms(1) run show ?thesis by (simp add: ipv6_to_string_def Let_def)
  qed
qed

lemma read_ipv4_ipv6_text: "read_ipv4 (ipv6_to_string a @ s) = None"
proof -
  obtain p r where "ipv6_to_string a = p @ CHR '':'' # r" "list_all (\<lambda>c. hex_value c \<noteq> None) p" using ipv6_text_head by blast
  with read_ipv4_hex_colon [of p "r @ s"] show ?thesis by simp
qed

lemma parse_ip_print [simp]: "parse_ip (ip_to_string a) = Some a"
proof (cases a)
  case (V6 x)
  then show ?thesis using read_ipv6_print [of "[]" x] read_ipv4_ipv6_text [of x "[]"]
    by (simp add: parse_ip_def parse_with_def read_ip_def ends_groups_def)
qed simp

lemma ip_to_string_inject [simp]: "ip_to_string a = ip_to_string b \<longleftrightarrow> a = b"
  by (metis option.inject parse_ip_print)

lemma parse_socket_addr_print: "parse_socket_addr (socket_addr_to_string s) = Some s"
proof (cases "sa_ip s")
  case (V4 x)
  then show ?thesis using parse_socket_addr_print_v4 [of x "sa_port s"] by (simp add: socket_addr_to_string_def)
next
  case (V6 x)
  let ?port = "CHR '':'' # nat_to_dec (unat (sa_port s))"
  let ?rest = "ipv6_to_string x @ CHR '']'' # ?port"
  have "unat (sa_port s) \<le> 0xFFFF" using unsigned_less [of "sa_port s", where 'a = nat] by simp
  then have port: "read_port ?port = Some (unat (sa_port s), [])"
    using read_number_dec [of "unat (sa_port s)" "0xFFFF" "[]" None True] by (simp add: read_port_def read_given_char_def)
  have "hex_value CHR ''['' = None" by code_simp
  then have "read_ipv4 (CHR ''['' # ?rest) = None" using read_ipv4_blocked [of "[]" "CHR ''['' # ?rest"] by simp
  then have "read_socket_v4 (CHR ''['' # ?rest) = None" by (simp add: read_socket_v4_def)
  moreover have "read_ipv6 ?rest = Some (x, CHR '']'' # ?port)" by (rule read_ipv6_print) (simp_all add: ends_groups_def)
  then have "read_socket_v6 (CHR ''['' # ?rest) = Some (s, [])"
    using port V6 by (cases s) (simp add: read_socket_v6_def read_given_char_def read_scope_def)
  ultimately show ?thesis using V6 by (simp add: parse_socket_addr_def parse_with_def socket_addr_to_string_def)
qed

end
