(* ===== verification/Agent_Core.thy ===== *)
theory Agent_Core
  imports State_File Network_Backend Agent_Dns Std_Ipv6
begin

text \<open>
  \<open>tfscale-agent/src/main.rs\<close>: the state of the agent, its conversions between the control plane's
  payloads and the backend's configuration, registration, the synchronization with the control
  plane and the agent's loop. The agent sees a backend through the record \<open>network_backend\<close>, the
  control plane through the record \<open>control_api\<close> (a request, the response or the error of the HTTP
  client), and its state file through \<open>disk\<close>. Instants are integers in nanoseconds.
\<close>

section \<open>Constants, errors and the world of the agent\<close>

definition DEFAULT_INTERFACE_NAME :: string where "DEFAULT_INTERFACE_NAME = ''tfscale0''"
definition DEFAULT_LISTEN_PORT :: u16 where "DEFAULT_LISTEN_PORT = 51820"
definition DEFAULT_DNS_LISTEN :: string where "DEFAULT_DNS_LISTEN = ''127.0.0.1:1053''"
definition DEFAULT_DNS_SUFFIX :: string where "DEFAULT_DNS_SUFFIX = ''mesh''"
definition DIRECT_PATH_MAINTENANCE_INTERVAL :: duration where "DIRECT_PATH_MAINTENANCE_INTERVAL = 250000000"

datatype agent_error =
    AgentError string               \<comment> \<open>\<open>context\<close> and \<open>bail!\<close>\<close>
  | AgentBackend backend_error
  | AgentHttp string
  | AgentIo string
  | AgentJson string
  | AgentAddrParse string

record agent_state =
  as_machine_key :: string
  as_backend_public_credential :: string
  as_device_id :: "string option"
  as_node_key :: "string option"
  as_network_id :: "string option"
  as_ipv4 :: "string option"
  as_poll_interval_seconds :: u64
  as_dns_records :: "dns_record list"
  as_dns_enabled :: bool
  as_dns_listen :: string
  as_dns_healthy :: bool
  as_dns_message :: "string option"

text \<open>The derived \<open>Default\<close>, and \<open>AgentState::new\<close>.\<close>

definition agent_state_default :: agent_state where
  "agent_state_default =
     \<lparr>as_machine_key = [], as_backend_public_credential = [], as_device_id = None, as_node_key = None,
      as_network_id = None, as_ipv4 = None, as_poll_interval_seconds = 0, as_dns_records = [],
      as_dns_enabled = False, as_dns_listen = [], as_dns_healthy = False, as_dns_message = None\<rparr>"

definition agent_state_new :: "string \<Rightarrow> agent_state" where
  "agent_state_new uuid =
     agent_state_default\<lparr>as_machine_key := ''machine_'' @ uuid, as_poll_interval_seconds := 5,
       as_dns_listen := DEFAULT_DNS_LISTEN\<rparr>"

record agent_env =
  ae_ser :: "agent_state \<Rightarrow> string + bytes"
  ae_de :: "bytes \<Rightarrow> string + agent_state"
  ae_uuid :: string
  ae_hostname_var :: "string option"
  ae_hostname_command :: "bytes option"
  ae_os :: string
  ae_arch :: string
  ae_version :: string

record 'c control_api =
  ca_register :: "register_device_request \<Rightarrow> 'c \<Rightarrow> (string + register_device_response) \<times> 'c"
  ca_heartbeat :: "heartbeat_request \<Rightarrow> 'c \<Rightarrow> (string + unit) \<times> 'c"
  ca_endpoint_probe :: "endpoint_probe_request \<Rightarrow> 'c \<Rightarrow> (string + endpoint_probe_response) \<times> 'c"
  ca_network_map :: "string \<Rightarrow> string \<Rightarrow> 'c \<Rightarrow> (string + network_map_response) \<times> 'c"

record ('b, 'c) agent_world =
  aw_backend :: 'b
  aw_control :: 'c
  aw_disk :: disk
  aw_dns :: "dns_record list"              \<comment> \<open>\<open>DnsRuntime\<close>\<close>
  aw_last_version :: "int option"          \<comment> \<open>\<open>last_applied_network_map_version\<close>\<close>

type_synonym ('b, 'c, 'a) agent_prog = "(agent_error, ('b, 'c) agent_world, 'a) prog"

definition on_backend :: "(backend_error, 'b, 'a) prog \<Rightarrow> ('b, 'c, 'a) agent_prog" where
  "on_backend m w =
     (case m (aw_backend w) of
        None \<Rightarrow> None
      | Some (r, b) \<Rightarrow> Some (map_err AgentBackend r, w\<lparr>aw_backend := b\<rparr>))"

text \<open>\<open>send\<close>, \<open>error_for_status\<close> and \<open>json\<close> of one request.\<close>

definition on_control :: "('c \<Rightarrow> (string + 'a) \<times> 'c) \<Rightarrow> ('b, 'c, 'a) agent_prog" where
  "on_control f w =
     (case f (aw_control w) of (r, c) \<Rightarrow> Some (map_err AgentHttp r, w\<lparr>aw_control := c\<rparr>))"

definition on_state_file :: "(disk \<Rightarrow> (agent_error + 'a) \<times> disk) \<Rightarrow> ('b, 'c, 'a) agent_prog" where
  "on_state_file f w = (case f (aw_disk w) of (r, dk) \<Rightarrow> Some (r, w\<lparr>aw_disk := dk\<rparr>))"

section \<open>The state file\<close>

definition agent_state_load :: "agent_env \<Rightarrow> disk \<Rightarrow> (agent_error + agent_state option) \<times> disk" where
  "agent_state_load env dk =
     (case dk_file dk of
        None \<Rightarrow> (Inr None, dk)
      | Some bs \<Rightarrow>
          (case fs_call AgentIo id id dk of
             (Inl e, dk') \<Rightarrow> (Inl e, dk')
           | (Inr _, dk') \<Rightarrow> (map_err AgentJson (map_sum id Some (ae_de env bs)), dk')))"

text \<open>\<open>create_dir_all\<close>, then a write over the old file: a write that fails leaves a part of the new text.\<close>

definition agent_state_save :: "agent_env \<Rightarrow> agent_state \<Rightarrow> disk \<Rightarrow> (agent_error + unit) \<times> disk" where
  "agent_state_save env state dk =
     (case fs_call AgentIo id id dk of
        (Inl e, dk) \<Rightarrow> (Inl e, dk)
      | (Inr _, dk) \<Rightarrow>
          (case ae_ser env state of
             Inl e \<Rightarrow> (Inl (AgentJson e), dk)
           | Inr bs \<Rightarrow> fs_call AgentIo (write_state_file bs) (\<lambda>d. write_state_file (dk_partial d) d) dk))"

section \<open>Conversions\<close>

definition parse_endpoint_kind :: "string \<Rightarrow> agent_error + endpoint_kind" where
  "parse_endpoint_kind value =
     (if value = ''lan'' then Inr Lan
      else if value = ''public'' then Inr Public
      else if value = ''ipv6'' then Inr Ipv6
      else if value = ''relay'' then Inr Relay
      else Inl (AgentError (''unsupported endpoint kind: '' @ value)))"

fun endpoint_kind_to_payload :: "endpoint_kind \<Rightarrow> string" where
  "endpoint_kind_to_payload Lan = ''lan''"
| "endpoint_kind_to_payload Public = ''public''"
| "endpoint_kind_to_payload Ipv6 = ''ipv6''"
| "endpoint_kind_to_payload Relay = ''relay''"

definition parse_transport_protocol :: "string \<Rightarrow> agent_error + transport_protocol" where
  "parse_transport_protocol value =
     (if value = ''udp'' then Inr Udp
      else if value = ''tcp'' then Inr Tcp
      else Inl (AgentError (''unsupported endpoint protocol: '' @ value)))"

fun transport_protocol_to_payload :: "transport_protocol \<Rightarrow> string" where
  "transport_protocol_to_payload Udp = ''udp''"
| "transport_protocol_to_payload Tcp = ''tcp''"

definition endpoint_to_config :: "endpoint_payload \<Rightarrow> agent_error + endpoint" where
  "endpoint_to_config ep =
     and_then (parse_endpoint_kind (epp_kind ep)) (\<lambda>kind.
     and_then (ok_or (parse_ip (epp_address ep)) (AgentError (''invalid endpoint address: '' @ epp_address ep))) (\<lambda>address.
     and_then (parse_transport_protocol (epp_protocol ep)) (\<lambda>protocol.
       Inr \<lparr>ep_kind = kind, ep_address = address, ep_port = epp_port ep, ep_protocol = protocol\<rparr>)))"

definition endpoint_to_payload :: "endpoint \<Rightarrow> endpoint_payload" where
  "endpoint_to_payload ep =
     \<lparr>epp_kind = endpoint_kind_to_payload (ep_kind ep), epp_address = ip_to_string (ep_address ep),
      epp_port = ep_port ep, epp_protocol = transport_protocol_to_payload (ep_protocol ep),
      epp_source = Some ''local'', epp_priority = Some 100, epp_expires_at = None\<rparr>"

definition peer_to_config :: "network_map_peer \<Rightarrow> agent_error + peer_config" where
  "peer_to_config peer =
     and_then (ok_or (parse_ipv4 (nmp_ipv4 peer)) (AgentError (''invalid peer overlay IP: '' @ nmp_ipv4 peer))) (\<lambda>overlay_ip.
     and_then (collect_results endpoint_to_config (nmp_endpoints peer)) (\<lambda>endpoints.
       Inr \<lparr>pc_device_id = DeviceId (nmp_device_id peer), pc_hostname = nmp_hostname peer, pc_overlay_ip = overlay_ip,
            pc_public_credential = \<lparr>bc_public = nmp_backend_public_credential peer\<rparr>,
            pc_endpoints = endpoints, pc_allowed_routes = nmp_allowed_routes peer\<rparr>))"

definition network_map_to_peer_configs :: "network_map_peer list \<Rightarrow> agent_error + peer_config list" where
  "network_map_to_peer_configs peers = collect_results peer_to_config peers"

definition network_map_to_relay_configs :: "relay_metadata list \<Rightarrow> relay_config list" where
  "network_map_to_relay_configs relays =
     map (\<lambda>r. \<lparr>rc_relay_id = rm_relay_id r, rc_url = rm_url r, rc_region = rm_region r\<rparr>) (filter rm_healthy relays)"

definition endpoint_from_backend_probe :: "endpoint \<Rightarrow> endpoint_payload" where
  "endpoint_from_backend_probe ep =
     \<lparr>epp_kind = endpoint_kind_to_payload (ep_kind ep), epp_address = ip_to_string (ep_address ep),
      epp_port = ep_port ep, epp_protocol = transport_protocol_to_payload (ep_protocol ep),
      epp_source = Some ''stun'', epp_priority = Some 50, epp_expires_at = None\<rparr>"

definition endpoint_from_probe_response :: "endpoint_probe_response \<Rightarrow> endpoint_payload option" where
  "endpoint_from_probe_response response =
     (if epr_observed_port response = 0 then None
      else Some \<lparr>epp_kind = ''public'', epp_address = epr_observed_address response,
             epp_port = epr_observed_port response, epp_protocol = epr_protocol response,
             epp_source = Some ''stun'', epp_priority = Some 50, epp_expires_at = None\<rparr>)"

definition udp_probe_server :: "endpoint_probe_response \<Rightarrow> agent_error + socket_addr option" where
  "udp_probe_server response =
     (case epr_udp_probe_address response of
        None \<Rightarrow> Inr None
      | Some address \<Rightarrow>
          (case epr_udp_probe_port response of
             None \<Rightarrow> Inr None
           | Some port \<Rightarrow>
               and_then (ok_or (parse_ip address) (AgentAddrParse address)) (\<lambda>ip.
                 Inr (Some \<lparr>sa_ip = ip, sa_port = port\<rparr>))))"

definition device_credentials :: "agent_state \<Rightarrow> agent_error + string \<times> string" where
  "device_credentials state =
     and_then (ok_or (as_device_id state) (AgentError ''agent state is missing device ID'')) (\<lambda>device_id.
     and_then (ok_or (as_node_key state) (AgentError ''agent state is missing node key'')) (\<lambda>node_key.
       Inr (device_id, node_key)))"

text \<open>The \<open>HOSTNAME\<close> variable, else the trimmed output of \<open>hostname\<close>, else a constant; empty texts do not count.\<close>

definition agent_hostname :: "agent_env \<Rightarrow> string" where
  "agent_hostname env =
     (let fallback =
        (case Option.bind (ae_hostname_command env) from_utf8 of
           Some out \<Rightarrow> if trim out \<noteq> [] then trim out else ''tfscale-node''
         | None \<Rightarrow> ''tfscale-node'') in
      case ae_hostname_var env of
        Some value \<Rightarrow> if value \<noteq> [] then value else fallback
      | None \<Rightarrow> fallback)"

section \<open>Heartbeat\<close>

definition agent_probe_public_endpoint ::
  "'b network_backend \<Rightarrow> 'c control_api \<Rightarrow> string \<Rightarrow> string \<Rightarrow> ('b, 'c, endpoint_payload option) agent_prog" where
  "agent_probe_public_endpoint nb api device_id node_key =
     prog_bind (on_control (ca_endpoint_probe api
       \<lparr>epq_device_id = device_id, epq_node_key = node_key, epq_protocol = ''udp''\<rparr>)) (\<lambda>response.
     prog_bind (prog_result (udp_probe_server response)) (\<lambda>server.
       case server of
         None \<Rightarrow> prog_result (Inr (endpoint_from_probe_response response))
       | Some probe_server \<Rightarrow>
           prog_bind (on_backend (nb_probe_public_endpoint nb probe_server (millis 1000))) (\<lambda>probe.
             case probe of
               Some p \<Rightarrow> prog_result (Inr (Some (endpoint_from_backend_probe (observed_endpoint p))))
             | None \<Rightarrow> prog_result (Inr (endpoint_from_probe_response response)))))"

text \<open>A probe that fails is logged; the endpoints are then reported without it.\<close>

definition discovered_endpoints ::
  "'b network_backend \<Rightarrow> 'c control_api \<Rightarrow> string \<Rightarrow> string \<Rightarrow> endpoint_payload list \<Rightarrow>
     ('b, 'c, endpoint_payload list) agent_prog" where
  "discovered_endpoints nb api device_id node_key endpoints w =
     (case agent_probe_public_endpoint nb api device_id node_key w of
        None \<Rightarrow> None
      | Some (Inr (Some ep), w') \<Rightarrow> Some (Inr (endpoints @ [ep]), w')
      | Some (_, w') \<Rightarrow> Some (Inr endpoints, w'))"

definition send_heartbeat :: "'b network_backend \<Rightarrow> 'c control_api \<Rightarrow> agent_state \<Rightarrow> ('b, 'c, unit) agent_prog" where
  "send_heartbeat nb api state =
     prog_bind (prog_result (device_credentials state)) (\<lambda>(device_id, node_key).
     prog_bind (on_backend (nb_status nb)) (\<lambda>status.
     prog_bind (on_backend (nb_local_endpoints nb)) (\<lambda>local_endpoints.
     prog_bind (discovered_endpoints nb api device_id node_key (map endpoint_to_payload local_endpoints)) (\<lambda>endpoints.
       on_control (ca_heartbeat api
         \<lparr>hb_device_id = device_id, hb_node_key = node_key, hb_endpoints = endpoints,
          hb_backend_status = \<lparr>bsp_backend_type = backend_type_as_str (bs_backend_type status),
            bsp_interface = bs_interface_name status, bsp_healthy = bs_healthy status\<rparr>\<rparr>)))))"

section \<open>Applying the network map\<close>

definition fetch_network_map :: "'c control_api \<Rightarrow> agent_state \<Rightarrow> ('b, 'c, network_map_response) agent_prog" where
  "fetch_network_map api state =
     prog_bind (prog_result (device_credentials state)) (\<lambda>(device_id, node_key).
       on_control (ca_network_map api device_id node_key))"

definition apply_network_map_to_backend ::
  "'b network_backend \<Rightarrow> agent_state \<Rightarrow> network_map_response \<Rightarrow> ('b, 'c, unit) agent_prog" where
  "apply_network_map_to_backend nb state network_map =
     prog_bind (prog_result (ok_or (as_ipv4 state) (AgentError ''agent state is missing assigned overlay IP''))) (\<lambda>ip.
     prog_bind (prog_result (ok_or (parse_ipv4 ip) (AgentError ''agent state contains invalid overlay IP''))) (\<lambda>overlay_ip.
     prog_bind (prog_result (ok_or (as_device_id state) (AgentError ''agent state is missing device ID''))) (\<lambda>device_id.
     prog_bind (on_backend (nb_apply_local_config nb
       \<lparr>lc_device_id = device_id, lc_interface_name = DEFAULT_INTERFACE_NAME, lc_overlay_ip = overlay_ip,
        lc_listen_port = DEFAULT_LISTEN_PORT\<rparr>)) (\<lambda>_.
     prog_bind (on_backend (nb_apply_relay_map nb (network_map_to_relay_configs (nm_relays network_map)))) (\<lambda>_.
     prog_bind (prog_result (network_map_to_peer_configs (nm_peers network_map))) (\<lambda>peers.
       on_backend (nb_apply_peer_map nb peers)))))))"

definition save_dns_snapshot :: "agent_env \<Rightarrow> agent_state \<Rightarrow> dns_record list \<Rightarrow> ('b, 'c, unit) agent_prog" where
  "save_dns_snapshot env state dns_records =
     on_state_file (agent_state_save env (state\<lparr>as_dns_records := dns_records\<rparr>))"

definition apply_network_map_if_changed ::
  "agent_env \<Rightarrow> 'b network_backend \<Rightarrow> agent_state \<Rightarrow> network_map_response \<Rightarrow> ('b, 'c, unit) agent_prog" where
  "apply_network_map_if_changed env nb state network_map w =
     (if aw_last_version w = Some (nm_version network_map) then Some (Inr (), w)
      else
        prog_bind (apply_network_map_to_backend nb state network_map) (\<lambda>_.
        prog_bind (save_dns_snapshot env state (nm_dns_records network_map)) (\<lambda>_ w.
          Some (Inr (), w\<lparr>aw_dns := nm_dns_records network_map, aw_last_version := Some (nm_version network_map)\<rparr>))) w)"

definition apply_network_map_and_maintain_paths ::
  "agent_env \<Rightarrow> 'b network_backend \<Rightarrow> agent_state \<Rightarrow> network_map_response \<Rightarrow> ('b, 'c, unit) agent_prog" where
  "apply_network_map_and_maintain_paths env nb state network_map =
     prog_bind (apply_network_map_if_changed env nb state network_map) (\<lambda>_. on_backend (nb_maintain_peer_paths nb))"

definition sync_agent_once ::
  "agent_env \<Rightarrow> 'b network_backend \<Rightarrow> 'c control_api \<Rightarrow> agent_state \<Rightarrow> ('b, 'c, unit) agent_prog" where
  "sync_agent_once env nb api state =
     prog_bind (send_heartbeat nb api state) (\<lambda>_.
     prog_bind (fetch_network_map api state) (\<lambda>network_map.
       apply_network_map_and_maintain_paths env nb state network_map))"

section \<open>Start\<close>

definition ensure_backend_credentials :: "'b network_backend \<Rightarrow> agent_state \<Rightarrow> ('b, 'c, agent_state) agent_prog" where
  "ensure_backend_credentials nb state =
     (if as_backend_public_credential state = [] \<or> as_device_id state = None
      then prog_bind (on_backend (nb_ensure_credentials nb)) (\<lambda>credential.
             prog_result (Inr (state\<lparr>as_backend_public_credential := bc_public credential\<rparr>)))
      else prog_result (Inr state))"

definition register_request_of :: "agent_env \<Rightarrow> string \<Rightarrow> agent_state \<Rightarrow> register_device_request" where
  "register_request_of env login_key state =
     \<lparr>rq_auth_key = login_key, rq_hostname = agent_hostname env, rq_machine_key = as_machine_key state,
      rq_backend_type = ''tfscale'', rq_backend_public_credential = as_backend_public_credential state,
      rq_os = ae_os env, rq_arch = ae_arch env, rq_client_version = ae_version env\<rparr>"

definition register_agent_if_needed ::
  "agent_env \<Rightarrow> 'c control_api \<Rightarrow> string \<Rightarrow> agent_state \<Rightarrow> ('b, 'c, agent_state) agent_prog" where
  "register_agent_if_needed env api login_key state =
     (if as_device_id state \<noteq> None then prog_result (Inr state)
      else
        prog_bind (on_control (ca_register api (register_request_of env login_key state))) (\<lambda>response.
          let state = state\<lparr>as_device_id := Some (rr_device_id response), as_node_key := Some (rr_node_key response),
                as_network_id := Some (rr_network_id response), as_ipv4 := Some (rr_ipv4 response),
                as_poll_interval_seconds := rr_poll_interval_seconds response\<rparr> in
          prog_bind (on_state_file (agent_state_save env state)) (\<lambda>_. prog_result (Inr state))))"

text \<open>\<open>spawn_dns_proxy\<close> binds the socket or reports why it cannot.\<close>

definition dns_proxy_started :: "socket_addr \<Rightarrow> string + unit \<Rightarrow> agent_state \<Rightarrow> agent_state" where
  "dns_proxy_started dns_listen bound state =
     state\<lparr>as_dns_enabled := True, as_dns_listen := socket_addr_to_string dns_listen,
       as_dns_healthy := (case bound of Inr _ \<Rightarrow> True | Inl _ \<Rightarrow> False),
       as_dns_message := Some (case bound of Inr _ \<Rightarrow> ''DNS proxy listening'' | Inl e \<Rightarrow> ''DNS proxy failed to bind: '' @ e)\<rparr>"

text \<open>\<open>agent_up\<close> up to its loop.\<close>

definition agent_up ::
  "agent_env \<Rightarrow> 'b network_backend \<Rightarrow> 'c control_api \<Rightarrow> string \<Rightarrow> socket_addr \<Rightarrow> string + unit \<Rightarrow>
     ('b, 'c, agent_state) agent_prog" where
  "agent_up env nb api login_key dns_listen bound =
     prog_bind (on_state_file (agent_state_load env)) (\<lambda>loaded.
       let state = (case loaded of Some s \<Rightarrow> s | None \<Rightarrow> agent_state_new (ae_uuid env)) in
     prog_bind (\<lambda>w. Some (Inr (), w\<lparr>aw_dns := as_dns_records state\<rparr>)) (\<lambda>_.
     prog_bind (ensure_backend_credentials nb (dns_proxy_started dns_listen bound state)) (\<lambda>state.
     prog_bind (on_state_file (agent_state_save env state)) (\<lambda>_.
     prog_bind (register_agent_if_needed env api login_key state) (\<lambda>state.
     prog_bind (\<lambda>w. sync_agent_once env nb api state (w\<lparr>aw_last_version := None\<rparr>)) (\<lambda>_.
       prog_result (Inr state)))))))"

section \<open>The loop\<close>

record agent_schedule =
  next_sync_at :: system_time
  next_path_maintenance_at :: system_time

record agent_loop_tick =
  tick_sync :: bool
  tick_maintain_paths :: bool

text \<open>\<open>saturating_duration_since\<close>: zero when the earlier due time has passed.\<close>

definition agent_loop_sleep_duration :: "system_time \<Rightarrow> agent_schedule \<Rightarrow> duration" where
  "agent_loop_sleep_duration now sched = nat (min (next_sync_at sched) (next_path_maintenance_at sched) - now)"

definition next_agent_loop_tick ::
  "system_time \<Rightarrow> duration \<Rightarrow> agent_schedule \<Rightarrow> agent_loop_tick \<times> agent_schedule" where
  "next_agent_loop_tick now sync_interval sched =
     (let sync = (next_sync_at sched \<le> now);
          sched = (if sync then sched\<lparr>next_sync_at := now + int sync_interval\<rparr> else sched);
          maintain_paths = (next_path_maintenance_at sched \<le> now);
          sched = (if maintain_paths
                   then sched\<lparr>next_path_maintenance_at := now + int DIRECT_PATH_MAINTENANCE_INTERVAL\<rparr> else sched)
      in (\<lparr>tick_sync = sync, tick_maintain_paths = maintain_paths\<rparr>, sched))"

definition sync_interval_of :: "agent_state \<Rightarrow> duration" where
  "sync_interval_of state = max (unat (as_poll_interval_seconds state)) 1 * 1000000000"

definition initial_schedule :: "system_time \<Rightarrow> agent_state \<Rightarrow> agent_schedule" where
  "initial_schedule now state =
     \<lparr>next_sync_at = now + int (sync_interval_of state),
      next_path_maintenance_at = now + int DIRECT_PATH_MAINTENANCE_INTERVAL\<rparr>"

text \<open>
  One round of the loop finds the shutdown flag, the time after its sleep, and the backend and the
  control plane as they answer in that round. An error of a task is logged and the loop goes on.
\<close>

record ('b, 'c) loop_round =
  lr_shutdown :: bool
  lr_now :: system_time
  lr_backend :: "'b network_backend"
  lr_api :: "'c control_api"

definition run_logged :: "('b, 'c, 'a) agent_prog \<Rightarrow> ('b, 'c, unit) agent_prog" where
  "run_logged m w = map_option (\<lambda>(_, w'). (Inr (), w')) (m w)"

definition agent_loop_tasks ::
  "agent_env \<Rightarrow> agent_state \<Rightarrow> ('b, 'c) loop_round \<Rightarrow> agent_loop_tick \<Rightarrow> ('b, 'c, unit) agent_prog" where
  "agent_loop_tasks env state r tick =
     prog_bind (if tick_sync tick then run_logged (sync_agent_once env (lr_backend r) (lr_api r) state)
                else prog_result (Inr ())) (\<lambda>_.
       if tick_maintain_paths tick then run_logged (on_backend (nb_maintain_peer_paths (lr_backend r)))
       else prog_result (Inr ()))"

datatype loop_end = LoopRunning agent_schedule | LoopStopped

fun run_agent_loop ::
  "agent_env \<Rightarrow> agent_state \<Rightarrow> ('b, 'c) loop_round list \<Rightarrow> agent_schedule \<Rightarrow> ('b, 'c, loop_end) agent_prog" where
  "run_agent_loop env state [] sched = prog_result (Inr (LoopRunning sched))"
| "run_agent_loop env state (r # rounds) sched =
     (if lr_shutdown r
      then prog_bind (on_backend (nb_shutdown (lr_backend r))) (\<lambda>_. prog_result (Inr LoopStopped))
      else
        let (tick, sched) = next_agent_loop_tick (lr_now r) (sync_interval_of state) sched in
        prog_bind (agent_loop_tasks env state r tick) (\<lambda>_. run_agent_loop env state rounds sched))"

section \<open>What the agent relies on\<close>

locale control_contract =
  fixes api :: "'c control_api"
    and cok :: "'c \<Rightarrow> bool"
  assumes keeps_register: "cok c \<Longrightarrow> cok (snd (ca_register api registration c))"
    and keeps_heartbeat: "cok c \<Longrightarrow> cok (snd (ca_heartbeat api beat c))"
    and keeps_endpoint_probe: "cok c \<Longrightarrow> cok (snd (ca_endpoint_probe api probe c))"
    and keeps_network_map: "cok c \<Longrightarrow> cok (snd (ca_network_map api device_id node_key c))"

definition agent_world_ok :: "('b \<Rightarrow> bool) \<Rightarrow> ('c \<Rightarrow> bool) \<Rightarrow> ('b, 'c) agent_world \<Rightarrow> bool" where
  "agent_world_ok ok cok w \<longleftrightarrow> ok (aw_backend w) \<and> cok (aw_control w)"

lemma keeps_on_backend: "prog_keeps ok m \<Longrightarrow> prog_keeps (agent_world_ok ok cok) (on_backend m)"
  by (auto simp: prog_keeps_def on_backend_def agent_world_ok_def split: option.splits prod.splits)

lemma keeps_on_control: "(\<And>c. cok c \<Longrightarrow> cok (snd (f c))) \<Longrightarrow> prog_keeps (agent_world_ok ok cok) (on_control f)"
  by (fastforce simp: prog_keeps_def on_control_def agent_world_ok_def split: prod.splits)

lemma keeps_on_state_file: "prog_keeps (agent_world_ok ok cok) (on_state_file f)"
  by (auto simp: prog_keeps_def on_state_file_def agent_world_ok_def split: prod.splits)

lemma keeps_run_logged: "prog_keeps I m \<Longrightarrow> prog_keeps I (run_logged m)"
  by (auto simp: prog_keeps_def run_logged_def)

lemma keeps_after: "prog_keeps I m \<Longrightarrow> (\<And>w. I w \<Longrightarrow> I (f w)) \<Longrightarrow> prog_keeps I (\<lambda>w. m (f w))"
  unfolding prog_keeps_def by blast

lemmas agent_keeps_rules = prog_keeps_bind prog_keeps_result keeps_on_backend keeps_on_control keeps_on_state_file keeps_run_logged

text \<open>The agent on any backend and any control plane that keep their promises.\<close>

locale agent_system = network_backend_contract nb ok + control_contract api cok
  for nb :: "'b network_backend" and ok :: "'b \<Rightarrow> bool" and api :: "'c control_api" and cok :: "'c \<Rightarrow> bool"
begin

lemma keeps_requests:
  "prog_keeps (agent_world_ok ok cok) (on_control (ca_register api registration))"
  "prog_keeps (agent_world_ok ok cok) (on_control (ca_heartbeat api beat))"
  "prog_keeps (agent_world_ok ok cok) (on_control (ca_endpoint_probe api probe))"
  "prog_keeps (agent_world_ok ok cok) (on_control (ca_network_map api device_id node_key))"
  by (auto intro!: keeps_on_control keeps_register keeps_heartbeat keeps_endpoint_probe keeps_network_map)

lemmas keeps_calls = keeps_operations [THEN keeps_on_backend] keeps_requests

lemma keeps_discovered: "prog_keeps (agent_world_ok ok cok) (discovered_endpoints nb api device_id node_key eps)"
proof -
  have "prog_keeps (agent_world_ok ok cok) (agent_probe_public_endpoint nb api device_id node_key)"
    by (auto simp: agent_probe_public_endpoint_def intro!: agent_keeps_rules keeps_calls split: option.splits)
  then show ?thesis
    by (auto simp: prog_keeps_def discovered_endpoints_def split: option.splits sum.splits prod.splits)
qed

lemma keeps_send_heartbeat: "prog_keeps (agent_world_ok ok cok) (send_heartbeat nb api state)"
  by (auto simp: send_heartbeat_def intro!: prog_keeps_bind prog_keeps_result keeps_calls keeps_discovered split: prod.splits)

lemma keeps_apply_map: "prog_keeps (agent_world_ok ok cok) (apply_network_map_if_changed env nb state network_map)"
proof -
  have "prog_keeps (agent_world_ok ok cok) (apply_network_map_to_backend nb state network_map)"
    by (auto simp: apply_network_map_to_backend_def intro!: prog_keeps_bind prog_keeps_result keeps_calls)
  moreover have "prog_keeps (agent_world_ok ok cok) (save_dns_snapshot env state records)" for records
    by (simp add: save_dns_snapshot_def keeps_on_state_file)
  moreover have "prog_keeps (agent_world_ok ok cok) (\<lambda>w. Some (Inr (), w\<lparr>aw_dns := records, aw_last_version := version\<rparr>))" for records version
    by (simp add: prog_keeps_def agent_world_ok_def)
  ultimately have "prog_keeps (agent_world_ok ok cok) (prog_bind (apply_network_map_to_backend nb state network_map) (\<lambda>_.
      prog_bind (save_dns_snapshot env state (nm_dns_records network_map)) (\<lambda>_ w.
        Some (Inr (), w\<lparr>aw_dns := nm_dns_records network_map, aw_last_version := Some (nm_version network_map)\<rparr>))))"
    by (intro prog_keeps_bind)
  then show ?thesis
    unfolding prog_keeps_def apply_network_map_if_changed_def by (metis option.inject prod.inject)
qed

lemma keeps_sync: "prog_keeps (agent_world_ok ok cok) (sync_agent_once env nb api state)"
  unfolding sync_agent_once_def fetch_network_map_def apply_network_map_and_maintain_paths_def
  by (auto intro!: prog_keeps_bind prog_keeps_result keeps_calls keeps_send_heartbeat keeps_apply_map split: prod.splits)

lemma keeps_start:
  "prog_keeps (agent_world_ok ok cok) (\<lambda>w. Some (Inr (), w\<lparr>aw_dns := records\<rparr>))"
  "prog_keeps (agent_world_ok ok cok) (ensure_backend_credentials nb state)"
  "prog_keeps (agent_world_ok ok cok) (register_agent_if_needed env api login_key state)"
  by (auto simp: prog_keeps_def agent_world_ok_def)[1]
    (auto simp: ensure_backend_credentials_def register_agent_if_needed_def Let_def intro!: prog_keeps_bind prog_keeps_result keeps_calls keeps_on_state_file)

lemma keeps_agent_up: "prog_keeps (agent_world_ok ok cok) (agent_up env nb api login_key dns_listen bound)"
proof -
  have sync: "prog_keeps (agent_world_ok ok cok) (\<lambda>w. sync_agent_once env nb api state (w\<lparr>aw_last_version := None\<rparr>))" for state
    by (rule keeps_after [OF keeps_sync]) (simp add: agent_world_ok_def)
  show ?thesis
    unfolding agent_up_def Let_def
    by (intro prog_keeps_bind prog_keeps_result keeps_start sync keeps_on_state_file)
qed

lemma keeps_tasks:
  assumes "lr_backend r = nb" "lr_api r = api"
  shows "prog_keeps (agent_world_ok ok cok) (agent_loop_tasks env state r tick)"
  unfolding agent_loop_tasks_def assms
  by (auto intro!: prog_keeps_bind prog_keeps_result keeps_run_logged keeps_sync keeps_calls)

end

text \<open>The loop, whose backend and control plane may answer differently in every round.\<close>

lemma keeps_run_agent_loop:
  assumes "\<And>r. r \<in> set rounds \<Longrightarrow> agent_system (lr_backend r) ok (lr_api r) cok"
  shows "prog_keeps (agent_world_ok ok cok) (run_agent_loop env state rounds sched)"
  using assms
proof (induction rounds arbitrary: sched)
  case (Cons r rounds)
  then have sys: "agent_system (lr_backend r) ok (lr_api r) cok" by simp
  from sys have "prog_keeps (agent_world_ok ok cok) (on_backend (nb_shutdown (lr_backend r)))"
    by (simp add: agent_system_def network_backend_contract_def keeps_on_backend)
  with Cons agent_system.keeps_tasks [OF sys refl refl] show ?case
    by (auto simp: Let_def intro!: prog_keeps_bind prog_keeps_result split: prod.splits)
qed (simp add: prog_keeps_result)

section \<open>Properties\<close>

text \<open>
  What a node reports about its endpoints is what its peers configure: an endpoint turned into a
  heartbeat payload, and back into an endpoint of a peer, is the same endpoint, for the node's own
  endpoints and for those a probe found, for IPv4 and for IPv6.
\<close>

lemma endpoint_payload_roundtrip:
  "endpoint_to_config (endpoint_to_payload ep) = Inr ep" "endpoint_to_config (endpoint_from_backend_probe ep) = Inr ep"
proof -
  have kind: "parse_endpoint_kind (endpoint_kind_to_payload k) = Inr k" for k
    by (cases k) (simp_all add: parse_endpoint_kind_def)
  have protocol: "parse_transport_protocol (transport_protocol_to_payload p) = Inr p" for p
    by (cases p) (simp_all add: parse_transport_protocol_def)
  show "endpoint_to_config (endpoint_to_payload ep) = Inr ep" "endpoint_to_config (endpoint_from_backend_probe ep) = Inr ep"
    by (simp_all add: endpoint_to_config_def endpoint_to_payload_def endpoint_from_backend_probe_def kind protocol)
qed

text \<open>
  The times of the loop: a round begins its sleep at \<open>asleep\<close>, after the tasks of the round before, and
  looks at the clock again when it wakes up at \<open>awake\<close>, not before the sleep is over.
\<close>

record loop_times =
  lt_asleep :: system_time
  lt_awake :: system_time

fun loop_times_ok :: "duration \<Rightarrow> system_time \<Rightarrow> agent_schedule \<Rightarrow> loop_times list \<Rightarrow> bool" where
  "loop_times_ok sync_interval before sched [] \<longleftrightarrow> True"
| "loop_times_ok sync_interval before sched (r # rounds) \<longleftrightarrow>
     before \<le> lt_asleep r \<and> lt_asleep r + int (agent_loop_sleep_duration (lt_asleep r) sched) \<le> lt_awake r \<and>
     loop_times_ok sync_interval (lt_awake r) (snd (next_agent_loop_tick (lt_awake r) sync_interval sched)) rounds"

fun loop_ticks :: "duration \<Rightarrow> agent_schedule \<Rightarrow> loop_times list \<Rightarrow> (duration \<times> system_time \<times> agent_loop_tick) list" where
  "loop_ticks sync_interval sched [] = []"
| "loop_ticks sync_interval sched (r # rounds) =
     (case next_agent_loop_tick (lt_awake r) sync_interval sched of (tick, sched') \<Rightarrow>
        (agent_loop_sleep_duration (lt_asleep r) sched, lt_awake r, tick) # loop_ticks sync_interval sched' rounds)"

definition times_of :: "(agent_loop_tick \<Rightarrow> bool) \<Rightarrow> (duration \<times> system_time \<times> agent_loop_tick) list \<Rightarrow> system_time list" where
  "times_of task ticks = map (fst \<circ> snd) (filter (task \<circ> snd \<circ> snd) ticks)"

lemma loop_ticks_paced:
  assumes "loop_times_ok sync_interval before sched rounds"
    and "next_path_maintenance_at sched \<le> before + int DIRECT_PATH_MAINTENANCE_INTERVAL"
  shows "(\<forall>(sleep, now, tick) \<in> set (loop_ticks sync_interval sched rounds).
      sleep \<le> DIRECT_PATH_MAINTENANCE_INTERVAL \<and> (tick_sync tick \<or> tick_maintain_paths tick)) \<and>
    sorted_wrt (\<lambda>a b. a + int sync_interval \<le> b) (times_of tick_sync (loop_ticks sync_interval sched rounds)) \<and>
    (\<forall>t \<in> set (times_of tick_sync (loop_ticks sync_interval sched rounds)). next_sync_at sched \<le> t) \<and>
    sorted_wrt (\<lambda>a b. a + int DIRECT_PATH_MAINTENANCE_INTERVAL \<le> b) (times_of tick_maintain_paths (loop_ticks sync_interval sched rounds)) \<and>
    (\<forall>t \<in> set (times_of tick_maintain_paths (loop_ticks sync_interval sched rounds)). next_path_maintenance_at sched \<le> t)"
  using assms
proof (induction rounds arbitrary: before sched)
  case (Cons r rounds)
  obtain tick sched' where tick: "next_agent_loop_tick (lt_awake r) sync_interval sched = (tick, sched')" by fastforce
  have t: "tick_sync tick \<longleftrightarrow> next_sync_at sched \<le> lt_awake r" "tick_maintain_paths tick \<longleftrightarrow> next_path_maintenance_at sched \<le> lt_awake r"
    "next_sync_at sched' = (if tick_sync tick then lt_awake r + int sync_interval else next_sync_at sched)"
    "next_path_maintenance_at sched' =
      (if tick_maintain_paths tick then lt_awake r + int DIRECT_PATH_MAINTENANCE_INTERVAL else next_path_maintenance_at sched)"
    using tick by (auto simp: next_agent_loop_tick_def Let_def split: if_splits)
  have times: "before \<le> lt_asleep r" "lt_asleep r + int (agent_loop_sleep_duration (lt_asleep r) sched) \<le> lt_awake r"
    "loop_times_ok sync_interval (lt_awake r) sched' rounds"
    using Cons.prems(1) tick by simp_all
  have awake: "before \<le> lt_awake r" using times(1,2) by simp
  then have "next_path_maintenance_at sched' \<le> lt_awake r + int DIRECT_PATH_MAINTENANCE_INTERVAL" using t(4) Cons.prems(2) by simp
  note IH = Cons.IH [OF times(3) this]
  have "agent_loop_sleep_duration (lt_asleep r) sched \<le> DIRECT_PATH_MAINTENANCE_INTERVAL"
    using times(1) Cons.prems(2) by (auto simp: agent_loop_sleep_duration_def)
  moreover have "tick_sync tick \<or> tick_maintain_paths tick"
    using times(2) by (auto simp: t agent_loop_sleep_duration_def min_def split: if_splits)
  ultimately show ?case using IH t by (fastforce simp: tick times_of_def)
qed (simp add: times_of_def)

text \<open>
  C35. The agent's loop neither spins nor stalls: whenever its rounds go to sleep and wake up, the clock going forward and no sleep
  ending early, no round is idle, no sleep is longer than the maintenance interval, and the rounds that
  synchronize are at least the poll interval apart, which is at least a second, those that maintain paths at
  least the maintenance interval; the first ones come that long after the start. A round whose tasks took long may be followed by
  one without a sleep, which then has a task that is due.
\<close>

theorem agent_loop_paced:
  assumes "loop_times_ok (sync_interval_of state) start (initial_schedule start state) rounds"
    and "ticks = loop_ticks (sync_interval_of state) (initial_schedule start state) rounds"
  shows "(\<forall>(sleep, now, tick) \<in> set ticks. sleep \<le> DIRECT_PATH_MAINTENANCE_INTERVAL \<and> (tick_sync tick \<or> tick_maintain_paths tick)) \<and>
    sorted_wrt (\<lambda>a b. a + int (sync_interval_of state) \<le> b) (start # times_of tick_sync ticks) \<and>
    sorted_wrt (\<lambda>a b. a + int DIRECT_PATH_MAINTENANCE_INTERVAL \<le> b) (start # times_of tick_maintain_paths ticks) \<and>
    1000000000 \<le> sync_interval_of state"
proof -
  have "next_path_maintenance_at (initial_schedule start state) \<le> start + int DIRECT_PATH_MAINTENANCE_INTERVAL"
    by (simp add: initial_schedule_def)
  from loop_ticks_paced [OF assms(1) this] show ?thesis
    unfolding assms(2) by (auto simp: initial_schedule_def sync_interval_of_def)
qed

text \<open>A task of the first round takes two seconds: the second round does not sleep, and both tasks are due.\<close>

theorem agent_loop_paced_witness:
  "sorted_wrt (\<lambda>a b. a + 250000000 \<le> b) (0 # times_of tick_maintain_paths
     (loop_ticks 1000000000 \<lparr>next_sync_at = 1000000000, next_path_maintenance_at = 250000000\<rparr>
       [\<lparr>lt_asleep = 0, lt_awake = 260000000\<rparr>, \<lparr>lt_asleep = 2260000000, lt_awake = 2260000001\<rparr>]))"
proof -
  let ?state = "agent_state_default" and ?rounds = "[\<lparr>lt_asleep = 0, lt_awake = 260000000\<rparr>, \<lparr>lt_asleep = 2260000000, lt_awake = 2260000001\<rparr>]"
  have state: "sync_interval_of ?state = 1000000000" by (simp add: sync_interval_of_def agent_state_default_def)
  have "loop_times_ok (sync_interval_of ?state) 0 (initial_schedule 0 ?state) ?rounds"
    by (simp add: state initial_schedule_def agent_loop_sleep_duration_def next_agent_loop_tick_def Let_def DIRECT_PATH_MAINTENANCE_INTERVAL_def)
  from agent_loop_paced [OF this refl] show ?thesis by (simp add: state initial_schedule_def DIRECT_PATH_MAINTENANCE_INTERVAL_def)
qed

lemma apply_map_Some:
  assumes "apply_network_map_if_changed env nb state network_map w = Some (r, w')"
    and "aw_last_version w \<noteq> Some (nm_version network_map)"
  obtains (backend) e where "apply_network_map_to_backend nb state network_map w = Some (Inl e, w')" "r = Inl e"
  | (snapshot) e w1 where "apply_network_map_to_backend nb state network_map w = Some (Inr (), w1)"
      "save_dns_snapshot env state (nm_dns_records network_map) w1 = Some (Inl e, w')" and "r = Inl e"
  | (applied) w1 w2 where "apply_network_map_to_backend nb state network_map w = Some (Inr (), w1)"
      "save_dns_snapshot env state (nm_dns_records network_map) w1 = Some (Inr (), w2)" "r = Inr ()"
      "w' = w2\<lparr>aw_dns := nm_dns_records network_map, aw_last_version := Some (nm_version network_map)\<rparr>"
  using assms by (auto simp: apply_network_map_if_changed_def prog_bind_Some)

lemma on_backend_frame: "prog_keeps (\<lambda>v. v = w\<lparr>aw_backend := aw_backend v\<rparr>) (on_backend m)"
proof -
  have "v' = w\<lparr>aw_backend := aw_backend v'\<rparr>"
    if "v = w\<lparr>aw_backend := aw_backend v\<rparr>" and "on_backend m v = Some (r, v')" for v v' r
  proof -
    from that(2) obtain b where "v' = v\<lparr>aw_backend := b\<rparr>" by (auto simp: on_backend_def split: option.splits prod.splits)
    with that(1) show ?thesis by (cases v; cases w) simp
  qed
  then show ?thesis unfolding prog_keeps_def by blast
qed

lemma apply_to_backend_frame:
  assumes "apply_network_map_to_backend nb state network_map w = Some (r, w')"
  shows "w' = w\<lparr>aw_backend := aw_backend w'\<rparr>"
proof -
  have "prog_keeps (\<lambda>v. v = w\<lparr>aw_backend := aw_backend v\<rparr>) (apply_network_map_to_backend nb state network_map)"
    unfolding apply_network_map_to_backend_def by (intro prog_keeps_bind prog_keeps_result on_backend_frame)
  from prog_keepsD [OF this _ assms] show ?thesis by simp
qed

lemma save_snapshot_Some:
  "save_dns_snapshot env state records w = Some (r, w') \<Longrightarrow>
     w' = w\<lparr>aw_disk := aw_disk w'\<rparr> \<and> agent_state_save env (state\<lparr>as_dns_records := records\<rparr>) (aw_disk w) = (r, aw_disk w')"
  by (auto simp: save_dns_snapshot_def on_state_file_def split: prod.splits)

lemma agent_state_save_Inr:
  "agent_state_save env state dk = (Inr (), dk') \<Longrightarrow> \<exists>bs. ae_ser env state = Inr bs \<and> dk_file dk' = Some bs"
  by (auto simp: agent_state_save_def fs_call_def Let_def split: option.splits sum.splits)

text \<open>A map that the backend took was converted and passed on in three calls, in this order.\<close>

lemma on_backend_Inr: "on_backend m w = Some (Inr x, w') \<longleftrightarrow> (\<exists>b. m (aw_backend w) = Some (Inr x, b) \<and> w' = w\<lparr>aw_backend := b\<rparr>)"
  by (auto simp: on_backend_def map_err_eq_Inr split: option.splits prod.splits)

lemma backend_took_map:
  assumes "apply_network_map_to_backend nb state network_map w = Some (Inr (), w')"
  shows "\<exists>ip overlay_ip device_id peers b1 b2.
    as_ipv4 state = Some ip \<and> parse_ipv4 ip = Some overlay_ip \<and> as_device_id state = Some device_id \<and>
    network_map_to_peer_configs (nm_peers network_map) = Inr peers \<and>
    nb_apply_local_config nb \<lparr>lc_device_id = device_id, lc_interface_name = ''tfscale0'', lc_overlay_ip = overlay_ip,
      lc_listen_port = 51820\<rparr> (aw_backend w) = Some (Inr (), b1) \<and>
    nb_apply_relay_map nb (network_map_to_relay_configs (nm_relays network_map)) b1 = Some (Inr (), b2) \<and>
    nb_apply_peer_map nb peers b2 = Some (Inr (), aw_backend w')"
  using assms
  by (auto simp: apply_network_map_to_backend_def prog_bind_Inr prog_result_Some on_backend_Inr ok_or_eq_Inr
      DEFAULT_INTERFACE_NAME_def DEFAULT_LISTEN_PORT_def)

text \<open>
  C22. A network map counts as applied only when all of it was: a success with a new version means that the backend
  took, in this order, the local configuration with the node's id and address, the map's relays and the map's peers,
  that the state file holds the map's records, that the DNS proxy serves them and that the version is recorded;
  after a failure of the backend or of the file the recorded version and the served records are the old ones, so
  the next synchronization applies the map again. A map whose version is already recorded changes
  nothing.
\<close>

theorem network_map_recorded_when_applied:
  assumes "apply_network_map_if_changed env nb state network_map w = Some (r, w')"
  shows "(aw_last_version w = Some (nm_version network_map) \<and> r = Inr () \<and> w' = w) \<or>
    (aw_last_version w \<noteq> Some (nm_version network_map) \<and> r = Inr () \<and>
      (\<exists>ip overlay_ip device_id peers b1 b2 bs.
        as_ipv4 state = Some ip \<and> parse_ipv4 ip = Some overlay_ip \<and> as_device_id state = Some device_id \<and>
        network_map_to_peer_configs (nm_peers network_map) = Inr peers \<and>
        nb_apply_local_config nb \<lparr>lc_device_id = device_id, lc_interface_name = ''tfscale0'', lc_overlay_ip = overlay_ip,
          lc_listen_port = 51820\<rparr> (aw_backend w) = Some (Inr (), b1) \<and>
        nb_apply_relay_map nb (network_map_to_relay_configs (nm_relays network_map)) b1 = Some (Inr (), b2) \<and>
        nb_apply_peer_map nb peers b2 = Some (Inr (), aw_backend w') \<and>
        ae_ser env (state\<lparr>as_dns_records := nm_dns_records network_map\<rparr>) = Inr bs \<and> dk_file (aw_disk w') = Some bs) \<and>
      aw_dns w' = nm_dns_records network_map \<and> aw_last_version w' = Some (nm_version network_map)) \<or>
    (\<exists>e. r = Inl e \<and> aw_last_version w' = aw_last_version w \<and> aw_dns w' = aw_dns w)"
proof (cases "aw_last_version w = Some (nm_version network_map)")
  case True
  with assms show ?thesis by (simp add: apply_network_map_if_changed_def)
next
  case False
  from assms False show ?thesis
  proof (cases rule: apply_map_Some)
    case (backend e)
    have "w' = w\<lparr>aw_backend := aw_backend w'\<rparr>" using backend(1) by (rule apply_to_backend_frame)
    then have "aw_last_version w' = aw_last_version w" "aw_dns w' = aw_dns w" by (cases w; cases w'; simp)+
    with backend show ?thesis by blast
  next
    case (snapshot e w1)
    have "w1 = w\<lparr>aw_backend := aw_backend w1\<rparr>" "w' = w1\<lparr>aw_disk := aw_disk w'\<rparr>"
      using apply_to_backend_frame [OF snapshot(1)] save_snapshot_Some [OF snapshot(2)] by simp_all
    then have "aw_last_version w' = aw_last_version w" "aw_dns w' = aw_dns w" by (cases w; cases w1; cases w'; simp)+
    with snapshot show ?thesis by blast
  next
    case (applied w1 w2)
    from save_snapshot_Some [OF applied(2)] have w2: "w2 = w1\<lparr>aw_disk := aw_disk w2\<rparr>"
      and "agent_state_save env (state\<lparr>as_dns_records := nm_dns_records network_map\<rparr>) (aw_disk w1) = (Inr (), aw_disk w2)" by simp_all
    then obtain bs where saved: "ae_ser env (state\<lparr>as_dns_records := nm_dns_records network_map\<rparr>) = Inr bs" "dk_file (aw_disk w2) = Some bs"
      using agent_state_save_Inr by blast
    have "aw_backend w2 = aw_backend w1" by (subst w2) simp
    with backend_took_map [OF applied(1)] saved applied(3,4) False show ?thesis by simp
  qed
qed

definition demo_agent_state :: agent_state where
  "demo_agent_state =
     (agent_state_new ''0'')\<lparr>as_device_id := Some ''dev_a0'', as_node_key := Some ''node_a1'', as_ipv4 := Some ''100.64.0.2''\<rparr>"

definition demo_agent_env :: agent_env where
  "demo_agent_env =
     \<lparr>ae_ser = (\<lambda>s. if s = demo_agent_state then Inr [7] else Inl ''unsupported''),
      ae_de = (\<lambda>bs. if bs = [7] then Inr demo_agent_state else Inl ''expected value''),
      ae_uuid = ''0'', ae_hostname_var = None, ae_hostname_command = None, ae_os = ''linux'', ae_arch = ''x86_64'',
      ae_version = ''0.1.0''\<rparr>"

definition demo_network_map :: network_map_response where
  "demo_network_map =
     \<lparr>nm_version = 3,
      nm_self_device = \<lparr>nms_device_id = ''dev_a0'', nms_hostname = ''a'', nms_ipv4 = ''100.64.0.2'', nms_backend_type = ''tfscale''\<rparr>,
      nm_peers = [], nm_dns_records = [], nm_relays = []\<rparr>"

definition demo_agent_world :: "(mock_backend, unit) agent_world" where
  "demo_agent_world =
     \<lparr>aw_backend = mock_new ''pk'', aw_control = (),
      aw_disk = \<lparr>dk_file = None, dk_tmp = None, dk_fail = (\<lambda>_. None), dk_partial = [], dk_calls = 0,
        dk_file_mode = 0, dk_tmp_mode = 0, dk_new_mode = 420\<rparr>,
      aw_dns = [], aw_last_version = None\<rparr>"

lemma demo_apply_map:
  obtains w' where "apply_network_map_if_changed demo_agent_env mock_network_backend demo_agent_state demo_network_map demo_agent_world = Some (Inr (), w')"
proof -
  have "as_ipv4 demo_agent_state = Some ''100.64.0.2''" "as_device_id demo_agent_state = Some ''dev_a0''"
    "demo_agent_state\<lparr>as_dns_records := []\<rparr> = demo_agent_state"
    by (simp_all add: demo_agent_state_def agent_state_new_def agent_state_default_def)
  moreover have "parse_ipv4 ''100.64.0.2'' = Some (Ipv4Addr 100 64 0 2)" by code_simp
  ultimately show ?thesis
    using that
    by (simp add: apply_network_map_if_changed_def apply_network_map_to_backend_def prog_bind_def prog_result_def
        on_backend_def mock_network_backend_def mock_call_def network_map_to_peer_configs_def save_dns_snapshot_def
        on_state_file_def agent_state_save_def fs_call_def demo_network_map_def demo_agent_world_def demo_agent_env_def)
qed

theorem network_map_recorded_when_applied_witness:
  "\<exists>w'. apply_network_map_if_changed demo_agent_env mock_network_backend demo_agent_state demo_network_map demo_agent_world = Some (Inr (), w') \<and>
     aw_last_version w' = Some 3"
proof -
  obtain w' where w': "apply_network_map_if_changed demo_agent_env mock_network_backend demo_agent_state demo_network_map demo_agent_world = Some (Inr (), w')"
    by (rule demo_apply_map)
  from network_map_recorded_when_applied [OF w'] have "aw_last_version w' = Some 3"
    by (auto simp: demo_network_map_def demo_agent_world_def)
  with w' show ?thesis by blast
qed

lemma collect_results_bad: "x \<in> set xs \<Longrightarrow> f x = Inl e \<Longrightarrow> \<exists>e. collect_results f xs = Inl e"
proof (induction xs)
  case (Cons y xs)
  then show ?case by (cases "f y"; cases "collect_results f xs") auto
qed simp

text \<open>
  One endpoint the agent cannot read blocks the whole network map: when any peer reports an
  endpoint with an unknown kind, address or protocol, the peer map is not applied at all (the
  outcome does not depend on the backend's \<open>apply_peer_map\<close>), the call fails, and the version stays
  unrecorded, so every later synchronization fails in the same way.
\<close>

theorem bad_endpoint_blocks_map:
  assumes "peer \<in> set (nm_peers network_map)" and "ep \<in> set (nmp_endpoints peer)" and "endpoint_to_config ep = Inl e"
    and "aw_last_version w \<noteq> Some (nm_version network_map)"
    and "apply_network_map_if_changed env nb state network_map w = Some (r, w')"
  shows "(\<exists>e. r = Inl e) \<and> aw_last_version w' = aw_last_version w \<and> aw_dns w' = aw_dns w \<and>
    apply_network_map_if_changed env (nb\<lparr>nb_apply_peer_map := f\<rparr>) state network_map w = Some (r, w')"
proof -
  obtain e1 where "collect_results endpoint_to_config (nmp_endpoints peer) = Inl e1"
    using assms(2,3) by (rule collect_results_bad [THEN exE])
  then obtain e2 where "peer_to_config peer = Inl e2"
    by (cases "parse_ipv4 (nmp_ipv4 peer)") (simp_all add: peer_to_config_def)
  with assms(1) collect_results_bad [of peer "nm_peers network_map" peer_to_config e2] obtain e' where e': "network_map_to_peer_configs (nm_peers network_map) = Inl e'"
    unfolding network_map_to_peer_configs_def by blast
  have same: "apply_network_map_to_backend (nb\<lparr>nb_apply_peer_map := f\<rparr>) state network_map = apply_network_map_to_backend nb state network_map"
    by (simp add: apply_network_map_to_backend_def e' prog_bind_prog_result)
  have err: "apply_network_map_to_backend nb state network_map v \<noteq> Some (Inr (), v')" for v v'
    by (auto simp: apply_network_map_to_backend_def e' prog_bind_Inr prog_result_Some)
  from assms(5,4) obtain e'' where r: "apply_network_map_to_backend nb state network_map w = Some (Inl e'', w')" "r = Inl e''"
    by (cases rule: apply_map_Some) (auto simp: err)
  have "w' = w\<lparr>aw_backend := aw_backend w'\<rparr>" using r(1) by (rule apply_to_backend_frame)
  then have "aw_last_version w' = aw_last_version w" "aw_dns w' = aw_dns w" by (cases w; cases w'; simp)+
  moreover have "apply_network_map_if_changed env (nb\<lparr>nb_apply_peer_map := f\<rparr>) state network_map w = Some (r, w')"
    using assms(5) unfolding apply_network_map_if_changed_def same .
  ultimately show ?thesis using r(2) by blast
qed

definition demo_bad_map :: network_map_response where
  "demo_bad_map = demo_network_map\<lparr>nm_peers :=
     [\<lparr>nmp_device_id = ''dev_b0'', nmp_hostname = ''b'', nmp_ipv4 = ''100.64.0.3'', nmp_backend_type = ''tfscale'',
       nmp_backend_public_credential = ''pk'',
       nmp_endpoints = [\<lparr>epp_kind = ''bluetooth'', epp_address = ''192.168.0.7'', epp_port = 1, epp_protocol = ''udp'',
         epp_source = None, epp_priority = None, epp_expires_at = None\<rparr>],
       nmp_allowed_routes = []\<rparr>]\<rparr>"

theorem bad_endpoint_blocks_map_witness:
  "\<exists>e w'. apply_network_map_if_changed demo_agent_env mock_network_backend demo_agent_state demo_bad_map demo_agent_world = Some (Inl e, w')"
proof -
  have state: "as_ipv4 demo_agent_state = Some ''100.64.0.2''" "as_device_id demo_agent_state = Some ''dev_a0''"
    by (simp_all add: demo_agent_state_def agent_state_new_def agent_state_default_def)
  have ip: "parse_ipv4 ''100.64.0.2'' = Some (Ipv4Addr 100 64 0 2)" by code_simp
  let ?peer = "hd (nm_peers demo_bad_map)"
  let ?ep = "hd (nmp_endpoints ?peer)"
  obtain e where bad: "endpoint_to_config ?ep = Inl e"
    by (simp add: endpoint_to_config_def parse_endpoint_kind_def demo_bad_map_def)
  have "\<exists>r w'. apply_network_map_if_changed demo_agent_env mock_network_backend demo_agent_state demo_bad_map demo_agent_world = Some (r, w')"
    by (simp add: apply_network_map_if_changed_def apply_network_map_to_backend_def prog_bind_def prog_result_def state ip
        on_backend_def mock_network_backend_def mock_call_def demo_agent_world_def save_dns_snapshot_def on_state_file_def
        split: sum.split prod.split)
  then obtain r w' where run: "apply_network_map_if_changed demo_agent_env mock_network_backend demo_agent_state demo_bad_map demo_agent_world = Some (r, w')"
    by blast
  have mem: "?peer \<in> set (nm_peers demo_bad_map)" "?ep \<in> set (nmp_endpoints ?peer)" by (simp_all add: demo_bad_map_def)
  have "aw_last_version demo_agent_world \<noteq> Some (nm_version demo_bad_map)" by (simp add: demo_agent_world_def)
  then have "\<exists>e. r = Inl e" by (rule bad_endpoint_blocks_map [OF mem bad _ run, THEN conjunct1])
  with run show ?thesis by blast
qed

text \<open>
  A failed write of the agent's state file destroys it: the file is overwritten in place, so when
  the write fails part of the way, what is left is a fragment; if that is no valid JSON, the agent
  cannot start any more, whatever the backend and the control plane do, and its machine key and
  node key are lost.
\<close>

theorem failed_save_prevents_restart:
  assumes "dk_fail dk (dk_calls dk) = None" and "ae_ser env state = Inr bs"
    and "dk_fail dk (Suc (dk_calls dk)) = Some e" and "ae_de env (dk_partial dk) = Inl json_error"
    and "dk_fail dk (Suc (Suc (dk_calls dk))) = None"
    and "aw_disk w = snd (agent_state_save env state dk)"
  shows "fst (agent_state_save env state dk) = Inl (AgentIo e) \<and>
    dk_file (aw_disk w) = Some (dk_partial dk) \<and>
    (\<exists>w'. agent_up env nb api login_key dns_listen bound w = Some (Inl (AgentJson json_error), w'))"
proof -
  have save: "agent_state_save env state dk =
      (Inl (AgentIo e), write_state_file (dk_partial dk) (dk\<lparr>dk_calls := Suc (Suc (dk_calls dk))\<rparr>))"
    using assms by (simp add: agent_state_save_def fs_call_def)
  have "fst (agent_state_load env (aw_disk w)) = Inl (AgentJson json_error)"
    using assms by (simp add: save agent_state_load_def fs_call_def)
  then have "\<exists>w'. on_state_file (agent_state_load env) w = Some (Inl (AgentJson json_error), w')"
    by (auto simp: on_state_file_def split: prod.split)
  with save assms(6) show ?thesis by (auto simp: agent_up_def prog_bind_def)
qed

theorem failed_save_prevents_restart_witness:
  "\<exists>w'. agent_up demo_agent_env mock_network_backend
      \<lparr>ca_register = (\<lambda>_ c. (Inl [], c)), ca_heartbeat = (\<lambda>_ c. (Inl [], c)), ca_endpoint_probe = (\<lambda>_ c. (Inl [], c)),
       ca_network_map = (\<lambda>_ _ c. (Inl [], c))\<rparr> ''tfk'' \<lparr>sa_ip = V4 (Ipv4Addr 127 0 0 1), sa_port = 1053\<rparr> (Inr ())
      (demo_agent_world\<lparr>aw_disk := snd (agent_state_save demo_agent_env demo_agent_state
         \<lparr>dk_file = Some [7], dk_tmp = None, dk_fail = (\<lambda>n. if n = 1 then Some ''disk full'' else None), dk_partial = [9], dk_calls = 0,
           dk_file_mode = 384, dk_tmp_mode = 0, dk_new_mode = 420\<rparr>)\<rparr>) =
    Some (Inl (AgentJson ''expected value''), w')"
  by (rule failed_save_prevents_restart [THEN conjunct2, THEN conjunct2]) (simp_all add: demo_agent_env_def)

lemma version_kept:
  "prog_keeps (\<lambda>v. aw_last_version v = x) (on_backend m)" "prog_keeps (\<lambda>v. aw_last_version v = x) (on_control g)"
  by (auto simp: prog_keeps_def on_backend_def on_control_def split: option.splits prod.splits)

lemma sync_runs:
  assumes "sync_agent_once env nb api state w = Some (Inr (), w')" and "aw_last_version w = None"
  obtains w1 w2 w3 network_map where "send_heartbeat nb api state w = Some (Inr (), w1)"
    and "fetch_network_map api state w1 = Some (Inr network_map, w2)" and "aw_last_version w2 \<noteq> Some (nm_version network_map)"
    and "apply_network_map_if_changed env nb state network_map w2 = Some (Inr (), w3)"
    and "on_backend (nb_maintain_peer_paths nb) w3 = Some (Inr (), w')"
proof -
  have "prog_keeps (\<lambda>v. aw_last_version v = None) (agent_probe_public_endpoint nb api d k)" for d k
    unfolding agent_probe_public_endpoint_def by (auto intro!: prog_keeps_bind version_kept prog_keeps_result split: option.split)
  then have "prog_keeps (\<lambda>v. aw_last_version v = None) (discovered_endpoints nb api d k eps)" for d k eps
    by (fastforce simp: prog_keeps_def discovered_endpoints_def split: option.splits sum.splits prod.splits)
  then have beat: "prog_keeps (\<lambda>v. aw_last_version v = None) (send_heartbeat nb api state)"
    unfolding send_heartbeat_def by (auto intro!: prog_keeps_bind version_kept prog_keeps_result split: prod.split)
  have fetch: "prog_keeps (\<lambda>v. aw_last_version v = None) (fetch_network_map api state)"
    unfolding fetch_network_map_def by (auto intro!: prog_keeps_bind version_kept prog_keeps_result split: prod.split)
  from assms(1) obtain w1 w2 w3 network_map where run: "send_heartbeat nb api state w = Some (Inr (), w1)"
    "fetch_network_map api state w1 = Some (Inr network_map, w2)"
    "apply_network_map_if_changed env nb state network_map w2 = Some (Inr (), w3)"
    "on_backend (nb_maintain_peer_paths nb) w3 = Some (Inr (), w')"
    by (auto simp: sync_agent_once_def apply_network_map_and_maintain_paths_def prog_bind_Inr)
  have "aw_last_version w2 = None" using prog_keepsD [OF fetch prog_keepsD [OF beat assms(2) run(1)] run(2)] .
  then have "aw_last_version w2 \<noteq> Some (nm_version network_map)" by simp
  from that [OF run(1,2) this run(3,4)] show thesis .
qed

lemma sync_saves_snapshot:
  assumes "sync_agent_once env nb api state w = Some (Inr (), w')" and "aw_last_version w = None"
  shows "\<exists>records bs. ae_ser env (state\<lparr>as_dns_records := records\<rparr>) = Inr bs \<and> dk_file (aw_disk w') = Some bs"
proof -
  from sync_runs [OF assms] obtain w1 w2 w3 network_map where "fetch_network_map api state w1 = Some (Inr network_map, w2)"
    and new: "aw_last_version w2 \<noteq> Some (nm_version network_map)"
    and apply_map: "apply_network_map_if_changed env nb state network_map w2 = Some (Inr (), w3)"
    and maintain: "on_backend (nb_maintain_peer_paths nb) w3 = Some (Inr (), w')" .
  from apply_map new have "\<exists>bs. ae_ser env (state\<lparr>as_dns_records := nm_dns_records network_map\<rparr>) = Inr bs \<and> dk_file (aw_disk w3) = Some bs"
    by (cases rule: apply_map_Some) (auto dest!: save_snapshot_Some agent_state_save_Inr)
  moreover have "aw_disk w' = aw_disk w3" using maintain by (auto simp: on_backend_def split: option.splits prod.splits)
  ultimately show ?thesis by auto
qed

text \<open>A backend that never takes a local configuration keeps the agent from getting past its first synchronization.\<close>

context agent_system
begin

lemma sync_stuck:
  assumes "\<And>config b b'. ok b \<Longrightarrow> nb_apply_local_config nb config b \<noteq> Some (Inr (), b')"
    and "agent_world_ok ok cok w" and "aw_last_version w = None"
  shows "sync_agent_once env nb api state w \<noteq> Some (Inr (), w')"
proof
  assume "sync_agent_once env nb api state w = Some (Inr (), w')"
  from sync_runs [OF this assms(3)] obtain w1 w2 w3 network_map where run: "send_heartbeat nb api state w = Some (Inr (), w1)"
    "fetch_network_map api state w1 = Some (Inr network_map, w2)" "aw_last_version w2 \<noteq> Some (nm_version network_map)"
    "apply_network_map_if_changed env nb state network_map w2 = Some (Inr (), w3)" .
  have "prog_keeps (agent_world_ok ok cok) (fetch_network_map api state)"
    unfolding fetch_network_map_def by (auto intro!: prog_keeps_bind prog_keeps_result keeps_calls split: prod.split)
  from prog_keepsD [OF this prog_keepsD [OF keeps_send_heartbeat assms(2) run(1)] run(2)] have "ok (aw_backend w2)"
    by (simp add: agent_world_ok_def)
  moreover from run(4,3) obtain v where "apply_network_map_to_backend nb state network_map w2 = Some (Inr (), v)"
    by (cases rule: apply_map_Some) simp
  from backend_took_map [OF this] obtain config b1 where "nb_apply_local_config nb config (aw_backend w2) = Some (Inr (), b1)" by blast
  ultimately show False using assms(1) by blast
qed

lemma agent_up_stuck:
  assumes "\<And>config b b'. ok b \<Longrightarrow> nb_apply_local_config nb config b \<noteq> Some (Inr (), b')" and "agent_world_ok ok cok w"
  shows "agent_up env nb api login_key dns_listen bound w \<noteq> Some (Inr state, w')"
proof
  assume "agent_up env nb api login_key dns_listen bound w = Some (Inr state, w')"
  then obtain loaded w1 s w2 w3 w4 where run: "on_state_file (agent_state_load env) w = Some (Inr loaded, w1)"
    "ensure_backend_credentials nb s (w1\<lparr>aw_dns := as_dns_records (case loaded of Some s \<Rightarrow> s | None \<Rightarrow> agent_state_new (ae_uuid env))\<rparr>) = Some (Inr w2, w3)"
    "on_state_file (agent_state_save env w2) w3 = Some (Inr (), w4)"
    and more: "\<exists>v. register_agent_if_needed env api login_key w2 w4 = Some (Inr state, v) \<and>
      sync_agent_once env nb api state (v\<lparr>aw_last_version := None\<rparr>) = Some (Inr (), w')"
    unfolding agent_up_def Let_def prog_bind_Inr prog_result_Some by auto
  from more obtain v where reg: "register_agent_if_needed env api login_key w2 w4 = Some (Inr state, v)"
    and sync: "sync_agent_once env nb api state (v\<lparr>aw_last_version := None\<rparr>) = Some (Inr (), w')" by blast
  have "agent_world_ok ok cok w1" using keeps_on_state_file assms(2) run(1) by (rule prog_keepsD)
  then have "agent_world_ok ok cok (w1\<lparr>aw_dns := records\<rparr>)" for records by (simp add: agent_world_ok_def)
  then have "agent_world_ok ok cok w3" using keeps_start(2) run(2) by (blast intro: prog_keepsD)
  then have "agent_world_ok ok cok w4" using keeps_on_state_file run(3) by (blast intro: prog_keepsD)
  then have "agent_world_ok ok cok v" using keeps_start(3) reg by (blast intro: prog_keepsD)
  then have "agent_world_ok ok cok (v\<lparr>aw_last_version := None\<rparr>)" by (simp add: agent_world_ok_def)
  from sync_stuck [OF assms(1) this] sync show False by simp
qed

end

lemma agent_up_registered:
  assumes "agent_up env nb api login_key dns_listen bound w = Some (Inr state, w')"
  shows "as_device_id state \<noteq> None \<and>
    (\<exists>records bs. ae_ser env (state\<lparr>as_dns_records := records\<rparr>) = Inr bs \<and> dk_file (aw_disk w') = Some bs)"
proof -
  from assms obtain s w1 w2 where reg: "register_agent_if_needed env api login_key s w1 = Some (Inr state, w2)"
    and sync: "sync_agent_once env nb api state (w2\<lparr>aw_last_version := None\<rparr>) = Some (Inr (), w')"
    by (auto simp: agent_up_def Let_def prog_bind_Inr prog_result_Some)
  from reg have "as_device_id state \<noteq> None"
    by (auto simp: register_agent_if_needed_def Let_def prog_bind_Inr prog_result_Some split: if_splits)
  with sync_saves_snapshot [OF sync] show ?thesis by simp
qed


definition demo_listen :: socket_addr where
  "demo_listen = \<lparr>sa_ip = V4 (Ipv4Addr 127 0 0 1), sa_port = 1053\<rparr>"

definition demo_unregistered :: agent_state where
  "demo_unregistered = (dns_proxy_started demo_listen (Inr ()) (agent_state_new ''0''))\<lparr>as_backend_public_credential := ''pk''\<rparr>"

definition demo_answer :: register_device_response where
  "demo_answer = \<lparr>rr_device_id = ''dev_a0'', rr_node_key = ''node_a1'', rr_ipv4 = ''100.64.0.2'', rr_network_id = ''net_default'',
     rr_poll_interval_seconds = 5\<rparr>"

definition demo_registered_state :: agent_state where
  "demo_registered_state = demo_unregistered\<lparr>as_device_id := Some ''dev_a0'', as_node_key := Some ''node_a1'',
     as_network_id := Some ''net_default'', as_ipv4 := Some ''100.64.0.2'', as_poll_interval_seconds := 5\<rparr>"

definition demo_restart_env :: agent_env where
  "demo_restart_env = demo_agent_env\<lparr>
     ae_ser := (\<lambda>s. if s = demo_unregistered then Inr [1] else if s = demo_registered_state then Inr [2] else Inl ''unsupported''),
     ae_de := (\<lambda>bs. if bs = [1] then Inr demo_unregistered else if bs = [2] then Inr demo_registered_state else Inl ''expected value'')\<rparr>"

definition demo_control_api :: "unit control_api" where
  "demo_control_api =
     \<lparr>ca_register = (\<lambda>_ c. (Inr demo_answer, c)), ca_heartbeat = (\<lambda>_ c. (Inr (), c)),
      ca_endpoint_probe = (\<lambda>_ c. (Inl ''timed out'', c)), ca_network_map = (\<lambda>_ _ c. (Inr demo_network_map, c))\<rparr>"

lemma demo_agent_up:
  obtains w' where "agent_up demo_restart_env mock_network_backend demo_control_api ''tfk'' demo_listen (Inr ()) demo_agent_world =
    Some (Inr demo_registered_state, w')"
proof -
  have ip: "parse_ipv4 ''100.64.0.2'' = Some (Ipv4Addr 100 64 0 2)" by code_simp
  have states: "demo_unregistered \<noteq> demo_registered_state" "as_device_id demo_unregistered = None"
    "as_device_id demo_registered_state = Some ''dev_a0''" "as_node_key demo_registered_state = Some ''node_a1''"
    "as_ipv4 demo_registered_state = Some ''100.64.0.2''" "demo_registered_state\<lparr>as_dns_records := []\<rparr> = demo_registered_state"
    "as_dns_records (agent_state_new ''0'') = []" "as_backend_public_credential (agent_state_new ''0'') = []"
    by (simp_all add: demo_registered_state_def demo_unregistered_def dns_proxy_started_def agent_state_new_def agent_state_default_def)
  have credentials: "ensure_backend_credentials mock_network_backend (dns_proxy_started demo_listen (Inr ()) (agent_state_new ''0'')) w =
      Some (Inr demo_unregistered, w\<lparr>aw_backend := (aw_backend w)\<lparr>mb_state := (mb_state (aw_backend w))
        \<lparr>ensure_credentials_calls := ensure_credentials_calls (mb_state (aw_backend w)) + 1\<rparr>\<rparr>\<rparr>)"
    if "mb_credential (aw_backend w) = \<lparr>bc_public = ''pk''\<rparr>" for w :: "(mock_backend, unit) agent_world"
    using that states
    by (simp add: ensure_backend_credentials_def dns_proxy_started_def prog_bind_def prog_result_def on_backend_def
        mock_network_backend_def mock_call_def demo_unregistered_def)
  have save: "agent_state_save demo_restart_env s dk = (Inr (), write_state_file bs (dk\<lparr>dk_calls := dk_calls dk + 2\<rparr>))"
    if "dk_fail dk = (\<lambda>_. None)" "ae_ser demo_restart_env s = Inr bs" for s dk bs
    using that by (simp add: agent_state_save_def fs_call_def)
  have ser: "ae_ser demo_restart_env demo_unregistered = Inr [1]" "ae_ser demo_restart_env demo_registered_state = Inr [2]"
    using states by (simp_all add: demo_restart_env_def)
  have unit: "x\<lparr>aw_control := ()\<rparr> = x" for x :: "(mock_backend, unit) agent_world" by simp
  have register: "register_agent_if_needed demo_restart_env demo_control_api ''tfk'' demo_unregistered w =
      Some (Inr demo_registered_state, w\<lparr>aw_disk := write_state_file [2] ((aw_disk w)\<lparr>dk_calls := dk_calls (aw_disk w) + 2\<rparr>)\<rparr>)"
    if "dk_fail (aw_disk w) = (\<lambda>_. None)" for w :: "(mock_backend, unit) agent_world"
    using save [OF that ser(2)] states(2)
    by (simp add: register_agent_if_needed_def prog_bind_def on_control_def demo_control_api_def demo_answer_def
        demo_registered_state_def Let_def on_state_file_def prog_result_def unit)
  have sync: "\<exists>w'. sync_agent_once demo_restart_env mock_network_backend demo_control_api demo_registered_state w = Some (Inr (), w')"
    if "dk_fail (aw_disk w) = (\<lambda>_. None)" for w :: "(mock_backend, unit) agent_world"
    using that
    by (simp add: sync_agent_once_def send_heartbeat_def fetch_network_map_def device_credentials_def states ip
        apply_network_map_and_maintain_paths_def apply_network_map_if_changed_def apply_network_map_to_backend_def prog_bind_def prog_result_def
        discovered_endpoints_def agent_probe_public_endpoint_def on_control_def on_backend_def demo_control_api_def
        mock_network_backend_def mock_call_def network_map_to_peer_configs_def save_dns_snapshot_def
        on_state_file_def agent_state_save_def fs_call_def demo_network_map_def demo_restart_env_def)
  have start: "dk_file (aw_disk demo_agent_world) = None" "dk_fail (aw_disk demo_agent_world) = (\<lambda>_. None)"
    "mb_credential (aw_backend demo_agent_world) = \<lparr>bc_public = ''pk''\<rparr>" "ae_uuid demo_restart_env = ''0''"
    by (simp_all add: demo_agent_world_def mock_new_def demo_restart_env_def demo_agent_env_def)
  let ?b = "aw_backend demo_agent_world" and ?dk = "aw_disk demo_agent_world"
  define w4 where "w4 = demo_agent_world\<lparr>aw_dns := as_dns_records (agent_state_new ''0''),
         aw_backend := ?b\<lparr>mb_state := (mb_state ?b)\<lparr>ensure_credentials_calls := ensure_credentials_calls (mb_state ?b) + 1\<rparr>\<rparr>,
         aw_disk := write_state_file [2] ((write_state_file [1] (?dk\<lparr>dk_calls := Suc (Suc (dk_calls ?dk))\<rparr>))\<lparr>dk_calls := Suc (Suc (Suc (Suc (dk_calls ?dk))))\<rparr>), aw_last_version := None\<rparr>"
  have "dk_fail (aw_disk w4) = (\<lambda>_. None)" using start by (simp add: w4_def)
  then obtain w' where "sync_agent_once demo_restart_env mock_network_backend demo_control_api demo_registered_state w4 = Some (Inr (), w')"
    using sync by blast
  with start show ?thesis
    unfolding w4_def by (intro that [of w'])
      (simp add: agent_up_def Let_def prog_bind_def [of "on_state_file (agent_state_load demo_restart_env)"] on_state_file_def agent_state_load_def
        credentials save [OF _ ser(1)] register prog_bind_def prog_result_def)
qed


end
