(* ===== verification/Mesh_System.thy ===== *)
theory Mesh_System
  imports Backend Control_Server Agent_Core
begin

text \<open>
  The parts put together: the control plane of \<open>Control_Server\<close> as the service the agent of
  \<open>Agent_Core\<close> talks to, and the custom backend of \<open>Backend\<close> as the backend it drives. A refused
  request reaches the agent as the error \<open>error_for_status\<close> makes of it.
\<close>

section \<open>The control plane behind the agent's requests\<close>

definition control_api_of :: "control_env \<Rightarrow> app_state \<Rightarrow> socket_addr \<Rightarrow> database control_api" where
  "control_api_of env state addr =
     \<lparr>ca_register = (\<lambda>request db. map_prod (map_err ae_message) id (register_device env request db)),
      ca_heartbeat = (\<lambda>request db. map_prod (\<lambda>r. map_sum ae_message (\<lambda>_. ()) r) id (heartbeat env request db)),
      ca_endpoint_probe = (\<lambda>request db. (map_err ae_message (endpoint_probe state addr request db), db)),
      ca_network_map = (\<lambda>device_id node_key db. (map_err ae_message (network_map env state device_id node_key db), db))\<rparr>"

interpretation control_service: control_contract "control_api_of env state addr" database_ok for env state addr
  by unfold_locales (simp_all add: control_api_of_def register_device_ok heartbeat_ok)

interpretation mesh: agent_system "custom_network_backend benv" backend_inv "control_api_of env state addr" database_ok
  for benv env state addr
  by unfold_locales

text \<open>The agent as the program starts it, with a TUN device, in front of any control plane.\<close>

interpretation any_control: control_contract api "\<lambda>_. True" for api
  by unfold_locales simp_all

interpretation tun_agent: agent_system "custom_network_backend benv" tun_backend_inv api "\<lambda>_. True" for benv api
  by unfold_locales

section \<open>Names and addresses\<close>

lemma pool_address_ipv4:
  assumes "n = k + 2" and "k < 253"
  shows "pool_address k = ipv4_to_string (Ipv4Addr 100 64 0 (word_of_nat n))"
proof -
  have "n < 256" using assms by simp
  then have "unat (word_of_nat n :: u8) = n" by (simp add: unat_of_nat)
  moreover have "nat_to_dec 100 = ''100''" "nat_to_dec 64 = ''64''" "nat_to_dec 0 = ''0''" by code_simp+
  ultimately show ?thesis using assms(1) by (simp add: pool_address_def)
qed

lemma device_address:
  assumes "database_ok db" and "d \<in> set (db_devices db)"
  obtains a where "dv_ipv4 d = ipv4_to_string a"
proof -
  from assms(2) have "dv_ipv4 d \<in> set (map dv_ipv4 (db_devices db))" by simp
  also have "map dv_ipv4 (db_devices db) = map pool_address [0..<length (db_ips db)]"
    using assms(1) by (simp add: database_ok_def devices_ok_def)
  finally obtain k where "k < length (db_ips db)" and k: "dv_ipv4 d = pool_address k" by auto
  with assms(1) have "k < 253" by (simp add: database_ok_def devices_ok_def)
  from that [OF k [unfolded pool_address_ipv4 [OF refl this]]] show ?thesis .
qed

lemma char_to_lower_dot: "char_to_lower c = CHR ''.'' \<longleftrightarrow> c = CHR ''.''"
proof
  assume dot: "char_to_lower c = CHR ''.''"
  have "\<not> is_ascii_uppercase c"
  proof
    assume "is_ascii_uppercase c"
    then have "char_to_lower c = char_of ((of_char c :: nat) + 32)" "65 \<le> (of_char c :: nat)" "(of_char c :: nat) \<le> 90"
      by (simp_all add: char_to_lower_def is_ascii_uppercase_def)
    then have "of_char (char_to_lower c) = (of_char c :: nat) + 32" by simp
    with \<open>65 \<le> (of_char c :: nat)\<close> dot show False by simp
  qed
  with dot show "c = CHR ''.''" by (simp add: char_to_lower_def)
qed (simp add: char_to_lower_def is_ascii_uppercase_def)

lemma normalize_mesh_name:
  assumes "suffix ''.mesh'' (to_ascii_lowercase s)"
  shows "normalize_name s = to_ascii_lowercase s"
proof -
  obtain t c where s: "s = t @ [c]" using assms by (cases s rule: rev_cases) (simp_all add: to_ascii_lowercase_def)
  have "char_to_lower c = CHR ''h''" using assms unfolding s by (auto simp: to_ascii_lowercase_def suffix_def)
  then have "c \<noteq> CHR ''.''" using char_to_lower_dot [of c] by auto
  then show ?thesis unfolding normalize_name_def s by (subst trim_end_matches_noop) simp_all
qed

lemma lower_mesh: "suffix ''.mesh'' s \<Longrightarrow> suffix ''.mesh'' (to_ascii_lowercase s)"
  by (auto simp: suffix_def to_ascii_lowercase_def char_to_lower_def is_ascii_uppercase_def)

text \<open>Every record of a consistent database is found under its name, in any case, with the address of its device.\<close>

lemma record_resolves:
  assumes ok: "database_ok db" and r: "r \<in> set (load_dns_records db)" and name: "eq_ignore_ascii_case qname (dr_name r)"
    and d: "d \<in> set (db_devices db)" "dv_id d = dr_device_id r"
  shows "\<exists>a. resolve_a (load_dns_records db) qname ''mesh'' = Some a \<and> dv_ipv4 d = ipv4_to_string a"
proof -
  have recs: "set (load_dns_records db) = dns_record_of ` set (db_dns db)" by (simp add: load_dns_records_def)
  have dns: "dns_ok (db_devices db) (db_dns db)" and ids: "distinct (map dv_id (db_devices db))"
    using ok by (simp_all add: database_ok_def devices_ok_def)
  have mesh: "suffix ''.mesh'' (dr_name q)" "eq_ignore_ascii_case (dr_record_type q) ''A''" if "q \<in> set (load_dns_records db)" for q
    using that dns unfolding recs dns_ok_def by (auto simp: dns_record_of_def eq_ignore_ascii_case_def)
  have lower: "to_ascii_lowercase qname = to_ascii_lowercase (dr_name r)" using name by (simp add: eq_ignore_ascii_case_def)
  have q: "normalize_name qname = to_ascii_lowercase (dr_name r)"
    using normalize_mesh_name [of qname] lower_mesh [OF mesh(1) [OF r]] lower by simp
  have unique: "p = r" if "p \<in> set (load_dns_records db)" "normalize_name (dr_name p) = to_ascii_lowercase (dr_name r)" for p
  proof -
    from that r obtain x y where xy: "x \<in> set (db_dns db)" "y \<in> set (db_dns db)" "p = dns_record_of x" "r = dns_record_of y"
      unfolding recs by auto
    have "to_ascii_lowercase (dn_name x) = to_ascii_lowercase (dn_name y)"
      using that(2) normalize_mesh_name [OF lower_mesh [OF mesh(1) [OF that(1)]]] xy by (simp add: dns_record_of_def)
    with xy dns distinct_find [of "\<lambda>r. to_ascii_lowercase (dn_name r)"] show ?thesis by (auto simp: dns_ok_def)
  qed
  have "find (\<lambda>p. eq_ignore_ascii_case (dr_record_type p) ''A'' \<and> normalize_name (dr_name p) = to_ascii_lowercase (dr_name r))
      (load_dns_records db) = Some r"
  proof -
    have "find (\<lambda>p. eq_ignore_ascii_case (dr_record_type p) ''A'' \<and> normalize_name (dr_name p) = to_ascii_lowercase (dr_name r))
        (load_dns_records db) \<noteq> None"
      using r mesh(2) [OF r] normalize_mesh_name [OF lower_mesh [OF mesh(1) [OF r]]] by (auto simp: find_None_iff)
    then show ?thesis using unique find_SomeD by fastforce
  qed
  moreover have "normalize_suffix ''mesh'' = ''mesh''" by code_simp
  ultimately have "resolve_a (load_dns_records db) qname ''mesh'' = parse_ipv4 (dr_value r)"
    using lower_mesh [OF mesh(1) [OF r]] by (simp add: resolve_a_def q)
  moreover have "dr_value r = dv_ipv4 d"
  proof -
    obtain x where x: "x \<in> set (db_dns db)" "r = dns_record_of x" using r unfolding recs by auto
    from dns x(1) obtain d' where "d' \<in> set (db_devices db)" "dv_id d' = dn_device_id x" "dv_ipv4 d' = dn_value x"
      unfolding dns_ok_def by blast
    with d x(2) distinct_find [OF ids, of d' d] show ?thesis by (simp add: dns_record_of_def)
  qed
  moreover obtain a where "dv_ipv4 d = ipv4_to_string a" using ok d(1) by (rule device_address)
  ultimately show ?thesis by simp
qed

section \<open>Names that are too long for a query\<close>

lemma split_on_lower: "split_on CHR ''.'' (to_ascii_lowercase s) = map to_ascii_lowercase (split_on CHR ''.'' s)"
proof (induction s)
  case (Cons c s)
  obtain p ps where "split_on CHR ''.'' s = p # ps" by (cases "split_on CHR ''.'' s") auto
  with Cons show ?case by (auto simp: to_ascii_lowercase_def char_to_lower_dot)
qed (simp add: to_ascii_lowercase_def)

lemma split_on_trimmed: "p \<in> set (split_on c (trim_end_matches c s)) \<Longrightarrow> p \<in> set (split_on c s)"
proof (induction s rule: rev_induct)
  case (snoc x s)
  show ?case
  proof (cases "x = c")
    case True
    with snoc show ?thesis using split_on_append_sep [of c s "[]"] by simp
  next
    case False
    with snoc.prems show ?thesis by (simp add: trim_end_matches_noop)
  qed
qed (simp add: trim_end_matches_def)

lemma normalized_pieces_bounded:
  assumes "parse_query packet = Inr q" and "p \<in> set (split_on CHR ''.'' (normalize_name (dq_qname q)))"
  shows "length p \<le> 63"
proof -
  from assms(2) obtain p' where "p' \<in> set (split_on CHR ''.'' (trim_end_matches CHR ''.'' (dq_qname q)))" "p = to_ascii_lowercase p'"
    by (auto simp: normalize_name_def split_on_lower)
  with query_pieces_bounded [OF assms(1) split_on_trimmed] show ?thesis by simp
qed

lemma available_name_taken:
  assumes "available_dns_name network_id device_id hostname db = Inr name"
    and "\<not> dns_name_available network_id device_id (dns_name hostname) db"
  obtains rest where "name = dns_name (hostname @ ''-'' @ device_dns_suffix device_id @ rest)"
    and "rest = [] \<or> hd rest = CHR ''-''" and "CHR ''.'' \<notin> set rest"
proof -
  have digits: "CHR ''.'' \<notin> set (nat_to_dec n)" for n
    using nat_to_dec_digits [of "CHR ''.''" n] by auto
  from assms(1) have "name \<in> set (dns_candidates device_id hostname)" "dns_name_available network_id device_id name db"
    by (auto simp: available_dns_name_def split: option.splits dest: find_SomeD)
  with assms(2) consider "name = dns_name (hostname @ ''-'' @ device_dns_suffix device_id @ [])"
    | n where "name = dns_name (hostname @ ''-'' @ device_dns_suffix device_id @ ''-'' @ nat_to_dec n)"
    unfolding dns_candidates_def Let_def by (auto simp del: upt_Suc)
  then show ?thesis
  proof cases
    case 1
    then show ?thesis by (rule that) simp_all
  next
    case (2 n)
    then show ?thesis by (rule that) (simp_all add: digits)
  qed
qed

section \<open>Effect of a heartbeat on the version of the map\<close>

lemma epoch_sum_simps [simp]:
  "epoch_sum env [] = 0"
  "epoch_sum env (t # ts) = (case ce_unixepoch env t of Some n \<Rightarrow> n | None \<Rightarrow> 0) + epoch_sum env ts"
  by (simp_all add: epoch_sum_def List.map_filter_simps split: option.split)

lemma epoch_sum_touch:
  assumes "distinct (map dv_id devs)" and "d \<in> set devs" and "ce_unixepoch env (dv_updated_at d) = Some old"
    and "ce_unixepoch env (ce_now env) = Some now"
  shows "epoch_sum env (map dv_updated_at (update_where (\<lambda>x. dv_id x = dv_id d \<and> live x)
      (\<lambda>x. x\<lparr>dv_last_seen_at := Some (ce_now env), dv_updated_at := ce_now env\<rparr>) devs)) =
    epoch_sum env (map dv_updated_at devs) + (if live d then now - old else 0)"
  using assms
proof (induction devs)
  case (Cons x xs)
  have untouched: "update_where (\<lambda>x. dv_id x = dv_id d \<and> live x) f xs = xs" if "dv_id d \<notin> dv_id ` set xs" for f
    using that by (induction xs) (auto simp: update_where_def)
  show ?case
  proof (cases "x = d")
    case True
    with Cons.prems untouched show ?thesis by (simp add: update_where_def)
  next
    case False
    with Cons.prems have "dv_id x \<noteq> dv_id d" by auto
    with False Cons show ?thesis by (simp add: update_where_def)
  qed
qed simp

end
