(* ===== verification/Agent_Setup.thy ===== *)
theory Agent_Setup
  imports Agent_Core
begin

text \<open>
  The agent's commands that change the host: \<open>tfscale-agent/src/resolver.rs\<close> (the system
  resolver's configuration), \<open>tfscale-agent/src/service.rs\<close> (the systemd service) and the
  \<open>dns\<close> and \<open>service\<close> commands of \<open>main.rs\<close>. The host is a record of its files with their modes,
  what was printed, the commands that were run, and the outcomes of file-system calls and
  commands to come. Paths have no doubled slashes; an error is its outermost message; printing
  never fails.
\<close>

section \<open>The host\<close>

record host_file =
  hf_content :: bytes
  hf_mode :: nat

record command_output =
  co_success :: bool
  co_status :: string
  co_stdout :: bytes

record host =
  ho_files :: "string \<rightharpoonup> host_file"
  ho_default_mode :: nat                  \<comment> \<open>mode of a file that a write creates\<close>
  ho_io :: "nat \<Rightarrow> string option"         \<comment> \<open>how the \<open>n\<close>-th file-system call fails, if it does\<close>
  ho_partial :: "bytes option"            \<comment> \<open>what a failed write leaves in the file, if it got that far\<close>
  ho_calls :: nat
  ho_run :: "nat \<Rightarrow> string + command_output"
  ho_commands :: "string list list"       \<comment> \<open>the commands run, oldest first\<close>
  ho_stdout :: string

type_synonym 'a setup_op = "host \<Rightarrow> (string + 'a) \<times> host"

definition op_bind :: "'a setup_op \<Rightarrow> ('a \<Rightarrow> 'b setup_op) \<Rightarrow> 'b setup_op" where
  "op_bind m k h = (case m h of (Inl e, h') \<Rightarrow> (Inl e, h') | (Inr x, h') \<Rightarrow> k x h')"

definition op_return :: "'a \<Rightarrow> 'a setup_op" where
  "op_return x h = (Inr x, h)"

definition op_fail :: "string \<Rightarrow> 'a setup_op" where
  "op_fail e h = (Inl e, h)"

text \<open>A file-system call with the context its error gets.\<close>

definition host_io :: "string \<Rightarrow> (host \<Rightarrow> host) \<Rightarrow> (host \<Rightarrow> host) \<Rightarrow> unit setup_op" where
  "host_io ctxt effect on_failure h =
     (let h' = h\<lparr>ho_calls := Suc (ho_calls h)\<rparr> in
      case ho_io h (ho_calls h) of
        Some e \<Rightarrow> (Inl ctxt, on_failure h')
      | None \<Rightarrow> (Inr (), effect h'))"

definition put_file :: "string \<Rightarrow> bytes \<Rightarrow> host \<Rightarrow> host" where
  "put_file path content h =
     h\<lparr>ho_files := (ho_files h)(path \<mapsto>
        \<lparr>hf_content = content,
         hf_mode = (case ho_files h path of Some f \<Rightarrow> hf_mode f | None \<Rightarrow> ho_default_mode h)\<rparr>)\<rparr>"

definition write_file :: "string \<Rightarrow> string \<Rightarrow> string \<Rightarrow> unit setup_op" where
  "write_file ctxt path content =
     host_io ctxt (put_file path (as_bytes content))
       (\<lambda>h. case ho_partial h of Some p \<Rightarrow> put_file path p h | None \<Rightarrow> h)"

definition set_mode :: "string \<Rightarrow> string \<Rightarrow> nat \<Rightarrow> unit setup_op" where
  "set_mode ctxt path mode =
     host_io ctxt (\<lambda>h. h\<lparr>ho_files := (ho_files h)(path := map_option (\<lambda>f. f\<lparr>hf_mode := mode\<rparr>) (ho_files h path))\<rparr>) id"

text \<open>\<open>remove_file\<close>, where a file that does not exist is no error.\<close>

definition remove_file :: "string \<Rightarrow> string \<Rightarrow> unit setup_op" where
  "remove_file ctxt path h =
     (if ho_files h path = None then (Inr (), h\<lparr>ho_calls := Suc (ho_calls h)\<rparr>)
      else host_io ctxt (\<lambda>h. h\<lparr>ho_files := (ho_files h)(path := None)\<rparr>) id h)"

definition run_one :: "string \<Rightarrow> string \<Rightarrow> string list \<Rightarrow> unit setup_op" where
  "run_one run_ctxt status_ctxt command h =
     (let h' = h\<lparr>ho_commands := ho_commands h @ [command]\<rparr> in
      case ho_run h (length (ho_commands h)) of
        Inl e \<Rightarrow> (Inl (run_ctxt @ join_with '' '' command), h')
      | Inr out \<Rightarrow>
          if co_success out then (Inr (), h')
          else (Inl (status_ctxt @ co_status out @ '': '' @ join_with '' '' command), h'))"

text \<open>The loop over commands of both files; an empty command is skipped.\<close>

fun run_each :: "string \<Rightarrow> string \<Rightarrow> string list list \<Rightarrow> unit setup_op" where
  "run_each run_ctxt status_ctxt [] = op_return ()"
| "run_each run_ctxt status_ctxt (command # commands) =
     (if command = [] then run_each run_ctxt status_ctxt commands
      else op_bind (run_one run_ctxt status_ctxt command) (\<lambda>_. run_each run_ctxt status_ctxt commands))"

definition println :: "string \<Rightarrow> unit setup_op" where
  "println line h = (Inr (), h\<lparr>ho_stdout := ho_stdout h @ line @ ''\<newline>''\<rparr>)"

definition print_text :: "string \<Rightarrow> unit setup_op" where
  "print_text text h = (Inr (), h\<lparr>ho_stdout := ho_stdout h @ text\<rparr>)"

fun print_lines :: "string list \<Rightarrow> unit setup_op" where
  "print_lines [] = op_return ()"
| "print_lines (line # rest) = op_bind (println line) (\<lambda>_. print_lines rest)"

definition path_parent :: "string \<Rightarrow> string option" where
  "path_parent p =
     (if p = [] \<or> p = ''/'' then None
      else let d = rev (tl (dropWhile (\<lambda>c. c \<noteq> CHR ''/'') (rev p))) in
           Some (if d = [] \<and> starts_with p ''/'' then ''/'' else d))"

definition path_join :: "string \<Rightarrow> string \<Rightarrow> string" where
  "path_join dir name =
     (if starts_with name ''/'' then name
      else if dir = [] \<or> ends_with dir ''/'' then dir @ name
      else dir @ ''/'' @ name)"

definition create_parent :: "string \<Rightarrow> string \<Rightarrow> unit setup_op" where
  "create_parent ctxt path =
     (case path_parent path of
        None \<Rightarrow> op_return ()
      | Some parent \<Rightarrow> host_io (ctxt @ parent) id id)"

section \<open>The system resolver\<close>

definition LINUX_RESOLVED_CONF :: string where
  "LINUX_RESOLVED_CONF = ''/etc/systemd/resolved.conf.d/tfscale-magicdns.conf''"
definition MACOS_RESOLVER_DIR :: string where
  "MACOS_RESOLVER_DIR = ''/etc/resolver''"

record resolver_config =
  rs_suffix :: string
  rs_nameserver :: string
  rs_port :: u16

definition resolver_config_default :: resolver_config where
  "resolver_config_default = \<lparr>rs_suffix = ''mesh'', rs_nameserver = ''127.0.0.1'', rs_port = 1053\<rparr>"

datatype resolver_platform = LinuxSystemdResolved | MacosResolver

record resolver_plan =
  rp_platform :: resolver_platform
  rp_config_path :: string
  rp_install_content :: string
  rp_reload_commands :: "string list list"
  rp_uninstall_paths :: "string list"

record resolver_status =
  rst_platform :: string
  rst_config_path :: string
  rst_installed :: bool
  rst_content_matches :: bool
  rst_message :: "string option"

definition linux_systemd_resolved_plan :: "resolver_config \<Rightarrow> resolver_plan" where
  "linux_systemd_resolved_plan config =
     \<lparr>rp_platform = LinuxSystemdResolved, rp_config_path = LINUX_RESOLVED_CONF,
      rp_install_content = ''[Resolve]\<newline>DNS='' @ rs_nameserver config @ '':'' @ nat_to_dec (unat (rs_port config)) @
        ''\<newline>Domains=~'' @ rs_suffix config @ ''\<newline>'',
      rp_reload_commands = [[''systemctl'', ''reload'', ''systemd-resolved'']],
      rp_uninstall_paths = [LINUX_RESOLVED_CONF]\<rparr>"

definition macos_resolver_plan :: "resolver_config \<Rightarrow> resolver_plan" where
  "macos_resolver_plan config =
     (let config_path = path_join MACOS_RESOLVER_DIR (rs_suffix config) in
      \<lparr>rp_platform = MacosResolver, rp_config_path = config_path,
       rp_install_content = ''nameserver '' @ rs_nameserver config @ ''\<newline>port '' @ nat_to_dec (unat (rs_port config)) @ ''\<newline>'',
       rp_reload_commands = [], rp_uninstall_paths = [config_path]\<rparr>)"

text \<open>\<open>current_platform_plan\<close> of the three targets.\<close>

definition resolver_platform_plan :: "bool \<Rightarrow> resolver_config \<Rightarrow> resolver_plan" where
  "resolver_platform_plan macos config = (if macos then macos_resolver_plan config else linux_systemd_resolved_plan config)"

fun resolver_platform_label :: "resolver_platform \<Rightarrow> string" where
  "resolver_platform_label LinuxSystemdResolved = ''linux-systemd-resolved''"
| "resolver_platform_label MacosResolver = ''macos-resolver''"

definition run_reload_commands :: "resolver_plan \<Rightarrow> unit setup_op" where
  "run_reload_commands plan =
     run_each ''failed to run resolver reload command: '' ''resolver reload command failed with status '' (rp_reload_commands plan)"

definition resolver_install :: "resolver_plan \<Rightarrow> unit setup_op" where
  "resolver_install plan =
     op_bind (create_parent ''failed to create resolver config dir '' (rp_config_path plan)) (\<lambda>_.
     op_bind (write_file (''failed to write resolver config '' @ rp_config_path plan) (rp_config_path plan) (rp_install_content plan)) (\<lambda>_.
       run_reload_commands plan))"

fun remove_files :: "string \<Rightarrow> string list \<Rightarrow> unit setup_op" where
  "remove_files ctxt [] = op_return ()"
| "remove_files ctxt (path # paths) = op_bind (remove_file (ctxt @ path) path) (\<lambda>_. remove_files ctxt paths)"

definition resolver_uninstall :: "resolver_plan \<Rightarrow> unit setup_op" where
  "resolver_uninstall plan =
     op_bind (remove_files ''failed to remove resolver config '' (rp_uninstall_paths plan)) (\<lambda>_. run_reload_commands plan)"

text \<open>\<open>read_to_string\<close> of the configuration; a failed read is given by the error's text.\<close>

definition resolver_status_of :: "resolver_plan \<Rightarrow> host \<Rightarrow> resolver_status" where
  "resolver_status_of plan h =
     (let base = \<lparr>rst_platform = resolver_platform_label (rp_platform plan), rst_config_path = rp_config_path plan,
                  rst_installed = False, rst_content_matches = False, rst_message = Some ''resolver config is not installed''\<rparr> in
      case ho_files h (rp_config_path plan) of
        None \<Rightarrow> base
      | Some f \<Rightarrow>
          (case ho_io h (ho_calls h) of
             Some e \<Rightarrow> base\<lparr>rst_message := Some (''failed to read resolver config: '' @ e)\<rparr>
           | None \<Rightarrow>
               (case from_utf8 (hf_content f) of
                  None \<Rightarrow> base\<lparr>rst_message := Some (''failed to read resolver config: stream did not contain valid UTF-8'')\<rparr>
                | Some content \<Rightarrow>
                    if content = rp_install_content plan
                    then base\<lparr>rst_installed := True, rst_content_matches := True, rst_message := Some ''resolver config is installed''\<rparr>
                    else base\<lparr>rst_installed := True,
                           rst_message := Some ''resolver config exists but does not match tf-scale plan''\<rparr>)))"

definition dns_listen_parts :: "string \<Rightarrow> string \<times> u16" where
  "dns_listen_parts value =
     (case parse_socket_addr value of
        Some addr \<Rightarrow> (ip_to_string (sa_ip addr), sa_port addr)
      | None \<Rightarrow> (''127.0.0.1'', 1053))"

definition dns_resolver_plan :: "bool \<Rightarrow> agent_state \<Rightarrow> resolver_plan" where
  "dns_resolver_plan macos state =
     (let (nameserver, port) = dns_listen_parts (as_dns_listen state) in
      resolver_platform_plan macos \<lparr>rs_suffix = DEFAULT_DNS_SUFFIX, rs_nameserver = nameserver, rs_port = port\<rparr>)"

section \<open>The service\<close>

definition SERVICE_NAME :: string where "SERVICE_NAME = ''tfscale-agent''"
definition SYSTEMD_UNIT_PATH :: string where "SYSTEMD_UNIT_PATH = ''/etc/systemd/system/tfscale-agent.service''"
definition SYSTEMD_ENV_PATH :: string where "SYSTEMD_ENV_PATH = ''/etc/tfscale/agent.env''"

record service_config =
  sc_binary_path :: string
  sc_state_dir :: string
  sc_control_url :: string
  sc_login_key :: string
  sc_dns_listen :: socket_addr

datatype service_platform = LinuxSystemd | Unsupported

record service_plan =
  sp_platform :: service_platform
  sp_unit_path :: string
  sp_unit_content :: string
  sp_env_path :: string
  sp_env_content :: string
  sp_install_commands :: "string list list"
  sp_uninstall_commands :: "string list list"

record service_status =
  sst_platform :: string
  sst_unit_path :: string
  sst_env_path :: string
  sst_installed :: bool
  sst_env_installed :: bool
  sst_enabled :: "bool option"
  sst_active :: "bool option"
  sst_message :: "string option"

definition systemd_plain :: "char \<Rightarrow> bool" where
  "systemd_plain c \<longleftrightarrow> is_ascii_alphanumeric c \<or> c \<in> set ''/:._-=''"

definition escape_systemd_arg :: "string \<Rightarrow> string" where
  "escape_systemd_arg value =
     (if list_all systemd_plain value then value
      else [CHR 0x27] @ concat (map (\<lambda>c. if c = CHR 0x27 then [CHR 0x27, CHR 0x5C, CHR 0x27, CHR 0x27] else [c]) value) @ [CHR 0x27])"

text \<open>Two passes of \<open>replace\<close>: first the backslashes, then the double quotes.\<close>

definition systemd_env_value :: "string \<Rightarrow> string" where
  "systemd_env_value value =
     (if list_all systemd_plain value then value
      else [CHR 0x22] @
        concat (map (\<lambda>c. if c = CHR 0x22 then [CHR 0x5C, CHR 0x22] else [c])
          (concat (map (\<lambda>c. if c = CHR 0x5C then [CHR 0x5C, CHR 0x5C] else [c]) value))) @ [CHR 0x22])"

definition linux_systemd_unit :: "service_config \<Rightarrow> string" where
  "linux_systemd_unit config =
     (let binary = escape_systemd_arg (sc_binary_path config);
          state_dir = escape_systemd_arg (sc_state_dir config);
          dns_listen = escape_systemd_arg (socket_addr_to_string (sc_dns_listen config));
          env_path = escape_systemd_arg SYSTEMD_ENV_PATH in
      ''[Unit]\<newline>Description=tf-scale agent\<newline>After=network-online.target\<newline>Wants=network-online.target\<newline>\<newline>'' @
      ''[Service]\<newline>Type=simple\<newline>EnvironmentFile='' @ env_path @
      ''\<newline>ExecStart='' @ binary @ '' --state-dir '' @ state_dir @
      '' up --login-key ${TFSCALE_LOGIN_KEY} --control-url ${TFSCALE_CONTROL_URL} --dns-listen '' @ dns_listen @
      ''\<newline>Restart=on-failure\<newline>RestartSec=3\<newline>\<newline>[Install]\<newline>WantedBy=multi-user.target\<newline>'')"

definition linux_systemd_env :: "service_config \<Rightarrow> string" where
  "linux_systemd_env config =
     ''TFSCALE_LOGIN_KEY='' @ systemd_env_value (sc_login_key config) @
     ''\<newline>TFSCALE_CONTROL_URL='' @ systemd_env_value (sc_control_url config) @ ''\<newline>''"

definition linux_systemd_plan :: "service_config \<Rightarrow> service_plan" where
  "linux_systemd_plan config =
     \<lparr>sp_platform = LinuxSystemd, sp_unit_path = SYSTEMD_UNIT_PATH, sp_unit_content = linux_systemd_unit config,
      sp_env_path = SYSTEMD_ENV_PATH, sp_env_content = linux_systemd_env config,
      sp_install_commands = [[''systemctl'', ''daemon-reload''], [''systemctl'', ''enable'', SERVICE_NAME]],
      sp_uninstall_commands = [[''systemctl'', ''disable'', ''--now'', SERVICE_NAME], [''systemctl'', ''daemon-reload'']]\<rparr>"

definition unsupported_plan :: "service_config \<Rightarrow> service_plan" where
  "unsupported_plan config =
     \<lparr>sp_platform = Unsupported, sp_unit_path = SYSTEMD_UNIT_PATH, sp_unit_content = [],
      sp_env_path = SYSTEMD_ENV_PATH, sp_env_content = [], sp_install_commands = [], sp_uninstall_commands = []\<rparr>"

definition service_platform_plan :: "bool \<Rightarrow> service_config \<Rightarrow> service_plan" where
  "service_platform_plan linux config = (if linux then linux_systemd_plan config else unsupported_plan config)"

definition ensure_supported :: "service_plan \<Rightarrow> unit setup_op" where
  "ensure_supported plan =
     (if sp_platform plan = Unsupported then op_fail ''service install is not supported on this platform yet''
      else op_return ())"

definition service_run_commands :: "string list list \<Rightarrow> unit setup_op" where
  "service_run_commands = run_each ''failed to run service command: '' ''service command failed with status ''"

text \<open>\<open>0o600\<close> is 384.\<close>

definition write_env_file :: "service_plan \<Rightarrow> unit setup_op" where
  "write_env_file plan =
     op_bind (write_file (''failed to write service env file '' @ sp_env_path plan) (sp_env_path plan) (sp_env_content plan)) (\<lambda>_.
       set_mode (''failed to set service env file permissions '' @ sp_env_path plan) (sp_env_path plan) 384)"

definition service_install :: "service_plan \<Rightarrow> unit setup_op" where
  "service_install plan =
     op_bind (ensure_supported plan) (\<lambda>_.
     op_bind (create_parent ''failed to create service dir '' (sp_unit_path plan)) (\<lambda>_.
     op_bind (create_parent ''failed to create service env dir '' (sp_env_path plan)) (\<lambda>_.
     op_bind (write_file (''failed to write service unit '' @ sp_unit_path plan) (sp_unit_path plan) (sp_unit_content plan)) (\<lambda>_.
     op_bind (write_env_file plan) (\<lambda>_.
       service_run_commands (sp_install_commands plan))))))"

text \<open>The commands before the removal may fail.\<close>

definition service_uninstall :: "service_plan \<Rightarrow> unit setup_op" where
  "service_uninstall plan =
     op_bind (ensure_supported plan) (\<lambda>_.
     op_bind (\<lambda>h. (Inr (), snd (service_run_commands (sp_uninstall_commands plan) h))) (\<lambda>_.
     op_bind (remove_file (''failed to remove service unit '' @ sp_unit_path plan) (sp_unit_path plan)) (\<lambda>_.
     op_bind (remove_file (''failed to remove service env file '' @ sp_env_path plan) (sp_env_path plan)) (\<lambda>_.
       service_run_commands [[''systemctl'', ''daemon-reload'']]))))"

definition systemctl_bool :: "string \<Rightarrow> string + command_output \<Rightarrow> bool option \<times> string option" where
  "systemctl_bool command result =
     (case result of
        Inl _ \<Rightarrow> (None, Some (''systemctl '' @ command @ '' is not available''))
      | Inr out \<Rightarrow>
          (let value = map_option trim (from_utf8 (co_stdout out)) in
           if command = ''is-enabled'' \<and> value = Some ''enabled'' then (Some True, None)
           else if command = ''is-enabled'' \<and> value \<in> {Some ''disabled'', Some ''static'', Some ''indirect''} then (Some False, None)
           else if command = ''is-active'' \<and> value = Some ''active'' then (Some True, None)
           else if command = ''is-active'' \<and> value \<in> {Some ''inactive'', Some ''failed'', Some ''activating'', Some ''deactivating''}
             then (Some False, None)
           else (Some (co_success out), None)))"

fun service_platform_label :: "service_platform \<Rightarrow> string" where
  "service_platform_label LinuxSystemd = ''linux-systemd''"
| "service_platform_label Unsupported = ''unsupported''"

definition service_status_of :: "service_plan \<Rightarrow> string + command_output \<Rightarrow> string + command_output \<Rightarrow> host \<Rightarrow> service_status" where
  "service_status_of plan is_enabled is_active h =
     (let installed = (ho_files h (sp_unit_path plan) \<noteq> None);
          env_installed = (ho_files h (sp_env_path plan) \<noteq> None);
          (enabled, enabled_message) = systemctl_bool ''is-enabled'' is_enabled;
          (active, active_message) = systemctl_bool ''is-active'' is_active;
          message = (case enabled_message of
             Some m \<Rightarrow> Some m
           | None \<Rightarrow>
               (case active_message of
                  Some m \<Rightarrow> Some m
                | None \<Rightarrow> Some (if installed then ''service unit is installed'' else ''service unit is not installed''))) in
      \<lparr>sst_platform = service_platform_label (sp_platform plan), sst_unit_path = sp_unit_path plan, sst_env_path = sp_env_path plan,
       sst_installed = installed, sst_env_installed = env_installed, sst_enabled = enabled, sst_active = active,
       sst_message = message\<rparr>)"

section \<open>The commands\<close>

text \<open>\<open>current_exe\<close> and the variable \<open>HOME\<close> are what the process finds.\<close>

record setup_env =
  su_macos :: bool
  su_linux :: bool
  su_exe :: "string + string"
  su_home :: "string option"
  su_resolver_json :: "resolver_status \<Rightarrow> string + string"
  su_service_json :: "service_status \<Rightarrow> string + string"

definition default_state_dir :: "setup_env \<Rightarrow> string" where
  "default_state_dir env = path_join (case su_home env of Some home \<Rightarrow> home | None \<Rightarrow> ''.'') ''.tfscale''"

text \<open>The custom backend has a default of its own; \<open>with_state_dir\<close> puts the same file name into a directory.\<close>

definition default_state_path :: "string option \<Rightarrow> string" where
  "default_state_path home =
     path_join (path_join (case home of Some h \<Rightarrow> h | None \<Rightarrow> ''.'') ''.tfscale'') ''custom-backend.json''"

definition state_dir_path :: "string \<Rightarrow> string" where
  "state_dir_path state_dir = path_join state_dir ''custom-backend.json''"

lemma default_state_path_agrees: "default_state_path (su_home env) = state_dir_path (default_state_dir env)"
  by (simp add: default_state_path_def state_dir_path_def default_state_dir_def)

definition current_exe :: "setup_env \<Rightarrow> string setup_op" where
  "current_exe env = (case su_exe env of Inl _ \<Rightarrow> op_fail ''failed to find current executable path'' | Inr p \<Rightarrow> op_return p)"

fun optional_bool_label :: "bool option \<Rightarrow> string" where
  "optional_bool_label (Some True) = ''true''"
| "optional_bool_label (Some False) = ''false''"
| "optional_bool_label None = ''unknown''"

abbreviation or_empty :: "string option \<Rightarrow> string" where
  "or_empty x \<equiv> (case x of Some s \<Rightarrow> s | None \<Rightarrow> [])"

definition print_dns_resolver_plan :: "setup_env \<Rightarrow> agent_state \<Rightarrow> unit setup_op" where
  "print_dns_resolver_plan env state =
     (let plan = dns_resolver_plan (su_macos env) state in
      op_bind (print_lines [''platform='' @ resolver_platform_label (rp_platform plan), ''config_path='' @ rp_config_path plan,
                            ''install_content:'']) (\<lambda>_.
      op_bind (print_text (rp_install_content plan)) (\<lambda>_.
      op_bind (if rp_reload_commands plan = [] then op_return ()
               else print_lines (''reload_commands:'' # map (join_with '' '') (rp_reload_commands plan))) (\<lambda>_.
        if rp_uninstall_paths plan = [] then op_return ()
        else print_lines (''uninstall_paths:'' # rp_uninstall_paths plan)))))"

definition install_dns_resolver :: "setup_env \<Rightarrow> agent_state \<Rightarrow> unit setup_op" where
  "install_dns_resolver env state =
     (let plan = dns_resolver_plan (su_macos env) state in
      op_bind (resolver_install plan) (\<lambda>_.
        println (''DNS resolver installed: platform='' @ resolver_platform_label (rp_platform plan) @
                 '' config_path='' @ rp_config_path plan)))"

definition uninstall_dns_resolver :: "setup_env \<Rightarrow> agent_state \<Rightarrow> unit setup_op" where
  "uninstall_dns_resolver env state =
     (let plan = dns_resolver_plan (su_macos env) state in
      op_bind (resolver_uninstall plan) (\<lambda>_.
        println (''DNS resolver uninstalled: platform='' @ resolver_platform_label (rp_platform plan) @
                 '' config_path='' @ rp_config_path plan)))"

definition print_json :: "string + string \<Rightarrow> unit setup_op" where
  "print_json text = (case text of Inl e \<Rightarrow> op_fail e | Inr s \<Rightarrow> println s)"

definition print_dns_resolver_status :: "setup_env \<Rightarrow> agent_state \<Rightarrow> bool \<Rightarrow> unit setup_op" where
  "print_dns_resolver_status env state json h =
     (let status = resolver_status_of (dns_resolver_plan (su_macos env) state) h in
      if json then print_json (su_resolver_json env status) h
      else println (''platform='' @ rst_platform status @ '' installed='' @ show_bool (rst_installed status) @
        '' content_matches='' @ show_bool (rst_content_matches status) @ '' config_path='' @ rst_config_path status @
        '' message='' @ or_empty (rst_message status)) h)"

definition service_plan_op :: "setup_env \<Rightarrow> string \<Rightarrow> string \<Rightarrow> string \<Rightarrow> socket_addr \<Rightarrow> service_plan setup_op" where
  "service_plan_op env state_dir control_url login_key dns_listen =
     op_bind (current_exe env) (\<lambda>exe.
       op_return (service_platform_plan (su_linux env)
         \<lparr>sc_binary_path = exe, sc_state_dir = state_dir, sc_control_url = control_url, sc_login_key = login_key,
          sc_dns_listen = dns_listen\<rparr>))"

definition print_service_plan :: "setup_env \<Rightarrow> string \<Rightarrow> string \<Rightarrow> string \<Rightarrow> socket_addr \<Rightarrow> unit setup_op" where
  "print_service_plan env state_dir control_url login_key dns_listen =
     op_bind (service_plan_op env state_dir control_url login_key dns_listen) (\<lambda>plan.
     op_bind (print_lines [''platform='' @ service_platform_label (sp_platform plan), ''unit_path='' @ sp_unit_path plan,
                           ''unit_content:'']) (\<lambda>_.
     op_bind (print_text (sp_unit_content plan)) (\<lambda>_.
     op_bind (if sp_install_commands plan = [] then op_return ()
              else print_lines (''install_commands:'' # map (join_with '' '') (sp_install_commands plan))) (\<lambda>_.
       if sp_uninstall_commands plan = [] then op_return ()
       else print_lines (''uninstall_commands:'' # map (join_with '' '') (sp_uninstall_commands plan))))))"

definition install_service :: "setup_env \<Rightarrow> string \<Rightarrow> string \<Rightarrow> string \<Rightarrow> socket_addr \<Rightarrow> unit setup_op" where
  "install_service env state_dir control_url login_key dns_listen =
     op_bind (service_plan_op env state_dir control_url login_key dns_listen) (\<lambda>plan.
     op_bind (service_install plan) (\<lambda>_.
       println (''agent service installed: platform='' @ service_platform_label (sp_platform plan) @
                '' unit_path='' @ sp_unit_path plan)))"

text \<open>The plan that \<open>uninstall\<close> and \<open>status\<close> use; the default address always parses.\<close>

definition default_service_plan :: "setup_env \<Rightarrow> service_plan setup_op" where
  "default_service_plan env =
     (case parse_socket_addr DEFAULT_DNS_LISTEN of
        None \<Rightarrow> op_fail ''invalid socket address syntax''
      | Some dns_listen \<Rightarrow> service_plan_op env (default_state_dir env) ''http://127.0.0.1:8080'' ''unused'' dns_listen)"

definition uninstall_service :: "setup_env \<Rightarrow> unit setup_op" where
  "uninstall_service env =
     op_bind (default_service_plan env) (\<lambda>plan.
     op_bind (service_uninstall plan) (\<lambda>_.
       println (''agent service uninstalled: platform='' @ service_platform_label (sp_platform plan) @
                '' unit_path='' @ sp_unit_path plan)))"

definition print_service_status :: "setup_env \<Rightarrow> string + command_output \<Rightarrow> string + command_output \<Rightarrow> bool \<Rightarrow> unit setup_op" where
  "print_service_status env is_enabled is_active json =
     op_bind (default_service_plan env) (\<lambda>plan h.
       let status = service_status_of plan is_enabled is_active h in
       if json then print_json (su_service_json env status) h
       else println (''platform='' @ sst_platform status @ '' installed='' @ show_bool (sst_installed status) @
         '' env_installed='' @ show_bool (sst_env_installed status) @ '' enabled='' @ optional_bool_label (sst_enabled status) @
         '' active='' @ optional_bool_label (sst_active status) @ '' unit_path='' @ sst_unit_path status @
         '' env_path='' @ sst_env_path status @ '' message='' @ or_empty (sst_message status)) h)"

section \<open>Facts on the operations\<close>

lemma op_bind_Inr_iff:
  "op_bind m k h = (Inr y, h'') \<longleftrightarrow> (\<exists>x h'. m h = (Inr x, h') \<and> k x h' = (Inr y, h''))"
  by (auto simp: op_bind_def split: prod.splits sum.splits)

lemma op_return_iff: "op_return x h = (Inr y, h') \<longleftrightarrow> y = x \<and> h' = h"
  by (auto simp: op_return_def)

lemma host_io_Inr_iff:
  "host_io ctxt f g h = (Inr u, h') \<longleftrightarrow> ho_io h (ho_calls h) = None \<and> h' = f (h\<lparr>ho_calls := Suc (ho_calls h)\<rparr>)"
  by (auto simp: host_io_def Let_def split: option.splits)

lemma write_file_Inr_iff:
  "write_file ctxt path content h = (Inr u, h') \<longleftrightarrow>
     ho_io h (ho_calls h) = None \<and> h' = put_file path (as_bytes content) (h\<lparr>ho_calls := Suc (ho_calls h)\<rparr>)"
  by (simp add: write_file_def host_io_Inr_iff)

lemma create_parent_Inr:
  "create_parent ctxt path h = (Inr u, h') \<Longrightarrow> h' = h \<or> h' = h\<lparr>ho_calls := Suc (ho_calls h)\<rparr>"
  by (auto simp: create_parent_def op_return_iff host_io_Inr_iff split: option.splits)

lemma remove_file_Inr:
  "remove_file ctxt path h = (Inr u, h') \<Longrightarrow>
     ho_files h' = (ho_files h)(path := None) \<and> ho_commands h' = ho_commands h"
  by (auto simp: remove_file_def host_io_Inr_iff fun_upd_idem split: if_splits)

lemma run_each_Inr:
  "run_each c1 c2 commands h = (Inr u, h') \<Longrightarrow>
     h' = h\<lparr>ho_commands := ho_commands h @ filter (\<lambda>c. c \<noteq> []) commands\<rparr>"
proof (induction commands arbitrary: h)
  case (Cons c cs)
  show ?case
  proof (cases "c = []")
    case False
    with Cons.prems have "run_each c1 c2 cs (h\<lparr>ho_commands := ho_commands h @ [c]\<rparr>) = (Inr u, h')"
      by (auto simp: op_bind_Inr_iff run_one_def Let_def split: if_splits sum.splits)
    from Cons.IH [OF this] False show ?thesis by simp
  qed (use Cons in simp)
qed (simp add: op_return_iff)

text \<open>When no call fails, the operations succeed.\<close>

definition host_works :: "host \<Rightarrow> bool" where
  "host_works h \<longleftrightarrow> (\<forall>n. ho_io h n = None) \<and> (\<forall>n. \<exists>out. ho_run h n = Inr out \<and> co_success out)"

lemma run_each_works:
  "host_works h \<Longrightarrow>
     run_each c1 c2 commands h = (Inr (), h\<lparr>ho_commands := ho_commands h @ filter (\<lambda>c. c \<noteq> []) commands\<rparr>)"
proof (induction commands arbitrary: h)
  case Nil
  then show ?case by (simp add: op_return_def)
next
  case (Cons c cs)
  let ?h = "h\<lparr>ho_commands := ho_commands h @ [c]\<rparr>"
  obtain out where "ho_run h (length (ho_commands h)) = Inr out" "co_success out"
    using Cons.prems by (auto simp: host_works_def)
  then have "run_one c1 c2 c h = (Inr (), ?h)" by (simp add: run_one_def)
  moreover have "host_works ?h" using Cons.prems by (simp add: host_works_def)
  ultimately show ?case using Cons.IH [of ?h] Cons.IH [OF Cons.prems] by (simp add: op_bind_def)
qed

section \<open>The resolver\<close>

lemma dns_plan_path: "rp_uninstall_paths (dns_resolver_plan macos state) = [rp_config_path (dns_resolver_plan macos state)]"
  by (simp add: dns_resolver_plan_def resolver_platform_plan_def linux_systemd_resolved_plan_def macos_resolver_plan_def
      Let_def split: prod.split)

lemma dns_plan_ascii: "ascii (rp_install_content (dns_resolver_plan macos state))"
proof -
  have "ascii (fst (dns_listen_parts listen))" for listen
    by (simp add: dns_listen_parts_def ascii_ip_to_string split: option.split)
  then show ?thesis
    by (simp add: dns_resolver_plan_def resolver_platform_plan_def linux_systemd_resolved_plan_def macos_resolver_plan_def
        Let_def ascii_digits DEFAULT_DNS_SUFFIX_def split: prod.split)
      (metis fst_conv)
qed

lemma put_file_simps [simp]:
  "ho_files (put_file path content h) = (ho_files h)(path \<mapsto> \<lparr>hf_content = content,
     hf_mode = (case ho_files h path of Some f \<Rightarrow> hf_mode f | None \<Rightarrow> ho_default_mode h)\<rparr>)"
  "ho_io (put_file path content h) = ho_io h" "ho_run (put_file path content h) = ho_run h"
  "ho_calls (put_file path content h) = ho_calls h" "ho_commands (put_file path content h) = ho_commands h"
  "ho_default_mode (put_file path content h) = ho_default_mode h" "ho_stdout (put_file path content h) = ho_stdout h"
  by (simp_all add: put_file_def)

lemma resolver_install_Inr:
  assumes "resolver_install plan h = (Inr u, h')"
  shows "ho_files h' = (ho_files h)(rp_config_path plan \<mapsto> \<lparr>hf_content = as_bytes (rp_install_content plan),
      hf_mode = (case ho_files h (rp_config_path plan) of Some f \<Rightarrow> hf_mode f | None \<Rightarrow> ho_default_mode h)\<rparr>)"
    and "ho_commands h' = ho_commands h @ filter (\<lambda>c. c \<noteq> []) (rp_reload_commands plan)"
  using assms
  by (auto simp: resolver_install_def op_bind_Inr_iff write_file_Inr_iff run_reload_commands_def
      dest!: create_parent_Inr run_each_Inr split: option.split)

lemma resolver_uninstall_Inr:
  assumes "resolver_uninstall (dns_resolver_plan macos state) h = (Inr u, h')"
  shows "ho_files h' = (ho_files h)(rp_config_path (dns_resolver_plan macos state) := None)"
    and "ho_commands h' = ho_commands h @ filter (\<lambda>c. c \<noteq> []) (rp_reload_commands (dns_resolver_plan macos state))"
  using assms
  by (auto simp: resolver_uninstall_def dns_plan_path op_bind_Inr_iff op_return_iff run_reload_commands_def
      dest!: run_each_Inr remove_file_Inr)

text \<open>
  C38. Installing the resolver's configuration and removing it again are inverse: after the command
  \<open>dns install\<close> the status command finds the configuration in place and unchanged, no other file
  has been written and exactly the reload commands have been run; after \<open>dns uninstall\<close> the files
  are those before the installation without the configuration, and the status says it is not
  installed.
\<close>

theorem resolver_install_uninstall:
  assumes "plan = dns_resolver_plan macos state" and "resolver_install plan h = (Inr (), h1)"
    and "ho_io h1 (ho_calls h1) = None" and "resolver_uninstall plan h1 = (Inr (), h2)"
  shows "rst_installed (resolver_status_of plan h1) \<and> rst_content_matches (resolver_status_of plan h1) \<and>
    (\<forall>path. path = rp_config_path plan \<or> ho_files h1 path = ho_files h path) \<and>
    ho_commands h1 = ho_commands h @ filter (\<lambda>c. c \<noteq> []) (rp_reload_commands plan) \<and>
    ho_files h2 = (ho_files h)(rp_config_path plan := None) \<and>
    ho_commands h2 = ho_commands h1 @ filter (\<lambda>c. c \<noteq> []) (rp_reload_commands plan) \<and>
    \<not> rst_installed (resolver_status_of plan h2)"
proof -
  have ascii: "ascii (rp_install_content plan)" by (simp add: assms(1) dns_plan_ascii)
  note install = resolver_install_Inr [OF assms(2)]
  note uninstall = resolver_uninstall_Inr [OF assms(4) [unfolded assms(1)], folded assms(1)]
  have "rst_installed (resolver_status_of plan h1) \<and> rst_content_matches (resolver_status_of plan h1)"
    using assms(3) ascii by (simp add: resolver_status_of_def Let_def install(1))
  moreover have "\<not> rst_installed (resolver_status_of plan h2)"
    by (simp add: resolver_status_of_def Let_def uninstall(1))
  ultimately show ?thesis by (simp add: install uninstall)
qed

definition demo_host :: host where
  "demo_host = \<lparr>ho_files = Map.empty, ho_default_mode = 420, ho_io = (\<lambda>_. None), ho_partial = None, ho_calls = 0,
     ho_run = (\<lambda>_. Inr \<lparr>co_success = True, co_status = ''exit status: 0'', co_stdout = []\<rparr>), ho_commands = [], ho_stdout = []\<rparr>"

lemma demo_host_works: "host_works demo_host" "host_works (demo_host\<lparr>ho_calls := n\<rparr>)"
  by (simp_all add: demo_host_def host_works_def)

theorem resolver_install_uninstall_witness:
  "\<exists>h1 h2. resolver_install (dns_resolver_plan False agent_state_default) demo_host = (Inr (), h1) \<and>
     resolver_uninstall (dns_resolver_plan False agent_state_default) h1 = (Inr (), h2) \<and>
     rst_content_matches (resolver_status_of (dns_resolver_plan False agent_state_default) h1) \<and>
     \<not> rst_installed (resolver_status_of (dns_resolver_plan False agent_state_default) h2)"
proof -
  let ?plan = "dns_resolver_plan False agent_state_default"
  have plan: "?plan = linux_systemd_resolved_plan \<lparr>rs_suffix = ''mesh'', rs_nameserver = ''127.0.0.1'', rs_port = 1053\<rparr>"
    by (simp add: dns_resolver_plan_def dns_listen_parts_def agent_state_default_def resolver_platform_plan_def DEFAULT_DNS_SUFFIX_def
        parse_socket_addr_def parse_with_def read_socket_v4_def read_socket_v6_def read_ipv4_def read_separator_def
        read_octet_def read_number_def read_given_char_def)
  obtain h1 where h1: "resolver_install ?plan demo_host = (Inr (), h1)" "host_works h1"
    unfolding plan
    by (simp add: resolver_install_def op_bind_def create_parent_def linux_systemd_resolved_plan_def path_parent_def LINUX_RESOLVED_CONF_def
        host_io_def write_file_def run_reload_commands_def run_one_def put_file_def demo_host_def host_works_def op_return_def Let_def)
  obtain h2 where h2: "resolver_uninstall ?plan h1 = (Inr (), h2)"
    using h1 run_each_works
    by (auto simp: resolver_uninstall_def dns_plan_path op_bind_def remove_file_def host_io_def run_reload_commands_def
        resolver_install_Inr(1) op_return_def host_works_def)
  from h1 have "ho_io h1 (ho_calls h1) = None" by (simp add: host_works_def)
  from resolver_install_uninstall [OF refl h1(1) this h2] h1 h2 show ?thesis by blast
qed

text \<open>
  A DNS proxy that listens on an IPv6 address is announced wrongly to systemd-resolved: the address
  is written without brackets, so that for no address and port is the value of \<open>DNS=\<close> the text of
  a socket address, and the port may be read as the last group of another address.
\<close>

theorem ipv6_nameserver_unbracketed:
  assumes "parse_socket_addr (as_dns_listen state) = Some \<lparr>sa_ip = V6 a, sa_port = p\<rparr>"
  shows "\<exists>server. rp_install_content (dns_resolver_plan False state) = ''[Resolve]\<newline>DNS='' @ server @ ''\<newline>Domains=~mesh\<newline>'' \<and>
    server = ipv6_to_string a @ '':'' @ nat_to_dec (unat p) \<and> parse_socket_addr server = None"
  using assms ipv6_unbracketed_no_socket_addr [of a "nat_to_dec (unat p)"]
  by (simp add: dns_resolver_plan_def dns_listen_parts_def resolver_platform_plan_def linux_systemd_resolved_plan_def
      DEFAULT_DNS_SUFFIX_def)

theorem ipv6_nameserver_unbracketed_witness:
  "\<exists>server. rp_install_content (dns_resolver_plan False (agent_state_default\<lparr>as_dns_listen := ''[::1]:1053''\<rparr>)) =
       ''[Resolve]\<newline>DNS='' @ server @ ''\<newline>Domains=~mesh\<newline>'' \<and>
     server = ''::1:1053'' \<and> parse_socket_addr server = None \<and> parse_ip server = Some (V6 (Ipv6Addr 0 0 0 0 0 0 1 0x1053))"
proof -
  have "parse_socket_addr ''[::1]:1053'' = Some \<lparr>sa_ip = V6 (Ipv6Addr 0 0 0 0 0 0 0 1), sa_port = 1053\<rparr>"
    by (simp add: net_readers)
  moreover have "parse_ip ''::1:1053'' = Some (V6 (Ipv6Addr 0 0 0 0 0 0 1 0x1053))"
    by (simp add: net_readers)
  moreover have "ipv6_to_string (Ipv6Addr 0 0 0 0 0 0 0 1) = ''::1''"
    by code_simp
  moreover have "nat_to_dec (unat (1053 :: u16)) = ''1053''"
    by code_simp
  ultimately show ?thesis using ipv6_nameserver_unbracketed [of "agent_state_default\<lparr>as_dns_listen := ''[::1]:1053''\<rparr>"] by simp
qed

section \<open>The service\<close>

lemma write_env_file_Inr:
  assumes "write_env_file plan h = (Inr u, h')"
  shows "ho_files h' = (ho_files h)(sp_env_path plan \<mapsto> \<lparr>hf_content = as_bytes (sp_env_content plan), hf_mode = 384\<rparr>)"
    and "ho_commands h' = ho_commands h"
  using assms by (auto simp: write_env_file_def op_bind_Inr_iff write_file_Inr_iff set_mode_def host_io_Inr_iff)

lemma service_paths_distinct [simp]: "SYSTEMD_UNIT_PATH \<noteq> SYSTEMD_ENV_PATH" "SYSTEMD_ENV_PATH \<noteq> SYSTEMD_UNIT_PATH"
  by (simp_all add: SYSTEMD_UNIT_PATH_def SYSTEMD_ENV_PATH_def)

lemma service_parents:
  "path_parent SYSTEMD_UNIT_PATH = Some ''/etc/systemd/system''" "path_parent SYSTEMD_ENV_PATH = Some ''/etc/tfscale''"
  by (simp_all add: path_parent_def SYSTEMD_UNIT_PATH_def SYSTEMD_ENV_PATH_def)

lemma linux_plan_simps [simp]:
  "sp_platform (linux_systemd_plan config) = LinuxSystemd"
  "sp_unit_path (linux_systemd_plan config) = SYSTEMD_UNIT_PATH" "sp_env_path (linux_systemd_plan config) = SYSTEMD_ENV_PATH"
  "sp_unit_content (linux_systemd_plan config) = linux_systemd_unit config"
  "sp_env_content (linux_systemd_plan config) = linux_systemd_env config"
  "filter (\<lambda>c. c \<noteq> []) (sp_install_commands (linux_systemd_plan config)) = sp_install_commands (linux_systemd_plan config)"
  by (simp_all add: linux_systemd_plan_def)

text \<open>
  C36. A successful \<open>service install\<close> on Linux leaves exactly two new files: the unit, and the environment
  file with the login key and the control URL, which only its owner can read; no other file
  changes, and the commands run are \<open>daemon-reload\<close> and \<open>enable\<close>, in this order.
\<close>

theorem service_install_exact:
  assumes "service_install (service_platform_plan True config) h = (Inr (), h')"
  shows "map_option hf_content (ho_files h' SYSTEMD_UNIT_PATH) = Some (as_bytes (linux_systemd_unit config)) \<and>
    ho_files h' SYSTEMD_ENV_PATH = Some \<lparr>hf_content = as_bytes (linux_systemd_env config), hf_mode = 384\<rparr> \<and>
    (\<forall>path. path = SYSTEMD_UNIT_PATH \<or> path = SYSTEMD_ENV_PATH \<or> ho_files h' path = ho_files h path) \<and>
    ho_commands h' = ho_commands h @ [[''systemctl'', ''daemon-reload''], [''systemctl'', ''enable'', ''tfscale-agent'']]"
proof -
  let ?plan = "linux_systemd_plan config"
  from assms obtain h1 h2 h3 h4 h5 where
    steps: "ensure_supported ?plan h = (Inr (), h1)" "create_parent ''failed to create service dir '' SYSTEMD_UNIT_PATH h1 = (Inr (), h2)"
      "create_parent ''failed to create service env dir '' SYSTEMD_ENV_PATH h2 = (Inr (), h3)"
      "write_file (''failed to write service unit '' @ SYSTEMD_UNIT_PATH) SYSTEMD_UNIT_PATH (linux_systemd_unit config) h3 = (Inr (), h4)"
      "write_env_file ?plan h4 = (Inr (), h5)" "service_run_commands (sp_install_commands ?plan) h5 = (Inr (), h')"
    by (auto simp: service_install_def service_platform_plan_def op_bind_Inr_iff)
  have "h1 = h" using steps(1) by (simp add: ensure_supported_def op_return_iff split: if_splits)
  with create_parent_Inr [OF steps(2)] create_parent_Inr [OF steps(3)]
  have h3: "ho_files h3 = ho_files h" "ho_commands h3 = ho_commands h" by auto
  have h': "h' = h5\<lparr>ho_commands := ho_commands h5 @ sp_install_commands ?plan\<rparr>"
    using run_each_Inr [OF steps(6) [unfolded service_run_commands_def]] by simp
  have "sp_install_commands ?plan = [[''systemctl'', ''daemon-reload''], [''systemctl'', ''enable'', ''tfscale-agent'']]"
    by (simp add: linux_systemd_plan_def SERVICE_NAME_def)
  with steps(4) write_env_file_Inr [OF steps(5)] show ?thesis by (auto simp: h' h3 write_file_Inr_iff)
qed

theorem service_install_exact_witness:
  "\<exists>config h'. service_install (service_platform_plan True config) demo_host = (Inr (), h') \<and>
     ho_files h' SYSTEMD_ENV_PATH = Some \<lparr>hf_content = as_bytes (linux_systemd_env config), hf_mode = 384\<rparr>"
proof -
  let ?config = "\<lparr>sc_binary_path = ''/usr/bin/tfscale-agent'', sc_state_dir = ''/var/lib/tfscale'', sc_control_url = ''http://c'',
      sc_login_key = ''tfk'', sc_dns_listen = demo_listen\<rparr>"
  obtain h' where "service_install (service_platform_plan True ?config) demo_host = (Inr (), h')"
    by (simp add: service_install_def service_platform_plan_def op_bind_def ensure_supported_def op_return_def create_parent_def
        service_parents host_io_def write_file_def write_env_file_def set_mode_def demo_host_def service_run_commands_def
        linux_systemd_plan_def run_one_def put_file_def Let_def)
  with service_install_exact [OF this] show ?thesis by blast
qed

text \<open>
  The login key is written before the file is protected: when only the change of the mode fails,
  \<open>service install\<close> reports an error and leaves the environment file, login key included, on disk
  with the default mode of a new file.
\<close>

theorem login_key_left_readable:
  assumes "ho_files h SYSTEMD_ENV_PATH = None" and "\<And>k. k < 4 \<Longrightarrow> ho_io h (ho_calls h + k) = None"
    and "ho_io h (ho_calls h + 4) = Some e"
  shows "\<exists>h'. service_install (service_platform_plan True config) h =
      (Inl ''failed to set service env file permissions /etc/tfscale/agent.env'', h') \<and>
    ho_files h' SYSTEMD_ENV_PATH = Some \<lparr>hf_content = as_bytes (linux_systemd_env config), hf_mode = ho_default_mode h\<rparr>"
proof -
  have "ho_io h (ho_calls h) = None" "ho_io h (Suc (ho_calls h)) = None" "ho_io h (Suc (Suc (ho_calls h))) = None"
    "ho_io h (Suc (Suc (Suc (ho_calls h)))) = None" "ho_io h (Suc (Suc (Suc (Suc (ho_calls h))))) = Some e"
    using assms(2) [of 0] assms(2) [of 1] assms(2) [of 2] assms(2) [of 3] assms(3) by (simp_all add: eval_nat_numeral)
  with assms(1) show ?thesis
    by (simp add: service_install_def service_platform_plan_def op_bind_def ensure_supported_def op_return_def create_parent_def
        service_parents host_io_def write_file_def write_env_file_def set_mode_def)
      (simp add: SYSTEMD_ENV_PATH_def)
qed

theorem login_key_left_readable_witness:
  "\<exists>config h'. service_install (service_platform_plan True config)
       (demo_host\<lparr>ho_io := (\<lambda>n. if n = 4 then Some ''EPERM'' else None)\<rparr>) =
     (Inl ''failed to set service env file permissions /etc/tfscale/agent.env'', h') \<and>
     ho_files h' SYSTEMD_ENV_PATH = Some \<lparr>hf_content = as_bytes (linux_systemd_env config), hf_mode = 420\<rparr>"
  using login_key_left_readable [of "demo_host\<lparr>ho_io := (\<lambda>n. if n = 4 then Some ''EPERM'' else None)\<rparr>" "''EPERM''"]
  by (auto simp: demo_host_def)

section \<open>The environment file\<close>

text \<open>The text between the quotes, character by character.\<close>

definition env_escape :: "char \<Rightarrow> string" where
  "env_escape c = (if c = CHR 0x22 \<or> c = CHR 0x5C then [CHR 0x5C, c] else [c])"

lemma env_value_escaped:
  "\<not> list_all systemd_plain v \<Longrightarrow> systemd_env_value v = [CHR 0x22] @ concat (map env_escape v) @ [CHR 0x22]"
proof -
  have "concat (map (\<lambda>c. if c = CHR 0x22 then [CHR 0x5C, CHR 0x22] else [c])
      (concat (map (\<lambda>c. if c = CHR 0x5C then [CHR 0x5C, CHR 0x5C] else [c]) v))) = concat (map env_escape v)"
    by (induction v) (auto simp: env_escape_def)
  moreover assume "\<not> list_all systemd_plain v"
  ultimately show ?thesis by (simp add: systemd_env_value_def)
qed

lemma first_char_unique: "c \<notin> set a \<Longrightarrow> c \<notin> set b \<Longrightarrow> a @ c # s = b @ c # t \<longleftrightarrow> a = b \<and> s = t"
  by (induction a arbitrary: b) (case_tac [!] b, auto)

lemma escaped_unique:
  "concat (map env_escape v) @ CHR 0x22 # s = concat (map env_escape v') @ CHR 0x22 # s' \<Longrightarrow> v = v' \<and> s = s'"
proof (induction v arbitrary: v')
  case Nil
  then show ?case by (cases v') (auto simp: env_escape_def split: if_splits)
next
  case (Cons c v)
  then show ?case by (cases v') (auto simp: env_escape_def split: if_splits)
qed

lemma systemd_env_value_unique:
  assumes "systemd_env_value v @ CHR 0x0A # s = systemd_env_value v' @ CHR 0x0A # s'"
  shows "v = v' \<and> s = s'"
proof -
  have plain: "\<not> systemd_plain CHR 0x0A" "\<not> systemd_plain CHR 0x22" by code_simp+
  have bare: "systemd_env_value u = u" if "list_all systemd_plain u" for u using that by (simp add: systemd_env_value_def)
  have quote: "hd (systemd_env_value u @ CHR 0x0A # r) = CHR 0x22 \<longleftrightarrow> \<not> list_all systemd_plain u" for u r
    using plain by (cases u) (auto simp: bare env_value_escaped)
  show ?thesis
  proof (cases "list_all systemd_plain v")
    case True
    then have plain': "list_all systemd_plain v'" using quote [of v s] quote [of v' s'] assms by simp
    have "CHR 0x0A \<notin> set v" "CHR 0x0A \<notin> set v'" using True plain' plain by (auto simp: list_all_iff)
    with assms first_char_unique [of "CHR 0x0A" v v' s s'] show ?thesis by (simp add: bare True plain')
  next
    case False
    then have "\<not> list_all systemd_plain v'" using quote [of v s] quote [of v' s'] assms by simp
    with False assms have "concat (map env_escape v) @ CHR 0x22 # CHR 0x0A # s = concat (map env_escape v') @ CHR 0x22 # CHR 0x0A # s'"
      by (simp add: env_value_escaped)
    from escaped_unique [OF this] show ?thesis by simp
  qed
qed

text \<open>
  C37. The environment file is unambiguous: the files written for two configurations are the same exactly when the login
  keys and the control URLs are, whatever quotes, backslashes, spaces or line ends they contain; so no value
  can be mistaken for another one, nor can a login key pretend to set the control URL.
\<close>

theorem env_file_unambiguous:
  "linux_systemd_env config = linux_systemd_env config' \<longleftrightarrow>
     sc_login_key config = sc_login_key config' \<and> sc_control_url config = sc_control_url config'"
proof
  assume "linux_systemd_env config = linux_systemd_env config'"
  then have "systemd_env_value (sc_login_key config) @ CHR 0x0A # ''TFSCALE_CONTROL_URL='' @ systemd_env_value (sc_control_url config) @ CHR 0x0A # [] =
      systemd_env_value (sc_login_key config') @ CHR 0x0A # ''TFSCALE_CONTROL_URL='' @ systemd_env_value (sc_control_url config') @ CHR 0x0A # []"
    by (simp add: linux_systemd_env_def)
  from systemd_env_value_unique [OF this] show "sc_login_key config = sc_login_key config' \<and> sc_control_url config = sc_control_url config'"
    using systemd_env_value_unique [of "sc_control_url config" "[]" "sc_control_url config'" "[]"] by simp
qed (simp add: linux_systemd_env_def)

end
