(* ===== verification/Agent_Doctor.thy ===== *)
theory Agent_Doctor
  imports Agent_Setup Backend
begin

text \<open>
  The reports of the agent, \<open>AgentStatusOutput\<close> and \<open>AgentDoctorReport\<close> of
  \<open>tfscale-agent/src/main.rs\<close>, and the commands \<open>down\<close>, \<open>dns\<close>, \<open>service\<close>, \<open>doctor\<close> and \<open>status\<close> of its
  \<open>main\<close>: each is a process of its own, with a new backend on the state directory.
\<close>

section \<open>Status and doctor\<close>

record dns_status_output =
  dso_enabled :: bool
  dso_listen :: string
  dso_healthy :: bool
  dso_records :: nat
  dso_message :: "string option"
  dso_resolver :: resolver_status

record backend_status_output =
  bso_backend_type :: string
  bso_interface_name :: string
  bso_healthy :: bool
  bso_message :: "string option"
  bso_peers :: "peer_path_diagnostic list"

record agent_status_output =
  aso_device_id :: "string option"
  aso_network_id :: "string option"
  aso_ipv4 :: "string option"
  aso_dns_records :: "dns_record list"
  aso_dns :: dns_status_output
  aso_backend_public_credential_present :: bool
  aso_backend :: backend_status_output

definition agent_status_output_of :: "bool \<Rightarrow> agent_state \<Rightarrow> backend_status \<Rightarrow> host \<Rightarrow> agent_status_output" where
  "agent_status_output_of macos state status h =
     \<lparr>aso_device_id = as_device_id state, aso_network_id = as_network_id state, aso_ipv4 = as_ipv4 state,
      aso_dns_records = as_dns_records state,
      aso_dns = \<lparr>dso_enabled = as_dns_enabled state, dso_listen = as_dns_listen state, dso_healthy = as_dns_healthy state,
        dso_records = length (as_dns_records state), dso_message = as_dns_message state,
        dso_resolver = resolver_status_of (dns_resolver_plan macos state) h\<rparr>,
      aso_backend_public_credential_present = (as_backend_public_credential state \<noteq> []),
      aso_backend = \<lparr>bso_backend_type = backend_type_as_str (bs_backend_type status),
        bso_interface_name = bs_interface_name status, bso_healthy = bs_healthy status, bso_message = bs_message status,
        bso_peers = bs_peers status\<rparr>\<rparr>"

datatype doctor_level = DoctorOk | DoctorWarn | DoctorFail

fun doctor_label :: "doctor_level \<Rightarrow> string" where
  "doctor_label DoctorOk = ''OK''"
| "doctor_label DoctorWarn = ''WARN''"
| "doctor_label DoctorFail = ''FAIL''"

record doctor_check =
  dc_id :: string
  dc_level :: doctor_level
  dc_summary :: string
  dc_detail :: "string option"
  dc_suggestion :: "string option"

record agent_doctor_report =
  dp_overall :: doctor_level
  dp_checks :: "doctor_check list"
  dp_next_steps :: "string list"

abbreviation or_dash :: "string option \<Rightarrow> string" where
  "or_dash x \<equiv> (case x of Some s \<Rightarrow> s | None \<Rightarrow> ''-'')"

definition check_registered :: "agent_state \<Rightarrow> doctor_check" where
  "check_registered state =
     (if as_device_id state \<noteq> None \<and> as_node_key state \<noteq> None \<and> as_network_id state \<noteq> None \<and> as_ipv4 state \<noteq> None
      then \<lparr>dc_id = ''state.registered'', dc_level = DoctorOk,
            dc_summary = or_dash (as_device_id state) @ '' '' @ or_dash (as_ipv4 state),
            dc_detail = as_network_id state, dc_suggestion = None\<rparr>
      else \<lparr>dc_id = ''state.registered'', dc_level = DoctorFail, dc_summary = ''agent is not registered'',
            dc_detail = None, dc_suggestion = Some ''run tfscale-agent up --login-key <key>''\<rparr>)"

definition check_backend :: "backend_status \<Rightarrow> doctor_check" where
  "check_backend status =
     \<lparr>dc_id = ''backend.healthy'', dc_level = (if bs_healthy status then DoctorOk else DoctorFail),
      dc_summary = backend_type_as_str (bs_backend_type status) @ '' '' @ bs_interface_name status,
      dc_detail = bs_message status,
      dc_suggestion = (if bs_healthy status then None else Some ''check TUN permissions and backend status message'')\<rparr>"

definition check_backend_peers :: "backend_status \<Rightarrow> doctor_check" where
  "check_backend_peers status =
     (let count = (\<lambda>k. length (filter (\<lambda>p. pd_path p = k) (bs_peers status)));
          direct = count DiagDirect; relay = count DiagRelay; unknown = count DiagUnknown in
      \<lparr>dc_id = ''backend.peers'', dc_level = (if 0 < unknown then DoctorWarn else DoctorOk),
       dc_summary = ''direct='' @ nat_to_dec direct @ '' relay='' @ nat_to_dec relay @ '' unknown='' @ nat_to_dec unknown,
       dc_detail = Some (''total='' @ nat_to_dec (length (bs_peers status))),
       dc_suggestion = (if 0 < unknown then Some ''wait for endpoint probing or check relay availability'' else None)\<rparr>)"

definition check_dns_listener :: "agent_state \<Rightarrow> doctor_check" where
  "check_dns_listener state =
     (if \<not> as_dns_enabled state
      then \<lparr>dc_id = ''dns.listener'', dc_level = DoctorWarn, dc_summary = ''DNS listener has not been started'',
            dc_detail = Some (''listen='' @ as_dns_listen state),
            dc_suggestion = Some ''run tfscale-agent up to start MagicDNS''\<rparr>
      else \<lparr>dc_id = ''dns.listener'', dc_level = (if as_dns_healthy state then DoctorOk else DoctorFail),
            dc_summary = as_dns_listen state @ '' records='' @ nat_to_dec (length (as_dns_records state)),
            dc_detail = as_dns_message state,
            dc_suggestion = Some (if as_dns_healthy state
              then ''test with: dig @'' @ as_dns_listen state @ '' <hostname>.'' @ DEFAULT_DNS_SUFFIX @ '' A''
              else ''check whether the DNS port is already in use'')\<rparr>)"

definition check_dns_snapshot :: "agent_state \<Rightarrow> doctor_check" where
  "check_dns_snapshot state =
     (case as_dns_records state of
        [] \<Rightarrow> \<lparr>dc_id = ''dns.snapshot'', dc_level = DoctorWarn, dc_summary = ''no DNS records in local snapshot'',
               dc_detail = None, dc_suggestion = Some ''check tfscalectl dns records and wait for agent sync''\<rparr>
      | r # rs \<Rightarrow> \<lparr>dc_id = ''dns.snapshot'', dc_level = DoctorOk, dc_summary = ''records='' @ nat_to_dec (length (r # rs)),
               dc_detail = Some (''example='' @ dr_name r @ '' -> '' @ dr_value r), dc_suggestion = None\<rparr>)"

definition check_dns_system_resolver :: "bool \<Rightarrow> agent_state \<Rightarrow> host \<Rightarrow> doctor_check" where
  "check_dns_system_resolver macos state h =
     (let status = resolver_status_of (dns_resolver_plan macos state) h in
      if rst_installed status \<and> rst_content_matches status
      then \<lparr>dc_id = ''dns.system_resolver'', dc_level = DoctorOk, dc_summary = ''installed path='' @ rst_config_path status,
            dc_detail = Some (''platform='' @ rst_platform status), dc_suggestion = None\<rparr>
      else if rst_installed status
      then \<lparr>dc_id = ''dns.system_resolver'', dc_level = DoctorWarn,
            dc_summary = ''installed but content differs path='' @ rst_config_path status, dc_detail = rst_message status,
            dc_suggestion = Some ''run tfscale-agent dns install to refresh resolver config''\<rparr>
      else \<lparr>dc_id = ''dns.system_resolver'', dc_level = DoctorWarn,
            dc_summary = ''not installed; planned path='' @ rst_config_path status,
            dc_detail = Some (''platform='' @ rst_platform status),
            dc_suggestion = Some ''run tfscale-agent dns install to enable system hostname resolution''\<rparr>)"

definition overall_level :: "doctor_check list \<Rightarrow> doctor_level" where
  "overall_level checks =
     (if list_ex (\<lambda>c. dc_level c = DoctorFail) checks then DoctorFail
      else if list_ex (\<lambda>c. dc_level c = DoctorWarn) checks then DoctorWarn
      else DoctorOk)"

definition next_steps :: "doctor_check list \<Rightarrow> string list" where
  "next_steps checks = remdups_adj (List.map_filter dc_suggestion checks)"

definition agent_doctor_report_of :: "bool \<Rightarrow> agent_state \<Rightarrow> backend_status \<Rightarrow> host \<Rightarrow> agent_doctor_report" where
  "agent_doctor_report_of macos state status h =
     (let checks = [check_registered state, check_backend status, check_backend_peers status, check_dns_listener state,
                    check_dns_snapshot state, check_dns_system_resolver macos state h] in
      \<lparr>dp_overall = overall_level checks, dp_checks = checks, dp_next_steps = next_steps checks\<rparr>)"

section \<open>The commands\<close>

definition doctor_check_lines :: "doctor_check \<Rightarrow> string list" where
  "doctor_check_lines check =
     (pad 4 (doctor_label (dc_level check)) @ '' '' @ pad 22 (dc_id check) @ '' '' @ dc_summary check) #
     (case dc_detail check of None \<Rightarrow> [] | Some detail \<Rightarrow> [''     '' @ pad 22 [] @ '' '' @ detail])"

definition print_doctor_report :: "agent_doctor_report \<Rightarrow> unit setup_op" where
  "print_doctor_report report =
     op_bind (print_lines ([''tf-scale doctor overall='' @ doctor_label (dp_overall report), []] @
                           concat (map doctor_check_lines (dp_checks report)))) (\<lambda>_.
       if dp_next_steps report = [] then op_return ()
       else print_lines ([[], ''Next:''] @ map (\<lambda>step. ''  '' @ step) (dp_next_steps report)))"

datatype dns_command = DnsPlan | DnsInstall | DnsUninstall | DnsStatus bool

datatype service_command =
    ServicePlan string string socket_addr     \<comment> \<open>login key, control URL, DNS address\<close>
  | ServiceInstall string string socket_addr
  | ServiceUninstall
  | ServiceStatus bool

datatype agent_command = Down | Dns dns_command | Service service_command | Doctor bool | Status bool

text \<open>A process: its backend, the files of its state directory, and the host.\<close>

record agent_process =
  ap_backend :: custom_backend
  ap_disk :: disk
  ap_host :: host

record command_env =
  cm_setup :: setup_env
  cm_agent :: agent_env
  cm_backend :: backend_env
  cm_state_dir :: string
  cm_is_enabled :: "string + command_output"
  cm_is_active :: "string + command_output"
  cm_report_json :: "agent_doctor_report \<Rightarrow> string + string"
  cm_status_json :: "agent_status_output \<Rightarrow> string + string"

type_synonym 'a command_prog = "(agent_error, agent_process, 'a) prog"

definition on_host :: "'a setup_op \<Rightarrow> 'a command_prog" where
  "on_host m p = (case m (ap_host p) of (r, h) \<Rightarrow> Some (map_err AgentError r, p\<lparr>ap_host := h\<rparr>))"

definition on_own_backend :: "'a cb \<Rightarrow> 'a command_prog" where
  "on_own_backend m p =
     (case m (ap_backend p) of
        None \<Rightarrow> None
      | Some (r, b) \<Rightarrow> Some (map_err AgentBackend r, p\<lparr>ap_backend := b\<rparr>))"

definition load_or_default :: "command_env \<Rightarrow> agent_state command_prog" where
  "load_or_default env p =
     (case agent_state_load (cm_agent env) (ap_disk p) of
        (Inl e, dk) \<Rightarrow> Some (Inl e, p\<lparr>ap_disk := dk\<rparr>)
      | (Inr loaded, dk) \<Rightarrow> Some (Inr (case loaded of Some s \<Rightarrow> s | None \<Rightarrow> agent_state_default), p\<lparr>ap_disk := dk\<rparr>))"

text \<open>\<open>CustomBackend::with_state_dir\<close> in a new process: nothing of the runtime of another process is in it.\<close>

definition with_state_dir :: "string \<Rightarrow> agent_process \<Rightarrow> agent_process" where
  "with_state_dir interface_name p =
     p\<lparr>ap_backend := with_state_path interface_name (cb_disk (ap_backend p)) (cb_os (ap_backend p))\<rparr>"

definition dns_command_prog :: "command_env \<Rightarrow> dns_command \<Rightarrow> unit command_prog" where
  "dns_command_prog env command =
     prog_bind (load_or_default env) (\<lambda>state.
       on_host (case command of
           DnsPlan \<Rightarrow> print_dns_resolver_plan (cm_setup env) state
         | DnsInstall \<Rightarrow> install_dns_resolver (cm_setup env) state
         | DnsUninstall \<Rightarrow> uninstall_dns_resolver (cm_setup env) state
         | DnsStatus json \<Rightarrow> print_dns_resolver_status (cm_setup env) state json))"

definition service_command_op :: "command_env \<Rightarrow> service_command \<Rightarrow> unit setup_op" where
  "service_command_op env command =
     (case command of
        ServicePlan login_key control_url dns_listen \<Rightarrow>
          print_service_plan (cm_setup env) (cm_state_dir env) control_url login_key dns_listen
      | ServiceInstall login_key control_url dns_listen \<Rightarrow>
          install_service (cm_setup env) (cm_state_dir env) control_url login_key dns_listen
      | ServiceUninstall \<Rightarrow> uninstall_service (cm_setup env)
      | ServiceStatus json \<Rightarrow> print_service_status (cm_setup env) (cm_is_enabled env) (cm_is_active env) json)"

definition doctor_command :: "command_env \<Rightarrow> bool \<Rightarrow> agent_doctor_report command_prog" where
  "doctor_command env json p =
     prog_bind (on_own_backend (backend_status_op (cm_backend env))) (\<lambda>status.
     prog_bind (load_or_default env) (\<lambda>state p.
       let report = agent_doctor_report_of (su_macos (cm_setup env)) state status (ap_host p) in
       prog_bind (on_host (if json then print_json (cm_report_json env report) else print_doctor_report report)) (\<lambda>_.
         prog_result (Inr report)) p)) (with_state_dir DEFAULT_INTERFACE_NAME p)"

definition status_line :: "agent_state \<Rightarrow> backend_status \<Rightarrow> string" where
  "status_line state status =
     ''device='' @ or_dash (as_device_id state) @ '' ipv4='' @ or_dash (as_ipv4 state) @
     '' backend='' @ backend_type_as_str (bs_backend_type status) @ '' interface='' @ bs_interface_name status @
     '' healthy='' @ show_bool (bs_healthy status) @ '' message='' @ or_empty (bs_message status)"

definition status_command :: "command_env \<Rightarrow> bool \<Rightarrow> unit command_prog" where
  "status_command env json p =
     prog_bind (on_own_backend (backend_status_op (cm_backend env))) (\<lambda>status.
     prog_bind (load_or_default env) (\<lambda>state p.
       on_host (if json
                then print_json (cm_status_json env (agent_status_output_of (su_macos (cm_setup env)) state status (ap_host p)))
                else println (status_line state status)) p)) (with_state_dir DEFAULT_INTERFACE_NAME p)"

definition down_command :: "unit command_prog" where
  "down_command p =
     prog_bind (on_own_backend backend_shutdown) (\<lambda>_. on_host (println ''agent backend stopped''))
       (with_state_dir DEFAULT_INTERFACE_NAME p)"

text \<open>\<open>main\<close>; the command \<open>up\<close> is \<open>agent_up\<close> followed by \<open>run_agent_loop\<close>.\<close>

definition agent_main :: "command_env \<Rightarrow> agent_command \<Rightarrow> unit command_prog" where
  "agent_main env command =
     (case command of
        Down \<Rightarrow> down_command
      | Dns c \<Rightarrow> dns_command_prog env c
      | Service c \<Rightarrow> on_host (service_command_op env c)
      | Doctor json \<Rightarrow> prog_bind (doctor_command env json) (\<lambda>_. prog_result (Inr ()))
      | Status json \<Rightarrow> status_command env json)"

section \<open>Levels\<close>

instantiation doctor_level :: linorder
begin

fun level_rank :: "doctor_level \<Rightarrow> nat" where
  "level_rank DoctorOk = 0" | "level_rank DoctorWarn = 1" | "level_rank DoctorFail = 2"

definition less_eq_doctor_level :: "doctor_level \<Rightarrow> doctor_level \<Rightarrow> bool" where
  "less_eq_doctor_level a b \<longleftrightarrow> level_rank a \<le> level_rank b"

definition less_doctor_level :: "doctor_level \<Rightarrow> doctor_level \<Rightarrow> bool" where
  "less_doctor_level a b \<longleftrightarrow> level_rank a < level_rank b"

instance
proof
  fix a b :: doctor_level
  assume "a \<le> b" "b \<le> a"
  then show "a = b" by (cases a; cases b) (simp_all add: less_eq_doctor_level_def)
qed (auto simp: less_eq_doctor_level_def less_doctor_level_def)

end

lemma level_order [simp]: "DoctorOk \<le> a" "a \<le> DoctorFail" "DoctorWarn \<le> a \<longleftrightarrow> a \<noteq> DoctorOk" "DoctorFail \<le> a \<longleftrightarrow> a = DoctorFail"
  by (cases a; simp add: less_eq_doctor_level_def)+

lemma overall_level_Cons: "overall_level (c # cs) = max (dc_level c) (overall_level cs)"
  by (cases "dc_level c") (auto simp: overall_level_def max_def)

text \<open>
  The overall level of a doctor report is the worst level of its checks, and \<open>OK\<close> for no checks.
\<close>

theorem overall_level_worst: "overall_level checks = foldr (\<lambda>c worst. max (dc_level c) worst) checks DoctorOk"
  by (induction checks) (simp_all add: overall_level_Cons, simp add: overall_level_def)

section \<open>What a new process sees\<close>

lemma fresh_process: "backend_fresh (ap_backend (with_state_dir name p))"
  unfolding backend_fresh_def with_state_dir_def
  by (simp add: with_tun_setup_def with_state_path_def) metis

lemma on_own_backend_Inr:
  "on_own_backend m p = Some (Inr x, p') \<longleftrightarrow> (\<exists>b. m (ap_backend p) = Some (Inr x, b) \<and> p' = p\<lparr>ap_backend := b\<rparr>)"
  by (auto simp: on_own_backend_def map_err_eq_Inr split: option.splits)

lemma fresh_status_unhealthy:
  assumes "backend_fresh b" and "backend_status_op env b = Some (Inr status, b')"
  shows "\<not> bs_healthy status"
  using assms
  by (auto simp: backend_status_op_def prog_bind_Inr load_state_def on_disk_def with_lock_def backend_fresh_def
      with_tun_setup_def with_state_path_def runtime_state_default_def backend_status_of_def Let_def split: prod.splits if_splits)

text \<open>
  \<open>tfscale-agent doctor\<close> can never report anything but a failure: the command asks a backend it has
  just created, whose runtime state is empty, so the check of the backend fails whatever the
  running agent does, and with it the whole report.
\<close>

theorem doctor_always_fails:
  assumes "doctor_command env json p = Some (Inr report, p')"
  shows "dp_overall report = DoctorFail"
proof -
  obtain status b state h where
    status: "backend_status_op (cm_backend env) (ap_backend (with_state_dir DEFAULT_INTERFACE_NAME p)) = Some (Inr status, b)"
    and report: "report = agent_doctor_report_of (su_macos (cm_setup env)) state status h"
    using assms by (auto simp: doctor_command_def prog_bind_Inr on_own_backend_Inr prog_result_Some Let_def)
  from fresh_status_unhealthy [OF fresh_process status] show ?thesis
    by (simp add: report agent_doctor_report_of_def overall_level_def check_backend_def Let_def)
qed

lemma print_lines_result: "print_lines ls h = (Inr (), h\<lparr>ho_stdout := ho_stdout h @ concat (map (\<lambda>l. l @ ''\<newline>'') ls)\<rparr>)"
  by (induction ls arbitrary: h) (simp_all add: op_return_def op_bind_def println_def)

lemma print_doctor_report_result: "\<exists>h'. print_doctor_report report h = (Inr (), h')"
  unfolding print_doctor_report_def op_bind_def by (simp add: print_lines_result op_return_def del: print_lines.simps append_Cons)

lemma doctor_command_returns:
  assumes "backend_status_op (cm_backend env) (ap_backend (with_state_dir DEFAULT_INTERFACE_NAME p)) = Some (Inr status, b)"
    and "agent_state_load (cm_agent env) (ap_disk p) = (Inr loaded, dk)"
  shows "\<exists>report p'. doctor_command env False p = Some (Inr report, p')"
proof -
  let ?state = "case loaded of None \<Rightarrow> agent_state_default | Some s \<Rightarrow> s"
  let ?report = "agent_doctor_report_of (su_macos (cm_setup env)) ?state status (ap_host p)"
  obtain h' where "print_doctor_report ?report (ap_host p) = (Inr (), h')" using print_doctor_report_result by blast
  with assms show ?thesis
    by (simp add: doctor_command_def prog_bind_def on_own_backend_def load_or_default_def on_host_def Let_def prog_result_def
        with_state_dir_def)
qed

definition demo_setup_env :: setup_env where
  "demo_setup_env = \<lparr>su_macos = False, su_linux = True, su_exe = Inr ''/usr/bin/tfscale-agent'', su_home = None,
     su_resolver_json = (\<lambda>_. Inr []), su_service_json = (\<lambda>_. Inr [])\<rparr>"

definition demo_command_env :: command_env where
  "demo_command_env = \<lparr>cm_setup = demo_setup_env, cm_agent = demo_agent_env, cm_backend = demo_env custom_backend_state_default,
     cm_state_dir = ''/root/.tfscale'', cm_is_enabled = Inl [], cm_is_active = Inl [], cm_report_json = (\<lambda>_. Inr []),
     cm_status_json = (\<lambda>_. Inr [])\<rparr>"

definition demo_process :: agent_process where
  "demo_process = \<lparr>ap_backend = with_state_path ''tfscale0'' demo_disk demo_os, ap_disk = demo_disk, ap_host = demo_host\<rparr>"

theorem doctor_always_fails_witness:
  "\<exists>report p'. doctor_command demo_command_env False demo_process = Some (Inr report, p') \<and> dp_overall report = DoctorFail"
proof -
  obtain status b where "backend_status_op (cm_backend demo_command_env) (ap_backend (with_state_dir DEFAULT_INTERFACE_NAME demo_process)) =
      Some (Inr status, b)"
    by (simp add: backend_status_op_def prog_bind_def load_state_def on_disk_def load_state_disk_def with_lock_def
        with_state_path_def demo_disk_def demo_env_def demo_command_env_def demo_process_def with_state_dir_def)
  moreover have "agent_state_load (cm_agent demo_command_env) (ap_disk demo_process) = (Inr None, demo_disk)"
    by (simp add: agent_state_load_def demo_disk_def demo_process_def)
  ultimately obtain report p' where "doctor_command demo_command_env False demo_process = Some (Inr report, p')"
    using doctor_command_returns by blast
  with doctor_always_fails [OF this] show ?thesis by blast
qed

text \<open>
  \<open>tfscale-agent down\<close> stops nothing: the command shuts down a backend of its own, which has no TUN
  device, no socket and no tasks. It runs no operating-system command and changes no file, but
  prints that the backend was stopped.
\<close>

theorem down_stops_nothing:
  "\<exists>p'. agent_main env Down p = Some (Inr (), p') \<and>
     cb_os (ap_backend p') = cb_os (ap_backend p) \<and> cb_disk (ap_backend p') = cb_disk (ap_backend p) \<and>
     ap_disk p' = ap_disk p \<and> ho_files (ap_host p') = ho_files (ap_host p) \<and>
     ho_commands (ap_host p') = ho_commands (ap_host p) \<and>
     ho_stdout (ap_host p') = ho_stdout (ap_host p) @ ''agent backend stopped\<newline>''"
  by (simp add: agent_main_def down_command_def prog_bind_def on_own_backend_def backend_shutdown_def stop_transport_tasks_def
      with_lock_def with_state_dir_def with_state_path_def runtime_state_default_def on_host_def println_def)

end
