(* ===== verification/Control_Http.thy ===== *)
theory Control_Http
  imports Control_Server
begin

text \<open>
  The edges of the control plane, \<open>tfscale-control/src/main.rs\<close>: the migrations its start applies to
  the database (\<open>init_schema\<close>), and its HTTP interface (the routes of \<open>serve\<close> and the responses of
  \<open>ApiError\<close>). SQLite is a function that says which statement fails; \<open>serde_json\<close> and axum's
  extractors are a record of functions over an abstract type of JSON texts.
\<close>

section \<open>Migrations\<close>

record migration =
  mg_version :: int
  mg_name :: string
  mg_sql :: string

text \<open>\<open>MIGRATIONS\<close>, over the texts that \<open>include_str!\<close> puts in.\<close>

definition MIGRATIONS :: "string \<Rightarrow> string \<Rightarrow> string \<Rightarrow> string \<Rightarrow> migration list" where
  "MIGRATIONS sql1 sql2 sql3 sql4 =
     [\<lparr>mg_version = 1, mg_name = ''initial'', mg_sql = sql1\<rparr>,
      \<lparr>mg_version = 2, mg_name = ''endpoint_metadata'', mg_sql = sql2\<rparr>,
      \<lparr>mg_version = 3, mg_name = ''dns_records'', mg_sql = sql3\<rparr>,
      \<lparr>mg_version = 4, mg_name = ''endpoint_lookup_index'', mg_sql = sql4\<rparr>]"

text \<open>The committed content of the database file: the table of migrations and the statements executed.\<close>

record schema =
  sm_table :: bool
  sm_versions :: "(int \<times> string) list"
  sm_executed :: "string list"

definition schema_empty :: schema where
  "schema_empty = \<lparr>sm_table = False, sm_versions = [], sm_executed = []\<rparr>"

text \<open>How SQLite answers a statement on a given content; \<open>begin\<close> and \<open>commit\<close> are statements too.\<close>

type_synonym sqlite = "schema \<Rightarrow> string \<Rightarrow> string option"

definition migration_statements :: "string \<Rightarrow> string list" where
  "migration_statements sql = filter (\<lambda>statement. statement \<noteq> []) (map trim (split_on CHR '';'' sql))"

definition migration_applied :: "sqlite \<Rightarrow> int \<Rightarrow> schema \<Rightarrow> string + bool" where
  "migration_applied sqlite version s =
     (case sqlite s ''SELECT version FROM schema_migrations WHERE version = ?'' of
        Some e \<Rightarrow> Inl e
      | None \<Rightarrow> Inr (version \<in> fst ` set (sm_versions s)))"

definition sql_execute :: "sqlite \<Rightarrow> string \<Rightarrow> (schema \<Rightarrow> schema) \<Rightarrow> schema \<Rightarrow> string + schema" where
  "sql_execute sqlite statement effect s = (case sqlite s statement of Some e \<Rightarrow> Inl e | None \<Rightarrow> Inr (effect s))"

fun execute_all :: "sqlite \<Rightarrow> string list \<Rightarrow> schema \<Rightarrow> string + schema" where
  "execute_all sqlite [] s = Inr s"
| "execute_all sqlite (statement # rest) s =
     and_then (sql_execute sqlite statement (\<lambda>s. s\<lparr>sm_executed := sm_executed s @ [statement]\<rparr>) s) (execute_all sqlite rest)"

text \<open>The body of the loop: one transaction, rolled back when it is dropped before its commit.\<close>

definition run_migration :: "sqlite \<Rightarrow> migration \<Rightarrow> schema \<Rightarrow> string + schema" where
  "run_migration sqlite m s =
     and_then (sql_execute sqlite ''BEGIN'' id s) (\<lambda>tx.
     and_then (execute_all sqlite (migration_statements (mg_sql m)) tx) (\<lambda>tx.
     and_then (sql_execute sqlite ''INSERT INTO schema_migrations (version, name) VALUES (?, ?)''
                 (\<lambda>s. s\<lparr>sm_versions := sm_versions s @ [(mg_version m, mg_name m)]\<rparr>) tx) (\<lambda>tx.
       sql_execute sqlite ''COMMIT'' id tx)))"

fun apply_migrations :: "sqlite \<Rightarrow> migration list \<Rightarrow> schema \<Rightarrow> (string + unit) \<times> schema" where
  "apply_migrations sqlite [] s = (Inr (), s)"
| "apply_migrations sqlite (m # ms) s =
     (case migration_applied sqlite (mg_version m) s of
        Inl e \<Rightarrow> (Inl e, s)
      | Inr True \<Rightarrow> apply_migrations sqlite ms s
      | Inr False \<Rightarrow>
          (case run_migration sqlite m s of
             Inl e \<Rightarrow> (Inl e, s)
           | Inr s' \<Rightarrow> apply_migrations sqlite ms s'))"

definition init_schema :: "sqlite \<Rightarrow> migration list \<Rightarrow> schema \<Rightarrow> (string + unit) \<times> schema" where
  "init_schema sqlite migrations s =
     (case sql_execute sqlite ''CREATE TABLE IF NOT EXISTS schema_migrations'' (\<lambda>s. s\<lparr>sm_table := True\<rparr>) s of
        Inl e \<Rightarrow> (Inl e, s)
      | Inr s' \<Rightarrow> apply_migrations sqlite migrations s')"

section \<open>Requests and responses\<close>

datatype http_method = GET | POST | PATCH | DELETE

record 'j http_request =
  hq_method :: http_method
  hq_path :: string
  hq_query :: string
  hq_body :: "'j option"

record 'j http_response =
  hs_status :: nat
  hs_body :: 'j

text \<open>What \<open>serde_json\<close> and the extractors of axum do with the bodies, paths and queries.\<close>

record 'j http_codec =
  hc_empty :: 'j
  hc_error :: "string \<Rightarrow> 'j"
  hc_health :: "bool \<Rightarrow> 'j"
  hc_auth_key :: "create_auth_key_response \<Rightarrow> 'j"
  hc_device :: "device_summary \<Rightarrow> 'j"
  hc_devices :: "device_summary list \<Rightarrow> 'j"
  hc_dns_records :: "dns_record list \<Rightarrow> 'j"
  hc_relays :: "relay_metadata list \<Rightarrow> 'j"
  hc_register_response :: "register_device_response \<Rightarrow> 'j"
  hc_heartbeat_response :: "heartbeat_response \<Rightarrow> 'j"
  hc_network_map :: "network_map_response \<Rightarrow> 'j"
  hc_probe_response :: "endpoint_probe_response \<Rightarrow> 'j"
  hc_rename :: "'j option \<Rightarrow> rename_device_request option"
  hc_register :: "'j option \<Rightarrow> register_device_request option"
  hc_heartbeat :: "'j option \<Rightarrow> heartbeat_request option"
  hc_probe :: "'j option \<Rightarrow> endpoint_probe_request option"
  hc_map_query :: "string \<Rightarrow> (string \<times> string) option"
  hc_path_segment :: "string \<Rightarrow> string option"
  hc_rejection :: "'j http_request \<Rightarrow> 'j http_response"     \<comment> \<open>no route, no method, or an extractor failed\<close>

fun status_number :: "status_code \<Rightarrow> nat" where
  "status_number BAD_REQUEST = 400"
| "status_number UNAUTHORIZED = 401"
| "status_number NOT_FOUND = 404"
| "status_number CONFLICT = 409"
| "status_number INTERNAL_SERVER_ERROR = 500"

definition into_response :: "'j http_codec \<Rightarrow> api_error \<Rightarrow> 'j http_response" where
  "into_response hc e = \<lparr>hs_status = status_number (ae_status e), hs_body = hc_error hc (ae_message e)\<rparr>"

definition json_response :: "'j http_codec \<Rightarrow> ('a \<Rightarrow> 'j) \<Rightarrow> 'a api_result \<Rightarrow> 'j http_response" where
  "json_response hc ser r =
     (case r of Inl e \<Rightarrow> into_response hc e | Inr x \<Rightarrow> \<lparr>hs_status = 200, hs_body = ser x\<rparr>)"

definition respond :: "'j http_codec \<Rightarrow> ('a \<Rightarrow> 'j) \<Rightarrow> 'a api_result \<times> 's \<Rightarrow> 'j http_response \<times> 's" where
  "respond hc ser r = (json_response hc ser (fst r), snd r)"

definition healthz :: "'j http_codec \<Rightarrow> 'j http_response" where
  "healthz hc = \<lparr>hs_status = 200, hs_body = hc_health hc True\<rparr>"

text \<open>
  The router of \<open>serve\<close>, over the handlers it is given; an argument an extractor rejects is axum's
  response. The handlers are a record of operations on a state, so that the same router serves the
  handlers on the database and those that send one statement after the other.
\<close>

record 's control_handlers =
  ch_create_auth_key :: "'s \<Rightarrow> create_auth_key_response api_result \<times> 's"
  ch_list_devices :: "'s \<Rightarrow> device_summary list api_result \<times> 's"
  ch_list_dns_records :: "'s \<Rightarrow> dns_record list api_result \<times> 's"
  ch_list_relays :: "relay_metadata list"
  ch_delete_device :: "string \<Rightarrow> 's \<Rightarrow> unit api_result \<times> 's"
  ch_rename_device :: "string \<Rightarrow> rename_device_request \<Rightarrow> 's \<Rightarrow> device_summary api_result \<times> 's"
  ch_register_device :: "register_device_request \<Rightarrow> 's \<Rightarrow> register_device_response api_result \<times> 's"
  ch_heartbeat :: "heartbeat_request \<Rightarrow> 's \<Rightarrow> heartbeat_response api_result \<times> 's"
  ch_network_map :: "string \<Rightarrow> string \<Rightarrow> 's \<Rightarrow> network_map_response api_result \<times> 's"
  ch_endpoint_probe :: "endpoint_probe_request \<Rightarrow> 's \<Rightarrow> endpoint_probe_response api_result \<times> 's"

definition control_router :: "'j http_codec \<Rightarrow> 's control_handlers \<Rightarrow> 'j http_request \<Rightarrow> 's \<Rightarrow> 'j http_response \<times> 's" where
  "control_router hc ch rq s =
     (let path = split_on CHR ''/'' (hq_path rq); method = hq_method rq; reject = (hc_rejection hc rq, s) in
      if method = GET \<and> path = [[], ''healthz''] then (healthz hc, s)
      else if method = POST \<and> path = [[], ''v1'', ''auth-keys''] then respond hc (hc_auth_key hc) (ch_create_auth_key ch s)
      else if method = GET \<and> path = [[], ''v1'', ''devices''] then respond hc (hc_devices hc) (ch_list_devices ch s)
      else if method = GET \<and> path = [[], ''v1'', ''dns'', ''records'']
        then respond hc (hc_dns_records hc) (ch_list_dns_records ch s)
      else if method = GET \<and> path = [[], ''v1'', ''relays''] then respond hc (hc_relays hc) (Inr (ch_list_relays ch), s)
      else if method = POST \<and> path = [[], ''v1'', ''agent'', ''register'']
        then (case hc_register hc (hq_body rq) of None \<Rightarrow> reject
              | Some request \<Rightarrow> respond hc (hc_register_response hc) (ch_register_device ch request s))
      else if method = POST \<and> path = [[], ''v1'', ''agent'', ''heartbeat'']
        then (case hc_heartbeat hc (hq_body rq) of None \<Rightarrow> reject
              | Some request \<Rightarrow> respond hc (hc_heartbeat_response hc) (ch_heartbeat ch request s))
      else if method = GET \<and> path = [[], ''v1'', ''agent'', ''network-map'']
        then (case hc_map_query hc (hq_query rq) of None \<Rightarrow> reject
              | Some (device_id, node_key) \<Rightarrow> respond hc (hc_network_map hc) (ch_network_map ch device_id node_key s))
      else if method = POST \<and> path = [[], ''v1'', ''agent'', ''endpoint-probe'']
        then (case hc_probe hc (hq_body rq) of None \<Rightarrow> reject
              | Some request \<Rightarrow> respond hc (hc_probe_response hc) (ch_endpoint_probe ch request s))
      else
        (case path of
           [p0, p1, p2, segment] \<Rightarrow>
             if p0 = [] \<and> p1 = ''v1'' \<and> p2 = ''devices'' \<and> segment \<noteq> [] then
               (case hc_path_segment hc segment of
                  None \<Rightarrow> reject
                | Some device_id \<Rightarrow>
                    if method = DELETE then
                      (case ch_delete_device ch device_id s of
                         (Inl e, s') \<Rightarrow> (into_response hc e, s')
                       | (Inr _, s') \<Rightarrow> (\<lparr>hs_status = 204, hs_body = hc_empty hc\<rparr>, s'))
                    else if method = PATCH then
                      (case hc_rename hc (hq_body rq) of None \<Rightarrow> reject
                       | Some request \<Rightarrow> respond hc (hc_device hc) (ch_rename_device ch device_id request s))
                    else reject)
             else reject
         | _ \<Rightarrow> reject))"

definition database_handlers :: "control_env \<Rightarrow> app_state \<Rightarrow> socket_addr \<Rightarrow> database control_handlers" where
  "database_handlers env state addr =
     \<lparr>ch_create_auth_key = create_auth_key env,
      ch_list_devices = (\<lambda>db. (Inr (list_devices db), db)),
      ch_list_dns_records = (\<lambda>db. (Inr (list_dns_records db), db)),
      ch_list_relays = list_relays state,
      ch_delete_device = delete_device env,
      ch_rename_device = rename_device env,
      ch_register_device = register_device env,
      ch_heartbeat = heartbeat env,
      ch_network_map = (\<lambda>device_id node_key db. (network_map env state device_id node_key db, db)),
      ch_endpoint_probe = (\<lambda>request db. (endpoint_probe state addr request db, db))\<rparr>"

definition control_http ::
  "'j http_codec \<Rightarrow> control_env \<Rightarrow> app_state \<Rightarrow> socket_addr \<Rightarrow> 'j http_request \<Rightarrow> database \<Rightarrow> 'j http_response \<times> database" where
  "control_http hc env state addr = control_router hc (database_handlers env state addr)"

lemmas control_http_simps = control_http_def control_router_def database_handlers_def

section \<open>What the migrations leave\<close>

text \<open>The state after the first \<open>k\<close> migrations.\<close>

definition schema_prefix :: "migration list \<Rightarrow> nat \<Rightarrow> schema \<Rightarrow> bool" where
  "schema_prefix ms k s \<longleftrightarrow>
     sm_versions s = map (\<lambda>m. (mg_version m, mg_name m)) (take k ms) \<and>
     sm_executed s = concat (map (\<lambda>m. migration_statements (mg_sql m)) (take k ms))"

lemma execute_all_Inr:
  "execute_all sqlite statements s = Inr s' \<Longrightarrow> s' = s\<lparr>sm_executed := sm_executed s @ statements\<rparr>"
proof (induction statements arbitrary: s)
  case (Cons statement rest)
  then have "execute_all sqlite rest (s\<lparr>sm_executed := sm_executed s @ [statement]\<rparr>) = Inr s'"
    by (auto simp: and_then_eq_Inr sql_execute_def split: option.splits)
  from Cons.IH [OF this] show ?case by simp
qed simp

lemma run_migration_Inr:
  "run_migration sqlite m s = Inr s' \<Longrightarrow>
     s' = s\<lparr>sm_executed := sm_executed s @ migration_statements (mg_sql m),
            sm_versions := sm_versions s @ [(mg_version m, mg_name m)]\<rparr>"
  by (auto simp: run_migration_def and_then_eq_Inr sql_execute_def dest!: execute_all_Inr split: option.splits)

lemma prefix_version_iff:
  assumes "distinct (map mg_version ms)" and "schema_prefix ms k s" and "k \<le> length ms" and "j < length ms"
  shows "mg_version (ms ! j) \<in> fst ` set (sm_versions s) \<longleftrightarrow> j < k"
proof -
  have "fst ` set (sm_versions s) = set (map mg_version (take k ms))"
    using assms(2) by (auto simp: schema_prefix_def image_image)
  also have "\<dots> = (\<lambda>i. map mg_version ms ! i) ` {0..<k}"
    using nth_image [of k "map mg_version ms"] assms(3) by (simp only: take_map length_map)
  finally have "mg_version (ms ! j) \<in> fst ` set (sm_versions s) \<longleftrightarrow> (\<exists>i < k. map mg_version ms ! j = map mg_version ms ! i)"
    using assms(4) by auto
  also have "\<dots> \<longleftrightarrow> (\<exists>i < k. i = j)"
  proof (intro ex_cong1 conj_cong refl)
    fix i assume "i < k"
    with assms(3,4) nth_eq_iff_index_eq [OF assms(1), of j i]
    show "map mg_version ms ! j = map mg_version ms ! i \<longleftrightarrow> i = j" by auto
  qed
  finally show ?thesis by simp
qed
lemma apply_migrations_prefix:
  assumes "distinct (map mg_version ms)" and "schema_prefix ms k s" and "k \<le> length ms" and "j \<le> k"
    and "apply_migrations sqlite (drop j ms) s = (r, s')"
  shows "\<exists>k' \<le> length ms. k \<le> k' \<and> schema_prefix ms k' s' \<and> (r = Inr () \<longrightarrow> k' = length ms)"
  using assms
proof (induction "length ms - j" arbitrary: j k s)
  case 0
  then have "drop j ms = []" "k = length ms" by simp_all
  with 0 show ?case by auto
next
  case (Suc n)
  then have j: "j < length ms" by simp
  have drop: "drop j ms = ms ! j # drop (Suc j) ms" using j by (simp add: Cons_nth_drop_Suc)
  note applied = prefix_version_iff [OF Suc.prems(1-3) j]
  show ?case
  proof (cases "migration_applied sqlite (mg_version (ms ! j)) s")
    case (Inl e)
    with Suc.prems drop show ?thesis by auto
  next
    case (Inr b)
    then have b: "b \<longleftrightarrow> j < k" using applied by (auto simp: migration_applied_def split: option.splits)
    have n: "n = length ms - Suc j" using Suc.hyps(2) by simp
    show ?thesis
    proof (cases "j < k")
      case True
      with Inr b drop Suc.prems(5) have "apply_migrations sqlite (drop (Suc j) ms) s = (r, s')" by simp
      from Suc.hyps(1) [OF n Suc.prems(1-3) _ this] True show ?thesis by simp
    next
      case False
      with Suc.prems(4) have k: "k = j" by simp
      show ?thesis
      proof (cases "run_migration sqlite (ms ! j) s")
        case (Inl e)
        with Inr b False drop Suc.prems show ?thesis by auto
      next
        case run: (Inr s1)
        have "schema_prefix ms (Suc k) s1"
          using run_migration_Inr [OF run] Suc.prems(2) j by (simp add: schema_prefix_def take_Suc_conv_app_nth k)
        moreover from Inr b False drop run Suc.prems(5) have "apply_migrations sqlite (drop (Suc j) ms) s1 = (r, s')" by simp
        ultimately show ?thesis using Suc.hyps(1) [OF n Suc.prems(1), of "Suc k" s1] j k by fastforce
      qed
    qed
  qed
qed

lemma init_schema_prefix:
  assumes "distinct (map mg_version ms)" and "schema_prefix ms k s" and "k \<le> length ms" and "init_schema sqlite ms s = (r, s')"
  shows "\<exists>k' \<le> length ms. k \<le> k' \<and> schema_prefix ms k' s' \<and> (r = Inr () \<longrightarrow> k' = length ms)"
proof (cases "sql_execute sqlite ''CREATE TABLE IF NOT EXISTS schema_migrations'' (\<lambda>s. s\<lparr>sm_table := True\<rparr>) s")
  case (Inl e)
  with assms show ?thesis by (auto simp: init_schema_def)
next
  case (Inr s1)
  then have "s1 = s\<lparr>sm_table := True\<rparr>" by (auto simp: sql_execute_def split: option.splits)
  with assms(2) have "schema_prefix ms k s1" by (simp add: schema_prefix_def)
  from apply_migrations_prefix [OF assms(1) this assms(3), of 0] Inr assms(4) show ?thesis by (simp add: init_schema_def)
qed

text \<open>
  C24. Starting the control plane migrates its database safely: after any number of starts, each of
  which may fail at any statement, the database holds exactly the statements of the first
  migrations, each executed once and in order, and lists exactly those versions; a start that
  succeeds has applied all four.
\<close>

theorem migrations_resume:
  assumes "s = foldl (\<lambda>s sqlite. snd (init_schema sqlite (MIGRATIONS sql1 sql2 sql3 sql4) s)) schema_empty starts"
    and "init_schema sqlite (MIGRATIONS sql1 sql2 sql3 sql4) s = (r, s')"
  shows "\<exists>k \<le> 4. schema_prefix (MIGRATIONS sql1 sql2 sql3 sql4) k s' \<and>
    (r = Inr () \<longrightarrow> k = 4 \<and> sm_executed s' = migration_statements sql1 @ migration_statements sql2 @
       migration_statements sql3 @ migration_statements sql4)"
proof -
  let ?ms = "MIGRATIONS sql1 sql2 sql3 sql4"
  have ms: "distinct (map mg_version ?ms)" "length ?ms = 4" by (simp_all add: MIGRATIONS_def)
  have "\<exists>k \<le> length ?ms. schema_prefix ?ms k s"
    unfolding assms(1)
  proof (induction starts rule: rev_induct)
    case Nil
    show ?case by (intro exI [of _ 0]) (simp add: schema_prefix_def schema_empty_def)
  next
    case (snoc sqlite starts)
    let ?s = "foldl (\<lambda>s sqlite. snd (init_schema sqlite ?ms s)) schema_empty starts"
    from snoc obtain k where "schema_prefix ?ms k ?s" "k \<le> length ?ms" by blast
    from init_schema_prefix [OF ms(1) this, of sqlite] show ?case by (cases "init_schema sqlite ?ms ?s") auto
  qed
  then obtain k where "schema_prefix ?ms k s" "k \<le> length ?ms" by blast
  from init_schema_prefix [OF ms(1) this assms(2)] ms(2) obtain k' where
    k': "k' \<le> 4" "schema_prefix ?ms k' s'" "r = Inr () \<longrightarrow> k' = 4" by auto
  moreover have "sm_executed s' = migration_statements sql1 @ migration_statements sql2 @ migration_statements sql3 @ migration_statements sql4"
    if "k' = 4" using k'(2) that by (simp add: schema_prefix_def MIGRATIONS_def)
  ultimately show ?thesis by blast
qed

definition demo_sqlite :: "string option \<Rightarrow> sqlite" where
  "demo_sqlite failing s statement = (if Some statement = failing then Some ''disk I/O error'' else None)"

theorem migrations_resume_witness:
  "\<exists>r1 s1 r2 s2. init_schema (demo_sqlite (Some ''C'')) (MIGRATIONS ''A; B;'' '' C'' ''D'' ''E'') schema_empty = (Inl r1, s1) \<and>
     sm_executed s1 = [''A'', ''B''] \<and>
     init_schema (demo_sqlite None) (MIGRATIONS ''A; B;'' '' C'' ''D'' ''E'') s1 = (Inr r2, s2) \<and>
     sm_executed s2 = [''A'', ''B'', ''C'', ''D'', ''E'']"
proof -
  let ?ms = "MIGRATIONS ''A; B;'' '' C'' ''D'' ''E''"
  have st: "migration_statements ''A; B;'' = [''A'', ''B'']" "migration_statements '' C'' = [''C'']"
    "migration_statements ''D'' = [''D'']" "migration_statements ''E'' = [''E'']" by code_simp+
  obtain s1 where s1: "init_schema (demo_sqlite (Some ''C'')) ?ms schema_empty = (Inl ''disk I/O error'', s1)"
    "sm_executed s1 = [''A'', ''B'']" "s1 = \<lparr>sm_table = True, sm_versions = [(1, ''initial'')], sm_executed = [''A'', ''B'']\<rparr>"
    by (simp add: init_schema_def MIGRATIONS_def migration_applied_def sql_execute_def run_migration_def schema_empty_def
        demo_sqlite_def st)
  obtain s2 where s2: "init_schema (demo_sqlite None) ?ms s1 = (Inr (), s2)"
    by (simp add: s1(3) init_schema_def MIGRATIONS_def migration_applied_def sql_execute_def run_migration_def demo_sqlite_def st)
  have "s1 = foldl (\<lambda>s sqlite. snd (init_schema sqlite ?ms s)) schema_empty [demo_sqlite (Some ''C'')]" by (simp add: s1(1))
  from migrations_resume [OF this s2] s1 s2 show ?thesis by (auto simp: st)
qed

end
