(* ===== verification/Control_Cli.thy ===== *)
theory Control_Cli
  imports Control_Http
begin

text \<open>
  The operator's client, \<open>tfscalectl/src/main.rs\<close>: its commands as requests to the control plane and
  as what they print. The HTTP client is a function of the request, and JSON texts are an abstract
  type with the decoders and printers of \<open>serde_json\<close>. At the end the client is put in front of the
  HTTP interface of \<open>Control_Http\<close>.
\<close>

section \<open>Commands\<close>

datatype ctl_command =
    AuthKeyCreate
  | DeviceList
  | DeviceRename string string
  | DeviceDelete string
  | DnsRecords
  | RelayList

record ctl_cli =
  cl_control_url :: string
  cl_admin_token :: "string option"
  cl_json :: bool
  cl_command :: ctl_command

record 'j client_request =
  cr_method :: http_method
  cr_url :: string
  cr_payload :: "'j option"

record 'j ctl_codec =
  cc_rename :: "rename_device_request \<Rightarrow> 'j"
  cc_error :: "'j \<Rightarrow> string option"
  cc_text :: "'j \<Rightarrow> string"
  cc_auth_key :: "'j \<Rightarrow> create_auth_key_response option"
  cc_devices :: "'j \<Rightarrow> device_summary list option"
  cc_device :: "'j \<Rightarrow> device_summary option"
  cc_dns_records :: "'j \<Rightarrow> dns_record list option"
  cc_relays :: "'j \<Rightarrow> relay_metadata list option"
  cc_pretty_auth_key :: "create_auth_key_response \<Rightarrow> string"
  cc_pretty_devices :: "device_summary list \<Rightarrow> string"
  cc_pretty_device :: "device_summary \<Rightarrow> string"
  cc_pretty_dns_records :: "dns_record list \<Rightarrow> string"
  cc_pretty_relays :: "relay_metadata list \<Rightarrow> string"
  cc_deleted :: "string \<Rightarrow> string"
  cc_reason :: "nat \<Rightarrow> string option"          \<comment> \<open>\<open>StatusCode::canonical_reason\<close>\<close>

text \<open>The HTTP client: the response, or the error of a request that got none.\<close>

type_synonym ('j, 'c) http_client = "'j client_request \<Rightarrow> 'c \<Rightarrow> (string + 'j http_response) \<times> 'c"

section \<open>Requests\<close>

definition status_text :: "'j ctl_codec \<Rightarrow> nat \<Rightarrow> string" where
  "status_text cc status =
     nat_to_dec status @ '' '' @ (case cc_reason cc status of Some r \<Rightarrow> r | None \<Rightarrow> ''HTTP error'')"

definition ensure_success :: "'j ctl_codec \<Rightarrow> 'j http_response \<Rightarrow> string + 'j http_response" where
  "ensure_success cc response =
     (let status = hs_status response; body = hs_body response in
      if 200 \<le> status \<and> status < 300 then Inr response
      else case cc_error cc body of
        Some error \<Rightarrow> Inl (''control plane returned '' @ status_text cc status @ '': '' @ error)
      | None \<Rightarrow>
          if trim (cc_text cc body) = [] then Inl (''control plane returned '' @ status_text cc status)
          else Inl (''control plane returned '' @ status_text cc status @ '': '' @ trim (cc_text cc body)))"

definition send_request ::
  "'j ctl_codec \<Rightarrow> ('j, 'c) http_client \<Rightarrow> http_method \<Rightarrow> string \<Rightarrow> string \<Rightarrow> 'j option \<Rightarrow> 'c \<Rightarrow> (string + 'j http_response) \<times> 'c" where
  "send_request cc client method control_url path payload c =
     (case client \<lparr>cr_method = method, cr_url = trim_end_matches CHR ''/'' control_url @ path, cr_payload = payload\<rparr> c of
        (Inl _, c') \<Rightarrow> (Inl ''request failed'', c')
      | (Inr response, c') \<Rightarrow> (ensure_success cc response, c'))"

definition request_json ::
  "'j ctl_codec \<Rightarrow> ('j, 'c) http_client \<Rightarrow> ('j \<Rightarrow> 'a option) \<Rightarrow> http_method \<Rightarrow> string \<Rightarrow> string \<Rightarrow> 'j option \<Rightarrow> 'c \<Rightarrow> (string + 'a) \<times> 'c" where
  "request_json cc client decode method control_url path payload c =
     (case send_request cc client method control_url path payload c of
        (Inl e, c') \<Rightarrow> (Inl e, c')
      | (Inr response, c') \<Rightarrow> (ok_or (decode (hs_body response)) ''failed to decode response JSON'', c'))"

definition request_empty ::
  "'j ctl_codec \<Rightarrow> ('j, 'c) http_client \<Rightarrow> http_method \<Rightarrow> string \<Rightarrow> string \<Rightarrow> 'c \<Rightarrow> (string + unit) \<times> 'c" where
  "request_empty cc client method control_url path c =
     map_prod (map_sum id (\<lambda>_. ())) id (send_request cc client method control_url path None c)"

section \<open>Output\<close>

abbreviation unlines :: "string list \<Rightarrow> string" where
  "unlines ls \<equiv> concat (map (\<lambda>l. l @ ''\<newline>'') ls)"

definition print_devices :: "device_summary list \<Rightarrow> string" where
  "print_devices devices = unlines (
     (pad 28 ''ID'' @ '' '' @ pad 20 ''HOSTNAME'' @ '' '' @ pad 15 ''IPV4'' @ '' '' @ pad 10 ''OS'' @ '' '' @ pad 8 ''ARCH'' @ '' '' @
      pad 10 ''BACKEND'' @ '' LAST_SEEN'') #
     map (\<lambda>d. pad 28 (ds_id d) @ '' '' @ pad 20 (ds_hostname d) @ '' '' @ pad 15 (ds_ipv4 d) @ '' '' @ pad 10 (ds_os d) @ '' '' @
       pad 8 (ds_arch d) @ '' '' @ pad 10 (ds_backend_type d) @ '' '' @ (case ds_last_seen_at d of Some t \<Rightarrow> t | None \<Rightarrow> ''-'')) devices)"

definition print_relays :: "relay_metadata list \<Rightarrow> string" where
  "print_relays relays = unlines (
     (pad 16 ''ID'' @ '' '' @ pad 32 ''URL'' @ '' '' @ pad 12 ''REGION'' @ '' HEALTHY'') #
     map (\<lambda>r. pad 16 (rm_relay_id r) @ '' '' @ pad 32 (rm_url r) @ '' '' @ pad 12 (rm_region r) @ '' '' @ show_bool (rm_healthy r)) relays)"

definition print_dns_records :: "dns_record list \<Rightarrow> string" where
  "print_dns_records records = unlines (
     (pad 28 ''DEVICE_ID'' @ '' '' @ pad 28 ''NAME'' @ '' '' @ pad 8 ''TYPE'' @ '' VALUE'') #
     map (\<lambda>r. pad 28 (dr_device_id r) @ '' '' @ pad 28 (dr_name r) @ '' '' @ pad 8 (dr_record_type r) @ '' '' @ dr_value r) records)"

section \<open>The program\<close>

text \<open>What is printed in each of the two formats, once a request has been answered.\<close>

definition ctl_output :: "bool \<Rightarrow> ('a \<Rightarrow> string) \<Rightarrow> ('a \<Rightarrow> string) \<Rightarrow> (string + 'a) \<times> 'c \<Rightarrow> (string + string) \<times> 'c" where
  "ctl_output json pretty plain r = map_prod (map_sum id (\<lambda>x. if json then pretty x @ ''\<newline>'' else plain x)) id r"

definition ctl_main :: "'j ctl_codec \<Rightarrow> ('j, 'c) http_client \<Rightarrow> ctl_cli \<Rightarrow> 'c \<Rightarrow> (string + string) \<times> 'c" where
  "ctl_main cc client cli c =
     (let url = cl_control_url cli; json = cl_json cli in
      case cl_command cli of
        AuthKeyCreate \<Rightarrow>
          ctl_output json (cc_pretty_auth_key cc) (\<lambda>response. ak_key response @ ''\<newline>'')
            (request_json cc client (cc_auth_key cc) POST url ''/v1/auth-keys'' None c)
      | DeviceList \<Rightarrow>
          ctl_output json (cc_pretty_devices cc) print_devices
            (request_json cc client (cc_devices cc) GET url ''/v1/devices'' None c)
      | DeviceRename device_id hostname \<Rightarrow>
          ctl_output json (cc_pretty_device cc) (\<lambda>device. ''renamed '' @ ds_id device @ '' to '' @ ds_hostname device @ ''\<newline>'')
            (request_json cc client (cc_device cc) PATCH url (''/v1/devices/'' @ device_id)
               (Some (cc_rename cc \<lparr>rn_hostname = hostname\<rparr>)) c)
      | DeviceDelete device_id \<Rightarrow>
          ctl_output json (\<lambda>_. cc_deleted cc device_id) (\<lambda>_. ''deleted '' @ device_id @ ''\<newline>'')
            (request_empty cc client DELETE url (''/v1/devices/'' @ device_id) c)
      | DnsRecords \<Rightarrow>
          ctl_output json (cc_pretty_dns_records cc) print_dns_records
            (request_json cc client (cc_dns_records cc) GET url ''/v1/dns/records'' None c)
      | RelayList \<Rightarrow>
          ctl_output json (cc_pretty_relays cc) print_relays
            (request_json cc client (cc_relays cc) GET url ''/v1/relays'' None c))"

section \<open>Client and control plane together\<close>

text \<open>A server reached under a base URL: what follows the base is path and query.\<close>

definition served :: "string \<Rightarrow> ('j http_request \<Rightarrow> database \<Rightarrow> 'j http_response \<times> database) \<Rightarrow> ('j, database) http_client" where
  "served base server rq db =
     (case strip_prefix base (cr_url rq) of
        None \<Rightarrow> (Inl ''connection refused'', db)
      | Some target \<Rightarrow>
          map_prod Inr id (server
            \<lparr>hq_method = cr_method rq, hq_path = takeWhile (\<lambda>c. c \<noteq> CHR 0x3F) target,
             hq_query = tl (dropWhile (\<lambda>c. c \<noteq> CHR 0x3F) target), hq_body = cr_payload rq\<rparr> db))"

text \<open>Both sides use the same JSON: what one writes the other reads, and an error body is read as one.\<close>

definition codec_agrees :: "'j http_codec \<Rightarrow> 'j ctl_codec \<Rightarrow> bool" where
  "codec_agrees hc cc \<longleftrightarrow>
     (\<forall>x. cc_auth_key cc (hc_auth_key hc x) = Some x) \<and> (\<forall>x. cc_devices cc (hc_devices hc x) = Some x) \<and>
     (\<forall>x. cc_device cc (hc_device hc x) = Some x) \<and> (\<forall>x. cc_dns_records cc (hc_dns_records hc x) = Some x) \<and>
     (\<forall>x. cc_relays cc (hc_relays hc x) = Some x) \<and> (\<forall>x. hc_rename hc (Some (cc_rename cc x)) = Some x) \<and>
     (\<forall>x. cc_error cc (hc_error hc x) = Some x)"

text \<open>Ids that a URL carries unchanged; those of the control plane are of this kind.\<close>

definition plain_id :: "string \<Rightarrow> bool" where
  "plain_id s \<longleftrightarrow> s \<noteq> [] \<and> list_all (\<lambda>c. is_ascii_alphanumeric c \<or> c = CHR ''_'' \<or> c = CHR ''-'') s"

fun command_ids :: "ctl_command \<Rightarrow> string list" where
  "command_ids (DeviceRename device_id hostname) = [device_id]"
| "command_ids (DeviceDelete device_id) = [device_id]"
| "command_ids _ = []"

text \<open>The same commands without a network: the handler is called and its result printed.\<close>

definition api_error_text :: "'j ctl_codec \<Rightarrow> api_error \<Rightarrow> string" where
  "api_error_text cc e = ''control plane returned '' @ status_text cc (status_number (ae_status e)) @ '': '' @ ae_message e"

abbreviation handler_result :: "'j ctl_codec \<Rightarrow> 'a api_result \<times> database \<Rightarrow> (string + 'a) \<times> database" where
  "handler_result cc r \<equiv> map_prod (map_err (api_error_text cc)) id r"

definition ctl_direct :: "'j ctl_codec \<Rightarrow> control_env \<Rightarrow> app_state \<Rightarrow> ctl_cli \<Rightarrow> database \<Rightarrow> (string + string) \<times> database" where
  "ctl_direct cc env state cli db =
     (let json = cl_json cli in
      case cl_command cli of
        AuthKeyCreate \<Rightarrow>
          ctl_output json (cc_pretty_auth_key cc) (\<lambda>response. ak_key response @ ''\<newline>'') (handler_result cc (create_auth_key env db))
      | DeviceList \<Rightarrow> ctl_output json (cc_pretty_devices cc) print_devices (Inr (list_devices db), db)
      | DeviceRename device_id hostname \<Rightarrow>
          ctl_output json (cc_pretty_device cc) (\<lambda>device. ''renamed '' @ ds_id device @ '' to '' @ ds_hostname device @ ''\<newline>'')
            (handler_result cc (rename_device env device_id \<lparr>rn_hostname = hostname\<rparr> db))
      | DeviceDelete device_id \<Rightarrow>
          ctl_output json (\<lambda>_. cc_deleted cc device_id) (\<lambda>_. ''deleted '' @ device_id @ ''\<newline>'') (handler_result cc (delete_device env device_id db))
      | DnsRecords \<Rightarrow> ctl_output json (cc_pretty_dns_records cc) print_dns_records (Inr (list_dns_records db), db)
      | RelayList \<Rightarrow> ctl_output json (cc_pretty_relays cc) print_relays (Inr (list_relays state), db))"

lemma ensure_success_error:
  "cc_error cc (hc_error hc (ae_message e)) = Some (ae_message e) \<Longrightarrow> ensure_success cc (into_response hc e) = Inl (api_error_text cc e)"
  by (cases "ae_status e") (simp_all add: ensure_success_def into_response_def api_error_text_def)

lemma request_json_served:
  assumes "CHR 0x3F \<notin> set path" and "\<And>x. decode (ser x) = Some x" and "\<And>m. cc_error cc (hc_error hc m) = Some m"
    and "server \<lparr>hq_method = method, hq_path = path, hq_query = [], hq_body = payload\<rparr> db = respond hc ser result"
  shows "request_json cc (served (trim_end_matches CHR ''/'' url) server) decode method url path payload db =
    handler_result cc result"
proof -
  have path: "takeWhile (\<lambda>c. c \<noteq> CHR 0x3F) path = path" "dropWhile (\<lambda>c. c \<noteq> CHR 0x3F) path = []"
    using assms(1) by (auto simp: takeWhile_eq_all_conv dropWhile_eq_Nil_conv)
  obtain r db' where result: "result = (r, db')" by (cases result)
  show ?thesis
  proof (cases r)
    case (Inl e)
    with assms(4) show ?thesis
      by (simp add: request_json_def send_request_def served_def path result respond_def json_response_def
          ensure_success_error [OF assms(3)])
  next
    case (Inr x)
    with assms(4) show ?thesis
      by (simp add: request_json_def send_request_def served_def path result respond_def json_response_def
          ensure_success_def assms(2))
  qed
qed

lemma plain_id_path: "plain_id s \<Longrightarrow> CHR 0x3F \<notin> set s \<and> CHR ''/'' \<notin> set s \<and> s \<noteq> []"
proof -
  have "\<not> is_ascii_alphanumeric CHR 0x3F" "\<not> is_ascii_alphanumeric CHR ''/''" by code_simp+
  then show "plain_id s \<Longrightarrow> ?thesis" by (auto simp: plain_id_def list_all_iff)
qed

lemma split_device_path:
  "CHR ''/'' \<notin> set s \<Longrightarrow> split_on CHR ''/'' (''/v1/devices/'' @ s) = [[], ''v1'', ''devices'', s]"
  by (simp add: split_on_none)

lemma control_http_fixed:
  "control_http hc env state addr \<lparr>hq_method = POST, hq_path = ''/v1/auth-keys'', hq_query = q, hq_body = body\<rparr> db =
     respond hc (hc_auth_key hc) (create_auth_key env db)"
  "control_http hc env state addr \<lparr>hq_method = GET, hq_path = ''/v1/devices'', hq_query = q, hq_body = body\<rparr> db =
     respond hc (hc_devices hc) (Inr (list_devices db), db)"
  "control_http hc env state addr \<lparr>hq_method = GET, hq_path = ''/v1/dns/records'', hq_query = q, hq_body = body\<rparr> db =
     respond hc (hc_dns_records hc) (Inr (list_dns_records db), db)"
  "control_http hc env state addr \<lparr>hq_method = GET, hq_path = ''/v1/relays'', hq_query = q, hq_body = body\<rparr> db =
     respond hc (hc_relays hc) (Inr (list_relays state), db)"
  by (simp_all add: control_http_simps respond_def)

lemma control_http_rename:
  assumes "CHR ''/'' \<notin> set device_id" "device_id \<noteq> []" "hc_path_segment hc device_id = Some device_id"
    and "hc_rename hc body = Some request"
  shows "control_http hc env state addr \<lparr>hq_method = PATCH, hq_path = ''/v1/devices/'' @ device_id, hq_query = q, hq_body = body\<rparr> db =
    respond hc (hc_device hc) (rename_device env device_id request db)"
  unfolding control_http_simps http_request.select_convs split_device_path [OF assms(1)] Let_def using assms(2-) by simp

lemma control_http_delete:
  assumes "CHR ''/'' \<notin> set device_id" "device_id \<noteq> []" "hc_path_segment hc device_id = Some device_id"
  shows "control_http hc env state addr \<lparr>hq_method = DELETE, hq_path = ''/v1/devices/'' @ device_id, hq_query = q, hq_body = body\<rparr> db =
    (case delete_device env device_id db of
       (Inl e, db') \<Rightarrow> (into_response hc e, db')
     | (Inr _, db') \<Rightarrow> (\<lparr>hs_status = 204, hs_body = hc_empty hc\<rparr>, db'))"
  unfolding control_http_simps http_request.select_convs split_device_path [OF assms(1)] Let_def using assms(2-) by simp

lemma request_delete_served:
  assumes "plain_id device_id" and "hc_path_segment hc device_id = Some device_id" and "\<And>m. cc_error cc (hc_error hc m) = Some m"
  shows "request_empty cc (served (trim_end_matches CHR ''/'' url) (control_http hc env state addr)) DELETE url
      (''/v1/devices/'' @ device_id) db = handler_result cc (delete_device env device_id db)"
proof -
  let ?path = "''/v1/devices/'' @ device_id"
  have id: "CHR ''/'' \<notin> set device_id" "device_id \<noteq> []" "CHR 0x3F \<notin> set ?path" using plain_id_path [OF assms(1)] by auto
  have path: "takeWhile (\<lambda>c. c \<noteq> CHR 0x3F) ?path = ?path" "dropWhile (\<lambda>c. c \<noteq> CHR 0x3F) ?path = []"
    using id(3) by (auto simp only: takeWhile_eq_all_conv dropWhile_eq_Nil_conv)
  obtain r db' where result: "delete_device env device_id db = (r, db')" by (cases "delete_device env device_id db")
  show ?thesis
    unfolding request_empty_def send_request_def served_def client_request.simps strip_prefix_append option.case path
      control_http_delete [OF id(1,2) assms(2)] result
    by (cases r) (simp_all add: ensure_success_error [OF assms(3)], simp add: ensure_success_def)
qed

text \<open>The requests of the six commands, answered by the control plane.\<close>

lemma requests_served:
  fixes client hc cc env state addr url
  defines "client \<equiv> served (trim_end_matches CHR ''/'' url) (control_http hc env state addr)"
  assumes agree: "codec_agrees hc cc"
  shows "request_json cc client (cc_auth_key cc) POST url ''/v1/auth-keys'' None db = handler_result cc (create_auth_key env db)"
    and "request_json cc client (cc_devices cc) GET url ''/v1/devices'' None db = (Inr (list_devices db), db)"
    and "request_json cc client (cc_dns_records cc) GET url ''/v1/dns/records'' None db = (Inr (list_dns_records db), db)"
    and "request_json cc client (cc_relays cc) GET url ''/v1/relays'' None db = (Inr (list_relays state), db)"
    and "plain_id device_id \<Longrightarrow> hc_path_segment hc device_id = Some device_id \<Longrightarrow>
      request_json cc client (cc_device cc) PATCH url (''/v1/devices/'' @ device_id) (Some (cc_rename cc request)) db =
      handler_result cc (rename_device env device_id request db)"
proof -
  show "request_json cc client (cc_auth_key cc) POST url ''/v1/auth-keys'' None db = handler_result cc (create_auth_key env db)"
    unfolding client_def
    by (rule request_json_served [where ser = "hc_auth_key hc" and hc = hc]) (use agree in \<open>simp_all add: codec_agrees_def control_http_fixed\<close>)
  have "request_json cc client (cc_devices cc) GET url ''/v1/devices'' None db = handler_result cc (Inr (list_devices db), db)"
    unfolding client_def
    by (rule request_json_served [where ser = "hc_devices hc" and hc = hc]) (use agree in \<open>simp_all add: codec_agrees_def control_http_fixed\<close>)
  then show "request_json cc client (cc_devices cc) GET url ''/v1/devices'' None db = (Inr (list_devices db), db)" by simp
  have "request_json cc client (cc_dns_records cc) GET url ''/v1/dns/records'' None db = handler_result cc (Inr (list_dns_records db), db)"
    unfolding client_def
    by (rule request_json_served [where ser = "hc_dns_records hc" and hc = hc]) (use agree in \<open>simp_all add: codec_agrees_def control_http_fixed\<close>)
  then show "request_json cc client (cc_dns_records cc) GET url ''/v1/dns/records'' None db = (Inr (list_dns_records db), db)" by simp
  have "request_json cc client (cc_relays cc) GET url ''/v1/relays'' None db = handler_result cc (Inr (list_relays state), db)"
    unfolding client_def
    by (rule request_json_served [where ser = "hc_relays hc" and hc = hc]) (use agree in \<open>simp_all add: codec_agrees_def control_http_fixed\<close>)
  then show "request_json cc client (cc_relays cc) GET url ''/v1/relays'' None db = (Inr (list_relays state), db)" by simp
  assume "plain_id device_id" and seg: "hc_path_segment hc device_id = Some device_id"
  then have id: "CHR ''/'' \<notin> set device_id" "device_id \<noteq> []" "CHR 0x3F \<notin> set (''/v1/devices/'' @ device_id)"
    using plain_id_path [of device_id] by auto
  show "request_json cc client (cc_device cc) PATCH url (''/v1/devices/'' @ device_id) (Some (cc_rename cc request)) db =
      handler_result cc (rename_device env device_id request db)"
    unfolding client_def
    by (rule request_json_served [where ser = "hc_device hc" and hc = hc and server = "control_http hc env state addr",
          OF id(3) _ _ control_http_rename [OF id(1,2) seg]])
      (use agree in \<open>simp_all add: codec_agrees_def\<close>)
qed

text \<open>
  C25. The operator's client shows exactly what the control plane does: over HTTP and JSON every command
  of \<open>tfscalectl\<close> prints the same text or the same error, and leaves the same database, as calling
  the handler directly and printing its result, whatever slashes end the configured URL and in
  both output formats.
\<close>

theorem ctl_refines_handlers:
  assumes "codec_agrees hc cc" and "list_all plain_id (command_ids (cl_command cli))"
    and "list_all (\<lambda>s. hc_path_segment hc s = Some s) (command_ids (cl_command cli))"
  shows "ctl_main cc (served (trim_end_matches CHR ''/'' (cl_control_url cli)) (control_http hc env state addr)) cli db =
    ctl_direct cc env state cli db"
proof (cases "cl_command cli")
  case (DeviceRename device_id hostname)
  with assms(2,3) requests_served(5) [OF assms(1), of device_id] show ?thesis
    by (simp add: ctl_main_def ctl_direct_def del: append.simps)
next
  case (DeviceDelete device_id)
  with assms request_delete_served [of device_id hc cc] show ?thesis
    by (simp add: ctl_main_def ctl_direct_def codec_agrees_def del: append.simps)
qed (simp_all add: ctl_main_def ctl_direct_def requests_served(1-4) [OF assms(1)])

text \<open>A codec over a type of JSON texts with one constructor for every payload.\<close>

datatype demo_json =
    JEmpty | JError string | JHealth bool | JAuthKey create_auth_key_response | JDevice device_summary
  | JDevices "device_summary list" | JRecords "dns_record list" | JRelays "relay_metadata list"
  | JRename rename_device_request | JOther

definition demo_http_codec :: "demo_json http_codec" where
  "demo_http_codec =
     \<lparr>hc_empty = JEmpty, hc_error = JError, hc_health = JHealth, hc_auth_key = JAuthKey, hc_device = JDevice, hc_devices = JDevices,
      hc_dns_records = JRecords, hc_relays = JRelays, hc_register_response = (\<lambda>_. JOther), hc_heartbeat_response = (\<lambda>_. JOther),
      hc_network_map = (\<lambda>_. JOther), hc_probe_response = (\<lambda>_. JOther),
      hc_rename = (\<lambda>body. case body of Some (JRename r) \<Rightarrow> Some r | _ \<Rightarrow> None), hc_register = (\<lambda>_. None),
      hc_heartbeat = (\<lambda>_. None), hc_probe = (\<lambda>_. None), hc_map_query = (\<lambda>_. None), hc_path_segment = Some,
      hc_rejection = (\<lambda>_. \<lparr>hs_status = 404, hs_body = JEmpty\<rparr>)\<rparr>"

definition demo_ctl_codec :: "demo_json ctl_codec" where
  "demo_ctl_codec =
     \<lparr>cc_rename = JRename, cc_error = (\<lambda>j. case j of JError e \<Rightarrow> Some e | _ \<Rightarrow> None), cc_text = (\<lambda>_. []),
      cc_auth_key = (\<lambda>j. case j of JAuthKey x \<Rightarrow> Some x | _ \<Rightarrow> None), cc_devices = (\<lambda>j. case j of JDevices x \<Rightarrow> Some x | _ \<Rightarrow> None),
      cc_device = (\<lambda>j. case j of JDevice x \<Rightarrow> Some x | _ \<Rightarrow> None), cc_dns_records = (\<lambda>j. case j of JRecords x \<Rightarrow> Some x | _ \<Rightarrow> None),
      cc_relays = (\<lambda>j. case j of JRelays x \<Rightarrow> Some x | _ \<Rightarrow> None), cc_pretty_auth_key = (\<lambda>_. []), cc_pretty_devices = (\<lambda>_. []),
      cc_pretty_device = (\<lambda>_. []), cc_pretty_dns_records = (\<lambda>_. []), cc_pretty_relays = (\<lambda>_. []), cc_deleted = (\<lambda>_. []),
      cc_reason = (\<lambda>n. if n = 404 then Some ''Not Found'' else None)\<rparr>"

theorem ctl_refines_handlers_witness:
  "ctl_main demo_ctl_codec (served ''http://127.0.0.1:8080'' (control_http demo_http_codec (demo_control_env ''c'') demo_app
      \<lparr>sa_ip = V4 (Ipv4Addr 127 0 0 1), sa_port = 9\<rparr>))
     \<lparr>cl_control_url = ''http://127.0.0.1:8080/'', cl_admin_token = None, cl_json = False, cl_command = DeviceDelete ''dev_x''\<rparr> database_empty =
   (Inl ''control plane returned 404 Not Found: device not found'', database_empty)"
proof -
  let ?cli = "\<lparr>cl_control_url = ''http://127.0.0.1:8080/'', cl_admin_token = None, cl_json = False, cl_command = DeviceDelete ''dev_x''\<rparr>"
  have "codec_agrees demo_http_codec demo_ctl_codec"
    by (simp add: codec_agrees_def demo_http_codec_def demo_ctl_codec_def)
  moreover have "list_all plain_id (command_ids (cl_command ?cli))" by code_simp
  moreover have "list_all (\<lambda>s. hc_path_segment demo_http_codec s = Some s) (command_ids (cl_command ?cli))"
    by (simp add: demo_http_codec_def)
  moreover have "trim_end_matches CHR ''/'' (cl_control_url ?cli) = ''http://127.0.0.1:8080''" by (simp add: trim_end_matches_def)
  moreover have "ctl_direct demo_ctl_codec (demo_control_env ''c'') demo_app ?cli database_empty =
      (Inl ''control plane returned 404 Not Found: device not found'', database_empty)"
  proof -
    have "nat_to_dec 404 = ''404''" by code_simp
    then show ?thesis
      by (simp add: ctl_direct_def ctl_output_def delete_device_def transaction_def database_empty_def not_found_def api_error_text_def
          status_text_def demo_ctl_codec_def)
  qed
  ultimately show ?thesis using ctl_refines_handlers [of demo_http_codec demo_ctl_codec ?cli] by simp
qed

end
