(* ===== verification/Server_Startup.thy ===== *)
theory Server_Startup
  imports Control_Http Relay_Server Agent_Core
begin

text \<open>
  How the two servers start: \<open>serve\<close> of \<open>tfscale-control/src/main.rs\<close> and of \<open>tfscale-relay/src/main.rs\<close> with
  the defaults of their command lines. Opening the database, the sockets and the accepted
  connections are outcomes of the host; what a failed start leaves behind is the content of
  the database file.
\<close>

datatype start_error = StartError string | StartAddrParse string

section \<open>The control plane\<close>

record serve_args =
  sv_db :: string
  sv_listen :: string
  sv_udp_probe_listen :: string
  sv_relay_urls :: "string list"

text \<open>\<open>Command::Serve\<close>: the options as given on the command line, or their defaults.\<close>

definition control_serve_args :: "string option \<Rightarrow> string option \<Rightarrow> string option \<Rightarrow> string list \<Rightarrow> serve_args" where
  "control_serve_args db listen udp_probe_listen relay_urls =
     \<lparr>sv_db = (case db of Some v \<Rightarrow> v | None \<Rightarrow> ''./tf-scale.db''),
      sv_listen = (case listen of Some v \<Rightarrow> v | None \<Rightarrow> ''127.0.0.1:8080''),
      sv_udp_probe_listen = (case udp_probe_listen of Some v \<Rightarrow> v | None \<Rightarrow> ''127.0.0.1:3478''),
      sv_relay_urls = relay_urls\<rparr>"

record server_host =
  sh_connect :: "string \<Rightarrow> string option"           \<comment> \<open>how opening the database at a URL fails, if it does\<close>
  sh_sqlite :: sqlite
  sh_schema :: schema
  sh_bind_udp :: "socket_addr \<Rightarrow> string option"
  sh_local_addr :: "socket_addr \<Rightarrow> string + socket_addr"
  sh_bind_tcp :: "socket_addr \<Rightarrow> string option"

definition database_url :: "string \<Rightarrow> string" where
  "database_url db = ''sqlite://'' @ db @ ''?mode=rwc''"

text \<open>A successful start is the state of the router and the address that it serves.\<close>

definition control_serve ::
  "migration list \<Rightarrow> serve_args \<Rightarrow> server_host \<Rightarrow> (start_error + app_state \<times> socket_addr) \<times> server_host" where
  "control_serve migrations args h =
     (case sh_connect h (database_url (sv_db args)) of
        Some e \<Rightarrow> (Inl (StartError e), h)
      | None \<Rightarrow>
          (case init_schema (sh_sqlite h) migrations (sh_schema h) of
             (Inl e, s) \<Rightarrow> (Inl (StartError e), h\<lparr>sh_schema := s\<rparr>)
           | (Inr _, s) \<Rightarrow>
               ((case parse_socket_addr (sv_udp_probe_listen args) of
                   None \<Rightarrow> Inl (StartAddrParse (sv_udp_probe_listen args))
                 | Some udp_addr \<Rightarrow>
                     (case sh_bind_udp h udp_addr of
                        Some e \<Rightarrow> Inl (StartError e)
                      | None \<Rightarrow>
                          and_then (map_err StartError (sh_local_addr h udp_addr)) (\<lambda>udp_probe_addr.
                            let state = \<lparr>as_udp_probe_addr = udp_probe_addr,
                                         as_relays = relay_metadata_from_urls (sv_relay_urls args)\<rparr>
                            in case parse_socket_addr (sv_listen args) of
                                 None \<Rightarrow> Inl (StartAddrParse (sv_listen args))
                               | Some addr \<Rightarrow>
                                   (case sh_bind_tcp h addr of
                                      Some e \<Rightarrow> Inl (StartError e)
                                    | None \<Rightarrow> Inr (state, addr))))),
                h\<lparr>sh_schema := s\<rparr>)))"

lemma control_serve_Inr:
  assumes "control_serve migrations args h = (Inr (state, addr), h')"
  obtains udp_addr where "init_schema (sh_sqlite h) migrations (sh_schema h) = (Inr (), sh_schema h')"
    and "parse_socket_addr (sv_udp_probe_listen args) = Some udp_addr" and "sh_local_addr h udp_addr = Inr (as_udp_probe_addr state)"
    and "parse_socket_addr (sv_listen args) = Some addr" and "as_relays state = relay_metadata_from_urls (sv_relay_urls args)"
  using assms
  by (auto simp: control_serve_def Let_def and_then_def map_err_def split: option.splits sum.splits prod.splits)

text \<open>The schema is brought up to date before any address is read, so also by a start that then fails.\<close>

lemma control_serve_schema:
  "sh_connect h (database_url (sv_db args)) = None \<Longrightarrow>
     sh_schema (snd (control_serve migrations args h)) = snd (init_schema (sh_sqlite h) migrations (sh_schema h))"
  by (auto simp: control_serve_def split: sum.splits prod.splits)

section \<open>The relay\<close>

definition relay_serve_listen :: "string option \<Rightarrow> string" where
  "relay_serve_listen listen = (case listen of Some v \<Rightarrow> v | None \<Rightarrow> ''0.0.0.0:9443'')"

definition relay_serve :: "(socket_addr \<Rightarrow> string option) \<Rightarrow> string \<Rightarrow> start_error + socket_addr \<times> relay_state" where
  "relay_serve bind_tcp listen =
     (case parse_socket_addr listen of
        None \<Rightarrow> Inl (StartAddrParse listen)
      | Some addr \<Rightarrow>
          (case bind_tcp addr of
             Some e \<Rightarrow> Inl (StartError e)
           | None \<Rightarrow> Inr (addr, relay_state_default)))"

text \<open>
  The loop over what \<open>accept\<close> returns: every connection gets a task of its own, an error leaves the
  loop, the function and the process.
\<close>

fun relay_accept_loop :: "nat \<Rightarrow> (string + socket_addr) list \<Rightarrow> nat list \<times> string option" where
  "relay_accept_loop c [] = ([], None)"
| "relay_accept_loop c (Inl e # results) = ([], Some e)"
| "relay_accept_loop c (Inr peer_addr # results) =
     (case relay_accept_loop (Suc c) results of (tasks, stop) \<Rightarrow> (c # tasks, stop))"

lemma relay_accept_tasks:
  "relay_accept_loop c results = (tasks, stop) \<Longrightarrow>
     tasks = [c..<c + length (takeWhile (\<lambda>r. \<not> isl r) results)] \<and> (stop = None \<longleftrightarrow> list_all (\<lambda>r. \<not> isl r) results)"
proof (induction c results arbitrary: tasks stop rule: relay_accept_loop.induct)
  case (3 c peer results)
  obtain tasks' where "relay_accept_loop (Suc c) results = (tasks', stop)" "tasks = c # tasks'"
    using "3.prems" by (auto split: prod.splits)
  with "3.IH" show ?case by (auto simp: upt_conv_Cons simp del: upt_Suc)
qed auto

text \<open>The tasks are distinct connections, each in its first phase in the relay's initial state.\<close>

lemma relay_tasks_fresh:
  assumes "relay_serve bind_tcp listen = Inr (addr, s)" and "relay_accept_loop 0 results = (tasks, stop)"
  shows "distinct tasks \<and> (\<forall>c \<in> set tasks. cn_phase (rl_conns s c) = Connected)"
  using assms(1) relay_accept_tasks [OF assms(2)]
  by (auto simp: relay_serve_def relay_state_default_def split: option.splits)

text \<open>One failed \<open>accept\<close> ends the relay, whatever sessions run and whoever connects later.\<close>

lemma failed_accept_ends_relay:
  "relay_accept_loop c (map Inr peers @ Inl e # later) = ([c..<c + length peers], Some e)"
  by (induction peers arbitrary: c) (simp_all add: upt_conv_Cons del: upt_Suc)

end
