(* ===== verification/Endpoint_Exchange.thy ===== *)
theory Endpoint_Exchange
  imports Server_Startup
begin

text \<open>
  The way of an endpoint from the node that has it to the nodes that use it: the heartbeat of the
  agent (\<open>tfscale-agent/src/main.rs\<close>) writes it as texts, the control plane (\<open>tfscale-control/src/main.rs\<close>)
  stores it, and the network map brings it to the other agents, which read the texts again. The
  address of the control plane's probe takes the same way.
\<close>

section \<open>Rows\<close>

lemma upsert_endpoint_stored:
  "(\<And>e. e \<in> set (db_endpoints db) \<Longrightarrow> er_id e = er_id r \<Longrightarrow> er_device_id e = er_device_id r) \<Longrightarrow>
     r \<in> set (db_endpoints (upsert_endpoint r db))"
  by (auto simp: upsert_endpoint_def update_where_def image_iff)

lemma upsert_endpoint_keeps:
  assumes "e \<in> set (db_endpoints db)" and "er_id e \<noteq> er_id r"
  shows "e \<in> set (db_endpoints (upsert_endpoint r db))"
  using assms by (auto simp: upsert_endpoint_def update_where_def)

lemma upsert_endpoint_devices:
  "e \<in> set (db_endpoints (upsert_endpoint r db)) \<Longrightarrow>
     e = r \<or> (\<exists>e' \<in> set (db_endpoints db). er_id e' = er_id e \<and> er_device_id e' = er_device_id e)"
  by (auto simp: upsert_endpoint_def update_where_def split: if_splits)

text \<open>
  The identifier of a row is a hash. That the hash tells the rows apart is what the program relies
  on: the endpoints of one report get different rows, and no row of another device has one of them.
\<close>

definition rows_apart :: "control_env \<Rightarrow> string \<Rightarrow> endpoint_payload list \<Rightarrow> database \<Rightarrow> bool" where
  "rows_apart env d payloads db \<longleftrightarrow> inj_on (\<lambda>p. er_id (endpoint_row_of env d p)) (set payloads) \<and>
     (\<forall>e \<in> set (db_endpoints db). \<forall>p \<in> set payloads. er_id e = er_id (endpoint_row_of env d p) \<longrightarrow> er_device_id e = d)"

lemma endpoint_row_device [simp]: "er_device_id (endpoint_row_of env d p) = d"
  by (simp add: endpoint_row_of_def Let_def)

lemma upserts_stored:
  assumes "\<forall>p \<in> set all. \<forall>q \<in> set all. er_id (endpoint_row_of env d p) = er_id (endpoint_row_of env d q) \<longrightarrow> p = q"
    and "\<forall>e \<in> set (db_endpoints db). \<forall>p \<in> set all. er_id e = er_id (endpoint_row_of env d p) \<longrightarrow> er_device_id e = d"
    and "set ps \<subseteq> set all" and "p \<in> set ps \<or> p \<in> set all \<and> endpoint_row_of env d p \<in> set (db_endpoints db)"
  shows "endpoint_row_of env d p \<in> set (db_endpoints (fold (\<lambda>p. upsert_endpoint (endpoint_row_of env d p)) ps db))"
  using assms(2-4)
proof (induction ps arbitrary: db)
  case (Cons q ps)
  let ?r = "endpoint_row_of env d q"
  have rows: "\<forall>e \<in> set (db_endpoints (upsert_endpoint ?r db)). \<forall>p \<in> set all. er_id e = er_id (endpoint_row_of env d p) \<longrightarrow> er_device_id e = d"
    using Cons.prems(1) upsert_endpoint_devices by fastforce
  have "p \<in> set ps \<or> p \<in> set all \<and> endpoint_row_of env d p \<in> set (db_endpoints (upsert_endpoint ?r db))"
  proof (cases "p = q")
    case True
    have "?r \<in> set (db_endpoints (upsert_endpoint ?r db))"
      using Cons.prems(1,2) by (intro upsert_endpoint_stored) auto
    with True Cons.prems(2) show ?thesis by auto
  next
    case False
    show ?thesis
    proof (cases "p \<in> set ps")
      case False
      with Cons.prems(3) \<open>p \<noteq> q\<close> have "p \<in> set all" "endpoint_row_of env d p \<in> set (db_endpoints db)" by auto
      moreover have "er_id (endpoint_row_of env d p) \<noteq> er_id ?r"
        using assms(1) Cons.prems(2) \<open>p \<noteq> q\<close> calculation(1) by auto
      ultimately show ?thesis using upsert_endpoint_keeps by blast
    qed simp
  qed
  then show ?case using Cons.IH [OF rows] Cons.prems(2) by simp
qed auto

lemma heartbeat_stores:
  assumes "heartbeat env request db = (Inr response, db')" and "rows_apart env (hb_device_id request) (hb_endpoints request) db"
    and "p \<in> set (hb_endpoints request)"
  shows "endpoint_row_of env (hb_device_id request) p \<in> set (db_endpoints db')"
proof -
  let ?d = "hb_device_id request"
  let ?db1 = "db\<lparr>db_devices := update_where (\<lambda>d. dv_id d = ?d \<and> live d)
      (\<lambda>d. d\<lparr>dv_last_seen_at := Some (ce_now env), dv_updated_at := ce_now env\<rparr>) (db_devices db)\<rparr>"
  have db': "db' = fold (\<lambda>p. upsert_endpoint (endpoint_row_of env ?d p)) (hb_endpoints request) (delete_expired_endpoints env ?d ?db1)"
    using assms(1) by (auto simp: heartbeat_def heartbeat_commit_phase_def Let_def split: sum.splits)
  show ?thesis unfolding db'
    by (rule upserts_stored [where all = "hb_endpoints request"])
      (use assms(2,3) in \<open>auto simp: rows_apart_def delete_expired_endpoints_def dest: inj_onD\<close>)
qed

lemma upserts_devices: "db_devices (fold (\<lambda>p. upsert_endpoint (row p)) ps db) = db_devices db"
  by (induction ps arbitrary: db) (simp_all add: upsert_endpoint_def)

section \<open>Properties\<close>

lemma network_map_peer:
  assumes "network_map env state d2 k2 db = Inr m" and "d \<in> set (db_devices db)" and "live d" and "dv_id d \<noteq> d2"
  shows "network_map_peer_of env db d \<in> set (nm_peers m)"
  using assms by (auto simp: network_map_def and_then_def split: sum.splits option.splits)

text \<open>The steps of the control plane by the request's clock.\<close>

inductive control_step_at :: "control_env \<Rightarrow> database \<Rightarrow> database \<Rightarrow> bool" for env where
  "control_step_at env db (snd (create_auth_key env db))"
| "control_step_at env db (snd (delete_device env device_id db))"
| "control_step_at env db (snd (rename_device env device_id rename_request db))"
| "control_step_at env db (snd (register_device env request db))"
| "allocate_ipv4 earlier = Inr ipv4 \<Longrightarrow> length (db_ips earlier) \<le> length (db_ips db) \<Longrightarrow>
    control_step_at env db (snd (register_commit_phase env request hostname ipv4 db))"
| "control_step_at env db (snd (heartbeat env beat_request db))"
| "control_step_at env db (heartbeat_commit_phase env beat_request db)"

inductive_cases control_step_atE: "control_step_at env db db'"

lemma control_step_at_iff: "control_step db db' \<longleftrightarrow> (\<exists>env. control_step_at env db db')"
  by (auto elim!: control_stepE control_step_atE intro: control_step.intros control_step_at.intros)

definition valid_at :: "string \<Rightarrow> endpoint_row \<Rightarrow> bool" where
  "valid_at now e = (case er_expires_at e of None \<Rightarrow> True | Some t \<Rightarrow> now < t)"

text \<open>What the other agents read of an endpoint.\<close>

definition payload_target :: "endpoint_payload \<Rightarrow> string \<times> string \<times> u16 \<times> string" where
  "payload_target p = (epp_kind p, epp_address p, epp_port p, epp_protocol p)"

lemma endpoint_to_config_target: "payload_target p = payload_target q \<Longrightarrow> endpoint_to_config p = endpoint_to_config q"
  by (simp add: payload_target_def endpoint_to_config_def)

lemma upserts_keep:
  assumes "\<exists>e' \<in> set (db_endpoints db). er_id e' = i \<and> er_device_id e' = d"
  shows "\<exists>e' \<in> set (db_endpoints (fold (\<lambda>p. upsert_endpoint (row p)) ps db)). er_id e' = i \<and> er_device_id e' = d"
  using assms
proof (induction ps arbitrary: db)
  case (Cons p ps)
  have "\<exists>e' \<in> set (db_endpoints (upsert_endpoint (row p) db)). er_id e' = i \<and> er_device_id e' = d"
  proof -
    from Cons.prems obtain e' where e': "e' \<in> set (db_endpoints db)" "er_id e' = i" "er_device_id e' = d" by blast
    show ?thesis
    proof (cases "er_id e' = er_id (row p)")
      case True
      with e' have "(row p)\<lparr>er_id := er_id e', er_device_id := er_device_id e'\<rparr> \<in> set (db_endpoints (upsert_endpoint (row p) db))"
      proof -
        let ?f = "\<lambda>q. (row p)\<lparr>er_id := er_id q, er_device_id := er_device_id q\<rparr>"
        have "?f e' \<in> (\<lambda>q. if er_id q = er_id (row p) then ?f q else q) ` set (db_endpoints db)"
          using e'(1) True by (intro image_eqI [of _ _ e']) simp_all
        moreover have "er_id (row p) \<in> er_id ` set (db_endpoints db)" using e'(1) True by (intro image_eqI [of _ _ e']) simp_all
        ultimately show ?thesis unfolding upsert_endpoint_def update_where_def by simp
      qed
      then show ?thesis by (rule bexI [rotated]) (simp add: e')
    next
      case False
      with e' upsert_endpoint_keeps show ?thesis by blast
    qed
  qed
  with Cons.IH show ?case by simp
qed simp

lemma endpoint_row_kept:
  assumes "control_step_at env a b" and "e \<in> set (db_endpoints a)" and "valid_at (ce_now env) e"
  shows "\<exists>e' \<in> set (db_endpoints b). er_id e' = er_id e \<and> er_device_id e' = er_device_id e"
proof -
  have beat: "\<exists>e' \<in> set (db_endpoints (heartbeat_commit_phase env rq a)). er_id e' = er_id e \<and> er_device_id e' = er_device_id e" for rq
    unfolding heartbeat_commit_phase_def Let_def
    by (rule upserts_keep) (use assms(2,3) in \<open>auto simp: delete_expired_endpoints_def valid_at_def intro!: bexI [of _ e] split: option.splits\<close>)
  have same: "db_endpoints b = db_endpoints a \<Longrightarrow> ?thesis" using assms(2) by auto
  have create: "db_endpoints (snd (create_auth_key env a)) = db_endpoints a"
    by (simp add: create_auth_key_def insert_auth_key_def Let_def)
  have register: "db_endpoints (snd (register_device env rq a)) = db_endpoints a" for rq
    using register_device_db [of env rq a] register_commit_frame by fastforce
  from assms(1) show ?thesis
    using same create register register_commit_frame beat
    by (auto elim!: control_step_atE simp: delete_device_frame rename_device_frame heartbeat_def Let_def split: sum.splits)
qed

text \<open>
  The row of an endpoint \<open>e\<close> is still about that endpoint, and has not expired at the time \<open>now\<close>. The
  identifier of a row is a hash of the endpoint, so the first part says that the hash had no collision;
  the second, that no later report of the same endpoint made it expire earlier.
\<close>

definition undisturbed :: "string \<Rightarrow> endpoint_row \<Rightarrow> database \<Rightarrow> bool" where
  "undisturbed now e db \<longleftrightarrow> (\<forall>e' \<in> set (db_endpoints db). er_id e' = er_id e \<longrightarrow>
     payload_target (endpoint_payload_of e') = payload_target (endpoint_payload_of e) \<and> valid_at now e')"

lemma endpoint_row_run:
  assumes "R\<^sup>*\<^sup>* db db'" and "e \<in> set (db_endpoints db)" and "Q e"
    and "\<And>a b. R a b \<Longrightarrow> (\<exists>env. control_step_at env a b \<and> (\<forall>e'. Q e' \<longrightarrow> valid_at (ce_now env) e')) \<and>
      (\<forall>e' \<in> set (db_endpoints b). er_id e' = er_id e \<longrightarrow> Q e')"
  shows "\<exists>e' \<in> set (db_endpoints db'). er_device_id e' = er_device_id e \<and> Q e'"
proof -
  have "\<exists>e' \<in> set (db_endpoints db'). er_id e' = er_id e \<and> er_device_id e' = er_device_id e \<and> Q e'"
    using assms(1)
  proof (induction rule: rtranclp_induct)
    case (step a b)
    then obtain e' where e': "e' \<in> set (db_endpoints a)" "er_device_id e' = er_device_id e" "er_id e' = er_id e" "Q e'" by blast
    from assms(4) [OF step(2)] obtain env where env: "control_step_at env a b" "\<forall>e'. Q e' \<longrightarrow> valid_at (ce_now env) e'"
      and b: "\<forall>e' \<in> set (db_endpoints b). er_id e' = er_id e \<longrightarrow> Q e'" by blast
    from endpoint_row_kept [OF env(1) e'(1)] env(2) e'(4) have
      "\<exists>f \<in> set (db_endpoints b). er_id f = er_id e' \<and> er_device_id f = er_device_id e'" by simp
    with b e'(2,3) show ?case by auto
  qed (use assms(2,3) in blast)
  then show ?thesis by blast
qed

lemma row_in_map:
  assumes "e \<in> set (db_endpoints db)" and "valid_at (ce_now env) e"
    and "d \<in> set (db_devices db)" and "live d" and "dv_id d = er_device_id e"
    and "network_map env state d2 k2 db = Inr m" and "d2 \<noteq> er_device_id e"
  shows "\<exists>peer \<in> set (nm_peers m). nmp_device_id peer = er_device_id e \<and> endpoint_payload_of e \<in> set (nmp_endpoints peer)"
proof -
  have "endpoint_payload_of e \<in> set (nmp_endpoints (network_map_peer_of env db d))"
    using assms(1,2,5) by (auto simp: network_map_peer_of_def load_endpoints_def valid_at_def)
  moreover have "network_map_peer_of env db d \<in> set (nm_peers m)"
    using network_map_peer [OF assms(6,3,4)] assms(5,7) by simp
  moreover have "nmp_device_id (network_map_peer_of env db d) = er_device_id e" using assms(5) by (simp add: network_map_peer_of_def)
  ultimately show ?thesis by blast
qed

text \<open>
  C17. What a node reports is what its peers configure: when the control plane accepts a heartbeat, then in every later state, as long as the
  device is not deleted, the network map that any other device is given has the node as a
  peer with, for each endpoint of that heartbeat that has not expired by then, its own ones and the probed one, an
  entry that the other agent reads as the same endpoint: kind, IPv4 or IPv6 address, port and
  protocol. No request in between may have a later time than the map, bring another endpoint under the same hash or let this one expire before.
\<close>

theorem reported_endpoint_reaches_peers:
  assumes "heartbeat env request db = (Inr response, db0)" and "rows_apart env (hb_device_id request) (hb_endpoints request) db"
    and "p \<in> set (hb_endpoints request)" and "endpoint_to_config p = Inr ep" and "row = endpoint_row_of env (hb_device_id request) p"
    and "(\<lambda>a b. \<exists>env. ce_now env \<le> ce_now env' \<and> control_step_at env a b \<and> undisturbed (ce_now env') row b)\<^sup>*\<^sup>* db0 db'"
    and "valid_at (ce_now env') row"
    and "d \<in> set (db_devices db')" and "live d" and "dv_id d = hb_device_id request"
    and "network_map env' state d2 k2 db' = Inr m" and "d2 \<noteq> hb_device_id request"
  shows "\<exists>peer \<in> set (nm_peers m). nmp_device_id peer = hb_device_id request \<and>
    (\<exists>q \<in> set (nmp_endpoints peer). endpoint_to_config q = Inr ep)"
proof -
  let ?Q = "\<lambda>e'. payload_target (endpoint_payload_of e') = payload_target (endpoint_payload_of row) \<and> valid_at (ce_now env') e'"
  have device: "er_device_id row = hb_device_id request" by (simp add: assms(5))
  have stored: "row \<in> set (db_endpoints db0)" using heartbeat_stores [OF assms(1-3)] by (simp add: assms(5))
  obtain e' where e': "e' \<in> set (db_endpoints db')" "er_device_id e' = er_device_id row" "?Q e'"
  proof (atomize_elim, unfold Bex_def [symmetric], rule endpoint_row_run [OF assms(6) stored, where Q = ?Q])
    fix a b
    assume "\<exists>env. ce_now env \<le> ce_now env' \<and> control_step_at env a b \<and> undisturbed (ce_now env') row b"
    then obtain env where "ce_now env \<le> ce_now env'" "control_step_at env a b" "undisturbed (ce_now env') row b" by blast
    then show "(\<exists>env. control_step_at env a b \<and> (\<forall>e'. ?Q e' \<longrightarrow> valid_at (ce_now env) e')) \<and>
        (\<forall>e' \<in> set (db_endpoints b). er_id e' = er_id row \<longrightarrow> ?Q e')"
      by (auto simp: undisturbed_def valid_at_def split: option.splits)
  qed (use assms(7) in simp)
  have "payload_target (endpoint_payload_of row) = payload_target p"
    by (simp add: assms(5) payload_target_def endpoint_payload_of_def endpoint_row_of_def Let_def)
  with e'(3) have "endpoint_to_config (endpoint_payload_of e') = Inr ep"
    using endpoint_to_config_target [of "endpoint_payload_of e'" p] assms(4) by simp
  with row_in_map [OF e'(1) _ assms(8,9) _ assms(11)] e'(2,3) device assms(10,12) show ?thesis by auto
qed


text \<open>
  The agents probe exactly the address that the control plane's socket is bound to: when the control plane has
  started, every answer to a probe request names the socket's own address, and the agent that
  receives the answer sends its probe there. So a control plane that listens on all interfaces
  sends the agents to the unspecified address.
\<close>

theorem agents_probe_bound_address:
  assumes "control_serve migrations args h = (Inr (state, addr), h')"
    and "endpoint_probe state source request db = Inr response"
  shows "\<exists>listen bound. parse_socket_addr (sv_udp_probe_listen args) = Some listen \<and> sh_local_addr h listen = Inr bound \<and>
    udp_probe_server response = Inr (Some bound)"
proof -
  obtain listen where listen: "parse_socket_addr (sv_udp_probe_listen args) = Some listen"
    "sh_local_addr h listen = Inr (as_udp_probe_addr state)"
    using control_serve_Inr [OF assms(1)] by metis
  have "udp_probe_server response = Inr (Some (as_udp_probe_addr state))"
    using assms(2) by (cases "as_udp_probe_addr state")
      (auto simp: endpoint_probe_def and_then_def udp_probe_server_def split: sum.splits if_splits)
  with listen show ?thesis by blast
qed

section \<open>A concrete exchange\<close>

definition demo_beat :: "endpoint list \<Rightarrow> heartbeat_request" where
  "demo_beat eps = \<lparr>hb_device_id = ''dev_a0'', hb_node_key = ''node_a1'', hb_endpoints = map endpoint_to_payload eps,
     hb_backend_status = \<lparr>bsp_backend_type = ''tfscale'', bsp_interface = ''tfscale0'', bsp_healthy = False\<rparr>\<rparr>"

definition demo_local_endpoint :: endpoint where
  "demo_local_endpoint = \<lparr>ep_kind = Lan, ep_address = V4 (Ipv4Addr 10 0 0 7), ep_port = 7, ep_protocol = Udp\<rparr>"

definition demo_public_endpoint :: endpoint where
  "demo_public_endpoint = \<lparr>ep_kind = Public, ep_address = V4 (Ipv4Addr 23 0 0 9), ep_port = 7, ep_protocol = Udp\<rparr>"

text \<open>A heartbeat as the agent sends it, with its own endpoint and the probed one; then another device reports, too.\<close>

definition demo_full_beat :: heartbeat_request where
  "demo_full_beat = (demo_beat [demo_local_endpoint])\<lparr>hb_endpoints :=
     [endpoint_to_payload demo_local_endpoint, endpoint_from_backend_probe demo_public_endpoint]\<rparr>"

definition demo_full_report :: database where
  "demo_full_report = snd (heartbeat (demo_control_env ''h'') demo_full_beat demo_two_devices)"

definition demo_later_report :: database where
  "demo_later_report = snd (heartbeat (demo_control_env ''i'') ((demo_beat [])\<lparr>hb_device_id := ''dev_b0'', hb_node_key := ''node_b1''\<rparr>) demo_full_report)"

abbreviation demo_public_row :: endpoint_row where
  "demo_public_row \<equiv> endpoint_row_of (demo_control_env ''h'') ''dev_a0'' (endpoint_from_backend_probe demo_public_endpoint)"

abbreviation demo_local_row :: endpoint_row where
  "demo_local_row \<equiv> endpoint_row_of (demo_control_env ''h'') ''dev_a0'' (endpoint_to_payload demo_local_endpoint)"

text \<open>A device that can authenticate gets a map, and a heartbeat changes nobody's credentials.\<close>

lemma network_map_answers: "validate_device_node_key d k db = Inr () \<Longrightarrow> \<exists>m. network_map env state d k db = Inr m"
  by (force simp: network_map_def validate_device_node_key_def and_then_def find_None_iff find_Some_iff split: option.splits
      dest!: nth_mem)

lemma heartbeat_validate: "validate_device_node_key d k (snd (heartbeat env request db)) = validate_device_node_key d k db"
proof -
  have find_upd: "find P (update_where Q f xs) = map_option (\<lambda>x. if Q x then f x else x) (find P xs)"
    if "\<And>x. P (f x) = P x" for P Q f and xs :: "device_row list"
    using that by (induction xs) (auto simp: update_where_def)
  show ?thesis
    by (auto simp: validate_device_node_key_def heartbeat_def heartbeat_commit_phase_def Let_def upserts_devices delete_expired_endpoints_def find_upd split: sum.split option.split)
qed

lemma demo_credentials:
  "validate_device_node_key ''dev_a0'' ''node_a1'' demo_two_devices = Inr ()"
  "validate_device_node_key ''dev_b0'' ''node_b1'' demo_two_devices = Inr ()"
  by code_simp+

lemma demo_no_endpoints: "db_endpoints demo_two_devices = []"
  by code_simp

lemma demo_later_rows:
  "undisturbed (ce_now (demo_control_env ''c'')) demo_public_row demo_later_report"
  "valid_at (ce_now (demo_control_env ''c'')) demo_public_row"
  "er_expires_at demo_public_row \<noteq> None"
  by code_simp+

lemma demo_later_local:
  "\<forall>e' \<in> set (db_endpoints demo_later_report). er_id e' = er_id demo_local_row \<longrightarrow>
     payload_target (endpoint_payload_of e') = payload_target (endpoint_payload_of demo_local_row) \<and> er_expires_at e' = None"
  by code_simp

lemma demo_rows_apart:
  "er_id demo_local_row \<noteq> er_id demo_public_row"
  by code_simp

lemma demo_device_stays: "\<exists>d \<in> set (db_devices demo_later_report). live d \<and> dv_id d = ''dev_a0''"
  by code_simp

lemma demo_full_exchange:
  obtains response m where "heartbeat (demo_control_env ''h'') demo_full_beat demo_two_devices = (Inr response, demo_full_report)"
    and "network_map (demo_control_env ''c'') demo_app ''dev_b0'' ''node_b1'' demo_later_report = Inr m"
    and "rows_apart (demo_control_env ''h'') ''dev_a0'' (hb_endpoints demo_full_beat) demo_two_devices"
    and "demo_local_row \<in> set (db_endpoints demo_full_report)"
proof -
  obtain response where beat: "heartbeat (demo_control_env ''h'') demo_full_beat demo_two_devices = (Inr response, demo_full_report)"
    using demo_credentials(1) by (simp add: demo_full_report_def) (simp add: heartbeat_def demo_full_beat_def demo_beat_def Let_def)
  have "validate_device_node_key ''dev_b0'' ''node_b1'' demo_later_report = Inr ()"
    using demo_credentials(2) by (simp add: demo_later_report_def demo_full_report_def heartbeat_validate)
  then obtain m where m: "network_map (demo_control_env ''c'') demo_app ''dev_b0'' ''node_b1'' demo_later_report = Inr m"
    using network_map_answers by blast
  have apart: "rows_apart (demo_control_env ''h'') ''dev_a0'' (hb_endpoints demo_full_beat) demo_two_devices"
    using demo_rows_apart by (auto simp: rows_apart_def demo_no_endpoints demo_full_beat_def)
  with heartbeat_stores [OF beat, of "endpoint_to_payload demo_local_endpoint"] have "demo_local_row \<in> set (db_endpoints demo_full_report)"
    by (simp add: demo_full_beat_def demo_beat_def)
  with beat m apart that show thesis by blast
qed

theorem reported_endpoint_reaches_peers_witness:
  "\<exists>m peer q. network_map (demo_control_env ''c'') demo_app ''dev_b0'' ''node_b1'' demo_later_report = Inr m \<and> peer \<in> set (nm_peers m) \<and>
     nmp_device_id peer = ''dev_a0'' \<and> q \<in> set (nmp_endpoints peer) \<and> endpoint_to_config q = Inr demo_public_endpoint"
proof -
  obtain response m where beat: "heartbeat (demo_control_env ''h'') demo_full_beat demo_two_devices = (Inr response, demo_full_report)"
    and m: "network_map (demo_control_env ''c'') demo_app ''dev_b0'' ''node_b1'' demo_later_report = Inr m"
    and apart: "rows_apart (demo_control_env ''h'') ''dev_a0'' (hb_endpoints demo_full_beat) demo_two_devices" by (rule demo_full_exchange)
  obtain d where d: "d \<in> set (db_devices demo_later_report)" "live d" "dv_id d = ''dev_a0''" using demo_device_stays by blast
  have id: "hb_device_id demo_full_beat = ''dev_a0''" by (simp add: demo_full_beat_def demo_beat_def)
  have run: "(\<lambda>a b. \<exists>env. ce_now env \<le> ce_now (demo_control_env ''c'') \<and> control_step_at env a b \<and>
      undisturbed (ce_now (demo_control_env ''c'')) demo_public_row b)\<^sup>*\<^sup>* demo_full_report demo_later_report"
    by (rule r_into_rtranclp, rule exI [of _ "demo_control_env ''i''"])
      (use demo_later_rows(1) control_step_at.intros(6) in \<open>simp add: demo_later_report_def demo_control_env_def\<close>)
  have mem: "endpoint_from_backend_probe demo_public_endpoint \<in> set (hb_endpoints demo_full_beat)" by (simp add: demo_full_beat_def)
  from reported_endpoint_reaches_peers [OF beat _ mem endpoint_payload_roundtrip(2) _ _ demo_later_rows(2) d(1,2) _ m] apart run d(3)
  show ?thesis using m by (auto simp: id)
qed


text \<open>A control plane on all interfaces.\<close>

definition demo_server_host :: server_host where
  "demo_server_host = \<lparr>sh_connect = (\<lambda>_. None), sh_sqlite = demo_sqlite None, sh_schema = schema_empty, sh_bind_udp = (\<lambda>_. None),
     sh_local_addr = Inr, sh_bind_tcp = (\<lambda>_. None)\<rparr>"

theorem agents_probe_bound_address_witness:
  "\<exists>response. endpoint_probe \<lparr>as_udp_probe_addr = \<lparr>sa_ip = V4 (Ipv4Addr 0 0 0 0), sa_port = 3478\<rparr>, as_relays = []\<rparr> \<lparr>sa_ip = V4 (Ipv4Addr 203 0 113 9), sa_port = 50000\<rparr>
       \<lparr>epq_device_id = ''dev_a0'', epq_node_key = ''node_a1'', epq_protocol = ''udp''\<rparr> demo_two_devices = Inr response \<and>
     udp_probe_server response = Inr (Some \<lparr>sa_ip = V4 (Ipv4Addr 0 0 0 0), sa_port = 3478\<rparr>)"
proof -
  let ?any = "\<lparr>sa_ip = V4 (Ipv4Addr 0 0 0 0), sa_port = 3478\<rparr>"
  let ?state = "\<lparr>as_udp_probe_addr = ?any, as_relays = []\<rparr>"
  let ?rq = "\<lparr>epq_device_id = ''dev_a0'', epq_node_key = ''node_a1'', epq_protocol = ''udp''\<rparr>"
  let ?args = "control_serve_args None (Some (socket_addr_to_string ?any)) (Some (socket_addr_to_string ?any)) []"
  obtain response where probe: "endpoint_probe ?state \<lparr>sa_ip = V4 (Ipv4Addr 203 0 113 9), sa_port = 50000\<rparr> ?rq demo_two_devices = Inr response"
    by (simp add: endpoint_probe_def demo_credentials)
  obtain h' where "control_serve [] ?args demo_server_host = (Inr (?state, ?any), h')"
    by (simp add: control_serve_def demo_server_host_def control_serve_args_def parse_socket_addr_print init_schema_def sql_execute_def
        demo_sqlite_def relay_metadata_from_urls_def)
  from agents_probe_bound_address [OF this probe] show ?thesis
    using probe by (auto simp: demo_server_host_def control_serve_args_def parse_socket_addr_print)
qed

end
