(* ===== verification/Control_Statements.thy ===== *)
theory Control_Statements
  imports Control_Http
begin

text \<open>
  The handlers of \<open>tfscale-control/src/main.rs\<close> one statement at a time. Every \<open>.await?\<close> on the pool
  or on a transaction is a call that can fail with an error of sqlx, which ends the handler with
  500 and drops its open transaction; and between two calls outside a transaction other requests can
  commit. The theory shows that a failing request changes nothing or everything, that without
  failures and other requests the handlers are those of \<open>Control_Server\<close>, and that at this
  granularity requests still amount to steps of \<open>control_step\<close>.
\<close>

section \<open>The pool as one request sees it\<close>

record pool =
  pl_db :: database              \<comment> \<open>what is committed\<close>
  pl_tx :: "database option"     \<comment> \<open>what the open transaction of the request sees\<close>
  pl_calls :: nat

text \<open>
  \<open>sw_error n\<close> is the error of the \<open>n\<close>-th call, if it fails; \<open>sw_others n\<close> is what other requests
  commit before it.
\<close>

record sql_world =
  sw_error :: "nat \<Rightarrow> string option"
  sw_others :: "nat \<Rightarrow> database \<Rightarrow> database"

type_synonym 'a sql_prog = "sql_world \<Rightarrow> pool \<Rightarrow> 'a api_result \<times> pool"

definition sql_return :: "'a api_result \<Rightarrow> 'a sql_prog" where
  "sql_return r w p = (r, p)"

definition sql_bind :: "'a sql_prog \<Rightarrow> ('a \<Rightarrow> 'b sql_prog) \<Rightarrow> 'b sql_prog" where
  "sql_bind m k w p = (case m w p of (Inl e, p') \<Rightarrow> (Inl e, p') | (Inr x, p') \<Rightarrow> k x w p')"

text \<open>One call: what it would do to the pool is applied unless it fails (\<open>From<sqlx::Error>\<close>).\<close>

definition sql_call :: "(pool \<Rightarrow> 'a api_result \<times> pool) \<Rightarrow> 'a sql_prog" where
  "sql_call act w p =
     (let n = pl_calls p;
          p = p\<lparr>pl_calls := Suc n, pl_db := (if pl_tx p = None then sw_others w n (pl_db p) else pl_db p)\<rparr>
      in case sw_error w n of Some message \<Rightarrow> (Inl (internal message), p) | None \<Rightarrow> act p)"

text \<open>A statement on the open transaction, or on the pool: then it commits by itself.\<close>

definition sql_statement :: "(database \<Rightarrow> ('a \<times> database) api_result) \<Rightarrow> 'a sql_prog" where
  "sql_statement stmt =
     sql_call (\<lambda>p. case stmt (case pl_tx p of Some db \<Rightarrow> db | None \<Rightarrow> pl_db p) of
        Inl e \<Rightarrow> (Inl e, p)
      | Inr (x, db) \<Rightarrow> (Inr x, if pl_tx p = None then p\<lparr>pl_db := db\<rparr> else p\<lparr>pl_tx := Some db\<rparr>))"

definition sql_fetch :: "(database \<Rightarrow> 'a) \<Rightarrow> 'a sql_prog" where
  "sql_fetch f = sql_statement (\<lambda>db. Inr (f db, db))"

definition sql_run :: "(database \<Rightarrow> database api_result) \<Rightarrow> unit sql_prog" where
  "sql_run f = sql_statement (\<lambda>db. and_then (f db) (\<lambda>db'. Inr ((), db')))"

definition sql_begin :: "unit sql_prog" where
  "sql_begin = sql_call (\<lambda>p. (Inr (), p\<lparr>pl_tx := Some (pl_db p)\<rparr>))"

definition sql_commit :: "unit sql_prog" where
  "sql_commit = sql_call (\<lambda>p. (Inr (), case pl_tx p of Some db \<Rightarrow> p\<lparr>pl_db := db, pl_tx := None\<rparr> | None \<Rightarrow> p))"

text \<open>From \<open>pool.begin()\<close> to \<open>tx.commit()\<close>; a transaction dropped before its commit is rolled back.\<close>

definition sql_transaction :: "'a sql_prog \<Rightarrow> 'a sql_prog" where
  "sql_transaction body w p =
     (let (r, p') = sql_bind sql_begin (\<lambda>_. sql_bind body (\<lambda>x. sql_bind sql_commit (\<lambda>_. sql_return (Inr x)))) w p
      in (r, p'\<lparr>pl_tx := None\<rparr>))"

fun sql_for :: "'a list \<Rightarrow> ('a \<Rightarrow> 'b sql_prog) \<Rightarrow> 'b list sql_prog" where
  "sql_for [] f = sql_return (Inr [])"
| "sql_for (x # xs) f = sql_bind (f x) (\<lambda>y. sql_bind (sql_for xs f) (\<lambda>ys. sql_return (Inr (y # ys))))"

section \<open>Administration\<close>

definition create_auth_key_sql :: "control_env \<Rightarrow> create_auth_key_response sql_prog" where
  "create_auth_key_sql env =
     (let key_id = ''ak_'' @ ce_uuid env 0; key = ''tfk_'' @ ce_uuid env 1 in
      sql_bind (sql_run (insert_auth_key env key_id (hash_secret env key))) (\<lambda>_.
        sql_return (Inr \<lparr>ak_id = key_id, ak_key = key\<rparr>)))"

definition list_devices_sql :: "device_summary list sql_prog" where
  "list_devices_sql = sql_fetch list_devices"

definition list_dns_records_sql :: "dns_record list sql_prog" where
  "list_dns_records_sql = sql_fetch list_dns_records"

text \<open>\<open>UPDATE devices SET .. WHERE id = ? AND deleted_at IS NULL\<close>, with the number of rows affected.\<close>

definition update_live_device :: "string \<Rightarrow> (device_row \<Rightarrow> device_row) \<Rightarrow> nat sql_prog" where
  "update_live_device device_id f =
     sql_statement (\<lambda>db. let hit = (\<lambda>d. dv_id d = device_id \<and> live d) in
       Inr (length (filter hit (db_devices db)), db\<lparr>db_devices := update_where hit f (db_devices db)\<rparr>))"

definition delete_device_sql :: "control_env \<Rightarrow> string \<Rightarrow> unit sql_prog" where
  "delete_device_sql env device_id =
     sql_transaction
       (sql_bind (update_live_device device_id (\<lambda>d. d\<lparr>dv_deleted_at := Some (ce_now env), dv_updated_at := ce_now env\<rparr>))
         (\<lambda>rows_affected.
           if rows_affected = 0 then sql_return (Inl (not_found ''device not found''))
           else sql_run (\<lambda>db. Inr (db\<lparr>db_dns := filter (\<lambda>r. dn_device_id r \<noteq> device_id) (db_dns db)\<rparr>))))"

definition load_device_summary_sql :: "string \<Rightarrow> device_summary sql_prog" where
  "load_device_summary_sql device_id =
     sql_statement (\<lambda>db. and_then (load_device_summary device_id db) (\<lambda>summary. Inr (summary, db)))"

section \<open>Names\<close>

definition dns_name_available_sql :: "string \<Rightarrow> string \<Rightarrow> string \<Rightarrow> bool sql_prog" where
  "dns_name_available_sql network_id device_id name = sql_fetch (dns_name_available network_id device_id name)"

text \<open>The first candidate that is free, asking for one after the other.\<close>

fun first_available_sql :: "string \<Rightarrow> string \<Rightarrow> string list \<Rightarrow> string sql_prog" where
  "first_available_sql network_id device_id [] =
     sql_return (Inl (conflict ''could not allocate unique DNS name for hostname''))"
| "first_available_sql network_id device_id (name # names) =
     sql_bind (dns_name_available_sql network_id device_id name) (\<lambda>free.
       if free then sql_return (Inr name) else first_available_sql network_id device_id names)"

definition available_dns_name_sql :: "string \<Rightarrow> string \<Rightarrow> string \<Rightarrow> string sql_prog" where
  "available_dns_name_sql network_id device_id hostname =
     first_available_sql network_id device_id (dns_candidates device_id hostname)"

lemma available_dns_name_sql_code [code]:
  "available_dns_name_sql network_id device_id hostname =
     sql_bind (dns_name_available_sql network_id device_id (dns_name hostname)) (\<lambda>free.
       if free then sql_return (Inr (dns_name hostname))
       else first_available_sql network_id device_id (tl (dns_candidates device_id hostname)))"
proof -
  have "dns_candidates device_id hostname = dns_name hostname # tl (dns_candidates device_id hostname)"
    unfolding dns_candidates_def Let_def by (simp only: list.sel)
  then show ?thesis unfolding available_dns_name_sql_def by (metis first_available_sql.simps(2))
qed

definition upsert_device_dns_record_sql :: "control_env \<Rightarrow> string \<Rightarrow> string \<Rightarrow> string \<Rightarrow> string \<Rightarrow> string \<Rightarrow> unit sql_prog" where
  "upsert_device_dns_record_sql env uuid network_id device_id hostname ipv4 =
     sql_bind (available_dns_name_sql network_id device_id hostname) (\<lambda>name.
       sql_run (upsert_dns env \<lparr>dn_id = ''dns_'' @ uuid, dn_network_id = network_id, dn_device_id = device_id,
         dn_name = name, dn_type = ''A'', dn_value = ipv4, dn_updated_at = ce_now env\<rparr>))"

definition rename_commit_sql :: "control_env \<Rightarrow> string \<Rightarrow> string \<Rightarrow> unit sql_prog" where
  "rename_commit_sql env device_id hostname =
     sql_transaction
       (sql_bind (update_live_device device_id (\<lambda>d. d\<lparr>dv_hostname := hostname, dv_updated_at := ce_now env\<rparr>))
         (\<lambda>rows_affected.
           if rows_affected = 0 then sql_return (Inl (not_found ''device not found''))
           else sql_bind (load_device_summary_sql device_id) (\<lambda>device.
             upsert_device_dns_record_sql env (ce_uuid env 0) ''net_default'' (ds_id device) (ds_hostname device)
               (ds_ipv4 device))))"

definition rename_device_sql :: "control_env \<Rightarrow> string \<Rightarrow> rename_device_request \<Rightarrow> device_summary sql_prog" where
  "rename_device_sql env device_id request =
     sql_bind (sql_return (normalize_hostname (rn_hostname request))) (\<lambda>hostname.
     sql_bind (rename_commit_sql env device_id hostname) (\<lambda>_.
       load_device_summary_sql device_id))"

section \<open>Registration and agents\<close>

definition insert_allocation :: "control_env \<Rightarrow> string \<Rightarrow> string \<Rightarrow> database \<Rightarrow> database api_result" where
  "insert_allocation env device_id ipv4 =
     insert_ip \<lparr>ia_id = ''ip_'' @ ce_uuid env 3, ia_network_id = ''net_default'', ia_device_id = device_id,
       ia_ip = ipv4, ia_state = ''assigned''\<rparr>"

definition register_commit_sql ::
  "control_env \<Rightarrow> register_device_request \<Rightarrow> string \<Rightarrow> string \<Rightarrow> register_device_response sql_prog" where
  "register_commit_sql env request hostname ipv4 =
     (let row = new_device_row env request hostname ipv4 in
      sql_transaction
        (sql_bind (sql_run (insert_device row)) (\<lambda>_.
         sql_bind (upsert_device_dns_record_sql env (ce_uuid env 2) ''net_default'' (dv_id row) hostname ipv4) (\<lambda>_.
         sql_bind (sql_run (insert_allocation env (dv_id row) ipv4)) (\<lambda>_.
         sql_bind (sql_run (\<lambda>db. Inr (mark_key_used env (hash_secret env (rq_auth_key request)) db))) (\<lambda>_.
           sql_return (Inr \<lparr>rr_device_id = dv_id row, rr_node_key = dv_node_key row, rr_ipv4 = ipv4,
             rr_network_id = ''net_default'', rr_poll_interval_seconds = 5\<rparr>)))))))"

definition register_device_sql :: "control_env \<Rightarrow> register_device_request \<Rightarrow> register_device_response sql_prog" where
  "register_device_sql env request =
     sql_bind (sql_fetch (find_existing_device (rq_machine_key request))) (\<lambda>existing.
     case existing of
       Some response \<Rightarrow> sql_return (Inr response)
     | None \<Rightarrow>
         sql_bind (sql_statement (\<lambda>db. and_then (validate_auth_key env (rq_auth_key request) db) (\<lambda>_. Inr ((), db)))) (\<lambda>_.
         sql_bind (sql_return (normalize_hostname (rq_hostname request))) (\<lambda>hostname.
         sql_bind (sql_statement (\<lambda>db. and_then (allocate_ipv4 db) (\<lambda>ipv4. Inr (ipv4, db)))) (\<lambda>ipv4.
           register_commit_sql env request hostname ipv4))))"

definition validate_device_node_key_sql :: "string \<Rightarrow> string \<Rightarrow> unit sql_prog" where
  "validate_device_node_key_sql device_id node_key =
     sql_statement (\<lambda>db. and_then (validate_device_node_key device_id node_key db) (\<lambda>_. Inr ((), db)))"

text \<open>Six queries, each of which may see another state of the database.\<close>

definition network_map_version_sql :: "control_env \<Rightarrow> int sql_prog" where
  "network_map_version_sql env =
     sql_bind (sql_fetch (\<lambda>db. int (length (filter live (db_devices db))))) (\<lambda>device_count.
     sql_bind (sql_fetch (\<lambda>db. epoch_sum env (map dv_updated_at (filter live (db_devices db))))) (\<lambda>device_timestamp_sum.
     sql_bind (sql_fetch (\<lambda>db. int (length (db_endpoints db)))) (\<lambda>endpoint_count.
     sql_bind (sql_fetch (\<lambda>db. epoch_sum env (map er_last_seen_at (db_endpoints db)))) (\<lambda>endpoint_timestamp_sum.
     sql_bind (sql_fetch (\<lambda>db. int (length (db_dns db)))) (\<lambda>dns_record_count.
     sql_bind (sql_fetch (\<lambda>db. epoch_sum env (map dn_updated_at (db_dns db)))) (\<lambda>dns_record_timestamp_sum.
       sql_return (Inr (device_count + device_timestamp_sum + endpoint_count + endpoint_timestamp_sum +
         dns_record_count + dns_record_timestamp_sum))))))))"

definition heartbeat_sql :: "control_env \<Rightarrow> heartbeat_request \<Rightarrow> heartbeat_response sql_prog" where
  "heartbeat_sql env request =
     (let device_id = hb_device_id request in
      sql_bind (validate_device_node_key_sql device_id (hb_node_key request)) (\<lambda>_.
      sql_bind (sql_transaction
        (sql_bind (update_live_device device_id
            (\<lambda>d. d\<lparr>dv_last_seen_at := Some (ce_now env), dv_updated_at := ce_now env\<rparr>)) (\<lambda>_.
         sql_bind (sql_run (\<lambda>db. Inr (delete_expired_endpoints env device_id db))) (\<lambda>_.
           sql_for (hb_endpoints request) (\<lambda>ep.
             sql_run (\<lambda>db. Inr (upsert_endpoint (endpoint_row_of env device_id ep) db))))))) (\<lambda>_.
      sql_bind (network_map_version_sql env) (\<lambda>version.
        sql_return (Inr \<lparr>hbr_ok = True, hbr_network_map_version = version\<rparr>)))))"

definition endpoint_probe_sql :: "app_state \<Rightarrow> socket_addr \<Rightarrow> endpoint_probe_request \<Rightarrow> endpoint_probe_response sql_prog" where
  "endpoint_probe_sql state addr request =
     sql_bind (validate_device_node_key_sql (epq_device_id request) (epq_node_key request)) (\<lambda>_.
       sql_return
         (if epq_protocol request \<noteq> ''udp'' then Inl (bad_request ''only udp endpoint probing is supported'')
          else Inr \<lparr>epr_observed_address = ip_to_string (sa_ip addr), epr_observed_port = sa_port addr,
                    epr_protocol = epq_protocol request,
                    epr_udp_probe_address = Some (ip_to_string (sa_ip (as_udp_probe_addr state))),
                    epr_udp_probe_port = Some (sa_port (as_udp_probe_addr state))\<rparr>))"

text \<open>\<open>fetch_one\<close> of the row of the device itself, and \<open>fetch_all\<close> of those of its peers.\<close>

definition self_row_sql :: "string \<Rightarrow> device_row sql_prog" where
  "self_row_sql device_id =
     sql_statement (\<lambda>db. case find (\<lambda>d. dv_id d = device_id \<and> live d) (db_devices db) of
        None \<Rightarrow> Inl (internal ''no rows returned by a query that expected to return at least one row'')
      | Some row \<Rightarrow> Inr (row, db))"

definition peer_rows_sql :: "string \<Rightarrow> device_row list sql_prog" where
  "peer_rows_sql device_id =
     sql_fetch (\<lambda>db. sort_key dv_hostname (filter (\<lambda>d. dv_id d \<noteq> device_id \<and> live d) (db_devices db)))"

definition network_map_sql :: "control_env \<Rightarrow> app_state \<Rightarrow> string \<Rightarrow> string \<Rightarrow> network_map_response sql_prog" where
  "network_map_sql env state device_id node_key =
     sql_bind (validate_device_node_key_sql device_id node_key) (\<lambda>_.
     sql_bind (self_row_sql device_id) (\<lambda>self.
     sql_bind (peer_rows_sql device_id) (\<lambda>rows.
     sql_bind (sql_for rows (\<lambda>d. sql_fetch (\<lambda>db. network_map_peer_of env db d))) (\<lambda>peers.
     sql_bind (network_map_version_sql env) (\<lambda>version.
     sql_bind (sql_fetch load_dns_records) (\<lambda>dns_records.
       sql_return (Inr \<lparr>nm_version = version,
         nm_self_device = \<lparr>nms_device_id = dv_id self, nms_hostname = dv_hostname self,
           nms_ipv4 = dv_ipv4 self, nms_backend_type = dv_backend_type self\<rparr>,
         nm_peers = peers, nm_dns_records = dns_records, nm_relays = as_relays state\<rparr>)))))))"

definition statement_handlers :: "sql_world \<Rightarrow> control_env \<Rightarrow> app_state \<Rightarrow> socket_addr \<Rightarrow> pool control_handlers" where
  "statement_handlers w env state addr =
     \<lparr>ch_create_auth_key = create_auth_key_sql env w,
      ch_list_devices = list_devices_sql w,
      ch_list_dns_records = list_dns_records_sql w,
      ch_list_relays = list_relays state,
      ch_delete_device = (\<lambda>device_id. delete_device_sql env device_id w),
      ch_rename_device = (\<lambda>device_id request. rename_device_sql env device_id request w),
      ch_register_device = (\<lambda>request. register_device_sql env request w),
      ch_heartbeat = (\<lambda>request. heartbeat_sql env request w),
      ch_network_map = (\<lambda>device_id node_key. network_map_sql env state device_id node_key w),
      ch_endpoint_probe = (\<lambda>request. endpoint_probe_sql state addr request w)\<rparr>"

definition control_http_sql ::
  "'j http_codec \<Rightarrow> sql_world \<Rightarrow> control_env \<Rightarrow> app_state \<Rightarrow> socket_addr \<Rightarrow> 'j http_request \<Rightarrow> pool \<Rightarrow> 'j http_response \<times> pool" where
  "control_http_sql hc w env state addr = control_router hc (statement_handlers w env state addr)"

section \<open>Programs inside a transaction\<close>

definition failed :: "sql_world \<Rightarrow> 'a api_result \<Rightarrow> bool" where
  "failed w r \<longleftrightarrow> (\<exists>n message. sw_error w n = Some message \<and> r = Inl (internal message))"

text \<open>
  \<open>in_tx m f\<close>: with a transaction open, \<open>m\<close> does to what the transaction sees what \<open>f\<close> does, or
  fails, and in both cases leaves alone what is committed.
\<close>

definition in_tx :: "'a sql_prog \<Rightarrow> (database \<Rightarrow> ('a \<times> database) api_result) \<Rightarrow> bool" where
  "in_tx m f \<longleftrightarrow> (\<forall>w p db r p'. pl_tx p = Some db \<longrightarrow> m w p = (r, p') \<longrightarrow>
     pl_db p' = pl_db p \<and> pl_tx p' \<noteq> None \<and>
     (failed w r \<or> (case f db of Inl e \<Rightarrow> r = Inl e | Inr (x, db') \<Rightarrow> r = Inr x \<and> pl_tx p' = Some db')))"

named_theorems in_tx_intros

lemma in_txD:
  assumes "in_tx m f" and "pl_tx p = Some db" and "m w p = (r, p')"
  shows "pl_db p' = pl_db p" "pl_tx p' \<noteq> None"
    "failed w r \<or> (case f db of Inl e \<Rightarrow> r = Inl e | Inr (x, db') \<Rightarrow> r = Inr x \<and> pl_tx p' = Some db')"
  using assms unfolding in_tx_def by blast+

lemma failed_Inr [simp]: "\<not> failed w (Inr x)"
  by (simp add: failed_def)

lemma failed_Inl: "failed w (Inl e) \<longleftrightarrow> failed w (Inl e :: 'b api_result)"
  by (simp add: failed_def)

lemma in_tx_return [in_tx_intros]: "in_tx (sql_return r) (\<lambda>db. and_then r (\<lambda>x. Inr (x, db)))"
  by (auto simp: in_tx_def sql_return_def and_then_def split: sum.split)

lemma in_tx_statement [in_tx_intros]: "in_tx (sql_statement f) f"
  by (auto simp: in_tx_def sql_statement_def sql_call_def Let_def failed_def split: option.splits sum.splits prod.splits)

lemma in_tx_bind [in_tx_intros]:
  assumes m: "in_tx m f" and k: "\<And>x. in_tx (k x) (g x)"
  shows "in_tx (sql_bind m k) (\<lambda>db. and_then (f db) (\<lambda>(x, db'). g x db'))"
  unfolding in_tx_def
proof (intro allI impI)
  fix w p db r p' assume p: "pl_tx p = Some db" and run: "sql_bind m k w p = (r, p')"
  obtain r1 p1 where m1: "m w p = (r1, p1)" by fastforce
  note first = in_txD [OF m p m1]
  show "pl_db p' = pl_db p \<and> pl_tx p' \<noteq> None \<and>
    (failed w r \<or> (case and_then (f db) (\<lambda>(x, db'). g x db') of Inl e \<Rightarrow> r = Inl e | Inr (x, db') \<Rightarrow> r = Inr x \<and> pl_tx p' = Some db'))"
  proof (cases r1)
    case (Inl e)
    with run m1 have r: "r = Inl e" "p' = p1" by (simp_all add: sql_bind_def)
    with first Inl show ?thesis by (auto simp: failed_def split: sum.splits prod.splits)
  next
    case (Inr x)
    with run m1 have k1: "k x w p1 = (r, p')" by (simp add: sql_bind_def)
    from first(3) Inr obtain db1 where "f db = Inr (x, db1)" "pl_tx p1 = Some db1" by (auto split: sum.splits prod.splits)
    with in_txD [OF k, of p1 db1 x w r p'] k1 first(1) show ?thesis by simp
  qed
qed

lemma in_tx_fetch [in_tx_intros]: "in_tx (sql_fetch f) (\<lambda>db. Inr (f db, db))"
  unfolding sql_fetch_def by (rule in_tx_statement)

lemma in_tx_run [in_tx_intros]: "in_tx (sql_run f) (\<lambda>db. and_then (f db) (\<lambda>db'. Inr ((), db')))"
  unfolding sql_run_def by (rule in_tx_statement)

lemma in_tx_if [in_tx_intros]: "in_tx m f \<Longrightarrow> in_tx n g \<Longrightarrow> in_tx (if b then m else n) (if b then f else g)"
  by simp

lemma in_tx_cong: "in_tx m f \<Longrightarrow> (\<And>db. f db = g db) \<Longrightarrow> in_tx m g"
  by (simp add: in_tx_def)

lemma in_tx_for [in_tx_intros]:
  assumes "\<And>x. in_tx (f x) (\<lambda>db. Inr ((), g x db))"
  shows "in_tx (sql_for xs f) (\<lambda>db. Inr (map (\<lambda>_. ()) xs, fold g xs db))"
proof (induction xs)
  case (Cons x xs)
  show ?case unfolding sql_for.simps
    by (rule in_tx_cong [OF in_tx_bind [OF assms in_tx_bind [OF Cons in_tx_return]]]) simp
qed (simp add: in_tx_def sql_return_def)

lemma in_tx_update: "in_tx (update_live_device device_id f) (\<lambda>db. Inr (length (filter (\<lambda>d. dv_id d = device_id \<and> live d) (db_devices db)),
    db\<lparr>db_devices := update_where (\<lambda>d. dv_id d = device_id \<and> live d) f (db_devices db)\<rparr>))"
  unfolding update_live_device_def Let_def by (rule in_tx_statement)

lemma in_tx_available:
  "in_tx (first_available_sql network_id device_id names)
     (\<lambda>db. case find (\<lambda>name. dns_name_available network_id device_id name db) names of
        Some name \<Rightarrow> Inr (name, db)
      | None \<Rightarrow> Inl (conflict ''could not allocate unique DNS name for hostname''))"
proof (induction names)
  case Nil
  show ?case unfolding first_available_sql.simps by (rule in_tx_cong [OF in_tx_return]) simp
next
  case (Cons name names)
  show ?case unfolding first_available_sql.simps dns_name_available_sql_def
    by (rule in_tx_cong [OF in_tx_bind [OF in_tx_fetch in_tx_if [OF in_tx_return Cons]]]) simp
qed

lemma in_tx_upsert_record:
  "in_tx (upsert_device_dns_record_sql env uuid network_id device_id hostname ipv4)
     (\<lambda>db. and_then (upsert_device_dns_record env uuid network_id device_id hostname ipv4 db) (\<lambda>db'. Inr ((), db')))"
  unfolding upsert_device_dns_record_sql_def available_dns_name_sql_def
  by (rule in_tx_cong [OF in_tx_bind [OF in_tx_available in_tx_run]])
    (simp add: upsert_device_dns_record_def available_dns_name_def and_then_def split: option.split sum.split)

lemma in_tx_load_summary:
  "in_tx (load_device_summary_sql device_id) (\<lambda>db. and_then (load_device_summary device_id db) (\<lambda>summary. Inr (summary, db)))"
  unfolding load_device_summary_sql_def by (rule in_tx_statement)

section \<open>Programs on the pool, among other requests\<close>

text \<open>
  The other requests move the database along a relation \<open>R\<close>: equality when there are none,
  \<open>control_step\<^sup>*\<^sup>*\<close> for arbitrary ones. \<open>observes R m f\<close>: \<open>m\<close> changes nothing and returns what \<open>f\<close>
  reads from a state between its start and its end. \<open>moves R m\<close>: from start to end the database
  moved along \<open>R\<close>, and no transaction is left open.
\<close>

definition disturbed_by :: "(database \<Rightarrow> database \<Rightarrow> bool) \<Rightarrow> sql_world \<Rightarrow> bool" where
  "disturbed_by R w \<longleftrightarrow> (\<forall>n db. R db (sw_others w n db))"

definition observes :: "(database \<Rightarrow> database \<Rightarrow> bool) \<Rightarrow> 'a sql_prog \<Rightarrow> (database \<Rightarrow> 'a api_result) \<Rightarrow> bool" where
  "observes R m f \<longleftrightarrow> (\<forall>w p r p'. disturbed_by R w \<longrightarrow> pl_tx p = None \<longrightarrow> m w p = (r, p') \<longrightarrow>
     pl_tx p' = None \<and> R (pl_db p) (pl_db p') \<and> (failed w r \<or> r = f (pl_db p')))"

definition moves :: "(database \<Rightarrow> database \<Rightarrow> bool) \<Rightarrow> 'a sql_prog \<Rightarrow> bool" where
  "moves R m \<longleftrightarrow> (\<forall>w p r p'. disturbed_by R w \<longrightarrow> pl_tx p = None \<longrightarrow> m w p = (r, p') \<longrightarrow>
     pl_tx p' = None \<and> R (pl_db p) (pl_db p'))"

lemma observesD:
  assumes "observes R m f" and "disturbed_by R w" and "pl_tx p = None" and "m w p = (r, p')"
  shows "pl_tx p' = None" "R (pl_db p) (pl_db p')" "failed w r \<or> r = f (pl_db p')"
  using assms unfolding observes_def by blast+

lemma movesD:
  assumes "moves R m" and "disturbed_by R w" and "pl_tx p = None" and "m w p = (r, p')"
  shows "pl_tx p' = None" "R (pl_db p) (pl_db p')"
  using assms unfolding moves_def by blast+

lemma sql_commit_cases:
  assumes "sql_commit w p = (r, p')" and "pl_tx p = Some db"
  shows "failed w r \<and> pl_db p' = pl_db p \<or> r = Inr () \<and> pl_db p' = db"
  using assms by (auto simp: sql_commit_def sql_call_def Let_def failed_def split: option.splits)

locale interference =
  fixes R :: "database \<Rightarrow> database \<Rightarrow> bool"
  assumes still: "R db db"
    and onward: "R db db1 \<Longrightarrow> R db1 db2 \<Longrightarrow> R db db2"
begin

lemma observes_read: "observes R (sql_statement (\<lambda>db. and_then (f db) (\<lambda>x. Inr (x, db)))) f"
  by (auto simp: observes_def sql_statement_def sql_call_def Let_def failed_def disturbed_by_def and_then_def
      split: option.splits sum.splits)

lemma observes_check: "observes R (sql_statement (\<lambda>db. and_then (f db) (\<lambda>_. Inr ((), db)))) f"
  using observes_read [of f] by simp

lemma observes_fetch: "observes R (sql_fetch f) (\<lambda>db. Inr (f db))"
  unfolding sql_fetch_def using observes_read [of "\<lambda>db. Inr (f db)"] by simp

lemma observes_return: "observes R (sql_return r) (\<lambda>_. r)"
  by (auto simp: observes_def sql_return_def still)

lemma observes_moves: "observes R m f \<Longrightarrow> moves R m"
  unfolding observes_def moves_def by blast

lemma moves_bind:
  assumes m: "moves R m" and k: "\<And>x. moves R (k x)"
  shows "moves R (sql_bind m k)"
  unfolding moves_def
proof (intro allI impI)
  fix w p r p' assume w: "disturbed_by R w" and p: "pl_tx p = None" and run: "sql_bind m k w p = (r, p')"
  obtain r1 p1 where m1: "m w p = (r1, p1)" by fastforce
  note first = movesD [OF m w p m1]
  show "pl_tx p' = None \<and> R (pl_db p) (pl_db p')"
    using run m1 first movesD [OF k w first(1)] onward [OF first(2)]
    by (auto simp: sql_bind_def split: sum.splits)
qed

text \<open>After a read, the rest of the program may rely on what was read.\<close>

lemma moves_after:
  assumes m: "observes R m f"
    and k: "\<And>x w p1 r p'. disturbed_by R w \<Longrightarrow> pl_tx p1 = None \<Longrightarrow> f (pl_db p1) = Inr x \<Longrightarrow> k x w p1 = (r, p') \<Longrightarrow>
      pl_tx p' = None \<and> R (pl_db p1) (pl_db p')"
  shows "moves R (sql_bind m k)"
  unfolding moves_def
proof (intro allI impI)
  fix w p r p' assume w: "disturbed_by R w" and p: "pl_tx p = None" and run: "sql_bind m k w p = (r, p')"
  obtain r1 p1 where m1: "m w p = (r1, p1)" by fastforce
  note first = observesD [OF m w p m1]
  show "pl_tx p' = None \<and> R (pl_db p) (pl_db p')"
  proof (cases r1)
    case (Inl e)
    with run m1 first show ?thesis by (simp add: sql_bind_def)
  next
    case (Inr x)
    with run m1 have "k x w p1 = (r, p')" by (simp add: sql_bind_def)
    moreover have "f (pl_db p1) = Inr x" using first(3) Inr by simp
    ultimately show ?thesis using k [OF w first(1)] onward [OF first(2)] by blast
  qed
qed

lemma moves_for: "(\<And>x. moves R (f x)) \<Longrightarrow> moves R (sql_for xs f)"
  by (induction xs) (auto intro!: moves_bind observes_moves [OF observes_return])

text \<open>A transaction runs on one state of the database: it commits there what its body does, or nothing.\<close>

lemma transaction_atomic:
  assumes body: "in_tx body f" and w: "disturbed_by R w" and p: "pl_tx p = None"
    and run: "sql_transaction body w p = (r, p')"
  shows "pl_tx p' = None"
    and "\<exists>db. R (pl_db p) db \<and> (failed w r \<and> pl_db p' = db \<or> (r, pl_db p') = transaction f db)"
proof -
  show "pl_tx p' = None" using run by (auto simp: sql_transaction_def Let_def split: prod.splits)
  let ?rest = "\<lambda>x. sql_bind sql_commit (\<lambda>_. sql_return (Inr x))"
  let ?db = "sw_others w (pl_calls p) (pl_db p)"
  have R: "R (pl_db p) ?db" using w by (simp add: disturbed_by_def)
  obtain q where q: "sql_bind sql_begin (\<lambda>_. sql_bind body ?rest) w p = (r, q)" "p' = q\<lparr>pl_tx := None\<rparr>"
    using run by (auto simp: sql_transaction_def Let_def split: prod.splits)
  show "\<exists>db. R (pl_db p) db \<and> (failed w r \<and> pl_db p' = db \<or> (r, pl_db p') = transaction f db)"
  proof (cases "sw_error w (pl_calls p)")
    case (Some message)
    with q p have "failed w r" "pl_db p' = ?db"
      by (auto simp: sql_bind_def sql_begin_def sql_call_def Let_def failed_def)
    with R show ?thesis by blast
  next
    case None
    let ?p = "p\<lparr>pl_calls := Suc (pl_calls p), pl_db := ?db, pl_tx := Some ?db\<rparr>"
    from None q p have rest: "sql_bind body ?rest w ?p = (r, q)" by (simp add: sql_bind_def sql_begin_def sql_call_def Let_def)
    obtain r1 p1 where b: "body w ?p = (r1, p1)" by fastforce
    have b1: "pl_db p1 = ?db" and b2: "pl_tx p1 \<noteq> None"
      and b3: "failed w r1 \<or> (case f ?db of Inl e \<Rightarrow> r1 = Inl e | Inr (x, db') \<Rightarrow> r1 = Inr x \<and> pl_tx p1 = Some db')"
      using in_txD [OF body _ b, of ?db] by simp_all
    have "failed w r \<and> pl_db p' = ?db \<or> (r, pl_db p') = transaction f ?db"
    proof (cases r1)
      case (Inl e)
      with rest b q b1 have "r = Inl e" "pl_db p' = ?db" by (auto simp: sql_bind_def)
      with b3 Inl show ?thesis by (auto simp: failed_def transaction_def split: sum.splits prod.splits)
    next
      case (Inr x)
      with b3 obtain db' where f: "f ?db = Inr (x, db')" "pl_tx p1 = Some db'" by (auto split: sum.splits prod.splits)
      obtain r2 p2 where c: "sql_commit w p1 = (r2, p2)" by fastforce
      from rest b Inr c have "r = (case r2 of Inl e \<Rightarrow> Inl e | Inr _ \<Rightarrow> Inr x)" "q = p2"
        by (auto simp: sql_bind_def sql_return_def split: sum.splits)
      with sql_commit_cases [OF c f(2)] f(1) b1 q(2) show ?thesis by (fastforce simp: failed_def transaction_def)
    qed
    with R show ?thesis by blast
  qed
qed

lemma moves_transaction:
  assumes "in_tx body f" and "\<And>db. R db (snd (transaction f db))"
  shows "moves R (sql_transaction body)"
  unfolding moves_def
proof (intro allI impI conjI)
  fix w p r p' assume w: "disturbed_by R w" and p: "pl_tx p = None" and run: "sql_transaction body w p = (r, p')"
  show "pl_tx p' = None" by (rule transaction_atomic(1) [OF assms(1) w p run])
  from transaction_atomic(2) [OF assms(1) w p run] obtain db where db: "R (pl_db p) db"
    and cases: "failed w r \<and> pl_db p' = db \<or> (r, pl_db p') = transaction f db" by blast
  from cases show "R (pl_db p) (pl_db p')"
  proof
    assume "(r, pl_db p') = transaction f db"
    then show ?thesis using onward [OF db assms(2)] by (metis snd_conv)
  qed (use db in simp)
qed

lemma moves_statement:
  assumes "\<And>db. R db (snd (transaction f db))"
  shows "moves R (sql_statement f)"
  unfolding moves_def
proof (intro allI impI conjI)
  fix w p r p' assume w: "disturbed_by R w" and p: "pl_tx p = None" and run: "sql_statement f w p = (r, p')"
  let ?db = "sw_others w (pl_calls p) (pl_db p)"
  have "R (pl_db p) ?db" using w by (simp add: disturbed_by_def)
  then have "R (pl_db p) ?db" "R (pl_db p) (snd (transaction f ?db))" using onward assms by blast+
  with run p show "R (pl_db p) (pl_db p')" "pl_tx p' = None"
    by (auto simp: sql_statement_def sql_call_def transaction_def Let_def split: option.splits sum.splits)
qed

end

interpretation alone: interference "(=)"
  by unfold_locales simp_all

interpretation among_requests: interference "control_step\<^sup>*\<^sup>*"
  by unfold_locales simp_all

section \<open>Requests that run alone\<close>

text \<open>
  \<open>settles w db outcome expected\<close>: the outcome of a program on a pool that had \<open>db\<close> is the expected
  one, or a call failed and the database is either the old or the expected one. \<open>settles_as m f\<close>:
  \<open>m\<close>, run without other requests, settles as the handler \<open>f\<close>.
\<close>

definition settles :: "sql_world \<Rightarrow> database \<Rightarrow> 'a api_result \<times> pool \<Rightarrow> 'a api_result \<times> database \<Rightarrow> bool" where
  "settles w db outcome expected \<longleftrightarrow> pl_tx (snd outcome) = None \<and>
     ((fst outcome, pl_db (snd outcome)) = expected \<or>
      failed w (fst outcome) \<and> pl_db (snd outcome) \<in> {db, snd expected})"

definition settles_as :: "'a sql_prog \<Rightarrow> (database \<Rightarrow> 'a api_result \<times> database) \<Rightarrow> bool" where
  "settles_as m f \<longleftrightarrow> (\<forall>w p. disturbed_by (=) w \<longrightarrow> pl_tx p = None \<longrightarrow> settles w (pl_db p) (m w p) (f (pl_db p)))"

lemma settles_asD:
  assumes "settles_as m f" and "disturbed_by (=) w" and "pl_tx p = None" and "m w p = (r, p')"
  shows "pl_tx p' = None" "(r, pl_db p') = f (pl_db p) \<or> failed w r \<and> pl_db p' \<in> {pl_db p, snd (f (pl_db p))}"
proof -
  have "settles w (pl_db p) (r, p') (f (pl_db p))" using assms unfolding settles_as_def by metis
  then show "pl_tx p' = None" "(r, pl_db p') = f (pl_db p) \<or> failed w r \<and> pl_db p' \<in> {pl_db p, snd (f (pl_db p))}"
    by (simp_all add: settles_def)
qed

lemma settles_as_cong: "settles_as m f \<Longrightarrow> (\<And>db. f db = g db) \<Longrightarrow> settles_as m g"
  by (simp add: settles_as_def)

lemma observes_settles: "observes (=) m f \<Longrightarrow> settles_as m (\<lambda>db. (f db, db))"
  unfolding settles_as_def settles_def observes_def by (metis fst_conv snd_conv insertI1 surjective_pairing)

lemma observes_bind:
  assumes m: "observes (=) m f" and k: "\<And>x. observes (=) (k x) (g x)"
  shows "observes (=) (sql_bind m k) (\<lambda>db. and_then (f db) (\<lambda>x. g x db))"
  unfolding observes_def
proof (intro allI impI)
  fix w p r p' assume w: "disturbed_by (=) w" and p: "pl_tx p = None" and run: "sql_bind m k w p = (r, p')"
  obtain r1 p1 where m1: "m w p = (r1, p1)" by fastforce
  note first = observesD [OF m w p m1]
  show "pl_tx p' = None \<and> pl_db p = pl_db p' \<and> (failed w r \<or> r = and_then (f (pl_db p')) (\<lambda>x. g x (pl_db p')))"
  proof (cases r1)
    case (Inl e)
    with run m1 have "r = Inl e" "p' = p1" by (simp_all add: sql_bind_def)
    moreover have "failed w r1 = failed w r" using Inl calculation by (simp add: failed_def)
    moreover have "failed w r1 \<or> f (pl_db p1) = Inl e" using first(3) Inl by auto
    ultimately show ?thesis using first(1,2) by auto
  next
    case (Inr x)
    with run m1 have k1: "k x w p1 = (r, p')" by (simp add: sql_bind_def)
    have "f (pl_db p1) = Inr x" using first(3) Inr by simp
    with observesD [OF k w first(1) k1] first(2) show ?thesis by simp
  qed
qed

lemma observes_cong:
  assumes "observes R m f" and "\<And>db. f db = g db"
  shows "observes R m g"
proof -
  have "f = g" using assms(2) by (rule ext)
  with assms(1) show ?thesis by simp
qed

lemma observes_for:
  assumes "\<And>x. observes (=) (f x) (\<lambda>db. Inr (g x db))"
  shows "observes (=) (sql_for xs f) (\<lambda>db. Inr (map (\<lambda>x. g x db) xs))"
proof (induction xs)
  case (Cons x xs)
  show ?case unfolding sql_for.simps
    by (rule observes_cong [OF observes_bind [OF assms observes_bind [OF Cons alone.observes_return]]]) simp
next
  case Nil
  show ?case unfolding sql_for.simps list.map by (rule alone.observes_return)
qed

text \<open>Reads before a program that settles, and reads after it.\<close>

lemma settles_after_read:
  assumes m: "observes (=) m f" and k: "\<And>x. settles_as (k x) (g x)"
  shows "settles_as (sql_bind m k) (\<lambda>db. case f db of Inl e \<Rightarrow> (Inl e, db) | Inr x \<Rightarrow> g x db)"
  unfolding settles_as_def
proof (intro allI impI)
  fix w and p :: pool assume w: "disturbed_by (=) w" and p: "pl_tx p = None"
  obtain r1 p1 where m1: "m w p = (r1, p1)" by fastforce
  note first = observesD [OF m w p m1]
  show "settles w (pl_db p) (sql_bind m k w p) (case f (pl_db p) of Inl e \<Rightarrow> (Inl e, pl_db p) | Inr x \<Rightarrow> g x (pl_db p))"
  proof (cases r1)
    case (Inl e)
    then have "failed w r1 = failed w (Inl e :: 'b api_result)" "failed w r1 \<or> f (pl_db p1) = Inl e"
      using first(3) by (auto simp: failed_def)
    with Inl m1 first(1,2) show ?thesis by (auto simp: sql_bind_def settles_def)
  next
    case (Inr x)
    moreover have "f (pl_db p1) = Inr x" using first(3) Inr by simp
    moreover have "settles w (pl_db p1) (k x w p1) (g x (pl_db p1))" using k w first(1) unfolding settles_as_def by blast
    ultimately show ?thesis using m1 first(2) by (simp add: sql_bind_def)
  qed
qed

lemma settles_before_read:
  assumes m: "settles_as m f" and k: "\<And>x. observes (=) (k x) (g x)"
  shows "settles_as (sql_bind m k) (\<lambda>db. case f db of (Inl e, db') \<Rightarrow> (Inl e, db') | (Inr x, db') \<Rightarrow> (g x db', db'))"
  unfolding settles_as_def
proof (intro allI impI)
  fix w and p :: pool assume w: "disturbed_by (=) w" and p: "pl_tx p = None"
  obtain r1 p1 where m1: "m w p = (r1, p1)" by fastforce
  note first = settles_asD [OF m w p m1]
  let ?expected = "case f (pl_db p) of (Inl e, db') \<Rightarrow> (Inl e, db') | (Inr x, db') \<Rightarrow> (g x db', db')"
  have snd: "snd ?expected = snd (f (pl_db p))" by (auto split: prod.split sum.split)
  show "settles w (pl_db p) (sql_bind m k w p) ?expected"
  proof (cases r1)
    case (Inl e)
    have "failed w r1 \<Longrightarrow> failed w (Inl e :: 'b api_result)" using Inl by (simp add: failed_def)
    with Inl m1 first show ?thesis by (auto simp: sql_bind_def settles_def snd split: prod.splits sum.splits)
  next
    case (Inr x)
    with first(2) have f: "f (pl_db p) = (Inr x, pl_db p1)" by simp
    obtain r2 p2 where k2: "k x w p1 = (r2, p2)" by fastforce
    from observesD [OF k w first(1) k2] f k2 m1 Inr show ?thesis by (auto simp: sql_bind_def settles_def)
  qed
qed

lemma settles_transaction: "in_tx body f \<Longrightarrow> settles_as (sql_transaction body) (transaction f)"
  unfolding settles_as_def settles_def
  using alone.transaction_atomic by (metis fst_conv snd_conv insertI1 surjective_pairing)

section \<open>Every handler settles as the handler on the database\<close>

lemma create_auth_key_settles: "settles_as (create_auth_key_sql env) (create_auth_key env)"
  by (auto simp: settles_as_def settles_def create_auth_key_sql_def create_auth_key_def sql_run_def sql_statement_def sql_call_def
      sql_bind_def sql_return_def disturbed_by_def failed_def and_then_def Let_def split: option.splits sum.splits)

text \<open>The transactions of the handlers, with what they do as a function of the database.\<close>

lemma delete_sql_transaction:
  obtains body f where "delete_device_sql env device_id = sql_transaction body" and "in_tx body f"
    and "delete_device env device_id = transaction f"
proof
  let ?f = "\<lambda>db. let hit = (\<lambda>d. dv_id d = device_id \<and> live d) in
       if filter hit (db_devices db) = [] then Inl (not_found ''device not found'')
       else Inr ((), db\<lparr>
         db_devices := update_where hit
           (\<lambda>d. d\<lparr>dv_deleted_at := Some (ce_now env), dv_updated_at := ce_now env\<rparr>) (db_devices db),
         db_dns := filter (\<lambda>r. dn_device_id r \<noteq> device_id) (db_dns db)\<rparr>)"
  let ?body = "sql_bind (update_live_device device_id (\<lambda>d. d\<lparr>dv_deleted_at := Some (ce_now env), dv_updated_at := ce_now env\<rparr>))
         (\<lambda>rows_affected. if rows_affected = 0 then sql_return (Inl (not_found ''device not found''))
           else sql_run (\<lambda>db. Inr (db\<lparr>db_dns := filter (\<lambda>r. dn_device_id r \<noteq> device_id) (db_dns db)\<rparr>)))"
  show "delete_device_sql env device_id = sql_transaction ?body" unfolding delete_device_sql_def ..
  show "in_tx ?body ?f"
    by (rule in_tx_cong [OF in_tx_bind [OF in_tx_update in_tx_if [OF in_tx_return in_tx_run]]]) (simp add: Let_def)
  show "delete_device env device_id = transaction ?f" unfolding delete_device_def ..
qed

definition rename_body :: "control_env \<Rightarrow> string \<Rightarrow> string \<Rightarrow> database \<Rightarrow> (unit \<times> database) api_result" where
  "rename_body env device_id hostname db =
     (let hit = (\<lambda>d. dv_id d = device_id \<and> live d) in
      if filter hit (db_devices db) = [] then Inl (not_found ''device not found'')
      else let db = db\<lparr>db_devices := update_where hit
                 (\<lambda>d. d\<lparr>dv_hostname := hostname, dv_updated_at := ce_now env\<rparr>) (db_devices db)\<rparr> in
        and_then (load_device_summary device_id db) (\<lambda>device.
        and_then (upsert_device_dns_record env (ce_uuid env 0) ''net_default'' (ds_id device)
                    (ds_hostname device) (ds_ipv4 device) db) (\<lambda>db. Inr ((), db))))"

lemma rename_device_phases:
  "rename_device env device_id request db =
     (case normalize_hostname (rn_hostname request) of
        Inl e \<Rightarrow> (Inl e, db)
      | Inr hostname \<Rightarrow>
          (case transaction (rename_body env device_id hostname) db of
             (Inl e, db') \<Rightarrow> (Inl e, db')
           | (Inr _, db') \<Rightarrow> (load_device_summary device_id db', db')))"
  unfolding rename_device_def rename_body_def [abs_def] ..

lemma rename_sql_transaction:
  obtains body where "rename_commit_sql env device_id hostname = sql_transaction body"
    and "in_tx body (rename_body env device_id hostname)"
proof
  let ?body = "sql_bind (update_live_device device_id (\<lambda>d. d\<lparr>dv_hostname := hostname, dv_updated_at := ce_now env\<rparr>))
         (\<lambda>rows_affected. if rows_affected = 0 then sql_return (Inl (not_found ''device not found''))
           else sql_bind (load_device_summary_sql device_id) (\<lambda>device.
             upsert_device_dns_record_sql env (ce_uuid env 0) ''net_default'' (ds_id device) (ds_hostname device) (ds_ipv4 device)))"
  show "rename_commit_sql env device_id hostname = sql_transaction ?body" unfolding rename_commit_sql_def ..
  show "in_tx ?body (rename_body env device_id hostname)"
    by (rule in_tx_cong [OF in_tx_bind [OF in_tx_update in_tx_if [OF in_tx_return in_tx_bind [OF in_tx_load_summary in_tx_upsert_record]]]])
      (simp add: rename_body_def Let_def and_then_def split: sum.split)
qed

lemma delete_device_settles: "settles_as (delete_device_sql env device_id) (delete_device env device_id)"
  by (rule delete_sql_transaction [of env device_id]) (simp add: settles_transaction)

lemma load_summary_observed: "observes (=) (load_device_summary_sql device_id) (load_device_summary device_id)"
  unfolding load_device_summary_sql_def by (rule alone.observes_read)

lemma rename_device_settles: "settles_as (rename_device_sql env device_id request) (rename_device env device_id request)"
proof -
  have "settles_as (rename_commit_sql env device_id hostname) (transaction (rename_body env device_id hostname))" for hostname
    by (rule rename_sql_transaction [of env device_id hostname]) (simp add: settles_transaction)
  from settles_after_read [OF alone.observes_return settles_before_read [OF this load_summary_observed]] show ?thesis
    unfolding rename_device_sql_def by (rule settles_as_cong) (auto simp: rename_device_phases split: sum.split prod.split)
qed

lemma version_observed: "observes (=) (network_map_version_sql env) (\<lambda>db. Inr (network_map_version env db))"
  unfolding network_map_version_sql_def
  by (rule observes_cong, (rule observes_bind alone.observes_fetch alone.observes_return)+)
    (simp add: network_map_version_def Let_def)

lemma validate_observed: "observes (=) (validate_device_node_key_sql device_id node_key) (validate_device_node_key device_id node_key)"
  unfolding validate_device_node_key_sql_def by (rule alone.observes_check)

lemma in_tx_heartbeat:
  "in_tx (sql_bind (update_live_device (hb_device_id request)
            (\<lambda>d. d\<lparr>dv_last_seen_at := Some (ce_now env), dv_updated_at := ce_now env\<rparr>)) (\<lambda>_.
         sql_bind (sql_run (\<lambda>db. Inr (delete_expired_endpoints env (hb_device_id request) db))) (\<lambda>_.
           sql_for (hb_endpoints request) (\<lambda>ep.
             sql_run (\<lambda>db. Inr (upsert_endpoint (endpoint_row_of env (hb_device_id request) ep) db))))))
     (\<lambda>db. Inr (map (\<lambda>_. ()) (hb_endpoints request), heartbeat_commit_phase env request db))"
proof -
  have "in_tx (sql_run (\<lambda>db. Inr (upsert_endpoint (endpoint_row_of env (hb_device_id request) ep) db)))
      (\<lambda>db. Inr ((), upsert_endpoint (endpoint_row_of env (hb_device_id request) ep) db))" for ep
    by (rule in_tx_cong [OF in_tx_run]) simp
  from in_tx_bind [OF in_tx_update in_tx_bind [OF in_tx_run in_tx_for [OF this]]] show ?thesis
    by (rule in_tx_cong) (simp add: heartbeat_commit_phase_def Let_def)
qed

lemma heartbeat_settles: "settles_as (heartbeat_sql env request) (heartbeat env request)"
  unfolding heartbeat_sql_def Let_def
  by (rule settles_as_cong [OF settles_after_read [OF validate_observed settles_before_read
        [OF settles_transaction [OF in_tx_heartbeat] observes_bind [OF version_observed alone.observes_return]]]])
    (auto simp: heartbeat_def transaction_def Let_def split: sum.split)

text \<open>What the transaction of a registration does, as a function of the database.\<close>

definition register_body :: "control_env \<Rightarrow> register_device_request \<Rightarrow> string \<Rightarrow> string \<Rightarrow> database \<Rightarrow>
    (register_device_response \<times> database) api_result" where
  "register_body env request hostname ipv4 db =
     (let row = new_device_row env request hostname ipv4 in
      and_then (insert_device row db) (\<lambda>db.
      and_then (upsert_device_dns_record env (ce_uuid env 2) ''net_default'' (dv_id row) hostname ipv4 db) (\<lambda>db.
      and_then (insert_allocation env (dv_id row) ipv4 db) (\<lambda>db.
        Inr (\<lparr>rr_device_id = dv_id row, rr_node_key = dv_node_key row, rr_ipv4 = ipv4,
              rr_network_id = ''net_default'', rr_poll_interval_seconds = 5\<rparr>,
             mark_key_used env (hash_secret env (rq_auth_key request)) db)))))"

lemma register_transaction: "register_commit_phase env request hostname ipv4 = transaction (register_body env request hostname ipv4)"
  unfolding register_commit_phase_def register_body_def insert_allocation_def ..

lemma register_sql_transaction:
  obtains body where "register_commit_sql env request hostname ipv4 = sql_transaction body"
    and "in_tx body (register_body env request hostname ipv4)"
proof
  let ?row = "new_device_row env request hostname ipv4"
  let ?body = "sql_bind (sql_run (insert_device ?row)) (\<lambda>_.
         sql_bind (upsert_device_dns_record_sql env (ce_uuid env 2) ''net_default'' (dv_id ?row) hostname ipv4) (\<lambda>_.
         sql_bind (sql_run (insert_allocation env (dv_id ?row) ipv4)) (\<lambda>_.
         sql_bind (sql_run (\<lambda>db. Inr (mark_key_used env (hash_secret env (rq_auth_key request)) db))) (\<lambda>_.
           sql_return (Inr \<lparr>rr_device_id = dv_id ?row, rr_node_key = dv_node_key ?row, rr_ipv4 = ipv4,
             rr_network_id = ''net_default'', rr_poll_interval_seconds = 5\<rparr>)))))"
  show "register_commit_sql env request hostname ipv4 = sql_transaction ?body" unfolding register_commit_sql_def Let_def ..
  show "in_tx ?body (register_body env request hostname ipv4)"
    by (rule in_tx_cong [OF in_tx_bind [OF in_tx_run in_tx_bind [OF in_tx_upsert_record in_tx_bind [OF in_tx_run
          in_tx_bind [OF in_tx_run in_tx_return]]]]])
      (simp add: register_body_def and_then_def Let_def split: sum.split)
qed

lemma register_commit_settles:
  "settles_as (register_commit_sql env request hostname ipv4) (register_commit_phase env request hostname ipv4)"
  by (rule register_sql_transaction [of env request hostname ipv4]) (simp add: register_transaction settles_transaction)

lemma register_device_settles: "settles_as (register_device_sql env request) (register_device env request)"
proof -
  note register = settles_after_read [OF alone.observes_check settles_after_read [OF alone.observes_return
      settles_after_read [OF alone.observes_read register_commit_settles]]]
  have new: "settles_as (case existing of Some response \<Rightarrow> sql_return (Inr response) | None \<Rightarrow> m)
      (case existing of Some response \<Rightarrow> (\<lambda>db. (Inr response, db)) | None \<Rightarrow> f)"
    if "settles_as m f" for existing and m :: "register_device_response sql_prog" and f
    using that observes_settles [OF alone.observes_return] by (cases existing) simp_all
  show ?thesis
    unfolding register_device_sql_def
    by (rule settles_as_cong [OF settles_after_read [OF alone.observes_fetch new [OF register]]])
      (auto simp: register_device_def register_check_phase_def and_then_def split: option.split sum.split)
qed

lemma endpoint_probe_settles:
  "settles_as (endpoint_probe_sql state addr request) (\<lambda>db. (endpoint_probe state addr request db, db))"
  unfolding endpoint_probe_sql_def
  by (rule observes_settles, rule observes_cong [OF observes_bind [OF validate_observed alone.observes_return]])
    (simp add: endpoint_probe_def)

lemma network_map_settles:
  "settles_as (network_map_sql env state device_id node_key) (\<lambda>db. (network_map env state device_id node_key db, db))"
proof -
  have self: "observes (=) (self_row_sql device_id) (\<lambda>db. case find (\<lambda>d. dv_id d = device_id \<and> live d) (db_devices db) of
        None \<Rightarrow> Inl (internal ''no rows returned by a query that expected to return at least one row'')
      | Some row \<Rightarrow> Inr row)"
  proof -
    have "self_row_sql device_id = sql_statement (\<lambda>db. and_then (case find (\<lambda>d. dv_id d = device_id \<and> live d) (db_devices db) of
        None \<Rightarrow> Inl (internal ''no rows returned by a query that expected to return at least one row'')
      | Some row \<Rightarrow> Inr row) (\<lambda>row. Inr (row, db)))"
      unfolding self_row_sql_def by (rule arg_cong [of _ _ sql_statement]) (auto split: option.split)
    then show ?thesis by (simp only: alone.observes_read)
  qed
  show ?thesis
    unfolding network_map_sql_def peer_rows_sql_def
    by (rule observes_settles, rule observes_cong [OF observes_bind [OF validate_observed observes_bind [OF self observes_bind
          [OF alone.observes_fetch observes_bind [OF observes_for [OF alone.observes_fetch] observes_bind [OF version_observed
           observes_bind [OF alone.observes_fetch alone.observes_return]]]]]]])
      (auto simp: network_map_def and_then_def split: option.split sum.split)
qed

text \<open>The same for the responses of the router.\<close>

definition http_settles ::
  "'j http_codec \<Rightarrow> sql_world \<Rightarrow> database \<Rightarrow> 'j http_response \<times> pool \<Rightarrow> 'j http_response \<times> database \<Rightarrow> bool" where
  "http_settles hc w db outcome expected \<longleftrightarrow> pl_tx (snd outcome) = None \<and>
     ((fst outcome, pl_db (snd outcome)) = expected \<or>
      (\<exists>n message. sw_error w n = Some message \<and> fst outcome = into_response hc (internal message)) \<and>
      pl_db (snd outcome) \<in> {db, snd expected})"

lemma respond_settles:
  "settles w db outcome expected \<Longrightarrow> http_settles hc w db (respond hc ser outcome) (respond hc ser expected)"
  unfolding settles_def http_settles_def respond_def json_response_def failed_def by (cases outcome; cases expected) force

lemma removed_settles:
  "settles w db outcome expected \<Longrightarrow> http_settles hc w db
     (case outcome of (Inl e, s) \<Rightarrow> (into_response hc e, s) | (Inr _, s) \<Rightarrow> (\<lparr>hs_status = 204, hs_body = hc_empty hc\<rparr>, s))
     (case expected of (Inl e, s) \<Rightarrow> (into_response hc e, s) | (Inr _, s) \<Rightarrow> (\<lparr>hs_status = 204, hs_body = hc_empty hc\<rparr>, s))"
  unfolding settles_def http_settles_def failed_def by (cases outcome; cases expected) (force split: sum.split)

lemma rejected_settles: "pl_tx p = None \<Longrightarrow> http_settles hc w (pl_db p) (response, p) (response, pl_db p)"
  by (simp add: http_settles_def)

lemma handlers_settle:
  fixes env :: control_env and state :: app_state and addr :: socket_addr
  assumes "disturbed_by (=) w" and "pl_tx p = None"
  defines "db \<equiv> pl_db p" and "sh \<equiv> statement_handlers w env state addr" and "dh \<equiv> database_handlers env state addr"
  shows "settles w db (ch_create_auth_key sh p) (ch_create_auth_key dh db)"
    and "settles w db (ch_list_devices sh p) (ch_list_devices dh db)"
    and "settles w db (ch_list_dns_records sh p) (ch_list_dns_records dh db)"
    and "settles w db (Inr (ch_list_relays sh), p) (Inr (ch_list_relays dh), db)"
    and "settles w db (ch_delete_device sh device_id p) (ch_delete_device dh device_id db)"
    and "settles w db (ch_rename_device sh device_id rename p) (ch_rename_device dh device_id rename db)"
    and "settles w db (ch_register_device sh register p) (ch_register_device dh register db)"
    and "settles w db (ch_heartbeat sh beat p) (ch_heartbeat dh beat db)"
    and "settles w db (ch_network_map sh device_id node_key p) (ch_network_map dh device_id node_key db)"
    and "settles w db (ch_endpoint_probe sh probe p) (ch_endpoint_probe dh probe db)"
proof -
  have as: "settles w db (m w p) (f db)" if "settles_as m f" for m :: "'a sql_prog" and f
    using that assms(1,2) by (simp add: settles_as_def db_def)
  note settle = as [OF create_auth_key_settles] as [OF delete_device_settles] as [OF rename_device_settles]
    as [OF register_device_settles] as [OF heartbeat_settles] as [OF network_map_settles] as [OF endpoint_probe_settles]
    as [OF observes_settles [OF alone.observes_fetch]]
  show "settles w db (ch_create_auth_key sh p) (ch_create_auth_key dh db)"
    "settles w db (ch_list_devices sh p) (ch_list_devices dh db)"
    "settles w db (ch_list_dns_records sh p) (ch_list_dns_records dh db)"
    "settles w db (ch_delete_device sh device_id p) (ch_delete_device dh device_id db)"
    "settles w db (ch_rename_device sh device_id rename p) (ch_rename_device dh device_id rename db)"
    "settles w db (ch_register_device sh register p) (ch_register_device dh register db)"
    "settles w db (ch_heartbeat sh beat p) (ch_heartbeat dh beat db)"
    "settles w db (ch_network_map sh device_id node_key p) (ch_network_map dh device_id node_key db)"
    "settles w db (ch_endpoint_probe sh probe p) (ch_endpoint_probe dh probe db)"
    by (simp_all add: sh_def dh_def statement_handlers_def database_handlers_def list_devices_sql_def list_dns_records_sql_def settle)
  show "settles w db (Inr (ch_list_relays sh), p) (Inr (ch_list_relays dh), db)"
    using assms(2) by (simp add: settles_def db_def sh_def dh_def statement_handlers_def database_handlers_def)
qed

text \<open>The router makes the same choices for both sets of handlers.\<close>

lemma router_choices:
  "(b \<Longrightarrow> S x x') \<Longrightarrow> (\<not> b \<Longrightarrow> S y y') \<Longrightarrow> S (if b then x else y) (if b then x' else y')"
  "(o' = None \<Longrightarrow> S x x') \<Longrightarrow> (\<And>v. o' = Some v \<Longrightarrow> S (f v) (f' v)) \<Longrightarrow>
     S (case o' of None \<Rightarrow> x | Some v \<Rightarrow> f v) (case o' of None \<Rightarrow> x' | Some v \<Rightarrow> f' v)"
  "(xs = [] \<Longrightarrow> S x x') \<Longrightarrow> (\<And>v vs. xs = v # vs \<Longrightarrow> S (g v vs) (g' v vs)) \<Longrightarrow>
     S (case xs of [] \<Rightarrow> x | v # vs \<Rightarrow> g v vs) (case xs of [] \<Rightarrow> x' | v # vs \<Rightarrow> g' v vs)"
  "(\<And>v1 v2. q = (v1, v2) \<Longrightarrow> S (h v1 v2) (h' v1 v2)) \<Longrightarrow> S (case q of (v1, v2) \<Rightarrow> h v1 v2) (case q of (v1, v2) \<Rightarrow> h' v1 v2)"
  by (auto split: option.split list.split prod.split)

lemma router_settles:
  assumes "disturbed_by (=) w" and "pl_tx p = None"
  shows "http_settles hc w (pl_db p) (control_http_sql hc w env state addr rq p) (control_http hc env state addr rq (pl_db p))"
proof -
  note settle = respond_settles [OF handlers_settle(1) [OF assms]] respond_settles [OF handlers_settle(2) [OF assms]]
    respond_settles [OF handlers_settle(3) [OF assms]] respond_settles [OF handlers_settle(4) [OF assms]]
    respond_settles [OF handlers_settle(6) [OF assms]] respond_settles [OF handlers_settle(7) [OF assms]]
    respond_settles [OF handlers_settle(8) [OF assms]] respond_settles [OF handlers_settle(9) [OF assms]]
    respond_settles [OF handlers_settle(10) [OF assms]]
    removed_settles [OF handlers_settle(5) [OF assms]] rejected_settles [OF assms(2)]
  show ?thesis
    unfolding control_http_sql_def control_http_def control_router_def Let_def
    by (rule settle | rule router_choices [where S = "http_settles hc w (pl_db p)"])+
qed

section \<open>Requests among other requests\<close>

lemmas among_reads = among_requests.observes_moves [OF among_requests.observes_fetch]
  among_requests.observes_moves [OF among_requests.observes_return] among_requests.observes_moves [OF among_requests.observes_check]
  among_requests.observes_moves [OF among_requests.observes_read]

lemma create_auth_key_moves: "moves control_step\<^sup>*\<^sup>* (create_auth_key_sql env)"
proof -
  let ?insert = "insert_auth_key env (''ak_'' @ ce_uuid env 0) (hash_secret env (''tfk_'' @ ce_uuid env 1))"
  have "snd (transaction (\<lambda>db. and_then (?insert db) (\<lambda>db'. Inr ((), db'))) db) = snd (create_auth_key env db)" for db
    by (simp add: create_auth_key_def transaction_def Let_def split: sum.split)
  then show ?thesis unfolding create_auth_key_sql_def sql_run_def Let_def
    by (intro among_requests.moves_bind among_requests.moves_statement among_reads) (simp add: r_into_rtranclp control_step.auth_key)
qed

lemma delete_device_moves: "moves control_step\<^sup>*\<^sup>* (delete_device_sql env device_id)"
proof (rule delete_sql_transaction [of env device_id])
  fix body f assume "delete_device_sql env device_id = sql_transaction body" "in_tx body f" "delete_device env device_id = transaction f"
  then show ?thesis using among_requests.moves_transaction [of body f] control_step.delete [of _ env device_id] by auto
qed

lemma rename_device_moves: "moves control_step\<^sup>*\<^sup>* (rename_device_sql env device_id request)"
  unfolding rename_device_sql_def
proof (rule among_requests.moves_after [OF among_requests.observes_return])
  fix hostname w p r p'
  assume host: "normalize_hostname (rn_hostname request) = Inr hostname" and "disturbed_by control_step\<^sup>*\<^sup>* w" "pl_tx p = None"
    and run: "sql_bind (rename_commit_sql env device_id hostname) (\<lambda>_. load_device_summary_sql device_id) w p = (r, p')"
  have step: "control_step\<^sup>*\<^sup>* db (snd (transaction (rename_body env device_id hostname) db))" for db
  proof -
    have "snd (rename_device env device_id request db) = snd (transaction (rename_body env device_id hostname) db)"
      by (auto simp: rename_device_phases host split: sum.split prod.split)
    then show ?thesis using control_step.rename [of db env device_id request] by (simp add: r_into_rtranclp)
  qed
  have "moves control_step\<^sup>*\<^sup>* (rename_commit_sql env device_id hostname)"
    by (rule rename_sql_transaction [of env device_id hostname]) (simp add: among_requests.moves_transaction step)
  then have "moves control_step\<^sup>*\<^sup>* (sql_bind (rename_commit_sql env device_id hostname) (\<lambda>_. load_device_summary_sql device_id))"
    unfolding load_device_summary_sql_def by (intro among_requests.moves_bind among_reads)
  from movesD [OF this _ _ run] show "pl_tx p' = None \<and> control_step\<^sup>*\<^sup>* (pl_db p) (pl_db p')"
    using \<open>disturbed_by control_step\<^sup>*\<^sup>* w\<close> \<open>pl_tx p = None\<close> by blast
qed

text \<open>Allocations are never taken back.\<close>

lemma upsert_record_ips: "upsert_device_dns_record env u n i h a db = Inr db' \<Longrightarrow> db_ips db' = db_ips db"
  by (auto simp: upsert_device_dns_record_def upsert_dns_def and_then_eq_Inr Let_def split: if_splits)

lemma commit_ips: "length (db_ips db) \<le> length (db_ips (snd (register_commit_phase env request hostname ipv4 db)))"
proof -
  have "length (db_ips db') = Suc (length (db_ips db))" if "register_body env request hostname ipv4 db = Inr (x, db')" for x db'
    using that by (auto simp: register_body_def Let_def and_then_eq_Inr insert_device_def insert_allocation_def insert_ip_def
        mark_key_used_def dest!: upsert_record_ips split: if_splits)
  then show ?thesis by (auto simp: register_transaction transaction_def split: sum.split)
qed

lemma rename_ips: "db_ips (snd (rename_device env device_id request db)) = db_ips db"
proof -
  have "db_ips db' = db_ips db" if "rename_body env device_id hostname db = Inr (x, db')" for hostname x db'
    using that by (auto simp: rename_body_def Let_def and_then_eq_Inr dest!: upsert_record_ips split: if_splits)
  then show ?thesis by (auto simp: rename_device_phases transaction_def split: sum.split prod.split)
qed

lemma beat_ips: "db_ips (heartbeat_commit_phase env request db) = db_ips db"
proof -
  have "db_ips (fold (\<lambda>ep. upsert_endpoint (row ep)) eps db) = db_ips db" for row eps db
    by (induction eps arbitrary: db) (simp_all add: upsert_endpoint_def)
  note fold = this
  show ?thesis by (simp add: heartbeat_commit_phase_def Let_def delete_expired_endpoints_def fold)
qed

lemma control_step_ips: "control_step\<^sup>*\<^sup>* db db' \<Longrightarrow> length (db_ips db) \<le> length (db_ips db')"
proof (induction rule: rtranclp_induct)
  case (step db1 db2)
  from step(2) have "length (db_ips db1) \<le> length (db_ips db2)"
  proof (cases rule: control_step.cases)
    case (auth_key env)
    then show ?thesis by (auto simp: create_auth_key_def insert_auth_key_def Let_def)
  next
    case (delete env device_id)
    then show ?thesis by (simp add: delete_device_def transaction_def Let_def)
  next
    case (register env request)
    then show ?thesis by (auto simp: register_device_def commit_ips split: sum.split register_check.split)
  next
    case (beat env request)
    then show ?thesis by (auto simp: heartbeat_def Let_def beat_ips split: sum.split)
  qed (simp_all add: rename_ips commit_ips beat_ips)
  with step(3) show ?case by simp
qed simp

lemma router_branches:
  "(b \<Longrightarrow> Q x) \<Longrightarrow> (\<not> b \<Longrightarrow> Q y) \<Longrightarrow> Q (if b then x else y)"
  "(o' = None \<Longrightarrow> Q x) \<Longrightarrow> (\<And>v. o' = Some v \<Longrightarrow> Q (f v)) \<Longrightarrow> Q (case o' of None \<Rightarrow> x | Some v \<Rightarrow> f v)"
  "(xs = [] \<Longrightarrow> Q x) \<Longrightarrow> (\<And>v vs. xs = v # vs \<Longrightarrow> Q (g v vs)) \<Longrightarrow> Q (case xs of [] \<Rightarrow> x | v # vs \<Rightarrow> g v vs)"
  "(\<And>v1 v2. q = (v1, v2) \<Longrightarrow> Q (h v1 v2)) \<Longrightarrow> Q (case q of (v1, v2) \<Rightarrow> h v1 v2)"
  by (auto split: option.split list.split prod.split)

lemma register_device_moves: "moves control_step\<^sup>*\<^sup>* (register_device_sql env request)"
proof -
  have commit: "pl_tx p' = None \<and> control_step\<^sup>*\<^sup>* (pl_db p) (pl_db p')"
    if w: "disturbed_by control_step\<^sup>*\<^sup>* w" and p: "pl_tx p = None" and ip: "allocate_ipv4 (pl_db p) = Inr ipv4"
      and run: "register_commit_sql env request hostname ipv4 w p = (r, p')" for hostname ipv4 w p r p'
  proof (rule register_sql_transaction [of env request hostname ipv4])
    fix body assume sql: "register_commit_sql env request hostname ipv4 = sql_transaction body"
      and body: "in_tx body (register_body env request hostname ipv4)"
    note atomic = among_requests.transaction_atomic [OF body w p run [unfolded sql]]
    from atomic(2) obtain db where db: "control_step\<^sup>*\<^sup>* (pl_db p) db"
      and cases: "pl_db p' = db \<or> (r, pl_db p') = register_commit_phase env request hostname ipv4 db"
      by (auto simp: register_transaction)
    have "control_step db (snd (register_commit_phase env request hostname ipv4 db))"
      by (rule control_step.commit [OF ip control_step_ips [OF db]])
    with db cases atomic(1) show ?thesis by (metis rtranclp.rtrancl_into_rtrancl snd_conv)
  qed
  have "moves control_step\<^sup>*\<^sup>* (sql_bind (sql_statement (\<lambda>db. and_then (allocate_ipv4 db) (\<lambda>ipv4. Inr (ipv4, db))))
      (\<lambda>ipv4. register_commit_sql env request hostname ipv4))" for hostname
    by (rule among_requests.moves_after [OF among_requests.observes_read]) (rule commit)
  note new = among_requests.moves_bind [OF among_reads(3) among_requests.moves_bind [OF among_reads(2) this]]
  show ?thesis unfolding register_device_sql_def
    by (rule among_requests.moves_bind [OF among_reads(1)])
      (rule router_branches [where Q = "moves control_step\<^sup>*\<^sup>*"], rule new, rule among_reads(2))
qed

lemma version_moves: "moves control_step\<^sup>*\<^sup>* (network_map_version_sql env)"
  unfolding network_map_version_sql_def by (intro among_requests.moves_bind among_reads)

lemma heartbeat_moves: "moves control_step\<^sup>*\<^sup>* (heartbeat_sql env request)"
  unfolding heartbeat_sql_def Let_def validate_device_node_key_sql_def
  by (intro among_requests.moves_bind among_reads version_moves among_requests.moves_transaction [OF in_tx_heartbeat])
    (simp add: transaction_def r_into_rtranclp control_step.beat_commit)

lemma endpoint_probe_moves: "moves control_step\<^sup>*\<^sup>* (endpoint_probe_sql state addr request)"
  unfolding endpoint_probe_sql_def validate_device_node_key_sql_def by (intro among_requests.moves_bind among_reads)

lemma network_map_moves: "moves control_step\<^sup>*\<^sup>* (network_map_sql env state device_id node_key)"
proof -
  have "moves control_step\<^sup>*\<^sup>* (self_row_sql device_id)"
    unfolding self_row_sql_def by (rule among_requests.moves_statement) (simp add: transaction_def split: option.split)
  then show ?thesis
    unfolding network_map_sql_def validate_device_node_key_sql_def peer_rows_sql_def
    by (intro among_requests.moves_bind among_requests.moves_for among_reads version_moves)
qed

definition moved :: "pool \<Rightarrow> 'a \<times> pool \<Rightarrow> bool" where
  "moved p outcome \<longleftrightarrow> pl_tx (snd outcome) = None \<and> control_step\<^sup>*\<^sup>* (pl_db p) (pl_db (snd outcome))"

lemma router_moves:
  assumes "disturbed_by control_step\<^sup>*\<^sup>* w" and "pl_tx p = None"
  shows "moved p (control_http_sql hc w env state addr rq p)"
proof -
  have moved: "moved p (m w p)" if "moves control_step\<^sup>*\<^sup>* m" for m :: "'c sql_prog"
    using that assms unfolding moves_def moved_def by (metis prod.collapse)
  have respond: "moved p (respond hc ser outcome)" if "moved p outcome" for outcome :: "'c api_result \<times> pool" and ser
    using that by (simp add: moved_def respond_def)
  have removed: "moved p (case outcome of (Inl e, s) \<Rightarrow> (into_response hc e, s) | (Inr _, s) \<Rightarrow> (\<lparr>hs_status = 204, hs_body = hc_empty hc\<rparr>, s))"
    if "moved p outcome" for outcome :: "unit api_result \<times> pool"
    using that by (auto simp: moved_def split: prod.split sum.split)
  have still: "moved p (response, p)" for response :: 'c using assms(2) by (simp add: moved_def)
  show ?thesis
    unfolding control_http_sql_def control_router_def statement_handlers_def control_handlers.select_convs list_devices_sql_def
      list_dns_records_sql_def Let_def
    by (rule still respond [OF still] respond [OF moved [OF create_auth_key_moves]] respond [OF moved [OF rename_device_moves]]
        respond [OF moved [OF register_device_moves]] respond [OF moved [OF heartbeat_moves]]
        respond [OF moved [OF network_map_moves]] respond [OF moved [OF endpoint_probe_moves]]
        respond [OF moved [OF among_reads(1)]] removed [OF moved [OF delete_device_moves]]
      | rule router_branches [where Q = "moved p"])+
qed

section \<open>Properties\<close>

text \<open>
  C19. A request that fails half-way changes nothing or everything: whichever call to SQLite fails
  while a request is served, the client is answered as if nothing had failed, or gets status 500
  with the error of the call; in the second case the database is as it was, or as the whole
  request would have left it (a call that fails after the commit), never something between. If no
  call fails, the answer and the database are those of the handlers on the database.
\<close>

theorem failed_request_all_or_nothing:
  assumes "\<And>n db. sw_others w n db = db" and "pl_tx p = None"
    and "control_http hc env state addr rq (pl_db p) = (response, db')"
    and "control_http_sql hc w env state addr rq p = (response', p')"
  shows "pl_tx p' = None \<and>
    (response' = response \<and> pl_db p' = db' \<or>
     (\<exists>n message. sw_error w n = Some message \<and> response' = into_response hc (internal message)) \<and>
       (pl_db p' = pl_db p \<or> pl_db p' = db'))"
proof -
  have "disturbed_by (=) w" using assms(1) by (simp add: disturbed_by_def)
  from router_settles [OF this assms(2), of hc env state addr rq] show ?thesis
    unfolding http_settles_def assms(3,4) by simp
qed

definition demo_statement_codec :: "string http_codec" where
  "demo_statement_codec =
     \<lparr>hc_empty = [], hc_error = (\<lambda>e. e), hc_health = (\<lambda>_. []), hc_auth_key = ak_key, hc_device = ds_hostname, hc_devices = (\<lambda>_. []),
      hc_dns_records = (\<lambda>_. []), hc_relays = (\<lambda>_. []), hc_register_response = rr_ipv4, hc_heartbeat_response = (\<lambda>_. ''beat''),
      hc_network_map = (\<lambda>_. []), hc_probe_response = (\<lambda>_. []),
      hc_rename = map_option (\<lambda>hostname. \<lparr>rn_hostname = hostname\<rparr>), hc_register = (\<lambda>_. None),
      hc_heartbeat = (\<lambda>_. None), hc_probe = (\<lambda>_. None), hc_map_query = (\<lambda>_. None), hc_path_segment = Some,
      hc_rejection = (\<lambda>_. \<lparr>hs_status = 404, hs_body = []\<rparr>)\<rparr>"

definition demo_pool :: "database \<Rightarrow> pool" where
  "demo_pool db = \<lparr>pl_db = db, pl_tx = None, pl_calls = 0\<rparr>"

text \<open>A request to rename a device, of which the \<open>n\<close>-th call to SQLite fails.\<close>

definition demo_failed_rename :: "nat \<Rightarrow> string http_response \<times> pool" where
  "demo_failed_rename n =
     control_http_sql demo_statement_codec
       \<lparr>sw_error = (\<lambda>k. if k = n then Some ''disk I/O error'' else None), sw_others = (\<lambda>_ db. db)\<rparr>
       (demo_control_env ''r'') demo_app \<lparr>sa_ip = V4 (Ipv4Addr 127 0 0 1), sa_port = 9\<rparr>
       \<lparr>hq_method = PATCH, hq_path = ''/v1/devices/dev_a0'', hq_query = [], hq_body = Some ''Desk''\<rparr> (demo_pool demo_one_device)"

lemma demo_failed_rename_values:
  "fst (demo_failed_rename 6) = \<lparr>hs_status = 500, hs_body = ''disk I/O error''\<rparr>"
  "map dv_hostname (db_devices (pl_db (snd (demo_failed_rename 6)))) = [''desk'']"
  by code_simp+

theorem failed_request_all_or_nothing_witness:
  "\<exists>response p' db'. demo_failed_rename 6 = (response, p') \<and> hs_status response = 500 \<and> pl_tx p' = None \<and>
     control_http demo_statement_codec (demo_control_env ''r'') demo_app \<lparr>sa_ip = V4 (Ipv4Addr 127 0 0 1), sa_port = 9\<rparr>
       \<lparr>hq_method = PATCH, hq_path = ''/v1/devices/dev_a0'', hq_query = [], hq_body = Some ''Desk''\<rparr> demo_one_device =
       (\<lparr>hs_status = 200, hs_body = ''desk''\<rparr>, db') \<and>
     pl_db p' = db'"
proof -
  let ?w = "\<lparr>sw_error = (\<lambda>k. if k = 6 then Some ''disk I/O error'' else None), sw_others = (\<lambda>_ db. db)\<rparr>"
  let ?rq = "\<lparr>hq_method = PATCH, hq_path = ''/v1/devices/dev_a0'', hq_query = [], hq_body = Some ''Desk''\<rparr>"
  let ?addr = "\<lparr>sa_ip = V4 (Ipv4Addr 127 0 0 1), sa_port = 9\<rparr>"
  let ?expected = "control_http demo_statement_codec (demo_control_env ''r'') demo_app ?addr ?rq demo_one_device"
  obtain response p' where run: "demo_failed_rename 6 = (response, p')" by fastforce
  obtain response' db' where expected: "?expected = (response', db')" by fastforce
  have "fst ?expected = \<lparr>hs_status = 200, hs_body = ''desk''\<rparr>" by code_simp
  with expected have answer: "response' = \<lparr>hs_status = 200, hs_body = ''desk''\<rparr>" by simp
  have failed: "response = \<lparr>hs_status = 500, hs_body = ''disk I/O error''\<rparr>"
    and renamed: "map dv_hostname (db_devices (pl_db p')) = [''desk'']" using demo_failed_rename_values run by simp_all
  have "map dv_hostname (db_devices demo_one_device) = [''laptop'']" by code_simp
  with renamed have "pl_db p' \<noteq> pl_db (demo_pool demo_one_device)" by (auto simp: demo_pool_def)
  moreover have "control_http_sql demo_statement_codec ?w (demo_control_env ''r'') demo_app ?addr ?rq (demo_pool demo_one_device) =
      (response, p')"
    using run unfolding demo_failed_rename_def .
  ultimately have "pl_tx p' = None" "pl_db p' = db'"
    using failed_request_all_or_nothing [of ?w "demo_pool demo_one_device" demo_statement_codec "demo_control_env ''r''"
        demo_app ?addr ?rq response' db' response p'] expected
    by (auto simp: demo_pool_def)
  with run failed expected answer show ?thesis by simp
qed

text \<open>
  C20. At the granularity of statements the control plane is still the transition system that the
  other properties are about: whatever other requests commit between the statements of a request,
  and whichever of its calls fail, what the request does to the database, together with what the others did
  meanwhile, is a sequence of steps of \<open>control_step\<close>, and no transaction is left open. So
  everything shown of the states that \<open>control_step\<close> reaches holds for the database of the running service.
\<close>

theorem requests_refine_control_step:
  assumes "\<And>n db. control_step\<^sup>*\<^sup>* db (sw_others w n db)" and "pl_tx p = None"
  shows "control_step\<^sup>*\<^sup>* (pl_db p) (pl_db (snd (control_http_sql hc w env state addr rq p))) \<and>
    pl_tx (snd (control_http_sql hc w env state addr rq p)) = None"
proof -
  have "disturbed_by control_step\<^sup>*\<^sup>* w" using assms(1) by (simp add: disturbed_by_def)
  from router_moves [OF this assms(2), of hc env state addr rq] show ?thesis by (simp add: moved_def)
qed

text \<open>A request to rename a device that another request deletes before the answer is read.\<close>

definition demo_late_rename :: "string http_response \<times> pool" where
  "demo_late_rename =
     control_http_sql demo_statement_codec
       \<lparr>sw_error = (\<lambda>_. None),
        sw_others = (\<lambda>n db. if n = 6 then snd (delete_device (demo_control_env ''d'') ''dev_a0'' db) else db)\<rparr>
       (demo_control_env ''r'') demo_app \<lparr>sa_ip = V4 (Ipv4Addr 127 0 0 1), sa_port = 9\<rparr>
       \<lparr>hq_method = PATCH, hq_path = ''/v1/devices/dev_a0'', hq_query = [], hq_body = Some ''Desk''\<rparr> (demo_pool demo_one_device)"

theorem requests_refine_control_step_witness:
  "control_step\<^sup>*\<^sup>* demo_one_device (pl_db (snd demo_late_rename)) \<and> hs_status (fst demo_late_rename) = 404 \<and>
     map (\<lambda>d. (dv_hostname d, live d)) (db_devices (pl_db (snd demo_late_rename))) = [(''desk'', False)]"
proof -
  have "hs_status (fst demo_late_rename) = 404"
    "map (\<lambda>d. (dv_hostname d, live d)) (db_devices (pl_db (snd demo_late_rename))) = [(''desk'', False)]" by code_simp+
  moreover have "control_step\<^sup>*\<^sup>* demo_one_device (pl_db (snd demo_late_rename))"
    using requests_refine_control_step [of "\<lparr>sw_error = (\<lambda>_. None),
        sw_others = (\<lambda>n db. if n = 6 then snd (delete_device (demo_control_env ''d'') ''dev_a0'' db) else db)\<rparr>" "demo_pool demo_one_device" demo_statement_codec]
    by (simp add: demo_late_rename_def demo_pool_def r_into_rtranclp control_step.delete)
  ultimately show ?thesis by simp
qed

end
