(* ===== verification/Test_Support.thy ===== *)
theory Test_Support
  imports Core_Protocol
begin

text \<open>
  The unit tests of the sources, run on the model. Each \<open>#[test]\<close> is a closed, executable
  proposition with the test's inputs and assertions, and a lemma evaluates it: the definitions
  meet the expectations that the authors of the code wrote down for the functions they
  translate. This theory has what the tests share: \<open>expect\<close>, \<open>expect_err\<close> and \<open>contains\<close>. A failing
  \<open>expect\<close> is a failing test.
\<close>

abbreviation expect :: "'e + 'a \<Rightarrow> ('a \<Rightarrow> bool) \<Rightarrow> bool" where
  "expect r body \<equiv> (case r of Inl _ \<Rightarrow> False | Inr x \<Rightarrow> body x)"

abbreviation expect_some :: "'a option \<Rightarrow> ('a \<Rightarrow> bool) \<Rightarrow> bool" where
  "expect_some r body \<equiv> (case r of None \<Rightarrow> False | Some x \<Rightarrow> body x)"

abbreviation expect_err :: "'e + 'a \<Rightarrow> ('e \<Rightarrow> bool) \<Rightarrow> bool" where
  "expect_err r body \<equiv> (case r of Inl e \<Rightarrow> body e | Inr _ \<Rightarrow> False)"

text \<open>A call that returns, and with \<open>Ok\<close>.\<close>

abbreviation expect_run :: "('e, 'w, 'a) prog \<Rightarrow> 'w \<Rightarrow> ('a \<Rightarrow> 'w \<Rightarrow> bool) \<Rightarrow> bool" where
  "expect_run m w body \<equiv> (case m w of None \<Rightarrow> False | Some (r, w') \<Rightarrow> (case r of Inl _ \<Rightarrow> False | Inr x \<Rightarrow> body x w'))"

text \<open>\<open>str::contains\<close>.\<close>

fun contains :: "'a list \<Rightarrow> 'a list \<Rightarrow> bool" where
  "contains [] part \<longleftrightarrow> part = []"
| "contains (c # input) part \<longleftrightarrow> starts_with (c # input) part \<or> contains input part"

lemma contains_iff: "contains input part \<longleftrightarrow> (\<exists>before after. input = before @ part @ after)"
proof (induction input)
  case (Cons c input)
  have "(\<exists>before after. c # input = before @ part @ after) \<longleftrightarrow>
      prefix part (c # input) \<or> (\<exists>before after. input = before @ part @ after)"
    by (auto simp: prefix_def Cons_eq_append_conv)
  with Cons show ?case by simp
qed simp

lemma contains_append: "contains before part \<or> contains after part \<Longrightarrow> contains (before @ after) part"
  unfolding contains_iff by (metis append_assoc)

definition contains_all :: "'a list \<Rightarrow> 'a list list \<Rightarrow> bool" where
  "contains_all input parts = list_all (contains input) parts"

text \<open>Evaluation goes into the continuation of a computation only when its result is there.\<close>

declare and_then_def [code_unfold] prog_bind_def [code_unfold]

definition fails_with :: "'a backend_result \<Rightarrow> string \<Rightarrow> bool" where
  "fails_with r message = expect_err r (\<lambda>e. contains (backend_error_to_string e) message)"

end
