(* ===== verification/Test_Servers.thy ===== *)
theory Test_Servers
  imports Test_Support Control_Http Relay_Server Agent_Dns
begin

text \<open>
  The unit tests of \<open>tfscale-control/src/main.rs\<close>, \<open>tfscale-relay/src/main.rs\<close> and \<open>tfscale-agent/src/dns.rs\<close>.
\<close>

section \<open>The control plane\<close>

definition test_normalizes_hostname :: bool where
  "test_normalizes_hostname = expect (normalize_hostname '' Dev-Box '') (\<lambda>hostname. hostname = ''dev-box'')"

definition test_rejects_empty_hostname :: bool where
  "test_rejects_empty_hostname = expect_err (normalize_hostname ''   '') (\<lambda>error. ae_status error = BAD_REQUEST)"

definition test_rejects_hostname_with_invalid_characters :: bool where
  "test_rejects_hostname_with_invalid_characters =
     expect_err (normalize_hostname ''dev_box'') (\<lambda>error. ae_status error = BAD_REQUEST)"

definition test_rejects_hostname_with_edge_hyphen :: bool where
  "test_rejects_hostname_with_edge_hyphen =
     expect_err (normalize_hostname ''-devbox'') (\<lambda>error. ae_status error = BAD_REQUEST)"

definition test_builds_static_relay_metadata_from_urls :: bool where
  "test_builds_static_relay_metadata_from_urls =
     (case relay_metadata_from_urls [''tcp://127.0.0.1:9443''] of
        [relay] \<Rightarrow> rm_relay_id relay = ''relay_1'' \<and> rm_url relay = ''tcp://127.0.0.1:9443'' \<and>
          rm_region relay = ''default'' \<and> rm_healthy relay
      | _ \<Rightarrow> False)"

definition test_builds_mesh_dns_name :: bool where
  "test_builds_mesh_dns_name = (dns_name ''devbox'' = ''devbox.mesh'')"

definition test_builds_dns_suffix_from_device_id :: bool where
  "test_builds_dns_suffix_from_device_id =
     (device_dns_suffix ''dev_abcdef123456'' = ''abcdef12'' \<and> device_dns_suffix ''legacy-device'' = ''legacy-d'')"

lemma hostname_tests_pass:
  "test_normalizes_hostname" "test_rejects_empty_hostname" "test_rejects_hostname_with_invalid_characters"
  "test_rejects_hostname_with_edge_hyphen" "test_builds_static_relay_metadata_from_urls"
  "test_builds_mesh_dns_name" "test_builds_dns_suffix_from_device_id"
  by code_simp+

definition test_splits_migration_statements :: bool where
  "test_splits_migration_statements =
     (migration_statements ''CREATE TABLE one (id TEXT); ; CREATE TABLE two (id TEXT);'' =
        [''CREATE TABLE one (id TEXT)'', ''CREATE TABLE two (id TEXT)''])"

definition test_registers_endpoint_metadata_migration :: "migration list \<Rightarrow> bool" where
  "test_registers_endpoint_metadata_migration migrations =
     list_ex (\<lambda>m. mg_version m = 2 \<and> mg_name m = ''endpoint_metadata'') migrations"

definition test_registers_dns_records_migration :: "migration list \<Rightarrow> bool" where
  "test_registers_dns_records_migration migrations =
     list_ex (\<lambda>m. mg_version m = 3 \<and> mg_name m = ''dns_records'') migrations"

definition test_registers_endpoint_lookup_index_migration :: "migration list \<Rightarrow> bool" where
  "test_registers_endpoint_lookup_index_migration migrations =
     (migrations \<noteq> [] \<and> mg_version (last migrations) = 4 \<and> mg_name (last migrations) = ''endpoint_lookup_index'')"

text \<open>An SQLite that accepts every statement.\<close>

definition test_migrations_apply_to_empty_sqlite_database :: "migration list \<Rightarrow> bool" where
  "test_migrations_apply_to_empty_sqlite_database migrations =
     (fst (init_schema (\<lambda>_ _. None) migrations schema_empty) = Inr ())"

lemma split_test_passes: "test_splits_migration_statements"
  by code_simp

lemma migration_tests_pass:
  "test_registers_endpoint_metadata_migration (MIGRATIONS sql1 sql2 sql3 sql4)"
  "test_registers_dns_records_migration (MIGRATIONS sql1 sql2 sql3 sql4)"
  "test_registers_endpoint_lookup_index_migration (MIGRATIONS sql1 sql2 sql3 sql4)"
  by (simp_all add: MIGRATIONS_def test_registers_endpoint_metadata_migration_def
      test_registers_dns_records_migration_def test_registers_endpoint_lookup_index_migration_def)

lemma execute_all_accepts: "\<exists>s'. execute_all (\<lambda>_ _. None) statements s = Inr s'"
  by (induction statements arbitrary: s) (simp_all add: sql_execute_def)

lemma apply_migrations_accepts: "fst (apply_migrations (\<lambda>_ _. None) migrations s) = Inr ()"
proof (induction migrations arbitrary: s)
  case (Cons m ms)
  from execute_all_accepts [of "migration_statements (mg_sql m)" s] Cons show ?case
    by (auto simp: run_migration_def sql_execute_def migration_applied_def split: bool.split sum.split)
qed simp

lemma empty_database_test_passes: "test_migrations_apply_to_empty_sqlite_database migrations"
  by (simp add: test_migrations_apply_to_empty_sqlite_database_def init_schema_def sql_execute_def apply_migrations_accepts)

definition existing_record :: database where
  "existing_record = database_empty\<lparr>db_dns := [\<lparr>dn_id = ''dns_1'', dn_network_id = ''net_default'', dn_device_id = ''dev_existing'',
     dn_name = ''fedora.mesh'', dn_type = ''A'', dn_value = ''100.64.0.2'', dn_updated_at = []\<rparr>]\<rparr>"

definition test_dns_name_uses_hostname_until_duplicate_exists :: bool where
  "test_dns_name_uses_hostname_until_duplicate_exists =
     expect (available_dns_name ''net_default'' ''dev_abcdef123456'' ''fedora'' existing_record)
       (\<lambda>available. available = ''fedora-abcdef12.mesh'')"

definition test_dns_name_keeps_existing_device_name_on_update :: bool where
  "test_dns_name_keeps_existing_device_name_on_update =
     expect (available_dns_name ''net_default'' ''dev_existing'' ''fedora'' existing_record)
       (\<lambda>available. available = ''fedora.mesh'')"

lemma dns_name_tests_pass:
  "test_dns_name_uses_hostname_until_duplicate_exists" "test_dns_name_keeps_existing_device_name_on_update"
  by code_simp+

section \<open>The relay\<close>

record relay_counters =
  rct_routed_frames :: u64
  rct_dropped_frames :: u64

definition counters :: "relay_state \<Rightarrow> relay_counters" where
  "counters s = \<lparr>rct_routed_frames = routed_frames s, rct_dropped_frames = dropped_frames s\<rparr>"

text \<open>The receivers of the channels that the test makes are alive; they are the connections 0 and 1.\<close>

definition channels_open :: relay_state where
  "channels_open = relay_state_default\<lparr>rl_conns := (\<lambda>c.
     \<lparr>cn_phase = Running (if c = 0 then ''dev_a'' else ''dev_b''), cn_queue = [], cn_written = []\<rparr>)\<rparr>"

definition test_routes_frame_to_registered_destination :: bool where
  "test_routes_frame_to_registered_destination =
     (let (source, state) = register ''dev_a'' 0 channels_open;
          (destination, state) = register ''dev_b'' 1 state;
          (delivered, state) = route_frame (Frame ''dev_a'' ''dev_b'' ''encrypted-frame'') state in
      source = None \<and> destination = None \<and> delivered \<and>
      cn_queue (rl_conns state 1) = [Frame ''dev_a'' ''dev_b'' ''encrypted-frame''] \<and>
      rct_routed_frames (counters state) = 1 \<and> rct_dropped_frames (counters state) = 0)"

definition test_drops_frame_for_unknown_destination :: bool where
  "test_drops_frame_for_unknown_destination =
     (let (delivered, state) = route_frame (Frame ''dev_a'' ''dev_missing'' ''encrypted-frame'') relay_state_default in
      \<not> delivered \<and> rct_routed_frames (counters state) = 0 \<and> rct_dropped_frames (counters state) = 1)"

lemma relay_tests_pass: "test_routes_frame_to_registered_destination" "test_drops_frame_for_unknown_destination"
  by code_simp+

section \<open>The DNS proxy\<close>

text \<open>The byte forms of 16-bit words, by arithmetic on words.\<close>

lemma u16_to_be_bytes_code [code]: "u16_to_be_bytes x = [ucast (drop_bit 8 x), ucast x]"
proof -
  have byte: "word_of_nat (n mod 256) = (word_of_nat n :: u8)" for n :: nat
    by (simp add: word_of_nat_eq_iff take_bit_eq_mod)
  have "unat x div 256 = unat (drop_bit 8 x)" by (simp add: drop_bit_eq_div unat_div_distrib)
  with byte [of "unat x"] byte [of "unat (drop_bit 8 x)"] show ?thesis by (simp add: u16_to_be_bytes_def numeral_2_eq_2)
qed

lemma u16_from_be_bytes_code [code]: "u16_from_be_bytes bs = foldl (\<lambda>acc b. acc * 256 + ucast b) 0 bs"
  unfolding u16_from_be_bytes_def
  by (induction bs rule: rev_induct) (simp_all add: be_value_append)

definition test_record :: "string \<Rightarrow> string \<Rightarrow> dns_record" where
  "test_record name value = \<lparr>dr_device_id = ''dev_test'', dr_name = name, dr_record_type = ''A'', dr_value = value\<rparr>"

definition test_resolves_mesh_a_record :: bool where
  "test_resolves_mesh_a_record =
     (resolve_a [test_record ''devbox.mesh'' ''100.64.0.2''] ''devbox.mesh'' ''mesh'' = Some (Ipv4Addr 100 64 0 2))"

definition test_resolves_case_insensitive_and_trailing_dot :: bool where
  "test_resolves_case_insensitive_and_trailing_dot =
     (resolve_a [test_record ''devbox.mesh'' ''100.64.0.2''] ''DevBox.Mesh.'' ''mesh'' = Some (Ipv4Addr 100 64 0 2))"

definition test_ignores_non_mesh_query :: bool where
  "test_ignores_non_mesh_query = (resolve_a [test_record ''devbox.mesh'' ''100.64.0.2''] ''example.com'' ''mesh'' = None)"

definition test_returns_none_for_missing_record :: bool where
  "test_returns_none_for_missing_record =
     (resolve_a [test_record ''devbox.mesh'' ''100.64.0.2''] ''missing.mesh'' ''mesh'' = None)"

definition test_query_packet :: "u16 \<Rightarrow> string \<Rightarrow> u16 \<Rightarrow> bytes" where
  "test_query_packet ident name qtype =
     u16_to_be_bytes ident @ u16_to_be_bytes 0x0100 @ u16_to_be_bytes 1 @ u16_to_be_bytes 0 @ u16_to_be_bytes 0 @
     u16_to_be_bytes 0 @
     concat (map (\<lambda>label. of_nat (length label) # as_bytes label) (split_on CHR ''.'' name)) @ [0] @
     u16_to_be_bytes qtype @ u16_to_be_bytes CLASS_IN"

definition answer_count :: "bytes \<Rightarrow> u16" where
  "answer_count response = u16_from_be_bytes [response ! 6, response ! 7]"

definition test_builds_a_response :: bool where
  "test_builds_a_response =
     expect (build_response (test_query_packet 0x1234 ''devbox.mesh'' TYPE_A) [test_record ''devbox.mesh'' ''100.64.0.2''] ''mesh'')
       (\<lambda>response. take 2 response = [0x12, 0x34] \<and> answer_count response = 1 \<and>
          drop (length response - 4) response = [100, 64, 0, 2])"

definition test_builds_nxdomain_response :: bool where
  "test_builds_nxdomain_response =
     expect (build_response (test_query_packet 0x1234 ''missing.mesh'' TYPE_A) [test_record ''devbox.mesh'' ''100.64.0.2''] ''mesh'')
       (\<lambda>response. (u16_from_be_bytes [response ! 2, response ! 3] AND 0x000F) = RCODE_NXDOMAIN \<and> answer_count response = 0)"

text \<open>The proxy receives the query of the client's socket and is stopped after its answer.\<close>

definition test_udp_proxy_answers_a_query :: bool where
  "test_udp_proxy_answers_a_query =
     (let client = \<lparr>sa_ip = V4 ipv4_localhost, sa_port = 7\<rparr>;
          config = \<lparr>dc_listen = \<lparr>sa_ip = V4 ipv4_localhost, sa_port = 8\<rparr>, dc_suffix = ''mesh''\<rparr> in
      case dns_process config [ProxyReceived (Inr (test_query_packet 0x4321 ''devbox.mesh'' TYPE_A, client)) (Inr ())]
             (dns_runtime_new [test_record ''devbox.mesh'' ''100.64.0.2'']) of
        ([(response, peer)], _) \<Rightarrow> peer = client \<and> take 2 response = [0x43, 0x21] \<and> answer_count response = 1 \<and>
          drop (length response - 4) response = [100, 64, 0, 2]
      | _ \<Rightarrow> False)"

lemma resolve_tests_pass:
  "test_resolves_mesh_a_record" "test_resolves_case_insensitive_and_trailing_dot" "test_ignores_non_mesh_query"
  "test_returns_none_for_missing_record"
  by code_simp+

lemma dns_packet_tests_pass:
  "test_builds_a_response" "test_builds_nxdomain_response" "test_udp_proxy_answers_a_query"
  by code_simp+

end
