(* ===== verification/Test_Agent.thy ===== *)
theory Test_Agent
  imports Test_Support Agent_Doctor
begin

text \<open>
  The unit tests of \<open>tfscale-agent/src\<close>: \<open>main.rs\<close>, \<open>resolver.rs\<close> and \<open>service.rs\<close>. The agent runs on the mock backend.
\<close>

section \<open>Fixtures\<close>

definition test_agent_env :: agent_env where
  "test_agent_env =
     \<lparr>ae_ser = (\<lambda>_. Inr []), ae_de = (\<lambda>_. Inl ''expected value''), ae_uuid = ''0'', ae_hostname_var = None,
      ae_hostname_command = None, ae_os = ''linux'', ae_arch = ''x86_64'', ae_version = ''0.1.0''\<rparr>"

text \<open>\<open>temp_state_dir\<close>, \<open>test_dns_runtime\<close>, a new mock backend and \<open>last_applied_version\<close>.\<close>

definition test_agent_world :: "int option \<Rightarrow> (mock_backend, unit) agent_world" where
  "test_agent_world last_applied_version =
     \<lparr>aw_backend = mock_new ''mock-public-key'', aw_control = (),
      aw_disk = \<lparr>dk_file = None, dk_tmp = None, dk_fail = (\<lambda>_. None), dk_partial = [], dk_calls = 0,
        dk_file_mode = 0, dk_tmp_mode = 0, dk_new_mode = 0\<rparr>,
      aw_dns = [], aw_last_version = last_applied_version\<rparr>"

definition test_self_state :: agent_state where
  "test_self_state = (agent_state_new ''0'')\<lparr>as_device_id := Some ''dev_self'', as_ipv4 := Some ''100.64.0.2''\<rparr>"

definition test_endpoint_payload :: "string \<Rightarrow> string \<Rightarrow> u16 \<Rightarrow> string \<Rightarrow> endpoint_payload" where
  "test_endpoint_payload kind address port protocol =
     \<lparr>epp_kind = kind, epp_address = address, epp_port = port, epp_protocol = protocol, epp_source = None,
      epp_priority = None, epp_expires_at = None\<rparr>"

definition network_map_with_version :: "int \<Rightarrow> network_map_response" where
  "network_map_with_version version =
     \<lparr>nm_version = version,
      nm_self_device = \<lparr>nms_device_id = ''dev_self'', nms_hostname = ''self'', nms_ipv4 = ''100.64.0.2'', nms_backend_type = ''tfscale''\<rparr>,
      nm_peers = [\<lparr>nmp_device_id = ''dev_peer'', nmp_hostname = ''peer'', nmp_ipv4 = ''100.64.0.3'', nmp_backend_type = ''tfscale'',
        nmp_backend_public_credential = ''peer-public-key'', nmp_endpoints = [], nmp_allowed_routes = [''100.64.0.3/32'']\<rparr>],
      nm_dns_records = [], nm_relays = []\<rparr>"

definition test_backend_status :: "peer_path_diagnostic list \<Rightarrow> bool \<Rightarrow> backend_status" where
  "test_backend_status peers healthy =
     \<lparr>bs_backend_type = Tfscale, bs_interface_name = ''tfscale0'', bs_healthy = healthy, bs_message = Some ''test backend'',
      bs_peers = peers\<rparr>"

definition test_peer_path :: "string \<Rightarrow> peer_path_diagnostic_kind \<Rightarrow> peer_path_diagnostic" where
  "test_peer_path device_id path =
     \<lparr>pd_device_id = device_id, pd_path = path, pd_endpoint = None, pd_rtt_ms = None, pd_failures = 0, pd_tx_packets = 0,
      pd_rx_packets = 0\<rparr>"

abbreviation snapshot :: "(mock_backend, unit) agent_world \<Rightarrow> mock_backend_state" where
  "snapshot w \<equiv> mock_snapshot (aw_backend w)"

section \<open>Credentials\<close>

definition test_new_agent_state_gets_backend_credentials_from_backend :: bool where
  "test_new_agent_state_gets_backend_credentials_from_backend =
     expect_run (ensure_backend_credentials mock_network_backend (agent_state_new ''0'')) (test_agent_world None) (\<lambda>state w.
       ensure_credentials_calls (snapshot w) = 1 \<and> as_backend_public_credential state = ''mock-public-key'')"

definition test_unregistered_agent_state_refreshes_stale_backend_credentials :: bool where
  "test_unregistered_agent_state_refreshes_stale_backend_credentials =
     expect_run (ensure_backend_credentials mock_network_backend
         ((agent_state_new ''0'')\<lparr>as_backend_public_credential := ''tfpk_stale'', as_device_id := None\<rparr>)) (test_agent_world None) (\<lambda>state w.
       ensure_credentials_calls (snapshot w) = 1 \<and> as_backend_public_credential state = ''mock-public-key'')"

lemma credential_tests_pass:
  "test_new_agent_state_gets_backend_credentials_from_backend"
  "test_unregistered_agent_state_refreshes_stale_backend_credentials"
  by code_simp+

section \<open>The network map\<close>

definition test_applies_network_map_to_backend :: bool where
  "test_applies_network_map_to_backend =
     (let peer = (hd (nm_peers (network_map_with_version 1)))
            \<lparr>nmp_endpoints := [test_endpoint_payload ''lan'' ''192.168.1.30'' 51820 ''udp'']\<rparr> in
      expect_run (apply_network_map_to_backend mock_network_backend test_self_state
          ((network_map_with_version 1)\<lparr>nm_peers := [peer]\<rparr>)) (test_agent_world None) (\<lambda>_ w.
        map lc_overlay_ip (local_configs (snapshot w)) = [Ipv4Addr 100 64 0 2] \<and>
        map (map (\<lambda>p. (device_id_str (pc_device_id p), pc_hostname p))) (peer_maps (snapshot w)) = [[(''dev_peer'', ''peer'')]] \<and>
        length (relay_maps (snapshot w)) = 1))"

definition test_applies_relay_map_to_backend :: bool where
  "test_applies_relay_map_to_backend =
     expect_run (apply_network_map_to_backend mock_network_backend test_self_state
         ((network_map_with_version 1)\<lparr>nm_relays :=
           [\<lparr>rm_relay_id = ''relay_1'', rm_url = ''tcp://127.0.0.1:9443'', rm_region = ''local'', rm_healthy = True\<rparr>,
            \<lparr>rm_relay_id = ''relay_down'', rm_url = ''tcp://127.0.0.1:9444'', rm_region = ''local'', rm_healthy = False\<rparr>]\<rparr>))
         (test_agent_world None) (\<lambda>_ w.
       map (map (\<lambda>r. (rc_relay_id r, rc_url r))) (relay_maps (snapshot w)) = [[(''relay_1'', ''tcp://127.0.0.1:9443'')]])"

definition test_skips_unchanged_network_map_version :: bool where
  "test_skips_unchanged_network_map_version =
     expect_run (apply_network_map_if_changed test_agent_env mock_network_backend test_self_state (network_map_with_version 7))
         (test_agent_world (Some 7)) (\<lambda>_ w.
       local_configs (snapshot w) = [] \<and> peer_maps (snapshot w) = [] \<and> aw_last_version w = Some 7)"

definition test_applies_changed_network_map_version :: bool where
  "test_applies_changed_network_map_version =
     expect_run (apply_network_map_if_changed test_agent_env mock_network_backend test_self_state (network_map_with_version 8))
         (test_agent_world (Some 7)) (\<lambda>_ w.
       length (local_configs (snapshot w)) = 1 \<and> length (peer_maps (snapshot w)) = 1 \<and> aw_last_version w = Some 8)"

definition test_maintains_peer_paths_after_changed_network_map :: bool where
  "test_maintains_peer_paths_after_changed_network_map =
     expect_run (apply_network_map_and_maintain_paths test_agent_env mock_network_backend test_self_state (network_map_with_version 8))
         (test_agent_world None) (\<lambda>_ w.
       length (peer_maps (snapshot w)) = 1 \<and> maintain_peer_paths_calls (snapshot w) = 1)"

definition test_maintains_peer_paths_when_network_map_is_unchanged :: bool where
  "test_maintains_peer_paths_when_network_map_is_unchanged =
     expect_run (apply_network_map_and_maintain_paths test_agent_env mock_network_backend test_self_state (network_map_with_version 8))
         (test_agent_world (Some 8)) (\<lambda>_ w.
       peer_maps (snapshot w) = [] \<and> maintain_peer_paths_calls (snapshot w) = 1)"

lemma network_map_tests_pass:
  "test_applies_network_map_to_backend" "test_applies_relay_map_to_backend" "test_skips_unchanged_network_map_version"
  "test_applies_changed_network_map_version" "test_maintains_peer_paths_after_changed_network_map"
  "test_maintains_peer_paths_when_network_map_is_unchanged"
  by code_simp+

text \<open>The test that reads the state file back is over any JSON codec that reads what it writes.\<close>

definition test_stores_dns_snapshot_from_network_map :: "agent_env \<Rightarrow> bool" where
  "test_stores_dns_snapshot_from_network_map env =
     (let network_map = (network_map_with_version 9)\<lparr>nm_dns_records :=
            [\<lparr>dr_device_id = ''dev_peer'', dr_name = ''peer.mesh'', dr_record_type = ''A'', dr_value = ''100.64.0.3''\<rparr>]\<rparr> in
      expect_run (on_state_file (agent_state_save env test_self_state)) (test_agent_world (Some 8)) (\<lambda>_ w.
      expect_run (apply_network_map_if_changed env mock_network_backend test_self_state network_map) w (\<lambda>_ w.
      expect_run (on_state_file (agent_state_load env)) w (\<lambda>saved w.
        expect_some saved (\<lambda>saved.
          map (\<lambda>r. (dr_name r, dr_value r)) (as_dns_records saved) = [(''peer.mesh'', ''100.64.0.3'')] \<and> length (aw_dns w) = 1)))))"

lemma dns_snapshot_test_passes:
  assumes "\<And>s. \<exists>bs. ae_ser env s = Inr bs \<and> ae_de env bs = Inr s"
  shows "test_stores_dns_snapshot_from_network_map env"
proof -
  obtain ser where ser: "\<And>s. ae_ser env s = Inr (ser s)" "\<And>s. ae_de env (ser s) = Inr s" using assms by metis
  have "parse_ipv4 ''100.64.0.2'' = Some (Ipv4Addr 100 64 0 2)" "parse_ipv4 ''100.64.0.3'' = Some (Ipv4Addr 100 64 0 3)"
    by code_simp+
  then show ?thesis
    by (simp add: test_stores_dns_snapshot_from_network_map_def Let_def on_state_file_def agent_state_save_def fs_call_def ser
        apply_network_map_if_changed_def apply_network_map_to_backend_def prog_bind_def prog_result_def on_backend_def
        mock_network_backend_def mock_call_def network_map_to_peer_configs_def peer_to_config_def save_dns_snapshot_def
        agent_state_load_def test_agent_world_def test_self_state_def network_map_with_version_def)
qed

section \<open>The loop\<close>

definition test_schedule :: "system_time \<Rightarrow> agent_schedule" where
  "test_schedule now =
     \<lparr>next_sync_at = now + int (secs 5), next_path_maintenance_at = now + int DIRECT_PATH_MAINTENANCE_INTERVAL\<rparr>"

definition test_agent_loop_tick_runs_path_maintenance_before_sync_interval :: "system_time \<Rightarrow> bool" where
  "test_agent_loop_tick_runs_path_maintenance_before_sync_interval now =
     (fst (next_agent_loop_tick (now + int DIRECT_PATH_MAINTENANCE_INTERVAL) (secs 5) (test_schedule now)) =
        \<lparr>tick_sync = False, tick_maintain_paths = True\<rparr>)"

definition test_agent_loop_tick_runs_sync_and_path_maintenance_when_due :: "system_time \<Rightarrow> bool" where
  "test_agent_loop_tick_runs_sync_and_path_maintenance_when_due now =
     (fst (next_agent_loop_tick (now + int (secs 5)) (secs 5) (test_schedule now)) =
        \<lparr>tick_sync = True, tick_maintain_paths = True\<rparr>)"

definition test_agent_loop_sleep_duration_uses_next_due_task :: "system_time \<Rightarrow> bool" where
  "test_agent_loop_sleep_duration_uses_next_due_task now =
     (agent_loop_sleep_duration now (test_schedule now) = DIRECT_PATH_MAINTENANCE_INTERVAL \<and>
      agent_loop_sleep_duration (now + int (secs 5)) (test_schedule now) = 0)"

lemma loop_tests_pass:
  "test_agent_loop_tick_runs_path_maintenance_before_sync_interval now"
  "test_agent_loop_tick_runs_sync_and_path_maintenance_when_due now"
  "test_agent_loop_sleep_duration_uses_next_due_task now"
  by (simp_all add: test_agent_loop_tick_runs_path_maintenance_before_sync_interval_def
      test_agent_loop_tick_runs_sync_and_path_maintenance_when_due_def test_agent_loop_sleep_duration_uses_next_due_task_def
      next_agent_loop_tick_def agent_loop_sleep_duration_def test_schedule_def DIRECT_PATH_MAINTENANCE_INTERVAL_def Let_def)

section \<open>Conversions\<close>

definition test_map_peer :: "string \<Rightarrow> endpoint_payload list \<Rightarrow> string list \<Rightarrow> network_map_peer" where
  "test_map_peer ipv4 endpoints routes =
     \<lparr>nmp_device_id = ''dev_test'', nmp_hostname = ''devbox'', nmp_ipv4 = ipv4, nmp_backend_type = ''tfscale'',
      nmp_backend_public_credential = ''peer-public-key'', nmp_endpoints = endpoints, nmp_allowed_routes = routes\<rparr>"

definition test_converts_network_map_peer_to_backend_config :: bool where
  "test_converts_network_map_peer_to_backend_config =
     expect (network_map_to_peer_configs
         [test_map_peer ''100.64.0.3'' [test_endpoint_payload ''lan'' ''192.168.1.30'' 51820 ''udp''] [''100.64.0.3/32'']]) (\<lambda>configs.
       case configs of
         [config] \<Rightarrow> device_id_str (pc_device_id config) = ''dev_test'' \<and> pc_hostname config = ''devbox'' \<and>
           pc_overlay_ip config = Ipv4Addr 100 64 0 3 \<and> bc_public (pc_public_credential config) = ''peer-public-key'' \<and>
           map (\<lambda>ep. (ep_kind ep, ep_protocol ep)) (pc_endpoints config) = [(Lan, Udp)] \<and>
           pc_allowed_routes config = [''100.64.0.3/32'']
       | _ \<Rightarrow> False)"

definition test_converts_backend_endpoint_to_heartbeat_payload :: bool where
  "test_converts_backend_endpoint_to_heartbeat_payload =
     (let payload = endpoint_to_payload
            \<lparr>ep_kind = Lan, ep_address = V4 (Ipv4Addr 192 168 1 30), ep_port = 51820, ep_protocol = Udp\<rparr> in
      epp_kind payload = ''lan'' \<and> epp_address payload = ''192.168.1.30'' \<and> epp_port payload = 51820 \<and>
      epp_protocol payload = ''udp'' \<and> epp_source payload = Some ''local'' \<and> epp_priority payload = Some 100 \<and>
      epp_expires_at payload = None)"

definition test_probe_answer :: "u16 \<Rightarrow> (string \<times> u16) option \<Rightarrow> endpoint_probe_response" where
  "test_probe_answer port server =
     \<lparr>epr_observed_address = ''203.0.113.10'', epr_observed_port = port, epr_protocol = ''udp'',
      epr_udp_probe_address = map_option fst server, epr_udp_probe_port = map_option snd server\<rparr>"

definition test_converts_probe_response_to_public_endpoint :: bool where
  "test_converts_probe_response_to_public_endpoint =
     expect_some (endpoint_from_probe_response (test_probe_answer 49201 None)) (\<lambda>ep.
       epp_kind ep = ''public'' \<and> epp_address ep = ''203.0.113.10'' \<and> epp_port ep = 49201 \<and> epp_protocol ep = ''udp'' \<and>
       epp_source ep = Some ''stun'' \<and> epp_priority ep = Some 50)"

definition test_skips_probe_response_without_port :: bool where
  "test_skips_probe_response_without_port = (endpoint_from_probe_response (test_probe_answer 0 None) = None)"

definition test_parses_udp_probe_server_from_probe_response :: bool where
  "test_parses_udp_probe_server_from_probe_response =
     expect (udp_probe_server (test_probe_answer 49201 (Some (''127.0.0.1'', 3478)))) (\<lambda>server.
       expect_some server (\<lambda>server. server = \<lparr>sa_ip = V4 (Ipv4Addr 127 0 0 1), sa_port = 3478\<rparr>))"

definition test_converts_backend_probe_to_public_endpoint_payload :: bool where
  "test_converts_backend_probe_to_public_endpoint_payload =
     (let ep = endpoint_from_backend_probe
            \<lparr>ep_kind = Public, ep_address = V4 (Ipv4Addr 203 0 113 10), ep_port = 49201, ep_protocol = Udp\<rparr> in
      epp_kind ep = ''public'' \<and> epp_address ep = ''203.0.113.10'' \<and> epp_port ep = 49201 \<and> epp_protocol ep = ''udp'' \<and>
      epp_source ep = Some ''stun'' \<and> epp_priority ep = Some 50)"

definition agent_fails_with :: "agent_error + 'a \<Rightarrow> string \<Rightarrow> bool" where
  "agent_fails_with r message =
     expect_err r (\<lambda>e. case e of AgentError shown \<Rightarrow> contains shown message | _ \<Rightarrow> False)"

definition test_rejects_invalid_peer_overlay_ip :: bool where
  "test_rejects_invalid_peer_overlay_ip =
     agent_fails_with (peer_to_config (test_map_peer ''not-an-ip'' [] [])) ''invalid peer overlay IP''"

definition test_rejects_unknown_endpoint_kind :: bool where
  "test_rejects_unknown_endpoint_kind =
     agent_fails_with (endpoint_to_config (test_endpoint_payload ''bluetooth'' ''192.168.1.30'' 51820 ''udp''))
       ''unsupported endpoint kind''"

lemma conversion_tests_pass:
  "test_converts_network_map_peer_to_backend_config" "test_converts_backend_endpoint_to_heartbeat_payload"
  "test_converts_probe_response_to_public_endpoint" "test_skips_probe_response_without_port"
  "test_parses_udp_probe_server_from_probe_response" "test_converts_backend_probe_to_public_endpoint_payload"
  "test_rejects_invalid_peer_overlay_ip" "test_rejects_unknown_endpoint_kind"
  by code_simp+

section \<open>Doctor\<close>

text \<open>The tests ask for single checks; the host on which they run does not matter.\<close>

definition check_with_id :: "string \<Rightarrow> agent_doctor_report \<Rightarrow> doctor_check option" where
  "check_with_id ident report = find (\<lambda>check. dc_id check = ident) (dp_checks report)"

definition test_doctor_reports_unregistered_agent_failure :: "bool \<Rightarrow> host \<Rightarrow> bool" where
  "test_doctor_reports_unregistered_agent_failure macos h =
     (let report = agent_doctor_report_of macos (agent_state_new ''0'') (test_backend_status [] True) h in
      dp_overall report = DoctorFail \<and>
      expect_some (check_with_id ''state.registered'' report) (\<lambda>check. dc_level check = DoctorFail))"

definition test_doctor_reports_dns_snapshot_and_peer_summary :: "bool \<Rightarrow> host \<Rightarrow> bool" where
  "test_doctor_reports_dns_snapshot_and_peer_summary macos h =
     (let state = (agent_state_new ''0'')
            \<lparr>as_device_id := Some ''dev_self'', as_node_key := Some ''node_self'', as_network_id := Some ''net_default'',
             as_ipv4 := Some ''100.64.0.2'', as_dns_enabled := True, as_dns_healthy := True, as_dns_listen := ''127.0.0.1:1053'',
             as_dns_records := [\<lparr>dr_device_id = ''dev_peer'', dr_name = ''peer.mesh'', dr_record_type = ''A'', dr_value = ''100.64.0.3''\<rparr>]\<rparr>;
          status = test_backend_status [test_peer_path ''dev_a'' DiagDirect, test_peer_path ''dev_b'' DiagRelay] True;
          report = agent_doctor_report_of macos state status h in
      expect_some (check_with_id ''dns.snapshot'' report) (\<lambda>check. dc_level check = DoctorOk) \<and>
      expect_some (check_with_id ''backend.peers'' report) (\<lambda>check. dc_summary check = ''direct=1 relay=1 unknown=0''))"

lemma doctor_tests_pass:
  "test_doctor_reports_unregistered_agent_failure macos h" "test_doctor_reports_dns_snapshot_and_peer_summary macos h"
proof -
  have numbers: "nat_to_dec 1 = ''1''" "nat_to_dec (Suc 0) = ''1''" "nat_to_dec 0 = ''0''" by code_simp+
  have ids: "dc_id (check_registered s) = ''state.registered''" "dc_id (check_backend st) = ''backend.healthy''"
    "dc_id (check_backend_peers st) = ''backend.peers''" "dc_id (check_dns_listener s) = ''dns.listener''"
    "dc_id (check_dns_snapshot s) = ''dns.snapshot''" for s st
    by (simp_all add: check_registered_def check_backend_def check_backend_peers_def check_dns_listener_def
        check_dns_snapshot_def Let_def split: list.split)
  show "test_doctor_reports_unregistered_agent_failure macos h"
    by (simp add: test_doctor_reports_unregistered_agent_failure_def agent_doctor_report_of_def Let_def check_with_id_def ids
        overall_level_def check_registered_def agent_state_new_def agent_state_default_def)
  show "test_doctor_reports_dns_snapshot_and_peer_summary macos h"
    by (simp add: test_doctor_reports_dns_snapshot_and_peer_summary_def agent_doctor_report_of_def Let_def check_with_id_def ids numbers
        check_dns_snapshot_def check_backend_peers_def test_backend_status_def test_peer_path_def)
qed

section \<open>\<open>resolver.rs\<close>\<close>

definition test_builds_linux_systemd_resolved_plan :: bool where
  "test_builds_linux_systemd_resolved_plan =
     (let plan = linux_systemd_resolved_plan resolver_config_default in
      rp_platform plan = LinuxSystemdResolved \<and> rp_config_path plan = LINUX_RESOLVED_CONF \<and>
      contains (rp_install_content plan) ''DNS=127.0.0.1:1053'' \<and> contains (rp_install_content plan) ''Domains=~mesh'' \<and>
      rp_reload_commands plan = [[''systemctl'', ''reload'', ''systemd-resolved'']])"

definition test_builds_macos_resolver_plan :: bool where
  "test_builds_macos_resolver_plan =
     (let plan = macos_resolver_plan resolver_config_default in
      rp_platform plan = MacosResolver \<and> rp_config_path plan = ''/etc/resolver/mesh'' \<and>
      rp_install_content plan = ''nameserver 127.0.0.1\<newline>port 1053\<newline>'' \<and> rp_reload_commands plan = [])"

definition test_status_reports_matching_installed_config :: bool where
  "test_status_reports_matching_installed_config =
     (let plan = \<lparr>rp_platform = LinuxSystemdResolved, rp_config_path = ''/tmp/tfscale-magicdns.conf'',
            rp_install_content = ''[Resolve]\<newline>DNS=127.0.0.1:1053\<newline>Domains=~mesh\<newline>'', rp_reload_commands = [],
            rp_uninstall_paths = [''/tmp/tfscale-magicdns.conf'']\<rparr> in
      case resolver_install plan demo_host of (installed, h) \<Rightarrow>
        let status = resolver_status_of plan h in
        (case resolver_uninstall plan h of (uninstalled, _) \<Rightarrow>
           installed = Inr () \<and> uninstalled = Inr () \<and> rst_installed status \<and> rst_content_matches status))"

lemma resolver_tests_pass:
  "test_builds_linux_systemd_resolved_plan" "test_builds_macos_resolver_plan" "test_status_reports_matching_installed_config"
  by code_simp+

section \<open>\<open>service.rs\<close>\<close>

definition test_service_config :: service_config where
  "test_service_config =
     \<lparr>sc_binary_path = ''/usr/local/bin/tfscale-agent'', sc_state_dir = ''/var/lib/tfscale'', sc_control_url = ''http://control:8080'',
      sc_login_key = ''tfkey_test'', sc_dns_listen = \<lparr>sa_ip = V4 (Ipv4Addr 127 0 0 1), sa_port = 1053\<rparr>\<rparr>"

definition test_builds_linux_systemd_unit :: bool where
  "test_builds_linux_systemd_unit =
     (let plan = linux_systemd_plan test_service_config in
      sp_platform plan = LinuxSystemd \<and> sp_unit_path plan = SYSTEMD_UNIT_PATH \<and> sp_env_path plan = SYSTEMD_ENV_PATH \<and>
      list_all (contains (sp_unit_content plan))
        [''Description=tf-scale agent'', ''EnvironmentFile=/etc/tfscale/agent.env'', ''--state-dir /var/lib/tfscale'',
         ''--login-key ${TFSCALE_LOGIN_KEY}'', ''--control-url ${TFSCALE_CONTROL_URL}'', ''--dns-listen 127.0.0.1:1053''] \<and>
      list_all (contains (sp_env_content plan))
        [''TFSCALE_LOGIN_KEY=tfkey_test'', ''TFSCALE_CONTROL_URL=http://control:8080''] \<and>
      list_ex (\<lambda>command. command = [''systemctl'', ''enable'', SERVICE_NAME]) (sp_install_commands plan))"

definition test_quotes_systemd_arguments_with_spaces :: bool where
  "test_quotes_systemd_arguments_with_spaces =
     (escape_systemd_arg ''/opt/tf scale/agent'' = [CHR 0x27] @ ''/opt/tf scale/agent'' @ [CHR 0x27])"

definition test_quotes_systemd_env_values_with_spaces :: bool where
  "test_quotes_systemd_env_values_with_spaces = (systemd_env_value ''tf key'' = [CHR 0x22] @ ''tf key'' @ [CHR 0x22])"

lemma service_tests_pass:
  "test_builds_linux_systemd_unit" "test_quotes_systemd_arguments_with_spaces" "test_quotes_systemd_env_values_with_spaces"
  by code_simp+

end
