(* ===== verification/Test_Data_Plane.thy ===== *)
theory Test_Data_Plane
  imports Test_Support Platform_Tun Peer_Paths
begin

text \<open>
  The unit tests of \<open>tfscale-custom/src\<close> below the backend: \<open>frame.rs\<close>, \<open>packet.rs\<close>, \<open>nonce.rs\<close>, \<open>crypto.rs\<close>,
  \<open>transport.rs\<close>, \<open>tun.rs\<close> and \<open>platform/\<close>.
\<close>

section \<open>\<open>frame.rs\<close> and \<open>packet.rs\<close>\<close>

definition test_frame_header_round_trips :: bool where
  "test_frame_header_round_trips =
     (let source = replicate DEVICE_ID_LEN 1; destination = replicate DEVICE_ID_LEN 2;
          header = frame_header_data source destination (replicate NONCE_LEN 3) in
      expect (frame_header_encode header) (\<lambda>encoded.
      expect (frame_header_decode encoded) (\<lambda>decoded. decoded = header)))"

definition test_probe_frame_header_round_trips :: bool where
  "test_probe_frame_header_round_trips =
     (let source = replicate DEVICE_ID_LEN 1; destination = replicate DEVICE_ID_LEN 2;
          header = frame_header_new source destination (replicate NONCE_LEN 3) FRAME_TYPE_PROBE in
      expect (frame_header_encode header) (\<lambda>encoded.
      expect (frame_header_decode encoded) (\<lambda>decoded. decoded = header)))"

definition test_rejects_short_frames :: bool where
  "test_rejects_short_frames =
     fails_with (frame_header_decode (replicate (HEADER_LEN - 1) 0)) ''malformed frame length''"

definition test_rejects_unknown_frame_version :: bool where
  "test_rejects_unknown_frame_version =
     fails_with (frame_header_decode ((replicate HEADER_LEN 0)[0 := 2, 1 := FRAME_TYPE_DATA])) ''unsupported frame version''"

text \<open>\<open>uuid\<close> is the text that \<open>Uuid::now_v7().simple()\<close> gives.\<close>

definition test_parses_generated_device_id :: "(string \<Rightarrow> string + bytes) \<Rightarrow> string \<Rightarrow> bool" where
  "test_parses_generated_device_id parse uuid =
     expect (from_device_id parse (''dev_'' @ uuid)) (\<lambda>_. True)"

lemma frame_tests_pass:
  "test_frame_header_round_trips" "test_probe_frame_header_round_trips" "test_rejects_short_frames"
  "test_rejects_unknown_frame_version"
  by code_simp+

lemma generated_device_id_test_passes:
  "parse uuid = Inr bs \<Longrightarrow> test_parses_generated_device_id parse uuid"
  by (simp add: test_parses_generated_device_id_def from_device_id_def strip_prefix_def)

definition test_parses_ipv4_destination :: bool where
  "test_parses_ipv4_destination =
     (let packet = (replicate 20 0)[0 := 0x45, 16 := 100, 17 := 64, 18 := 0, 19 := 3] in
      expect (ipv4_destination packet) (\<lambda>destination. destination = Ipv4Addr 100 64 0 3))"

definition test_rejects_non_ipv4_packets :: bool where
  "test_rejects_non_ipv4_packets =
     fails_with (ipv4_destination ((replicate 20 0)[0 := 0x60])) ''unsupported packet IP version''"

definition test_rejects_short_packets :: bool where
  "test_rejects_short_packets = fails_with (ipv4_destination (replicate 19 0)) ''packet is too short''"

lemma packet_tests_pass:
  "test_parses_ipv4_destination" "test_rejects_non_ipv4_packets" "test_rejects_short_packets"
  by code_simp+

section \<open>\<open>nonce.rs\<close>\<close>

definition test_send_nonce_counter_increments :: bool where
  "test_send_nonce_counter_increments =
     (let (first, state) = send_nonce_next (send_nonce_with_salt (replicate 8 1) (replicate 8 2));
          (second, state) = send_nonce_next state in
      expect first (\<lambda>first. expect second (\<lambda>second.
        nonce_counter first = 0 \<and> nonce_counter second = 1 \<and> first \<noteq> second)))"

definition test_send_nonce_counter_refuses_overflow :: bool where
  "test_send_nonce_counter_refuses_overflow =
     fails_with (fst (send_nonce_next ((send_nonce_with_salt (replicate 8 1) (replicate 8 2))\<lparr>sn_counter := - 1\<rparr>)))
       ''send nonce counter exhausted''"

definition test_replay_window_rejects_duplicate_nonce :: bool where
  "test_replay_window_rejects_duplicate_nonce =
     expect (fst (send_nonce_next (send_nonce_with_salt (replicate 8 1) (replicate 8 2)))) (\<lambda>nonce.
       let (first, window) = replay_accept replay_window_default nonce in
       first = Inr () \<and> fails_with (fst (replay_accept window nonce)) ''replayed frame nonce'')"

text \<open>The loop that takes and accepts \<open>n\<close> newer nonces.\<close>

fun accept_newer :: "nat \<Rightarrow> send_nonce_state \<Rightarrow> replay_window \<Rightarrow> (replay_window \<Rightarrow> bool) \<Rightarrow> bool" where
  "accept_newer 0 state window rest = rest window"
| "accept_newer (Suc n) state window rest =
     (let (next, state) = send_nonce_next state in
      expect next (\<lambda>nonce. let (accepted, window) = replay_accept window nonce in
        accepted = Inr () \<and> accept_newer n state window rest))"

definition test_replay_window_rejects_stale_nonce :: bool where
  "test_replay_window_rejects_stale_nonce =
     (let (stale, state) = send_nonce_next (send_nonce_with_salt (replicate 8 1) (replicate 8 2)) in
      expect stale (\<lambda>stale.
        accept_newer (unat REPLAY_WINDOW_BITS) state replay_window_default (\<lambda>window.
          fails_with (fst (replay_accept window stale)) ''stale frame nonce'')))"

lemma nonce_tests_pass:
  "test_send_nonce_counter_increments" "test_send_nonce_counter_refuses_overflow"
  "test_replay_window_rejects_duplicate_nonce"
  by code_simp+

lemma stale_nonce_test_passes: "test_replay_window_rejects_stale_nonce"
  by code_simp

section \<open>\<open>crypto.rs\<close>\<close>

text \<open>
  Primitives to run the tests on: a public key adds one to every byte, key agreement adds the keys, keys are derived by adding the secret
  and the context, and a sealed text ends with a checksum over key, nonce, associated data and text.
\<close>

definition test_prims :: crypto_prims where
  "test_prims = demo_prims\<lparr>public_of := (\<lambda>k. map ((+) 1) (pad32 k)), hkdf_sha256 := (\<lambda>salt ikm info n.
     Inr (map2 (+) (take n (ikm @ replicate n 0)) (take n (rev info @ replicate n 0))))\<rparr>"

lemma map2_add_one: "map2 (+) xs (map ((+) 1) ys) = map ((+) 1) (map2 (+) xs (ys :: u8 list))"
  by (induction xs ys rule: list_induct2') (simp_all add: ac_simps)

lemma test_prims_laws: "crypto_laws test_prims"
  unfolding crypto_laws_def
  by (simp add: test_prims_def demo_prims_def map2_add_one map2_add_commute min_def)

text \<open>The two keys of \<open>generate_identity()\<close>, from its random bytes.\<close>

definition test_identity :: "bytes \<Rightarrow> string \<times> string" where
  "test_identity private_key =
     (encode_key test_prims private_key, encode_public_credential test_prims (public_of test_prims private_key))"

definition session_pair :: "u8 \<Rightarrow> u8 \<Rightarrow> (peer_crypto_session \<times> peer_crypto_session) backend_result" where
  "session_pair a b =
     (let (left_private, left_public) = test_identity (replicate 32 a);
          (right_private, right_public) = test_identity (replicate 32 b);
          left_id = replicate 16 1; right_id = replicate 16 2 in
      and_then (decode_key test_prims left_private) (\<lambda>left_key.
      and_then (peer_crypto_session_new test_prims (Inr (replicate 8 a)) left_key left_public right_public left_id right_id) (\<lambda>left.
      and_then (decode_key test_prims right_private) (\<lambda>right_key.
      and_then (peer_crypto_session_new test_prims (Inr (replicate 8 b)) right_key right_public left_public right_id left_id) (\<lambda>right.
        Inr (left, right))))))"

text \<open>The pairs that the tests work with, and what they evaluate to.\<close>

definition first_pair :: "(peer_crypto_session \<times> peer_crypto_session) backend_result" where
  "first_pair = session_pair 3 5"

definition second_pair :: "(peer_crypto_session \<times> peer_crypto_session) backend_result" where
  "second_pair = session_pair 11 13"

definition session_value :: "u8 \<Rightarrow> u8 \<Rightarrow> u8 \<Rightarrow> u8 \<Rightarrow> u8 \<Rightarrow> u8 \<Rightarrow> peer_crypto_session" where
  "session_value local peer key send salt receive =
     \<lparr>cs_local_id = replicate 16 local, cs_peer_id = replicate 16 peer, cs_cipher = replicate 32 key,
      cs_send_nonces = send_nonce_with_salt (replicate 8 send) (replicate 8 salt),
      cs_receive_window = replay_window_default, cs_receive_direction_prefix = replicate 8 receive\<rparr>"

lemma first_pair_value [code]: "first_pair = Inr (session_value 1 2 15 11 3 10, session_value 2 1 15 10 5 11)"
  unfolding first_pair_def by code_simp

lemma second_pair_value [code]: "second_pair = Inr (session_value 1 2 39 27 11 26, session_value 2 1 39 26 13 27)"
  unfolding second_pair_def by code_simp

definition test_decodes_public_credentials :: bool where
  "test_decodes_public_credentials =
     expect (decode_public_credential test_prims (encode_public_credential test_prims (replicate 32 7)))
       (\<lambda>decoded. decoded = replicate 32 7)"

definition test_rejects_invalid_public_credentials :: bool where
  "test_rejects_invalid_public_credentials =
     fails_with (decode_public_credential test_prims ''peer-public-key'') ''unsupported peer credential prefix''"

definition test_seals_and_opens_packet_frame :: bool where
  "test_seals_and_opens_packet_frame =
     expect first_pair (\<lambda>(left, right).
       let packet = [0x45, 0x00, 0x00, 0x54] in
       expect (fst (seal test_prims left packet)) (\<lambda>frame.
       expect (fst (open_packet test_prims right frame)) (\<lambda>opened. opened = packet)))"

definition test_seals_and_opens_probe_frame :: bool where
  "test_seals_and_opens_probe_frame =
     expect first_pair (\<lambda>(left, right).
       expect (fst (seal_message test_prims left (as_bytes ''probe'') FRAME_TYPE_PROBE)) (\<lambda>frame.
       expect (fst (open_message test_prims right frame)) (\<lambda>opened.
         of_message_type opened = FRAME_TYPE_PROBE \<and> of_plaintext opened = as_bytes ''probe'')))"

definition test_rejects_tampered_header :: bool where
  "test_rejects_tampered_header =
     expect first_pair (\<lambda>(left, right).
       expect (fst (seal test_prims left [1, 2, 3, 4])) (\<lambda>frame.
         let result = fst (open_packet test_prims right (frame[4 := frame ! 4 XOR 1])) in
         fails_with result ''frame source'' \<or> fails_with result ''packet authentication failed''))"

definition test_rejects_tampered_ciphertext :: bool where
  "test_rejects_tampered_ciphertext =
     expect first_pair (\<lambda>(left, right).
       expect (fst (seal test_prims left [1, 2, 3, 4])) (\<lambda>frame.
         let at = length frame - 1 in
         fails_with (fst (open_packet test_prims right (frame[at := frame ! at XOR 1]))) ''packet authentication failed''))"

definition test_rejects_replayed_frame :: bool where
  "test_rejects_replayed_frame =
     expect first_pair (\<lambda>(left, right).
       expect (fst (seal test_prims left [1, 2, 3, 4])) (\<lambda>frame.
         let (first, right) = open_packet test_prims right frame in
         expect first (\<lambda>_. fails_with (fst (open_packet test_prims right frame)) ''replayed frame nonce'')))"

definition test_different_peer_pairs_cannot_open_frames :: bool where
  "test_different_peer_pairs_cannot_open_frames =
     expect first_pair (\<lambda>(left, _). expect second_pair (\<lambda>(_, unrelated).
       expect (fst (seal test_prims left [1, 2, 3, 4])) (\<lambda>frame.
         let result = fst (open_packet test_prims unrelated frame) in
         fails_with result ''frame source'' \<or> fails_with result ''frame nonce direction'' \<or>
         fails_with result ''packet authentication failed'')))"

definition test_nonce_has_expected_length :: bool where
  "test_nonce_has_expected_length = (NONCE_LEN = 24)"

lemma crypto_tests_pass:
  "test_decodes_public_credentials" "test_rejects_invalid_public_credentials"
  "test_seals_and_opens_packet_frame" "test_seals_and_opens_probe_frame" "test_rejects_tampered_header"
  "test_rejects_tampered_ciphertext" "test_rejects_replayed_frame"
  "test_different_peer_pairs_cannot_open_frames" "test_nonce_has_expected_length"
  by code_simp+

section \<open>\<open>transport.rs\<close>\<close>

definition test_endpoint :: "endpoint_kind \<Rightarrow> ipv4_addr \<Rightarrow> u16 \<Rightarrow> transport_protocol \<Rightarrow> endpoint" where
  "test_endpoint kind address port protocol =
     \<lparr>ep_kind = kind, ep_address = V4 address, ep_port = port, ep_protocol = protocol\<rparr>"

definition test_selects_lan_udp_endpoint :: bool where
  "test_selects_lan_udp_endpoint =
     expect_some (select_udp_endpoint
         [test_endpoint Public (Ipv4Addr 203 0 113 10) 51820 Udp, test_endpoint Lan (Ipv4Addr 192 168 1 30) 51820 Udp])
       (\<lambda>ep. ep_kind ep = Lan \<and> ep_protocol ep = Udp)"

definition test_ranks_udp_endpoints_by_direct_preference :: bool where
  "test_ranks_udp_endpoints_by_direct_preference =
     (map ep_kind (sorted_udp_endpoints
        [test_endpoint Relay (Ipv4Addr 203 0 113 20) 443 Udp, test_endpoint Public (Ipv4Addr 203 0 113 10) 51820 Udp,
         test_endpoint Lan (Ipv4Addr 192 168 1 30) 51820 Udp]) = [Lan, Public, Relay])"

definition test_ranks_public_before_loopback_lan_endpoint :: bool where
  "test_ranks_public_before_loopback_lan_endpoint =
     expect_some (parse_ip ''203.0.113.10'') (\<lambda>address.
       map ep_kind (sorted_udp_endpoints
         [test_endpoint Lan ipv4_localhost 51820 Udp,
          \<lparr>ep_kind = Public, ep_address = address, ep_port = 51820, ep_protocol = Udp\<rparr>]) = [Public, Lan])"

definition test_ignores_non_udp_endpoints :: bool where
  "test_ignores_non_udp_endpoints =
     (select_udp_endpoint [test_endpoint Lan (Ipv4Addr 192 168 1 30) 443 Tcp] = None)"

lemma endpoint_tests_pass:
  "test_selects_lan_udp_endpoint" "test_ranks_udp_endpoints_by_direct_preference"
  "test_ranks_public_before_loopback_lan_endpoint" "test_ignores_non_udp_endpoints"
  by code_simp+

text \<open>
  The loopback interface: \<open>bind(0)\<close> gets a free port, and \<open>deliver\<close> puts what one transport sent to the
  port of another, and nothing else, where the second receives it. A send reports \<open>sent\<close> bytes.
\<close>

definition loopback_bind :: "u16 \<Rightarrow> nat \<Rightarrow> bind_env" where
  "loopback_bind port sent =
     \<lparr>be_socket = Inr \<lparr>so_local_addr = Inr \<lparr>sa_ip = V4 ipv4_unspecified, sa_port = port\<rparr>,
        so_send_outcome = (\<lambda>_. Inr sent), so_recv_outcome = (\<lambda>_. WouldBlock), so_sends = 0, so_recvs = 0, so_outbox = []\<rparr>,
      be_nonblocking = Inr (), be_lan_bind = Inr (), be_lan_connect = Inr (),
      be_lan_addr = Inr \<lparr>sa_ip = V4 (Ipv4Addr 192 168 1 2), sa_port = 40000\<rparr>, be_now = 0\<rparr>"

definition loopback_port :: "transport_runtime \<Rightarrow> u16" where
  "loopback_port tr = (case so_local_addr (tr_socket tr) of Inr addr \<Rightarrow> sa_port addr | Inl _ \<Rightarrow> 0)"

definition datagrams_to :: "u16 \<Rightarrow> transport_runtime \<Rightarrow> bytes list" where
  "datagrams_to port tr = map fst (filter (\<lambda>(_, addr). sa_port addr = port) (so_outbox (tr_socket tr)))"

definition arriving :: "bytes list \<Rightarrow> socket_addr \<Rightarrow> nat \<Rightarrow> recv_outcome" where
  "arriving datagrams source n = (if n < length datagrams then Datagram (datagrams ! n) source else WouldBlock)"

definition deliver :: "transport_runtime \<Rightarrow> transport_runtime \<Rightarrow> transport_runtime" where
  "deliver sender receiver =
     receiver\<lparr>tr_socket := (tr_socket receiver)\<lparr>so_recv_outcome :=
       arriving (datagrams_to (loopback_port receiver) sender) \<lparr>sa_ip = V4 ipv4_localhost, sa_port = loopback_port sender\<rparr>\<rparr>\<rparr>"

definition test_binds_udp_socket_and_reports_endpoint :: bool where
  "test_binds_udp_socket_and_reports_endpoint =
     expect (transport_bind (loopback_bind 7 0) 0) (\<lambda>runtime.
       case transport_local_endpoints runtime of
         [] \<Rightarrow> False
       | ep # _ \<Rightarrow> ep_kind ep = Lan \<and> ep_protocol ep = Udp \<and>
           expect (transport_local_addr runtime) (\<lambda>addr. ep_port ep = sa_port addr) \<and> udp_bound (tr_status runtime))"

text \<open>\<open>receive_with_retry\<close>: ten attempts.\<close>

fun receive_with_retry :: "nat \<Rightarrow> nat \<Rightarrow> transport_runtime \<Rightarrow> bytes option \<times> transport_runtime" where
  "receive_with_retry 0 buffer_len tr = (None, tr)"
| "receive_with_retry (Suc n) buffer_len tr =
     (case receive_frame buffer_len tr of
        (Inr (Some (received, _)), tr') \<Rightarrow> (Some received, tr')
      | (Inr None, tr') \<Rightarrow> receive_with_retry n buffer_len tr'
      | (Inl _, tr') \<Rightarrow> (None, tr'))"

definition test_sends_and_receives_udp_frame_on_loopback :: bool where
  "test_sends_and_receives_udp_frame_on_loopback =
     expect (transport_bind (loopback_bind 7 13) 0) (\<lambda>left.
     expect (transport_bind (loopback_bind 8 13) 0) (\<lambda>right.
     expect (transport_local_addr right) (\<lambda>addr.
       case send_frame (test_endpoint Lan ipv4_localhost (sa_port addr) Udp) (as_bytes ''tfscale-frame'') left of
         (sent, left) \<Rightarrow> (case receive_with_retry 10 64 (deliver left right) of
           (received, right) \<Rightarrow>
             expect sent (\<lambda>_. expect_some received (\<lambda>received. received = as_bytes ''tfscale-frame'')) \<and>
             tx_packets (tr_status left) = 1 \<and> rx_packets (tr_status right) = 1))))"

text \<open>The thread of the test answers the probe with the address it comes from.\<close>

definition test_probes_public_endpoint_on_loopback :: bool where
  "test_probes_public_endpoint_on_loopback =
     expect (transport_bind (loopback_bind 7 23) 0) (\<lambda>client.
       let server_addr = \<lparr>sa_ip = V4 ipv4_localhost, sa_port = 9\<rparr>;
           source = \<lparr>sa_ip = V4 ipv4_localhost, sa_port = loopback_port client\<rparr>;
           client = client\<lparr>tr_socket := (tr_socket client)\<lparr>so_recv_outcome := (\<lambda>n.
             if n = 1 then Datagram (encode_probe_response source) server_addr else WouldBlock)\<rparr>\<rparr> in
       case transport_probe_public_endpoint (Suc (Suc 0)) (\<lambda>n. 10000000 * int n) server_addr (secs 1) client of
         None \<Rightarrow> False
       | Some (result, client) \<Rightarrow>
           so_outbox (tr_socket client) = [(PUBLIC_ENDPOINT_PROBE_REQUEST, server_addr)] \<and>
           expect result (\<lambda>probe. expect_some probe (\<lambda>probe.
             let ep = observed_endpoint probe in
             ep_kind ep = Public \<and> ep_protocol ep = Udp \<and> ep_address ep = V4 ipv4_localhost \<and>
             expect (transport_local_addr client) (\<lambda>addr. ep_port ep = sa_port addr))))"

fun receive_packet_with_retry ::
  "nat \<Rightarrow> peer_crypto_session \<Rightarrow> nat \<Rightarrow> transport_runtime \<Rightarrow> bytes option \<times> peer_crypto_session \<times> transport_runtime" where
  "receive_packet_with_retry 0 crypto buffer_len tr = (None, crypto, tr)"
| "receive_packet_with_retry (Suc n) crypto buffer_len tr =
     (case receive_packet test_prims crypto buffer_len tr of
        (Inr (Some packet), crypto', tr') \<Rightarrow> (Some packet, crypto', tr')
      | (Inr None, crypto', tr') \<Rightarrow> receive_packet_with_retry n crypto' buffer_len tr'
      | (Inl _, crypto', tr') \<Rightarrow> (None, crypto', tr'))"

definition ipv4_packet :: "ipv4_addr \<Rightarrow> ipv4_addr \<Rightarrow> bytes" where
  "ipv4_packet source destination =
     take 12 ((replicate 20 0)[0 := 0x45, 8 := 64, 9 := 1]) @ octets source @ octets destination"

definition test_sends_and_receives_encrypted_packet_on_loopback :: bool where
  "test_sends_and_receives_encrypted_packet_on_loopback =
     expect (transport_bind (loopback_bind 7 81) 0) (\<lambda>left.
     expect (transport_bind (loopback_bind 8 81) 0) (\<lambda>right.
     expect (transport_local_addr right) (\<lambda>addr.
     expect first_pair (\<lambda>(left_crypto, right_crypto).
       let packet = ipv4_packet (Ipv4Addr 100 64 0 2) (Ipv4Addr 100 64 0 3) in
       case send_packet test_prims (test_endpoint Lan ipv4_localhost (sa_port addr) Udp) left_crypto packet left of
         (sent, _, left) \<Rightarrow> (case receive_packet_with_retry 10 right_crypto 1500 (deliver left right) of
           (opened, _, right) \<Rightarrow>
             expect sent (\<lambda>_. expect_some opened (\<lambda>opened. opened = packet)) \<and>
             tx_packets (tr_status left) = 1 \<and> rx_packets (tr_status right) = 1 \<and> rx_drops (tr_status right) = 0)))))"

lemma transport_tests_pass:
  "test_binds_udp_socket_and_reports_endpoint" "test_sends_and_receives_udp_frame_on_loopback"
  "test_sends_and_receives_encrypted_packet_on_loopback"
  by code_simp+

lemma public_endpoint_test_passes: "test_probes_public_endpoint_on_loopback"
proof -
  have "take 256 (encode_probe_response \<lparr>sa_ip = V4 ipv4_localhost, sa_port = 7\<rparr>) =
      encode_probe_response \<lparr>sa_ip = V4 ipv4_localhost, sa_port = 7\<rparr>"
    by code_simp
  then show ?thesis
    by (simp add: test_probes_public_endpoint_on_loopback_def loopback_bind_def transport_bind_def Let_def
        loopback_port_def transport_probe_public_endpoint_def send_probe_request_def send_to_def
        recv_from_def probe_response_roundtrip transport_local_addr_def inc_tx_packets_def inc_rx_packets_def)
qed

section \<open>\<open>tun.rs\<close> and \<open>platform/\<close>\<close>

definition test_builds_tun_config_from_local_backend_config :: bool where
  "test_builds_tun_config_from_local_backend_config =
     (let config = from_local_config \<lparr>lc_device_id = ''dev_test'', lc_interface_name = ''tfscale0'',
            lc_overlay_ip = Ipv4Addr 100 64 0 2, lc_listen_port = 51820\<rparr> in
      tc_interface_name config = ''tfscale0'' \<and> tc_overlay_ip config = Ipv4Addr 100 64 0 2 \<and>
      tc_listen_port config = 51820 \<and> tc_overlay_cidr config = ''100.64.0.0/10'')"

definition test_failed_status_is_not_io_ready :: bool where
  "test_failed_status_is_not_io_ready =
     (let status = tun_status_failed ''tfscale0'' ''not ready'' in
      \<not> tus_configured status \<and> \<not> tus_io_ready status \<and> tus_interface_name status = ''tfscale0'')"

definition test_config :: "string \<Rightarrow> tun_config" where
  "test_config interface_name =
     \<lparr>tc_interface_name = interface_name, tc_overlay_ip = Ipv4Addr 100 64 0 2, tc_listen_port = 51820,
      tc_overlay_cidr = ''100.64.0.0/10''\<rparr>"

definition test_plans_linux_ip_commands :: bool where
  "test_plans_linux_ip_commands =
     (linux_plan_ip_commands (test_config ''tfscale0'') =
        [planned_command_new ''ip'' [''addr'', ''replace'', ''100.64.0.2/32'', ''dev'', ''tfscale0''],
         planned_command_new ''ip'' [''link'', ''set'', ''tfscale0'', ''up''],
         planned_command_new ''ip'' [''route'', ''replace'', ''100.64.0.0/10'', ''dev'', ''tfscale0'']])"

definition test_plans_linux_cleanup_commands :: bool where
  "test_plans_linux_cleanup_commands =
     (linux_plan_cleanup_commands (test_config ''tfscale0'') =
        [planned_command_new ''ip'' [''route'', ''del'', ''100.64.0.0/10'', ''dev'', ''tfscale0''],
         planned_command_new ''ip'' [''link'', ''del'', ''tfscale0'']])"

definition test_plans_macos_ifconfig_commands :: bool where
  "test_plans_macos_ifconfig_commands =
     (macos_plan_ifconfig_commands (test_config ''tfscale0'') ''utun4'' =
        [planned_command_new ''ifconfig''
           [''utun4'', ''inet'', ''100.64.0.2'', ''100.64.0.2'', ''netmask'', ''255.255.255.255'', ''up'']])"

definition test_plans_macos_route_commands :: bool where
  "test_plans_macos_route_commands =
     (macos_plan_route_commands (test_config ''tfscale0'') ''utun4'' =
        [planned_command_new ''route'' [''-n'', ''add'', ''-net'', ''100.64.0.0/10'', ''-interface'', ''utun4'']])"

definition test_plans_macos_cleanup_commands :: bool where
  "test_plans_macos_cleanup_commands =
     (macos_plan_cleanup_commands (test_config ''tfscale0'') ''utun4'' =
        [planned_command_new ''route'' [''-n'', ''delete'', ''-net'', ''100.64.0.0/10'', ''-interface'', ''utun4''],
         planned_command_new ''ifconfig'' [''utun4'', ''down'']])"

definition test_only_explicit_utun_names_are_requested :: bool where
  "test_only_explicit_utun_names_are_requested =
     (requested_utun_name (test_config ''tfscale0'') = None \<and>
      requested_utun_name (test_config ''utun12'') = Some ''utun12'')"

lemma tun_tests_pass:
  "test_builds_tun_config_from_local_backend_config" "test_failed_status_is_not_io_ready"
  "test_plans_linux_ip_commands" "test_plans_linux_cleanup_commands" "test_plans_macos_ifconfig_commands"
  "test_plans_macos_route_commands" "test_plans_macos_cleanup_commands" "test_only_explicit_utun_names_are_requested"
  by code_simp+

end
