(* ===== verification/Test_Backend.thy ===== *)
theory Test_Backend
  imports Test_Data_Plane Backend
begin

text \<open>
  The unit tests of \<open>tfscale-custom/src/lib.rs\<close>. They are over any JSON codec of the state file that reads
  back what it writes, \<open>ser\<close> and \<open>de\<close>; the rest of the world is fixed as the tests fix it: no TUN device,
  a socket on the loopback interface, a directory of their own.
\<close>

section \<open>Fixtures\<close>

text \<open>For evaluation: the clock's seconds and milliseconds by division of integers.\<close>

lemma unix_seconds_code [code]: "unix_seconds t = (if t < 0 then 0 else nat (t div 1000000000))"
  by (simp add: unix_seconds_def duration_since_def nat_div_distrib)

lemma unix_millis_code [code]: "unix_millis t = (if t < 0 then 0 else nat (t div 1000000))"
  by (simp add: unix_millis_def duration_since_def nat_div_distrib)

text \<open>The environment of one backend: \<open>k\<close> stands for its random bytes, \<open>port\<close> for the port that the system picks.\<close>

definition test_env ::
  "(custom_backend_state \<Rightarrow> bytes) \<Rightarrow> (bytes \<Rightarrow> string + custom_backend_state) \<Rightarrow> u8 \<Rightarrow> u16 \<Rightarrow> nat \<Rightarrow> backend_env" where
  "test_env ser de k port sent =
     \<lparr>en_prims = test_prims, en_ser = (\<lambda>s. Inr (ser s)), en_de = de, en_to_json = (\<lambda>_. Inr []),
      en_rnd = (\<lambda>_. Inr (replicate 8 k)), en_private_key = replicate 32 k, en_uuid = ''0'', en_now = 0,
      en_clock = (\<lambda>_. 0), en_target = Linux, en_bind = loopback_bind port sent,
      en_connect = (\<lambda>_ _. Inl ''refused''), en_fuel = Suc (Suc 0)\<rparr>"

definition temp_disk :: disk where
  "temp_disk = \<lparr>dk_file = None, dk_tmp = None, dk_fail = (\<lambda>_. None), dk_partial = [], dk_calls = 0,
     dk_file_mode = 0, dk_tmp_mode = 0, dk_new_mode = 0\<rparr>"

definition test_os :: os_env where
  "test_os = \<lparr>os_command = (\<lambda>_. SpawnNotFound), os_log = [], os_dev_net_tun = False, os_build_device = (\<lambda>_. Inl ''no device'')\<rparr>"

definition test_backend :: "disk \<Rightarrow> custom_backend" where
  "test_backend path = with_tun_setup False (with_state_path ''tfscale0'' path test_os)"

definition read_state :: "(bytes \<Rightarrow> string + custom_backend_state) \<Rightarrow> custom_backend \<Rightarrow> (custom_backend_state \<Rightarrow> bool) \<Rightarrow> bool" where
  "read_state de b body = expect_some (dk_file (cb_disk b)) (\<lambda>bs. expect (de bs) body)"

definition test_public_credential :: string where
  "test_public_credential = snd (test_identity (replicate 32 9))"

definition test_peer :: "string \<Rightarrow> ipv4_addr \<Rightarrow> peer_config" where
  "test_peer device_id overlay_ip =
     \<lparr>pc_device_id = DeviceId_from device_id, pc_hostname = device_id, pc_overlay_ip = overlay_ip,
      pc_public_credential = \<lparr>bc_public = test_public_credential\<rparr>, pc_endpoints = [],
      pc_allowed_routes = [ipv4_to_string overlay_ip @ ''/32'']\<rparr>"

definition test_peer_with_endpoint :: "string \<Rightarrow> ipv4_addr \<Rightarrow> endpoint \<Rightarrow> peer_config" where
  "test_peer_with_endpoint device_id overlay_ip ep = (test_peer device_id overlay_ip)\<lparr>pc_endpoints := [ep]\<rparr>"

definition test_local_config :: "string \<Rightarrow> ipv4_addr \<Rightarrow> local_backend_config" where
  "test_local_config device_id overlay_ip =
     \<lparr>lc_device_id = device_id, lc_interface_name = ''tfscale0'', lc_overlay_ip = overlay_ip, lc_listen_port = 0\<rparr>"

text \<open>What unfolds an operation on a disk that works, down to what it does to the state and the runtime.\<close>

lemmas backend_run_simps = test_backend_def with_tun_setup_def with_state_path_def temp_disk_def
  load_state_def load_state_disk_def on_disk_def fs_call_def save_state_def save_state_disk_def protect_state_file_def
  replace_state_def prog_bind_def prog_result_def with_lock_def validate_state_version_def
  custom_backend_state_default_def write_tmp_def rename_tmp_def set_permissions_def Let_def

section \<open>The state file\<close>

definition test_defaults_to_tfscale_interface_name :: "disk \<Rightarrow> bool" where
  "test_defaults_to_tfscale_interface_name dk = (cb_interface_name (custom_backend_default dk test_os) = ''tfscale0'')"

lemma default_test_passes: "test_defaults_to_tfscale_interface_name dk"
  by (simp add: test_defaults_to_tfscale_interface_name_def custom_backend_default_def custom_backend_new_def with_state_path_def)

definition test_persists_backend_credentials ::
  "(custom_backend_state \<Rightarrow> bytes) \<Rightarrow> (bytes \<Rightarrow> string + custom_backend_state) \<Rightarrow> bool" where
  "test_persists_backend_credentials ser de =
     expect_run (ensure_credentials (test_env ser de 3 7 0)) (test_backend temp_disk) (\<lambda>first b.
     expect_run (ensure_credentials (test_env ser de 4 8 0)) (test_backend (cb_disk b)) (\<lambda>second b.
       read_state de b (\<lambda>state.
         first = second \<and>
         expect_some (st_identity state) (\<lambda>ident.
           ci_scheme ident = IDENTITY_SCHEME \<and> ci_public_key ident = bc_public first \<and>
           expect (derive_public_credential test_prims (ci_private_key ident)) (\<lambda>derived. derived = bc_public first) \<and>
           \<not> contains (bc_public first) (ci_private_key ident)))))"

lemma credentials_test_passes:
  assumes "\<And>s. de (ser s) = Inr s"
  shows "test_persists_backend_credentials ser de"
proof -
  let ?private = "encode_key test_prims (replicate 32 3)"
  let ?public = "encode_public_credential test_prims (public_of test_prims (replicate 32 3))"
  have "derive_public_credential test_prims ?private = Inr ?public" "\<not> contains ?public ?private"
    by code_simp+
  then show ?thesis
    by (simp add: test_persists_backend_credentials_def ensure_credentials_def backend_run_simps test_env_def assms
        generate_identity_def STATE_VERSION_def read_state_def)
qed

definition test_stores_local_config_and_peer_map ::
  "(custom_backend_state \<Rightarrow> bytes) \<Rightarrow> (bytes \<Rightarrow> string + custom_backend_state) \<Rightarrow> bool" where
  "test_stores_local_config_and_peer_map ser de =
     (let env = test_env ser de 3 7 0 in
      expect_run (ensure_credentials env) (test_backend temp_disk) (\<lambda>_ b.
      expect_run (apply_local_config env (test_local_config ''dev_0123456789abcdef'' (Ipv4Addr 100 64 0 2))) b (\<lambda>_ b.
      expect_run (apply_peer_map env [\<lparr>pc_device_id = DeviceId_from ''dev_peer'', pc_hostname = ''peer'',
          pc_overlay_ip = Ipv4Addr 100 64 0 3, pc_public_credential = \<lparr>bc_public = test_public_credential\<rparr>,
          pc_endpoints = [test_endpoint Lan (Ipv4Addr 192 168 1 30) 51820 Udp], pc_allowed_routes = [''100.64.0.3/32'']\<rparr>]) b (\<lambda>_ b.
        read_state de b (\<lambda>state.
          expect_some (st_local_config state) (\<lambda>config. lc_overlay_ip config = Ipv4Addr 100 64 0 2) \<and>
          map sp_device_id (st_peers state) = [''dev_peer''])))))"

definition test_rejects_unsupported_state_version ::
  "(custom_backend_state \<Rightarrow> bytes) \<Rightarrow> (bytes \<Rightarrow> string + custom_backend_state) \<Rightarrow> bool" where
  "test_rejects_unsupported_state_version ser de =
     (let state = custom_backend_state_default\<lparr>st_version := STATE_VERSION + 1\<rparr> in
      case ensure_credentials (test_env ser de 3 7 0) (test_backend (temp_disk\<lparr>dk_file := Some (ser state)\<rparr>)) of
        None \<Rightarrow> False
      | Some (r, _) \<Rightarrow> fails_with r ''unsupported custom backend state version'')"

definition test_peer_map_replaces_stale_peers ::
  "(custom_backend_state \<Rightarrow> bytes) \<Rightarrow> (bytes \<Rightarrow> string + custom_backend_state) \<Rightarrow> bool" where
  "test_peer_map_replaces_stale_peers ser de =
     (let env = test_env ser de 3 7 0 in
      expect_run (apply_peer_map env [test_peer ''dev_one'' (Ipv4Addr 100 64 0 3), test_peer ''dev_two'' (Ipv4Addr 100 64 0 4)])
        (test_backend temp_disk) (\<lambda>_ b.
      expect_run (apply_peer_map env [test_peer ''dev_two'' (Ipv4Addr 100 64 0 4)]) b (\<lambda>_ b.
        read_state de b (\<lambda>state. map sp_device_id (st_peers state) = [''dev_two'']))))"

definition test_rejects_unsupported_peer_credential_format ::
  "(custom_backend_state \<Rightarrow> bytes) \<Rightarrow> (bytes \<Rightarrow> string + custom_backend_state) \<Rightarrow> bool" where
  "test_rejects_unsupported_peer_credential_format ser de =
     (let peer = (test_peer ''dev_bad'' (Ipv4Addr 100 64 0 3))\<lparr>pc_public_credential := \<lparr>bc_public = ''peer-public-key''\<rparr>\<rparr> in
      case apply_peer_map (test_env ser de 3 7 0) [peer] (test_backend temp_disk) of
        None \<Rightarrow> False
      | Some (r, _) \<Rightarrow> fails_with r ''unsupported peer credential prefix'')"

lemmas config_run_simps = apply_local_config_def apply_tun_config_def bind_transport_def stop_transport_tasks_def
  start_transport_tasks_def set_tun_status_def transport_bind_def loopback_bind_def from_local_config_def
  replace_runtime_def test_local_config_def runtime_state_default_def

lemma test_credential_accepted: "validate_public_credential test_prims test_public_credential = Inr ()"
  by code_simp

lemma test_version_message: "contains (backend_error_to_string (CommandFailed
    (''unsupported custom backend state version: '' @ nat_to_dec (unat (1 + 1 :: u32))))) ''unsupported custom backend state version''"
  by code_simp

lemma bad_credential_rejected:
  "fails_with (validate_public_credential test_prims ''peer-public-key'') ''unsupported peer credential prefix''"
  by code_simp

lemma state_file_tests_pass:
  assumes "\<And>s. de (ser s) = Inr s"
  shows "test_stores_local_config_and_peer_map ser de" "test_rejects_unsupported_state_version ser de"
    "test_peer_map_replaces_stale_peers ser de" "test_rejects_unsupported_peer_credential_format ser de"
proof -
  show "test_stores_local_config_and_peer_map ser de"
    by (simp add: test_stores_local_config_and_peer_map_def ensure_credentials_def backend_run_simps config_run_simps
        test_env_def assms apply_peer_map_def peer_to_session_def test_credential_accepted STATE_VERSION_def read_state_def
        DeviceId_from_def)
  show "test_rejects_unsupported_state_version ser de"
    using test_version_message
    by (simp add: test_rejects_unsupported_state_version_def ensure_credentials_def backend_run_simps test_env_def assms
        STATE_VERSION_def fails_with_def)
  show "test_peer_map_replaces_stale_peers ser de"
    by (simp add: test_peer_map_replaces_stale_peers_def backend_run_simps test_env_def assms apply_peer_map_def test_peer_def
        peer_to_session_def test_credential_accepted STATE_VERSION_def read_state_def DeviceId_from_def)
  show "test_rejects_unsupported_peer_credential_format ser de"
    using bad_credential_rejected
    by (auto simp: test_rejects_unsupported_peer_credential_format_def backend_run_simps test_env_def apply_peer_map_def
        test_peer_def peer_to_session_def STATE_VERSION_def fails_with_def split: sum.splits)
qed

section \<open>Paths\<close>

definition test_probe_interval_limits_repeated_direct_probes :: "system_time \<Rightarrow> bool" where
  "test_probe_interval_limits_repeated_direct_probes now =
     (peer_path_probe_due peer_path_state_default now \<and>
      \<not> peer_path_probe_due (peer_path_state_default\<lparr>last_probe_at := Some now\<rparr>) now)"

definition test_fast_probe_window_uses_short_interval_for_unknown_paths :: "system_time \<Rightarrow> bool" where
  "test_fast_probe_window_uses_short_interval_for_unknown_paths now =
     (let state = peer_path_state_default\<lparr>last_probe_at := Some (now - int DIRECT_FAST_PROBE_INTERVAL)\<rparr> in
      peer_path_probe_due state now \<and> \<not> peer_path_probe_due (state\<lparr>fast_probe_attempts_remaining := 0\<rparr>) now)"

definition test_direct_paths_do_not_use_fast_probe_window :: "system_time \<Rightarrow> bool" where
  "test_direct_paths_do_not_use_fast_probe_window now =
     (\<not> peer_path_probe_due (peer_path_state_default
        \<lparr>current_path := PathDirect, last_probe_at := Some (now - int DIRECT_FAST_PROBE_INTERVAL),
         fast_probe_attempts_remaining := DIRECT_FAST_PROBE_BURST_ATTEMPTS\<rparr>) now)"

definition stale_direct_path :: "system_time \<Rightarrow> peer_path_state" where
  "stale_direct_path now = peer_path_state_default
     \<lparr>current_path := PathDirect, active_endpoint := Some (test_endpoint Lan ipv4_localhost 51820 Udp),
      last_success_at := Some (now - int DIRECT_PROBE_STALE_AFTER), failures := DIRECT_PROBE_FAILURE_THRESHOLD - 1\<rparr>"

definition test_stale_direct_path_downgrades_to_unknown :: "system_time \<Rightarrow> bool" where
  "test_stale_direct_path_downgrades_to_unknown now =
     (let runtime = expire_stale_direct_paths now (set_path ''dev_peer'' (stale_direct_path now) runtime_state_default) in
      expect_some (hm_get (peer_path_state_by_device runtime) ''dev_peer'') (\<lambda>state.
        current_path state = PathUnknown \<and> active_endpoint state = None \<and> rtt_ms state = None))"

definition test_stale_direct_path_falls_back_to_relay_when_available :: "system_time \<Rightarrow> bool" where
  "test_stale_direct_path_falls_back_to_relay_when_available now =
     (let relay = \<lparr>rc_relay_id = ''relay_1'', rc_url = ''tcp://127.0.0.1:9443'', rc_region = ''local''\<rparr>;
          runtime = expire_stale_direct_paths now
            (set_path ''dev_peer'' (stale_direct_path now) (runtime_state_default\<lparr>relays := [relay]\<rparr>)) in
      expect_some (hm_get (peer_path_state_by_device runtime) ''dev_peer'') (\<lambda>state.
        current_path state = PathRelay \<and> expect_some (active_endpoint state) (\<lambda>ep. ep_kind ep = Relay)))"

lemma path_tests_pass:
  "test_probe_interval_limits_repeated_direct_probes now"
  "test_fast_probe_window_uses_short_interval_for_unknown_paths now"
  "test_direct_paths_do_not_use_fast_probe_window now"
  "test_stale_direct_path_downgrades_to_unknown now"
  "test_stale_direct_path_falls_back_to_relay_when_available now"
  by (simp_all add: test_probe_interval_limits_repeated_direct_probes_def test_direct_paths_do_not_use_fast_probe_window_def
      test_fast_probe_window_uses_short_interval_for_unknown_paths_def test_stale_direct_path_downgrades_to_unknown_def
      test_stale_direct_path_falls_back_to_relay_when_available_def peer_path_probe_due_def peer_path_state_default_def
      path_constants duration_since_def Let_def expire_stale_direct_paths_def set_path_def hm_map_values_def
      runtime_state_default_def path_expire_def path_stale_def stale_direct_path_def saturating_inc_def relay_endpoint_def)

definition test_computes_probe_response_rtt :: "nat \<Rightarrow> bool" where
  "test_computes_probe_response_rtt now =
     (let response = encode_probe_response_payload now (as_bytes ''probe 1000'') in
      response = as_bytes ''probe_response 1000'' \<and> probe_response_rtt_ms response 1042 = Some 42)"

lemma rtt_test_passes: "test_computes_probe_response_rtt now"
proof -
  have "digit_char 1 = CHR ''1''" "digit_char 0 = CHR ''0''" by code_simp+
  then have dec: "''1000'' = nat_to_dec 1000" by (simp add: nat_to_dec.simps)
  have stamp: "payload_timestamp tag (as_bytes (tag @ ''1000'')) = Some 1000" for tag
    unfolding dec by (simp add: payload_timestamp_def parse_u128_nat_to_dec)
  have "payload_timestamp ''probe '' (as_bytes ''probe 1000'') = Some 1000"
    "payload_timestamp ''probe_response '' (as_bytes ''probe_response 1000'') = Some 1000"
    using stamp [of "''probe ''"] stamp [of "''probe_response ''"] by (simp_all only: append.simps)
  then show ?thesis
    by (simp add: test_computes_probe_response_rtt_def encode_probe_response_payload_def probe_response_rtt_ms_def flip: dec)
qed

section \<open>Status and endpoints\<close>

definition test_status_reports_skipped_tun_setup ::
  "(custom_backend_state \<Rightarrow> bytes) \<Rightarrow> (bytes \<Rightarrow> string + custom_backend_state) \<Rightarrow> bool" where
  "test_status_reports_skipped_tun_setup ser de =
     (let env = test_env ser de 3 7 0 in
      expect_run (apply_local_config env (test_local_config ''dev_0123456789abcdef'' (Ipv4Addr 100 64 0 2))) (test_backend temp_disk) (\<lambda>_ b.
      expect_run (apply_peer_map env [test_peer ''dev_peer'' (Ipv4Addr 100 64 0 3)]) b (\<lambda>_ b.
      expect_run (backend_status_op env) b (\<lambda>status b.
        expect_some (bs_message status) (\<lambda>message.
          \<not> bs_healthy status \<and>
          contains_all message
            [''crypto_peers=1'', ''udp_bound=true'', ''transport_running=false'', ''local_endpoints=1'', ''tun_configured=false'',
             ''tun_io_ready=false'', ''TUN setup skipped''])))))"

definition test_reports_local_udp_endpoint_after_local_config ::
  "(custom_backend_state \<Rightarrow> bytes) \<Rightarrow> (bytes \<Rightarrow> string + custom_backend_state) \<Rightarrow> bool" where
  "test_reports_local_udp_endpoint_after_local_config ser de =
     (let env = test_env ser de 3 7 0 in
      expect_run (apply_local_config env (test_local_config ''dev_0123456789abcdef'' (Ipv4Addr 100 64 0 2))) (test_backend temp_disk) (\<lambda>_ b.
      expect_run backend_local_endpoints b (\<lambda>endpoints b.
        case endpoints of [ep] \<Rightarrow> ep_kind ep = Lan \<and> ep_protocol ep = Udp \<and> ep_port ep \<noteq> 0 | _ \<Rightarrow> False)))"

definition test_shutdown_without_tun_device_succeeds :: bool where
  "test_shutdown_without_tun_device_succeeds = expect_run backend_shutdown (test_backend temp_disk) (\<lambda>_ _. True)"

lemma status_test_passes:
  assumes "\<And>s. de (ser s) = Inr s"
  shows "test_status_reports_skipped_tun_setup ser de"
  apply (simp add: test_status_reports_skipped_tun_setup_def backend_run_simps config_run_simps test_env_def assms
      apply_peer_map_def peer_to_session_def test_peer_def test_credential_accepted STATE_VERSION_def DeviceId_from_def
      backend_status_op_def backend_status_of_def del: contains.simps)
  apply code_simp
  done

lemma endpoint_test_passes:
  assumes "\<And>s. de (ser s) = Inr s"
  shows "test_reports_local_udp_endpoint_after_local_config ser de"
  by (simp add: test_reports_local_udp_endpoint_after_local_config_def backend_run_simps config_run_simps test_env_def assms
      STATE_VERSION_def backend_local_endpoints_def transport_local_endpoints_def)

lemma shutdown_test_passes: "test_shutdown_without_tun_device_succeeds"
  by code_simp

end
