(* ===== verification/Test_Packets.thy ===== *)
theory Test_Packets
  imports Test_Backend
begin

text \<open>
  The unit tests of \<open>tfscale-custom/src/lib.rs\<close> that send and receive: two backends, or a backend and a peer
  that the test plays, on the loopback interface and over relay frames.
\<close>

section \<open>A configured backend\<close>

text \<open>Device ids as the tests generate them, for the two ends.\<close>

definition left_device_id :: string where "left_device_id = device_id_str (DeviceId_new ''0123456789abcdef'')"
definition right_device_id :: string where "right_device_id = device_id_str (DeviceId_new ''fedcba9876543210'')"

definition left_ip :: ipv4_addr where "left_ip = Ipv4Addr 100 64 0 2"
definition right_ip :: ipv4_addr where "right_ip = Ipv4Addr 100 64 0 3"

text \<open>How every test begins: credentials, the local configuration, and a map with one peer.\<close>

definition configured :: "backend_env \<Rightarrow> string \<Rightarrow> ipv4_addr \<Rightarrow> peer_config \<Rightarrow> backend_credential cb" where
  "configured env device_id overlay_ip peer =
     prog_bind (ensure_credentials env) (\<lambda>credential.
     prog_bind (apply_local_config env (test_local_config device_id overlay_ip)) (\<lambda>_.
     prog_bind (apply_peer_map env [peer]) (\<lambda>_. prog_result (Inr credential))))"

text \<open>What this leaves in the state file and at run time.\<close>

definition stored_peer :: "peer_config \<Rightarrow> stored_peer_session" where
  "stored_peer peer =
     \<lparr>sp_device_id = device_id_str (pc_device_id peer), sp_hostname = pc_hostname peer, sp_overlay_ip = pc_overlay_ip peer,
      sp_public_key = bc_public (pc_public_credential peer), sp_endpoints = pc_endpoints peer,
      sp_allowed_routes = pc_allowed_routes peer, sp_last_updated_at_unix_seconds = 0\<rparr>"

definition configured_state :: "u8 \<Rightarrow> string \<Rightarrow> ipv4_addr \<Rightarrow> peer_config \<Rightarrow> custom_backend_state" where
  "configured_state k device_id overlay_ip peer =
     \<lparr>st_version = STATE_VERSION,
      st_identity = Some \<lparr>ci_key_id = ''kid_0'', ci_scheme = IDENTITY_SCHEME, ci_private_key = fst (test_identity (replicate 32 k)),
        ci_public_key = snd (test_identity (replicate 32 k)), ci_created_at_unix_seconds = 0, ci_rotated_from = None\<rparr>,
      st_local_config = Some (test_local_config device_id overlay_ip), st_peers = [stored_peer peer]\<rparr>"

definition test_transport :: "u16 \<Rightarrow> nat \<Rightarrow> transport_runtime" where
  "test_transport port sent =
     \<lparr>tr_socket = \<lparr>so_local_addr = Inr \<lparr>sa_ip = V4 ipv4_unspecified, sa_port = port\<rparr>, so_send_outcome = (\<lambda>_. Inr sent),
        so_recv_outcome = (\<lambda>_. WouldBlock), so_sends = 0, so_recvs = 0, so_outbox = []\<rparr>,
      tr_local_endpoint = test_endpoint Lan (Ipv4Addr 192 168 1 2) port Udp,
      tr_status = transport_status_default\<lparr>udp_bound := True, ts_local_endpoints := 1, bound_at := Some 0\<rparr>\<rparr>"

definition stored_runtime :: "u8 \<Rightarrow> string \<Rightarrow> ipv4_addr \<Rightarrow> peer_config \<Rightarrow> runtime_state" where
  "stored_runtime k device_id overlay_ip peer =
     from_persisted test_prims (\<lambda>_. Inr (replicate 8 k)) (configured_state k device_id overlay_ip peer)"

definition configured_runtime :: "u8 \<Rightarrow> u16 \<Rightarrow> nat \<Rightarrow> string \<Rightarrow> ipv4_addr \<Rightarrow> peer_config \<Rightarrow> runtime_state" where
  "configured_runtime k port sent device_id overlay_ip peer =
     (stored_runtime k device_id overlay_ip peer)
       \<lparr>rt_tun_status := Some (tun_status_failed ''tfscale0'' ''TUN setup skipped by backend configuration''),
        rt_transport := Some (test_transport port sent)\<rparr>"

lemma test_bind: "transport_bind (loopback_bind port sent) listen = Inr (test_transport port sent)"
proof -
  have "discover_lan_ipv4 (loopback_bind port sent) = Some (Ipv4Addr 192 168 1 2)"
    by (simp add: discover_lan_ipv4_def loopback_bind_def ipv4_unspecified_def)
  then show ?thesis
    by (simp add: transport_bind_def Let_def) (simp add: loopback_bind_def test_transport_def test_endpoint_def)
qed

text \<open>A backend between two calls: the state \<open>st\<close> is in its file, \<open>rt\<close> in its memory, and the disk works.\<close>

definition at_rest :: "(custom_backend_state \<Rightarrow> bytes) \<Rightarrow> custom_backend_state \<Rightarrow> runtime_state \<Rightarrow> custom_backend \<Rightarrow> bool" where
  "at_rest ser st rt b \<longleftrightarrow> \<not> cb_locked b \<and> cb_runtime b = rt \<and> dk_file (cb_disk b) = Some (ser st) \<and> dk_fail (cb_disk b) = (\<lambda>_. None)"

lemma at_rest_update [simp]: "at_rest ser st rt b \<Longrightarrow> at_rest ser st rt' (b\<lparr>cb_runtime := rt'\<rparr>)"
  by (simp add: at_rest_def)

lemma with_lock_at_rest:
  "at_rest ser st rt b \<Longrightarrow> with_lock f b = (case f rt of (r, rt') \<Rightarrow> Some (r, b\<lparr>cb_runtime := rt'\<rparr>))"
  by (simp add: at_rest_def with_lock_def)

lemma expect_configured:
  assumes "\<And>s. de (ser s) = Inr s"
    and "validate_public_credential test_prims (bc_public (pc_public_credential peer)) = Inr ()"
    and "\<And>b. at_rest ser (configured_state k device_id overlay_ip peer) (configured_runtime k port sent device_id overlay_ip peer) b \<Longrightarrow>
      body \<lparr>bc_public = snd (test_identity (replicate 32 k))\<rparr> b"
  shows "expect_run (configured (test_env ser de k port sent) device_id overlay_ip peer) (test_backend temp_disk) body"
proof -
  have now: "unix_seconds 0 = 0" by code_simp
  have tasks: "rt_transport_tasks (from_persisted P rnd st) = None" "rt_tun_device (from_persisted P rnd st) = None" for P rnd st
    by (simp_all add: from_persisted_def Let_def)
  have "\<exists>b. configured (test_env ser de k port sent) device_id overlay_ip peer (test_backend temp_disk) =
       Some (Inr \<lparr>bc_public = snd (test_identity (replicate 32 k))\<rparr>, b) \<and>
    at_rest ser (configured_state k device_id overlay_ip peer) (configured_runtime k port sent device_id overlay_ip peer) b"
    by (simp add: configured_def ensure_credentials_def apply_local_config_def apply_tun_config_def at_rest_def
        bind_transport_def stop_transport_tasks_def start_transport_tasks_def set_tun_status_def from_local_config_def
        apply_peer_map_def peer_to_session_def generate_identity_def test_env_def test_local_config_def
        backend_run_simps STATE_VERSION_def assms(1,2) test_bind now runtime_state_default_def replace_runtime_def tasks
        configured_runtime_def stored_runtime_def configured_state_def test_identity_def stored_peer_def)
  with assms(3) show ?thesis by auto
qed

text \<open>The status is made from the file and the runtime state.\<close>

lemma expect_status:
  assumes "\<And>s. de (ser s) = Inr s" and "at_rest ser (configured_state k device_id overlay_ip peer) rt b"
  shows "expect_run (backend_status_op (test_env ser de k port sent)) b (\<lambda>status _. body status) \<longleftrightarrow>
    body (backend_status_of (cb_interface_name b) (stored_runtime k device_id overlay_ip peer) rt)"
  using assms
  by (simp add: backend_status_op_def prog_bind_def load_state_def on_disk_def load_state_disk_def fs_call_def test_env_def at_rest_def
      validate_state_version_def configured_state_def with_lock_def stored_runtime_def Let_def)

lemma status_of_message [simp]: "bs_message (backend_status_of name stored rt) = Some (status_message stored rt)"
  by (simp add: backend_status_of_def Let_def)

section \<open>Sending\<close>

definition test_builds_transport_session_for_peer_with_udp_endpoint ::
  "(custom_backend_state \<Rightarrow> bytes) \<Rightarrow> (bytes \<Rightarrow> string + custom_backend_state) \<Rightarrow> bool" where
  "test_builds_transport_session_for_peer_with_udp_endpoint ser de =
     (let env = test_env ser de 3 7 0;
          peer = test_peer_with_endpoint right_device_id right_ip (test_endpoint Lan ipv4_localhost 51820 Udp) in
      expect_run (configured env left_device_id left_ip peer) (test_backend temp_disk) (\<lambda>_ b.
      expect_run (backend_status_op env) b (\<lambda>status b.
        expect_some (bs_message status) (\<lambda>message. contains_all message [''transport_peers=1'', ''transport_sessions=1'']))))"

definition test_sends_overlay_packet_to_peer_udp_endpoint ::
  "(custom_backend_state \<Rightarrow> bytes) \<Rightarrow> (bytes \<Rightarrow> string + custom_backend_state) \<Rightarrow> bool" where
  "test_sends_overlay_packet_to_peer_udp_endpoint ser de =
     (let env = test_env ser de 3 7 81 in
      expect (transport_bind (loopback_bind 8 0) 0) (\<lambda>peer_receiver.
      expect (transport_local_addr peer_receiver) (\<lambda>addr.
      expect_run (configured env left_device_id left_ip
          (test_peer_with_endpoint right_device_id right_ip (test_endpoint Lan ipv4_localhost (sa_port addr) Udp)))
        (test_backend temp_disk) (\<lambda>_ b.
      expect_run (backend_send_overlay_packet env (ipv4_packet left_ip right_ip)) b (\<lambda>sent b.
        0 < sent \<and>
        expect_some (rt_transport (cb_runtime b)) (\<lambda>tr.
          expect_some (fst (receive_with_retry 10 1500 (deliver tr peer_receiver))) (\<lambda>received. length received = sent)) \<and>
        expect_run (backend_status_op env) b (\<lambda>status _.
          expect_some (bs_message status) (\<lambda>message. contains message ''tx_packets=1'')))))))"

lemma test_peer_accepted [simp]:
  "validate_public_credential test_prims (bc_public (pc_public_credential (test_peer_with_endpoint device_id overlay_ip ep))) = Inr ()"
  by (simp add: test_peer_with_endpoint_def test_peer_def test_credential_accepted)

lemma test_transport_addr [simp]:
  "transport_local_addr (test_transport port sent) = Inr \<lparr>sa_ip = V4 ipv4_unspecified, sa_port = port\<rparr>"
  by (simp add: transport_local_addr_def test_transport_def)

lemma transport_session_test_passes:
  assumes "\<And>s. de (ser s) = Inr s"
  shows "test_builds_transport_session_for_peer_with_udp_endpoint ser de"
  unfolding test_builds_transport_session_for_peer_with_udp_endpoint_def Let_def
proof (rule expect_configured [OF assms test_peer_accepted])
  let ?peer = "test_peer_with_endpoint right_device_id right_ip (test_endpoint Lan ipv4_localhost 51820 Udp)"
  fix b assume "at_rest ser (configured_state 3 left_device_id left_ip ?peer) (configured_runtime 3 7 0 left_device_id left_ip ?peer) b"
  moreover have "contains_all (status_message (stored_runtime 3 left_device_id left_ip ?peer)
      (configured_runtime 3 7 0 left_device_id left_ip ?peer)) [''transport_peers=1'', ''transport_sessions=1'']"
    by code_simp
  ultimately show "expect_run (backend_status_op (test_env ser de 3 7 0)) b (\<lambda>status b. expect_some (bs_message status)
      (\<lambda>message. contains_all message [''transport_peers=1'', ''transport_sessions=1'']))"
    by (simp add: expect_status [OF assms])
qed

lemma send_overlay_test_passes:
  assumes "\<And>s. de (ser s) = Inr s"
  shows "test_sends_overlay_packet_to_peer_udp_endpoint ser de"
proof -
  let ?peer = "test_peer_with_endpoint right_device_id right_ip (test_endpoint Lan ipv4_localhost 8 Udp)"
  let ?rt = "configured_runtime 3 7 81 left_device_id left_ip ?peer" and ?packet = "ipv4_packet left_ip right_ip"
  obtain r rt where send: "send_overlay_packet test_prims (\<lambda>_. Inr []) ?packet ?rt = (r, rt)" by (meson surj_pair)
  have "case send_overlay_packet test_prims (\<lambda>_. Inr []) ?packet ?rt of (r, rt) \<Rightarrow>
      r = Inr 81 \<and> contains (status_message (stored_runtime 3 left_device_id left_ip ?peer) rt) ''tx_packets=1'' \<and>
      expect_some (rt_transport rt) (\<lambda>tr.
        expect_some (fst (receive_with_retry 10 1500 (deliver tr (test_transport 8 0)))) (\<lambda>received. length received = 81))"
    by code_simp
  with send have facts: "r = Inr 81" "contains (status_message (stored_runtime 3 left_device_id left_ip ?peer) rt) ''tx_packets=1''"
    "expect_some (rt_transport rt) (\<lambda>tr.
        expect_some (fst (receive_with_retry 10 1500 (deliver tr (test_transport 8 0)))) (\<lambda>received. length received = 81))"
    by simp_all
  have "expect_run (backend_send_overlay_packet (test_env ser de 3 7 81) ?packet) b (\<lambda>sent b. 0 < sent \<and>
        expect_some (rt_transport (cb_runtime b)) (\<lambda>tr.
          expect_some (fst (receive_with_retry 10 1500 (deliver tr (test_transport 8 0)))) (\<lambda>received. length received = sent)) \<and>
        expect_run (backend_status_op (test_env ser de 3 7 81)) b (\<lambda>status _.
          expect_some (bs_message status) (\<lambda>message. contains message ''tx_packets=1'')))"
    if b: "at_rest ser (configured_state 3 left_device_id left_ip ?peer) ?rt b" for b
  proof -
    have "backend_send_overlay_packet (test_env ser de 3 7 81) ?packet b = Some (Inr 81, b\<lparr>cb_runtime := rt\<rparr>)"
      by (simp add: backend_send_overlay_packet_def test_env_def with_lock_at_rest [OF b] send facts(1))
    with facts show ?thesis by (simp add: expect_status [OF assms at_rest_update [OF b]])
  qed
  then show ?thesis
    unfolding test_sends_overlay_packet_to_peer_udp_endpoint_def Let_def
    by (simp add: test_bind, intro expect_configured [OF assms test_peer_accepted]) auto
qed

section \<open>Relays\<close>

text \<open>
  The recording sender of the test is a relay connection that accepts every line; a line is the
  frame's fields, and the first line registers.
\<close>

definition frame_line :: "relay_message \<Rightarrow> string + bytes" where
  "frame_line message =
     Inr (case message of Frame source destination payload \<Rightarrow> as_bytes (source @ '' '' @ destination @ '' '' @ payload) | _ \<Rightarrow> [])"

definition recording_sender :: "string \<Rightarrow> relay_frame_sender" where
  "recording_sender device_id =
     TcpRelayFrameSender (tcp_relay_sender_new (\<lambda>_ _. Inr \<lparr>tcp_write = (\<lambda>_. Inr ()), tcp_writes = 0, tcp_lines = []\<rparr>)
       \<lparr>rc_relay_id = ''relay_1'', rc_url = ''tcp://127.0.0.1:9443'', rc_region = ''local''\<rparr> device_id [])"

definition recorded :: "relay_frame_sender \<Rightarrow> bytes list" where
  "recorded sender =
     (case sender of TcpRelayFrameSender s \<Rightarrow> (case trs_writer s of Some stream \<Rightarrow> tl (tcp_lines stream) | None \<Rightarrow> []) | _ \<Rightarrow> [])"

definition relayed_runtime :: "runtime_state \<Rightarrow> runtime_state" where
  "relayed_runtime rt =
     set_path right_device_id (peer_path_state_default\<lparr>current_path := PathRelay,
         active_endpoint := Some (relay_endpoint \<lparr>rc_relay_id = ''relay_1'', rc_url = ''tcp://127.0.0.1:9443'', rc_region = ''local''\<rparr>)\<rparr>)
       (rt\<lparr>relay_sender := recording_sender left_device_id\<rparr>)"

definition test_sends_overlay_packet_to_relay_when_peer_path_is_relay ::
  "(custom_backend_state \<Rightarrow> bytes) \<Rightarrow> (bytes \<Rightarrow> string + custom_backend_state) \<Rightarrow> bool" where
  "test_sends_overlay_packet_to_relay_when_peer_path_is_relay ser de =
     (let env = test_env ser de 3 7 0 in
      expect_run (configured env left_device_id left_ip
          (test_peer_with_endpoint right_device_id right_ip (test_endpoint Lan ipv4_localhost 51820 Udp))) (test_backend temp_disk) (\<lambda>_ b.
      expect_run (backend_send_overlay_packet (env\<lparr>en_to_json := frame_line\<rparr>) (ipv4_packet left_ip right_ip))
          (b\<lparr>cb_runtime := relayed_runtime (cb_runtime b)\<rparr>) (\<lambda>sent b.
        case recorded (relay_sender (cb_runtime b)) of
          [line] \<Rightarrow> 0 < sent \<and> starts_with line (as_bytes (left_device_id @ '' '' @ right_device_id @ '' '')) \<and>
            length line = length (left_device_id @ '' '' @ right_device_id @ '' '') + sent + 1
        | _ \<Rightarrow> False)))"

lemma relay_send_test_passes:
  assumes "\<And>s. de (ser s) = Inr s"
  shows "test_sends_overlay_packet_to_relay_when_peer_path_is_relay ser de"
proof -
  let ?peer = "test_peer_with_endpoint right_device_id right_ip (test_endpoint Lan ipv4_localhost 51820 Udp)"
  let ?rt = "configured_runtime 3 7 0 left_device_id left_ip ?peer"
  let ?sent = "send_overlay_packet test_prims frame_line (ipv4_packet left_ip right_ip) (relayed_runtime ?rt)"
  have "case ?sent of (r, rt) \<Rightarrow> expect r (\<lambda>sent. case recorded (relay_sender rt) of
          [line] \<Rightarrow> 0 < sent \<and> starts_with line (as_bytes (left_device_id @ '' '' @ right_device_id @ '' '')) \<and>
            length line = length (left_device_id @ '' '' @ right_device_id @ '' '') + sent + 1
        | _ \<Rightarrow> False)"
    by code_simp
  moreover obtain r rt where "?sent = (r, rt)" by (meson surj_pair)
  ultimately show ?thesis
    unfolding test_sends_overlay_packet_to_relay_when_peer_path_is_relay_def Let_def
    by (intro expect_configured [OF assms test_peer_accepted])
      (cases r; simp add: backend_send_overlay_packet_def at_rest_def with_lock_def test_env_def)
qed

text \<open>The frame is sealed with the session of the left backend and opened by the right one.\<close>

definition peer_with_key :: "u8 \<Rightarrow> string \<Rightarrow> ipv4_addr \<Rightarrow> endpoint \<Rightarrow> peer_config" where
  "peer_with_key k device_id overlay_ip ep =
     (test_peer_with_endpoint device_id overlay_ip ep)\<lparr>pc_public_credential := \<lparr>bc_public = snd (test_identity (replicate 32 k))\<rparr>\<rparr>"

definition test_opens_overlay_packet_from_relay_frame ::
  "(custom_backend_state \<Rightarrow> bytes) \<Rightarrow> (bytes \<Rightarrow> string + custom_backend_state) \<Rightarrow> bool" where
  "test_opens_overlay_packet_from_relay_frame ser de =
     (let ep = test_endpoint Lan ipv4_localhost 51820 Udp in
      expect_run (configured (test_env ser de 3 7 0) left_device_id left_ip (peer_with_key 5 right_device_id right_ip ep))
        (test_backend temp_disk) (\<lambda>left_credential left.
      expect_run (configured (test_env ser de 5 8 0) right_device_id right_ip (peer_with_key 3 left_device_id left_ip ep))
        (test_backend temp_disk) (\<lambda>right_credential right.
        left_credential = pc_public_credential (peer_with_key 3 left_device_id left_ip ep) \<and>
        right_credential = pc_public_credential (peer_with_key 5 right_device_id right_ip ep) \<and>
        expect_some (hm_get (peer_transport_sessions_by_device (cb_runtime left)) right_device_id) (\<lambda>session.
          expect (fst (seal test_prims (pts_crypto session) (ipv4_packet left_ip right_ip))) (\<lambda>frame.
            expect (fst (open_relay_frame test_prims (\<lambda>_. 0)
                (Frame left_device_id right_device_id (b64_encode test_prims frame)) (cb_runtime right))) (\<lambda>opened.
              expect_some opened (\<lambda>packet. packet = ipv4_packet left_ip right_ip)))))))"

lemma test_key_accepted:
  "validate_public_credential test_prims (bc_public (pc_public_credential (peer_with_key 3 device_id overlay_ip ep))) = Inr ()"
  "validate_public_credential test_prims (bc_public (pc_public_credential (peer_with_key 5 device_id overlay_ip ep))) = Inr ()"
proof -
  have "validate_public_credential test_prims (snd (test_identity (replicate 32 3))) = Inr ()"
    "validate_public_credential test_prims (snd (test_identity (replicate 32 5))) = Inr ()" by code_simp+
  then show "validate_public_credential test_prims (bc_public (pc_public_credential (peer_with_key 3 device_id overlay_ip ep))) = Inr ()"
    "validate_public_credential test_prims (bc_public (pc_public_credential (peer_with_key 5 device_id overlay_ip ep))) = Inr ()"
    by (simp_all add: peer_with_key_def)
qed

lemma open_relay_test_passes:
  assumes "\<And>s. de (ser s) = Inr s"
  shows "test_opens_overlay_packet_from_relay_frame ser de"
proof -
  let ?ep = "test_endpoint Lan ipv4_localhost 51820 Udp"
  let ?left = "configured_runtime 3 7 0 left_device_id left_ip (peer_with_key 5 right_device_id right_ip ?ep)"
  let ?right = "configured_runtime 5 8 0 right_device_id right_ip (peer_with_key 3 left_device_id left_ip ?ep)"
  have "expect_some (hm_get (peer_transport_sessions_by_device ?left) right_device_id) (\<lambda>session.
          expect (fst (seal test_prims (pts_crypto session) (ipv4_packet left_ip right_ip))) (\<lambda>frame.
            expect (fst (open_relay_frame test_prims (\<lambda>_. 0)
                (Frame left_device_id right_device_id (b64_encode test_prims frame)) ?right)) (\<lambda>opened.
              expect_some opened (\<lambda>packet. packet = ipv4_packet left_ip right_ip))))"
    by code_simp
  then show ?thesis
    unfolding test_opens_overlay_packet_from_relay_frame_def Let_def
    by (intro expect_configured [OF assms test_key_accepted(2)] expect_configured [OF assms test_key_accepted(1)])
      (simp add: at_rest_def peer_with_key_def cong del: option.case_cong_weak sum.case_cong_weak)
qed

definition test_tcp_relay_sender_registers_and_writes_frame ::
  "(relay_message \<Rightarrow> bytes) \<Rightarrow> (bytes \<Rightarrow> relay_message option) \<Rightarrow> bool" where
  "test_tcp_relay_sender_registers_and_writes_frame to_json from_json =
     (let stream = \<lparr>tcp_write = (\<lambda>_. Inr ()), tcp_writes = 0, tcp_lines = []\<rparr>;
          sender = tcp_relay_sender_new (\<lambda>addr _. if addr = ''127.0.0.1:9443'' then Inr stream else Inl ''refused'')
            \<lparr>rc_relay_id = ''relay_1'', rc_url = ''tcp://127.0.0.1:9443'', rc_region = ''local''\<rparr> ''dev_a'' ''node-key'' in
      case tcp_relay_send_frame (\<lambda>m. Inr (to_json m)) (Frame ''dev_a'' ''dev_b'' ''encrypted-frame'') sender of (sent, sender) \<Rightarrow>
        sent = Inr (length ''encrypted-frame'') \<and>
        expect_some (trs_writer sender) (\<lambda>stream.
          map (\<lambda>line. from_json (butlast line)) (tcp_lines stream) =
            [Some (Register ''dev_a'' ''node-key''), Some (Frame ''dev_a'' ''dev_b'' ''encrypted-frame'')]))"

lemma tcp_sender_test_passes:
  "(\<And>m. from_json (to_json m) = Some m) \<Longrightarrow> test_tcp_relay_sender_registers_and_writes_frame to_json from_json"
  by (simp add: test_tcp_relay_sender_registers_and_writes_frame_def Let_def tcp_relay_send_frame_def ensure_connected_def
      tcp_relay_sender_new_def relay_tcp_addr_def strip_prefix_def write_relay_message_def)

end
