(* ===== verification/Test_Probes.thy ===== *)
theory Test_Probes
  imports Test_Packets
begin

text \<open>
  The unit tests of \<open>tfscale-custom/src/lib.rs\<close> that receive: packets and probes between two nodes, and the probe of the public endpoint.
\<close>

section \<open>Receiving\<close>

text \<open>\<open>receive_backend_packet_with_retry\<close> and \<open>receive_backend_control_frame_with_retry\<close>, on the runtime state.\<close>

fun receive_backend_packet_with_retry :: "nat \<Rightarrow> runtime_state \<Rightarrow> bytes option \<times> runtime_state" where
  "receive_backend_packet_with_retry 0 rt = (None, rt)"
| "receive_backend_packet_with_retry (Suc n) rt =
     (case receive_overlay_packet test_prims (\<lambda>_. 0) 1500 rt of
        (Inr (Some packet), rt') \<Rightarrow> (Some packet, rt')
      | (Inr None, rt') \<Rightarrow> receive_backend_packet_with_retry n rt'
      | (Inl _, rt') \<Rightarrow> (None, rt'))"

fun receive_backend_control_frame_with_retry :: "nat \<Rightarrow> runtime_state \<Rightarrow> bool \<times> runtime_state" where
  "receive_backend_control_frame_with_retry 0 rt = (False, rt)"
| "receive_backend_control_frame_with_retry (Suc n) rt =
     (case receive_overlay_packet test_prims (\<lambda>_. 0) 1500 rt of
        (Inr (Some _), rt') \<Rightarrow> (False, rt')
      | (Inr None, rt') \<Rightarrow> (True, rt')
      | (Inl _, rt') \<Rightarrow> receive_backend_control_frame_with_retry n rt')"

text \<open>The loopback interface between a transport and a backend.\<close>

definition deliver_to :: "transport_runtime \<Rightarrow> runtime_state \<Rightarrow> runtime_state" where
  "deliver_to sender rt = rt\<lparr>rt_transport := map_option (deliver sender) (rt_transport rt)\<rparr>"

text \<open>
  The peer that the test plays makes its session from its own key, the credential that the backend
  returned and the two ids, and sends one sealed packet to the first of the backend's endpoints.
\<close>

definition test_receives_overlay_packet_from_peer_udp_endpoint ::
  "(custom_backend_state \<Rightarrow> bytes) \<Rightarrow> (bytes \<Rightarrow> string + custom_backend_state) \<Rightarrow> bool" where
  "test_receives_overlay_packet_from_peer_udp_endpoint ser de =
     (let env = test_env ser de 3 7 0; packet = ipv4_packet right_ip left_ip in
      expect_run (configured env left_device_id left_ip (peer_with_key 5 right_device_id right_ip (test_endpoint Lan ipv4_localhost 51820 Udp)))
        (test_backend temp_disk) (\<lambda>local_credential b.
      expect (decode_key test_prims (fst (test_identity (replicate 32 5)))) (\<lambda>peer_key.
      expect (from_device_id (parse_uuid test_prims) right_device_id) (\<lambda>peer_id.
      expect (from_device_id (parse_uuid test_prims) left_device_id) (\<lambda>local_id.
      expect (peer_crypto_session_new test_prims (Inr (replicate 8 5)) peer_key (snd (test_identity (replicate 32 5)))
          (bc_public local_credential) peer_id local_id) (\<lambda>peer_crypto.
      expect (fst (seal test_prims peer_crypto packet)) (\<lambda>frame.
      expect (transport_bind (loopback_bind 8 81) 0) (\<lambda>peer_transport.
      expect_run backend_local_endpoints b (\<lambda>endpoints b.
        case endpoints of [] \<Rightarrow> False | local_endpoint # _ \<Rightarrow>
        (case send_frame local_endpoint frame peer_transport of (sent, peer_transport) \<Rightarrow>
          expect sent (\<lambda>_.
            case receive_backend_packet_with_retry 10 (deliver_to peer_transport (cb_runtime b)) of (opened, rt) \<Rightarrow>
              expect_some opened (\<lambda>opened. opened = packet) \<and>
              expect_run (backend_status_op env) (b\<lparr>cb_runtime := rt\<rparr>) (\<lambda>status _.
                expect_some (bs_message status) (\<lambda>message. contains_all message [''rx_packets=1'', ''rx_drops=0''])))))))))))))"

text \<open>What remains of the test once the backend is configured, on the runtime state.\<close>

definition received_packet_checks :: "runtime_state \<Rightarrow> runtime_state \<Rightarrow> string \<Rightarrow> bool" where
  "received_packet_checks stored rt local_public =
     (let packet = ipv4_packet right_ip left_ip in
      expect (decode_key test_prims (fst (test_identity (replicate 32 5)))) (\<lambda>peer_key.
      expect (from_device_id (parse_uuid test_prims) right_device_id) (\<lambda>peer_id.
      expect (from_device_id (parse_uuid test_prims) left_device_id) (\<lambda>local_id.
      expect (peer_crypto_session_new test_prims (Inr (replicate 8 5)) peer_key (snd (test_identity (replicate 32 5)))
          local_public peer_id local_id) (\<lambda>peer_crypto.
      expect (fst (seal test_prims peer_crypto packet)) (\<lambda>frame.
        case send_frame (test_endpoint Lan (Ipv4Addr 192 168 1 2) 7 Udp) frame (test_transport 8 81) of (sent, peer_transport) \<Rightarrow>
          expect sent (\<lambda>_.
            case receive_backend_packet_with_retry 10 (deliver_to peer_transport rt) of (opened, rt) \<Rightarrow>
              expect_some opened (\<lambda>opened. opened = packet) \<and>
              contains_all (status_message stored rt) [''rx_packets=1'', ''rx_drops=0''])))))))"

lemma local_endpoints_at_rest:
  assumes "at_rest ser st (configured_runtime k port sent device_id overlay_ip peer) b"
  shows "backend_local_endpoints b = Some (Inr [test_endpoint Lan (Ipv4Addr 192 168 1 2) port Udp], b)"
  using assms by (simp add: backend_local_endpoints_def with_lock_def at_rest_def configured_runtime_def
      transport_local_endpoints_def test_transport_def)

lemma receive_test_passes:
  assumes "\<And>s. de (ser s) = Inr s"
  shows "test_receives_overlay_packet_from_peer_udp_endpoint ser de"
proof -
  let ?peer = "peer_with_key 5 right_device_id right_ip (test_endpoint Lan ipv4_localhost 51820 Udp)"
  have checks: "received_packet_checks (stored_runtime 3 left_device_id left_ip ?peer)
      (configured_runtime 3 7 0 left_device_id left_ip ?peer) (snd (test_identity (replicate 32 3)))"
    by code_simp
  show ?thesis
    unfolding test_receives_overlay_packet_from_peer_udp_endpoint_def Let_def
  proof (rule expect_configured [OF assms test_key_accepted(2)], goal_cases)
    case (1 b)
    then have "cb_runtime b = configured_runtime 3 7 0 left_device_id left_ip ?peer" by (simp add: at_rest_def)
    with checks show ?case
      unfolding received_packet_checks_def Let_def
      by (simp add: test_bind local_endpoints_at_rest [OF 1] expect_status [OF assms at_rest_update [OF 1]]
          cong del: option.case_cong_weak sum.case_cong_weak prod.case_cong_weak)
  qed
qed

section \<open>Direct paths\<close>

text \<open>For evaluation: the interval matters only after a first probe.\<close>

lemma peer_path_probe_due_code [code]:
  "peer_path_probe_due state now =
     (case Option.bind (last_probe_at state) (duration_since now) of
        None \<Rightarrow> True
      | Some elapsed \<Rightarrow> (if current_path state \<noteq> PathDirect \<and> fast_probe_attempts_remaining state > 0
                        then DIRECT_FAST_PROBE_INTERVAL else DIRECT_PROBE_INTERVAL) \<le> elapsed)"
  by (auto simp: peer_path_probe_due_def Let_def split: option.split)

text \<open>The bounds of the time stamps are compared as integers.\<close>

lemma parse_u128_code [code]:
  "parse_u128 s =
     (let ds = (case s of CHR ''+'' # r \<Rightarrow> r | _ \<Rightarrow> s)
      in if ds \<noteq> [] \<and> list_all is_ascii_digit ds \<and> int (dec_value ds) < 2 ^ 128 then Some (dec_value ds) else None)"
proof -
  have "n \<le> m - 1 \<longleftrightarrow> int n < int m" if "0 < m" for n m :: nat using that by arith
  from this [of "2 ^ 128"] have "n \<le> 2 ^ 128 - 1 \<longleftrightarrow> int n < 2 ^ 128" for n :: nat by simp
  then show ?thesis unfolding parse_u128_def parse_uint_def by (simp only:)
qed

lemma probe_response_rtt_ms_code [code]:
  "probe_response_rtt_ms payload now =
     (case payload_timestamp ''probe_response '' payload of
        None \<Rightarrow> None
      | Some timestamp \<Rightarrow>
          if timestamp \<le> now \<and> int (now - timestamp) < 2 ^ 64 then Some (of_nat (now - timestamp)) else None)"
proof -
  have "n < 2 ^ 64 \<longleftrightarrow> int n < 2 ^ 64" for n :: nat by simp
  then show ?thesis unfolding probe_response_rtt_ms_def by (simp only:)
qed

definition test_direct_probe_consumes_fast_probe_attempt ::
  "(custom_backend_state \<Rightarrow> bytes) \<Rightarrow> (bytes \<Rightarrow> string + custom_backend_state) \<Rightarrow> bool" where
  "test_direct_probe_consumes_fast_probe_attempt ser de =
     (let env = test_env ser de 3 7 0 in
      expect_run (configured env left_device_id left_ip (peer_with_key 5 right_device_id right_ip (test_endpoint Lan ipv4_localhost 51820 Udp)))
        (test_backend temp_disk) (\<lambda>_ b.
      expect_run (backend_probe_peer_direct_paths env) b (\<lambda>probed b.
        probed = 1 \<and>
        expect_some (hm_get (peer_path_state_by_device (cb_runtime b)) right_device_id) (\<lambda>state.
          fast_probe_attempts_remaining state = DIRECT_FAST_PROBE_BURST_ATTEMPTS - 1 \<and> failures state = 1))))"

lemma probe_at_rest:
  assumes "at_rest ser st rt b"
  shows "backend_probe_peer_direct_paths (test_env ser de k port sent) b =
    (case probe_peer_direct_paths test_prims (\<lambda>_. 0) rt of (r, rt') \<Rightarrow> Some (r, b\<lparr>cb_runtime := rt'\<rparr>))"
  using with_lock_at_rest [OF assms] by (simp add: backend_probe_peer_direct_paths_def test_env_def)

lemma fast_probe_test_passes:
  assumes "\<And>s. de (ser s) = Inr s"
  shows "test_direct_probe_consumes_fast_probe_attempt ser de"
proof -
  let ?peer = "peer_with_key 5 right_device_id right_ip (test_endpoint Lan ipv4_localhost 51820 Udp)"
  have checks: "case probe_peer_direct_paths test_prims (\<lambda>_. 0) (configured_runtime 3 7 0 left_device_id left_ip ?peer) of (r, rt) \<Rightarrow>
      expect r (\<lambda>probed. probed = 1 \<and> expect_some (hm_get (peer_path_state_by_device rt) right_device_id) (\<lambda>state.
        fast_probe_attempts_remaining state = DIRECT_FAST_PROBE_BURST_ATTEMPTS - 1 \<and> failures state = 1))"
    by code_simp
  show ?thesis
    unfolding test_direct_probe_consumes_fast_probe_attempt_def Let_def
  proof (rule expect_configured [OF assms test_key_accepted(2)], goal_cases)
    case (1 b)
    with checks show ?case
      by (simp add: probe_at_rest split: prod.splits cong del: option.case_cong_weak sum.case_cong_weak)
  qed
qed

definition deliver_between :: "runtime_state \<Rightarrow> runtime_state \<Rightarrow> runtime_state" where
  "deliver_between sender receiver = (case rt_transport sender of Some tr \<Rightarrow> deliver_to tr receiver | None \<Rightarrow> receiver)"

definition test_direct_probe_round_trip_marks_peer_paths_direct ::
  "(custom_backend_state \<Rightarrow> bytes) \<Rightarrow> (bytes \<Rightarrow> string + custom_backend_state) \<Rightarrow> bool" where
  "test_direct_probe_round_trip_marks_peer_paths_direct ser de =
     (let left_env = test_env ser de 3 7 81; right_env = test_env ser de 5 8 81;
          left_endpoint = test_endpoint Lan (Ipv4Addr 192 168 1 2) 7 Udp; right_endpoint = test_endpoint Lan (Ipv4Addr 192 168 1 2) 8 Udp in
      expect_run (configured left_env left_device_id left_ip (peer_with_key 5 right_device_id right_ip right_endpoint)) (test_backend temp_disk) (\<lambda>_ left.
      expect_run (configured right_env right_device_id right_ip (peer_with_key 3 left_device_id left_ip left_endpoint)) (test_backend temp_disk) (\<lambda>_ right.
      expect_run backend_local_endpoints left (\<lambda>left_endpoints left.
      expect_run backend_local_endpoints right (\<lambda>right_endpoints right.
        left_endpoints = [left_endpoint] \<and> right_endpoints = [right_endpoint] \<and>
        expect_run (backend_probe_peer_direct_paths left_env) left (\<lambda>probed left.
          probed = 1 \<and>
          (case receive_backend_control_frame_with_retry 10 (deliver_between (cb_runtime left) (cb_runtime right)) of (answered, right_rt) \<Rightarrow>
          (case receive_backend_control_frame_with_retry 10 (deliver_between right_rt (cb_runtime left)) of (received, left_rt) \<Rightarrow>
             answered \<and> received \<and>
             expect_run (backend_status_op left_env) (left\<lparr>cb_runtime := left_rt\<rparr>) (\<lambda>status _.
               expect_some (bs_message status) (\<lambda>message. contains_all message [''direct_peers=1'', ''direct_paths='', ''/rtt='']) \<and>
               map (\<lambda>p. (pd_device_id p, pd_path p, pd_endpoint p \<noteq> None)) (bs_peers status) = [(right_device_id, DiagDirect, True)]) \<and>
             expect_run (backend_status_op right_env) (right\<lparr>cb_runtime := right_rt\<rparr>) (\<lambda>status _.
               expect_some (bs_message status) (\<lambda>message. contains message ''direct_peers=1''))))))))))"

definition status_peers :: "runtime_state \<Rightarrow> runtime_state \<Rightarrow> peer_path_diagnostic list" where
  "status_peers stored rt = bs_peers (backend_status_of ''tfscale0'' stored rt)"

text \<open>The same on the two runtime states, \<open>left\<close> and \<open>right\<close>, with the entries of the message instead of the message.\<close>

definition probe_round_trip_checks :: "runtime_state \<Rightarrow> runtime_state \<Rightarrow> runtime_state \<Rightarrow> bool" where
  "probe_round_trip_checks left_stored left right =
     (case probe_peer_direct_paths test_prims (\<lambda>_. 0) left of (r, left) \<Rightarrow>
      r = Inr 1 \<and>
        (case receive_backend_control_frame_with_retry 10 (deliver_between left right) of (answered, right_rt) \<Rightarrow>
        (case receive_backend_control_frame_with_retry 10 (deliver_between right_rt left) of (received, left_rt) \<Rightarrow>
           answered \<and> received \<and>
           count_paths PathDirect (peer_path_state_by_device left_rt) = 1 \<and>
           contains (direct_path_status (peer_path_state_by_device left_rt)) ''/rtt='' \<and>
           map (\<lambda>p. (pd_device_id p, pd_path p, pd_endpoint p \<noteq> None)) (status_peers left_stored left_rt) =
             [(right_device_id, DiagDirect, True)] \<and>
           count_paths PathDirect (peer_path_state_by_device right_rt) = 1)))"

lemma status_message_entries:
  "contains (status_message stored rt) (''direct_peers='' @ nat_to_dec (count_paths PathDirect (peer_path_state_by_device rt)))"
  "contains (status_message stored rt) (''direct_paths='' @ direct_path_status (peer_path_state_by_device rt))"
proof -
  have grouped: "contains (((c # label) @ entry) @ after) (label @ entry)" and spread: "contains ((c # label) @ entry @ after) (label @ entry)"
    for label entry after :: string and c
    unfolding contains_iff by (rule exI [of _ "[c]"], rule exI [of _ after], simp)+
  have later: "contains after part \<Longrightarrow> contains (before @ after) part" for before after part :: string
    by (simp add: contains_append)
  show "contains (status_message stored rt) (''direct_peers='' @ nat_to_dec (count_paths PathDirect (peer_path_state_by_device rt)))"
    unfolding status_message_def Let_def by (rule grouped | rule later)+
  show "contains (status_message stored rt) (''direct_paths='' @ direct_path_status (peer_path_state_by_device rt))"
    unfolding status_message_def Let_def by (rule spread | rule later)+
qed

lemma contains_trans: "contains input part \<Longrightarrow> contains part piece \<Longrightarrow> contains input piece"
  unfolding contains_iff by (metis append_assoc)

lemma direct_peer_message:
  assumes "count_paths PathDirect (peer_path_state_by_device rt) = 1"
  shows "contains (status_message stored rt) ''direct_peers=1''"
proof -
  have "nat_to_dec 1 = ''1''" by code_simp
  with status_message_entries(1) [of stored rt] assms show ?thesis by (simp only: append.simps)
qed

lemma direct_paths_message:
  "contains (status_message stored rt) ''direct_paths=''"
  "contains (direct_path_status (peer_path_state_by_device rt)) part \<Longrightarrow> contains (status_message stored rt) part"
proof -
  note entry = contains_trans [OF status_message_entries(2) contains_append]
  show "contains (status_message stored rt) ''direct_paths=''" by (rule entry) (simp add: contains_iff exI [of _ "[]"])
  show "contains (status_message stored rt) part" if "contains (direct_path_status (peer_path_state_by_device rt)) part"
    by (rule entry) (rule disjI2 [OF that])
qed

lemma status_of_peers [simp]: "bs_peers (backend_status_of name stored rt) = status_peers stored rt"
  by (simp add: status_peers_def backend_status_of_def Let_def)

text \<open>The two ends, and what their states evaluate to.\<close>

definition left_peer :: peer_config where
  "left_peer = peer_with_key 5 right_device_id right_ip (test_endpoint Lan (Ipv4Addr 192 168 1 2) 8 Udp)"

definition right_peer :: peer_config where
  "right_peer = peer_with_key 3 left_device_id left_ip (test_endpoint Lan (Ipv4Addr 192 168 1 2) 7 Udp)"

definition left_stored :: runtime_state where "left_stored = stored_runtime 3 left_device_id left_ip left_peer"
definition right_stored :: runtime_state where "right_stored = stored_runtime 5 right_device_id right_ip right_peer"

definition end_session :: "string \<Rightarrow> string \<Rightarrow> bytes \<Rightarrow> u8 \<Rightarrow> bytes \<Rightarrow> peer_crypto_session" where
  "end_session local_id peer_id send salt receive =
     \<lparr>cs_local_id = as_bytes local_id, cs_peer_id = as_bytes peer_id, cs_cipher = replicate 32 15,
      cs_send_nonces = send_nonce_with_salt send (replicate 8 salt), cs_receive_window = replay_window_default,
      cs_receive_direction_prefix = receive\<rparr>"

definition with_sessions :: "custom_backend_state \<Rightarrow> (string, peer_transport_session) hmap \<Rightarrow> runtime_state" where
  "with_sessions st sessions =
     (from_persisted test_prims (\<lambda>_. Inr []) (st\<lparr>st_identity := None\<rparr>))\<lparr>persisted := st, peer_transport_sessions_by_device := sessions\<rparr>"

lemma from_persisted_with_sessions:
  "from_persisted test_prims rnd st = with_sessions st (peer_transport_sessions_by_device (from_persisted test_prims rnd st))"
  by (simp add: with_sessions_def from_persisted_def Let_def)

lemma left_stored_value [code]:
  "left_stored = with_sessions (configured_state 3 left_device_id left_ip left_peer)
     [(right_device_id, \<lparr>pts_overlay_ip = right_ip, pts_endpoint = test_endpoint Lan (Ipv4Addr 192 168 1 2) 8 Udp,
       pts_crypto = end_session ''0123456789abcdef'' ''fedcba9876543210'' [57, 58, 59, 60, 61, 62, 63, 64] 3
         [111, 110, 109, 108, 107, 106, 66, 65]\<rparr>)]"
proof -
  have "peer_transport_sessions_by_device (stored_runtime 3 left_device_id left_ip left_peer) =
    [(right_device_id, \<lparr>pts_overlay_ip = right_ip, pts_endpoint = test_endpoint Lan (Ipv4Addr 192 168 1 2) 8 Udp,
       pts_crypto = end_session ''0123456789abcdef'' ''fedcba9876543210'' [57, 58, 59, 60, 61, 62, 63, 64] 3
         [111, 110, 109, 108, 107, 106, 66, 65]\<rparr>)]"
    by code_simp
  then show ?thesis
    unfolding left_stored_def stored_runtime_def by (subst from_persisted_with_sessions) simp
qed

lemma right_stored_value [code]:
  "right_stored = with_sessions (configured_state 5 right_device_id right_ip right_peer)
     [(left_device_id, \<lparr>pts_overlay_ip = left_ip, pts_endpoint = test_endpoint Lan (Ipv4Addr 192 168 1 2) 7 Udp,
       pts_crypto = end_session ''fedcba9876543210'' ''0123456789abcdef'' [111, 110, 109, 108, 107, 106, 66, 65] 5
         [57, 58, 59, 60, 61, 62, 63, 64]\<rparr>)]"
proof -
  have "peer_transport_sessions_by_device (stored_runtime 5 right_device_id right_ip right_peer) =
    [(left_device_id, \<lparr>pts_overlay_ip = left_ip, pts_endpoint = test_endpoint Lan (Ipv4Addr 192 168 1 2) 7 Udp,
       pts_crypto = end_session ''fedcba9876543210'' ''0123456789abcdef'' [111, 110, 109, 108, 107, 106, 66, 65] 5
         [57, 58, 59, 60, 61, 62, 63, 64]\<rparr>)]"
    by code_simp
  then show ?thesis
    unfolding right_stored_def stored_runtime_def by (subst from_persisted_with_sessions) simp
qed

definition running_with :: "u16 \<Rightarrow> runtime_state \<Rightarrow> runtime_state" where
  "running_with port rt =
     rt\<lparr>rt_tun_status := Some (tun_status_failed ''tfscale0'' ''TUN setup skipped by backend configuration''),
        rt_transport := Some (test_transport port 81)\<rparr>"

lemma round_trip_values: "probe_round_trip_checks left_stored (running_with 7 left_stored) (running_with 8 right_stored)"
  by code_simp

lemma round_trip_test_passes:
  assumes "\<And>s. de (ser s) = Inr s"
  shows "test_direct_probe_round_trip_marks_peer_paths_direct ser de"
  unfolding test_direct_probe_round_trip_marks_peer_paths_direct_def Let_def
proof (rule expect_configured [OF assms test_key_accepted(2)], rule expect_configured [OF assms test_key_accepted(1)], goal_cases)
  case (1 left right)
  note left = 1(1) [folded left_peer_def] and right = 1(2) [folded right_peer_def]
  have ends: "configured_runtime 3 7 81 left_device_id left_ip left_peer = running_with 7 left_stored"
    "configured_runtime 5 8 81 right_device_id right_ip right_peer = running_with 8 right_stored"
    by (simp_all add: configured_runtime_def running_with_def left_stored_def right_stored_def)
  obtain r left_probed where probe: "probe_peer_direct_paths test_prims (\<lambda>_. 0) (running_with 7 left_stored) = (r, left_probed)"
    by (meson surj_pair)
  obtain answered right_rt where answer:
    "receive_backend_control_frame_with_retry 10 (deliver_between left_probed (running_with 8 right_stored)) = (answered, right_rt)"
    by (meson surj_pair)
  obtain received left_rt where receive:
    "receive_backend_control_frame_with_retry 10 (deliver_between right_rt left_probed) = (received, left_rt)"
    by (meson surj_pair)
  have facts: "r = Inr 1" "answered" "received" "count_paths PathDirect (peer_path_state_by_device left_rt) = 1"
    "contains (direct_path_status (peer_path_state_by_device left_rt)) ''/rtt=''"
    "map (\<lambda>p. (pd_device_id p, pd_path p, pd_endpoint p \<noteq> None)) (status_peers left_stored left_rt) =
       [(right_device_id, DiagDirect, True)]"
    "count_paths PathDirect (peer_path_state_by_device right_rt) = 1"
    using round_trip_values unfolding probe_round_trip_checks_def by (simp_all add: probe answer receive)
  have messages: "contains (status_message left_stored left_rt) ''direct_peers=1''"
    "contains (status_message left_stored left_rt) ''direct_paths=''" "contains (status_message left_stored left_rt) ''/rtt=''"
    "contains (status_message right_stored right_rt) ''direct_peers=1''"
    by (rule direct_peer_message [OF facts(4)] direct_paths_message(1) direct_paths_message(2) [OF facts(5)] direct_peer_message [OF facts(7)])+
  have "cb_runtime right = running_with 8 right_stored" using right ends by (simp add: at_rest_def)
  with facts messages show ?case
    by (simp add: local_endpoints_at_rest [OF left] local_endpoints_at_rest [OF right] probe_at_rest [OF left] ends probe answer receive
        expect_status [OF assms at_rest_update [OF left]] expect_status [OF assms at_rest_update [OF right]] contains_all_def
        flip: left_stored_def right_stored_def)
qed

section \<open>The public endpoint\<close>

text \<open>The thread of the test answers the probe with the address it comes from.\<close>

definition answering :: "socket_addr \<Rightarrow> custom_backend \<Rightarrow> custom_backend" where
  "answering server_addr b =
     b\<lparr>cb_runtime := (cb_runtime b)\<lparr>rt_transport := map_option (\<lambda>tr. tr\<lparr>tr_socket := (tr_socket tr)\<lparr>so_recv_outcome := (\<lambda>n.
       if n = 1 then Datagram (encode_probe_response \<lparr>sa_ip = V4 ipv4_localhost, sa_port = loopback_port tr\<rparr>) server_addr
       else WouldBlock)\<rparr>\<rparr>) (rt_transport (cb_runtime b))\<rparr>\<rparr>"

definition test_probes_public_endpoint_with_backend_udp_socket ::
  "(custom_backend_state \<Rightarrow> bytes) \<Rightarrow> (bytes \<Rightarrow> string + custom_backend_state) \<Rightarrow> bool" where
  "test_probes_public_endpoint_with_backend_udp_socket ser de =
     (let env = test_env ser de 3 7 23; server_addr = \<lparr>sa_ip = V4 ipv4_localhost, sa_port = 9\<rparr> in
      expect_run (apply_local_config env (test_local_config left_device_id left_ip)) (test_backend temp_disk) (\<lambda>_ b.
      expect_run backend_local_endpoints b (\<lambda>endpoints b.
        case endpoints of [] \<Rightarrow> False | local_endpoint # _ \<Rightarrow>
        expect_run (probe_public_endpoint_blocking env server_addr (secs 1)) (answering server_addr b) (\<lambda>probe b.
          expect_some probe (\<lambda>probe.
            ep_kind (observed_endpoint probe) = Public \<and> ep_port (observed_endpoint probe) = ep_port local_endpoint)))))"

lemma public_probe_test_passes:
  assumes "\<And>s. de (ser s) = Inr s"
  shows "test_probes_public_endpoint_with_backend_udp_socket ser de"
proof -
  have "take 256 (encode_probe_response \<lparr>sa_ip = V4 ipv4_localhost, sa_port = 7\<rparr>) =
      encode_probe_response \<lparr>sa_ip = V4 ipv4_localhost, sa_port = 7\<rparr>"
    by code_simp
  moreover have "rt_transport_tasks (from_persisted P rnd st) = None" "rt_tun_device (from_persisted P rnd st) = None" for P rnd st
    by (simp_all add: from_persisted_def Let_def)
  ultimately show ?thesis
    by (simp add: test_probes_public_endpoint_with_backend_udp_socket_def backend_run_simps config_run_simps(1-6,9-)
        test_env_def assms STATE_VERSION_def test_bind test_transport_def backend_local_endpoints_def transport_local_endpoints_def
        answering_def loopback_port_def probe_public_endpoint_blocking_def probe_transport_locked_def
        transport_probe_public_endpoint_def send_probe_request_def send_to_def recv_from_def probe_response_roundtrip
        inc_tx_packets_def inc_rx_packets_def test_endpoint_def)
qed

end
