(* ===== verification/Spec2Isabelle.thy ===== *)
theory Spec2Isabelle
  imports Packet_Loops Platform_Tun Mesh_System Agent_Doctor Control_Cli Endpoint_Exchange Control_Statements
    Test_Servers Test_Agent Test_Probes
begin

text \<open>
  Verification of tf-scale, a mesh VPN of four programs and their shared crates (\<open>src/crates\<close>).

  \<^bold>\<open>The program.\<close> A control plane (\<open>tfscale-control\<close>) keeps devices, addresses, DNS names and endpoints
  in SQLite and serves them over HTTP. On every node an agent (\<open>tfscale-agent\<close>) registers with it,
  fetches the network map, hands it to a network backend through the trait \<open>NetworkBackend\<close>
  (\<open>tfscale-net\<close>) and answers DNS queries for the names of the mesh. The custom backend
  (\<open>tfscale-custom\<close>) moves packets between a TUN device and UDP, sealed for the peer that owns the
  destination, and falls back to a relay (\<open>tfscale-relay\<close>) when no direct path works. An operator uses
  \<open>tfscalectl\<close>. The payloads all of them exchange are in \<open>tfscale-core\<close>.

  \<^bold>\<open>Layers of the development\<close>, each theory importing those it uses:

  \<^item> \<open>TF_Prelude\<close>: machine words and time, results, hash maps as association lists, big-endian bytes,
    programs that may fail or never return (\<open>prog\<close>), and the locales \<open>transition_system\<close> (an initial
    condition, a step relation and an invariant), \<open>codec\<close> and \<open>exact_codec\<close>. \<open>Std_Text\<close> and
    \<open>Std_Net\<close>: what the sources use of Rust's strings, number parsing, formatting and addresses;
    \<open>Std_Ipv6\<close>: printing and parsing of IPv4 and IPv6 addresses and socket addresses are inverse.
  \<^item> \<open>Core_Protocol\<close> (\<open>tfscale-core\<close>, the types of \<open>tfscale-net\<close>): ids, payloads, endpoints,
    configurations, backend errors.
  \<^item> The data plane, \<open>tfscale-custom/src\<close>: \<open>Frame_Codec\<close> (\<open>frame.rs\<close>, \<open>packet.rs\<close>), \<open>Nonce_Window\<close>
    (\<open>nonce.rs\<close>), \<open>Crypto_Session\<close> (\<open>crypto.rs\<close>), \<open>Transport\<close> (\<open>transport.rs\<close>), \<open>Tun_Device\<close> (\<open>tun.rs\<close>,
    \<open>platform/\<close>), \<open>Platform_Tun\<close> (the layers between \<open>TunDevice\<close> and the raw device on each target, with the
    locale \<open>tun_layer\<close> that all of them satisfy), and of \<open>lib.rs\<close> \<open>Peer_Paths\<close> (path state, probes), \<open>Backend_State\<close> (\<open>RuntimeState\<close>:
    sending, receiving, probing, relaying), \<open>State_File\<close> (the disk, with file modes) and \<open>Backend\<close>
    (\<open>CustomBackend\<close>: locking, state file, TUN and transport set-up, packet loops, status).
  \<^item> \<open>Packet_Loops\<close>: \<open>TransportTasks\<close> as threads. Each of the three loops and the thread that calls the
    backend is a program counter with an executable step (\<open>loop_step\<close>, \<open>caller_step\<close>) over the runtime state,
    the mutex, the stop flag and the join handles; \<open>loops_step\<close> interleaves them.
  \<^item> \<open>Network_Backend\<close>: the trait as a record of operations, its contract as the locale
    \<open>network_backend_contract\<close>, and the mock backend as its first interpretation; \<open>Backend\<close> gives the
    second, of the custom backend.
  \<^item> \<open>Relay_Server\<close> (\<open>tfscale-relay\<close>): the session table and the task of every connection as a
    transition system. \<open>Relay_Path\<close>: the thread that reads a node's relay connection (\<open>lib.rs\<close>), and
    the two ends of a relayed packet with the relay between them.
  \<^item> The control plane, \<open>tfscale-control\<close>: \<open>Control_DB\<close> (tables, statements, queries),
    \<open>Control_Server\<close> (handlers; \<open>control_step\<close> interleaves them, registration in its two phases),
    \<open>Control_Statements\<close> (the handlers statement by statement, every statement one that may fail) and
    \<open>Control_Http\<close> (migrations at start-up, routes and responses). \<open>Control_Cli\<close>: \<open>tfscalectl\<close>.
    \<open>Server_Startup\<close>: how the control plane and the relay start.
  \<^item> The agent, \<open>tfscale-agent\<close>: \<open>Agent_Dns\<close> (\<open>dns.rs\<close>, packets to bytes), \<open>Agent_Core\<close> (state file,
    conversions, registration, synchronization, loop, over any backend and any control plane: the
    locales \<open>control_contract\<close> and \<open>agent_system\<close>), \<open>Agent_Setup\<close> (\<open>resolver.rs\<close>, \<open>service.rs\<close> and
    their commands) and \<open>Agent_Doctor\<close> (status, doctor, the other commands of \<open>main\<close>).
  \<^item> \<open>Mesh_System\<close>: the agent on the custom backend and the control plane of \<open>Control_Server\<close>
    (interpretations \<open>control_service\<close> and \<open>mesh\<close>), and in front of any control plane (\<open>tun_agent\<close>). \<open>Endpoint_Exchange\<close>: the way of an endpoint from the node
    that reports it, through the control plane, to its peers. This theory states what spans all of them.
  \<^item> \<open>Test_Support\<close>, \<open>Test_Data_Plane\<close>, \<open>Test_Backend\<close>, \<open>Test_Packets\<close>, \<open>Test_Probes\<close>, \<open>Test_Servers\<close>
    and \<open>Test_Agent\<close>: the unit tests of the sources as executable propositions \<open>test_<name>\<close>, each with a
    lemma that it passes on the definitions above. The cryptographic primitives are a toy instance there
    that satisfies \<open>crypto_laws\<close>; the JSON codec of the state file stays an argument.

  \<^bold>\<open>How code becomes definitions.\<close> A struct is a record, an enum a datatype, a handler or method a
  function from the state to its result and the new state, with every early return and every error
  as a value of a sum type that carries the source's message. A method that takes the backend's mutex is a
  \<open>prog\<close>: its value \<open>None\<close> is a call that never returns, because the mutex is locked already. Strings
  are their UTF-8 bytes. Instants are integers in nanoseconds, durations natural numbers, both without bound, so that the
  panic of \<open>Instant + Duration\<close> beyond the range of the clock, with a poll interval of that size, is not in the model; counters
  and fields with a width are words of that width. What the operating system answers (sockets, files, commands, clocks, randomness) is
  a field of the state that fixes the outcome of the \<open>n\<close>-th call, so theorems hold for all its
  answers, failures included.

  \<^bold>\<open>Arguments of the model\<close> for code outside \<open>src/crates\<close>: X25519, HKDF and ChaCha20-Poly1305 (\<open>crypto_prims\<close> with
  \<open>crypto_laws\<close>: decryption inverts encryption under the same inputs, key agreement is symmetric, keys
  have their length, base64 decoding inverts encoding; nothing is assumed of a forged text), JSON of \<open>serde_json\<close> (where used, reading inverts
  writing), SHA-256, UUIDs, SQLite's clock and failures, reqwest and axum.

  \<^bold>\<open>What is shown.\<close> The properties are numbered C1 to C40 in their theories. They show: two nodes
  understand each other and no frame is accepted twice, from elsewhere or for someone else
  (\<open>Crypto_Session\<close>, \<open>Nonce_Window\<close>, \<open>Frame_Codec\<close>, \<open>Backend_State\<close>); packets reach the owner of their
  destination over UDP and through the relay, which sends a device only its own frames
  (\<open>Relay_Server\<close>, \<open>Relay_Path\<close>); under every interleaving of the packet loops with the operations of the
  backend the runtime state keeps its type, and every call but the one that starts the loops returns
  (\<open>Packet_Loops\<close>); a node behind a NAT learns its public endpoint (this theory);
  the control plane's database is consistent under every interleaving, maps and names are exact, a key
  whose use was committed is refused afterwards, a request that fails changes nothing or everything, the interleaving of single
  statements refines \<open>control_step\<close> (\<open>Control_Statements\<close>), migrations resume where they stopped
  (\<open>Control_Server\<close>, \<open>Control_Http\<close>); the operator's client
  prints exactly what the handlers do (\<open>Control_Cli\<close>); agents find every device by its
  name, record a map only when it was applied everywhere, keep their identity, and pace
  their loop (\<open>Agent_Core\<close>, \<open>Agent_Dns\<close> and this theory); an endpoint that one agent reports is, until it expires, the
  endpoint that the others configure (\<open>Endpoint_Exchange\<close>); installation of resolver and service is
  exact, the resolver's is reversible, and the service's environment file is unambiguous (\<open>Agent_Setup\<close>). Where the code does not do what it means to, a theorem says
  so: the first configuration with a TUN device deadlocks and freezes the loops it spawned, so \<open>agent up\<close> never gets to
  its loop, the peer map
  forgets relays and replay windows, sending over the relay cuts off receiving over it, the private key
  is readable while it is saved, own endpoints are never forgotten as long as the device exists. More of this kind is shown in
  lemmas: no backend is ever healthy, one bad endpoint blocks all maps, a failed save of the agent's
  state loses its identity, \<open>doctor\<close> always fails, \<open>down\<close> stops nothing, and others.

  \<^bold>\<open>Bounds and fuel.\<close> The probe loop of the transport takes fuel that counts receives, and a
  property says how much is enough (one receive per foreign datagram and per ten
  milliseconds of the time-out). The agent's loop and the DNS proxy run forever
  by design and are given as one iteration and as a recursion over a list of rounds; the packet loops
  are step relations, and the calls that return do so in a given number of steps. All other recursions end by
  themselves.

  \<^bold>\<open>Not modelled.\<close> Parsing of command lines (clap), logging (tracing), the scheduling of tokio's tasks,
  and the raw TUN device (tun-rs), whose reads and writes are outcomes of the operating system. The
  conditional compilation that picks a platform is an argument here. A poisoned mutex does not
  occur, since no thread panics while it holds one. In the interleavings of \<open>Packet_Loops\<close> a critical section is one step: how long
  the operating system takes over its calls is not modelled. \<open>network_map\<close> of \<open>Control_Server\<close> reads one state of
  the database; its separate queries are \<open>network_map_sql\<close> of \<open>Control_Statements\<close>. How systemd reads the environment
  file is not modelled. Of the unit tests one is left out, \<open>relay_to_tun_loop_stops_while_waiting_for_relay_frames\<close>, which times a
  thread.
\<close>

section \<open>Properties that span components\<close>

text \<open>
  C2. Every device of the mesh can be found by name: in every reachable state of the control plane,
  the DNS proxy of an agent that serves the control plane's records answers a well-formed query
  of type A for the name of a live device, in upper or lower case, with the overlay address of
  exactly that device.
\<close>

theorem device_name_resolves:
  assumes "control_step\<^sup>*\<^sup>* database_empty db" and "d \<in> set (db_devices db)"
    and "r \<in> set (load_dns_records db)" and "dr_device_id r = dv_id d"
    and "parse_query request = Inr q" and "dq_qtype q = TYPE_A" and "dq_qclass q = CLASS_IN"
    and "eq_ignore_ascii_case (dq_qname q) (dr_name r)"
  shows "\<exists>response a. build_response request (load_dns_records db) DEFAULT_DNS_SUFFIX = Inr response \<and>
    suffix (octets a) response \<and> dv_ipv4 d = ipv4_to_string a"
proof -
  have "database_ok db" by (rule control.reachable_inv [OF refl assms(1)])
  from record_resolves [OF this assms(3,8,2)] assms(4) obtain a where
    "resolve_a (load_dns_records db) (dq_qname q) ''mesh'' = Some a" "dv_ipv4 d = ipv4_to_string a" by auto
  with assms(5,6,7) show ?thesis by (simp add: build_response_def DEFAULT_DNS_SUFFIX_def Let_def suffix_def)
qed

theorem device_name_resolves_witness:
  "\<exists>response a. build_response demo_dns_request (load_dns_records demo_one_device) DEFAULT_DNS_SUFFIX = Inr response \<and>
     suffix (octets a) response \<and> ''100.64.0.2'' = ipv4_to_string a"
proof -
  let ?d = "hd (db_devices demo_one_device)" and ?r = "hd (load_dns_records demo_one_device)"
  have d: "db_devices demo_one_device \<noteq> []" "dv_id ?d = ''dev_a0''" "dv_ipv4 ?d = ''100.64.0.2''" by code_simp+
  have r: "load_dns_records demo_one_device \<noteq> []" "dr_device_id ?r = ''dev_a0''" "dr_name ?r = ''laptop.mesh''" by code_simp+
  have "eq_ignore_ascii_case ''Laptop.mesh'' ''laptop.mesh''" by code_simp
  with device_name_resolves [OF demo_reachable(2) hd_in_set [OF d(1)] hd_in_set [OF r(1)] _ demo_dns_query] d r show ?thesis
    by (simp add: dns_consts)
qed

text \<open>
  A long host name that two devices share cannot be looked up: when the plain name is taken, the
  control plane appends the device's suffix to it without looking at the length, and if the
  result is longer than 63 bytes no query packet at all can ask for it.
\<close>

theorem long_shared_name_unresolvable:
  assumes "normalize_hostname value = Inr hostname" and "\<not> dns_name_available network_id device_id (dns_name hostname) db"
    and "available_dns_name network_id device_id hostname db = Inr name"
    and "CHR ''.'' \<notin> set (device_dns_suffix device_id)" and "62 < length hostname + length (device_dns_suffix device_id)"
    and "parse_query packet = Inr q"
  shows "normalize_name (dq_qname q) \<noteq> normalize_name name"
proof
  assume eq: "normalize_name (dq_qname q) = normalize_name name"
  from available_name_taken [OF assms(3,2)] obtain rest where
    name: "name = dns_name (hostname @ ''-'' @ device_dns_suffix device_id @ rest)" and rest: "CHR ''.'' \<notin> set rest" by metis
  let ?label = "hostname @ ''-'' @ device_dns_suffix device_id @ rest"
  from assms(1) have "list_all (\<lambda>b. is_ascii_lowercase b \<or> is_ascii_digit b \<or> b = CHR ''-'') hostname"
    by (auto simp: normalize_hostname_def Let_def split: if_splits)
  then have "CHR ''.'' \<notin> set hostname" by (auto simp: list_all_iff is_ascii_lowercase_def is_ascii_digit_def)
  with rest assms(4) have "CHR ''.'' \<notin> set ?label" by simp
  then have "split_on CHR ''.'' name = [?label, ''mesh'']"
    using split_on_append [of "CHR ''.''" ?label "''mesh''"] by (simp add: name dns_name_def)
  moreover have "normalize_name name = to_ascii_lowercase name"
    by (rule normalize_mesh_name, rule lower_mesh) (simp add: name dns_name_def suffix_def)
  ultimately have "to_ascii_lowercase ?label \<in> set (split_on CHR ''.'' (normalize_name name))"
    by (simp add: split_on_lower)
  with normalized_pieces_bounded [OF assms(6)] eq assms(5) show False by fastforce
qed

definition demo_long_name :: string where
  "demo_long_name = replicate 63 (CHR ''a'')"

definition demo_long_names :: database where
  "demo_long_names = database_empty\<lparr>db_dns := [\<lparr>dn_id = ''dns_0'', dn_network_id = ''net_default'', dn_device_id = ''dev_a0'',
     dn_name = dns_name demo_long_name, dn_type = ''A'', dn_value = ''100.64.0.2'', dn_updated_at = ''''\<rparr>]\<rparr>"

theorem long_shared_name_unresolvable_witness:
  "\<exists>name. available_dns_name ''net_default'' ''dev_b0'' demo_long_name demo_long_names = Inr name \<and>
     normalize_name ''Laptop.mesh'' \<noteq> normalize_name name"
proof -
  have "normalize_hostname demo_long_name = Inr demo_long_name"
    "\<not> dns_name_available ''net_default'' ''dev_b0'' (dns_name demo_long_name) demo_long_names"
    "CHR ''.'' \<notin> set (device_dns_suffix ''dev_b0'')"
    "62 < length demo_long_name + length (device_dns_suffix ''dev_b0'')" by code_simp+
  note hyps = this
  have "\<not> isl (available_dns_name ''net_default'' ''dev_b0'' demo_long_name demo_long_names)" by code_simp
  then obtain name where name: "available_dns_name ''net_default'' ''dev_b0'' demo_long_name demo_long_names = Inr name"
    by (cases "available_dns_name ''net_default'' ''dev_b0'' demo_long_name demo_long_names") auto
  from long_shared_name_unresolvable [OF hyps(1,2) name hyps(3,4) demo_dns_query] name show ?thesis by simp
qed



text \<open>
  A heartbeat changes the network map: even one that reports nothing new raises the version of the
  map by the seconds since the device's previous change, so every agent applies the whole map
  again at its next synchronization.
\<close>

theorem heartbeat_changes_version:
  assumes "control_step\<^sup>*\<^sup>* database_empty db" and "d \<in> set (db_devices db)" and "live d"
    and "hb_device_id request = dv_id d" and "hb_node_key request = dv_node_key d" and "hb_endpoints request = []"
    and "list_all (\<lambda>e. er_expires_at e = None) (db_endpoints db)"
    and "ce_unixepoch env (dv_updated_at d) = Some old" and "ce_unixepoch env (ce_now env) = Some now"
  shows "\<exists>db'. heartbeat env request db =
      (Inr \<lparr>hbr_ok = True, hbr_network_map_version = network_map_version env db + (now - old)\<rparr>, db')"
proof -
  have ids: "distinct (map dv_id (db_devices db))"
    using control.reachable_inv [OF refl assms(1)] by (simp add: database_ok_def devices_ok_def)
  let ?hit = "\<lambda>x. dv_id x = dv_id d \<and> live x"
  let ?f = "\<lambda>x. x\<lparr>dv_last_seen_at := Some (ce_now env), dv_updated_at := ce_now env\<rparr>"
  let ?db = "db\<lparr>db_devices := update_where ?hit ?f (db_devices db)\<rparr>"
  have valid: "validate_device_node_key (dv_id d) (dv_node_key d) db = Inr ()"
    using assms(2,3) by (force simp: validate_device_node_key_def find_None_iff split: option.split)
  have expired: "delete_expired_endpoints env (dv_id d) ?db = ?db"
    using assms(7) by (auto simp: delete_expired_endpoints_def list_all_iff intro!: filter_True)
  have live: "filter live (update_where ?hit ?f devs) = update_where ?hit ?f (filter live devs)" for devs
    by (induction devs) (simp_all add: update_where_def)
  have "epoch_sum env (map dv_updated_at (update_where ?hit ?f (filter live (db_devices db)))) =
      epoch_sum env (map dv_updated_at (filter live (db_devices db))) + (now - old)"
    using epoch_sum_touch [of "filter live (db_devices db)" d env old now] assms(2,3,8,9) ids by (simp add: distinct_map_filter)
  then have "network_map_version env ?db = network_map_version env db + (now - old)"
    by (simp add: network_map_version_def Let_def live) (simp add: update_where_def)
  then show ?thesis by (simp add: heartbeat_def heartbeat_commit_phase_def assms(4,5,6) valid expired)
qed

theorem heartbeat_changes_version_witness:
  "\<exists>db'. heartbeat ((demo_control_env ''h'')\<lparr>ce_now := ''2024-01-01 00:00:05'', ce_unixepoch := (\<lambda>t. Some (if t = ''2024-01-01 00:00:05'' then 5 else 0))\<rparr>)
      \<lparr>hb_device_id = ''dev_a0'', hb_node_key = ''node_a1'', hb_endpoints = [],
       hb_backend_status = \<lparr>bsp_backend_type = ''tfscale'', bsp_interface = ''tfscale0'', bsp_healthy = False\<rparr>\<rparr> demo_one_device =
    (Inr \<lparr>hbr_ok = True, hbr_network_map_version = network_map_version ((demo_control_env ''h'')\<lparr>ce_now := ''2024-01-01 00:00:05'',
       ce_unixepoch := (\<lambda>t. Some (if t = ''2024-01-01 00:00:05'' then 5 else 0))\<rparr>) demo_one_device + (5 - 0)\<rparr>, db')"
proof -
  let ?d = "hd (db_devices demo_one_device)"
  have d: "db_devices demo_one_device \<noteq> []" "live ?d" "dv_id ?d = ''dev_a0''" "dv_node_key ?d = ''node_a1''"
    "dv_updated_at ?d = ''2024-01-01 00:00:00''" "list_all (\<lambda>e. er_expires_at e = None) (db_endpoints demo_one_device)" by code_simp+
  show ?thesis
    by (rule heartbeat_changes_version [OF demo_reachable(2) hd_in_set [OF d(1)] d(2) _ _ _ d(6)]) (simp_all add: d)
qed

text \<open>
  C21. \<open>agent up\<close> never finishes its start: with the backend that the program creates, on any platform, whatever the
  control plane and the operating system answer, it either fails or hangs, but never gets to its loop. The first synchronization
  has to apply the local configuration, which fails without a TUN device or a UDP socket and, with both,
  waits for the lock that its own thread holds.
\<close>

theorem agent_up_never_completes:
  assumes "aw_backend w = with_state_path interface_name dk os"
  shows "agent_up env (custom_network_backend benv) api login_key dns_listen bound w \<noteq> Some (Inr state, w')"
proof (rule tun_agent.agent_up_stuck)
  show "nb_apply_local_config (custom_network_backend benv) config b \<noteq> Some (Inr (), b')" if "tun_backend_inv b" for config b b'
    using apply_local_config_never_Inr [OF that] by (simp add: custom_network_backend_def)
  show "agent_world_ok tun_backend_inv (\<lambda>_. True) w"
    by (simp add: agent_world_ok_def assms tun_backend_inv_def backend_inv_def with_state_path_def runtime_state_default_def)
qed

text \<open>
  A registered agent on the control plane with two devices, its TUN device and its socket at hand: the
  heartbeat is accepted, the map is fetched, and the first call to the backend does not return.
\<close>

definition demo_mesh_config :: local_backend_config where
  "demo_mesh_config = \<lparr>lc_device_id = ''dev_a0'', lc_interface_name = ''tfscale0'', lc_overlay_ip = Ipv4Addr 100 64 0 2, lc_listen_port = 51820\<rparr>"

definition demo_mesh_env :: backend_env where
  "demo_mesh_env = demo_env (custom_backend_state_default\<lparr>st_local_config := Some demo_mesh_config\<rparr>)"

definition demo_mesh_world :: "(custom_backend, database) agent_world" where
  "demo_mesh_world =
     \<lparr>aw_backend = with_state_path ''tfscale0'' demo_disk demo_os, aw_control = demo_two_devices,
      aw_disk = demo_disk\<lparr>dk_file := Some [2]\<rparr>, aw_dns = [], aw_last_version = None\<rparr>"

abbreviation demo_mesh_api :: "database control_api" where
  "demo_mesh_api \<equiv> control_api_of (demo_control_env ''h'') demo_app demo_listen"

lemma demo_mesh_config_deadlocks:
  "apply_local_config demo_mesh_env demo_mesh_config (with_state_path ''tfscale0'' demo_disk demo_os) = None"
  unfolding demo_mesh_env_def by (rule demo_config_deadlocks)

lemma demo_mesh_heartbeat:
  assumes "aw_backend w = with_state_path ''tfscale0'' demo_disk demo_os" and "aw_control w = demo_two_devices"
  obtains request where "send_heartbeat (custom_network_backend demo_mesh_env) demo_mesh_api demo_registered_state w =
    Some (Inr (), w\<lparr>aw_control := snd (heartbeat (demo_control_env ''h'') request demo_two_devices)\<rparr>)"
proof -
  have state: "as_device_id demo_registered_state = Some ''dev_a0''" "as_node_key demo_registered_state = Some ''node_a1''"
    by (simp_all add: demo_registered_state_def)
  have status: "\<exists>status. backend_status_op demo_mesh_env (with_state_path ''tfscale0'' demo_disk demo_os) = Some (Inr status, with_state_path ''tfscale0'' demo_disk demo_os)"
    by (simp add: backend_status_op_def load_state_def load_state_disk_def on_disk_def prog_bind_def with_lock_def with_state_path_def demo_disk_def)
  then obtain status where status: "backend_status_op demo_mesh_env (with_state_path ''tfscale0'' demo_disk demo_os) = Some (Inr status, with_state_path ''tfscale0'' demo_disk demo_os)" by blast
  have locals: "backend_local_endpoints (with_state_path ''tfscale0'' demo_disk demo_os) = Some (Inr [], with_state_path ''tfscale0'' demo_disk demo_os)"
    by (simp add: backend_local_endpoints_def with_lock_def with_state_path_def runtime_state_default_def)
  have probe: "probe_public_endpoint_blocking demo_mesh_env srv timeout (with_state_path ''tfscale0'' demo_disk demo_os) =
      Some (Inl (CommandFailed ''UDP transport is not bound''), with_state_path ''tfscale0'' demo_disk demo_os)" for srv timeout
    by (simp add: probe_public_endpoint_blocking_def probe_transport_locked_def stop_transport_tasks_def prog_bind_def with_lock_def
        with_state_path_def runtime_state_default_def)
  have self: "w\<lparr>aw_backend := with_state_path ''tfscale0'' demo_disk demo_os\<rparr> = w" "w\<lparr>aw_control := demo_two_devices\<rparr> = w"
    using assms by (cases w; simp)+
  have found: "discovered_endpoints (custom_network_backend demo_mesh_env) demo_mesh_api ''dev_a0'' ''node_a1'' [] w = Some (Inr [], w)"
    using assms probe demo_credentials(1) self
    by (simp add: discovered_endpoints_def agent_probe_public_endpoint_def prog_bind_def prog_result_def on_control_def on_backend_def
        control_api_of_def endpoint_probe_def udp_probe_server_def custom_network_backend_def)
  let ?request = "\<lparr>hb_device_id = ''dev_a0'', hb_node_key = ''node_a1'', hb_endpoints = [],
    hb_backend_status = \<lparr>bsp_backend_type = backend_type_as_str (bs_backend_type status), bsp_interface = bs_interface_name status, bsp_healthy = bs_healthy status\<rparr>\<rparr>"
  define beat where "beat = heartbeat (demo_control_env ''h'') ?request demo_two_devices"
  have "\<not> isl (fst beat)" unfolding beat_def heartbeat_def by (simp add: demo_credentials(1) Let_def)
  then have "map_sum ae_message (\<lambda>_. ()) (fst beat) = Inr ()" by (cases "fst beat") simp_all
  then have "on_control (ca_heartbeat demo_mesh_api ?request) w = Some (Inr (), w\<lparr>aw_control := snd beat\<rparr>)"
    using assms(2) by (simp add: on_control_def control_api_of_def beat_def [symmetric] map_prod_def) (simp add: case_prod_beta)
  moreover have "on_backend (nb_status (custom_network_backend demo_mesh_env)) w = Some (Inr status, w)"
    "on_backend (nb_local_endpoints (custom_network_backend demo_mesh_env)) w = Some (Inr [], w)"
    using assms(1) status locals self by (simp_all add: on_backend_def custom_network_backend_def)
  ultimately show thesis using found state
    by (intro that [of ?request, folded beat_def]) (simp add: send_heartbeat_def device_credentials_def prog_bind_def prog_result_def)
qed

lemma demo_mesh_sync:
  assumes "aw_backend w = with_state_path ''tfscale0'' demo_disk demo_os" and "aw_control w = demo_two_devices" and "aw_last_version w = None"
  shows "sync_agent_once aenv (custom_network_backend demo_mesh_env) demo_mesh_api demo_registered_state w = None"
proof -
  have state: "as_device_id demo_registered_state = Some ''dev_a0''" "as_node_key demo_registered_state = Some ''node_a1''"
    "as_ipv4 demo_registered_state = Some ''100.64.0.2''" by (simp_all add: demo_registered_state_def)
  have ip: "parse_ipv4 ''100.64.0.2'' = Some (Ipv4Addr 100 64 0 2)" by code_simp
  obtain request where beat: "send_heartbeat (custom_network_backend demo_mesh_env) demo_mesh_api demo_registered_state w =
    Some (Inr (), w\<lparr>aw_control := snd (heartbeat (demo_control_env ''h'') request demo_two_devices)\<rparr>)" (is "_ = Some (_, ?w)")
    by (rule demo_mesh_heartbeat [OF assms(1,2)])
  obtain m where "network_map (demo_control_env ''h'') demo_app ''dev_a0'' ''node_a1'' (aw_control ?w) = Inr m"
    using network_map_answers [of "''dev_a0''" "''node_a1''" "aw_control ?w"] demo_credentials(1) by (auto simp: heartbeat_validate)
  then have fetch: "fetch_network_map demo_mesh_api demo_registered_state ?w = Some (Inr m, ?w)"
    using state by (simp add: fetch_network_map_def device_credentials_def prog_bind_def prog_result_def on_control_def control_api_of_def)
  have "on_backend (nb_apply_local_config (custom_network_backend demo_mesh_env) demo_mesh_config) ?w = None"
    using demo_mesh_config_deadlocks assms(1) by (simp add: on_backend_def custom_network_backend_def)
  then have "apply_network_map_to_backend (custom_network_backend demo_mesh_env) demo_registered_state m ?w = None"
    using state ip by (simp add: apply_network_map_to_backend_def prog_bind_def prog_result_def demo_mesh_config_def
        DEFAULT_INTERFACE_NAME_def DEFAULT_LISTEN_PORT_def)
  then show ?thesis
    using assms(3) beat fetch
    by (simp add: sync_agent_once_def apply_network_map_and_maintain_paths_def apply_network_map_if_changed_def prog_bind_def)
qed

theorem agent_up_never_completes_witness:
  "agent_up demo_restart_env (custom_network_backend demo_mesh_env) demo_mesh_api ''tfk'' demo_listen (Inr ()) demo_mesh_world = None \<and>
   (\<forall>state w'. agent_up demo_restart_env (custom_network_backend demo_mesh_env) demo_mesh_api ''tfk'' demo_listen (Inr ()) demo_mesh_world \<noteq>
     Some (Inr state, w'))"
proof -
  have saved: "ae_de demo_restart_env [2] = Inr demo_registered_state" "ae_ser demo_restart_env demo_registered_state = Inr [2]"
    and started: "dns_proxy_started demo_listen (Inr ()) demo_registered_state = demo_registered_state"
    by (simp_all add: demo_restart_env_def demo_registered_state_def demo_unregistered_def dns_proxy_started_def agent_state_new_def agent_state_default_def)
  have skipped: "ensure_backend_credentials nb demo_registered_state = prog_result (Inr demo_registered_state)"
    "register_agent_if_needed demo_restart_env api key demo_registered_state = prog_result (Inr demo_registered_state)"
    for nb :: "custom_backend network_backend" and api :: "database control_api" and key
    by (simp_all add: ensure_backend_credentials_def register_agent_if_needed_def) (simp_all add: demo_registered_state_def demo_unregistered_def)
  obtain dk where "agent_state_load demo_restart_env (demo_disk\<lparr>dk_file := Some [2]\<rparr>) = (Inr (Some demo_registered_state), dk)" "dk_fail dk = (\<lambda>_. None)"
    using saved(1) by (simp add: agent_state_load_def fs_call_def demo_disk_def)
  moreover from this(2) obtain dk' where "agent_state_save demo_restart_env demo_registered_state dk = (Inr (), dk')"
    using saved(2) by (simp add: agent_state_save_def fs_call_def)
  ultimately have "agent_up demo_restart_env (custom_network_backend demo_mesh_env) demo_mesh_api ''tfk'' demo_listen (Inr ()) demo_mesh_world = None"
    by (simp add: agent_up_def prog_bind_def prog_result_def on_state_file_def started skipped demo_mesh_world_def demo_mesh_sync)
  moreover have "aw_backend demo_mesh_world = with_state_path ''tfscale0'' demo_disk demo_os" by (simp add: demo_mesh_world_def)
  ultimately show ?thesis using agent_up_never_completes by blast
qed

end
